(* ===== verification/Prelude.thy ===== *)
theory Prelude
  imports Main "HOL-Library.Multiset" "HOL-Library.List_Lexorder" "HOL-Library.Char_ord"
begin

text \<open>
  Shared vocabulary of the development: identifiers, instants, Python errors, JSON values, the
  string functions of Python's standard library that the code calls, and database tables with
  the contract (\<open>row_store\<close>) that every component relies on when it reads a row, changes it
  and commits it.

  Conventions.  A \<open>uuid\<close> is its 128-bit number.  A \<open>datetime\<close> is a number of microseconds since
  the epoch (UTC); only the billing calendar needs years and months and has its own type.
  A \<open>str\<close> is a list of characters, so the code points 0 to 255.  A table is a list of rows in
  the order in which the database returns them; as theorems hold for every list, they hold for
  every such order.
\<close>

section \<open>Collections of rewrite rules\<close>

named_theorems table_simps \<open>reading and writing rows of a table\<close>
named_theorems ops \<open>definitions of the operations of the components\<close>

section \<open>Identifiers, instants, errors\<close>

type_synonym uuid = nat
type_synonym datetime = int

definition seconds :: "int \<Rightarrow> int" where
  "seconds n = n * 1000000"

definition minutes :: "int \<Rightarrow> int" where
  "minutes n = seconds (60 * n)"

definition hours :: "int \<Rightarrow> int" where
  "hours n = minutes (60 * n)"

definition days :: "int \<Rightarrow> int" where
  "days n = hours (24 * n)"

lemmas timedelta_defs = seconds_def minutes_def hours_def days_def

text \<open>An exception the code raises itself is a \<open>ValueError\<close> with a code; \<open>OtherError\<close> is any other
  exception, with the text that \<open>str(exc)\<close> gives.\<close>

datatype py_error = ValueError string | OtherError string

fun error_text :: "py_error \<Rightarrow> string" where
  "error_text (ValueError m) = m"
| "error_text (OtherError m) = m"

type_synonym 'a outcome = "py_error + 'a"

definition returns :: "'e + 'a \<Rightarrow> bool" where
  "returns r \<longleftrightarrow> (case r of Inl _ \<Rightarrow> False | Inr _ \<Rightarrow> True)"

lemma returns_simps [simp]: "returns (Inr x)" "\<not> returns (Inl e)"
  by (simp_all add: returns_def)

text \<open>A comprehension whose elements may raise.\<close>

fun all_outcomes :: "('a \<Rightarrow> 'b outcome) \<Rightarrow> 'a list \<Rightarrow> 'b list outcome" where
  "all_outcomes f [] = Inr []"
| "all_outcomes f (x # xs) = (case f x of Inl e \<Rightarrow> Inl e | Inr y \<Rightarrow> map_sum id (\<lambda>ys. y # ys) (all_outcomes f xs))"

lemma returns_iff: "returns r \<longleftrightarrow> (\<exists>x. r = Inr x)"
  by (cases r) auto

section \<open>Python strings\<close>

definition is_digit :: "char \<Rightarrow> bool" where
  "is_digit c \<longleftrightarrow> 48 \<le> (of_char c :: nat) \<and> (of_char c :: nat) \<le> 57"

text \<open>\<open>str.lower\<close> and \<open>str.upper\<close> on the code points 0 to 255; the three whose capital lies outside
  that range (sharp s, y with diaeresis, micro) are left alone by \<open>py_upper\<close>, which is only used
  on codes that are compared with ASCII capitals.\<close>

definition lower_char :: "char \<Rightarrow> char" where
  "lower_char c = (let n = (of_char c :: nat) in
     if (65 \<le> n \<and> n \<le> 90) \<or> (192 \<le> n \<and> n \<le> 222 \<and> n \<noteq> 215) then char_of (n + 32) else c)"

definition upper_char :: "char \<Rightarrow> char" where
  "upper_char c = (let n = (of_char c :: nat) in
     if (97 \<le> n \<and> n \<le> 122) \<or> (224 \<le> n \<and> n \<le> 254 \<and> n \<noteq> 247) then char_of (n - 32) else c)"

definition py_lower :: "string \<Rightarrow> string" where
  "py_lower = map lower_char"

definition py_upper :: "string \<Rightarrow> string" where
  "py_upper = map upper_char"

definition is_space :: "char \<Rightarrow> bool" where
  "is_space c \<longleftrightarrow> (let n = (of_char c :: nat) in
     (9 \<le> n \<and> n \<le> 13) \<or> (28 \<le> n \<and> n \<le> 32) \<or> n = 133 \<or> n = 160)"

definition py_strip :: "string \<Rightarrow> string" where
  "py_strip s = rev (dropWhile is_space (rev (dropWhile is_space s)))"

fun starts_with :: "string \<Rightarrow> string \<Rightarrow> bool" where
  "starts_with s [] = True"
| "starts_with [] (p # ps) = False"
| "starts_with (c # cs) (p # ps) = (c = p \<and> starts_with cs ps)"

text \<open>\<open>needle in haystack\<close>\<close>

fun contains :: "string \<Rightarrow> string \<Rightarrow> bool" where
  "contains [] n = (n = [])"
| "contains (c # cs) n = (starts_with (c # cs) n \<or> contains cs n)"

fun join :: "string \<Rightarrow> string list \<Rightarrow> string" where
  "join sep [] = []"
| "join sep [x] = x"
| "join sep (x # y # zs) = x @ sep @ join sep (y # zs)"

fun nat_str :: "nat \<Rightarrow> string" where
  "nat_str n = (if n < 10 then [char_of (48 + n)] else nat_str (n div 10) @ [char_of (48 + n mod 10)])"

declare nat_str.simps [simp del]

definition int_str :: "int \<Rightarrow> string" where
  "int_str i = (if i < 0 then CHR ''-'' # nat_str (nat (- i)) else nat_str (nat i))"

lemma starts_with_append: "starts_with s p \<longleftrightarrow> (\<exists>t. s = p @ t)"
  by (induction s p rule: starts_with.induct) auto

lemma contains_iff: "contains h n \<longleftrightarrow> (\<exists>a b. h = a @ n @ b)"
proof (induction h)
  case Nil
  then show ?case by auto
next
  case (Cons c cs)
  have "(\<exists>a b. c # cs = a @ n @ b) \<longleftrightarrow> (\<exists>b. c # cs = n @ b) \<or> (\<exists>a b. cs = a @ n @ b)"
    by (metis append_Cons append_Nil list.exhaust list.inject)
  then show ?case by (simp add: starts_with_append Cons)
qed

section \<open>UUIDs as text\<close>

definition hex_char :: "nat \<Rightarrow> char" where
  "hex_char d = (if d < 10 then char_of (48 + d) else char_of (87 + d))"

definition hex_val :: "char \<Rightarrow> nat option" where
  "hex_val c = (let n = (of_char c :: nat) in
     if 48 \<le> n \<and> n \<le> 57 then Some (n - 48)
     else if 97 \<le> n \<and> n \<le> 102 then Some (n - 87)
     else if 65 \<le> n \<and> n \<le> 70 then Some (n - 55) else None)"

fun hex_digits :: "nat \<Rightarrow> nat \<Rightarrow> string" where
  "hex_digits 0 n = []"
| "hex_digits (Suc k) n = hex_digits k (n div 16) @ [hex_char (n mod 16)]"

fun hex_number :: "nat \<Rightarrow> string \<Rightarrow> nat option" where
  "hex_number acc [] = Some acc"
| "hex_number acc (c # cs) =
     (case hex_val c of None \<Rightarrow> None | Some d \<Rightarrow> hex_number (16 * acc + d) cs)"

text \<open>\<open>str(uuid)\<close>: 32 hexadecimal digits in groups of 8, 4, 4, 4 and 12.\<close>

definition uuid_str :: "uuid \<Rightarrow> string" where
  "uuid_str u = (let h = hex_digits 32 u in
     take 8 h @ ''-'' @ take 4 (drop 8 h) @ ''-'' @ take 4 (drop 12 h) @ ''-'' @
     take 4 (drop 16 h) @ ''-'' @ drop 20 h)"

text \<open>\<open>UUID(text)\<close> on hexadecimal digits and hyphens; \<open>None\<close> is the \<open>ValueError\<close> of a badly formed
  text.  (Python also takes braces, a \<open>urn:uuid:\<close> prefix and what \<open>int(_, 16)\<close> accepts beside digits.
  No text that the code writes has them.)\<close>

definition parse_uuid :: "string \<Rightarrow> uuid option" where
  "parse_uuid s = (let h = filter (\<lambda>c. c \<noteq> CHR ''-'') s in
     if length h = 32 then hex_number 0 h else None)"

lemma hex_val_char: "d < 16 \<Longrightarrow> hex_val (hex_char d) = Some d"
  by (auto simp: hex_val_def hex_char_def Let_def)

lemma hex_char_not_hyphen: "d < 16 \<Longrightarrow> hex_char d \<noteq> CHR ''-''"
  using hex_val_char [of d] by (auto simp: hex_val_def)

lemma length_hex_digits [simp]: "length (hex_digits k n) = k"
  by (induction k n rule: hex_digits.induct) auto

lemma hex_number_append:
  "hex_number acc (xs @ ys) = (case hex_number acc xs of None \<Rightarrow> None | Some a \<Rightarrow> hex_number a ys)"
  by (induction acc xs rule: hex_number.induct) (auto split: option.splits)

lemma hex_number_digits: "hex_number acc (hex_digits k n) = Some (acc * 16 ^ k + n mod 16 ^ k)"
proof (induction k n rule: hex_digits.induct)
  case (1 n)
  then show ?case by simp
next
  case (2 k n)
  have "n mod 16 ^ Suc k = 16 * (n div 16 mod 16 ^ k) + n mod 16"
    by (simp add: mod_mult2_eq)
  with 2 show ?case by (simp add: hex_number_append hex_val_char algebra_simps)
qed

lemma hex_digits_no_hyphen: "CHR ''-'' \<notin> set (hex_digits k n)"
proof (induction k n rule: hex_digits.induct)
  case (2 k n)
  then show ?case using hex_char_not_hyphen [of "n mod 16"] by auto
qed simp

lemma filter_hyphen_hex:
  assumes "set xs \<subseteq> set (hex_digits k n)"
  shows "filter (\<lambda>c. c \<noteq> CHR ''-'') xs = xs"
  using assms hex_digits_no_hyphen by (intro filter_True) auto

lemma parse_uuid_str:
  assumes "u < 2 ^ 128"
  shows "parse_uuid (uuid_str u) = Some u"
proof -
  let ?h = "hex_digits 32 u"
  have sub: "set (take a (drop b ?h)) \<subseteq> set ?h" for a b
    by (meson set_drop_subset set_take_subset subset_trans)
  have keep: "filter (\<lambda>c. c \<noteq> CHR ''-'') (take a (drop b ?h)) = take a (drop b ?h)" for a b
    by (rule filter_hyphen_hex [OF sub])
  have keep0: "filter (\<lambda>c. c \<noteq> CHR ''-'') (take 8 ?h) = take 8 ?h"
    using keep [of 8 0] by simp
  have keep1: "filter (\<lambda>c. c \<noteq> CHR ''-'') (drop 20 ?h) = drop 20 ?h"
    by (rule filter_hyphen_hex [OF set_drop_subset])
  have split: "take 8 ?h @ take 4 (drop 8 ?h) @ take 4 (drop 12 ?h) @ take 4 (drop 16 ?h) @ drop 20 ?h = ?h"
  proof -
    have "take 4 (drop 16 ?h) @ drop 20 ?h = drop 16 ?h"
      using append_take_drop_id [of 4 "drop 16 ?h"] by simp
    moreover have "take 4 (drop 12 ?h) @ drop 16 ?h = drop 12 ?h"
      using append_take_drop_id [of 4 "drop 12 ?h"] by simp
    moreover have "take 4 (drop 8 ?h) @ drop 12 ?h = drop 8 ?h"
      using append_take_drop_id [of 4 "drop 8 ?h"] by simp
    ultimately show ?thesis by (metis append_take_drop_id)
  qed
  have "filter (\<lambda>c. c \<noteq> CHR ''-'') (uuid_str u) = ?h"
    using split by (simp add: uuid_str_def Let_def keep keep0 keep1 del: filter_append filter.simps)
      (simp add: keep keep0 keep1)
  moreover have "hex_number 0 ?h = Some (u mod 16 ^ 32)"
    by (simp add: hex_number_digits)
  moreover have "u mod 16 ^ 32 = u"
    using assms by simp
  ultimately show ?thesis by (simp add: parse_uuid_def Let_def)
qed

section \<open>JSON values\<close>

text \<open>The payloads of events, jobs and messages: a JSON column holds one of these.\<close>

datatype json = JNull | JBool bool | JInt int | JStr string
  | JList "json list" | JObj "(string \<times> json) list"

fun jget :: "json \<Rightarrow> string \<Rightarrow> json option" where
  "jget (JObj kvs) k = map_of kvs k"
| "jget _ k = None"

fun j_truthy :: "json option \<Rightarrow> bool" where
  "j_truthy None = False"
| "j_truthy (Some JNull) = False"
| "j_truthy (Some (JBool b)) = b"
| "j_truthy (Some (JInt i)) = (i \<noteq> 0)"
| "j_truthy (Some (JStr s)) = (s \<noteq> [])"
| "j_truthy (Some (JList xs)) = (xs \<noteq> [])"
| "j_truthy (Some (JObj kvs)) = (kvs \<noteq> [])"

section \<open>Dictionaries\<close>

text \<open>A Python \<open>dict\<close> with text keys, in insertion order: \<open>d[k] = v\<close> and \<open>d.update(e)\<close>.\<close>

fun dict_set :: "string \<Rightarrow> 'v \<Rightarrow> (string \<times> 'v) list \<Rightarrow> (string \<times> 'v) list" where
  "dict_set k v [] = [(k, v)]"
| "dict_set k v ((k', w) # d) = (if k' = k then (k, v) # d else (k', w) # dict_set k v d)"

fun dict_update :: "(string \<times> 'v) list \<Rightarrow> (string \<times> 'v) list \<Rightarrow> (string \<times> 'v) list" where
  "dict_update d [] = d"
| "dict_update d ((k, v) # e) = dict_update (dict_set k v d) e"

lemma map_of_dict_set: "map_of (dict_set k v d) = (map_of d)(k \<mapsto> v)"
  by (induction k v d rule: dict_set.induct) (auto simp: fun_eq_iff)

lemma map_of_dict_update:
  assumes "distinct (map fst e)"
  shows "map_of (dict_update d e) x = (case map_of e x of Some v \<Rightarrow> Some v | None \<Rightarrow> map_of d x)"
  using assms
proof (induction d e rule: dict_update.induct)
  case (2 d k v e)
  then have "map_of e k = None" by (simp add: map_of_eq_None_iff)
  with 2 show ?case by (auto simp: map_of_dict_set split: option.splits)
qed simp

section \<open>Tables\<close>

definition tbl_get :: "('r \<Rightarrow> uuid) \<Rightarrow> 'r list \<Rightarrow> uuid \<Rightarrow> 'r option" where
  "tbl_get key t i = find (\<lambda>r. key r = i) t"

definition tbl_put :: "('r \<Rightarrow> uuid) \<Rightarrow> 'r \<Rightarrow> 'r list \<Rightarrow> 'r list" where
  "tbl_put key r t = map (\<lambda>x. if key x = key r then r else x) t"

text \<open>\<open>UPDATE ... WHERE p SET f\<close>\<close>

definition tbl_update :: "('r \<Rightarrow> bool) \<Rightarrow> ('r \<Rightarrow> 'r) \<Rightarrow> 'r list \<Rightarrow> 'r list" where
  "tbl_update p f t = map (\<lambda>x. if p x then f x else x) t"

definition tbl_count :: "('r \<Rightarrow> bool) \<Rightarrow> 'r list \<Rightarrow> nat" where
  "tbl_count p t = length (filter p t)"

lemma find_map_key:
  assumes "\<And>x. key (f x) = key x"
  shows "find (\<lambda>r. key r = i) (map f t) = map_option f (find (\<lambda>r. key r = i) t)"
  using assms by (induction t) auto

lemma tbl_get_key: "tbl_get key t i = Some r \<Longrightarrow> key r = i"
  by (auto simp: tbl_get_def find_Some_iff)

lemma tbl_get_mem: "tbl_get key t i = Some r \<Longrightarrow> r \<in> set t"
  by (auto simp: tbl_get_def find_Some_iff)

lemma tbl_get_put [table_simps]:
  "tbl_get key (tbl_put key r t) i =
     (if i = key r \<and> tbl_get key t i \<noteq> None then Some r else tbl_get key t i)"
  unfolding tbl_get_def tbl_put_def by (induction t) auto

lemma tbl_get_append [table_simps]:
  "tbl_get key (t @ [r]) i =
     (case tbl_get key t i of Some x \<Rightarrow> Some x | None \<Rightarrow> if key r = i then Some r else None)"
  unfolding tbl_get_def by (induction t) auto

lemma tbl_get_update [table_simps]:
  assumes "\<And>x. key (f x) = key x"
  shows "tbl_get key (tbl_update p f t) i =
     map_option (\<lambda>x. if p x then f x else x) (tbl_get key t i)"
  unfolding tbl_get_def tbl_update_def using assms by (intro find_map_key) simp

lemma find_mem: "find P xs = Some x \<Longrightarrow> x \<in> set xs \<and> P x"
  by (auto simp: find_Some_iff)

lemma map_sum_Inr: "map_sum f g v = Inr y \<longleftrightarrow> (\<exists>z. v = Inr z \<and> g z = y)"
  by (cases v) auto

lemma row_by_id: "distinct (map f xs) \<Longrightarrow> x \<in> set xs \<Longrightarrow> y \<in> set xs \<Longrightarrow> f x = f y \<Longrightarrow> x = y"
  by (auto simp: distinct_map dest: inj_onD)

lemma set_put: "distinct (map f xs) \<Longrightarrow> x \<in> set xs \<Longrightarrow> f y = f x \<Longrightarrow> set (tbl_put f y xs) = insert y (set xs - {x})"
  by (auto simp: tbl_put_def image_iff dest: row_by_id)

lemma tbl_get_None_iff: "tbl_get key t i = None \<longleftrightarrow> i \<notin> key ` set t"
  by (auto simp: tbl_get_def find_None_iff)

lemma tbl_get_distinct:
  assumes "distinct (map key t)" "r \<in> set t"
  shows "tbl_get key t (key r) = Some r"
  using assms unfolding tbl_get_def by (induction t) auto

lemma map_key_put [table_simps]: "map key (tbl_put key r t) = map key t"
  by (simp add: tbl_put_def)

lemma length_tbl_put [simp]: "length (tbl_put key r t) = length t"
  by (simp add: tbl_put_def)

lemma length_tbl_update [simp]: "length (tbl_update p f t) = length t"
  by (simp add: tbl_update_def)

lemma set_tbl_put_subset: "set (tbl_put key r t) \<subseteq> insert r (set t)"
  by (auto simp: tbl_put_def)

text \<open>
  What every operation assumes of the session: reading back a written row gives that row, and
  writing a row leaves the other rows of the table alone.
\<close>

locale row_store =
  fixes get :: "'s \<Rightarrow> uuid \<Rightarrow> 'r option"
    and put :: "'r \<Rightarrow> 's \<Rightarrow> 's"
    and key :: "'r \<Rightarrow> uuid"
  assumes get_key: "get s i = Some r \<Longrightarrow> key r = i"
    and get_put: "get (put r s) i = (if i = key r \<and> get s i \<noteq> None then Some r else get s i)"
begin

lemma read_modify_write:
  assumes "get s i = Some r" and "key r' = i"
  shows "get (put r' s) i = Some r'"
  using assms by (simp add: get_put)

lemma put_frame:
  assumes "i \<noteq> key r"
  shows "get (put r s) i = get s i"
  using assms by (simp add: get_put)

lemma put_exists_iff: "get (put r s) i = None \<longleftrightarrow> get s i = None"
  by (auto simp: get_put)

lemma put_put_last: "get (put r' (put r s)) i = get (put r' s) i" if "key r' = key r"
  using that by (auto simp: get_put)

end

end
