(* ===== verification/Calendar.thy ===== *)
theory Calendar
  imports Prelude
begin

text \<open>
  The part of Python's \<open>datetime\<close> that billing uses, and the calendar helpers of
  \<open>services/billing_period.py\<close>.  A civil date and time (\<open>dt\<close>, in UTC) has a year, a month, a day and
  the microseconds since midnight; it is ordered as \<open>datetime\<close> is, first by year.  Years are not
  bounded by 9999 here.
\<close>

section \<open>Civil dates and times\<close>

datatype dt = DT (dt_year: int) (dt_month: int) (dt_day: int) (dt_micros: int)

instantiation dt :: linorder
begin

definition less_eq_dt :: "dt \<Rightarrow> dt \<Rightarrow> bool" where
  "less_eq_dt a b \<longleftrightarrow> dt_year a < dt_year b \<or> (dt_year a = dt_year b \<and>
     (dt_month a < dt_month b \<or> (dt_month a = dt_month b \<and>
       (dt_day a < dt_day b \<or> (dt_day a = dt_day b \<and> dt_micros a \<le> dt_micros b)))))"

definition less_dt :: "dt \<Rightarrow> dt \<Rightarrow> bool" where
  "less_dt a b \<longleftrightarrow> dt_year a < dt_year b \<or> (dt_year a = dt_year b \<and>
     (dt_month a < dt_month b \<or> (dt_month a = dt_month b \<and>
       (dt_day a < dt_day b \<or> (dt_day a = dt_day b \<and> dt_micros a < dt_micros b)))))"

instance
  by standard (auto simp: less_eq_dt_def less_dt_def intro: dt.expand)

end

text \<open>\<open>date.toordinal\<close>: the number of the day, 1 for the first of January of the year 1.\<close>

definition is_leap :: "int \<Rightarrow> bool" where
  "is_leap y \<longleftrightarrow> y mod 4 = 0 \<and> (y mod 100 \<noteq> 0 \<or> y mod 400 = 0)"

definition days_before_year :: "int \<Rightarrow> int" where
  "days_before_year y = (y - 1) * 365 + (y - 1) div 4 - (y - 1) div 100 + (y - 1) div 400"

definition month_offset :: "int \<Rightarrow> int" where
  "month_offset m = (if m = 1 then 0 else if m = 2 then 31 else if m = 3 then 59 else if m = 4 then 90
     else if m = 5 then 120 else if m = 6 then 151 else if m = 7 then 181 else if m = 8 then 212
     else if m = 9 then 243 else if m = 10 then 273 else if m = 11 then 304 else 334)"

definition to_ordinal :: "int \<Rightarrow> int \<Rightarrow> int \<Rightarrow> int" where
  "to_ordinal y m d = days_before_year y + month_offset m + (if 2 < m \<and> is_leap y then 1 else 0) + d"

text \<open>The instant of a civil date and time, in microseconds since the epoch.\<close>

definition instant_of :: "dt \<Rightarrow> datetime" where
  "instant_of t = days (to_ordinal (dt_year t) (dt_month t) (dt_day t) - 719163) + dt_micros t"

section \<open>Month arithmetic\<close>

definition days_in_month :: "int \<Rightarrow> int \<Rightarrow> int" where
  "days_in_month y m =
     (let next_month = (if m = 12 then to_ordinal (y + 1) 1 1 else to_ordinal y (m + 1) 1)
      in next_month - to_ordinal y m 1)"

definition add_months :: "dt \<Rightarrow> int \<Rightarrow> dt" where
  "add_months t months =
     (let month_index = dt_month t - 1 + months;
          year = dt_year t + month_index div 12;
          month = month_index mod 12 + 1;
          day = min (dt_day t) (days_in_month year month)
      in DT year month day (dt_micros t))"

definition valid_dt :: "dt \<Rightarrow> bool" where
  "valid_dt t \<longleftrightarrow> 1 \<le> dt_month t \<and> dt_month t \<le> 12 \<and> 1 \<le> dt_day t \<and>
     dt_day t \<le> days_in_month (dt_year t) (dt_month t) \<and> 0 \<le> dt_micros t \<and> dt_micros t < days 1"

text \<open>Months counted from year 0: the measure of the billing loop.\<close>

definition month_number :: "dt \<Rightarrow> int" where
  "month_number t = 12 * dt_year t + dt_month t"

lemma div_pred:
  fixes y k :: int
  assumes "0 < k"
  shows "y div k = (y - 1) div k + (if y mod k = 0 then 1 else 0)"
proof (cases "y mod k = 0")
  case True
  then have "y - 1 = k * (y div k - 1) + (k - 1)"
    using mult_div_mod_eq [of k y] by (simp add: algebra_simps)
  then have "(y - 1) div k = y div k - 1"
    by (rule int_div_pos_eq) (use assms in auto)
  with True show ?thesis by simp
next
  case False
  then have "0 \<le> y mod k - 1"
    using assms pos_mod_sign [of k y] by linarith
  moreover have "y - 1 = k * (y div k) + (y mod k - 1)"
    using mult_div_mod_eq [of k y] by simp
  moreover have "y mod k - 1 < k"
    using assms pos_mod_bound [of k y] by linarith
  ultimately have "(y - 1) div k = y div k"
    by (intro int_div_pos_eq) auto
  with False show ?thesis by simp
qed

lemma leap_day_count:
  fixes y :: int
  assumes "q4 = p4 + (if A then 1 else 0)" "q100 = p100 + (if B then 1 else 0)"
    "q400 = p400 + (if C then 1 else 0)" and "C \<Longrightarrow> B" "B \<Longrightarrow> A"
  shows "y * 365 + q4 - q100 + q400 =
    (y - 1) * 365 + p4 - p100 + p400 + (if A \<and> (\<not> B \<or> C) then 366 else 365)"
  using assms by auto

lemma days_before_next_year: "days_before_year (y + 1) = days_before_year y + (if is_leap y then 366 else 365)"
  unfolding days_before_year_def is_leap_def add_diff_cancel_right'
proof (rule leap_day_count)
  show "y div 4 = (y - 1) div 4 + (if y mod 4 = 0 then 1 else 0)"
    "y div 100 = (y - 1) div 100 + (if y mod 100 = 0 then 1 else 0)"
    "y div 400 = (y - 1) div 400 + (if y mod 400 = 0 then 1 else 0)"
    by (rule div_pred, simp)+
  show "y mod 400 = 0 \<Longrightarrow> y mod 100 = 0" "y mod 100 = 0 \<Longrightarrow> y mod 4 = 0"
    unfolding mod_eq_0_iff_dvd
    using dvd_trans [of 100 400 y] dvd_trans [of 4 100 y] by simp_all
qed

lemma month_cases:
  fixes m :: int
  assumes "1 \<le> m" and "m \<le> 12"
  shows "m = 1 \<or> m = 2 \<or> m = 3 \<or> m = 4 \<or> m = 5 \<or> m = 6 \<or> m = 7 \<or> m = 8 \<or> m = 9 \<or> m = 10 \<or> m = 11 \<or> m = 12"
  using assms by presburger

lemma days_in_month_table:
  assumes "1 \<le> m" and "m \<le> 12"
  shows "days_in_month y m =
    (if m = 2 then if is_leap y then 29 else 28 else if m \<in> {4, 6, 9, 11} then 30 else 31)"
  using month_cases [OF assms]
  by (elim disjE) (simp_all add: days_in_month_def to_ordinal_def month_offset_def days_before_next_year)

lemma days_in_month_bounds:
  assumes "1 \<le> m" and "m \<le> 12"
  shows "28 \<le> days_in_month y m" and "days_in_month y m \<le> 31"
  using assms by (simp_all add: days_in_month_table)

lemma add_months_sel [simp]:
  "dt_micros (add_months t n) = dt_micros t"
  "dt_month (add_months t n) = (dt_month t - 1 + n) mod 12 + 1"
  "dt_year (add_months t n) = dt_year t + (dt_month t - 1 + n) div 12"
  by (simp_all add: add_months_def Let_def)

lemma add_months_day:
  "dt_day (add_months t n) =
     min (dt_day t) (days_in_month (dt_year (add_months t n)) (dt_month (add_months t n)))"
  by (simp add: add_months_def Let_def)

lemma month_number_add [simp]: "month_number (add_months t n) = month_number t + n"
  using div_mult_mod_eq [of "dt_month t - 1 + n" 12]
  by (simp add: month_number_def)

lemma month_in_year: "1 \<le> (x::int) mod 12 + 1" "(x::int) mod 12 + 1 \<le> 12"
  by (simp_all add: add.commute)

lemma add_months_valid:
  assumes "valid_dt t"
  shows "valid_dt (add_months t n)"
proof -
  let ?u = "add_months t n"
  have m: "1 \<le> dt_month ?u" "dt_month ?u \<le> 12"
    using month_in_year [of "dt_month t - 1 + n"] by simp_all
  have "28 \<le> days_in_month (dt_year ?u) (dt_month ?u)"
    by (rule days_in_month_bounds(1) [OF m])
  with assms m show ?thesis
    by (auto simp: valid_dt_def add_months_day simp del: add_months_sel(2,3))
qed

lemma less_dt_month_number:
  assumes "1 \<le> dt_month a" "dt_month a \<le> 12" "1 \<le> dt_month b" "dt_month b \<le> 12"
    and "month_number a < month_number b"
  shows "a < b"
  using assms by (auto simp: less_dt_def month_number_def)

lemma add_months_later:
  assumes "valid_dt t" and "0 < n"
  shows "t < add_months t n"
proof (rule less_dt_month_number)
  show "1 \<le> dt_month (add_months t n)" "dt_month (add_months t n) \<le> 12"
    using add_months_valid [OF assms(1), of n] by (simp_all add: valid_dt_def)
qed (use assms in \<open>simp_all add: valid_dt_def\<close>)

lemma to_ordinal_day_bounds:
  assumes "1 \<le> m" "m \<le> 12" "1 \<le> d" "d \<le> days_in_month y m"
  shows "days_before_year y < to_ordinal y m d" "to_ordinal y m d \<le> days_before_year (y + 1)"
  using assms(3,4) month_cases [OF assms(1,2)] unfolding days_before_next_year
  by (auto simp: to_ordinal_def month_offset_def days_in_month_table)

lemma days_before_year_mono:
  assumes "y < z"
  shows "days_before_year (y + 1) \<le> days_before_year z"
proof -
  have "days_before_year (y + 1) \<le> days_before_year (y + 1 + int k)" for k
  proof (induction k)
    case (Suc k)
    have "days_before_year (y + 1 + int k) \<le> days_before_year ((y + 1 + int k) + 1)"
      unfolding days_before_next_year by simp
    moreover have "y + 1 + int (Suc k) = (y + 1 + int k) + 1" by simp
    ultimately show ?case using Suc by (metis order_trans)
  qed simp
  from this [of "nat (z - (y + 1))"] show ?thesis using assms by simp
qed

lemma to_ordinal_first_mono:
  assumes "1 \<le> m" "m + int k \<le> 12"
  shows "to_ordinal y m 1 \<le> to_ordinal y (m + int k) 1"
  using assms(2)
proof (induction k)
  case (Suc k)
  have "28 \<le> days_in_month y (m + int k)"
    using assms(1) Suc.prems by (intro days_in_month_bounds(1)) auto
  moreover have "days_in_month y (m + int k) = to_ordinal y (m + int k + 1) 1 - to_ordinal y (m + int k) 1"
    using Suc.prems by (simp add: days_in_month_def)
  moreover have "m + int (Suc k) = m + int k + 1" by simp
  moreover have "to_ordinal y m 1 \<le> to_ordinal y (m + int k) 1" using Suc by simp
  ultimately show ?case by (metis diff_ge_0_iff_ge order_trans zero_le_numeral)
qed simp

lemma to_ordinal_month_mono:
  assumes "1 \<le> m" "m < m'" "m' \<le> 12" "d \<le> days_in_month y m" "1 \<le> d'"
  shows "to_ordinal y m d < to_ordinal y m' d'"
proof -
  have "to_ordinal y m d < to_ordinal y (m + 1) 1"
    using assms(2-4) by (simp add: days_in_month_def to_ordinal_def)
  also have "\<dots> \<le> to_ordinal y m' 1"
    using to_ordinal_first_mono [of "m + 1" "nat (m' - (m + 1))" y] assms(1-3) by simp
  also have "\<dots> \<le> to_ordinal y m' d'"
    using assms(5) by (simp add: to_ordinal_def)
  finally show ?thesis .
qed

lemma to_ordinal_mono:
  assumes "valid_dt a" "valid_dt b"
    and "dt_year a < dt_year b \<or> dt_year a = dt_year b \<and> (dt_month a < dt_month b \<or>
      dt_month a = dt_month b \<and> dt_day a < dt_day b)"
  shows "to_ordinal (dt_year a) (dt_month a) (dt_day a) < to_ordinal (dt_year b) (dt_month b) (dt_day b)"
  using assms(3)
proof (elim disjE conjE)
  assume "dt_year a < dt_year b"
  with assms(1,2) show ?thesis
    using to_ordinal_day_bounds(2) [of "dt_month a" "dt_day a" "dt_year a"]
      to_ordinal_day_bounds(1) [of "dt_month b" "dt_day b" "dt_year b"]
      days_before_year_mono [of "dt_year a" "dt_year b"]
    by (simp add: valid_dt_def)
next
  assume "dt_year a = dt_year b" "dt_month a < dt_month b"
  with assms(1,2) show ?thesis
    unfolding valid_dt_def by (metis to_ordinal_month_mono)
next
  assume "dt_year a = dt_year b" "dt_month a = dt_month b" "dt_day a < dt_day b"
  then show ?thesis by (simp add: to_ordinal_def)
qed

text \<open>Comparing two civil times is comparing the instants they denote.\<close>

lemma instant_of_strict_mono:
  assumes "valid_dt a" "valid_dt b" "a < b"
  shows "instant_of a < instant_of b"
proof -
  let ?o = "\<lambda>t. to_ordinal (dt_year t) (dt_month t) (dt_day t)"
  have r: "0 \<le> dt_micros a" "dt_micros a < days 1" "0 \<le> dt_micros b"
    using assms(1,2) by (simp_all add: valid_dt_def)
  consider "?o a < ?o b" | "?o a = ?o b" "dt_micros a < dt_micros b"
    using to_ordinal_mono [OF assms(1,2)] assms(3) unfolding less_dt_def by fastforce
  then show ?thesis
    using r by cases (simp_all add: instant_of_def timedelta_defs)
qed

lemma instant_of_less_iff:
  assumes "valid_dt a" "valid_dt b"
  shows "instant_of a < instant_of b \<longleftrightarrow> a < b"
  using assms instant_of_strict_mono by (metis linorder_less_linear order_less_asym)

end
