(* ===== verification/Models.thy ===== *)
theory Models
  imports Calendar
begin

text \<open>
  The data model: one record per table of \<open>app/models/\<close> with its columns, one datatype per
  \<open>StrEnum\<close>, and the database \<open>db\<close> as a record of tables.  A field is named by a short form of the
  table and the column.  Nullable columns are options.  A record has the columns that the modelled code
  reads or writes; left out everywhere: \<open>updated_at\<close>, the relationship attributes, and column lengths.  A JSON column is a \<open>json\<close> value.  \<open>created_at\<close> is kept
  where a query reads it.  Money is an integer number of thousandths (\<open>Numeric(12, 3)\<close>).
\<close>

section \<open>Accounts, organizations, memberships, channels\<close>

datatype account_status = AccTrial | AccActive | AccPastDue | AccRestricted | AccSuspended | AccCancelled
  | AccScheduledForDeletion | AccClosed

record account =
  acc_id :: uuid
  acc_name :: string
  acc_status :: account_status
  acc_feature_flags :: "(string \<times> bool) list"

datatype user_status = UserInvited | UserActive | UserSuspended

record user =
  usr_id :: uuid
  usr_email :: string
  usr_full_name :: string
  usr_password_hash :: string
  usr_preferred_language :: string
  usr_is_super_admin :: bool
  usr_failed_login_attempts :: int
  usr_locked_until :: "datetime option"
  usr_password_changed_at :: "datetime option"
  usr_status :: user_status

record refresh_session =
  ses_id :: uuid
  ses_user_id :: uuid
  ses_account_id :: uuid
  ses_token_hash :: string
  ses_expires_at :: datetime
  ses_revoked_at :: "datetime option"
  ses_family_id :: uuid
  ses_replaced_by_session_id :: "uuid option"
  ses_reuse_detected_at :: "datetime option"

datatype membership_role = OWNER | ADMIN | BRANCH_ADMIN | MANAGER | AGENT | VIEWER
datatype membership_status = MembershipActive | MembershipSuspended

record membership =
  mem_id :: uuid
  mem_account_id :: uuid
  mem_user_id :: uuid
  mem_role :: membership_role
  mem_status :: membership_status
  mem_custom_permissions :: "string list option"
  mem_created_at :: datetime

record organization_membership =
  om_organization_id :: uuid
  om_membership_id :: uuid

record membership_channel_access =
  mca_membership_id :: uuid
  mca_channel_id :: uuid

datatype invitation_status = InvPending | InvAccepted | InvRevoked | InvExpired

record invitation =
  inv_id :: uuid
  inv_account_id :: uuid
  inv_email :: string
  inv_role :: membership_role
  inv_invited_by_user_id :: uuid
  inv_expires_at :: datetime
  inv_status :: invitation_status
  inv_accepted_at :: "datetime option"

record invitation_organization =
  io_invitation_id :: uuid
  io_organization_id :: uuid

record invitation_channel_access =
  ica_invitation_id :: uuid
  ica_channel_id :: uuid

datatype organization_status = OrgActive | OrgSuspended

record organization =
  org_id :: uuid
  org_account_id :: uuid
  org_name :: string
  org_slug :: string
  org_country_code :: string
  org_currency_code :: string
  org_timezone :: string
  org_default_language :: string
  org_status :: organization_status
  org_max_users :: int
  org_max_channels :: int
  org_created_at :: datetime

datatype channel_type = WHATSAPP | TELEGRAM | INSTAGRAM | MESSENGER | EMAIL
datatype channel_status = ChannelPending | ChannelActive | ChannelDisconnected | ChannelSuspended
datatype billing_cycle = MONTHLY | YEARLY | TRIAL

record channel =
  ch_id :: uuid
  ch_account_id :: uuid
  ch_organization_id :: uuid
  ch_type :: channel_type
  ch_name :: string
  ch_external_id :: "string option"
  ch_status :: channel_status
  ch_over_mac_price_per_100 :: "int option"
  ch_billing_starts_at :: "dt option"
  ch_billing_ends_at :: "dt option"
  ch_billing_cycle :: string
  ch_included_mac :: "int option"
  ch_deleted_at :: "datetime option"

datatype wa_account_status = WaPending | WaActive | WaDisconnected | WaSuspended

datatype wa_connection_method = ManualConnection | EmbeddedConnection

record whatsapp_account =
  wa_id :: uuid
  wa_account_id :: uuid
  wa_organization_id :: uuid
  wa_channel_id :: uuid
  wa_waba_id :: string
  wa_phone_number_id :: string
  wa_display_phone_number :: string
  wa_verified_name :: "string option"
  wa_access_token_encrypted :: string
  wa_status :: wa_account_status
  wa_connection_method :: wa_connection_method
  wa_quality_rating :: "string option"
  wa_messaging_limit_tier :: "string option"
  wa_messaging_limit :: "int option"
  wa_health_synced_at :: "datetime option"
  wa_meta_phone_status :: "string option"
  wa_meta_name_status :: "string option"
  wa_meta_can_send_message :: "string option"
  wa_meta_account_review_status :: "string option"
  wa_meta_catalog_id :: "string option"
  wa_commerce_enabled :: bool

section \<open>Contacts, conversations, messages, templates\<close>

datatype reachability_status = REACHABLE | RISKY | UNREACHABLE

record contact =
  con_id :: uuid
  con_account_id :: uuid
  con_organization_id :: uuid
  con_channel_id :: uuid
  con_external_address :: string
  con_display_name :: "string option"
  con_email :: "string option"
  con_language :: "string option"
  con_gender :: string
  con_country_code :: "string option"
  con_marketing_opt_in :: bool
  con_reachability_status :: "reachability_status option"
  con_reachability_reason :: "string option"
  con_delivery_failure_count :: int
  con_last_delivery_failure_at :: "datetime option"
  con_last_inbound_at :: "datetime option"
  con_lifecycle_stage :: string
  con_deleted_at :: "datetime option"

datatype conversation_status = ConvOpen | ConvPending | ConvClosed | ConvSpam
datatype conversation_priority = PrioLow | PrioNormal | PrioHigh | PrioUrgent

record conversation =
  conv_id :: uuid
  conv_account_id :: uuid
  conv_organization_id :: uuid
  conv_channel_id :: uuid
  conv_contact_id :: uuid
  conv_assigned_membership_id :: "uuid option"
  conv_status :: conversation_status
  conv_priority :: conversation_priority
  conv_last_message_at :: "datetime option"
  conv_first_response_at :: "datetime option"
  conv_closed_at :: "datetime option"
  conv_is_starred :: bool
  conv_snoozed_until :: "datetime option"
  conv_archived_at :: "datetime option"
  conv_sla_deadline_at :: "datetime option"
  conv_sla_breached_at :: "datetime option"
  conv_deleted_at :: "datetime option"

datatype message_direction = INBOUND | OUTBOUND
datatype message_status = MsgReceived | MsgQueued | MsgSent | MsgDelivered | MsgRead | MsgFailed
datatype message_type = MtText | MtImage | MtVideo | MtAudio | MtDocument | MtLocation | MtTemplate
  | MtInteractive | MtOrder | MtUnknown

record message =
  msg_id :: uuid
  msg_account_id :: uuid
  msg_organization_id :: uuid
  msg_channel_id :: uuid
  msg_contact_id :: "uuid option"
  msg_conversation_id :: "uuid option"
  msg_external_message_id :: "string option"
  msg_direction :: message_direction
  msg_type :: message_type
  msg_from_address :: string
  msg_to_address :: string
  msg_text_body :: "string option"
  msg_provider_payload :: "json option"
  msg_status :: message_status
  msg_created_at :: datetime

datatype template_status = TplDraft | TplPending | TplApproved | TplRejected | TplPaused | TplDisabled
datatype template_category = MARKETING | UTILITY | AUTHENTICATION

record whatsapp_template =
  tpl_id :: uuid
  tpl_account_id :: uuid
  tpl_organization_id :: uuid
  tpl_whatsapp_account_id :: uuid
  tpl_meta_template_id :: "string option"
  tpl_name :: string
  tpl_language :: string
  tpl_category :: template_category
  tpl_status :: template_status
  tpl_body_text :: "string option"
  tpl_components :: "json list option"
  tpl_meta_status_detail :: "string option"

section \<open>Campaigns\<close>

datatype campaign_status = DRAFT | SCHEDULED | RUNNING | COMPLETED | COMPLETED_WITH_ERRORS | PAUSED
  | CANCELLED | FAILED

record campaign =
  cmp_id :: uuid
  cmp_account_id :: uuid
  cmp_organization_id :: uuid
  cmp_whatsapp_account_id :: uuid
  cmp_template_id :: uuid
  cmp_created_by_user_id :: uuid
  cmp_name :: string
  cmp_status :: campaign_status
  cmp_scheduled_at :: "datetime option"
  cmp_started_at :: "datetime option"
  cmp_completed_at :: "datetime option"
  cmp_approved_by_user_id :: "uuid option"
  cmp_approved_at :: "datetime option"
  cmp_paused_at :: "datetime option"
  cmp_cancelled_reason :: "string option"
  cmp_max_recipients :: int
  cmp_requires_approval :: bool
  cmp_execution_token :: "uuid option"
  cmp_active_task_id :: "string option"
  cmp_last_heartbeat_at :: "datetime option"
  cmp_parent_campaign_id :: "uuid option"
  cmp_follow_up_type :: "string option"
  cmp_include_opt_out_option :: bool
  cmp_archived_at :: "datetime option"
  cmp_created_at :: datetime

datatype recipient_status = RPending | RQueued | RSending | RSent | RDelivered | RRead | RFailed | RSkipped

record campaign_recipient =
  rcp_id :: uuid
  rcp_campaign_id :: uuid
  rcp_contact_id :: uuid
  rcp_status :: recipient_status
  rcp_template_parameters :: "json list option"
  rcp_external_message_id :: "string option"
  rcp_error_message :: "string option"
  rcp_delivery_key :: "string option"
  rcp_sending_started_at :: "datetime option"
  rcp_last_attempt_at :: "datetime option"

section \<open>Reliability: outbox, jobs, idempotency, registry\<close>

datatype outbox_status = ObPending | ObProcessing | ObPublished | ObFailed | ObDead

record outbox_event =
  ob_id :: uuid
  ob_account_id :: uuid
  ob_event_type :: string
  ob_aggregate_type :: string
  ob_aggregate_id :: string
  ob_payload :: json
  ob_status :: outbox_status
  ob_attempts :: int
  ob_available_at :: datetime
  ob_locked_at :: "datetime option"
  ob_lock_owner :: "string option"
  ob_max_attempts :: int
  ob_processed_at :: "datetime option"
  ob_last_error :: "string option"
  ob_created_at :: datetime

datatype job_status = JobPending | JobClaimed | JobCompleted | JobFailed | JobCancelled

record scheduled_job =
  job_id :: uuid
  job_account_id :: uuid
  job_type :: string
  job_payload :: json
  job_run_at :: datetime
  job_status :: job_status
  job_attempts :: int
  job_max_attempts :: int
  job_locked_at :: "datetime option"
  job_completed_at :: "datetime option"
  job_error_message :: "string option"

datatype idempotency_status = IdemProcessing | IdemCompleted | IdemFailed

record idempotency_record =
  idem_id :: uuid
  idem_account_id :: uuid
  idem_command_name :: string
  idem_key :: string
  idem_request_fingerprint :: string
  idem_status :: idempotency_status
  idem_response_payload :: "json option"
  idem_error_message :: "string option"
  idem_expires_at :: datetime

record resource_record =
  res_id :: uuid
  res_account_id :: uuid
  res_resource_type :: string
  res_resource_id :: string
  res_owner_user_id :: "uuid option"
  res_version :: int
  res_details :: "(string \<times> json) list"

record integration_secret =
  sec_id :: uuid
  sec_account_id :: uuid
  sec_name :: string
  sec_encrypted_value :: string
  sec_version :: int

section \<open>Billing\<close>

datatype subscription_status = SubTrial | SubActive | SubPastDue | SubCancelled | SubExpired

record subscription =
  sub_id :: uuid
  sub_account_id :: uuid
  sub_plan_id :: uuid
  sub_status :: subscription_status
  sub_billing_cycle :: string
  sub_starts_at :: dt
  sub_ends_at :: dt
  sub_included_mac_override :: "int option"
  sub_over_mac_price_per_100_override :: "int option"

record plan =
  pl_id :: uuid
  pl_code :: string
  pl_name :: string
  pl_monthly_price :: int
  pl_yearly_price :: int
  pl_max_users :: int
  pl_max_organizations :: int
  pl_max_channels :: int
  pl_included_mac :: int
  pl_over_mac_price_per_100 :: int
  pl_mac_limit_policy :: string
  pl_overage_enabled :: bool
  pl_trial_days :: int
  pl_allow_multi_organization :: bool
  pl_active :: bool

datatype mac_trigger_source = TrigInbound | TrigInboxOutbound | TrigAiOutbound

record monthly_active_contact =
  mac_id :: uuid
  mac_account_id :: uuid
  mac_organization_id :: "uuid option"
  mac_channel_id :: uuid
  mac_contact_id :: uuid
  mac_cycle_month :: "int \<times> int"
  mac_billing_period_start :: dt
  mac_billing_period_end :: dt
  mac_trigger_source :: mac_trigger_source
  mac_first_activity_at :: dt
  mac_last_active_at :: dt
  mac_source_event_id :: "string option"

datatype mac_activity_type = ActMessageInbound | ActMessageOutbound | ActCall | ActBroadcast

record mac_activation_audit =
  aud_id :: uuid
  aud_account_id :: uuid
  aud_organization_id :: "uuid option"
  aud_contact_id :: uuid
  aud_channel_id :: uuid
  aud_mac_record_id :: "uuid option"
  aud_billing_period_start :: dt
  aud_billing_period_end :: dt
  aud_activity_type :: mac_activity_type
  aud_activation_source :: mac_trigger_source
  aud_source_event_id :: "string option"
  aud_message_id :: "uuid option"
  aud_created_new_mac :: bool
  aud_created_at :: dt

section \<open>Automations\<close>

text \<open>\<open>models/automation.py\<close>, \<open>automation_run.py\<close> and \<open>automation_run_step.py\<close>.  The \<open>graph\<close> column holds what
  \<open>AutomationGraph\<close> of \<open>schemas/automation.py\<close> dumps; positions, edge ids and target handles are left out.\<close>

datatype automation_status = AutDraft | AutActive | AutPaused | AutArchived

datatype automation_trigger = MessageReceived | ConversationCreated | ConversationAssigned | TagAdded
  | ButtonClicked | WebhookTrigger | ManualTrigger

record automation_node =
  nd_id :: string
  nd_type :: string
  nd_data :: json

record automation_edge =
  ed_source :: string
  ed_target :: string
  ed_source_handle :: "string option"
  ed_label :: "string option"

record automation_graph =
  gr_nodes :: "automation_node list"
  gr_edges :: "automation_edge list"

record automation =
  aut_id :: uuid
  aut_account_id :: uuid
  aut_organization_id :: uuid
  aut_created_by_user_id :: uuid
  aut_name :: string
  aut_description :: "string option"
  aut_status :: automation_status
  aut_trigger_type :: automation_trigger
  aut_trigger_config :: json
  aut_graph :: automation_graph
  aut_version :: int
  aut_updated_at :: datetime

datatype automation_run_status = ArQueued | ArRunning | ArWaiting | ArSucceeded | ArFailed | ArStopped

record automation_run =
  ar_id :: uuid
  ar_automation_id :: uuid
  ar_account_id :: uuid
  ar_status :: automation_run_status
  ar_trigger_payload :: json
  ar_context :: "(string \<times> json) list"
  ar_current_node_id :: "string option"
  ar_error_message :: "string option"
  ar_started_at :: "datetime option"
  ar_finished_at :: "datetime option"
  ar_step_count :: int
  ar_max_steps :: int
  ar_deadline_at :: "datetime option"
  ar_cancellation_requested_at :: "datetime option"
  ar_created_at :: datetime

datatype automation_step_status = StepPending | StepRunning | StepSucceeded | StepFailed | StepSkipped

record automation_run_step =
  ars_id :: uuid
  ars_run_id :: uuid
  ars_node_id :: string
  ars_node_type :: string
  ars_status :: automation_step_status
  ars_input_data :: "(string \<times> json) list"
  ars_output_data :: "json option"
  ars_started_at :: "datetime option"
  ars_finished_at :: "datetime option"

section \<open>Tags, deals, teams and assignment rules\<close>

record tag =
  tag_id :: uuid
  tag_account_id :: uuid
  tag_organization_id :: uuid
  tag_name :: string
  tag_color :: "string option"

record conversation_tag =
  ct_conversation_id :: uuid
  ct_tag_id :: uuid

record team =
  team_id :: uuid
  team_account_id :: uuid
  team_organization_id :: uuid
  team_name :: string
  team_description :: "string option"

record team_member =
  tm_team_id :: uuid
  tm_membership_id :: uuid

datatype assignment_strategy = ROUND_ROBIN | LEAST_OPEN

record assignment_rule =
  rule_id :: uuid
  rule_account_id :: uuid
  rule_organization_id :: uuid
  rule_team_id :: uuid
  rule_channel_id :: "uuid option"
  rule_name :: string
  rule_strategy :: assignment_strategy
  rule_priority :: int
  rule_is_active :: bool
  rule_last_assigned_membership_id :: "uuid option"
  rule_created_at :: datetime

datatype webhook_status = WhReceived | WhProcessed | WhFailed | WhIgnored

record webhook_event =
  we_id :: uuid
  we_provider :: string
  we_external_event_key :: "string option"
  we_account_id :: "uuid option"
  we_channel_id :: "uuid option"
  we_event_type :: string
  we_payload :: json
  we_status :: webhook_status
  we_error_message :: "string option"
  we_processed_at :: "datetime option"

record notification =
  nt_id :: uuid
  nt_account_id :: uuid
  nt_user_id :: "uuid option"
  nt_type :: string
  nt_data :: json

record conversation_event =
  ce_conversation_id :: uuid
  ce_actor_user_id :: uuid
  ce_event_type :: string
  ce_data :: json

record conversation_read_state =
  crs_conversation_id :: uuid
  crs_membership_id :: uuid
  crs_last_read_at :: "datetime option"
  crs_unread_count :: int

record conversation_note =
  cn_id :: uuid
  cn_conversation_id :: uuid
  cn_user_id :: uuid
  cn_body :: string
  cn_is_internal :: bool

record contact_tag =
  kt_contact_id :: uuid
  kt_tag_id :: uuid

record interest_category =
  ic_id :: uuid
  ic_account_id :: uuid

record contact_interest =
  ki_contact_id :: uuid
  ki_interest_id :: uuid

record segment =
  seg_id :: uuid
  seg_account_id :: uuid
  seg_name :: string
  seg_filter_json :: "(string \<times> json) list"

text \<open>\<open>deal_amount\<close> is in hundredths: the column is \<open>Numeric(14, 2)\<close>.\<close>

record deal =
  deal_id :: uuid
  deal_account_id :: uuid
  deal_contact_id :: "uuid option"
  deal_organization_id :: "uuid option"
  deal_assigned_membership_id :: "uuid option"
  deal_title :: string
  deal_stage :: string
  deal_amount :: int
  deal_currency :: string
  deal_pipeline :: string
  deal_description :: "string option"
  deal_probability :: int
  deal_source :: "string option"
  deal_expected_close_date :: "datetime option"
  deal_updated_at :: datetime
  deal_created_at :: datetime

record deal_activity =
  da_id :: uuid
  da_deal_id :: uuid
  da_activity_type :: string
  da_body :: string
  da_created_by_user_id :: "uuid option"

text \<open>\<open>co_subtotal\<close> is in hundredths.\<close>

record catalog_order =
  co_id :: uuid
  co_account_id :: uuid
  co_organization_id :: uuid
  co_channel_id :: uuid
  co_contact_id :: uuid
  co_conversation_id :: "uuid option"
  co_message_id :: uuid
  co_deal_id :: "uuid option"
  co_order_number :: string
  co_meta_catalog_id :: "string option"
  co_customer_note :: "string option"
  co_currency :: string
  co_subtotal :: int
  co_status :: string
  co_line_items :: "json list"
  co_reviewed_at :: "datetime option"
  co_reviewed_by_user_id :: "uuid option"
  co_created_at :: datetime

record catalog_product =
  prd_id :: uuid
  prd_account_id :: uuid
  prd_name :: string
  prd_meta_retailer_id :: "string option"

section \<open>The database\<close>

record db =
  accounts :: "account list"
  users :: "user list"
  refresh_sessions :: "refresh_session list"
  invitations :: "invitation list"
  invitation_organizations :: "invitation_organization list"
  invitation_channels :: "invitation_channel_access list"
  memberships :: "membership list"
  organization_memberships :: "organization_membership list"
  channel_accesses :: "membership_channel_access list"
  organizations :: "organization list"
  channels :: "channel list"
  whatsapp_accounts :: "whatsapp_account list"
  contacts :: "contact list"
  conversations :: "conversation list"
  messages :: "message list"
  templates :: "whatsapp_template list"
  campaigns :: "campaign list"
  recipients :: "campaign_recipient list"
  outbox_events :: "outbox_event list"
  jobs :: "scheduled_job list"
  idempotency_records :: "idempotency_record list"
  resources :: "resource_record list"
  secrets :: "integration_secret list"
  subscriptions :: "subscription list"
  plans :: "plan list"
  macs :: "monthly_active_contact list"
  mac_audits :: "mac_activation_audit list"
  automations :: "automation list"
  automation_runs :: "automation_run list"
  run_steps :: "automation_run_step list"
  tags :: "tag list"
  conversation_tags :: "conversation_tag list"
  teams :: "team list"
  team_members :: "team_member list"
  assignment_rules :: "assignment_rule list"
  webhook_events :: "webhook_event list"
  notifications :: "notification list"
  conversation_events :: "conversation_event list"
  read_states :: "conversation_read_state list"
  conversation_notes :: "conversation_note list"
  contact_tags :: "contact_tag list"
  interest_categories :: "interest_category list"
  contact_interests :: "contact_interest list"
  segments :: "segment list"
  deals :: "deal list"
  deal_activities :: "deal_activity list"
  catalog_orders :: "catalog_order list"
  catalog_products :: "catalog_product list"

definition empty_db :: db where
  "empty_db = \<lparr>accounts = [], users = [], refresh_sessions = [],
     invitations = [], invitation_organizations = [], invitation_channels = [], memberships = [], organization_memberships = [], channel_accesses = [],
     organizations = [], channels = [], whatsapp_accounts = [], contacts = [], conversations = [],
     messages = [], templates = [], campaigns = [], recipients = [], outbox_events = [], jobs = [],
     idempotency_records = [], resources = [], secrets = [], subscriptions = [], plans = [],
     macs = [], mac_audits = [], automations = [], automation_runs = [], run_steps = [], tags = [],
     conversation_tags = [], teams = [], team_members = [], assignment_rules = [],
     webhook_events = [], notifications = [], conversation_events = [], read_states = [],
     conversation_notes = [], contact_tags = [], interest_categories = [], contact_interests = [], segments = [], deals = [],
     deal_activities = [], catalog_orders = [], catalog_products = []\<rparr>"

section \<open>\<open>db.get\<close> and writing rows back\<close>

definition get_campaign_row :: "db \<Rightarrow> uuid \<Rightarrow> campaign option" where
  "get_campaign_row s i = tbl_get cmp_id (campaigns s) i"

definition put_campaign :: "campaign \<Rightarrow> db \<Rightarrow> db" where
  "put_campaign r s = s\<lparr>campaigns := tbl_put cmp_id r (campaigns s)\<rparr>"

definition get_recipient_row :: "db \<Rightarrow> uuid \<Rightarrow> campaign_recipient option" where
  "get_recipient_row s i = tbl_get rcp_id (recipients s) i"

definition put_recipient :: "campaign_recipient \<Rightarrow> db \<Rightarrow> db" where
  "put_recipient r s = s\<lparr>recipients := tbl_put rcp_id r (recipients s)\<rparr>"

definition get_contact_row :: "db \<Rightarrow> uuid \<Rightarrow> contact option" where
  "get_contact_row s i = tbl_get con_id (contacts s) i"

definition put_contact :: "contact \<Rightarrow> db \<Rightarrow> db" where
  "put_contact r s = s\<lparr>contacts := tbl_put con_id r (contacts s)\<rparr>"

definition get_conversation_row :: "db \<Rightarrow> uuid \<Rightarrow> conversation option" where
  "get_conversation_row s i = tbl_get conv_id (conversations s) i"

definition put_conversation :: "conversation \<Rightarrow> db \<Rightarrow> db" where
  "put_conversation r s = s\<lparr>conversations := tbl_put conv_id r (conversations s)\<rparr>"

definition put_message :: "message \<Rightarrow> db \<Rightarrow> db" where
  "put_message r s = s\<lparr>messages := tbl_put msg_id r (messages s)\<rparr>"

definition get_outbox_row :: "db \<Rightarrow> uuid \<Rightarrow> outbox_event option" where
  "get_outbox_row s i = tbl_get ob_id (outbox_events s) i"

definition put_outbox :: "outbox_event \<Rightarrow> db \<Rightarrow> db" where
  "put_outbox r s = s\<lparr>outbox_events := tbl_put ob_id r (outbox_events s)\<rparr>"

definition get_job_row :: "db \<Rightarrow> uuid \<Rightarrow> scheduled_job option" where
  "get_job_row s i = tbl_get job_id (jobs s) i"

definition put_job :: "scheduled_job \<Rightarrow> db \<Rightarrow> db" where
  "put_job r s = s\<lparr>jobs := tbl_put job_id r (jobs s)\<rparr>"

definition get_idempotency_row :: "db \<Rightarrow> uuid \<Rightarrow> idempotency_record option" where
  "get_idempotency_row s i = tbl_get idem_id (idempotency_records s) i"

definition put_idempotency :: "idempotency_record \<Rightarrow> db \<Rightarrow> db" where
  "put_idempotency r s = s\<lparr>idempotency_records := tbl_put idem_id r (idempotency_records s)\<rparr>"

definition get_account :: "db \<Rightarrow> uuid \<Rightarrow> account option" where
  "get_account s i = tbl_get acc_id (accounts s) i"

definition put_account :: "account \<Rightarrow> db \<Rightarrow> db" where
  "put_account r s = s\<lparr>accounts := tbl_put acc_id r (accounts s)\<rparr>"

definition get_user :: "db \<Rightarrow> uuid \<Rightarrow> user option" where
  "get_user s i = tbl_get usr_id (users s) i"

definition put_user :: "user \<Rightarrow> db \<Rightarrow> db" where
  "put_user r s = s\<lparr>users := tbl_put usr_id r (users s)\<rparr>"

definition get_session :: "db \<Rightarrow> uuid \<Rightarrow> refresh_session option" where
  "get_session s i = tbl_get ses_id (refresh_sessions s) i"

definition put_session :: "refresh_session \<Rightarrow> db \<Rightarrow> db" where
  "put_session r s = s\<lparr>refresh_sessions := tbl_put ses_id r (refresh_sessions s)\<rparr>"

definition get_membership :: "db \<Rightarrow> uuid \<Rightarrow> membership option" where
  "get_membership s i = tbl_get mem_id (memberships s) i"

definition put_membership :: "membership \<Rightarrow> db \<Rightarrow> db" where
  "put_membership r s = s\<lparr>memberships := tbl_put mem_id r (memberships s)\<rparr>"

definition get_invitation :: "db \<Rightarrow> uuid \<Rightarrow> invitation option" where
  "get_invitation s i = tbl_get inv_id (invitations s) i"

definition put_invitation :: "invitation \<Rightarrow> db \<Rightarrow> db" where
  "put_invitation r s = s\<lparr>invitations := tbl_put inv_id r (invitations s)\<rparr>"

definition put_organization :: "organization \<Rightarrow> db \<Rightarrow> db" where
  "put_organization r s = s\<lparr>organizations := tbl_put org_id r (organizations s)\<rparr>"

definition get_organization :: "db \<Rightarrow> uuid \<Rightarrow> organization option" where
  "get_organization s i = tbl_get org_id (organizations s) i"

definition get_channel :: "db \<Rightarrow> uuid \<Rightarrow> channel option" where
  "get_channel s i = tbl_get ch_id (channels s) i"

definition get_whatsapp_account :: "db \<Rightarrow> uuid \<Rightarrow> whatsapp_account option" where
  "get_whatsapp_account s i = tbl_get wa_id (whatsapp_accounts s) i"

definition get_template :: "db \<Rightarrow> uuid \<Rightarrow> whatsapp_template option" where
  "get_template s i = tbl_get tpl_id (templates s) i"

definition get_automation_row :: "db \<Rightarrow> uuid \<Rightarrow> automation option" where
  "get_automation_row s i = tbl_get aut_id (automations s) i"

definition put_automation_row :: "automation \<Rightarrow> db \<Rightarrow> db" where
  "put_automation_row r s = s\<lparr>automations := tbl_put aut_id r (automations s)\<rparr>"

definition get_run_row :: "db \<Rightarrow> uuid \<Rightarrow> automation_run option" where
  "get_run_row s i = tbl_get ar_id (automation_runs s) i"

definition put_run_row :: "automation_run \<Rightarrow> db \<Rightarrow> db" where
  "put_run_row r s = s\<lparr>automation_runs := tbl_put ar_id r (automation_runs s)\<rparr>"

definition get_rule :: "db \<Rightarrow> uuid \<Rightarrow> assignment_rule option" where
  "get_rule s i = tbl_get rule_id (assignment_rules s) i"

definition put_rule :: "assignment_rule \<Rightarrow> db \<Rightarrow> db" where
  "put_rule r s = s\<lparr>assignment_rules := tbl_put rule_id r (assignment_rules s)\<rparr>"

definition get_team :: "db \<Rightarrow> uuid \<Rightarrow> team option" where
  "get_team s i = tbl_get team_id (teams s) i"

definition put_team :: "team \<Rightarrow> db \<Rightarrow> db" where
  "put_team r s = s\<lparr>teams := tbl_put team_id r (teams s)\<rparr>"

definition get_tag :: "db \<Rightarrow> uuid \<Rightarrow> tag option" where
  "get_tag s i = tbl_get tag_id (tags s) i"

lemmas row_defs = get_campaign_row_def put_campaign_def get_recipient_row_def put_recipient_def
  get_contact_row_def put_contact_def get_conversation_row_def put_conversation_def
  get_outbox_row_def put_outbox_def get_job_row_def put_job_def get_idempotency_row_def
  put_idempotency_def get_account_def put_account_def get_user_def put_user_def get_session_def
  put_session_def get_membership_def put_membership_def get_invitation_def put_invitation_def
  get_organization_def put_organization_def
  get_automation_row_def put_automation_row_def get_run_row_def put_run_row_def get_rule_def put_rule_def get_team_def put_team_def

interpretation campaign_rows: row_store get_campaign_row put_campaign cmp_id
  by unfold_locales (auto simp: row_defs table_simps dest: tbl_get_key)

interpretation recipient_rows: row_store get_recipient_row put_recipient rcp_id
  by unfold_locales (auto simp: row_defs table_simps dest: tbl_get_key)

interpretation contact_rows: row_store get_contact_row put_contact con_id
  by unfold_locales (auto simp: row_defs table_simps dest: tbl_get_key)

interpretation conversation_rows: row_store get_conversation_row put_conversation conv_id
  by unfold_locales (auto simp: row_defs table_simps dest: tbl_get_key)

interpretation outbox_rows: row_store get_outbox_row put_outbox ob_id
  by unfold_locales (auto simp: row_defs table_simps dest: tbl_get_key)

interpretation job_rows: row_store get_job_row put_job job_id
  by unfold_locales (auto simp: row_defs table_simps dest: tbl_get_key)

interpretation idempotency_rows: row_store get_idempotency_row put_idempotency idem_id
  by unfold_locales (auto simp: row_defs table_simps dest: tbl_get_key)

interpretation account_rows: row_store get_account put_account acc_id
  by unfold_locales (auto simp: row_defs table_simps dest: tbl_get_key)

interpretation user_rows: row_store get_user put_user usr_id
  by unfold_locales (auto simp: row_defs table_simps dest: tbl_get_key)

interpretation session_rows: row_store get_session put_session ses_id
  by unfold_locales (auto simp: row_defs table_simps dest: tbl_get_key)

interpretation membership_rows: row_store get_membership put_membership mem_id
  by unfold_locales (auto simp: row_defs table_simps dest: tbl_get_key)

interpretation invitation_rows: row_store get_invitation put_invitation inv_id
  by unfold_locales (auto simp: row_defs table_simps dest: tbl_get_key)

interpretation organization_rows: row_store get_organization put_organization org_id
  by unfold_locales (auto simp: row_defs table_simps dest: tbl_get_key)

interpretation aut_rows: row_store get_automation_row put_automation_row aut_id
  by unfold_locales (auto simp: row_defs table_simps dest: tbl_get_key)

interpretation automation_run_rows: row_store get_run_row put_run_row ar_id
  by unfold_locales (auto simp: row_defs table_simps dest: tbl_get_key)

interpretation rule_rows: row_store get_rule put_rule rule_id
  by unfold_locales (auto simp: row_defs table_simps dest: tbl_get_key)

interpretation team_rows: row_store get_team put_team team_id
  by unfold_locales (auto simp: row_defs table_simps dest: tbl_get_key)

definition put_channel :: "channel \<Rightarrow> db \<Rightarrow> db" where
  "put_channel r s = s\<lparr>channels := tbl_put ch_id r (channels s)\<rparr>"

definition put_whatsapp_account :: "whatsapp_account \<Rightarrow> db \<Rightarrow> db" where
  "put_whatsapp_account r s = s\<lparr>whatsapp_accounts := tbl_put wa_id r (whatsapp_accounts s)\<rparr>"

definition get_deal_row :: "db \<Rightarrow> uuid \<Rightarrow> deal option" where
  "get_deal_row s i = tbl_get deal_id (deals s) i"

definition put_deal :: "deal \<Rightarrow> db \<Rightarrow> db" where
  "put_deal r s = s\<lparr>deals := tbl_put deal_id r (deals s)\<rparr>"

interpretation channel_rows: row_store get_channel put_channel ch_id
  by unfold_locales (auto simp: get_channel_def put_channel_def table_simps dest: tbl_get_key)

interpretation whatsapp_account_rows: row_store get_whatsapp_account put_whatsapp_account wa_id
  by unfold_locales (auto simp: get_whatsapp_account_def put_whatsapp_account_def table_simps dest: tbl_get_key)

interpretation deal_rows: row_store get_deal_row put_deal deal_id
  by unfold_locales (auto simp: get_deal_row_def put_deal_def table_simps dest: tbl_get_key)

text \<open>Writing a row of one table leaves the other tables alone.\<close>

lemma put_frames [simp]:
  "recipients (put_campaign c s) = recipients s" "contacts (put_campaign c s) = contacts s"
  "outbox_events (put_campaign c s) = outbox_events s" "messages (put_campaign c s) = messages s"
  "whatsapp_accounts (put_campaign c s) = whatsapp_accounts s" "templates (put_campaign c s) = templates s"
  "conversations (put_campaign c s) = conversations s" "accounts (put_campaign c s) = accounts s"
  "campaigns (put_recipient r s) = campaigns s" "contacts (put_recipient r s) = contacts s"
  "messages (put_recipient r s) = messages s" "whatsapp_accounts (put_recipient r s) = whatsapp_accounts s"
  "templates (put_recipient r s) = templates s" "conversations (put_recipient r s) = conversations s"
  "accounts (put_recipient r s) = accounts s" "outbox_events (put_recipient r s) = outbox_events s"
  "campaigns (put_contact k s) = campaigns s" "recipients (put_contact k s) = recipients s"
  "messages (put_contact k s) = messages s" "accounts (put_contact k s) = accounts s"
  "whatsapp_accounts (put_contact k s) = whatsapp_accounts s" "templates (put_contact k s) = templates s"
  by (simp_all add: row_defs)

lemma put_content [simp]:
  "campaigns (put_campaign c s) = tbl_put cmp_id c (campaigns s)"
  "recipients (put_recipient r s) = tbl_put rcp_id r (recipients s)"
  "contacts (put_contact k s) = tbl_put con_id k (contacts s)"
  by (simp_all add: row_defs)

end
