(* ===== verification/Access.thy ===== *)
theory Access
  imports Models
begin

text \<open>
  Who may do what: permissions of roles (\<open>core/permissions.py\<close>), the channels and organizations a
  membership reaches (\<open>services/membership_channels.py\<close>, \<open>services/membership_access.py\<close>).  A result
  \<open>None\<close> of the resolving functions stands for everything in the account, as in the code.  A query's
  list of SQL filters is the predicate that the filters make together.
\<close>

section \<open>Permissions and roles\<close>

datatype permission = CONVERSATIONS_VIEW | CONVERSATIONS_ASSIGN | MESSAGES_SEND | CONTACTS_VIEW
  | CONTACTS_EDIT | CHANNELS_VIEW | CHANNELS_MANAGE | TEMPLATES_VIEW | TEMPLATES_MANAGE | CAMPAIGNS_VIEW
  | CAMPAIGNS_CREATE | CAMPAIGNS_APPROVE | AUTOMATIONS_VIEW | AUTOMATIONS_EDIT | AUTOMATIONS_PUBLISH
  | USERS_VIEW | USERS_MANAGE | ORGANIZATIONS_VIEW | ORGANIZATIONS_MANAGE | BILLING_VIEW | BILLING_MANAGE
  | REPORTS_VIEW | REPORTS_EXPORT | FILES_UPLOAD | FILES_VIEW | TRUST_VIEW | TRUST_MANAGE
  | OPERATIONS_VIEW | OPERATIONS_MANAGE

fun permission_value :: "permission \<Rightarrow> string" where
  "permission_value CONVERSATIONS_VIEW = ''conversations.view''"
| "permission_value CONVERSATIONS_ASSIGN = ''conversations.assign''"
| "permission_value MESSAGES_SEND = ''messages.send''"
| "permission_value CONTACTS_VIEW = ''contacts.view''"
| "permission_value CONTACTS_EDIT = ''contacts.edit''"
| "permission_value CHANNELS_VIEW = ''channels.view''"
| "permission_value CHANNELS_MANAGE = ''channels.manage''"
| "permission_value TEMPLATES_VIEW = ''templates.view''"
| "permission_value TEMPLATES_MANAGE = ''templates.manage''"
| "permission_value CAMPAIGNS_VIEW = ''campaigns.view''"
| "permission_value CAMPAIGNS_CREATE = ''campaigns.create''"
| "permission_value CAMPAIGNS_APPROVE = ''campaigns.approve''"
| "permission_value AUTOMATIONS_VIEW = ''automations.view''"
| "permission_value AUTOMATIONS_EDIT = ''automations.edit''"
| "permission_value AUTOMATIONS_PUBLISH = ''automations.publish''"
| "permission_value USERS_VIEW = ''users.view''"
| "permission_value USERS_MANAGE = ''users.manage''"
| "permission_value ORGANIZATIONS_VIEW = ''organizations.view''"
| "permission_value ORGANIZATIONS_MANAGE = ''organizations.manage''"
| "permission_value BILLING_VIEW = ''billing.view''"
| "permission_value BILLING_MANAGE = ''billing.manage''"
| "permission_value REPORTS_VIEW = ''reports.view''"
| "permission_value REPORTS_EXPORT = ''reports.export''"
| "permission_value FILES_UPLOAD = ''files.upload''"
| "permission_value FILES_VIEW = ''files.view''"
| "permission_value TRUST_VIEW = ''trust.view''"
| "permission_value TRUST_MANAGE = ''trust.manage''"
| "permission_value OPERATIONS_VIEW = ''operations.view''"
| "permission_value OPERATIONS_MANAGE = ''operations.manage''"

definition ALL_PERMISSIONS :: "permission list" where
  "ALL_PERMISSIONS = [CONVERSATIONS_VIEW, CONVERSATIONS_ASSIGN, MESSAGES_SEND, CONTACTS_VIEW,
     CONTACTS_EDIT, CHANNELS_VIEW, CHANNELS_MANAGE, TEMPLATES_VIEW, TEMPLATES_MANAGE, CAMPAIGNS_VIEW,
     CAMPAIGNS_CREATE, CAMPAIGNS_APPROVE, AUTOMATIONS_VIEW, AUTOMATIONS_EDIT, AUTOMATIONS_PUBLISH,
     USERS_VIEW, USERS_MANAGE, ORGANIZATIONS_VIEW, ORGANIZATIONS_MANAGE, BILLING_VIEW, BILLING_MANAGE,
     REPORTS_VIEW, REPORTS_EXPORT, FILES_UPLOAD, FILES_VIEW, TRUST_VIEW, TRUST_MANAGE,
     OPERATIONS_VIEW, OPERATIONS_MANAGE]"

definition BRANCH_OPS :: "permission set" where
  "BRANCH_OPS = {CONVERSATIONS_VIEW, CONVERSATIONS_ASSIGN, MESSAGES_SEND, CONTACTS_VIEW, CONTACTS_EDIT,
     CHANNELS_VIEW, TEMPLATES_VIEW, TEMPLATES_MANAGE, CAMPAIGNS_VIEW, CAMPAIGNS_CREATE,
     CAMPAIGNS_APPROVE, AUTOMATIONS_VIEW, AUTOMATIONS_EDIT, AUTOMATIONS_PUBLISH, USERS_VIEW,
     USERS_MANAGE, ORGANIZATIONS_VIEW, REPORTS_VIEW, REPORTS_EXPORT, FILES_UPLOAD, FILES_VIEW, TRUST_VIEW}"

fun role_permissions :: "membership_role \<Rightarrow> permission set" where
  "role_permissions OWNER = set ALL_PERMISSIONS"
| "role_permissions ADMIN = set ALL_PERMISSIONS"
| "role_permissions BRANCH_ADMIN = BRANCH_OPS \<union> {CHANNELS_MANAGE, ORGANIZATIONS_MANAGE, TRUST_MANAGE}"
| "role_permissions MANAGER = BRANCH_OPS"
| "role_permissions AGENT = {CONVERSATIONS_VIEW, MESSAGES_SEND, CONTACTS_VIEW, CONTACTS_EDIT,
     CHANNELS_VIEW, TEMPLATES_VIEW, CAMPAIGNS_VIEW, AUTOMATIONS_VIEW, FILES_UPLOAD, FILES_VIEW}"
| "role_permissions VIEWER = {CONVERSATIONS_VIEW, CONTACTS_VIEW, CHANNELS_VIEW, TEMPLATES_VIEW,
     CAMPAIGNS_VIEW, AUTOMATIONS_VIEW, ORGANIZATIONS_VIEW, REPORTS_VIEW, FILES_VIEW, TRUST_VIEW}"

definition MANAGER_ASSIGNABLE_PERMISSIONS :: "permission set" where
  "MANAGER_ASSIGNABLE_PERMISSIONS = role_permissions MANAGER"

definition BRANCH_ADMIN_ASSIGNABLE_PERMISSIONS :: "permission set" where
  "BRANCH_ADMIN_ASSIGNABLE_PERMISSIONS = role_permissions BRANCH_ADMIN"

definition BRANCH_SCOPED_ROLES :: "membership_role list" where
  "BRANCH_SCOPED_ROLES = [MANAGER, BRANCH_ADMIN]"

fun ROLE_RANK :: "membership_role \<Rightarrow> nat" where
  "ROLE_RANK VIEWER = 1"
| "ROLE_RANK AGENT = 2"
| "ROLE_RANK MANAGER = 3"
| "ROLE_RANK BRANCH_ADMIN = 4"
| "ROLE_RANK ADMIN = 5"
| "ROLE_RANK OWNER = 6"

definition role_has_permission :: "membership_role \<Rightarrow> permission \<Rightarrow> bool" where
  "role_has_permission role p \<longleftrightarrow> p \<in> role_permissions role"

text \<open>\<open>Permission(value)\<close>\<close>

definition permission_of_value :: "string \<Rightarrow> permission option" where
  "permission_of_value v = find (\<lambda>p. permission_value p = v) ALL_PERMISSIONS"

fun parse_permission_values :: "string list \<Rightarrow> permission set outcome" where
  "parse_permission_values [] = Inr {}"
| "parse_permission_values (v # vs) =
     (case permission_of_value v of
        None \<Rightarrow> Inl (ValueError ''INVALID_PERMISSION'')
      | Some p \<Rightarrow> (case parse_permission_values vs of Inl e \<Rightarrow> Inl e | Inr ps \<Rightarrow> Inr (insert p ps)))"

definition get_effective_permissions :: "membership \<Rightarrow> permission set outcome" where
  "get_effective_permissions m =
     (let role_perms = role_permissions (mem_role m) in
      case mem_custom_permissions m of
        None \<Rightarrow> Inr role_perms
      | Some [] \<Rightarrow> Inr role_perms
      | Some vals \<Rightarrow>
          (case parse_permission_values vals of
             Inl e \<Rightarrow> Inl e
           | Inr custom \<Rightarrow> Inr (custom \<inter> role_perms)))"

definition membership_has_permission :: "membership \<Rightarrow> permission \<Rightarrow> bool outcome" where
  "membership_has_permission m p =
     (case get_effective_permissions m of Inl e \<Rightarrow> Inl e | Inr ps \<Rightarrow> Inr (p \<in> ps))"

text \<open>\<open>sorted(item.value for item in ps)\<close>\<close>

definition sorted_values :: "permission set \<Rightarrow> string list" where
  "sorted_values ps = sort (map permission_value (filter (\<lambda>p. p \<in> ps) ALL_PERMISSIONS))"

definition validate_custom_permissions_for_role ::
  "membership_role \<Rightarrow> string list \<Rightarrow> permission set option \<Rightarrow> string list outcome" where
  "validate_custom_permissions_for_role role permissions assignable =
     (case parse_permission_values permissions of
        Inl e \<Rightarrow> Inl e
      | Inr parsed \<Rightarrow>
          (let role_perms = role_permissions role in
           if \<not> parsed \<subseteq> role_perms then Inl (ValueError ''PERMISSION_EXCEEDS_ROLE'')
           else if (case assignable of None \<Rightarrow> False | Some a \<Rightarrow> \<not> parsed \<subseteq> a)
             then Inl (ValueError ''PERMISSION_NOT_ASSIGNABLE'')
           else Inr (sorted_values parsed)))"

definition permissions_for_response :: "membership \<Rightarrow> string list outcome" where
  "permissions_for_response m =
     (case get_effective_permissions m of Inl e \<Rightarrow> Inl e | Inr ps \<Rightarrow> Inr (sorted_values ps))"

lemma in_ALL_PERMISSIONS [simp]: "p \<in> set ALL_PERMISSIONS"
  by (cases p) (simp_all add: ALL_PERMISSIONS_def)

lemma permission_of_value_value [simp]: "permission_of_value (permission_value p) = Some p"
  by (cases p) (simp_all add: permission_of_value_def ALL_PERMISSIONS_def)

lemma permission_of_value_Some: "permission_of_value v = Some p \<longleftrightarrow> v = permission_value p"
proof
  assume "permission_of_value v = Some p"
  then show "v = permission_value p" by (auto simp: permission_of_value_def find_Some_iff)
qed simp

lemma parse_permission_values_iff:
  "parse_permission_values vs = Inr ps \<longleftrightarrow> set vs = permission_value ` ps"
proof (induction vs arbitrary: ps)
  case (Cons v vs)
  have inj: "inj permission_value"
    by (rule injI) (metis option.inject permission_of_value_value)
  show ?case
  proof (cases "permission_of_value v")
    case None
    have "v \<notin> range permission_value"
      using None permission_of_value_value by force
    with None show ?thesis by auto
  next
    case (Some p)
    then have v: "v = permission_value p" by (simp add: permission_of_value_Some)
    show ?thesis
    proof
      assume "parse_permission_values (v # vs) = Inr ps"
      with v obtain qs where "parse_permission_values vs = Inr qs" "ps = insert p qs"
        by (auto split: sum.splits)
      moreover from this(1) have "set vs = permission_value ` qs" using Cons.IH by blast
      ultimately show "set (v # vs) = permission_value ` ps" using v by simp
    next
      assume eq: "set (v # vs) = permission_value ` ps"
      then have "p \<in> ps" using v inj by (metis image_eqI inj_image_mem_iff list.set_intros(1))
      have "set vs \<subseteq> permission_value ` ps" using eq by auto
      then obtain qs where qs: "qs \<subseteq> ps" "set vs = permission_value ` qs" by (meson subset_imageE)
      have "permission_value ` ps = permission_value ` insert p qs" using eq qs v by simp
      then have "ps = insert p qs" by (rule inj_image_eq_iff [OF inj, THEN iffD1])
      moreover have "parse_permission_values vs = Inr qs" using qs(2) Cons.IH by blast
      ultimately show "parse_permission_values (v # vs) = Inr ps" using v by simp
    qed
  qed
qed auto

lemma set_sorted_values [simp]: "set (sorted_values ps) = permission_value ` ps"
  by (auto simp: sorted_values_def)

lemma effective_within_role:
  assumes "get_effective_permissions m = Inr ps"
  shows "ps \<subseteq> role_permissions (mem_role m)"
  using assms by (auto simp: get_effective_permissions_def Let_def split: option.splits list.splits sum.splits)

text \<open>C17. Custom permissions restrict and never extend a role: whatever \<open>validate_custom_permissions_for_role\<close>
  accepts, stored on a membership of the role, gives exactly the requested permissions, and these are
  within the role and within what the actor may assign - except that the empty list gives the
  whole role.\<close>

theorem validated_permissions_effective:
  assumes "validate_custom_permissions_for_role (mem_role m) vals assignable = Inr stored"
    and "mem_custom_permissions m = Some stored"
  shows "(if vals = [] then get_effective_permissions m = Inr (role_permissions (mem_role m))
     else \<exists>ps. permission_value ` ps = set vals \<and> get_effective_permissions m = Inr ps
        \<and> ps \<subseteq> role_permissions (mem_role m) \<and> (\<forall>a. assignable = Some a \<longrightarrow> ps \<subseteq> a))"
proof -
  obtain ps where ps: "parse_permission_values vals = Inr ps" "ps \<subseteq> role_permissions (mem_role m)"
    "\<forall>a. assignable = Some a \<longrightarrow> ps \<subseteq> a" and stored: "stored = sorted_values ps"
    using assms(1)
    by (auto simp: validate_custom_permissions_for_role_def Let_def split: sum.splits if_splits option.splits)
  have vals: "set vals = permission_value ` ps"
    using ps(1) by (simp add: parse_permission_values_iff)
  show ?thesis
  proof (cases "vals = []")
    case True
    then have "stored = []" using vals stored by (auto simp: sorted_values_def)
    with True assms(2) show ?thesis by (simp add: get_effective_permissions_def)
  next
    case False
    have "set stored = set vals" using stored vals by simp
    with False obtain v vs where sv: "stored = v # vs" by (cases stored) auto
    have "parse_permission_values stored = Inr ps"
      using stored by (simp add: parse_permission_values_iff)
    with assms(2) ps(2) sv have "get_effective_permissions m = Inr ps"
      by (auto simp: get_effective_permissions_def Let_def)
    with False vals ps show ?thesis by auto
  qed
qed

definition demo_membership :: "membership_role \<Rightarrow> string list option \<Rightarrow> membership" where
  "demo_membership role custom = \<lparr>mem_id = 7, mem_account_id = 1, mem_user_id = 8, mem_role = role,
     mem_status = MembershipActive, mem_custom_permissions = custom, mem_created_at = 0\<rparr>"

lemma validated_permissions_effective_witness:
  "\<exists>ps. permission_value ` ps = {''messages.send'', ''contacts.view''} \<and>
     get_effective_permissions (demo_membership AGENT (Some [''contacts.view'', ''messages.send''])) = Inr ps
     \<and> ps \<subseteq> role_permissions AGENT"
proof -
  have v: "validate_custom_permissions_for_role AGENT [''messages.send'', ''contacts.view''] None
      = Inr [''contacts.view'', ''messages.send'']"
    by code_simp
  show ?thesis
    using validated_permissions_effective [of "demo_membership AGENT (Some [''contacts.view'', ''messages.send''])"
        "[''messages.send'', ''contacts.view'']" None "[''contacts.view'', ''messages.send'']"] v
    by (simp add: demo_membership_def)
qed

lemma role_inclusions:
  "role_permissions MANAGER \<subseteq> role_permissions BRANCH_ADMIN"
  "role_permissions BRANCH_ADMIN \<subseteq> role_permissions ADMIN"
  "role_permissions ADMIN = role_permissions OWNER"
  "role_permissions AGENT \<subseteq> role_permissions MANAGER"
  "role_permissions VIEWER \<subseteq> role_permissions MANAGER"
  by (auto simp: BRANCH_OPS_def)

text \<open>The ranks do not order the permissions of the two lowest roles: an agent outranks a viewer and
  lacks three of its permissions.\<close>

lemma agent_lacks_viewer_permissions:
  "role_permissions VIEWER - role_permissions AGENT = {ORGANIZATIONS_VIEW, REPORTS_VIEW, TRUST_VIEW}"
  by auto

section \<open>Organizations and channels of a membership\<close>

definition validate_channel_ids :: "db \<Rightarrow> uuid \<Rightarrow> uuid set \<Rightarrow> uuid list \<Rightarrow> uuid set outcome" where
  "validate_channel_ids s account_id organization_ids channel_ids =
     (if channel_ids = [] then Inr {}
      else
        (let rows = filter (\<lambda>c. ch_account_id c = account_id \<and> ch_id c \<in> set channel_ids \<and> ch_deleted_at c = None) (channels s);
             valid_ids = set (map ch_id (filter (\<lambda>c. ch_organization_id c \<in> organization_ids) rows))
         in if valid_ids \<noteq> set channel_ids then Inl (ValueError ''INVALID_CHANNEL'') else Inr valid_ids))"

text \<open>A Python set is iterated in an order of its own: here it is given as the list \<open>channel_ids\<close> of its
  elements, and the rows are added in that order.\<close>

definition replace_membership_channel_access :: "uuid \<Rightarrow> uuid list \<Rightarrow> db \<Rightarrow> db" where
  "replace_membership_channel_access membership_id channel_ids s =
     s\<lparr>channel_accesses := filter (\<lambda>a. mca_membership_id a \<noteq> membership_id) (channel_accesses s)
        @ map (\<lambda>c. \<lparr>mca_membership_id = membership_id, mca_channel_id = c\<rparr>) channel_ids\<rparr>"

definition list_membership_channel_ids :: "db \<Rightarrow> uuid \<Rightarrow> uuid list" where
  "list_membership_channel_ids s membership_id =
     map mca_channel_id (filter (\<lambda>a. mca_membership_id a = membership_id) (channel_accesses s))"

definition get_accessible_channel_ids ::
  "db \<Rightarrow> uuid \<Rightarrow> uuid \<Rightarrow> membership_role \<Rightarrow> uuid list \<Rightarrow> uuid list option" where
  "get_accessible_channel_ids s account_id membership_id role organization_ids =
     (if role = OWNER \<or> role = ADMIN then None
      else (let explicit = list_membership_channel_ids s membership_id in
        if explicit \<noteq> [] then Some explicit
        else if organization_ids = [] then Some []
        else Some (map ch_id (filter (\<lambda>c. ch_account_id c = account_id \<and>
               ch_organization_id c \<in> set organization_ids \<and> ch_deleted_at c = None) (channels s)))))"

definition list_membership_organization_ids :: "db \<Rightarrow> uuid \<Rightarrow> uuid list" where
  "list_membership_organization_ids s membership_id =
     map om_organization_id (filter (\<lambda>o'. om_membership_id o' = membership_id) (organization_memberships s))"

definition resolve_accessible_organization_ids :: "db \<Rightarrow> membership \<Rightarrow> uuid list option" where
  "resolve_accessible_organization_ids s m =
     (if mem_role m = OWNER \<or> mem_role m = ADMIN then None
      else Some (list_membership_organization_ids s (mem_id m)))"

definition resolve_accessible_channel_ids :: "db \<Rightarrow> uuid \<Rightarrow> membership \<Rightarrow> uuid list option" where
  "resolve_accessible_channel_ids s account_id m =
     (let organization_ids = list_membership_organization_ids s (mem_id m)
      in get_accessible_channel_ids s account_id (mem_id m) (mem_role m) organization_ids)"

definition ensure_membership_channel_access :: "db \<Rightarrow> uuid \<Rightarrow> membership \<Rightarrow> uuid \<Rightarrow> unit outcome" where
  "ensure_membership_channel_access s account_id m channel_id =
     (case resolve_accessible_channel_ids s account_id m of
        None \<Rightarrow> Inr ()
      | Some accessible \<Rightarrow> if channel_id \<notin> set accessible then Inl (ValueError ''CONVERSATION_FORBIDDEN'') else Inr ())"

definition filter_organizations_for_membership :: "db \<Rightarrow> membership \<Rightarrow> organization list \<Rightarrow> organization list" where
  "filter_organizations_for_membership s m orgs =
     (case resolve_accessible_organization_ids s m of
        None \<Rightarrow> orgs
      | Some allowed \<Rightarrow> filter (\<lambda>o'. org_id o' \<in> set allowed) orgs)"

definition filter_channels_for_membership :: "db \<Rightarrow> uuid \<Rightarrow> membership \<Rightarrow> channel list \<Rightarrow> channel list" where
  "filter_channels_for_membership s account_id m chans =
     (case resolve_accessible_channel_ids s account_id m of
        None \<Rightarrow> chans
      | Some accessible \<Rightarrow> filter (\<lambda>c. ch_id c \<in> set accessible) chans)"

definition has_explicit_channel_restrictions :: "db \<Rightarrow> uuid \<Rightarrow> bool" where
  "has_explicit_channel_restrictions s membership_id \<longleftrightarrow> list_membership_channel_ids s membership_id \<noteq> []"

definition resolve_active_organization_ids :: "db \<Rightarrow> uuid \<Rightarrow> membership \<Rightarrow> uuid list" where
  "resolve_active_organization_ids s account_id m =
     (let accessible = resolve_accessible_organization_ids s m;
          active = filter (\<lambda>o'. org_account_id o' = account_id \<and> org_status o' = OrgActive) (organizations s)
      in case accessible of
           None \<Rightarrow> map org_id active
         | Some ids \<Rightarrow> if ids = [] then [] else map org_id (filter (\<lambda>o'. org_id o' \<in> set ids) active))"

definition ensure_membership_organization_access :: "db \<Rightarrow> uuid \<Rightarrow> membership \<Rightarrow> uuid \<Rightarrow> unit outcome" where
  "ensure_membership_organization_access s account_id m organization_id =
     (if (case resolve_accessible_organization_ids s m of None \<Rightarrow> False | Some allowed \<Rightarrow> organization_id \<notin> set allowed)
      then Inl (ValueError ''ACCESS_FORBIDDEN'')
      else case get_organization s organization_id of
             None \<Rightarrow> Inl (ValueError ''ACCESS_FORBIDDEN'')
           | Some organization \<Rightarrow>
               if org_account_id organization \<noteq> account_id then Inl (ValueError ''ACCESS_FORBIDDEN'')
               else if org_status organization \<noteq> OrgActive then Inl (ValueError ''ORGANIZATION_SUSPENDED'')
               else Inr ())"

definition ensure_whatsapp_account_access :: "db \<Rightarrow> uuid \<Rightarrow> membership \<Rightarrow> uuid \<Rightarrow> whatsapp_account outcome" where
  "ensure_whatsapp_account_access s account_id m whatsapp_account_id =
     (case get_whatsapp_account s whatsapp_account_id of
        None \<Rightarrow> Inl (ValueError ''INVALID_WHATSAPP_ACCOUNT'')
      | Some wa \<Rightarrow>
          if wa_account_id wa \<noteq> account_id then Inl (ValueError ''INVALID_WHATSAPP_ACCOUNT'')
          else (case ensure_membership_organization_access s account_id m (wa_organization_id wa) of
            Inl e \<Rightarrow> Inl e
          | Inr _ \<Rightarrow> (case ensure_membership_channel_access s account_id m (wa_channel_id wa) of
              Inl e \<Rightarrow> Inl e
            | Inr _ \<Rightarrow> Inr wa)))"

definition ensure_campaign_access :: "db \<Rightarrow> uuid \<Rightarrow> membership \<Rightarrow> campaign \<Rightarrow> unit outcome" where
  "ensure_campaign_access s account_id m c =
     (case ensure_membership_organization_access s account_id m (cmp_organization_id c) of
        Inl e \<Rightarrow> Inl e
      | Inr _ \<Rightarrow>
          (case get_whatsapp_account s (cmp_whatsapp_account_id c) of
             None \<Rightarrow> Inl (ValueError ''CAMPAIGN_NOT_FOUND'')
           | Some wa \<Rightarrow>
               if wa_account_id wa \<noteq> account_id then Inl (ValueError ''CAMPAIGN_NOT_FOUND'')
               else ensure_membership_channel_access s account_id m (wa_channel_id wa)))"

definition ensure_template_access :: "db \<Rightarrow> uuid \<Rightarrow> membership \<Rightarrow> whatsapp_template \<Rightarrow> unit outcome" where
  "ensure_template_access s account_id m t =
     (case ensure_membership_organization_access s account_id m (tpl_organization_id t) of
        Inl e \<Rightarrow> Inl e
      | Inr _ \<Rightarrow> (case ensure_whatsapp_account_access s account_id m (tpl_whatsapp_account_id t) of
          Inl e \<Rightarrow> Inl e
        | Inr _ \<Rightarrow> Inr ()))"

section \<open>Filters of lists\<close>

text \<open>The subquery \<open>wa_ids\<close>, and the condition on the organization and WhatsApp account columns that
  \<open>campaign_list_filters\<close> and \<open>template_list_filters\<close> build; the ids of rows are never null.\<close>

definition scoped_wa_ids :: "db \<Rightarrow> uuid \<Rightarrow> uuid list \<Rightarrow> uuid set" where
  "scoped_wa_ids s account_id channel_ids =
     wa_id ` set (filter (\<lambda>w. wa_account_id w = account_id \<and> wa_channel_id w \<in> set channel_ids) (whatsapp_accounts s))"

definition whatsapp_scope :: "db \<Rightarrow> uuid \<Rightarrow> membership \<Rightarrow> uuid \<Rightarrow> uuid \<Rightarrow> bool" where
  "whatsapp_scope s account_id m organization_id whatsapp_account_id =
     (let org_ids = resolve_active_organization_ids s account_id m;
          channel_ids = resolve_accessible_channel_ids s account_id m
      in if org_ids = [] then False
         else case channel_ids of
             None \<Rightarrow> organization_id \<in> set org_ids
           | Some cs \<Rightarrow> if cs = [] then False
               else organization_id \<in> set org_ids \<and> whatsapp_account_id \<in> scoped_wa_ids s account_id cs)"

definition campaign_list_filters :: "db \<Rightarrow> uuid \<Rightarrow> membership \<Rightarrow> campaign \<Rightarrow> bool" where
  "campaign_list_filters s account_id m c =
     whatsapp_scope s account_id m (cmp_organization_id c) (cmp_whatsapp_account_id c)"

definition template_list_filters :: "db \<Rightarrow> uuid \<Rightarrow> membership \<Rightarrow> whatsapp_template \<Rightarrow> bool" where
  "template_list_filters s account_id m t =
     whatsapp_scope s account_id m (tpl_organization_id t) (tpl_whatsapp_account_id t)"

text \<open>A clause on a nullable column: \<open>IS NULL\<close> or \<open>IN (...)\<close>, which a null does not satisfy.\<close>

datatype clause = IsNull | IsIn "uuid list"

fun holds :: "clause \<Rightarrow> uuid option \<Rightarrow> bool" where
  "holds IsNull v = (v = None)"
| "holds (IsIn ids) v = (case v of None \<Rightarrow> False | Some i \<Rightarrow> i \<in> set ids)"

definition organization_scope_clauses :: "db \<Rightarrow> uuid \<Rightarrow> membership \<Rightarrow> uuid option \<Rightarrow> bool" where
  "organization_scope_clauses s account_id m organization_column =
     (let org_ids = resolve_active_organization_ids s account_id m
      in if org_ids = [] then holds IsNull organization_column else holds (IsIn org_ids) organization_column)"

definition catalog_scope_clauses :: "db \<Rightarrow> uuid \<Rightarrow> membership \<Rightarrow> uuid option \<Rightarrow> uuid option \<Rightarrow> bool" where
  "catalog_scope_clauses s account_id m channel_column organization_column =
     (let org_clauses = organization_scope_clauses s account_id m organization_column
      in if mem_role m = OWNER \<or> mem_role m = ADMIN then org_clauses
         else (case resolve_accessible_channel_ids s account_id m of
             None \<Rightarrow> org_clauses \<and> holds IsNull channel_column
           | Some channel_ids \<Rightarrow>
               if channel_ids = [] then org_clauses \<and> holds IsNull channel_column
               else org_clauses \<and> holds (IsIn channel_ids) channel_column))"

definition resolve_membership_organizations :: "db \<Rightarrow> uuid \<Rightarrow> membership \<Rightarrow> bool \<Rightarrow> organization list" where
  "resolve_membership_organizations s account_id m include_suspended =
     (let query = filter (\<lambda>o'. org_account_id o' = account_id) (organizations s);
          query = (if include_suspended then query else filter (\<lambda>o'. org_status o' = OrgActive) query)
      in filter_organizations_for_membership s m (sort_key org_name query))"

definition branch_display_name :: "organization list \<Rightarrow> string option" where
  "branch_display_name orgs =
     (if orgs = [] then None
      else if length orgs = 1 then Some (org_name (hd orgs))
      else Some (join (CHR '' '' # CHR 0xB7 # '' '') (map org_name (take 3 orgs))))"

section \<open>Consistency of lists, details and grants\<close>

definition organization_allowed :: "db \<Rightarrow> membership \<Rightarrow> uuid \<Rightarrow> bool" where
  "organization_allowed s m i \<longleftrightarrow>
     (case resolve_accessible_organization_ids s m of None \<Rightarrow> True | Some allowed \<Rightarrow> i \<in> set allowed)"

lemma get_by_key:
  assumes "distinct (map key t)"
  shows "tbl_get key t i = Some r \<longleftrightarrow> r \<in> set t \<and> key r = i"
  using tbl_get_distinct [OF assms] tbl_get_key [of key t i r] tbl_get_mem [of key t i r] by blast

lemma in_active_organizations:
  "i \<in> set (resolve_active_organization_ids s a m) \<longleftrightarrow> organization_allowed s m i \<and>
     (\<exists>o'. o' \<in> set (organizations s) \<and> org_id o' = i \<and> org_account_id o' = a \<and> org_status o' = OrgActive)"
proof (cases "resolve_accessible_organization_ids s m")
  case None
  then show ?thesis
    by (simp add: resolve_active_organization_ids_def organization_allowed_def Let_def image_iff) metis
next
  case (Some ids)
  then show ?thesis
    by (simp add: resolve_active_organization_ids_def organization_allowed_def Let_def image_iff) metis
qed

lemma organization_access_ok:
  "ensure_membership_organization_access s a m i = Inr () \<longleftrightarrow> organization_allowed s m i \<and>
     (\<exists>o'. get_organization s i = Some o' \<and> org_account_id o' = a \<and> org_status o' = OrgActive)"
  by (cases "resolve_accessible_organization_ids s m"; cases "get_organization s i")
    (simp_all add: ensure_membership_organization_access_def organization_allowed_def)

lemma active_organization_iff:
  assumes "distinct (map org_id (organizations s))"
  shows "i \<in> set (resolve_active_organization_ids s a m) \<longleftrightarrow> ensure_membership_organization_access s a m i = Inr ()"
  unfolding in_active_organizations organization_access_ok get_organization_def get_by_key [OF assms]
  by (simp only: conj_assoc)

lemma scoped_wa_iff:
  assumes "distinct (map wa_id (whatsapp_accounts s))" "get_whatsapp_account s i = Some wa" "wa_account_id wa = a"
  shows "i \<in> scoped_wa_ids s a cs \<longleftrightarrow> wa_channel_id wa \<in> set cs"
proof -
  note get = get_by_key [OF assms(1)]
  have wa: "wa \<in> set (whatsapp_accounts s)" "wa_id wa = i"
    using assms(2) by (simp_all add: get_whatsapp_account_def get)
  have uniq: "w = wa" if "w \<in> set (whatsapp_accounts s)" "wa_id w = i" for w
    using that assms(2) get [of i w] by (simp add: get_whatsapp_account_def)
  show ?thesis
  proof
    assume "i \<in> scoped_wa_ids s a cs"
    then obtain w where w: "w \<in> set (whatsapp_accounts s)" "wa_channel_id w \<in> set cs" "wa_id w = i"
      unfolding scoped_wa_ids_def by fastforce
    with uniq show "wa_channel_id wa \<in> set cs" by metis
  next
    assume "wa_channel_id wa \<in> set cs"
    with wa assms(3) show "i \<in> scoped_wa_ids s a cs" unfolding scoped_wa_ids_def by force
  qed
qed

lemma channel_access_iff:
  "ensure_membership_channel_access s a m c = Inr () \<longleftrightarrow>
     (case resolve_accessible_channel_ids s a m of None \<Rightarrow> True | Some cs \<Rightarrow> c \<in> set cs)"
  by (simp add: ensure_membership_channel_access_def split: option.splits)

lemma access_outcome_cases: "(x :: unit outcome) = Inr () \<or> (\<exists>e. x = Inl e)"
  by (cases x) auto

text \<open>C18. Lists and details agree: for a campaign on a WhatsApp account of the same tenant, the campaign
  shows up under the filters of the campaign list exactly when opening it is allowed.\<close>

theorem campaign_list_agrees_with_access:
  assumes "distinct (map org_id (organizations s))" "distinct (map wa_id (whatsapp_accounts s))"
    and "get_whatsapp_account s (cmp_whatsapp_account_id c) = Some wa" "wa_account_id wa = a"
  shows "ensure_campaign_access s a m c = Inr () \<longleftrightarrow> campaign_list_filters s a m c"
proof -
  note org = active_organization_iff [OF assms(1), of "cmp_organization_id c" a m]
  note wa = scoped_wa_iff [OF assms(2,3,4)]
  consider "ensure_membership_organization_access s a m (cmp_organization_id c) = Inr ()"
    | e where "ensure_membership_organization_access s a m (cmp_organization_id c) = Inl e"
    using access_outcome_cases by blast
  then show ?thesis
  proof cases
    case 1
    with org have mem: "cmp_organization_id c \<in> set (resolve_active_organization_ids s a m)" by simp
    then have ne: "resolve_active_organization_ids s a m \<noteq> []" by auto
    have "ensure_campaign_access s a m c = ensure_membership_channel_access s a m (wa_channel_id wa)"
      using 1 assms(3,4) by (simp add: ensure_campaign_access_def)
    with mem ne show ?thesis
      by (cases "resolve_accessible_channel_ids s a m")
        (auto simp: channel_access_iff campaign_list_filters_def whatsapp_scope_def Let_def wa)
  next
    case 2
    with org have "cmp_organization_id c \<notin> set (resolve_active_organization_ids s a m)" by simp
    then have "\<not> campaign_list_filters s a m c"
      by (simp add: campaign_list_filters_def whatsapp_scope_def Let_def split: option.splits)
    moreover have "ensure_campaign_access s a m c = Inl e" using 2 by (simp add: ensure_campaign_access_def)
    ultimately show ?thesis by simp
  qed
qed

definition demo_org :: "uuid \<Rightarrow> uuid \<Rightarrow> organization" where
  "demo_org i a = \<lparr>org_id = i, org_account_id = a, org_name = ''Branch'', org_slug = ''branch'',
     org_country_code = ''KW'', org_currency_code = ''KWD'', org_timezone = ''Asia/Kuwait'',
     org_default_language = ''ar'', org_status = OrgActive, org_max_users = 0, org_max_channels = 0,
     org_created_at = 0\<rparr>"

definition demo_wa :: "uuid \<Rightarrow> uuid \<Rightarrow> uuid \<Rightarrow> whatsapp_account" where
  "demo_wa i a ch = \<lparr>wa_id = i, wa_account_id = a, wa_organization_id = 2, wa_channel_id = ch,
     wa_waba_id = ''waba'', wa_phone_number_id = ''pn'', wa_display_phone_number = ''96550000000'', wa_verified_name = None,
     wa_access_token_encrypted = ''x'', wa_status = WaActive, wa_connection_method = ManualConnection, wa_quality_rating = None,
     wa_messaging_limit_tier = None, wa_messaging_limit = None, wa_health_synced_at = None, wa_meta_phone_status = None,
     wa_meta_name_status = None, wa_meta_can_send_message = None, wa_meta_account_review_status = None, wa_meta_catalog_id = None,
     wa_commerce_enabled = False\<rparr>"

definition demo_campaign :: "uuid \<Rightarrow> uuid \<Rightarrow> campaign" where
  "demo_campaign i wa = \<lparr>cmp_id = i, cmp_account_id = 1, cmp_organization_id = 2, cmp_whatsapp_account_id = wa,
     cmp_template_id = 9, cmp_created_by_user_id = 8, cmp_name = ''Offer'', cmp_status = DRAFT,
     cmp_scheduled_at = None, cmp_started_at = None, cmp_completed_at = None, cmp_approved_by_user_id = None,
     cmp_approved_at = None, cmp_paused_at = None, cmp_cancelled_reason = None, cmp_max_recipients = 1000,
     cmp_requires_approval = False, cmp_execution_token = None, cmp_active_task_id = None,
     cmp_last_heartbeat_at = None, cmp_parent_campaign_id = None, cmp_follow_up_type = None,
     cmp_include_opt_out_option = True, cmp_archived_at = None, cmp_created_at = 0\<rparr>"

definition access_example :: db where
  "access_example = empty_db\<lparr>organizations := [demo_org 2 1], whatsapp_accounts := [demo_wa 4 1 3, demo_wa 5 1 6],
     organization_memberships := [\<lparr>om_organization_id = 2, om_membership_id = 7\<rparr>],
     channel_accesses := [\<lparr>mca_membership_id = 7, mca_channel_id = 3\<rparr>]\<rparr>"

lemma campaign_list_agrees_with_access_witness:
  "campaign_list_filters access_example 1 (demo_membership AGENT None) (demo_campaign 10 4)
   \<and> (ensure_campaign_access access_example 1 (demo_membership AGENT None) (demo_campaign 10 4) = Inr ()
      \<longleftrightarrow> campaign_list_filters access_example 1 (demo_membership AGENT None) (demo_campaign 10 4))"
proof
  show "campaign_list_filters access_example 1 (demo_membership AGENT None) (demo_campaign 10 4)"
    by code_simp
  show "ensure_campaign_access access_example 1 (demo_membership AGENT None) (demo_campaign 10 4) = Inr ()
      \<longleftrightarrow> campaign_list_filters access_example 1 (demo_membership AGENT None) (demo_campaign 10 4)"
    by (rule campaign_list_agrees_with_access [of _ _ "demo_wa 4 1 3"])
      (simp_all add: access_example_def demo_org_def demo_wa_def demo_campaign_def get_whatsapp_account_def tbl_get_def)
qed

text \<open>No access across tenants or scopes: a WhatsApp account that \<open>ensure_whatsapp_account_access\<close> hands
  out is the one asked for, belongs to the tenant and to an active organization of the tenant, and for a
  member who is neither owner nor admin that organization is one of the member's and the channel is
  granted, explicitly or, without any explicit grant, as a live channel of the member's organizations.\<close>

theorem whatsapp_access_is_scoped:
  assumes "ensure_whatsapp_account_access s a m i = Inr wa"
  shows "wa_id wa = i \<and> wa_account_id wa = a
    \<and> (\<exists>o'. get_organization s (wa_organization_id wa) = Some o' \<and> org_account_id o' = a \<and> org_status o' = OrgActive)
    \<and> (mem_role m \<in> {OWNER, ADMIN} \<or>
        wa_organization_id wa \<in> set (list_membership_organization_ids s (mem_id m)) \<and>
        (if list_membership_channel_ids s (mem_id m) \<noteq> []
         then wa_channel_id wa \<in> set (list_membership_channel_ids s (mem_id m))
         else \<exists>c \<in> set (channels s). ch_id c = wa_channel_id wa \<and> ch_account_id c = a \<and> ch_deleted_at c = None
            \<and> ch_organization_id c \<in> set (list_membership_organization_ids s (mem_id m))))"
proof -
  have got: "get_whatsapp_account s i = Some wa" and acc: "wa_account_id wa = a"
    and org: "ensure_membership_organization_access s a m (wa_organization_id wa) = Inr ()"
    and chan: "ensure_membership_channel_access s a m (wa_channel_id wa) = Inr ()"
    using assms by (auto simp: ensure_whatsapp_account_access_def split: option.splits if_splits sum.splits)
  from got have id: "wa_id wa = i" by (auto simp: get_whatsapp_account_def dest: tbl_get_key)
  have o1: "\<exists>o'. get_organization s (wa_organization_id wa) = Some o' \<and> org_account_id o' = a \<and> org_status o' = OrgActive"
    and o2: "mem_role m \<in> {OWNER, ADMIN} \<or> wa_organization_id wa \<in> set (list_membership_organization_ids s (mem_id m))"
    using org by (auto simp: ensure_membership_organization_access_def resolve_accessible_organization_ids_def
        split: option.splits if_splits)
  show ?thesis
  proof (cases "mem_role m \<in> {OWNER, ADMIN}")
    case True
    with id acc o1 show ?thesis by simp
  next
    case False
    with chan have "if list_membership_channel_ids s (mem_id m) \<noteq> []
         then wa_channel_id wa \<in> set (list_membership_channel_ids s (mem_id m))
         else \<exists>c \<in> set (channels s). ch_id c = wa_channel_id wa \<and> ch_account_id c = a \<and> ch_deleted_at c = None
            \<and> ch_organization_id c \<in> set (list_membership_organization_ids s (mem_id m))"
      by (auto simp: channel_access_iff resolve_accessible_channel_ids_def get_accessible_channel_ids_def Let_def
          split: if_splits)
    with False id acc o1 o2 show ?thesis by blast
  qed
qed

lemma whatsapp_access_is_scoped_witness:
  "ensure_whatsapp_account_access access_example 1 (demo_membership AGENT None) 4 = Inr (demo_wa 4 1 3)
   \<and> wa_channel_id (demo_wa 4 1 3) \<in> set (list_membership_channel_ids access_example 7)"
proof -
  have ok: "ensure_whatsapp_account_access access_example 1 (demo_membership AGENT None) 4 = Inr (demo_wa 4 1 3)"
    by code_simp
  have ne: "list_membership_channel_ids access_example 7 \<noteq> []"
    by (simp add: list_membership_channel_ids_def access_example_def)
  show ?thesis
    using whatsapp_access_is_scoped [OF ok] ok ne by (simp add: demo_membership_def)
qed

lemma list_channels_replace:
  "list_membership_channel_ids (replace_membership_channel_access k cs s) j =
     (if j = k then cs else list_membership_channel_ids s j)"
  by (induction cs) (auto simp: list_membership_channel_ids_def replace_membership_channel_access_def
      filter_empty_conv intro: arg_cong [where f = "map mca_channel_id"] filter_cong)

text \<open>Replacing the channel grants of a member who is neither owner nor admin: a non-empty set becomes
  exactly what the member reaches; the empty set is no restriction, the member then reaches every live
  channel of its organizations; and no other membership's grants change.\<close>

theorem replace_channel_access_effect:
  assumes "mem_role m \<notin> {OWNER, ADMIN}"
  shows "resolve_accessible_channel_ids (replace_membership_channel_access (mem_id m) cs s) a m =
     Some (if cs \<noteq> [] then cs
           else map ch_id (filter (\<lambda>c. ch_account_id c = a \<and> ch_deleted_at c = None \<and>
                  ch_organization_id c \<in> set (list_membership_organization_ids s (mem_id m))) (channels s)))
   \<and> (\<forall>j. j \<noteq> mem_id m \<longrightarrow>
        list_membership_channel_ids (replace_membership_channel_access (mem_id m) cs s) j = list_membership_channel_ids s j)"
proof -
  have orgs: "list_membership_organization_ids (replace_membership_channel_access k ds s) j = list_membership_organization_ids s j"
    and chans: "channels (replace_membership_channel_access k ds s) = channels s" for k j ds
    by (simp_all add: list_membership_organization_ids_def replace_membership_channel_access_def)
  have comm: "filter (\<lambda>c. ch_account_id c = a \<and> ch_organization_id c \<in> S \<and> ch_deleted_at c = None) xs =
      filter (\<lambda>c. ch_account_id c = a \<and> ch_deleted_at c = None \<and> ch_organization_id c \<in> S) xs" for S xs
    by (rule filter_cong) auto
  show ?thesis
    using assms
    by (auto simp: resolve_accessible_channel_ids_def get_accessible_channel_ids_def Let_def list_channels_replace
        orgs chans comm)
qed

lemma replace_channel_access_effect_witness:
  "resolve_accessible_channel_ids (replace_membership_channel_access 7 [6, 3] access_example) 1 (demo_membership MANAGER None)
     = Some [6, 3]"
  using replace_channel_access_effect [of "demo_membership MANAGER None" "[6, 3]" access_example 1]
  by (simp add: demo_membership_def)

text \<open>The catalog scope of a member who is neither owner nor admin, with an active organization: with channels, the
  products of those channels; without any accessible channel, the products that are assigned to no
  channel.\<close>

theorem catalog_scope_of_members:
  assumes "mem_role m \<notin> {OWNER, ADMIN}" "resolve_active_organization_ids s a m = orgs" "orgs \<noteq> []"
    and "resolve_accessible_channel_ids s a m = Some cs"
  shows "catalog_scope_clauses s a m channel_column organization_column \<longleftrightarrow>
     (\<exists>o'. organization_column = Some o' \<and> o' \<in> set orgs) \<and>
     (if cs = [] then channel_column = None else \<exists>c. channel_column = Some c \<and> c \<in> set cs)"
  using assms by (auto simp: catalog_scope_clauses_def organization_scope_clauses_def Let_def split: option.splits)

lemma catalog_scope_of_members_witness:
  "catalog_scope_clauses (access_example\<lparr>channel_accesses := []\<rparr>) 1 (demo_membership AGENT None) None (Some 2)"
proof -
  have orgs: "resolve_active_organization_ids (access_example\<lparr>channel_accesses := []\<rparr>) 1 (demo_membership AGENT None) = [2]"
    by code_simp
  have none: "resolve_accessible_channel_ids (access_example\<lparr>channel_accesses := []\<rparr>) 1 (demo_membership AGENT None) = Some []"
    by code_simp
  show ?thesis
    using catalog_scope_of_members [OF _ orgs _ none, of None "Some 2"] by (simp add: demo_membership_def)
qed

end
