(* ===== verification/Reachability.thy ===== *)
theory Reachability
  imports Models
begin

text \<open>
  Phone numbers (\<open>services/phone_normalize.py\<close>), Meta error classes (\<open>services/meta_reliability.py\<close>)
  and contact reachability (\<open>services/contact_reachability.py\<close>): the eligibility of a contact for
  a campaign and the bookkeeping of delivery failures.
\<close>

section \<open>Phone numbers\<close>

definition DEFAULT_COUNTRY_CODE :: string where
  "DEFAULT_COUNTRY_CODE = ''965''"

text \<open>\<open>re.sub(r"\D", "", s)\<close> on the code points 0 to 255, where \<open>\d\<close> is 0 to 9.\<close>

definition only_digits :: "string \<Rightarrow> string" where
  "only_digits s = filter is_digit s"

definition lstrip_zeros :: "string \<Rightarrow> string" where
  "lstrip_zeros s = dropWhile (\<lambda>c. c = CHR ''0'') s"

definition normalize_whatsapp_phone :: "string option \<Rightarrow> string \<Rightarrow> string" where
  "normalize_whatsapp_phone value country_code =
     (let digits = only_digits (case value of None \<Rightarrow> [] | Some v \<Rightarrow> v) in
      if digits = [] then []
      else
        (let cc = (if only_digits country_code = [] then DEFAULT_COUNTRY_CODE else only_digits country_code);
             digits = (if starts_with digits ''00'' then drop 2 digits else digits)
         in if starts_with digits ''0'' \<and> cc = ''965'' then cc @ drop 1 digits
            else if \<not> starts_with digits cc \<and> length digits \<le> 11 then
              (let local = lstrip_zeros digits in if local \<noteq> [] then cc @ local else digits)
            else digits))"

definition phones_match :: "string option \<Rightarrow> string option \<Rightarrow> string \<Rightarrow> bool" where
  "phones_match left right country_code =
     (let left_norm = normalize_whatsapp_phone left country_code;
          right_norm = normalize_whatsapp_phone right country_code
      in if left_norm = [] \<or> right_norm = [] then False else left_norm = right_norm)"

definition COUNTRY_DIAL :: "string \<rightharpoonup> string" where
  "COUNTRY_DIAL = map_of [(''KW'', ''965''), (''SA'', ''966''), (''AE'', ''971''), (''BH'', ''973''),
     (''OM'', ''968''), (''QA'', ''974'')]"

definition dial_code :: "contact \<Rightarrow> string" where
  "dial_code contact =
     (let code = (case con_country_code contact of None \<Rightarrow> ''KW'' | Some [] \<Rightarrow> ''KW'' | Some c \<Rightarrow> c)
      in case COUNTRY_DIAL (py_upper code) of None \<Rightarrow> ''965'' | Some d \<Rightarrow> d)"

lemma only_digits_digits: "set (only_digits s) \<subseteq> Collect is_digit"
  by (auto simp: only_digits_def)

lemma only_digits_id: "set s \<subseteq> Collect is_digit \<Longrightarrow> only_digits s = s"
  by (auto simp: only_digits_def intro: filter_True)

lemma lstrip_zeros_subset: "set (lstrip_zeros s) \<subseteq> set s"
  by (auto simp: lstrip_zeros_def dest: set_dropWhileD)

lemma lstrip_zeros_empty: "lstrip_zeros s = [] \<Longrightarrow> s = [] \<or> hd s = CHR ''0''"
  by (cases s) (auto simp: lstrip_zeros_def split: if_splits)

lemma starts_with_zero_iff: "starts_with s ''0'' \<longleftrightarrow> s \<noteq> [] \<and> hd s = CHR ''0''"
  by (cases s) auto

lemma starts_with_self_append [simp]: "starts_with (p @ t) p"
  by (auto simp: starts_with_append)

text \<open>The three results of \<open>normalize_whatsapp_phone\<close>: nothing, the number with its country code, or
  the digits as they are.\<close>

definition effective_code :: "string \<Rightarrow> string" where
  "effective_code cc = (if only_digits cc = [] then DEFAULT_COUNTRY_CODE else only_digits cc)"

lemma effective_code_digits: "set (effective_code cc) \<subseteq> Collect is_digit"
  using only_digits_digits [of cc]
  by (auto simp: effective_code_def DEFAULT_COUNTRY_CODE_def is_digit_def)

lemma normalize_cases:
  obtains (local) t where "normalize_whatsapp_phone v cc = effective_code cc @ t" "set t \<subseteq> Collect is_digit"
  | (global) "set (normalize_whatsapp_phone v cc) \<subseteq> Collect is_digit"
      "starts_with (normalize_whatsapp_phone v cc) (effective_code cc) \<or> 11 < length (normalize_whatsapp_phone v cc)"
  | (degenerate) "set (normalize_whatsapp_phone v cc) \<subseteq> Collect is_digit"
      "normalize_whatsapp_phone v cc = [] \<or> hd (normalize_whatsapp_phone v cc) = CHR ''0''"
proof -
  define d0 where "d0 = only_digits (case v of None \<Rightarrow> [] | Some w \<Rightarrow> w)"
  define d where "d = (if starts_with d0 ''00'' then drop 2 d0 else d0)"
  have d0: "set d0 \<subseteq> Collect is_digit" by (simp add: d0_def only_digits_digits)
  then have d: "set d \<subseteq> Collect is_digit" by (auto simp: d_def dest: in_set_dropD)
  have n: "normalize_whatsapp_phone v cc =
     (if d0 = [] then [] else if starts_with d ''0'' \<and> effective_code cc = ''965'' then effective_code cc @ drop 1 d
      else if \<not> starts_with d (effective_code cc) \<and> length d \<le> 11 then
        (if lstrip_zeros d \<noteq> [] then effective_code cc @ lstrip_zeros d else d) else d)"
    unfolding normalize_whatsapp_phone_def d_def d0_def effective_code_def Let_def by simp
  consider "d0 = []" | "d0 \<noteq> []" "starts_with d ''0''" "effective_code cc = ''965''"
    | "d0 \<noteq> []" "\<not> (starts_with d ''0'' \<and> effective_code cc = ''965'')"
        "\<not> starts_with d (effective_code cc)" "length d \<le> 11"
    | "d0 \<noteq> []" "\<not> (starts_with d ''0'' \<and> effective_code cc = ''965'')"
        "starts_with d (effective_code cc) \<or> 11 < length d"
    by linarith
  then show ?thesis
  proof cases
    case 1
    with n degenerate show ?thesis by simp
  next
    case 2
    have "set (drop 1 d) \<subseteq> Collect is_digit" using d by (auto dest: in_set_dropD)
    with 2 n local show ?thesis by simp
  next
    case 3
    show ?thesis
    proof (cases "lstrip_zeros d = []")
      case True
      with 3 n d lstrip_zeros_empty [of d] degenerate show ?thesis by auto
    next
      case False
      have "set (lstrip_zeros d) \<subseteq> Collect is_digit" using d lstrip_zeros_subset by blast
      with 3 n False local show ?thesis by auto
    qed
  next
    case 4
    then have e: "normalize_whatsapp_phone v cc = d" using n by auto
    from 4 d show ?thesis by (intro global) (simp_all add: e)
  qed
qed

lemma normalize_digits: "set (normalize_whatsapp_phone v cc) \<subseteq> Collect is_digit"
  by (cases rule: normalize_cases [of v cc]) (use effective_code_digits [of cc] in auto)

lemma normalize_fixed:
  assumes "set n \<subseteq> Collect is_digit" "\<not> starts_with n ''0''"
    and "n = [] \<or> starts_with n (effective_code cc) \<or> 11 < length n"
  shows "normalize_whatsapp_phone (Some n) cc = n"
proof -
  have "only_digits n = n" using assms(1) by (rule only_digits_id)
  moreover have "\<not> starts_with n ''00''" using assms(2) by (cases n) auto
  ultimately show ?thesis using assms
    unfolding normalize_whatsapp_phone_def Let_def by (auto simp: effective_code_def [symmetric])
qed

text \<open>A normalised number is digits only, and normalising it again under the same country code gives it
  back, unless it is a row of zeros or the code itself begins with a zero: so the number stored for a
  contact, the number sent to Meta and the number compared by \<open>phones_match\<close> are the same text.\<close>

theorem normalize_idempotent:
  assumes "\<not> starts_with (normalize_whatsapp_phone v cc) ''0''"
  shows "set (normalize_whatsapp_phone v cc) \<subseteq> Collect is_digit \<and>
     normalize_whatsapp_phone (Some (normalize_whatsapp_phone v cc)) cc = normalize_whatsapp_phone v cc"
proof -
  have "normalize_whatsapp_phone v cc = [] \<or> starts_with (normalize_whatsapp_phone v cc) (effective_code cc) \<or>
      11 < length (normalize_whatsapp_phone v cc)"
    by (cases rule: normalize_cases [of v cc]) (use assms in \<open>auto simp: starts_with_zero_iff\<close>)
  with assms normalize_digits normalize_fixed show ?thesis by blast
qed

lemma normalize_idempotent_witness:
  "normalize_whatsapp_phone (Some (normalize_whatsapp_phone (Some ''050 123-456'') ''965'')) ''965'' = ''96550123456''"
proof -
  have n: "normalize_whatsapp_phone (Some ''050 123-456'') ''965'' = ''96550123456''"
    by code_simp
  show ?thesis
    using normalize_idempotent [of "Some ''050 123-456''" "''965''"] unfolding n by simp
qed

section \<open>Errors of the Meta API\<close>

text \<open>A \<open>MetaAPIError\<close> (\<open>services/meta_client.py\<close>): its text, the HTTP status and the response body.\<close>

record meta_error =
  me_message :: string
  me_status_code :: "int option"
  me_response_data :: "json option"

text \<open>\<open>error.get("retry_after") or response.get("retry_after")\<close>, and the \<open>isinstance\<close> test: a \<open>bool\<close> is an
  \<open>int\<close> in Python.\<close>

definition retry_after_value :: "meta_error \<Rightarrow> json option" where
  "retry_after_value exc =
     (let response = (case me_response_data exc of Some (JObj kvs) \<Rightarrow> JObj kvs | _ \<Rightarrow> JObj []);
          error = (case jget response ''error'' of Some (JObj kvs) \<Rightarrow> JObj kvs | _ \<Rightarrow> JObj [])
      in if j_truthy (jget error ''retry_after'') then jget error ''retry_after''
         else jget response ''retry_after'')"

definition TRANSIENT_STATUS :: "int list" where
  "TRANSIENT_STATUS = [500, 502, 503, 504]"

text \<open>The delay in microseconds; \<open>jitter\<close> is \<open>random.random()\<close>, a number of microseconds below one second.\<close>

definition meta_retry_after_seconds :: "int \<Rightarrow> meta_error \<Rightarrow> nat \<Rightarrow> int" where
  "meta_retry_after_seconds jitter exc attempt =
     (let backoff =
        (if me_status_code exc = Some 429 then min (seconds 120) (seconds (2 ^ min attempt 6) + jitter)
         else if (case me_status_code exc of None \<Rightarrow> False | Some c \<Rightarrow> c \<in> set TRANSIENT_STATUS)
           then min (seconds 60) (seconds (2 ^ min attempt 4) + jitter)
         else 0)
      in case retry_after_value exc of
           Some (JInt i) \<Rightarrow> if i > 0 then seconds i else backoff
         | Some (JBool b) \<Rightarrow> if b then seconds 1 else backoff
         | _ \<Rightarrow> backoff)"

definition is_transient_meta_error :: "meta_error \<Rightarrow> bool" where
  "is_transient_meta_error exc =
     (if me_status_code exc = Some 429 then True
      else (case me_status_code exc of None \<Rightarrow> False | Some c \<Rightarrow> c \<in> set TRANSIENT_STATUS))"

text \<open>\<open>sleep_for_meta_backoff\<close>: the delay it returns and the clock after the sleep.\<close>

definition sleep_for_meta_backoff :: "int \<Rightarrow> meta_error \<Rightarrow> nat \<Rightarrow> datetime \<Rightarrow> int \<times> datetime" where
  "sleep_for_meta_backoff jitter exc attempt now =
     (let delay = meta_retry_after_seconds jitter exc attempt
      in (delay, if delay > 0 then now + delay else now))"

lemma backoff_positive:
  assumes "is_transient_meta_error exc" "0 \<le> jitter"
  shows "0 < meta_retry_after_seconds jitter exc attempt"
proof -
  have p: "0 < min (seconds 120) (seconds (2 ^ k) + jitter)" "0 < min (seconds 60) (seconds (2 ^ k) + jitter)" for k
    using assms(2) by (auto simp: seconds_def add_pos_nonneg)
  show ?thesis
    using assms p unfolding meta_retry_after_seconds_def is_transient_meta_error_def Let_def
    by (auto simp: seconds_def split: if_splits option.splits json.splits)
qed

text \<open>A transient answer of Meta (429, or 500, 502, 503, 504) always makes the worker wait; without a
  \<open>retry_after\<close> in the answer the wait is at most 65 seconds after a 429 (the cap of 120 seconds in the code
  is never the smaller one) and at most 17 seconds after a server error; and an error that is not
  transient and carries no \<open>retry_after\<close> causes no wait.\<close>

theorem meta_backoff_bounds:
  assumes "0 \<le> jitter" "jitter < seconds 1" "retry_after_value exc = None"
  shows "(if me_status_code exc = Some 429
          then seconds 1 \<le> meta_retry_after_seconds jitter exc attempt \<and> meta_retry_after_seconds jitter exc attempt < seconds 65
          else if is_transient_meta_error exc
          then seconds 1 \<le> meta_retry_after_seconds jitter exc attempt \<and> meta_retry_after_seconds jitter exc attempt < seconds 17
          else meta_retry_after_seconds jitter exc attempt = 0)"
proof -
  have s1: "(1000000::int) \<le> 2 ^ k * 1000000 + jitter" for k
    using assms(1) one_le_power [of "2::int" k] by linarith
  have p6: "(2::int) ^ min attempt 6 \<le> 2 ^ 6" and p4: "(2::int) ^ min attempt 4 \<le> 2 ^ 4"
    by (rule power_increasing; simp)+
  show ?thesis
    using assms p6 p4 s1 [of attempt]
    unfolding meta_retry_after_seconds_def is_transient_meta_error_def Let_def seconds_def
    by (auto simp: min_def split: option.splits)
qed

lemma meta_backoff_bounds_witness:
  "meta_retry_after_seconds 500000 \<lparr>me_message = ''limit'', me_status_code = Some 429, me_response_data = None\<rparr> 9
     < seconds 65"
  using meta_backoff_bounds [of 500000 "\<lparr>me_message = ''limit'', me_status_code = Some 429, me_response_data = None\<rparr>" 9]
  by (simp add: seconds_def retry_after_value_def)

definition delivery_status_event ::
  "uuid \<Rightarrow> uuid \<Rightarrow> uuid option \<Rightarrow> string \<Rightarrow> string option \<Rightarrow> json" where
  "delivery_status_event account_id message_id conversation_id status_value external_id =
     JObj [(''type'', JStr ''message.status_updated''),
       (''message_id'', JStr (uuid_str message_id)),
       (''conversation_id'', case conversation_id of None \<Rightarrow> JNull | Some c \<Rightarrow> JStr (uuid_str c)),
       (''status'', JStr status_value),
       (''external_message_id'', case external_id of None \<Rightarrow> JNull | Some e \<Rightarrow> JStr e),
       (''account_id'', JStr (uuid_str account_id))]"

section \<open>Eligibility and delivery bookkeeping\<close>

definition UNREACHABLE_PATTERNS :: "string list" where
  "UNREACHABLE_PATTERNS = [''healthy ecosystem engagement'', ''not on whatsapp'', ''no longer on whatsapp'',
     ''invalid phone'', ''131026'', ''131049'', ''recipient not valid'', ''undeliverable'',
     ''message undeliverable'']"

definition RISKY_PATTERNS :: "string list" where
  "RISKY_PATTERNS = [''rate limit'', ''temporarily'', ''131000'']"

definition classify_delivery_error :: "string option \<Rightarrow> reachability_status" where
  "classify_delivery_error error_message =
     (let normalized = py_lower (py_strip (case error_message of None \<Rightarrow> [] | Some m \<Rightarrow> m)) in
      if normalized = [] then RISKY
      else if list_ex (contains normalized) UNREACHABLE_PATTERNS then UNREACHABLE
      else if list_ex (contains normalized) RISKY_PATTERNS then RISKY
      else RISKY)"

definition is_phone_valid_for_whatsapp :: "contact \<Rightarrow> bool" where
  "is_phone_valid_for_whatsapp contact =
     (let dial = dial_code contact in normalize_whatsapp_phone (Some (con_external_address contact)) dial \<noteq> [])"

definition is_contact_campaign_eligible :: "contact \<Rightarrow> bool \<Rightarrow> bool \<Rightarrow> bool \<Rightarrow> bool" where
  "is_contact_campaign_eligible contact exclude_unreachable exclude_risky require_marketing_opt_in =
     (if require_marketing_opt_in \<and> con_marketing_opt_in contact = False then False
      else if \<not> is_phone_valid_for_whatsapp contact then False
      else (let status = con_reachability_status contact in
        if exclude_unreachable \<and> status = Some UNREACHABLE then False
        else if exclude_risky \<and> status = Some RISKY then False
        else if exclude_risky \<and> con_last_inbound_at contact = None \<and> status \<noteq> Some REACHABLE then False
        else True))"

definition record_delivery_failure :: "datetime \<Rightarrow> string option \<Rightarrow> contact \<Rightarrow> contact" where
  "record_delivery_failure now error_message contact =
     (let c = contact\<lparr>con_delivery_failure_count := con_delivery_failure_count contact + 1,
            con_last_delivery_failure_at := Some now\<rparr>;
          c = (case error_message of None \<Rightarrow> c | Some [] \<Rightarrow> c
               | Some m \<Rightarrow> c\<lparr>con_reachability_reason := Some (take 500 m)\<rparr>);
          classified = classify_delivery_error error_message
      in if classified = UNREACHABLE \<or> con_delivery_failure_count c \<ge> 2
         then c\<lparr>con_reachability_status := Some UNREACHABLE\<rparr>
         else c\<lparr>con_reachability_status := Some RISKY\<rparr>)"

definition record_delivery_success :: "contact \<Rightarrow> contact" where
  "record_delivery_success contact = contact\<lparr>con_reachability_status := Some REACHABLE,
     con_reachability_reason := None, con_delivery_failure_count := 0, con_last_delivery_failure_at := None\<rparr>"

definition record_inbound_activity :: "datetime \<Rightarrow> contact \<Rightarrow> contact" where
  "record_inbound_activity now contact = contact\<lparr>con_reachability_status := Some REACHABLE,
     con_reachability_reason := None, con_last_inbound_at := Some now\<rparr>"

text \<open>The events of a contact's life, and the contact after a sequence of them.\<close>

datatype delivery_event = Failure datetime "string option" | Success | Inbound datetime

fun on_delivery_event :: "contact \<Rightarrow> delivery_event \<Rightarrow> contact" where
  "on_delivery_event c (Failure now m) = record_delivery_failure now m c"
| "on_delivery_event c Success = record_delivery_success c"
| "on_delivery_event c (Inbound now) = record_inbound_activity now c"

fun failures_since_success :: "delivery_event list \<Rightarrow> int" where
  "failures_since_success [] = 0"
| "failures_since_success (Failure _ _ # older) = failures_since_success older + 1"
| "failures_since_success (Success # older) = 0"
| "failures_since_success (Inbound _ # older) = failures_since_success older"

lemma failure_status:
  "con_reachability_status (record_delivery_failure now m c) =
     Some (if classify_delivery_error m = UNREACHABLE \<or> con_delivery_failure_count c + 1 \<ge> 2 then UNREACHABLE else RISKY)"
  "con_delivery_failure_count (record_delivery_failure now m c) = con_delivery_failure_count c + 1"
  by (auto simp: record_delivery_failure_def Let_def split: option.splits list.splits)

lemma failure_count:
  assumes "con_delivery_failure_count c = 0"
  shows "con_delivery_failure_count (foldr (\<lambda>e c. on_delivery_event c e) es c) = failures_since_success es"
  using assms
  by (induction es rule: failures_since_success.induct)
    (simp_all add: failure_status record_delivery_success_def record_inbound_activity_def)

text \<open>After any history of a contact (newest event first in the list, from a contact with no failures),
  the status is decided by the newest event: unreachable exactly when it is a failure whose text is one
  of the known fatal texts or which is at least the second failure since the last successful delivery
  (an inbound message in between does not reset the count), risky for any other failure, reachable after
  a success or an inbound message.\<close>

theorem reachability_after_history:
  assumes "con_delivery_failure_count c = 0"
  shows "con_reachability_status (foldr (\<lambda>e c. on_delivery_event c e) (e # es) c) =
     Some (case e of
        Failure now m \<Rightarrow> if classify_delivery_error m = UNREACHABLE \<or> failures_since_success es \<ge> 1
                         then UNREACHABLE else RISKY
      | Success \<Rightarrow> REACHABLE
      | Inbound now \<Rightarrow> REACHABLE)"
  using failure_count [OF assms, of es]
  by (cases e) (simp_all add: failure_status record_delivery_success_def record_inbound_activity_def)

definition fresh_contact :: "uuid \<Rightarrow> string \<Rightarrow> contact" where
  "fresh_contact i addr = \<lparr>con_id = i, con_account_id = 1, con_organization_id = 2, con_channel_id = 3,
     con_external_address = addr, con_display_name = None, con_email = None, con_language = None,
     con_gender = ''unknown'', con_country_code = Some ''KW'',
     con_marketing_opt_in = True, con_reachability_status = None, con_reachability_reason = None,
     con_delivery_failure_count = 0, con_last_delivery_failure_at = None, con_last_inbound_at = None,
     con_lifecycle_stage = ''lead'', con_deleted_at = None\<rparr>"

lemma reachability_after_history_witness:
  "con_reachability_status (foldr (\<lambda>e c. on_delivery_event c e)
     [Failure 30 (Some ''rate limit''), Inbound 20, Failure 10 None] (fresh_contact 5 ''50000000'')) = Some UNREACHABLE"
  using reachability_after_history [of "fresh_contact 5 ''50000000''" "Failure 30 (Some ''rate limit'')" "[Inbound 20, Failure 10 None]"]
  by (simp add: fresh_contact_def)

section \<open>Audience queries\<close>

record reachability_summary =
  rs_reachable :: nat
  rs_risky :: nat
  rs_unreachable :: nat
  rs_invalid_phone :: nat
  rs_cold_audience :: nat
  rs_warm_audience :: nat

definition no_reachability :: reachability_summary where
  "no_reachability = \<lparr>rs_reachable = 0, rs_risky = 0, rs_unreachable = 0, rs_invalid_phone = 0,
     rs_cold_audience = 0, rs_warm_audience = 0\<rparr>"

definition summarize_contact ::
  "(uuid \<rightharpoonup> datetime) \<Rightarrow> contact \<Rightarrow> reachability_summary \<Rightarrow> reachability_summary" where
  "summarize_contact last_inbound contact s =
     (if \<not> is_phone_valid_for_whatsapp contact then s\<lparr>rs_invalid_phone := rs_invalid_phone s + 1\<rparr>
      else
        (let status = con_reachability_status contact;
             inbound_at = (case last_inbound (con_id contact) of Some t \<Rightarrow> Some t | None \<Rightarrow> con_last_inbound_at contact);
             s = (if inbound_at = None then s\<lparr>rs_cold_audience := rs_cold_audience s + 1\<rparr>
                  else s\<lparr>rs_warm_audience := rs_warm_audience s + 1\<rparr>)
         in if status = Some UNREACHABLE then s\<lparr>rs_unreachable := rs_unreachable s + 1\<rparr>
            else if status = Some RISKY \<or> inbound_at = None then s\<lparr>rs_risky := rs_risky s + 1\<rparr>
            else s\<lparr>rs_reachable := rs_reachable s + 1\<rparr>))"

text \<open>The contacts of the account with these ids that are not deleted.\<close>

definition live_contacts :: "db \<Rightarrow> uuid \<Rightarrow> uuid list \<Rightarrow> contact list" where
  "live_contacts s account_id contact_ids =
     filter (\<lambda>c. con_account_id c = account_id \<and> con_id c \<in> set contact_ids \<and> con_deleted_at c = None) (contacts s)"

definition summarize_reachability ::
  "db \<Rightarrow> uuid \<Rightarrow> uuid list \<Rightarrow> (uuid \<rightharpoonup> datetime) \<Rightarrow> reachability_summary" where
  "summarize_reachability s account_id contact_ids last_inbound =
     (if contact_ids = [] then no_reachability
      else fold (summarize_contact last_inbound) (live_contacts s account_id contact_ids) no_reachability)"

definition SENT_STATUSES :: "recipient_status list" where
  "SENT_STATUSES = [RQueued, RSending, RSent, RDelivered, RRead]"

text \<open>The join of a recipient with its campaign.\<close>

definition campaign_of :: "db \<Rightarrow> campaign_recipient \<Rightarrow> campaign option" where
  "campaign_of s r = get_campaign_row s (rcp_campaign_id r)"

definition get_previously_sent_contact_ids :: "db \<Rightarrow> uuid \<Rightarrow> uuid list \<Rightarrow> uuid set" where
  "get_previously_sent_contact_ids s account_id contact_ids =
     (if contact_ids = [] then {}
      else set (List.map_filter msg_contact_id
             (filter (\<lambda>m. msg_account_id m = account_id
                \<and> (case msg_contact_id m of None \<Rightarrow> False | Some c \<Rightarrow> c \<in> set contact_ids)
                \<and> msg_direction m = OUTBOUND) (messages s)))
         \<union> set (map rcp_contact_id
             (filter (\<lambda>r. (case campaign_of s r of None \<Rightarrow> False | Some c \<Rightarrow> cmp_account_id c = account_id)
                \<and> rcp_contact_id r \<in> set contact_ids \<and> rcp_status r \<in> set SENT_STATUSES) (recipients s))))"

definition filter_never_sent_contact_ids :: "db \<Rightarrow> uuid \<Rightarrow> uuid list \<Rightarrow> uuid list" where
  "filter_never_sent_contact_ids s account_id contact_ids =
     (let previously = get_previously_sent_contact_ids s account_id contact_ids
      in filter (\<lambda>c. c \<notin> previously) contact_ids)"

definition count_campaign_eligible :: "db \<Rightarrow> uuid \<Rightarrow> uuid list \<Rightarrow> bool \<Rightarrow> bool \<Rightarrow> nat" where
  "count_campaign_eligible s account_id contact_ids exclude_unreachable exclude_risky =
     (if contact_ids = [] then 0
      else length (filter (\<lambda>c. is_contact_campaign_eligible c exclude_unreachable exclude_risky True)
             (filter con_marketing_opt_in (live_contacts s account_id contact_ids))))"

lemma summarize_contact_totals:
  "rs_invalid_phone (summarize_contact li c s) + rs_cold_audience (summarize_contact li c s)
      + rs_warm_audience (summarize_contact li c s)
     = Suc (rs_invalid_phone s + rs_cold_audience s + rs_warm_audience s)"
  "rs_invalid_phone (summarize_contact li c s) + rs_reachable (summarize_contact li c s)
      + rs_risky (summarize_contact li c s) + rs_unreachable (summarize_contact li c s)
     = Suc (rs_invalid_phone s + rs_reachable s + rs_risky s + rs_unreachable s)"
  by (simp_all add: summarize_contact_def Let_def)

lemma summarize_fold_totals:
  "rs_invalid_phone (fold (summarize_contact li) cs s) + rs_cold_audience (fold (summarize_contact li) cs s)
      + rs_warm_audience (fold (summarize_contact li) cs s)
     = length cs + (rs_invalid_phone s + rs_cold_audience s + rs_warm_audience s)"
  "rs_invalid_phone (fold (summarize_contact li) cs s) + rs_reachable (fold (summarize_contact li) cs s)
      + rs_risky (fold (summarize_contact li) cs s) + rs_unreachable (fold (summarize_contact li) cs s)
     = length cs + (rs_invalid_phone s + rs_reachable s + rs_risky s + rs_unreachable s)"
  by (induction cs arbitrary: s) (simp_all add: summarize_contact_totals)

text \<open>The audience summary is a partition: every live contact of the requested ids is counted exactly once
  as reachable, risky, unreachable or with an invalid phone, and the contacts with a valid phone exactly
  once as cold or warm.\<close>

theorem summary_partitions_audience:
  "(let r = summarize_reachability s account_id ids last_inbound in
     rs_reachable r + rs_risky r + rs_unreachable r + rs_invalid_phone r = length (live_contacts s account_id ids)
   \<and> rs_cold_audience r + rs_warm_audience r = rs_reachable r + rs_risky r + rs_unreachable r)"
proof (cases "ids = []")
  case True
  then show ?thesis
    by (simp add: summarize_reachability_def no_reachability_def live_contacts_def)
next
  case False
  show ?thesis
    using summarize_fold_totals [of last_inbound "live_contacts s account_id ids" no_reachability] False
    by (simp add: summarize_reachability_def no_reachability_def Let_def)
qed

lemma never_sent_iff:
  "c \<in> set (filter_never_sent_contact_ids s a ids) \<longleftrightarrow>
     c \<in> set ids
   \<and> \<not> (\<exists>m \<in> set (messages s). msg_account_id m = a \<and> msg_contact_id m = Some c \<and> msg_direction m = OUTBOUND)
   \<and> \<not> (\<exists>r \<in> set (recipients s). rcp_contact_id r = c \<and> rcp_status r \<in> set SENT_STATUSES
        \<and> (\<exists>k. campaign_of s r = Some k \<and> cmp_account_id k = a))"
proof (cases "ids = []")
  case True
  then show ?thesis by (simp add: filter_never_sent_contact_ids_def)
next
  case False
  have m: "c \<in> set (List.map_filter msg_contact_id ms) \<longleftrightarrow> (\<exists>m \<in> set ms. msg_contact_id m = Some c)" for ms
    by (force simp: List.map_filter_def)
  show ?thesis
    using False unfolding filter_never_sent_contact_ids_def get_previously_sent_contact_ids_def Let_def
    by (auto simp: m split: option.splits)
qed

section \<open>Backfill from failed campaign rows\<close>

text \<open>\<open>updated_at\<close> is the time stamp of a recipient row, which only this query reads; the rows come
  newest first.\<close>

definition failed_rows :: "db \<Rightarrow> (uuid \<Rightarrow> datetime) \<Rightarrow> campaign_recipient list" where
  "failed_rows s updated_at = sort_key (\<lambda>r. - updated_at (rcp_id r))
     (filter (\<lambda>r. rcp_status r = RFailed \<and> rcp_error_message r \<noteq> None) (recipients s))"

fun backfill_row ::
  "(uuid \<Rightarrow> datetime) \<Rightarrow> campaign_recipient \<Rightarrow> uuid list \<times> nat \<times> db \<Rightarrow> uuid list \<times> nat \<times> db" where
  "backfill_row updated_at r (seen, updated, s) =
     (if rcp_contact_id r \<in> set seen then (seen, updated, s)
      else (let seen = rcp_contact_id r # seen in
        case get_contact_row s (rcp_contact_id r) of
          None \<Rightarrow> (seen, updated, s)
        | Some contact \<Rightarrow>
            if con_deleted_at contact \<noteq> None then (seen, updated, s)
            else if con_reachability_status contact = Some UNREACHABLE then (seen, updated, s)
            else if classify_delivery_error (rcp_error_message r) \<noteq> UNREACHABLE then (seen, updated, s)
            else (seen, updated + 1,
              put_contact (contact\<lparr>con_reachability_status := Some UNREACHABLE,
                 con_reachability_reason := map_option (take 500) (rcp_error_message r),
                 con_delivery_failure_count := max (con_delivery_failure_count contact) 1,
                 con_last_delivery_failure_at := Some (updated_at (rcp_id r))\<rparr>) s)))"

definition backfill_unreachable_from_campaign_failures :: "(uuid \<Rightarrow> datetime) \<Rightarrow> db \<Rightarrow> nat \<times> db" where
  "backfill_unreachable_from_campaign_failures updated_at s =
     snd (fold (backfill_row updated_at) (failed_rows s updated_at) ([], 0, s))"

definition fatal_for :: "uuid \<Rightarrow> campaign_recipient \<Rightarrow> bool" where
  "fatal_for i r \<longleftrightarrow> rcp_contact_id r = i \<and> classify_delivery_error (rcp_error_message r) = UNREACHABLE"

lemma backfill_row_contact:
  assumes "get_contact_row s i = Some c" and "backfill_row upd r (seen, n, s) = (seen', n', s')"
  shows "\<exists>c'. get_contact_row s' i = Some c'
     \<and> (c' = c \<or> con_reachability_status c' = Some UNREACHABLE \<and> con_deleted_at c = None \<and> fatal_for i r
          \<and> con_deleted_at c' = None)"
proof (cases "s' = s")
  case True
  with assms(1) show ?thesis by blast
next
  case False
  then obtain k where k: "get_contact_row s (rcp_contact_id r) = Some k" "con_deleted_at k = None"
      "classify_delivery_error (rcp_error_message r) = UNREACHABLE"
    and s': "s' = put_contact (k\<lparr>con_reachability_status := Some UNREACHABLE,
                 con_reachability_reason := map_option (take 500) (rcp_error_message r),
                 con_delivery_failure_count := max (con_delivery_failure_count k) 1,
                 con_last_delivery_failure_at := Some (upd (rcp_id r))\<rparr>) s"
    using assms(2) by (auto simp: Let_def split: if_splits option.splits)
  have id: "con_id k = rcp_contact_id r" using k(1) by (rule contact_rows.get_key)
  show ?thesis
  proof (cases "i = rcp_contact_id r")
    case True
    with k assms(1) have "c = k" by simp
    with True k id assms(1) show ?thesis
      unfolding s' by (auto simp: contact_rows.get_put fatal_for_def)
  next
    case False
    with id assms(1) show ?thesis unfolding s' by (auto simp: contact_rows.get_put)
  qed
qed

lemma backfill_fold_contact:
  assumes "get_contact_row s i = Some c" and "fold (backfill_row upd) rows (seen, n, s) = (seen', n', s')"
  shows "\<exists>c'. get_contact_row s' i = Some c'
     \<and> (c' = c \<or> con_reachability_status c' = Some UNREACHABLE \<and> con_deleted_at c = None
          \<and> (\<exists>r \<in> set rows. fatal_for i r))"
  using assms
proof (induction rows arbitrary: seen n s c)
  case Nil
  then show ?case by simp
next
  case (Cons r rows)
  obtain seen1 n1 s1 where step: "backfill_row upd r (seen, n, s) = (seen1, n1, s1)"
    by (metis prod_cases3)
  from backfill_row_contact [OF Cons.prems(1) step] obtain c1 where
    c1: "get_contact_row s1 i = Some c1" and
    or1: "c1 = c \<or> con_reachability_status c1 = Some UNREACHABLE \<and> con_deleted_at c = None \<and> fatal_for i r
          \<and> con_deleted_at c1 = None"
    by blast
  have "fold (backfill_row upd) rows (seen1, n1, s1) = (seen', n', s')"
    using Cons.prems(2) step by (simp del: backfill_row.simps)
  from Cons.IH [OF c1 this] obtain c2 where
    "get_contact_row s' i = Some c2" and
    "c2 = c1 \<or> con_reachability_status c2 = Some UNREACHABLE \<and> con_deleted_at c1 = None
       \<and> (\<exists>r \<in> set rows. fatal_for i r)"
    by blast
  with or1 show ?case by auto
qed

text \<open>The backfill only ever downgrades: a contact either keeps its row as it was, or becomes unreachable,
  and then it was not deleted and has a failed campaign row whose error is one of the fatal ones.  No
  contact row appears or disappears.\<close>

theorem backfill_only_marks_fatal:
  assumes "get_contact_row s i = Some c"
    and "backfill_unreachable_from_campaign_failures updated_at s = (n, s')"
  shows "\<exists>c'. get_contact_row s' i = Some c'
     \<and> (c' = c \<or> con_reachability_status c' = Some UNREACHABLE \<and> con_deleted_at c = None
          \<and> (\<exists>r \<in> set (recipients s). rcp_status r = RFailed \<and> rcp_contact_id r = i
                \<and> classify_delivery_error (rcp_error_message r) = UNREACHABLE))"
proof -
  obtain seen where "fold (backfill_row updated_at) (failed_rows s updated_at) ([], 0, s) = (seen, n, s')"
    using assms(2) unfolding backfill_unreachable_from_campaign_failures_def by (metis prod.collapse)
  from backfill_fold_contact [OF assms(1) this] show ?thesis
    by (auto simp: failed_rows_def fatal_for_def)
qed

definition failed_recipient :: "uuid \<Rightarrow> uuid \<Rightarrow> string \<Rightarrow> campaign_recipient" where
  "failed_recipient i c m = \<lparr>rcp_id = i, rcp_campaign_id = 1, rcp_contact_id = c, rcp_status = RFailed,
     rcp_template_parameters = None, rcp_external_message_id = None, rcp_error_message = Some m,
     rcp_delivery_key = None, rcp_sending_started_at = None, rcp_last_attempt_at = None\<rparr>"

definition backfill_example :: db where
  "backfill_example = empty_db\<lparr>contacts := [fresh_contact 5 ''50000000'', fresh_contact 6 ''50000001''],
     recipients := [failed_recipient 10 5 ''(#131026) Undeliverable'', failed_recipient 11 6 ''timeout'']\<rparr>"

lemma backfill_only_marks_fatal_witness:
  "\<exists>c'. get_contact_row (snd (backfill_unreachable_from_campaign_failures (\<lambda>_. 7) backfill_example)) 6 = Some c'
     \<and> c' = fresh_contact 6 ''50000001''"
proof -
  have c: "get_contact_row backfill_example 6 = Some (fresh_contact 6 ''50000001'')"
    by (simp add: backfill_example_def get_contact_row_def tbl_get_def fresh_contact_def)
  have not_fatal: "classify_delivery_error (Some ''timeout'') = RISKY"
    by code_simp
  show ?thesis
    using backfill_only_marks_fatal [OF c prod.collapse [symmetric], of "\<lambda>_. 7"]
    by (auto simp: backfill_example_def failed_recipient_def not_fatal)
qed

section \<open>Feature flags\<close>

definition DEFAULT_FLAGS :: "(string \<times> bool) list" where
  "DEFAULT_FLAGS =
    [(''ai_agent_auto_reply'', True), (''sla_monitoring'', True), (''privacy_mask_agents'', True),
     (''instagram_channel'', True), (''messenger_channel'', False), (''marketplace_installs'', True),
     (''http_automation_requests'', True), (''carousel_templates'', False), (''fast_campaigns'', False),
     (''ctwa_dashboard'', True), (''meta_capi'', False), (''follow_up_campaigns'', False),
     (''no_code_bot_enhanced'', False), (''collect_input_forms'', False), (''ai_lead_agent'', False),
     (''ai_support_agent'', False), (''shopify_integration'', False), (''woocommerce_integration'', False),
     (''order_templates'', False)]"

definition get_feature_flags :: "db \<Rightarrow> uuid \<Rightarrow> (string \<times> bool) list" where
  "get_feature_flags s account_id =
     (case get_account s account_id of
        None \<Rightarrow> DEFAULT_FLAGS
      | Some account \<Rightarrow> dict_update DEFAULT_FLAGS (acc_feature_flags account))"

definition update_feature_flags ::
  "uuid \<Rightarrow> (string \<times> bool) list \<Rightarrow> db \<Rightarrow> (string \<times> bool) list outcome \<times> db" where
  "update_feature_flags account_id updates s =
     (case get_account s account_id of
        None \<Rightarrow> (Inl (ValueError ''ACCOUNT_NOT_FOUND''), s)
      | Some account \<Rightarrow>
          (let current = dict_update (acc_feature_flags account)
                 (filter (\<lambda>(k, v). k \<in> fst ` set DEFAULT_FLAGS) updates)
           in (Inr (dict_update DEFAULT_FLAGS current),
               put_account (account\<lparr>acc_feature_flags := current\<rparr>) s)))"

lemma update_feature_flags_read_back:
  assumes "update_feature_flags a ups s = (Inr flags, s')"
  shows "get_feature_flags s' a = flags"
proof (cases "get_account s a")
  case None
  with assms show ?thesis by (simp add: update_feature_flags_def)
next
  case (Some acc)
  then have "acc_id acc = a" by (rule account_rows.get_key)
  with Some assms show ?thesis
    by (auto simp: update_feature_flags_def get_feature_flags_def Let_def account_rows.get_put)
qed

lemma dict_update_mono_keys: "fst ` set (dict_update d e) = fst ` set d \<union> fst ` set e"
proof -
  have set1: "fst ` set (dict_set k v d) = insert k (fst ` set d)" for k v and d :: "(string \<times> 'a) list"
    by (induction k v d rule: dict_set.induct) auto
  show ?thesis by (induction d e rule: dict_update.induct) (auto simp: set1)
qed

lemma update_feature_flags_known_keys:
  assumes "get_account s a = Some acc" "fst ` set (acc_feature_flags acc) \<subseteq> fst ` set DEFAULT_FLAGS"
    and "update_feature_flags a ups s = (Inr flags, s')" "get_account s' a = Some acc'"
  shows "fst ` set (acc_feature_flags acc') \<subseteq> fst ` set DEFAULT_FLAGS"
proof -
  have acc': "acc_feature_flags acc' =
      dict_update (acc_feature_flags acc) (filter (\<lambda>(k, v). k \<in> fst ` set DEFAULT_FLAGS) ups)"
    using assms account_rows.get_key [OF assms(1)]
    by (auto simp: update_feature_flags_def Let_def account_rows.get_put)
  show ?thesis using assms(2) unfolding acc' dict_update_mono_keys by (auto; force)
qed

end
