(* ===== verification/CoreEngine.thy ===== *)
theory CoreEngine
  imports Models
begin

text \<open>
  The core engine (\<open>app/core_engine/\<close>) and the idempotency service: the command bus with
  idempotent dispatch, the query bus, the event bus with its registered handlers, the resource
  registry and the secrets vault.

  A handler is a function from the request and the database to an outcome and the database it
  leaves; what other sessions commit while it runs is part of that function.  \<open>interf\<close> is what they commit between the search for a key and
  the insert that follows it.  SHA-256,
  the encryption of \<open>cryptography.fernet\<close> and the Redis connection are parameters.
\<close>

section \<open>Idempotency records\<close>

subsection \<open>Canonical JSON text\<close>

definition json_escape_char :: "char \<Rightarrow> string" where
  "json_escape_char c = (let n = (of_char c :: nat) in
     if n = 34 then [char_of (92::nat), char_of (34::nat)]
     else if n = 92 then [char_of (92::nat), char_of (92::nat)]
     else if n = 10 then char_of (92::nat) # ''n''
     else if n = 13 then char_of (92::nat) # ''r''
     else if n = 9 then char_of (92::nat) # ''t''
     else if n = 8 then char_of (92::nat) # ''b''
     else if n = 12 then char_of (92::nat) # ''f''
     else if 32 \<le> n \<and> n \<le> 126 then [c]
     else char_of (92::nat) # ''u'' @ hex_digits 4 n)"

definition json_quote :: "string \<Rightarrow> string" where
  "json_quote s = char_of (34::nat) # concat (map json_escape_char s) @ [char_of (34::nat)]"

text \<open>\<open>json.dumps(payload, sort_keys=True, separators=(",", ":"))\<close>\<close>

fun json_dumps :: "json \<Rightarrow> string" where
  "json_dumps JNull = ''null''"
| "json_dumps (JBool b) = (if b then ''true'' else ''false'')"
| "json_dumps (JInt i) = int_str i"
| "json_dumps (JStr s) = json_quote s"
| "json_dumps (JList xs) = ''['' @ join '','' (map json_dumps xs) @ '']''"
| "json_dumps (JObj kvs) = char_of (123::nat) # join '',''
     (map (\<lambda>(k, t). json_quote k @ '':'' @ t)
        (sort_key fst (map (\<lambda>(k, v). (k, json_dumps v)) kvs))) @ [char_of (125::nat)]"

definition fingerprint :: "(string \<Rightarrow> string) \<Rightarrow> (string \<times> json) list \<Rightarrow> string" where
  "fingerprint sha256 payload = sha256 (json_dumps (JObj payload))"

subsection \<open>Reserving, completing and failing a key\<close>

definition find_idempotency :: "db \<Rightarrow> uuid \<Rightarrow> string \<Rightarrow> string \<Rightarrow> idempotency_record option" where
  "find_idempotency s account_id command_name key =
     find (\<lambda>r. idem_account_id r = account_id \<and> idem_command_name r = command_name \<and> idem_key r = key)
       (idempotency_records s)"

definition reserve :: "(string \<Rightarrow> string) \<Rightarrow> (db \<Rightarrow> db) \<Rightarrow> datetime \<Rightarrow> uuid \<Rightarrow> db \<Rightarrow> uuid \<Rightarrow> string \<Rightarrow> string \<Rightarrow>
    (string \<times> json) list \<Rightarrow> int \<Rightarrow> (idempotency_record \<times> bool) outcome \<times> db" where
  "reserve sha256 interf now new_id s account_id command_name key payload ttl_hours =
     (let fp = fingerprint sha256 payload in
      case find_idempotency s account_id command_name key of
        Some current \<Rightarrow>
          if idem_request_fingerprint current \<noteq> fp
          then (Inl (ValueError ''IDEMPOTENCY_KEY_REUSED_WITH_DIFFERENT_PAYLOAD''), s)
          else (Inr (current, False), s)
      | None \<Rightarrow>
          (let current = \<lparr>idem_id = new_id, idem_account_id = account_id, idem_command_name = command_name,
                idem_key = key, idem_request_fingerprint = fp, idem_status = IdemProcessing,
                idem_response_payload = None, idem_error_message = None,
                idem_expires_at = now + hours ttl_hours\<rparr>;
              s' = interf s
          in (case find_idempotency s' account_id command_name key of
               None \<Rightarrow> (Inr (current, True),
                 s'\<lparr>idempotency_records := idempotency_records s' @ [current]\<rparr>)
             | Some other \<Rightarrow>
                 if idem_request_fingerprint other \<noteq> fp
                 then (Inl (ValueError ''IDEMPOTENCY_KEY_REUSED_WITH_DIFFERENT_PAYLOAD''), s')
                 else (Inr (other, False), s'))))"

definition complete :: "idempotency_record \<Rightarrow> json \<Rightarrow> db \<Rightarrow> db" where
  "complete record response_payload s = put_idempotency
     (record\<lparr>idem_status := IdemCompleted, idem_response_payload := Some response_payload,
        idem_error_message := None\<rparr>) s"

definition fail_record :: "idempotency_record \<Rightarrow> string \<Rightarrow> db \<Rightarrow> db" where
  "fail_record record error_message s = put_idempotency
     (record\<lparr>idem_status := IdemFailed, idem_error_message := Some (take 2000 error_message)\<rparr>) s"

section \<open>Commands\<close>

record command =
  cmd_name :: string
  cmd_account_id :: uuid
  cmd_payload :: "(string \<times> json) list"
  cmd_actor_user_id :: "uuid option"
  cmd_correlation_id :: uuid
  cmd_idempotency_key :: "string option"

text \<open>What a handler returns, by the cases that \<open>_serialize_result\<close> tells apart.\<close>

datatype py_value = PyNone | PyModel json | PyDataclass json | PyDict json | PyPrimitive json
  | PyWithId uuid | PyOther string

fun serialize_result :: "py_value \<Rightarrow> json" where
  "serialize_result PyNone = JObj [(''value'', JNull)]"
| "serialize_result (PyModel dump) = JObj [(''value'', dump)]"
| "serialize_result (PyDataclass as_dict) = JObj [(''value'', as_dict)]"
| "serialize_result (PyDict d) = JObj [(''value'', d)]"
| "serialize_result (PyPrimitive v) = JObj [(''value'', v)]"
| "serialize_result (PyWithId i) = JObj [(''resource_id'', JStr (uuid_str i))]"
| "serialize_result (PyOther text) = JObj [(''value'', JStr text)]"

type_synonym handler = "command \<Rightarrow> db \<Rightarrow> py_value outcome \<times> db"

definition register_command :: "string \<Rightarrow> 'h \<Rightarrow> (string \<rightharpoonup> 'h) \<Rightarrow> (string \<rightharpoonup> 'h) outcome" where
  "register_command command_name h handlers =
     (if handlers command_name \<noteq> None
      then Inl (ValueError (''Command handler already registered: '' @ command_name))
      else Inr (handlers(command_name \<mapsto> h)))"

definition run_handler :: "handler \<Rightarrow> command \<Rightarrow> idempotency_record option \<Rightarrow> db \<Rightarrow> py_value outcome \<times> db" where
  "run_handler h command record s =
     (case h command s of
        (Inr result, s') \<Rightarrow> (Inr result,
           (case record of None \<Rightarrow> s' | Some r \<Rightarrow> complete r (serialize_result result) s'))
      | (Inl exc, s') \<Rightarrow> (Inl exc,
           (case record of None \<Rightarrow> s' | Some r \<Rightarrow> fail_record r (error_text exc) s')))"

definition replay_value :: "json option \<Rightarrow> py_value" where
  "replay_value p = (case p of None \<Rightarrow> PyNone | Some d \<Rightarrow> PyDict d)"

definition dispatch :: "(string \<Rightarrow> string) \<Rightarrow> (db \<Rightarrow> db) \<Rightarrow> datetime \<Rightarrow> uuid \<Rightarrow> (string \<rightharpoonup> handler) \<Rightarrow>
    command \<Rightarrow> bool \<Rightarrow> db \<Rightarrow> py_value outcome \<times> db" where
  "dispatch sha256 interf now new_id handlers command has_db s =
     (case handlers (cmd_name command) of
        None \<Rightarrow> (Inl (ValueError (''No handler registered for command: '' @ cmd_name command)), s)
      | Some h \<Rightarrow>
          (case cmd_idempotency_key command of
             None \<Rightarrow> run_handler h command None s
           | Some [] \<Rightarrow> run_handler h command None s
           | Some (c # cs) \<Rightarrow>
               if \<not> has_db then (Inl (ValueError ''DB_SESSION_REQUIRED_FOR_IDEMPOTENT_COMMAND''), s)
               else (case reserve sha256 interf now new_id s (cmd_account_id command) (cmd_name command)
                         (c # cs) (cmd_payload command) 24 of
                       (Inl e, s') \<Rightarrow> (Inl e, s')
                     | (Inr (record, created), s') \<Rightarrow>
                         if \<not> created \<and> idem_status record = IdemCompleted
                         then (Inr (replay_value (idem_response_payload record)), s')
                         else if \<not> created \<and> idem_status record = IdemProcessing
                         then (Inl (ValueError ''IDEMPOTENT_COMMAND_IN_PROGRESS''), s')
                         else run_handler h command (Some record) s')))"

section \<open>Queries\<close>

record query =
  qry_name :: string
  qry_account_id :: uuid
  qry_filters :: "(string \<times> json) list"
  qry_actor_user_id :: "uuid option"
  qry_correlation_id :: uuid

definition register_query :: "string \<Rightarrow> 'h \<Rightarrow> (string \<rightharpoonup> 'h) \<Rightarrow> (string \<rightharpoonup> 'h) outcome" where
  "register_query query_name h handlers =
     (if handlers query_name \<noteq> None
      then Inl (ValueError (''Query handler already registered: '' @ query_name))
      else Inr (handlers(query_name \<mapsto> h)))"

definition execute_query :: "(string \<rightharpoonup> (query \<Rightarrow> db \<Rightarrow> 'v outcome)) \<Rightarrow> query \<Rightarrow> db \<Rightarrow> 'v outcome" where
  "execute_query handlers q s =
     (case handlers (qry_name q) of
        None \<Rightarrow> Inl (ValueError (''No handler registered for query: '' @ qry_name q))
      | Some h \<Rightarrow> h q s)"

section \<open>Domain events\<close>

record domain_event =
  ev_name :: string
  ev_account_id :: uuid
  ev_payload :: json
  ev_actor_user_id :: "uuid option"
  ev_aggregate_type :: "string option"
  ev_aggregate_id :: "string option"
  ev_correlation_id :: uuid
  ev_event_id :: uuid
  ev_occurred_at :: datetime
  ev_version :: int

definition opt_str :: "string option \<Rightarrow> json" where
  "opt_str x = (case x of None \<Rightarrow> JNull | Some t \<Rightarrow> JStr t)"

definition event_to_dict :: "(datetime \<Rightarrow> string) \<Rightarrow> domain_event \<Rightarrow> json" where
  "event_to_dict isoformat e = JObj
     [(''name'', JStr (ev_name e)), (''account_id'', JStr (uuid_str (ev_account_id e))),
      (''payload'', ev_payload e), (''actor_user_id'', opt_str (map_option uuid_str (ev_actor_user_id e))),
      (''aggregate_type'', opt_str (ev_aggregate_type e)), (''aggregate_id'', opt_str (ev_aggregate_id e)),
      (''correlation_id'', JStr (uuid_str (ev_correlation_id e))),
      (''event_id'', JStr (uuid_str (ev_event_id e))),
      (''occurred_at'', JStr (isoformat (ev_occurred_at e))), (''version'', JInt (ev_version e))]"

type_synonym 'h subscribers = "string \<Rightarrow> 'h list"

definition subscribe :: "string \<Rightarrow> 'h \<Rightarrow> 'h subscribers \<Rightarrow> 'h subscribers" where
  "subscribe event_name h handlers =
     (if h \<in> set (handlers event_name) then handlers
      else handlers(event_name := handlers event_name @ [h]))"

text \<open>Handlers run in order on a world \<open>'w\<close>; the first exception stops the publication.\<close>

fun run_subscribers :: "('h \<Rightarrow> domain_event \<Rightarrow> 'w \<Rightarrow> py_error option \<times> 'w) \<Rightarrow> 'h list \<Rightarrow> domain_event \<Rightarrow> 'w \<Rightarrow>
    py_error option \<times> 'w" where
  "run_subscribers run [] e w = (None, w)"
| "run_subscribers run (h # hs) e w =
     (case run h e w of
        (Some exc, w') \<Rightarrow> (Some exc, w')
      | (None, w') \<Rightarrow> run_subscribers run hs e w')"

definition publish :: "('h \<Rightarrow> domain_event \<Rightarrow> 'w \<Rightarrow> py_error option \<times> 'w) \<Rightarrow>
    (uuid \<Rightarrow> json \<Rightarrow> 'w \<Rightarrow> py_error option \<times> 'w) \<Rightarrow> (datetime \<Rightarrow> string) \<Rightarrow> 'h subscribers \<Rightarrow>
    domain_event \<Rightarrow> 'w \<Rightarrow> py_error option \<times> 'w" where
  "publish run publish_event isoformat handlers e w =
     (case run_subscribers run (handlers (ev_name e)) e w of
        (Some exc, w1) \<Rightarrow> (Some exc, w1)
      | (None, w1) \<Rightarrow>
          (case run_subscribers run (handlers ''*'') e w1 of
             (Some exc, w2) \<Rightarrow> (Some exc, w2)
           | (None, w2) \<Rightarrow> publish_event (ev_account_id e)
               (JObj [(''type'', JStr ''domain.event''), (''event'', event_to_dict isoformat e)]) w2))"

subsection \<open>The handlers of \<open>services/event_handlers.py\<close>\<close>

datatype event_handler = OnAutomationRunQueued | OnWhatsappMessage

text \<open>\<open>str(run_id)\<close>; the code only stores texts and numbers under that key.\<close>

fun json_text :: "json \<Rightarrow> string" where
  "json_text (JStr s) = s"
| "json_text (JInt i) = int_str i"
| "json_text (JBool b) = (if b then ''True'' else ''False'')"
| "json_text v = json_dumps v"

definition run_id_from_event :: "domain_event \<Rightarrow> string option" where
  "run_id_from_event e =
     (let run_id = jget (ev_payload e) ''run_id'' in
      if j_truthy run_id then map_option json_text run_id
      else (case (ev_aggregate_type e, ev_aggregate_id e) of
              (Some t, Some (c # cs)) \<Rightarrow> if t = ''automation_run'' then Some (c # cs) else None
            | _ \<Rightarrow> None))"

text \<open>The world of these handlers is the queue of automation runs handed to the worker.\<close>

fun run_event_handler :: "event_handler \<Rightarrow> domain_event \<Rightarrow> string list \<Rightarrow> py_error option \<times> string list" where
  "run_event_handler OnAutomationRunQueued e queue =
     (case run_id_from_event e of
        Some (c # cs) \<Rightarrow> (None, queue @ [c # cs])
      | _ \<Rightarrow> (None, queue))"
| "run_event_handler OnWhatsappMessage e queue = (None, queue)"

definition register_event_handlers :: "event_handler subscribers \<Rightarrow> event_handler subscribers" where
  "register_event_handlers handlers =
     subscribe ''whatsapp.message'' OnWhatsappMessage
       (subscribe ''automation.run_queued'' OnAutomationRunQueued handlers)"

section \<open>Resource registry\<close>

definition register_resource :: "uuid \<Rightarrow> db \<Rightarrow> uuid \<Rightarrow> string \<Rightarrow> string \<Rightarrow> uuid option \<Rightarrow>
    (string \<times> json) list option \<Rightarrow> resource_record \<times> db" where
  "register_resource new_id s account_id resource_type resource_id owner_user_id metadata =
     (case find (\<lambda>r. res_account_id r = account_id \<and> res_resource_type r = resource_type \<and>
             res_resource_id r = resource_id) (resources s) of
        None \<Rightarrow>
          let item = \<lparr>res_id = new_id, res_account_id = account_id, res_resource_type = resource_type,
                res_resource_id = resource_id, res_owner_user_id = owner_user_id, res_version = 1,
                res_details = (case metadata of None \<Rightarrow> [] | Some d \<Rightarrow> d)\<rparr>
          in (item, s\<lparr>resources := resources s @ [item]\<rparr>)
      | Some found \<Rightarrow>
          let item = found\<lparr>res_version := res_version found + 1,
                res_owner_user_id := (case owner_user_id of None \<Rightarrow> res_owner_user_id found | Some u \<Rightarrow> Some u),
                res_details := (case metadata of None \<Rightarrow> res_details found
                                | Some d \<Rightarrow> dict_update (res_details found) d)\<rparr>
          in (item, s\<lparr>resources := tbl_put res_id item (resources s)\<rparr>))"

section \<open>Secrets vault\<close>

definition find_secret :: "db \<Rightarrow> uuid \<Rightarrow> string \<Rightarrow> integration_secret option" where
  "find_secret s account_id name =
     find (\<lambda>r. sec_account_id r = account_id \<and> sec_name r = name) (secrets s)"

definition vault_put :: "(string \<Rightarrow> string) \<Rightarrow> uuid \<Rightarrow> uuid \<Rightarrow> string \<Rightarrow> string \<Rightarrow> db \<Rightarrow> db" where
  "vault_put encrypt new_id account_id name value s =
     (let encrypted = encrypt value in
      case find_secret s account_id name of
        None \<Rightarrow> s\<lparr>secrets := secrets s @ [\<lparr>sec_id = new_id, sec_account_id = account_id,
                   sec_name = name, sec_encrypted_value = encrypted, sec_version = 1\<rparr>]\<rparr>
      | Some item \<Rightarrow> s\<lparr>secrets := tbl_put sec_id
                   (item\<lparr>sec_encrypted_value := encrypted, sec_version := sec_version item + 1\<rparr>) (secrets s)\<rparr>)"

definition decrypt_secret :: "(string \<Rightarrow> string option) \<Rightarrow> string \<Rightarrow> string outcome" where
  "decrypt_secret fernet_decrypt value =
     (case fernet_decrypt value of
        None \<Rightarrow> Inl (ValueError ''Unable to decrypt stored credential'')
      | Some t \<Rightarrow> Inr t)"

definition vault_get :: "(string \<Rightarrow> string option) \<Rightarrow> uuid \<Rightarrow> string \<Rightarrow> db \<Rightarrow> string outcome" where
  "vault_get fernet_decrypt account_id name s =
     (case find_secret s account_id name of
        None \<Rightarrow> Inl (ValueError ''SECRET_NOT_FOUND'')
      | Some item \<Rightarrow> decrypt_secret fernet_decrypt (sec_encrypted_value item))"

section \<open>Handler registries\<close>

text \<open>
  The command bus and the query bus promise the same thing of \<open>register\<close>: a free name takes the
  handler, a taken name is refused.  What clients rely on follows once, here.
\<close>

fun register_all :: "(string \<Rightarrow> 'h \<Rightarrow> (string \<rightharpoonup> 'h) \<Rightarrow> (string \<rightharpoonup> 'h) outcome) \<Rightarrow> (string \<times> 'h) list \<Rightarrow>
    (string \<rightharpoonup> 'h) \<Rightarrow> (string \<rightharpoonup> 'h) outcome" where
  "register_all reg [] m = Inr m"
| "register_all reg ((n, h) # rs) m =
     (case reg n h m of Inl e \<Rightarrow> Inl e | Inr m' \<Rightarrow> register_all reg rs m')"

locale handler_registry =
  fixes register :: "string \<Rightarrow> 'h \<Rightarrow> (string \<rightharpoonup> 'h) \<Rightarrow> (string \<rightharpoonup> 'h) outcome"
  assumes register_new: "m n = None \<Longrightarrow> register n h m = Inr (m(n \<mapsto> h))"
    and register_taken: "m n \<noteq> None \<Longrightarrow> \<not> returns (register n h m)"
begin

lemma register_iff: "register n h m = Inr m' \<longleftrightarrow> m n = None \<and> m' = m(n \<mapsto> h)"
  using register_new register_taken by (cases "m n") (auto simp: returns_iff)

lemma first_registration_stays:
  assumes "register_all register rs m = Inr m'" and "m n = Some h"
  shows "m' n = Some h"
  using assms
proof (induction rs arbitrary: m)
  case (Cons r rs)
  obtain k g where r: "r = (k, g)" by force
  from Cons.prems r obtain m1 where "register k g m = Inr m1" "register_all register rs m1 = Inr m'"
    by (auto split: sum.splits)
  moreover from this Cons.prems have "m1 n = Some h" by (auto simp: register_iff)
  ultimately show ?case using Cons.IH by blast
qed simp

lemma register_all_iff:
  "register_all register rs m = Inr m' \<longleftrightarrow>
     distinct (map fst rs) \<and> (\<forall>n \<in> fst ` set rs. m n = None) \<and> m' = m ++ map_of rs"
proof (induction rs arbitrary: m)
  case (Cons r rs)
  obtain k g where r: "r = (k, g)" by force
  show ?case
  proof (cases "m k")
    case None
    then have "register_all register (r # rs) m = register_all register rs (m(k \<mapsto> g))"
      by (simp add: r register_new)
    note step = this
    show ?thesis
    proof (cases "k \<in> fst ` set rs")
      case True
      then show ?thesis using step by (auto simp: Cons.IH r)
    next
      case False
      then have "map_of rs k = None" by (simp add: map_of_eq_None_iff)
      then have "m(k \<mapsto> g) ++ map_of rs = m ++ map_of (r # rs)"
        by (auto simp: r map_add_def fun_eq_iff split: option.splits)
      moreover have "(\<forall>n \<in> fst ` set rs. (m(k \<mapsto> g)) n = None) \<longleftrightarrow> (\<forall>n \<in> fst ` set rs. m n = None)"
        using False by (intro ball_cong) auto
      ultimately show ?thesis
        using None False unfolding step Cons.IH by (simp add: r del: map_of.simps)
    qed
  next
    case (Some h)
    then have "\<not> returns (register k g m)" by (simp add: register_taken)
    then have "register_all register (r # rs) m \<noteq> Inr m'"
      by (auto simp: r split: sum.splits)
    with Some show ?thesis by (auto simp: r)
  qed
qed auto

end

interpretation command_bus: handler_registry register_command
  by unfold_locales (auto simp: register_command_def)

interpretation query_bus: handler_registry register_query
  by unfold_locales (auto simp: register_query_def)

section \<open>Idempotent dispatch\<close>

lemma find_tbl_put:
  assumes "find P t = Some r" "distinct (map key t)" "key r' = key r" "P r'"
  shows "find P (tbl_put key r' t) = Some r'"
  using assms
proof (induction t)
  case (Cons a t)
  show ?case
  proof (cases "P a")
    case True
    with Cons.prems show ?thesis by (simp add: tbl_put_def)
  next
    case False
    with Cons.prems have "find P t = Some r" by simp
    then have "r \<in> set t" by (auto simp: find_Some_iff)
    with Cons.prems have "key a \<noteq> key r'" by force
    with False Cons show ?thesis by (simp add: tbl_put_def)
  qed
qed simp

lemma find_tbl_put_other:
  assumes "\<not> P r'" "\<And>x. x \<in> set t \<Longrightarrow> key x = key r' \<Longrightarrow> \<not> P x"
  shows "find P (tbl_put key r' t) = find P t"
  using assms by (induction t) (auto simp: tbl_put_def)

lemma find_snoc: "find P (xs @ [x]) = (case find P xs of Some y \<Rightarrow> Some y | None \<Rightarrow> if P x then Some x else None)"
  by (induction xs) auto

definition idem_ids_distinct :: "db \<Rightarrow> bool" where
  "idem_ids_distinct s \<longleftrightarrow> distinct (map idem_id (idempotency_records s))"

text \<open>Whatever way a key is reserved, the record is the one the next caller finds.\<close>

lemma reserve_finds:
  assumes "reserve sha256 interf now i s a n k p ttl = (Inr (r, b), s')"
  shows "find_idempotency s' a n k = Some r" and "idem_request_fingerprint r = fingerprint sha256 p"
  using assms unfolding reserve_def find_idempotency_def
  by (auto simp: Let_def find_snoc split: option.splits if_splits)

lemma reserve_ids:
  assumes "reserve sha256 interf now i s a n k p ttl = (x, s')"
    and "idem_ids_distinct s" "idem_ids_distinct (interf s)"
    and "i \<notin> idem_id ` set (idempotency_records (interf s))"
  shows "idem_ids_distinct s'"
  using assms unfolding reserve_def idem_ids_distinct_def
  by (auto simp: Let_def split: option.splits if_splits)

lemma find_idempotency_keys:
  assumes "find_idempotency s a n k = Some r"
  shows "idem_account_id r = a" "idem_command_name r = n" "idem_key r = k"
  using assms by (auto simp: find_idempotency_def find_Some_iff)

lemma find_after_complete:
  assumes f: "find_idempotency s a n k = Some r" and d: "idem_ids_distinct s"
  shows "find_idempotency (complete r p s) a n k =
    Some (r\<lparr>idem_status := IdemCompleted, idem_response_payload := Some p, idem_error_message := None\<rparr>)"
  using f d find_idempotency_keys [OF f]
  unfolding find_idempotency_def complete_def put_idempotency_def idem_ids_distinct_def
  by (auto intro!: find_tbl_put)

lemma reserve_known:
  assumes "find_idempotency s a n k = Some r"
  shows "reserve sha256 interf now i s a n k p ttl =
    (if idem_request_fingerprint r \<noteq> fingerprint sha256 p
     then (Inl (ValueError ''IDEMPOTENCY_KEY_REUSED_WITH_DIFFERENT_PAYLOAD''), s) else (Inr (r, False), s))"
  using assms by (simp add: reserve_def Let_def)

text \<open>What \<open>dispatch\<close> does on a command that carries a key.\<close>

definition keyed :: "command \<Rightarrow> string \<Rightarrow> bool" where
  "keyed c k \<longleftrightarrow> cmd_idempotency_key c = Some k \<and> k \<noteq> []"

lemma dispatch_keyed:
  assumes "keyed c k" "handlers (cmd_name c) = Some h"
  shows "dispatch sha256 interf now i handlers c True s =
    (case reserve sha256 interf now i s (cmd_account_id c) (cmd_name c) k (cmd_payload c) 24 of
       (Inl e, s') \<Rightarrow> (Inl e, s')
     | (Inr (record, created), s') \<Rightarrow>
         if \<not> created \<and> idem_status record = IdemCompleted
         then (Inr (replay_value (idem_response_payload record)), s')
         else if \<not> created \<and> idem_status record = IdemProcessing
         then (Inl (ValueError ''IDEMPOTENT_COMMAND_IN_PROGRESS''), s')
         else run_handler h c (Some record) s')"
  using assms by (cases k) (auto simp: dispatch_def keyed_def)

lemma dispatch_known:
  assumes "keyed c k" "handlers (cmd_name c) = Some h"
    and "find_idempotency s (cmd_account_id c) (cmd_name c) k = Some r"
    and "idem_request_fingerprint r = fingerprint sha256 (cmd_payload c)"
  shows "dispatch sha256 interf now i handlers c True s =
    (case idem_status r of
       IdemCompleted \<Rightarrow> (Inr (replay_value (idem_response_payload r)), s)
     | IdemProcessing \<Rightarrow> (Inl (ValueError ''IDEMPOTENT_COMMAND_IN_PROGRESS''), s)
     | IdemFailed \<Rightarrow> run_handler h c (Some r) s)"
  using assms by (cases "idem_status r") (simp_all add: dispatch_keyed reserve_known)

text \<open>A change that leaves every completed record as it is, and a handler during whose run the records of completed commands, and the record of its
  own command, stay as they are.\<close>

definition keeps_completed :: "db \<Rightarrow> db \<Rightarrow> bool" where
  "keeps_completed s t \<longleftrightarrow> (\<forall>a n k r. find_idempotency s a n k = Some r \<longrightarrow> idem_status r = IdemCompleted \<longrightarrow> find_idempotency t a n k = Some r)"

definition undisturbed :: "handler \<Rightarrow> command \<Rightarrow> bool" where
  "undisturbed h c \<longleftrightarrow> (\<forall>s. idem_ids_distinct s \<longrightarrow> idem_ids_distinct (snd (h c s)) \<and> keeps_completed s (snd (h c s)) \<and>
     (\<forall>k. keyed c k \<longrightarrow> find_idempotency (snd (h c s)) (cmd_account_id c) (cmd_name c) k = find_idempotency s (cmd_account_id c) (cmd_name c) k))"

lemma keeps_completed_trans: "keeps_completed s t \<Longrightarrow> keeps_completed t u \<Longrightarrow> keeps_completed s u"
  by (auto simp: keeps_completed_def)

lemma keeps_completed_refl [simp]: "keeps_completed s s"
  by (simp add: keeps_completed_def)

lemma reserve_keeps:
  assumes "reserve sha256 interf now i s a n k p ttl = (x, s')" "keeps_completed s (interf s)"
  shows "keeps_completed s s'"
proof -
  have "keeps_completed t (t\<lparr>idempotency_records := idempotency_records t @ [q]\<rparr>)" for t q
    by (auto simp: keeps_completed_def find_idempotency_def find_snoc split: option.split)
  then show ?thesis using assms keeps_completed_trans [OF assms(2)]
    by (auto simp: reserve_def Let_def split: option.splits if_splits)
qed

lemma settle_keeps:
  assumes "find_idempotency s a n k = Some r" "idem_status r \<noteq> IdemCompleted" "idem_ids_distinct s" "idem_id q = idem_id r"
    "idem_account_id q = a" "idem_command_name q = n" "idem_key q = k"
  shows "keeps_completed s (put_idempotency q s) \<and> idem_ids_distinct (put_idempotency q s)"
proof
  note keys = find_idempotency_keys [OF assms(1)]
  have r: "r \<in> set (idempotency_records s)" using assms(1) by (auto simp: find_idempotency_def find_Some_iff)
  show "idem_ids_distinct (put_idempotency q s)" using assms(3) by (simp add: idem_ids_distinct_def put_idempotency_def map_key_put)
  show "keeps_completed s (put_idempotency q s)" unfolding keeps_completed_def
  proof (intro allI impI)
    fix a' n' k' x assume x: "find_idempotency s a' n' k' = Some x" "idem_status x = IdemCompleted"
    have other: "\<not> (a' = a \<and> n' = n \<and> k' = k)" using x assms(1,2) by auto
    have "y = r" if "y \<in> set (idempotency_records s)" "idem_id y = idem_id q" for y
      using row_by_id [OF _ that(1) r] assms(3,4) that(2) by (simp add: idem_ids_distinct_def)
    then have "find_idempotency (put_idempotency q s) a' n' k' = find_idempotency s a' n' k'"
      using other assms(5-7) keys by (auto simp: find_idempotency_def put_idempotency_def intro!: find_tbl_put_other)
    then show "find_idempotency (put_idempotency q s) a' n' k' = Some x" using x by simp
  qed
qed

text \<open>One dispatch of any command by any session.  Its handler, and what other sessions commit before its insert, leave completed records alone, and
  no other session works on the same record while its handler runs.\<close>

inductive dispatch_step :: "(string \<Rightarrow> string) \<Rightarrow> db \<Rightarrow> db \<Rightarrow> bool" for sha256 where
  "idem_ids_distinct (interf s) \<Longrightarrow> i \<notin> idem_id ` set (idempotency_records (interf s)) \<Longrightarrow> keeps_completed s (interf s) \<Longrightarrow>
   (\<And>h. handlers (cmd_name c) = Some h \<Longrightarrow> undisturbed h c) \<Longrightarrow>
   dispatch sha256 interf now i handlers c has_db s = (r, s') \<Longrightarrow> dispatch_step sha256 s s'"

lemma handled_keeps:
  assumes "run_handler h c rec s = (r, s')" "undisturbed h c" "idem_ids_distinct s"
    and "\<And>q. rec = Some q \<Longrightarrow> keyed c (idem_key q) \<and> find_idempotency s (cmd_account_id c) (cmd_name c) (idem_key q) = Some q \<and> idem_status q \<noteq> IdemCompleted"
  shows "keeps_completed s s' \<and> idem_ids_distinct s'"
proof -
  obtain x t where h: "h c s = (x, t)" by (cases "h c s")
  have t: "idem_ids_distinct t" "keeps_completed s t" using assms(2,3) h unfolding undisturbed_def by (metis snd_conv)+
  show ?thesis
  proof (cases rec)
    case None
    then show ?thesis using assms(1) h t by (auto simp: run_handler_def split: sum.splits)
  next
    case (Some q)
    note q = assms(4) [OF Some]
    have f: "find_idempotency t (cmd_account_id c) (cmd_name c) (idem_key q) = Some q"
      using assms(2,3) h q unfolding undisturbed_def by (metis snd_conv)
    have "s' = complete q v t \<or> s' = fail_record q e t" if "x = Inr y \<and> v = serialize_result y \<or> x = Inl z \<and> e = error_text z" for v e y z
      using that assms(1) h Some by (auto simp: run_handler_def)
    then have "\<exists>u. s' = put_idempotency u t \<and> idem_id u = idem_id q \<and> idem_account_id u = idem_account_id q \<and>
        idem_command_name u = idem_command_name q \<and> idem_key u = idem_key q"
      using assms(1) h Some by (cases x) (fastforce simp: run_handler_def complete_def fail_record_def)+
    then show ?thesis using settle_keeps [OF f _ t(1)] find_idempotency_keys [OF f] q keeps_completed_trans [OF t(2)] by auto
  qed
qed

lemma dispatch_step_keeps:
  assumes "dispatch_step sha256 s s'" "idem_ids_distinct s"
  shows "keeps_completed s s' \<and> idem_ids_distinct s'"
  using assms(1)
proof cases
  case (1 interf i handlers c now has_db r)
  show ?thesis
  proof (cases "handlers (cmd_name c)")
    case None
    then show ?thesis using 1 assms(2) by (simp add: dispatch_def)
  next
    case h: (Some h)
    note quiet = 1(4) [OF h]
    show ?thesis
    proof (cases "\<exists>k. keyed c k \<and> has_db")
      case False
      then have "s' = s \<or> run_handler h c None s = (r, s')"
        using 1(5) h by (auto simp: dispatch_def keyed_def split: option.splits list.splits if_splits)
      then show ?thesis using handled_keeps [OF _ quiet assms(2), of None] assms(2) by auto
    next
      case True
      then obtain k where k: "keyed c k" "has_db" by blast
      obtain x t where res: "reserve sha256 interf now i s (cmd_account_id c) (cmd_name c) k (cmd_payload c) 24 = (x, t)" by force
      have t: "keeps_completed s t" "idem_ids_distinct t"
        using reserve_keeps [OF res 1(3)] reserve_ids [OF res assms(2) 1(1,2)] .
      have run: "(case (x, t) of
          (Inl e, s') \<Rightarrow> (Inl e, s')
        | (Inr (record, created), s') \<Rightarrow>
            if \<not> created \<and> idem_status record = IdemCompleted then (Inr (replay_value (idem_response_payload record)), s')
            else if \<not> created \<and> idem_status record = IdemProcessing then (Inl (ValueError ''IDEMPOTENT_COMMAND_IN_PROGRESS''), s')
            else run_handler h c (Some record) s') = (r, s')"
        using 1(5) k h res by (simp add: dispatch_keyed)
      show ?thesis
      proof (cases "s' = t")
        case False
        then obtain q b where x: "x = Inr (q, b)" and b: "b \<or> idem_status q \<noteq> IdemCompleted" and hr: "run_handler h c (Some q) t = (r, s')"
          using run by (cases x) (auto split: if_splits)
        note f = reserve_finds(1) [OF res [unfolded x]]
        have "idem_status q \<noteq> IdemCompleted"
          using b res x by (auto simp: reserve_def Let_def split: option.splits if_splits)
        moreover have "idem_key q = k" using find_idempotency_keys [OF f] by simp
        ultimately have "keeps_completed t s' \<and> idem_ids_distinct s'"
          using f k(1) by (intro handled_keeps [OF hr quiet t(2)]) auto
        then show ?thesis using keeps_completed_trans [OF t(1)] by blast
      qed (use t in simp)
    qed
  qed
qed

lemma dispatch_records_completion:
  assumes k: "keyed c k" and h: "handlers (cmd_name c) = Some h" and quiet: "undisturbed h c"
    and ids: "idem_ids_distinct s" "idem_ids_distinct (interf s)"
      "i \<notin> idem_id ` set (idempotency_records (interf s))"
    and run: "dispatch sha256 interf now i handlers c True s = (Inr v, s1)"
  shows "(\<exists>r. find_idempotency s1 (cmd_account_id c) (cmd_name c) k = Some r \<and> idem_status r = IdemCompleted \<and>
    idem_request_fingerprint r = fingerprint sha256 (cmd_payload c) \<and>
    (replay_value (idem_response_payload r) = v \<or> idem_response_payload r = Some (serialize_result v))) \<and> idem_ids_distinct s1"
proof -
  let ?f = "\<lambda>t. find_idempotency t (cmd_account_id c) (cmd_name c) k"
  obtain x s' where res: "reserve sha256 interf now i s (cmd_account_id c) (cmd_name c) k (cmd_payload c) 24 = (x, s')"
    by (meson surj_pair)
  with run k h obtain r b where x: "x = Inr (r, b)"
    by (cases x) (auto simp: dispatch_keyed)
  have f: "?f s' = Some r" and fp: "idem_request_fingerprint r = fingerprint sha256 (cmd_payload c)"
    using reserve_finds [OF res [unfolded x]] by auto
  have d: "idem_ids_distinct s'" by (rule reserve_ids [OF res ids])
  show ?thesis
  proof (cases "\<not> b \<and> idem_status r = IdemCompleted")
    case True
    with run k h res x f fp d show ?thesis by (auto simp: dispatch_keyed)
  next
    case False
    with run k h res x have "run_handler h c (Some r) s' = (Inr v, s1)"
      by (auto simp: dispatch_keyed split: if_splits)
    then obtain s2 where s2: "h c s' = (Inr v, s2)" "s1 = complete r (serialize_result v) s2"
      by (auto simp: run_handler_def split: prod.splits sum.splits)
    have "?f s2 = Some r" "idem_ids_distinct s2"
      using quiet d f k s2(1) unfolding undisturbed_def by (metis snd_conv)+
    from find_after_complete [OF this] this(2) fp s2(2) show ?thesis
      by (auto simp: idem_ids_distinct_def complete_def put_idempotency_def map_key_put)
  qed
qed

text \<open>C10. A command with an idempotency key takes effect once: after a dispatch that returned, and after any sequence of further dispatches of any
  commands by any sessions, a dispatch of the same command, with whatever handlers, runs none, changes nothing and returns the recorded response.
  It is assumed of each dispatch that, while its handler runs, nobody else writes the record of its key or a completed record.  For a key that is
  being processed the code ensures this; two sessions that retry the same failed command at once break it.\<close>

theorem dispatch_at_most_once:
  assumes "keyed c k" "handlers (cmd_name c) = Some h" "undisturbed h c"
    and "idem_ids_distinct s" "idem_ids_distinct (interf s)"
      "i \<notin> idem_id ` set (idempotency_records (interf s))"
    and "dispatch sha256 interf now i handlers c True s = (Inr v, s1)" "(dispatch_step sha256)\<^sup>*\<^sup>* s1 s2"
    and "handlers' (cmd_name c) = Some h'"
  shows "dispatch sha256 interf' now' i' handlers' c True s2 = (Inr v, s2) \<or>
    dispatch sha256 interf' now' i' handlers' c True s2 = (Inr (PyDict (serialize_result v)), s2)"
proof -
  from dispatch_records_completion [OF assms(1-7)] obtain r where r:
    "find_idempotency s1 (cmd_account_id c) (cmd_name c) k = Some r" "idem_status r = IdemCompleted"
    "idem_request_fingerprint r = fingerprint sha256 (cmd_payload c)"
    "replay_value (idem_response_payload r) = v \<or> idem_response_payload r = Some (serialize_result v)" and d: "idem_ids_distinct s1"
    by blast
  from assms(8) have "keeps_completed s1 s2 \<and> idem_ids_distinct s2"
    by (induction rule: rtranclp_induct) (use d in \<open>auto dest: dispatch_step_keeps intro: keeps_completed_trans\<close>)
  then have "find_idempotency s2 (cmd_account_id c) (cmd_name c) k = Some r" using r by (simp add: keeps_completed_def)
  with r assms(1,9) show ?thesis
    by (auto simp: dispatch_known replay_value_def)
qed

definition demo_command :: command where
  "demo_command = \<lparr>cmd_name = ''send'', cmd_account_id = 1, cmd_payload = [(''to'', JStr ''x'')],
     cmd_actor_user_id = None, cmd_correlation_id = 9, cmd_idempotency_key = Some ''k1''\<rparr>"

definition demo_handler :: handler where
  "demo_handler c s = (Inr (PyPrimitive (JInt (int (length (resources s))))), s)"

theorem dispatch_at_most_once_witness:
  "\<exists>s1 s2. dispatch id id 0 7 [''send'' \<mapsto> demo_handler] demo_command True empty_db = (Inr (PyPrimitive (JInt 0)), s1) \<and>
    dispatch id id 3 8 [''send'' \<mapsto> demo_handler] (demo_command\<lparr>cmd_idempotency_key := Some ''k2''\<rparr>) True s1 = (Inr (PyPrimitive (JInt 0)), s2) \<and>
    (dispatch id id 5 9 [''send'' \<mapsto> demo_handler] demo_command True s2 = (Inr (PyPrimitive (JInt 0)), s2) \<or>
     dispatch id id 5 9 [''send'' \<mapsto> demo_handler] demo_command True s2 =
       (Inr (PyDict (serialize_result (PyPrimitive (JInt 0)))), s2))"
proof -
  let ?h = "[''send'' \<mapsto> demo_handler]" and ?c2 = "demo_command\<lparr>cmd_idempotency_key := Some ''k2''\<rparr>"
  let ?r = "\<lambda>i k. \<lparr>idem_id = i, idem_account_id = 1, idem_command_name = ''send'', idem_key = k,
      idem_request_fingerprint = fingerprint id [(''to'', JStr ''x'')], idem_status = IdemCompleted,
      idem_response_payload = Some (JObj [(''value'', JInt 0)]), idem_error_message = None, idem_expires_at = hours 24\<rparr>"
  let ?s1 = "empty_db\<lparr>idempotency_records := [?r 7 ''k1'']\<rparr>"
  note unfolds = dispatch_def demo_command_def reserve_def find_idempotency_def empty_db_def Let_def run_handler_def demo_handler_def
     complete_def put_idempotency_def tbl_put_def
  have run: "dispatch id id 0 7 ?h demo_command True empty_db = (Inr (PyPrimitive (JInt 0)), ?s1)" by (simp add: unfolds)
  obtain s2 where run2: "dispatch id id 3 8 ?h ?c2 True ?s1 = (Inr (PyPrimitive (JInt 0)), s2)" by (simp add: unfolds)
  have quiet: "undisturbed demo_handler c" for c by (simp add: undisturbed_def demo_handler_def)
  have "keyed demo_command ''k1''" "idem_ids_distinct empty_db" "idem_ids_distinct (id empty_db)"
    "7 \<notin> idem_id ` set (idempotency_records (id empty_db))" "cmd_name demo_command = ''send''" "?h (cmd_name demo_command) = Some demo_handler"
    by (simp_all add: keyed_def demo_command_def idem_ids_distinct_def empty_db_def)
  note facts = this
  have "dispatch_step id ?s1 s2"
    by (rule dispatch_step.intros [OF _ _ _ _ run2]) (use quiet in \<open>auto simp: idem_ids_distinct_def demo_command_def split: if_splits\<close>)
  from dispatch_at_most_once [where handlers = ?h and handlers' = ?h, OF facts(1,6) quiet facts(2-4) run
      r_into_rtranclp [of "dispatch_step id", OF this] facts(6), of id 5 9]
  show ?thesis using run run2 by blast
qed

text \<open>Two retries at once: while the handler of a retried command runs, another session retries the same command and completes it; then the
  handler fails, the completed record turns into a failed one, and the command runs a third time.\<close>

definition retry_handler :: "bool \<Rightarrow> handler" where
  "retry_handler ok c s = (if ok then (Inr PyNone, s\<lparr>resources := resources s @ [\<lparr>res_id = 5, res_account_id = 1, res_resource_type = [],
     res_resource_id = [], res_owner_user_id = None, res_version = 1, res_details = []\<rparr>]\<rparr>) else (Inl (ValueError ''boom''), s))"

definition overtaken_handler :: handler where
  "overtaken_handler c s = (Inl (ValueError ''boom''), snd (dispatch id id 0 9 [''send'' \<mapsto> retry_handler True] c True s))"

definition failed_once :: db where
  "failed_once = snd (dispatch id id 0 7 [''send'' \<mapsto> retry_handler False] demo_command True empty_db)"

lemma overlapping_retries_run_twice:
  "map idem_status (idempotency_records (snd (dispatch id id 0 8 [''send'' \<mapsto> retry_handler True] demo_command True failed_once))) = [IdemCompleted] \<and>
   map idem_status (idempotency_records (snd (dispatch id id 0 8 [''send'' \<mapsto> overtaken_handler] demo_command True failed_once))) = [IdemFailed] \<and>
   length (resources (snd (dispatch id id 1 9 [''send'' \<mapsto> retry_handler True] demo_command True
     (snd (dispatch id id 0 8 [''send'' \<mapsto> overtaken_handler] demo_command True failed_once))))) = 2"
  by code_simp

text \<open>C11. Two sessions that dispatch the same keyed command: the one that finds, or loses the insert
  race to, an unfinished reservation is refused with \<open>IDEMPOTENT_COMMAND_IN_PROGRESS\<close> and runs no handler.\<close>

theorem dispatch_excludes_concurrent_run:
  assumes "keyed c k" "handlers (cmd_name c) = Some h"
    and "find_idempotency s (cmd_account_id c) (cmd_name c) k = Some r \<and> s' = s \<or>
      find_idempotency s (cmd_account_id c) (cmd_name c) k = None \<and> interf s = s' \<and>
      find_idempotency s' (cmd_account_id c) (cmd_name c) k = Some r"
    and "idem_status r = IdemProcessing" "idem_request_fingerprint r = fingerprint sha256 (cmd_payload c)"
  shows "dispatch sha256 interf now i handlers c True s =
    (Inl (ValueError ''IDEMPOTENT_COMMAND_IN_PROGRESS''), s')"
  using assms(3)
proof (elim disjE conjE)
  assume "find_idempotency s (cmd_account_id c) (cmd_name c) k = Some r" "s' = s"
  with assms show ?thesis by (simp add: dispatch_known)
next
  assume "find_idempotency s (cmd_account_id c) (cmd_name c) k = None" "interf s = s'"
    "find_idempotency s' (cmd_account_id c) (cmd_name c) k = Some r"
  with assms show ?thesis by (simp add: dispatch_keyed reserve_def Let_def)
qed

definition demo_reserved :: "db \<Rightarrow> db" where
  "demo_reserved s = s\<lparr>idempotency_records := [\<lparr>idem_id = 3, idem_account_id = 1,
     idem_command_name = ''send'', idem_key = ''k1'',
     idem_request_fingerprint = fingerprint id [(''to'', JStr ''x'')], idem_status = IdemProcessing,
     idem_response_payload = None, idem_error_message = None, idem_expires_at = 0\<rparr>]\<rparr>"

theorem dispatch_excludes_concurrent_run_witness:
  "dispatch id demo_reserved 0 7 [''send'' \<mapsto> demo_handler] demo_command True empty_db =
    (Inl (ValueError ''IDEMPOTENT_COMMAND_IN_PROGRESS''), demo_reserved empty_db)"
  by (rule dispatch_excludes_concurrent_run [where k = "''k1''" and h = demo_handler and
        r = "hd (idempotency_records (demo_reserved empty_db))"])
    (simp_all add: keyed_def demo_command_def demo_reserved_def find_idempotency_def empty_db_def)

text \<open>A key reused with a payload whose fingerprint differs is refused before anything runs, in
  whatever state the first request is.\<close>

theorem dispatch_rejects_other_payload:
  assumes "keyed c k" "handlers (cmd_name c) = Some h"
    and "find_idempotency s (cmd_account_id c) (cmd_name c) k = Some r"
    and "idem_request_fingerprint r \<noteq> fingerprint sha256 (cmd_payload c)"
  shows "dispatch sha256 interf now i handlers c True s =
    (Inl (ValueError ''IDEMPOTENCY_KEY_REUSED_WITH_DIFFERENT_PAYLOAD''), s)"
  using assms by (simp add: dispatch_keyed reserve_known)

theorem dispatch_rejects_other_payload_witness:
  "dispatch id id 0 7 [''send'' \<mapsto> demo_handler] (demo_command\<lparr>cmd_payload := []\<rparr>) True (demo_reserved empty_db) =
    (Inl (ValueError ''IDEMPOTENCY_KEY_REUSED_WITH_DIFFERENT_PAYLOAD''), demo_reserved empty_db)"
  by (rule dispatch_rejects_other_payload [where k = "''k1''" and h = demo_handler and
        r = "hd (idempotency_records (demo_reserved empty_db))"])
    (simp_all add: keyed_def demo_command_def demo_reserved_def find_idempotency_def fingerprint_def)

text \<open>The fingerprint does not depend on the order of the keys of the payload.\<close>

lemma filter_unique_key:
  assumes "distinct (map f xs)" "x \<in> set xs"
  shows "filter (\<lambda>y. f x = f y) xs = [x]"
  using assms
proof (induction xs)
  case (Cons a xs)
  show ?case
  proof (cases "a = x")
    case True
    with Cons.prems show ?thesis by (auto simp: filter_empty_conv)
  next
    case False
    with Cons.prems have "x \<in> set xs" by simp
    then have "f x \<in> f ` set xs" by (rule imageI)
    with Cons.prems have "f x \<noteq> f a" by auto
    with Cons \<open>x \<in> set xs\<close> show ?thesis by simp
  qed
qed simp

lemma sort_key_perm:
  assumes m: "mset p = mset q" and d: "distinct (map fst p)"
  shows "sort_key fst p = sort_key fst q"
proof (rule properties_for_sort_key)
  show "mset (sort_key fst q) = mset p" using m by simp
  show "sorted (map fst (sort_key fst q))" by simp
  have dq: "distinct (map fst (sort_key fst q))"
    using m d mset_eq_imp_distinct_iff [of "map fst (sort_key fst q)" "map fst p"] by (simp add: mset_map)
  show "filter (\<lambda>x. fst k = fst x) (sort_key fst q) = filter (\<lambda>x. fst k = fst x) p"
    if "k \<in> set (sort_key fst q)" for k
    using that mset_eq_setD [OF m] filter_unique_key [OF d, of k] filter_unique_key [OF dq, of k] by simp
qed

text \<open>The same payload, whatever the order of its keys, has the same fingerprint, so a client that
  serialises its arguments in another order is still recognised as repeating itself.\<close>

theorem fingerprint_ignores_key_order:
  assumes "mset p = mset q" "distinct (map fst p)"
  shows "fingerprint sha256 p = fingerprint sha256 q"
proof -
  let ?f = "\<lambda>(k, v). (k, json_dumps v)"
  have "map fst (map ?f p) = map fst p" by (induction p) auto
  then have "distinct (map fst (map ?f p))" using assms(2) by (simp only:)
  moreover have "mset (map ?f p) = mset (map ?f q)" using assms(1) by (simp add: mset_map)
  ultimately have "sort_key fst (map ?f p) = sort_key fst (map ?f q)"
    by (intro sort_key_perm)
  then show ?thesis by (simp add: fingerprint_def)
qed

theorem fingerprint_ignores_key_order_witness:
  "fingerprint id [(''b'', JInt 2), (''a'', JNull)] = fingerprint id [(''a'', JNull), (''b'', JInt 2)]"
  by (rule fingerprint_ignores_key_order) (simp_all add: add_mset_commute)

section \<open>Events\<close>

lemma run_subscribers_append:
  "run_subscribers run (hs @ gs) e w = (case run_subscribers run hs e w of
     (Some exc, w') \<Rightarrow> (Some exc, w') | (None, w') \<Rightarrow> run_subscribers run gs e w')"
  by (induction hs arbitrary: w) (auto split: prod.splits option.splits)

lemma subscribe_twice: "subscribe n h (subscribe n h b) = subscribe n h b"
  by (auto simp: subscribe_def)

lemma subscribe_distinct: "distinct (b n) \<Longrightarrow> distinct (subscribe n' h b n)"
  by (auto simp: subscribe_def)

lemma register_twice: "register_event_handlers (register_event_handlers b) = register_event_handlers b"
  by (auto simp: register_event_handlers_def subscribe_def)

lemma registered_handlers:
  "(register_event_handlers ^^ Suc k) b = register_event_handlers b"
  by (induction k) (simp_all add: register_twice)

text \<open>However often the handlers are registered, publishing a queued automation run hands that run
  to the worker exactly once, and then publishes it to the realtime channel.\<close>

theorem run_queued_enqueued_once:
  assumes "ev_name e = ''automation.run_queued''" "run_id_from_event e = Some r" "r \<noteq> []"
  shows "publish run_event_handler (\<lambda>_ _ q. (None, q)) fmt ((register_event_handlers ^^ Suc k) (\<lambda>_. [])) e queue =
    (None, queue @ [r])"
proof -
  obtain c cs where "r = c # cs" using assms(3) by (cases r) auto
  with assms(1,2) show ?thesis
    by (simp add: publish_def registered_handlers register_event_handlers_def subscribe_def
        del: funpow.simps)
qed

definition demo_event :: domain_event where
  "demo_event = \<lparr>ev_name = ''automation.run_queued'', ev_account_id = 1, ev_payload = JObj [(''run_id'', JStr ''r7'')],
     ev_actor_user_id = None, ev_aggregate_type = None, ev_aggregate_id = None, ev_correlation_id = 2,
     ev_event_id = 3, ev_occurred_at = 0, ev_version = 1\<rparr>"

theorem run_queued_enqueued_once_witness:
  "publish run_event_handler (\<lambda>_ _ q. (None, q)) (\<lambda>_. []) ((register_event_handlers ^^ Suc 4) (\<lambda>_. []))
    demo_event [''r6''] = (None, [''r6'', ''r7''])"
  using run_queued_enqueued_once [of demo_event "''r7''" "\<lambda>_. []" 4 "[''r6'']"]
  by (simp add: demo_event_def run_id_from_event_def Let_def del: funpow.simps)

section \<open>Secrets\<close>

lemma distinct_key_unique:
  assumes "distinct (map key t)" "x \<in> set t" "y \<in> set t" "key x = key y"
  shows "x = y"
  using assms by (metis distinct_map inj_onD)

definition vault_ok :: "db \<Rightarrow> bool" where
  "vault_ok s \<longleftrightarrow> distinct (map sec_id (secrets s)) \<and>
     distinct (map (\<lambda>r. (sec_account_id r, sec_name r)) (secrets s))"

lemma vault_put_ok:
  assumes "vault_ok s" "i \<notin> sec_id ` set (secrets s)"
  shows "vault_ok (vault_put enc i a n v s)"
proof (cases "find_secret s a n")
  case None
  then have "(a, n) \<notin> (\<lambda>r. (sec_account_id r, sec_name r)) ` set (secrets s)"
    by (auto simp: find_secret_def find_None_iff)
  with None assms show ?thesis by (simp add: vault_ok_def vault_put_def Let_def)
next
  case (Some item)
  let ?item = "item\<lparr>sec_encrypted_value := enc v, sec_version := sec_version item + 1\<rparr>"
  have "item \<in> set (secrets s)" using Some by (auto simp: find_secret_def find_Some_iff)
  then have "map (\<lambda>r. (sec_account_id r, sec_name r)) (tbl_put sec_id ?item (secrets s)) =
      map (\<lambda>r. (sec_account_id r, sec_name r)) (secrets s)"
    using assms(1) distinct_key_unique [of sec_id "secrets s" item]
    by (force simp: tbl_put_def vault_ok_def)
  with Some assms(1) show ?thesis
    by (simp add: vault_put_def vault_ok_def map_key_put)
qed

lemma find_secret_put_same:
  assumes "vault_ok s"
  shows "\<exists>r. find_secret (vault_put enc i a n v s) a n = Some r \<and> sec_encrypted_value r = enc v"
proof (cases "find_secret s a n")
  case None
  then show ?thesis by (simp add: vault_put_def find_secret_def find_snoc)
next
  case (Some item)
  let ?item = "item\<lparr>sec_encrypted_value := enc v, sec_version := sec_version item + 1\<rparr>"
  have "sec_account_id item = a" "sec_name item = n"
    using Some by (auto simp: find_secret_def find_Some_iff)
  then have "find (\<lambda>r. sec_account_id r = a \<and> sec_name r = n) (tbl_put sec_id ?item (secrets s)) = Some ?item"
    using Some assms by (intro find_tbl_put) (auto simp: find_secret_def vault_ok_def)
  with Some show ?thesis by (simp add: vault_put_def find_secret_def)
qed

lemma find_secret_put_other:
  assumes "vault_ok s" "(a', n') \<noteq> (a, n)"
  shows "find_secret (vault_put enc i a n v s) a' n' = find_secret s a' n'"
proof (cases "find_secret s a n")
  case None
  with assms show ?thesis
    by (auto simp: vault_put_def find_secret_def Let_def find_snoc split: option.splits)
next
  case (Some item)
  have item: "sec_account_id item = a" "sec_name item = n" "item \<in> set (secrets s)"
    using Some by (auto simp: find_secret_def find_Some_iff)
  then have "\<And>x. x \<in> set (secrets s) \<Longrightarrow> sec_id x = sec_id item \<Longrightarrow> x = item"
    using assms(1) by (auto simp: vault_ok_def intro: distinct_key_unique)
  then have "\<forall>x \<in> set (secrets s). sec_id x = sec_id item \<longrightarrow> (sec_account_id x, sec_name x) \<noteq> (a', n')"
    using item assms(2) by auto
  with Some item assms(2) show ?thesis
    by (auto simp: vault_put_def find_secret_def intro!: find_tbl_put_other)
qed

text \<open>C40. The vault returns what was stored last under a name, and storing under one account and name
  changes nothing that another account or another name reads.\<close>

theorem vault_put_get:
  assumes "vault_ok s" "fernet_decrypt (encrypt v) = Some v"
  shows "vault_get fernet_decrypt a' n' (vault_put encrypt i a n v s) =
    (if a' = a \<and> n' = n then Inr v else vault_get fernet_decrypt a' n' s)"
proof (cases "a' = a \<and> n' = n")
  case True
  with find_secret_put_same [OF assms(1), of encrypt i a n v] assms(2) show ?thesis
    by (auto simp: vault_get_def decrypt_secret_def)
next
  case False
  then have "find_secret (vault_put encrypt i a n v s) a' n' = find_secret s a' n'"
    by (intro find_secret_put_other [OF assms(1)]) auto
  then show ?thesis using False by (auto simp: vault_get_def)
qed

theorem vault_put_get_witness:
  "vault_get (\<lambda>t. Some (rev t)) 1 ''token'' (vault_put rev 5 1 ''token'' ''abc'' empty_db) = Inr ''abc''"
  using vault_put_get [of empty_db "\<lambda>t. Some (rev t)" rev "''abc''" 1 "''token''" 5 1 "''token''"]
  by (simp add: vault_ok_def empty_db_def)

end
