(* ===== verification/ClaimQueue.thy ===== *)
theory ClaimQueue
  imports Prelude
begin

text \<open>
  Claiming rows of a work table, as the outbox and the scheduler do it:
  \<open>SELECT ... WHERE due ORDER BY ... FOR UPDATE SKIP LOCKED LIMIT n\<close>, then a lock written on every
  selected row.  The contract \<open>claim_queue\<close> says that a locked row is no longer due; that no row is
  worked on twice follows from it once, for both tables.
\<close>

definition claim_selection :: "('r \<Rightarrow> uuid) \<Rightarrow> ('r \<Rightarrow> bool) \<Rightarrow> ('r list \<Rightarrow> 'r list) \<Rightarrow> (uuid \<Rightarrow> bool) \<Rightarrow> nat \<Rightarrow>
    'r list \<Rightarrow> 'r list" where
  "claim_selection key due order locked limit t =
     take limit (order (filter (\<lambda>r. due r \<and> \<not> locked (key r)) t))"

definition claim_rows :: "('r \<Rightarrow> uuid) \<Rightarrow> ('r \<Rightarrow> bool) \<Rightarrow> ('r \<Rightarrow> 'r) \<Rightarrow> ('r list \<Rightarrow> 'r list) \<Rightarrow> (uuid \<Rightarrow> bool) \<Rightarrow>
    nat \<Rightarrow> 'r list \<Rightarrow> 'r list \<times> 'r list" where
  "claim_rows key due lock order locked limit t =
     (let sel = claim_selection key due order locked limit t
      in (map lock sel, map (\<lambda>r. if key r \<in> key ` set sel then lock r else r) t))"

lemma disjoint_images:
  assumes "\<And>b. b \<in> B \<Longrightarrow> f b \<notin> f ` A"
  shows "f ` A \<inter> f ` B = {}"
proof (rule equals0I)
  fix x
  assume "x \<in> f ` A \<inter> f ` B"
  then have "x \<in> f ` A" "x \<in> f ` B" by simp_all
  from this(2) obtain b where "x = f b" "b \<in> B" by (rule imageE)
  with assms [of b] \<open>x \<in> f ` A\<close> show False by simp
qed

locale claim_queue =
  fixes key :: "'r \<Rightarrow> uuid"
    and due :: "datetime \<Rightarrow> 'r \<Rightarrow> bool"
    and lock :: "datetime \<Rightarrow> 'r \<Rightarrow> 'r"
    and order :: "'r list \<Rightarrow> 'r list"
  assumes lock_not_due: "\<not> due now' (lock now r)"
    and key_lock: "key (lock now r) = key r"
    and mset_order: "mset (order t) = mset t"
begin

abbreviation "claim now \<equiv> claim_rows key (due now) (lock now) order"

lemma set_selection:
  "r \<in> set (claim_selection key (due now) order locked n t) \<Longrightarrow> r \<in> set t \<and> due now r \<and> \<not> locked (key r)"
  unfolding claim_selection_def using mset_order mset_eq_setD [OF mset_order]
  by (auto dest!: in_set_takeD)

lemma claimed_locked:
  assumes "claim now locked n t = (got, t')" and "r \<in> set got"
  shows "\<exists>r0 \<in> set t. r = lock now r0 \<and> due now r0 \<and> \<not> locked (key r)"
proof -
  from assms obtain r0 where "r0 \<in> set (claim_selection key (due now) order locked n t)" "r = lock now r0"
    by (auto simp: claim_rows_def Let_def)
  with set_selection [OF this(1)] show ?thesis by (auto simp: key_lock)
qed

lemma claimed_key_set:
  assumes "claim now locked n t = (got, t')"
  shows "key ` set got = key ` set (claim_selection key (due now) order locked n t)"
  using assms by (auto simp: claim_rows_def Let_def key_lock image_image)

lemma claimed_length:
  assumes "claim now locked n t = (got, t')"
  shows "length got \<le> n"
  using assms by (auto simp: claim_rows_def claim_selection_def Let_def)

lemma claimed_keys:
  assumes "claim now locked n t = (got, t')"
  shows "map key t' = map key t"
  using assms by (auto simp: claim_rows_def Let_def key_lock)

lemma claimed_not_due:
  assumes "claim now locked n t = (got, t')" "r \<in> set t'" "key r \<in> key ` set got"
  shows "\<not> due now' r"
proof -
  let ?sel = "claim_selection key (due now) order locked n t"
  have t': "t' = map (\<lambda>r. if key r \<in> key ` set ?sel then lock now r else r) t"
    using assms(1) by (auto simp: claim_rows_def Let_def)
  have "r \<in> (\<lambda>r. if key r \<in> key ` set ?sel then lock now r else r) ` set t"
    using assms(2) by (simp only: t' set_map)
  then obtain r0 where r0: "r = (if key r0 \<in> key ` set ?sel then lock now r0 else r0)"
    by (rule imageE)
  then have "key r = key r0" by (simp add: key_lock)
  with r0 assms(3) have "r = lock now r0"
    unfolding claimed_key_set [OF assms(1)] by simp
  then show ?thesis by (simp add: lock_not_due)
qed

lemma claimed_in_table:
  assumes "claim now locked n t = (got, t')" "r \<in> set got"
  shows "r \<in> set t'"
proof -
  let ?sel = "claim_selection key (due now) order locked n t"
  let ?f = "\<lambda>r. if key r \<in> key ` set ?sel then lock now r else r"
  from assms obtain r0 where r0: "r0 \<in> set ?sel" "r = lock now r0"
    by (auto simp: claim_rows_def Let_def)
  have "t' = map ?f t" using assms(1) by (auto simp: claim_rows_def Let_def)
  moreover have "?f r0 \<in> ?f ` set t" using set_selection [OF r0(1)] by (intro imageI) simp
  moreover have "?f r0 = r" using r0 by simp
  ultimately show ?thesis by simp
qed

lemma claimed_distinct:
  assumes "claim now locked n t = (got, t')" "distinct (map key t)"
  shows "distinct (map key got)"
proof -
  let ?c = "filter (\<lambda>r. due now r \<and> \<not> locked (key r)) t"
  have "distinct (map key ?c)" using assms(2) by (rule distinct_map_filter)
  moreover have "mset (map key (order ?c)) = mset (map key ?c)"
    by (simp only: mset_map mset_order)
  ultimately have "distinct (map key (order ?c))"
    using mset_eq_imp_distinct_iff by blast
  then have "distinct (map key (claim_selection key (due now) order locked n t))"
    unfolding claim_selection_def take_map [symmetric] by (rule distinct_take)
  moreover have "map key got = map key (claim_selection key (due now) order locked n t)"
    using assms(1) by (auto simp: claim_rows_def Let_def key_lock)
  ultimately show ?thesis by simp
qed

text \<open>Two claims, at any two times and with any limits, never share a row.\<close>

lemma claims_disjoint:
  assumes "claim now locked n t = (got, t1)" and "claim now' locked' n' t1 = (got', t2)"
  shows "key ` set got \<inter> key ` set got' = {}"
proof -
  have "key r' \<notin> key ` set got" if "r' \<in> set got'" for r'
  proof
    assume in_got: "key r' \<in> key ` set got"
    from claimed_locked [OF assms(2) that] obtain r0 where
      "r0 \<in> set t1" "r' = lock now' r0" "due now' r0" by blast
    with in_got claimed_not_due [OF assms(1), of r0 now'] show False by (simp add: key_lock)
  qed
  then show ?thesis by (rule disjoint_images)
qed

text \<open>A concurrent claim on the same snapshot skips the rows the first holds locked.\<close>

lemma concurrent_claims_disjoint:
  assumes "claim now locked n t = (got, t1)"
    and "claim now' (\<lambda>i. i \<in> key ` set got) n' t = (got', t2)"
  shows "key ` set got \<inter> key ` set got' = {}"
proof -
  have "key r' \<notin> key ` set got" if "r' \<in> set got'" for r'
    using claimed_locked [OF assms(2) that] by blast
  then show ?thesis by (rule disjoint_images)
qed

text \<open>Rows that are not claimed are left alone.\<close>

lemma unclaimed_kept:
  assumes "claim now locked n t = (got, t')" "r \<in> set t" "key r \<notin> key ` set got"
  shows "r \<in> set t'"
proof -
  let ?sel = "claim_selection key (due now) order locked n t"
  have "t' = map (\<lambda>r. if key r \<in> key ` set ?sel then lock now r else r) t"
    using assms(1) by (auto simp: claim_rows_def Let_def)
  with assms(2,3) show ?thesis
    unfolding claimed_key_set [OF assms(1)] by auto
qed

lemma not_due_not_claimed:
  assumes "claim now locked n t = (got, t')" "distinct (map key t)" "r \<in> set t" "\<not> due now r"
  shows "r \<in> set t'" and "key r \<notin> key ` set got"
proof -
  show no: "key r \<notin> key ` set got"
  proof
    assume "key r \<in> key ` set got"
    then obtain g where g: "g \<in> set got" "key g = key r" by force
    from claimed_locked [OF assms(1) g(1)] obtain r0 where
      "r0 \<in> set t" "g = lock now r0" "due now r0" by blast
    with g(2) assms(2,3) have "r0 = r"
      by (metis distinct_map inj_onD key_lock)
    with \<open>due now r0\<close> assms(4) show False by simp
  qed
  show "r \<in> set t'" by (rule unclaimed_kept [OF assms(1,3) no])
qed

end

end
