(* ===== verification/Outbox.thy ===== *)
theory Outbox
  imports CoreEngine ClaimQueue
begin

text \<open>
  The transactional outbox: \<open>services/outbox.py\<close> (adding, reclaiming and claiming events) and
  \<open>workers/outbox_tasks.py\<close> (publishing what was claimed).  A worker writes single columns of a
  claimed row, so what happened to its other columns meanwhile is kept.  Publication goes to the
  event bus of \<open>CoreEngine\<close>, on a world \<open>'w\<close>.
\<close>

section \<open>Adding, reclaiming, claiming\<close>

definition add_outbox_event :: "datetime \<Rightarrow> uuid \<Rightarrow> uuid \<Rightarrow> string \<Rightarrow> string \<Rightarrow> string \<Rightarrow> json \<Rightarrow> db \<Rightarrow> db" where
  "add_outbox_event now new_id account_id event_type aggregate_type aggregate_id payload s =
     s\<lparr>outbox_events := outbox_events s @ [\<lparr>ob_id = new_id, ob_account_id = account_id,
        ob_event_type = event_type, ob_aggregate_type = aggregate_type, ob_aggregate_id = aggregate_id,
        ob_payload = payload, ob_status = ObPending, ob_attempts = 0, ob_available_at = now,
        ob_locked_at = None, ob_lock_owner = None, ob_max_attempts = 10, ob_processed_at = None,
        ob_last_error = None, ob_created_at = now\<rparr>]\<rparr>"

definition is_stale :: "datetime \<Rightarrow> outbox_event \<Rightarrow> bool" where
  "is_stale cutoff r \<longleftrightarrow> ob_status r = ObProcessing \<and>
     (case ob_locked_at r of None \<Rightarrow> False | Some t \<Rightarrow> t < cutoff)"

definition reclaim_stale_events :: "datetime \<Rightarrow> int \<Rightarrow> db \<Rightarrow> db \<times> int" where
  "reclaim_stale_events now stale_after_seconds s =
     (let cutoff = now - seconds stale_after_seconds in
      (s\<lparr>outbox_events := tbl_update (is_stale cutoff)
           (\<lambda>r. r\<lparr>ob_status := ObFailed, ob_lock_owner := None, ob_locked_at := None,
              ob_last_error := Some ''stale processing lock reclaimed''\<rparr>) (outbox_events s)\<rparr>,
       int (tbl_count (is_stale cutoff) (outbox_events s))))"

definition outbox_due :: "datetime \<Rightarrow> outbox_event \<Rightarrow> bool" where
  "outbox_due now r \<longleftrightarrow> ob_status r \<in> {ObPending, ObFailed} \<and> ob_available_at r \<le> now \<and>
     ob_attempts r < ob_max_attempts r"

definition outbox_lock :: "string \<Rightarrow> datetime \<Rightarrow> outbox_event \<Rightarrow> outbox_event" where
  "outbox_lock worker_id now r = r\<lparr>ob_status := ObProcessing, ob_locked_at := Some now,
     ob_lock_owner := Some worker_id, ob_attempts := ob_attempts r + 1\<rparr>"

definition claim_outbox_events :: "datetime \<Rightarrow> string \<Rightarrow> (uuid \<Rightarrow> bool) \<Rightarrow> nat \<Rightarrow> db \<Rightarrow> outbox_event list \<times> db" where
  "claim_outbox_events now worker_id locked limit s =
     (let s1 = fst (reclaim_stale_events now 120 s);
          (events, rows) = claim_rows ob_id (outbox_due now) (outbox_lock worker_id now)
             (sort_key ob_created_at) locked limit (outbox_events s1)
      in (events, s1\<lparr>outbox_events := rows\<rparr>))"

definition next_retry :: "datetime \<Rightarrow> int \<Rightarrow> datetime" where
  "next_retry now attempts = now + seconds (min 300 (2 ^ nat (min attempts 8)))"

section \<open>Publishing\<close>

definition event_of_outbox :: "datetime \<Rightarrow> uuid \<Rightarrow> outbox_event \<Rightarrow> domain_event" where
  "event_of_outbox now correlation item = \<lparr>ev_name = ob_event_type item, ev_account_id = ob_account_id item,
     ev_payload = ob_payload item, ev_actor_user_id = None, ev_aggregate_type = Some (ob_aggregate_type item),
     ev_aggregate_id = Some (ob_aggregate_id item), ev_correlation_id = correlation,
     ev_event_id = ob_id item, ev_occurred_at = now, ev_version = 1\<rparr>"

text \<open>The columns written after one publication: \<open>err\<close> is the exception of \<open>publish\<close>, if any, and the
  attempts and their limit are those of the claimed item.\<close>

definition settle_event :: "datetime \<Rightarrow> py_error option \<Rightarrow> outbox_event \<Rightarrow> outbox_event \<Rightarrow> outbox_event" where
  "settle_event now err item r =
     (case err of
        None \<Rightarrow> r\<lparr>ob_status := ObPublished, ob_processed_at := Some now, ob_last_error := None,
                  ob_lock_owner := None, ob_locked_at := None\<rparr>
      | Some exc \<Rightarrow> r\<lparr>ob_status := (if ob_attempts item \<ge> ob_max_attempts item then ObDead else ObFailed),
                  ob_lock_owner := None, ob_locked_at := None,
                  ob_last_error := Some (take 2000 (error_text exc)),
                  ob_available_at := next_retry now (ob_attempts item)\<rparr>)"

fun publish_claimed :: "(outbox_event \<Rightarrow> 'w \<Rightarrow> py_error option \<times> 'w) \<Rightarrow> datetime \<Rightarrow> outbox_event list \<Rightarrow>
    db \<Rightarrow> 'w \<Rightarrow> int \<Rightarrow> int \<Rightarrow> db \<times> 'w \<times> int \<times> int" where
  "publish_claimed deliver now [] s w published failed = (s, w, published, failed)"
| "publish_claimed deliver now (item # items) s w published failed =
     (let (err, w') = deliver item w;
          s' = s\<lparr>outbox_events := tbl_update (\<lambda>r. ob_id r = ob_id item) (settle_event now err item) (outbox_events s)\<rparr>
      in if err = None then publish_claimed deliver now items s' w' (published + 1) failed
         else publish_claimed deliver now items s' w' published (failed + 1))"

record publish_report =
  rep_claimed :: int
  rep_published :: int
  rep_failed :: int

definition publish_outbox :: "('h \<Rightarrow> domain_event \<Rightarrow> 'w \<Rightarrow> py_error option \<times> 'w) \<Rightarrow>
    (uuid \<Rightarrow> json \<Rightarrow> 'w \<Rightarrow> py_error option \<times> 'w) \<Rightarrow> (datetime \<Rightarrow> string) \<Rightarrow> 'h subscribers \<Rightarrow> (uuid \<Rightarrow> uuid) \<Rightarrow>
    datetime \<Rightarrow> string \<Rightarrow> (uuid \<Rightarrow> bool) \<Rightarrow> db \<Rightarrow> 'w \<Rightarrow> publish_report \<times> db \<times> 'w" where
  "publish_outbox run publish_event isoformat handlers correlation now worker_id locked s w =
     (let (events, s1) = claim_outbox_events now worker_id locked 100 s;
          (s2, w', published, failed) = publish_claimed
             (\<lambda>item. publish run publish_event isoformat handlers (event_of_outbox now (correlation (ob_id item)) item))
             now events s1 w 0 0
      in (\<lparr>rep_claimed = int (length events), rep_published = published, rep_failed = failed\<rparr>, s2, w'))"

section \<open>Claims\<close>

interpretation outbox_queue: claim_queue ob_id outbox_due "outbox_lock worker" "sort_key ob_created_at" for worker
  by unfold_locales (auto simp: outbox_due_def outbox_lock_def)

lemma reclaim_id [simp]: "map ob_id (outbox_events (fst (reclaim_stale_events now n s))) = map ob_id (outbox_events s)"
  by (auto simp: reclaim_stale_events_def tbl_update_def Let_def)

lemma reclaim_keeps_fresh:
  assumes "r \<in> set (outbox_events s)" "\<not> is_stale (now - seconds n) r"
  shows "r \<in> set (outbox_events (fst (reclaim_stale_events now n s)))"
  using assms by (force simp: reclaim_stale_events_def tbl_update_def Let_def)

lemma claim_outbox_rows:
  assumes "claim_outbox_events now worker locked n s = (events, s')"
  shows "claim_rows ob_id (outbox_due now) (outbox_lock worker now) (sort_key ob_created_at) locked n
      (outbox_events (fst (reclaim_stale_events now 120 s))) = (events, outbox_events s')"
  using assms by (auto simp: claim_outbox_events_def Let_def split: prod.splits)

definition demo_outbox_row :: "uuid \<Rightarrow> outbox_status \<Rightarrow> int \<Rightarrow> outbox_event" where
  "demo_outbox_row i st n = \<lparr>ob_id = i, ob_account_id = 1, ob_event_type = ''campaign.created'',
     ob_aggregate_type = ''campaign'', ob_aggregate_id = ''c'', ob_payload = JObj [], ob_status = st,
     ob_attempts = n, ob_available_at = 0, ob_locked_at = (if st = ObProcessing then Some 0 else None),
     ob_lock_owner = (if st = ObProcessing then Some ''w0'' else None), ob_max_attempts = 10,
     ob_processed_at = None, ob_last_error = None, ob_created_at = int i\<rparr>"

definition demo_outbox :: db where
  "demo_outbox = empty_db\<lparr>outbox_events := [demo_outbox_row 2 ObPending 0, demo_outbox_row 1 ObFailed 3]\<rparr>"

lemmas demo_outbox_defs = demo_outbox_def demo_outbox_row_def empty_db_def

lemmas claim_simps = claim_outbox_events_def reclaim_stale_events_def tbl_update_def claim_rows_def
  claim_selection_def outbox_due_def outbox_lock_def is_stale_def

section \<open>What publishing does to the rows\<close>

definition settle_row :: "datetime \<Rightarrow> py_error option \<Rightarrow> outbox_event \<Rightarrow> db \<Rightarrow> db" where
  "settle_row now err item s =
     s\<lparr>outbox_events := tbl_update (\<lambda>r. ob_id r = ob_id item) (settle_event now err item) (outbox_events s)\<rparr>"

lemma publish_claimed_step:
  assumes "deliver item w = (err, w1)"
  shows "publish_claimed deliver now (item # items) s w p f =
     publish_claimed deliver now items (settle_row now err item s) w1
       (if err = None then p + 1 else p) (if err = None then f else f + 1)"
  using assms by (simp add: settle_row_def Let_def)

lemma settle_row_events:
  "outbox_events (settle_row now err item s) =
     map (\<lambda>r. if ob_id r = ob_id item then settle_event now err item r else r) (outbox_events s)"
  by (simp add: settle_row_def tbl_update_def)

lemma publish_claimed_counts:
  assumes "publish_claimed deliver now items s w p f = (s', w', p', f')"
  shows "p' + f' = p + f + int (length items)"
  using assms
proof (induction items arbitrary: s w p f)
  case (Cons item items)
  obtain err w1 where d: "deliver item w = (err, w1)" by force
  have "publish_claimed deliver now items (settle_row now err item s) w1
       (if err = None then p + 1 else p) (if err = None then f else f + 1) = (s', w', p', f')"
    using Cons.prems publish_claimed_step [of deliver item w err w1] d by (simp del: publish_claimed.simps)
  from Cons.IH [OF this] show ?case by (simp split: if_splits)
qed simp

lemma settle_id [simp]: "ob_id (settle_event now err item r) = ob_id r"
  by (simp add: settle_event_def split: option.splits)

lemma settle_attempts [simp]:
  "ob_attempts (settle_event now err item r) = ob_attempts r"
  "ob_max_attempts (settle_event now err item r) = ob_max_attempts r"
  by (simp_all add: settle_event_def split: option.splits)

section \<open>Workers side by side\<close>

text \<open>What may happen after a claim, until its locks are stale at \<open>deadline\<close>: events are added, other claims are made, and claimed events are
  settled, by whoever holds them.  The set has the events of the claim that are not settled yet.\<close>

inductive outbox_step :: "datetime \<Rightarrow> uuid set \<times> db \<Rightarrow> uuid set \<times> db \<Rightarrow> bool" for deadline where
  event_added: "i \<notin> ob_id ` set (outbox_events s) \<Longrightarrow> outbox_step deadline (held, s) (held, add_outbox_event t i a ty ag k p s)"
| event_settled: "outbox_step deadline (held, s) (held - {ob_id item}, settle_row t err item s)"
| events_claimed: "t \<le> deadline \<Longrightarrow> claim_outbox_events t worker locked n s = (events, s') \<Longrightarrow> outbox_step deadline (held, s) (held, s')"

definition holds_locks :: "datetime \<Rightarrow> uuid set \<times> db \<Rightarrow> bool" where
  "holds_locks now x \<longleftrightarrow> distinct (map ob_id (outbox_events (snd x))) \<and>
     (\<forall>i \<in> fst x. \<exists>r \<in> set (outbox_events (snd x)). ob_id r = i \<and> ob_status r = ObProcessing \<and> ob_locked_at r = Some now)"

lemma claim_respects_locks:
  assumes "holds_locks now (held, s)" "t \<le> now + seconds 120" "claim_outbox_events t worker locked n s = (events, s')"
  shows "holds_locks now (held, s') \<and> ob_id ` set events \<inter> held = {}"
proof -
  let ?t = "outbox_events (fst (reclaim_stale_events t 120 s))"
  note c = claim_outbox_rows [OF assms(3)]
  have d: "distinct (map ob_id ?t)" "distinct (map ob_id (outbox_events s'))"
    using assms(1) outbox_queue.claimed_keys [OF c] by (simp_all add: holds_locks_def)
  have kept: "r \<in> set (outbox_events s') \<and> ob_id r \<notin> ob_id ` set events"
    if "r \<in> set (outbox_events s)" "ob_status r = ObProcessing" "ob_locked_at r = Some now" for r
  proof -
    have "\<not> is_stale (t - seconds 120) r" "\<not> outbox_due t r" using that assms(2) by (auto simp: is_stale_def outbox_due_def)
    then show ?thesis using outbox_queue.not_due_not_claimed [OF c d(1) reclaim_keeps_fresh [OF that(1)]] by blast
  qed
  have "\<exists>r \<in> set (outbox_events s'). ob_id r = i \<and> ob_status r = ObProcessing \<and> ob_locked_at r = Some now" "i \<notin> ob_id ` set events"
    if "i \<in> held" for i
    using assms(1) that kept by (fastforce simp: holds_locks_def)+
  then show ?thesis using d(2) by (auto simp: holds_locks_def)
qed

lemma outbox_step_keeps_locks:
  assumes "outbox_step (now + seconds 120) x y" "holds_locks now x"
  shows "holds_locks now y"
  using assms
proof cases
  case (event_settled held s item t err)
  have "map ob_id (outbox_events (settle_row t err item s)) = map ob_id (outbox_events s)" by (auto simp: settle_row_events)
  moreover have "r \<in> set (outbox_events (settle_row t err item s))" if "r \<in> set (outbox_events s)" "ob_id r \<noteq> ob_id item" for r
    using that by (force simp: settle_row_events)
  ultimately show ?thesis using assms(2) event_settled by (fastforce simp: holds_locks_def)
next
  case (events_claimed t worker locked n s events s' held)
  then show ?thesis using claim_respects_locks [of now held s] assms(2) by blast
qed (auto simp: holds_locks_def add_outbox_event_def)

text \<open>C12. Two outbox workers never work on the same event while the locks of the first are fresh: within 120 seconds after a claim, whatever events are
  added, claimed and settled meanwhile, no later claim takes an event of the first one that has not been settled yet.  (An event whose
  publication failed is settled; it may be claimed again two seconds later.)\<close>

theorem outbox_claims_disjoint:
  assumes "claim_outbox_events now worker locked n s = (events, s1)" "distinct (map ob_id (outbox_events s))"
    and "(outbox_step (now + seconds 120))\<^sup>*\<^sup>* (ob_id ` set events, s1) (unsettled, s2)"
    and "now' \<le> now + seconds 120" "claim_outbox_events now' worker' locked' n' s2 = (events', s3)"
  shows "ob_id ` set events' \<inter> unsettled = {}"
proof -
  note c = claim_outbox_rows [OF assms(1)]
  have locked: "ob_status e = ObProcessing \<and> ob_locked_at e = Some now" if "e \<in> set events" for e
    using outbox_queue.claimed_locked [OF c that] by (auto simp: outbox_lock_def)
  have start: "holds_locks now (ob_id ` set events, s1)"
    using assms(2) outbox_queue.claimed_keys [OF c] outbox_queue.claimed_in_table [OF c] locked by (auto simp: holds_locks_def)
  from assms(3) have "holds_locks now (unsettled, s2)"
    by (induction rule: rtranclp_induct) (use start outbox_step_keeps_locks in blast)+
  then show ?thesis using claim_respects_locks [OF _ assms(4,5)] by blast
qed

text \<open>The first claim takes event 1 and fails to publish event 2 of an earlier one; the second claim finds event 2 due again.\<close>

lemma outbox_claims_disjoint_witness:
  "map ob_id (fst (claim_outbox_events 5 ''a'' (\<lambda>_. False) 2 demo_outbox)) = [1, 2] \<and>
   map ob_id (fst (claim_outbox_events (seconds 30) ''b'' (\<lambda>_. False) 2
     (settle_row 6 (Some (OtherError ''x'')) ((demo_outbox_row 2 ObProcessing 1)) (snd (claim_outbox_events 5 ''a'' (\<lambda>_. False) 2 demo_outbox))))) = [2] \<and>
   ob_id ` set (fst (claim_outbox_events (seconds 30) ''b'' (\<lambda>_. False) 2
     (settle_row 6 (Some (OtherError ''x'')) ((demo_outbox_row 2 ObProcessing 1)) (snd (claim_outbox_events 5 ''a'' (\<lambda>_. False) 2 demo_outbox))))) \<inter>
     ({1, 2} - {2}) = {}"
proof -
  let ?c1 = "claim_outbox_events 5 ''a'' (\<lambda>_. False) 2 demo_outbox" and ?item = "demo_outbox_row 2 ObProcessing 1"
  let ?s2 = "settle_row 6 (Some (OtherError ''x'')) ?item (snd ?c1)"
  have claims: "map ob_id (fst ?c1) = [1, 2]" "map ob_id (fst (claim_outbox_events (seconds 30) ''b'' (\<lambda>_. False) 2 ?s2)) = [2]"
    by code_simp+
  have ids: "ob_id ` set (fst ?c1) = {1, 2}" using claims(1) by (metis list.set_map list.simps(15) set_empty2)
  have "outbox_step (5 + seconds 120) (ob_id ` set (fst ?c1), snd ?c1) (ob_id ` set (fst ?c1) - {ob_id ?item}, ?s2)" by (rule event_settled)
  then have "(outbox_step (5 + seconds 120))\<^sup>*\<^sup>* (ob_id ` set (fst ?c1), snd ?c1) ({1, 2} - {2}, ?s2)"
    unfolding ids by (intro r_into_rtranclp) (simp add: demo_outbox_row_def)
  from outbox_claims_disjoint [OF surjective_pairing _ this _ surjective_pairing, of "seconds 30" "''b''" "\<lambda>_. False" 2] claims show ?thesis
    by (simp add: timedelta_defs demo_outbox_defs)
qed

lemma publish_claimed_rows:
  assumes "publish_claimed deliver now items s w p f = (s', w', p', f')"
    and "distinct (map ob_id items)"
  shows "\<exists>g. outbox_events s' = map g (outbox_events s) \<and> (\<forall>r. ob_id (g r) = ob_id r) \<and>
    (\<forall>r. ob_id r \<notin> ob_id ` set items \<longrightarrow> g r = r) \<and>
    (\<forall>item \<in> set items. \<forall>r. ob_id r = ob_id item \<longrightarrow> (\<exists>err. g r = settle_event now err item r))"
  using assms
proof (induction items arbitrary: s w p f)
  case Nil
  then show ?case by (intro exI [of _ id]) simp
next
  case (Cons item items)
  obtain err w1 where d: "deliver item w = (err, w1)" by force
  let ?h = "\<lambda>r. if ob_id r = ob_id item then settle_event now err item r else r"
  have step: "publish_claimed deliver now items (settle_row now err item s) w1
       (if err = None then p + 1 else p) (if err = None then f else f + 1) = (s', w', p', f')"
    using Cons.prems(1) publish_claimed_step [of deliver item w err w1] d by (simp del: publish_claimed.simps)
  have dist: "distinct (map ob_id items)" and new: "ob_id item \<notin> ob_id ` set items"
    using Cons.prems(2) by simp_all
  from Cons.IH [OF step dist] obtain g where
    g: "outbox_events s' = map g (outbox_events (settle_row now err item s))" "\<And>r. ob_id (g r) = ob_id r"
    "\<And>r. ob_id r \<notin> ob_id ` set items \<Longrightarrow> g r = r"
    "\<And>i r. i \<in> set items \<Longrightarrow> ob_id r = ob_id i \<Longrightarrow> \<exists>err. g r = settle_event now err i r"
    by blast
  have "outbox_events s' = map (g \<circ> ?h) (outbox_events s)"
    using g(1) by (simp add: settle_row_events)
  moreover have "(g \<circ> ?h) r = settle_event now err item r" if "ob_id r = ob_id item" for r
    using that g(3) [of "settle_event now err item r"] new by simp
  moreover have "\<exists>err. (g \<circ> ?h) r = settle_event now err i r"
    if i: "i \<in> set items" "ob_id r = ob_id i" for i r
  proof -
    have "ob_id i \<in> ob_id ` set items" using i(1) by (rule imageI)
    with new i(2) have "ob_id r \<noteq> ob_id item" by metis
    with g(4) [OF i] show ?thesis by simp
  qed
  ultimately show ?case
    using g(2,3) by (intro exI [of _ "g \<circ> ?h"]) auto
qed

text \<open>One publication round settles everything it claimed: at most 100 events, each of which ends
  published, or failed with attempts left, or dead with its attempts used up, and holds no lock; the
  two counters of the report add up to the number claimed.\<close>

theorem publish_outbox_settles:
  assumes "publish_outbox run pe fmt handlers cor now worker locked s w = (rep, s', w')"
    and "distinct (map ob_id (outbox_events s))"
  shows "rep_published rep + rep_failed rep = rep_claimed rep \<and> rep_claimed rep \<le> 100 \<and>
    map ob_id (outbox_events s') = map ob_id (outbox_events s) \<and>
    (\<forall>e \<in> set (fst (claim_outbox_events now worker locked 100 s)).
       \<exists>r \<in> set (outbox_events s'). ob_id r = ob_id e \<and> ob_lock_owner r = None \<and> ob_locked_at r = None \<and>
         (ob_status r = ObPublished \<or>
          ob_status r = ObFailed \<and> ob_attempts r < ob_max_attempts r \<or>
          ob_status r = ObDead \<and> ob_attempts r = ob_max_attempts r))"
proof -
  obtain events s1 where cl: "claim_outbox_events now worker locked 100 s = (events, s1)" by force
  let ?deliver = "\<lambda>item. publish run pe fmt handlers (event_of_outbox now (cor (ob_id item)) item)"
  obtain p f where pc: "publish_claimed ?deliver now events s1 w 0 0 = (s', w', p, f)"
    and rep: "rep = \<lparr>rep_claimed = int (length events), rep_published = p, rep_failed = f\<rparr>"
    using assms(1) cl by (auto simp: publish_outbox_def Let_def split: prod.splits)
  note c = claim_outbox_rows [OF cl]
  have ids1: "map ob_id (outbox_events s1) = map ob_id (outbox_events s)"
    using outbox_queue.claimed_keys [OF c] by simp
  have dist: "distinct (map ob_id events)"
    by (rule outbox_queue.claimed_distinct [OF c]) (use assms(2) in simp)
  obtain g where g: "outbox_events s' = map g (outbox_events s1)" "\<And>r. ob_id (g r) = ob_id r"
    "\<And>i r. i \<in> set events \<Longrightarrow> ob_id r = ob_id i \<Longrightarrow> \<exists>err. g r = settle_event now err i r"
    using publish_claimed_rows [OF pc dist] by blast
  have "map ob_id (outbox_events s') = map ob_id (outbox_events s)"
    using g(1,2) ids1 by (simp add: comp_def)
  moreover have "\<exists>r \<in> set (outbox_events s'). ob_id r = ob_id e \<and> ob_lock_owner r = None \<and> ob_locked_at r = None \<and>
      (ob_status r = ObPublished \<or> ob_status r = ObFailed \<and> ob_attempts r < ob_max_attempts r \<or>
       ob_status r = ObDead \<and> ob_attempts r = ob_max_attempts r)" if e: "e \<in> set events" for e
  proof -
    have "e \<in> set (outbox_events s1)" by (rule outbox_queue.claimed_in_table [OF c e])
    then have "g e \<in> set (outbox_events s')" using g(1) by simp
    moreover obtain err where "g e = settle_event now err e e" using g(3) [OF e] by blast
    moreover have "ob_attempts e \<le> ob_max_attempts e"
      using outbox_queue.claimed_locked [OF c e] by (auto simp: outbox_lock_def outbox_due_def)
    ultimately show ?thesis
      by (intro bexI [of _ "g e"]) (auto simp: settle_event_def split: option.splits)
  qed
  ultimately show ?thesis
    using publish_claimed_counts [OF pc] outbox_queue.claimed_length [OF c] cl rep by auto
qed

theorem publish_outbox_settles_witness:
  "\<exists>rep s' w'. publish_outbox (\<lambda>h e w. (Some (OtherError ''x''), w)) (\<lambda>_ _ w. (None, w)) (\<lambda>_. [])
      ((\<lambda>_. [])(''campaign.created'' := [()])) id 5 ''a'' (\<lambda>_. False) demo_outbox () = (rep, s', w') \<and>
    rep_published rep + rep_failed rep = rep_claimed rep \<and> rep_claimed rep \<le> 100"
proof -
  obtain rep s' w' where run: "publish_outbox (\<lambda>h e w. (Some (OtherError ''x''), w)) (\<lambda>_ _ w. (None, w)) (\<lambda>_. [])
      ((\<lambda>_. [])(''campaign.created'' := [()])) id 5 ''a'' (\<lambda>_. False) demo_outbox () = (rep, s', w')"
    by (metis surj_pair)
  from publish_outbox_settles [OF run] have
    "rep_published rep + rep_failed rep = rep_claimed rep \<and> rep_claimed rep \<le> 100"
    by (simp add: demo_outbox_defs)
  with run show ?thesis by blast
qed

text \<open>The retry delay after an attempt is between 2 and 256 seconds, and grows with the attempts:
  the cap of 300 seconds is never reached.\<close>

theorem next_retry_bounds:
  assumes "1 \<le> n" "n \<le> m"
  shows "now + seconds 2 \<le> next_retry now n \<and> next_retry now n \<le> next_retry now m \<and>
    next_retry now m \<le> now + seconds 256"
proof -
  have e: "next_retry now k = now + seconds (2 ^ nat (min k 8))" for k
  proof -
    have "(2::int) ^ nat (min k 8) \<le> 2 ^ 8" by (rule power_increasing) auto
    then show ?thesis by (simp add: next_retry_def)
  qed
  have "(2::int) ^ 1 \<le> 2 ^ nat (min n 8)" using assms(1) by (intro power_increasing) auto
  moreover have "(2::int) ^ nat (min n 8) \<le> 2 ^ nat (min m 8)" using assms(2) by (intro power_increasing) auto
  moreover have "(2::int) ^ nat (min m 8) \<le> 2 ^ 8" by (intro power_increasing) auto
  ultimately show ?thesis by (simp add: e timedelta_defs)
qed

theorem next_retry_bounds_witness:
  "0 + seconds 2 \<le> next_retry 0 3 \<and> next_retry 0 3 \<le> next_retry 0 20 \<and> next_retry 0 20 \<le> 0 + seconds 256"
  using next_retry_bounds [of 3 20 0] by simp

section \<open>Exhausted events\<close>

text \<open>A failed event without attempts left is never taken up again, nor changed.\<close>

lemma exhausted_event_stays:
  assumes "r \<in> set (outbox_events s)" "ob_status r = ObFailed" "ob_max_attempts r \<le> ob_attempts r"
    and "distinct (map ob_id (outbox_events s))"
    and "publish_outbox run pe fmt handlers cor now worker locked s w = (rep, s', w')"
  shows "r \<in> set (outbox_events s')"
proof -
  obtain events s1 where cl: "claim_outbox_events now worker locked 100 s = (events, s1)" by force
  let ?deliver = "\<lambda>item. publish run pe fmt handlers (event_of_outbox now (cor (ob_id item)) item)"
  obtain p f where pc: "publish_claimed ?deliver now events s1 w 0 0 = (s', w', p, f)"
    using assms(5) cl by (auto simp: publish_outbox_def Let_def split: prod.splits)
  note c = claim_outbox_rows [OF cl]
  let ?t = "outbox_events (fst (reclaim_stale_events now 120 s))"
  have t: "r \<in> set ?t" "distinct (map ob_id ?t)" "\<not> outbox_due now r"
    using assms(1-4) by (auto intro!: reclaim_keeps_fresh simp: is_stale_def outbox_due_def)
  have r: "r \<in> set (outbox_events s1)" "ob_id r \<notin> ob_id ` set events"
    using outbox_queue.not_due_not_claimed [OF c t(2,1,3)] by auto
  obtain g where "outbox_events s' = map g (outbox_events s1)"
    "\<And>r. ob_id r \<notin> ob_id ` set events \<Longrightarrow> g r = r"
    using publish_claimed_rows [OF pc outbox_queue.claimed_distinct [OF c t(2)]] by blast
  with r show ?thesis by (metis image_eqI list.set_map)
qed

text \<open>An event whose last allowed attempt was cut off (its worker died holding the lock) is
  reclaimed as failed and stays so: no round marks it dead, and no later round changes it.  The
  dead-letter state only covers attempts that fail with an exception.\<close>

theorem interrupted_last_attempt_never_dead:
  assumes "r \<in> set (outbox_events s)" "ob_status r = ObProcessing" "ob_locked_at r = Some t"
    and "t < now - seconds 120" "ob_max_attempts r \<le> ob_attempts r"
    and "distinct (map ob_id (outbox_events s))"
    and "publish_outbox run pe fmt handlers cor now worker locked s w = (rep, s', w')"
  shows "\<exists>q \<in> set (outbox_events s'). ob_id q = ob_id r \<and> ob_status q = ObFailed \<and>
    ob_attempts q = ob_attempts r \<and>
    (\<forall>now2 worker2 locked2 w2 rep2 s2 w2'.
       publish_outbox run pe fmt handlers cor now2 worker2 locked2 s' w2 = (rep2, s2, w2') \<longrightarrow>
       q \<in> set (outbox_events s2))"
proof -
  let ?q = "r\<lparr>ob_status := ObFailed, ob_lock_owner := None, ob_locked_at := None,
      ob_last_error := Some ''stale processing lock reclaimed''\<rparr>"
  let ?s0 = "fst (reclaim_stale_events now 120 s)"
  have q0: "?q \<in> set (outbox_events ?s0)"
    using assms(1-4) by (auto simp: reclaim_stale_events_def tbl_update_def is_stale_def Let_def intro!: rev_image_eqI)
  have d0: "distinct (map ob_id (outbox_events ?s0))" using assms(6) by simp
  have "outbox_events (fst (reclaim_stale_events now 120 ?s0)) = outbox_events ?s0"
    by (auto simp: reclaim_stale_events_def tbl_update_def is_stale_def Let_def)
  then have "fst (reclaim_stale_events now 120 ?s0) = ?s0"
    by (auto simp: reclaim_stale_events_def Let_def)
  then have same: "publish_outbox run pe fmt handlers cor now worker locked ?s0 w = (rep, s', w')"
    using assms(7) by (simp add: publish_outbox_def claim_outbox_events_def Let_def)
  have q1: "?q \<in> set (outbox_events s')"
    by (rule exhausted_event_stays [OF q0 _ _ d0 same]) (use assms(5) in simp_all)
  have "distinct (map ob_id (outbox_events s'))"
    using publish_outbox_settles [OF assms(7,6)] assms(6) by simp
  with q1 have "\<forall>now2 worker2 locked2 w2 rep2 s2 w2'.
     publish_outbox run pe fmt handlers cor now2 worker2 locked2 s' w2 = (rep2, s2, w2') \<longrightarrow> ?q \<in> set (outbox_events s2)"
    using assms(5) by (auto intro: exhausted_event_stays)
  with q1 show ?thesis by (intro bexI [of _ ?q]) auto
qed

theorem interrupted_last_attempt_never_dead_witness:
  "\<exists>rep s' w'. publish_outbox (\<lambda>(h::unit) e w. (None, w)) (\<lambda>_ _ w. (None, w)) (\<lambda>_. []) (\<lambda>_. []) id (hours 1) ''a''
      (\<lambda>_. False) (empty_db\<lparr>outbox_events := [demo_outbox_row 1 ObProcessing 10]\<rparr>) () = (rep, s', w') \<and>
    (\<exists>q \<in> set (outbox_events s'). ob_id q = 1 \<and> ob_status q = ObFailed \<and> ob_attempts q = 10)"
proof -
  obtain rep s' w' where run: "publish_outbox (\<lambda>(h::unit) e w. (None, w)) (\<lambda>_ _ w. (None, w)) (\<lambda>_. []) (\<lambda>_. []) id (hours 1) ''a''
      (\<lambda>_. False) (empty_db\<lparr>outbox_events := [demo_outbox_row 1 ObProcessing 10]\<rparr>) () = (rep, s', w')"
    by (metis surj_pair)
  have "\<exists>q \<in> set (outbox_events s'). ob_id q = 1 \<and> ob_status q = ObFailed \<and> ob_attempts q = 10"
    using interrupted_last_attempt_never_dead [OF _ _ _ _ _ _ run, of "demo_outbox_row 1 ObProcessing 10" 0]
    by (auto simp: demo_outbox_row_def timedelta_defs)
  with run show ?thesis by blast
qed

end
