(* ===== verification/Scheduler.thy ===== *)
theory Scheduler
  imports Models ClaimQueue
begin

text \<open>
  Scheduled jobs: \<open>services/scheduler.py\<close> and \<open>workers/scheduler_tasks.py\<close>.  Tasks handed to Celery go
  to two queues, of campaign runs (campaign and token, as texts) and of automation runs.
\<close>

record task_queues =
  campaign_queue :: "(string \<times> string) list"
  automation_queue :: "string list"

definition schedule_job :: "uuid \<Rightarrow> uuid \<Rightarrow> string \<Rightarrow> json \<Rightarrow> datetime \<Rightarrow> int \<Rightarrow> db \<Rightarrow> db" where
  "schedule_job new_id account_id kind payload run_at max_attempts s =
     s\<lparr>jobs := jobs s @ [\<lparr>job_id = new_id, job_account_id = account_id, job_type = kind,
        job_payload = payload, job_run_at = run_at, job_status = JobPending, job_attempts = 0,
        job_max_attempts = max_attempts, job_locked_at = None, job_completed_at = None,
        job_error_message = None\<rparr>]\<rparr>"

definition job_due :: "datetime \<Rightarrow> scheduled_job \<Rightarrow> bool" where
  "job_due now r \<longleftrightarrow> job_status r = JobPending \<and> job_run_at r \<le> now"

definition job_lock :: "datetime \<Rightarrow> scheduled_job \<Rightarrow> scheduled_job" where
  "job_lock now r = r\<lparr>job_status := JobClaimed, job_locked_at := Some now, job_attempts := job_attempts r + 1\<rparr>"

definition claim_due_jobs :: "datetime \<Rightarrow> (uuid \<Rightarrow> bool) \<Rightarrow> nat \<Rightarrow> db \<Rightarrow> scheduled_job list \<times> db" where
  "claim_due_jobs now locked limit s =
     (let (got, rows) = claim_rows job_id (job_due now) (job_lock now) id locked limit (jobs s)
      in (got, s\<lparr>jobs := rows\<rparr>))"

text \<open>The text under a key, as Python's \<open>str\<close> of it; the code only stores texts there.\<close>

fun payload_text :: "json option \<Rightarrow> string" where
  "payload_text (Some (JStr t)) = t"
| "payload_text (Some (JInt i)) = int_str i"
| "payload_text _ = []"

text \<open>\<open>_handle_job\<close>: \<open>None\<close> for a normal return, or the exception.  The last component is the
  \<open>error_message\<close> the handler sets on the job itself.\<close>

definition handle_job :: "scheduled_job \<Rightarrow> db \<Rightarrow> task_queues \<Rightarrow>
    py_error option \<times> db \<times> task_queues \<times> string option" where
  "handle_job job s q =
     (if job_type job = ''campaign.start'' then
        (let campaign_id = jget (job_payload job) ''campaign_id'';
             execution_token = jget (job_payload job) ''execution_token''
         in if j_truthy campaign_id \<and> j_truthy execution_token
            then (None, s, q\<lparr>campaign_queue := campaign_queue q @
                    [(payload_text campaign_id, payload_text execution_token)]\<rparr>, job_error_message job)
            else (None, s, q, job_error_message job))
      else if job_type job = ''conversation.unsnooze'' then
        (let conversation_id = jget (job_payload job) ''conversation_id''
         in if j_truthy conversation_id
            then (case parse_uuid (payload_text conversation_id) of
                    None \<Rightarrow> (Some (ValueError ''badly formed hexadecimal UUID string''), s, q, job_error_message job)
                  | Some i \<Rightarrow>
                      (case get_conversation_row s i of
                         None \<Rightarrow> (None, s, q, job_error_message job)
                       | Some c \<Rightarrow> (None, put_conversation (c\<lparr>conv_snoozed_until := None\<rparr>) s, q, job_error_message job)))
            else (None, s, q, job_error_message job))
      else if job_type job = ''automation.resume'' then
        (let run_id = jget (job_payload job) ''run_id''
         in if j_truthy run_id
            then (None, s, q\<lparr>automation_queue := automation_queue q @ [payload_text run_id]\<rparr>, job_error_message job)
            else (None, s, q, job_error_message job))
      else (None, s, q, Some (''Unknown job type: '' @ job_type job)))"

definition settle_job :: "datetime \<Rightarrow> py_error option \<Rightarrow> string option \<Rightarrow> scheduled_job \<Rightarrow> scheduled_job" where
  "settle_job now err message job =
     (case err of
        None \<Rightarrow> job\<lparr>job_error_message := message, job_status := JobCompleted, job_completed_at := Some now\<rparr>
      | Some exc \<Rightarrow> job\<lparr>job_error_message := Some (error_text exc),
                      job_status := (if job_attempts job \<ge> job_max_attempts job then JobFailed else JobPending)\<rparr>)"

fun run_claimed_jobs :: "datetime \<Rightarrow> scheduled_job list \<Rightarrow> db \<Rightarrow> task_queues \<Rightarrow> int \<Rightarrow> int \<Rightarrow>
    db \<times> task_queues \<times> int \<times> int" where
  "run_claimed_jobs now [] s q completed failed = (s, q, completed, failed)"
| "run_claimed_jobs now (job # rest) s q completed failed =
     (let (err, s', q', message) = handle_job job s q;
          s'' = put_job (settle_job now err message job) s'
      in if err = None then run_claimed_jobs now rest s'' q' (completed + 1) failed
         else run_claimed_jobs now rest s'' q' completed (failed + 1))"

definition run_due_jobs :: "datetime \<Rightarrow> (uuid \<Rightarrow> bool) \<Rightarrow> db \<Rightarrow> task_queues \<Rightarrow> (int \<times> int \<times> int) \<times> db \<times> task_queues" where
  "run_due_jobs now locked s q =
     (let (got, s1) = claim_due_jobs now locked 100 s;
          (s2, q', completed, failed) = run_claimed_jobs now got s1 q 0 0
      in ((int (length got), completed, failed), s2, q'))"

interpretation job_table: claim_queue job_id job_due job_lock id
  by unfold_locales (auto simp: job_due_def job_lock_def)

lemma claim_due_rows:
  assumes "claim_due_jobs now locked n s = (got, s')"
  shows "claim_rows job_id (job_due now) (job_lock now) id locked n (jobs s) = (got, jobs s')"
  using assms by (auto simp: claim_due_jobs_def split: prod.splits)

text \<open>A job is claimed by one run of the scheduler: whatever two runs claim, at any times and
  limits, is disjoint.\<close>

theorem scheduler_claims_disjoint:
  assumes "claim_due_jobs now locked n s = (got, s1)" "claim_due_jobs now' locked' n' s1 = (got', s2)"
  shows "job_id ` set got \<inter> job_id ` set got' = {}"
  by (rule job_table.claims_disjoint [OF claim_due_rows [OF assms(1)] claim_due_rows [OF assms(2)]])

definition demo_job :: "uuid \<Rightarrow> string \<Rightarrow> json \<Rightarrow> scheduled_job" where
  "demo_job i kind payload = \<lparr>job_id = i, job_account_id = 1, job_type = kind, job_payload = payload,
     job_run_at = 0, job_status = JobPending, job_attempts = 0, job_max_attempts = 5,
     job_locked_at = None, job_completed_at = None, job_error_message = None\<rparr>"

definition demo_jobs :: db where
  "demo_jobs = empty_db\<lparr>jobs := [demo_job 1 ''automation.resume'' (JObj [(''run_id'', JStr ''r1'')]),
     demo_job 2 ''conversation.unsnooze'' (JObj [(''conversation_id'', JStr ''xyz'')]),
     demo_job 3 ''no.such.job'' (JObj [])]\<rparr>"

lemmas demo_jobs_defs = demo_jobs_def demo_job_def empty_db_def

theorem scheduler_claims_disjoint_witness:
  "job_id ` set (fst (claim_due_jobs 5 (\<lambda>_. False) 2 demo_jobs)) \<inter>
   job_id ` set (fst (claim_due_jobs 6 (\<lambda>_. False) 2 (snd (claim_due_jobs 5 (\<lambda>_. False) 2 demo_jobs)))) = {}"
  by (rule scheduler_claims_disjoint [OF surjective_pairing surjective_pairing])

section \<open>Outcomes of a run\<close>

lemma handle_job_keeps_jobs:
  assumes "handle_job job s q = (err, s', q', m)"
  shows "jobs s' = jobs s"
  using assms by (auto simp: handle_job_def Let_def row_defs split: if_splits option.splits)

lemma settle_job_id [simp]: "job_id (settle_job now err m job) = job_id job"
  by (simp add: settle_job_def split: option.splits)

text \<open>The row of a claimed job after the run, when no other claimed job has its identifier.\<close>

lemma run_claimed_jobs_rows:
  assumes "run_claimed_jobs now got s q c f = (s', q', c', f')" and "distinct (map job_id got)"
  shows "c' + f' = c + f + int (length got) \<and> map job_id (jobs s') = map job_id (jobs s) \<and>
    (\<forall>i. i \<notin> job_id ` set got \<longrightarrow> get_job_row s' i = get_job_row s i) \<and>
    (\<forall>job \<in> set got. get_job_row s (job_id job) \<noteq> None \<longrightarrow>
       (\<exists>err m. get_job_row s' (job_id job) = Some (settle_job now err m job)))"
  using assms
proof (induction got arbitrary: s q c f)
  case (Cons job rest)
  obtain err s1 q1 m where h: "handle_job job s q = (err, s1, q1, m)" by (metis surj_pair)
  let ?s2 = "put_job (settle_job now err m job) s1"
  have j: "jobs s1 = jobs s" by (rule handle_job_keeps_jobs [OF h])
  then have row: "get_job_row s1 i = get_job_row s i" for i by (simp add: get_job_row_def)
  obtain c1 f1 where r: "run_claimed_jobs now rest ?s2 q1 c1 f1 = (s', q', c', f')" "c1 + f1 = c + f + 1"
    using Cons.prems(1) h by (auto simp: Let_def split: if_splits)
  have d: "job_id job \<notin> job_id ` set rest" "distinct (map job_id rest)" using Cons.prems(2) by auto
  note IH = Cons.IH [OF r(1) d(2)]
  have put: "get_job_row ?s2 i =
      (if i = job_id job \<and> get_job_row s i \<noteq> None then Some (settle_job now err m job) else get_job_row s i)" for i
    by (auto simp: job_rows.get_put row)
  have ids: "map job_id (jobs ?s2) = map job_id (jobs s)"
    by (simp add: put_job_def map_key_put j)
  have "\<exists>err m. get_job_row s' (job_id i) = Some (settle_job now err m i)"
    if i: "i \<in> set (job # rest)" "get_job_row s (job_id i) \<noteq> None" for i
  proof (cases "i = job")
    case True
    with i(2) have "get_job_row ?s2 (job_id i) = Some (settle_job now err m i)" by (simp add: put)
    moreover have "get_job_row s' (job_id i) = get_job_row ?s2 (job_id i)" using IH True d(1) by blast
    ultimately show ?thesis by auto
  next
    case False
    with i have "i \<in> set rest" "get_job_row ?s2 (job_id i) \<noteq> None" by (auto simp: put)
    with IH show ?thesis by blast
  qed
  moreover have "get_job_row s' i = get_job_row s i" if "i \<notin> job_id ` set (job # rest)" for i
    using that IH by (simp add: put)
  ultimately show ?case
    using IH r(2) ids by simp
qed simp

text \<open>After a run every claimed job is completed, or failed with its attempts used up, or pending
  again with attempts left; jobs that were not claimed are as they were; and the counts of the
  report add up.\<close>

theorem run_due_jobs_settles:
  assumes "run_due_jobs now locked s q = ((claimed, completed, failed), s', q')"
    and "distinct (map job_id (jobs s))"
  shows "completed + failed = claimed \<and> claimed \<le> 100 \<and>
    (\<forall>i. i \<notin> job_id ` set (fst (claim_due_jobs now locked 100 s)) \<longrightarrow> get_job_row s' i = get_job_row s i) \<and>
    (\<forall>job \<in> set (fst (claim_due_jobs now locked 100 s)). \<exists>r. get_job_row s' (job_id job) = Some r \<and>
       job_attempts r = job_attempts job \<and>
       (job_status r = JobCompleted \<or>
        job_status r = JobFailed \<and> job_max_attempts r \<le> job_attempts r \<or>
        job_status r = JobPending \<and> job_attempts r < job_max_attempts r))"
proof -
  obtain got s1 where cl: "claim_due_jobs now locked 100 s = (got, s1)" by force
  have r: "run_claimed_jobs now got s1 q 0 0 = (s', q', completed, failed)" "claimed = int (length got)"
    using assms(1) cl by (auto simp: run_due_jobs_def split: prod.splits)
  note c = claim_due_rows [OF cl]
  have d: "distinct (map job_id got)" "distinct (map job_id (jobs s1))"
    using job_table.claimed_distinct [OF c assms(2)] job_table.claimed_keys [OF c] assms(2) by simp_all
  note rows = run_claimed_jobs_rows [OF r(1) d(1)]
  have "get_job_row s1 i = get_job_row s i" if "i \<notin> job_id ` set got" for i
  proof -
    have "map (\<lambda>r. if job_id r \<in> job_id ` set got then job_lock now r else r) (jobs s) = jobs s1"
      using c unfolding job_table.claimed_key_set [OF c] by (auto simp: claim_rows_def Let_def)
    then have "jobs s1 = tbl_update (\<lambda>r. job_id r \<in> job_id ` set got) (job_lock now) (jobs s)"
      by (simp add: tbl_update_def)
    moreover have "\<And>x. job_id (job_lock now x) = job_id x" by (simp add: job_lock_def)
    ultimately show ?thesis
      using that tbl_get_key [of job_id "jobs s" i]
      by (cases "tbl_get job_id (jobs s) i") (auto simp: get_job_row_def tbl_get_update)
  qed
  moreover have "\<exists>r. get_job_row s' (job_id job) = Some r \<and> job_attempts r = job_attempts job \<and>
       (job_status r = JobCompleted \<or> job_status r = JobFailed \<and> job_max_attempts r \<le> job_attempts r \<or>
        job_status r = JobPending \<and> job_attempts r < job_max_attempts r)" if "job \<in> set got" for job
  proof -
    have "get_job_row s1 (job_id job) = Some job"
      unfolding get_job_row_def
      by (rule tbl_get_distinct [OF d(2) job_table.claimed_in_table [OF c that]])
    with rows that obtain err m where "get_job_row s' (job_id job) = Some (settle_job now err m job)"
      by (metis option.distinct(1))
    then show ?thesis by (auto simp: settle_job_def split: option.splits)
  qed
  ultimately show ?thesis
    using rows r(2) cl job_table.claimed_length [OF c] by auto
qed

theorem run_due_jobs_settles_witness:
  "\<exists>rep s' q'. run_due_jobs 5 (\<lambda>_. False) demo_jobs \<lparr>campaign_queue = [], automation_queue = []\<rparr> = (rep, s', q') \<and>
     fst (snd rep) + snd (snd rep) = fst rep"
proof -
  obtain a b c s' q' where run: "run_due_jobs 5 (\<lambda>_. False) demo_jobs \<lparr>campaign_queue = [], automation_queue = []\<rparr>
      = ((a, b, c), s', q')" by (metis surj_pair)
  from run_due_jobs_settles [OF run] have "b + c = a" by (simp add: demo_jobs_defs)
  with run show ?thesis by (intro exI [of _ "(a, b, c)"]) auto
qed

text \<open>A job that is claimed when its worker dies stays claimed: nothing reclaims it, so no later
  run of the scheduler takes it up or changes it.\<close>

theorem abandoned_job_never_runs:
  assumes "get_job_row s i = Some job" "job_status job = JobClaimed" "distinct (map job_id (jobs s))"
    and "run_due_jobs now locked s q = (rep, s', q')"
  shows "get_job_row s' i = Some job"
proof -
  obtain got s1 where cl: "claim_due_jobs now locked 100 s = (got, s1)" by force
  obtain a b c where rep: "rep = (a, b, c)" by (metis surj_pair)
  have job: "job \<in> set (jobs s)" "job_id job = i"
    using assms(1) by (auto simp: get_job_row_def dest: tbl_get_mem tbl_get_key)
  have "job_id job \<notin> job_id ` set got"
    by (rule job_table.not_due_not_claimed(2) [OF claim_due_rows [OF cl] assms(3) job(1)])
      (use assms(2) in \<open>simp add: job_due_def\<close>)
  with run_due_jobs_settles [OF assms(4) [unfolded rep] assms(3)] job(2) cl assms(1) show ?thesis by simp
qed

theorem abandoned_job_never_runs_witness:
  "get_job_row (fst (snd (run_due_jobs 999 (\<lambda>_. False)
      (empty_db\<lparr>jobs := [(demo_job 1 ''automation.resume'' JNull)\<lparr>job_status := JobClaimed\<rparr>]\<rparr>)
      \<lparr>campaign_queue = [], automation_queue = []\<rparr>))) 1 =
    Some ((demo_job 1 ''automation.resume'' JNull)\<lparr>job_status := JobClaimed\<rparr>)"
proof (rule abandoned_job_never_runs [where rep = "fst (run_due_jobs 999 (\<lambda>_. False)
      (empty_db\<lparr>jobs := [(demo_job 1 ''automation.resume'' JNull)\<lparr>job_status := JobClaimed\<rparr>]\<rparr>)
      \<lparr>campaign_queue = [], automation_queue = []\<rparr>)" and
    q' = "snd (snd (run_due_jobs 999 (\<lambda>_. False)
      (empty_db\<lparr>jobs := [(demo_job 1 ''automation.resume'' JNull)\<lparr>job_status := JobClaimed\<rparr>]\<rparr>)
      \<lparr>campaign_queue = [], automation_queue = []\<rparr>))"])
qed (simp_all add: get_job_row_def tbl_get_def demo_job_def)

end
