(* ===== verification/Campaigns.thy ===== *)
theory Campaigns
  imports Access Reachability Outbox Scheduler
begin

text \<open>
  The life of a campaign outside its worker: creation, approval, start, pause, cancellation, archive,
  report and inbox messages (\<open>services/campaigns.py\<close>), the tier check (\<open>enforce_campaign_tier_limit\<close> in
  \<open>services/whatsapp_window.py\<close>), follow-ups (\<open>services/campaign_follow_up.py\<close>), recovery and retry
  (\<open>services/campaign_recovery.py\<close>).  The optional membership is the caller whose access is checked.  The
  ids of new rows, the random tokens and the clock are arguments; a \<open>ValueError\<close> leaves the database as
  it was.
\<close>

section \<open>Creation\<close>

record recipient_input =
  ri_contact_id :: uuid
  ri_template_parameters :: "json list"

record campaign_create =
  cc_organization_id :: uuid
  cc_whatsapp_account_id :: uuid
  cc_template_id :: uuid
  cc_name :: string
  cc_scheduled_at :: "datetime option"
  cc_recipients :: "recipient_input list"
  cc_include_opt_out_option :: bool
  cc_exclude_marketing_opt_out :: bool
  cc_exclude_unreachable :: bool
  cc_exclude_risky :: bool
  cc_only_never_sent :: bool

text \<open>The WhatsApp account a campaign may use, with the access checks of the caller if there is one.\<close>

definition campaign_whatsapp_account :: "db \<Rightarrow> uuid \<Rightarrow> membership option \<Rightarrow> uuid \<Rightarrow> uuid \<Rightarrow> whatsapp_account outcome" where
  "campaign_whatsapp_account s account_id mo organization_id whatsapp_account_id =
     (case mo of
        Some m \<Rightarrow>
          (case ensure_membership_organization_access s account_id m organization_id of
             Inl e \<Rightarrow> Inl e
           | Inr _ \<Rightarrow> ensure_whatsapp_account_access s account_id m whatsapp_account_id)
      | None \<Rightarrow>
          (case get_whatsapp_account s whatsapp_account_id of
             None \<Rightarrow> Inl (ValueError ''INVALID_WHATSAPP_ACCOUNT'')
           | Some wa \<Rightarrow> if wa_account_id wa \<noteq> account_id then Inl (ValueError ''INVALID_WHATSAPP_ACCOUNT'') else Inr wa))"

definition check_campaign_template :: "db \<Rightarrow> uuid \<Rightarrow> whatsapp_account \<Rightarrow> campaign_create \<Rightarrow> unit outcome" where
  "check_campaign_template s account_id wa payload =
     (if wa_organization_id wa \<noteq> cc_organization_id payload then Inl (ValueError ''ORGANIZATION_MISMATCH'')
      else (case get_template s (cc_template_id payload) of
          None \<Rightarrow> Inl (ValueError ''INVALID_TEMPLATE'')
        | Some t \<Rightarrow>
            if tpl_account_id t \<noteq> account_id then Inl (ValueError ''INVALID_TEMPLATE'')
            else if tpl_whatsapp_account_id t \<noteq> wa_id wa then Inl (ValueError ''TEMPLATE_ACCOUNT_MISMATCH'')
            else if tpl_status t \<noteq> TplApproved then Inl (ValueError ''TEMPLATE_NOT_APPROVED'')
            else Inr ()))"

definition campaign_contacts :: "db \<Rightarrow> uuid \<Rightarrow> campaign_create \<Rightarrow> contact list" where
  "campaign_contacts s account_id payload =
     filter (\<lambda>c. con_account_id c = account_id \<and> con_organization_id c = cc_organization_id payload
        \<and> con_deleted_at c = None \<and> con_id c \<in> set (map ri_contact_id (cc_recipients payload))) (contacts s)"

text \<open>\<open>contact_by_id\<close>: the rows keyed by id; ids are unique.\<close>

definition by_id :: "contact list \<Rightarrow> uuid \<Rightarrow> contact option" where
  "by_id rows i = find (\<lambda>c. con_id c = i) rows"

definition keep_if :: "contact list \<Rightarrow> (contact \<Rightarrow> bool) \<Rightarrow> recipient_input list \<Rightarrow> recipient_input list" where
  "keep_if rows p items =
     filter (\<lambda>item. case by_id rows (ri_contact_id item) of None \<Rightarrow> False | Some c \<Rightarrow> p c) items"

definition select_recipients :: "db \<Rightarrow> uuid \<Rightarrow> whatsapp_account \<Rightarrow> campaign_create \<Rightarrow> recipient_input list outcome" where
  "select_recipients s account_id wa payload =
     (let contact_ids = map ri_contact_id (cc_recipients payload);
          rows = campaign_contacts s account_id payload in
      if \<not> distinct contact_ids then Inl (ValueError ''DUPLICATE_RECIPIENT'')
      else if set (map con_id rows) \<noteq> set contact_ids then Inl (ValueError ''INVALID_RECIPIENT'')
      else
        (let on_channel = keep_if rows (\<lambda>c. con_channel_id c = wa_channel_id wa) (cc_recipients payload) in
         if on_channel = [] then Inl (ValueError ''RECIPIENT_CHANNEL_MISMATCH'')
         else
           (let opted = (if cc_exclude_marketing_opt_out payload then keep_if rows con_marketing_opt_in on_channel
                         else on_channel) in
            if cc_exclude_marketing_opt_out payload \<and> opted = [] then Inl (ValueError ''ALL_RECIPIENTS_OPTED_OUT'')
            else
              (let eligible = keep_if rows (\<lambda>c. is_contact_campaign_eligible c (cc_exclude_unreachable payload)
                     (cc_exclude_risky payload) True) opted in
               if eligible = [] then Inl (ValueError ''ALL_RECIPIENTS_UNREACHABLE'')
               else if \<not> cc_only_never_sent payload then Inr eligible
               else
                 (let never_sent = filter_never_sent_contact_ids s account_id (map ri_contact_id eligible);
                      fresh = filter (\<lambda>item. ri_contact_id item \<in> set never_sent) eligible
                  in if fresh = [] then Inl (ValueError ''ALL_RECIPIENTS_PREVIOUSLY_SENT'') else Inr fresh)))))"

definition new_recipient :: "uuid \<Rightarrow> uuid \<Rightarrow> uuid \<Rightarrow> json list option \<Rightarrow> campaign_recipient" where
  "new_recipient i campaign_id contact_id params =
     \<lparr>rcp_id = i, rcp_campaign_id = campaign_id, rcp_contact_id = contact_id, rcp_status = RPending,
      rcp_template_parameters = params, rcp_external_message_id = None, rcp_error_message = None,
      rcp_delivery_key = None, rcp_sending_started_at = None, rcp_last_attempt_at = None\<rparr>"

definition campaign_event :: "datetime \<Rightarrow> uuid \<Rightarrow> uuid \<Rightarrow> string \<Rightarrow> uuid \<Rightarrow> (string \<times> json) list \<Rightarrow> db \<Rightarrow> db" where
  "campaign_event now event_id account_id kind campaign_id extra s =
     add_outbox_event now event_id account_id kind ''campaign'' (uuid_str campaign_id)
       (JObj ((''campaign_id'', JStr (uuid_str campaign_id)) # extra)) s"

text \<open>The random ids of one creation: of the campaign, of the outbox event, and of the recipient of a contact.\<close>

record fresh_ids =
  fi_campaign :: uuid
  fi_event :: uuid
  fi_recipient :: "uuid \<Rightarrow> uuid"

definition create_campaign :: "datetime \<Rightarrow> fresh_ids \<Rightarrow> uuid \<Rightarrow> uuid \<Rightarrow> campaign_create \<Rightarrow> membership option \<Rightarrow> db \<Rightarrow>
    campaign outcome \<times> db" where
  "create_campaign now fi account_id user_id payload mo s =
     (case campaign_whatsapp_account s account_id mo (cc_organization_id payload) (cc_whatsapp_account_id payload) of
        Inl e \<Rightarrow> (Inl e, s)
      | Inr wa \<Rightarrow>
     (case check_campaign_template s account_id wa payload of
        Inl e \<Rightarrow> (Inl e, s)
      | Inr _ \<Rightarrow>
     (case select_recipients s account_id wa payload of
        Inl e \<Rightarrow> (Inl e, s)
      | Inr items \<Rightarrow>
          (let c = \<lparr>cmp_id = fi_campaign fi, cmp_account_id = account_id,
                 cmp_organization_id = cc_organization_id payload,
                 cmp_whatsapp_account_id = cc_whatsapp_account_id payload,
                 cmp_template_id = cc_template_id payload, cmp_created_by_user_id = user_id,
                 cmp_name = cc_name payload, cmp_status = DRAFT, cmp_scheduled_at = cc_scheduled_at payload,
                 cmp_started_at = None, cmp_completed_at = None, cmp_approved_by_user_id = None,
                 cmp_approved_at = None, cmp_paused_at = None, cmp_cancelled_reason = None,
                 cmp_max_recipients = min (max (int (length items)) 1) 10000, cmp_requires_approval = True,
                 cmp_execution_token = None, cmp_active_task_id = None, cmp_last_heartbeat_at = None,
                 cmp_parent_campaign_id = None, cmp_follow_up_type = None,
                 cmp_include_opt_out_option = cc_include_opt_out_option payload, cmp_archived_at = None,
                 cmp_created_at = now\<rparr>;
               s1 = s\<lparr>campaigns := campaigns s @ [c],
                 recipients := recipients s @ map (\<lambda>item. new_recipient (fi_recipient fi (ri_contact_id item))
                    (cmp_id c) (ri_contact_id item) (Some (ri_template_parameters item))) items\<rparr>
           in (Inr c, campaign_event now (fi_event fi) account_id ''campaign.created'' (cmp_id c) [] s1)))))"

section \<open>Reading\<close>

definition list_campaigns :: "db \<Rightarrow> uuid \<Rightarrow> membership option \<Rightarrow> int \<Rightarrow> bool \<Rightarrow> bool \<Rightarrow> campaign list" where
  "list_campaigns s account_id mo limit include_archived archived_only =
     (let query = filter (\<lambda>c. cmp_account_id c = account_id) (campaigns s);
          query = (case mo of None \<Rightarrow> query | Some m \<Rightarrow> filter (campaign_list_filters s account_id m) query);
          query = (if archived_only then filter (\<lambda>c. cmp_archived_at c \<noteq> None) query
                   else if \<not> include_archived then filter (\<lambda>c. cmp_archived_at c = None) query
                   else query)
      in take (nat (min (max limit 1) 200)) (sort_key (\<lambda>c. - cmp_created_at c) query))"

definition get_campaign :: "db \<Rightarrow> uuid \<Rightarrow> uuid \<Rightarrow> membership option \<Rightarrow> campaign outcome" where
  "get_campaign s account_id campaign_id mo =
     (case get_campaign_row s campaign_id of
        None \<Rightarrow> Inl (ValueError ''CAMPAIGN_NOT_FOUND'')
      | Some c \<Rightarrow>
          if cmp_account_id c \<noteq> account_id then Inl (ValueError ''CAMPAIGN_NOT_FOUND'')
          else (case mo of
              None \<Rightarrow> Inr c
            | Some m \<Rightarrow> (case ensure_campaign_access s account_id m c of Inl e \<Rightarrow> Inl e | Inr _ \<Rightarrow> Inr c)))"

definition recipients_of :: "db \<Rightarrow> uuid \<Rightarrow> campaign_recipient list" where
  "recipients_of s campaign_id = filter (\<lambda>r. rcp_campaign_id r = campaign_id) (recipients s)"

definition recipient_count :: "db \<Rightarrow> uuid \<Rightarrow> int" where
  "recipient_count s campaign_id = int (length (recipients_of s campaign_id))"

section \<open>Approval, start, pause, cancellation\<close>

definition approve_campaign :: "datetime \<Rightarrow> uuid \<Rightarrow> uuid \<Rightarrow> uuid \<Rightarrow> membership option \<Rightarrow> db \<Rightarrow> campaign outcome \<times> db" where
  "approve_campaign now account_id campaign_id user_id mo s =
     (case get_campaign s account_id campaign_id mo of
        Inl e \<Rightarrow> (Inl e, s)
      | Inr c \<Rightarrow>
          if cmp_status c \<notin> {DRAFT, PAUSED} then (Inl (ValueError ''CAMPAIGN_CANNOT_BE_APPROVED''), s)
          else if recipient_count s (cmp_id c) > cmp_max_recipients c then (Inl (ValueError ''RECIPIENT_LIMIT_EXCEEDED''), s)
          else (let c' = c\<lparr>cmp_approved_by_user_id := Some user_id, cmp_approved_at := Some now\<rparr>
                in (Inr c', put_campaign c' s)))"

definition enforce_campaign_tier_limit :: "db \<Rightarrow> campaign \<Rightarrow> unit outcome" where
  "enforce_campaign_tier_limit s c =
     (case get_whatsapp_account s (cmp_whatsapp_account_id c) of
        None \<Rightarrow> Inr ()
      | Some wa \<Rightarrow>
          (case wa_messaging_limit wa of
             None \<Rightarrow> Inr ()
           | Some limit \<Rightarrow>
               if limit = 0 then Inr ()
               else if wa_quality_rating wa = Some ''RED'' then Inl (ValueError ''QUALITY_RED'')
               else
                 (let pending = int (length (filter (\<lambda>r. rcp_status r \<in> {RPending, RQueued, RSending})
                        (recipients_of s (cmp_id c))))
                  in if pending > limit then Inl (ValueError ''TIER_LIMIT_EXCEEDED'') else Inr ())))"

definition prepare_campaign_start :: "uuid \<Rightarrow> uuid \<Rightarrow> uuid \<Rightarrow> membership option \<Rightarrow> db \<Rightarrow> campaign outcome \<times> db" where
  "prepare_campaign_start new_token account_id campaign_id mo s =
     (case (case mo of None \<Rightarrow> Inr () | Some m \<Rightarrow>
              (case get_campaign s account_id campaign_id mo of Inl e \<Rightarrow> Inl e | Inr _ \<Rightarrow> Inr ())) of
        Inl e \<Rightarrow> (Inl e, s)
      | Inr _ \<Rightarrow>
     (case get_campaign_row s campaign_id of
        None \<Rightarrow> (Inl (ValueError ''CAMPAIGN_NOT_FOUND''), s)
      | Some c \<Rightarrow>
     if cmp_account_id c \<noteq> account_id then (Inl (ValueError ''CAMPAIGN_NOT_FOUND''), s)
     else if cmp_status c \<notin> {DRAFT, SCHEDULED, PAUSED} then (Inl (ValueError ''CAMPAIGN_CANNOT_START''), s)
     else if cmp_requires_approval c \<and> cmp_approved_at c = None then (Inl (ValueError ''CAMPAIGN_APPROVAL_REQUIRED''), s)
     else if recipient_count s (cmp_id c) > cmp_max_recipients c then (Inl (ValueError ''RECIPIENT_LIMIT_EXCEEDED''), s)
     else (case enforce_campaign_tier_limit s c of
         Inl e \<Rightarrow> (Inl e, s)
       | Inr _ \<Rightarrow>
           (let c' = c\<lparr>cmp_status := SCHEDULED, cmp_execution_token := Some new_token, cmp_active_task_id := None,
                  cmp_paused_at := None, cmp_cancelled_reason := None\<rparr>
            in (Inr c', put_campaign c' s)))))"

definition pause_campaign :: "datetime \<Rightarrow> uuid \<Rightarrow> uuid \<Rightarrow> membership option \<Rightarrow> db \<Rightarrow> campaign outcome \<times> db" where
  "pause_campaign now account_id campaign_id mo s =
     (case get_campaign s account_id campaign_id mo of
        Inl e \<Rightarrow> (Inl e, s)
      | Inr c \<Rightarrow>
          if cmp_status c \<notin> {SCHEDULED, RUNNING} then (Inl (ValueError ''CAMPAIGN_CANNOT_PAUSE''), s)
          else (let c' = c\<lparr>cmp_status := PAUSED, cmp_paused_at := Some now\<rparr> in (Inr c', put_campaign c' s)))"

definition cancel_campaign :: "datetime \<Rightarrow> uuid \<Rightarrow> uuid \<Rightarrow> string \<Rightarrow> membership option \<Rightarrow> db \<Rightarrow> campaign outcome \<times> db" where
  "cancel_campaign now account_id campaign_id reason mo s =
     (case get_campaign s account_id campaign_id mo of
        Inl e \<Rightarrow> (Inl e, s)
      | Inr c \<Rightarrow>
          if cmp_status c \<in> {COMPLETED, CANCELLED} then (Inl (ValueError ''CAMPAIGN_CANNOT_CANCEL''), s)
          else (let c' = c\<lparr>cmp_status := CANCELLED, cmp_cancelled_reason := Some (take 2000 reason),
                       cmp_completed_at := Some now\<rparr>
                in (Inr c', put_campaign c' s)))"

definition ARCHIVABLE_STATUSES :: "campaign_status list" where
  "ARCHIVABLE_STATUSES = [COMPLETED, COMPLETED_WITH_ERRORS, FAILED, CANCELLED, PAUSED]"

definition archive_campaign :: "datetime \<Rightarrow> uuid \<Rightarrow> uuid \<Rightarrow> uuid \<Rightarrow> membership option \<Rightarrow> db \<Rightarrow> campaign outcome \<times> db" where
  "archive_campaign now event_id account_id campaign_id mo s =
     (case get_campaign s account_id campaign_id mo of
        Inl e \<Rightarrow> (Inl e, s)
      | Inr c \<Rightarrow>
          if cmp_status c \<notin> set ARCHIVABLE_STATUSES then (Inl (ValueError ''CAMPAIGN_CANNOT_ARCHIVE''), s)
          else if cmp_archived_at c = None
          then (let c' = c\<lparr>cmp_archived_at := Some now\<rparr>
                in (Inr c', campaign_event now event_id account_id ''campaign.archived'' (cmp_id c) [] (put_campaign c' s)))
          else (Inr c, s))"

definition unarchive_campaign :: "datetime \<Rightarrow> uuid \<Rightarrow> uuid \<Rightarrow> uuid \<Rightarrow> membership option \<Rightarrow> db \<Rightarrow> campaign outcome \<times> db" where
  "unarchive_campaign now event_id account_id campaign_id mo s =
     (case get_campaign s account_id campaign_id mo of
        Inl e \<Rightarrow> (Inl e, s)
      | Inr c \<Rightarrow>
          if cmp_archived_at c = None then (Inl (ValueError ''CAMPAIGN_NOT_ARCHIVED''), s)
          else (let c' = c\<lparr>cmp_archived_at := None\<rparr>
                in (Inr c', campaign_event now event_id account_id ''campaign.unarchived'' (cmp_id c) [] (put_campaign c' s))))"

text \<open>The recipients of a deleted campaign go with it (\<open>ON DELETE CASCADE\<close>).\<close>

definition delete_campaign_row :: "uuid \<Rightarrow> db \<Rightarrow> db" where
  "delete_campaign_row i s = s\<lparr>campaigns := filter (\<lambda>c. cmp_id c \<noteq> i) (campaigns s),
     recipients := filter (\<lambda>r. rcp_campaign_id r \<noteq> i) (recipients s)\<rparr>"

definition delete_draft_campaign :: "datetime \<Rightarrow> uuid \<Rightarrow> uuid \<Rightarrow> uuid \<Rightarrow> membership option \<Rightarrow> db \<Rightarrow> unit outcome \<times> db" where
  "delete_draft_campaign now event_id account_id campaign_id mo s =
     (case get_campaign s account_id campaign_id mo of
        Inl e \<Rightarrow> (Inl e, s)
      | Inr c \<Rightarrow>
          if cmp_status c \<noteq> DRAFT then (Inl (ValueError ''CAMPAIGN_CANNOT_DELETE''), s)
          else if filter (\<lambda>r. rcp_external_message_id r \<noteq> None) (recipients_of s (cmp_id c)) \<noteq> []
          then (Inl (ValueError ''CAMPAIGN_CANNOT_DELETE''), s)
          else if filter (\<lambda>k. cmp_parent_campaign_id k = Some (cmp_id c)) (campaigns s) \<noteq> []
          then (Inl (ValueError ''CAMPAIGN_HAS_FOLLOW_UPS''), s)
          else (Inr (), delete_campaign_row (cmp_id c)
             (campaign_event now event_id account_id ''campaign.deleted'' (cmp_id c) [(''name'', JStr (cmp_name c))] s)))"

section \<open>Report and recipients\<close>

text \<open>The rates are kept as fractions (numerator, denominator) of one hundred per cent; the code rounds the
  floating-point value to two decimals.\<close>

record campaign_report =
  rp_total :: nat
  rp_pending :: nat
  rp_queued :: nat
  rp_sent :: nat
  rp_delivered :: nat
  rp_read :: nat
  rp_failed :: nat
  rp_skipped :: nat
  rp_delivery_rate :: "nat \<times> nat"
  rp_read_rate :: "nat \<times> nat"

definition status_count :: "db \<Rightarrow> uuid \<Rightarrow> recipient_status \<Rightarrow> nat" where
  "status_count s campaign_id st = length (filter (\<lambda>r. rcp_status r = st) (recipients_of s campaign_id))"

definition ALL_RECIPIENT_STATUSES :: "recipient_status list" where
  "ALL_RECIPIENT_STATUSES = [RPending, RQueued, RSending, RSent, RDelivered, RRead, RFailed, RSkipped]"

definition get_campaign_report :: "db \<Rightarrow> uuid \<Rightarrow> uuid \<Rightarrow> membership option \<Rightarrow> campaign_report outcome" where
  "get_campaign_report s account_id campaign_id mo =
     (case get_campaign s account_id campaign_id mo of
        Inl e \<Rightarrow> Inl e
      | Inr _ \<Rightarrow>
          (let counts = status_count s campaign_id;
               total = sum_list (map counts ALL_RECIPIENT_STATUSES);
               delivered = counts RDelivered; read = counts RRead; sent = counts RSent
           in Inr \<lparr>rp_total = total, rp_pending = counts RPending, rp_queued = counts RQueued, rp_sent = sent,
                rp_delivered = delivered, rp_read = read, rp_failed = counts RFailed, rp_skipped = counts RSkipped,
                rp_delivery_rate = (delivered + read, max (sent + delivered + read) 1),
                rp_read_rate = (read, max (delivered + read) 1)\<rparr>))"

fun recipient_status_value :: "recipient_status \<Rightarrow> string" where
  "recipient_status_value RPending = ''pending''"
| "recipient_status_value RQueued = ''queued''"
| "recipient_status_value RSending = ''sending''"
| "recipient_status_value RSent = ''sent''"
| "recipient_status_value RDelivered = ''delivered''"
| "recipient_status_value RRead = ''read''"
| "recipient_status_value RFailed = ''failed''"
| "recipient_status_value RSkipped = ''skipped''"

record recipient_item =
  it_contact_id :: string
  it_display_name :: "string option"
  it_phone :: string
  it_status :: string
  it_error_message :: "string option"

definition list_campaign_recipients :: "db \<Rightarrow> uuid \<Rightarrow> uuid \<Rightarrow> membership option \<Rightarrow> recipient_item list outcome" where
  "list_campaign_recipients s account_id campaign_id mo =
     (case get_campaign s account_id campaign_id mo of
        Inl e \<Rightarrow> Inl e
      | Inr _ \<Rightarrow>
          (let rows = List.map_filter (\<lambda>r. map_option (Pair r) (get_contact_row s (rcp_contact_id r))) (recipients_of s campaign_id);
               sorted = sort_key (\<lambda>(r, c). recipient_status_value (rcp_status r))
                 (sort_key (\<lambda>(r, c). con_external_address c) rows)
           in Inr (map (\<lambda>(r, c). \<lparr>it_contact_id = uuid_str (con_id c), it_display_name = con_display_name c,
                 it_phone = con_external_address c, it_status = recipient_status_value (rcp_status r),
                 it_error_message = rcp_error_message r\<rparr>) sorted)))"

text \<open>\<open>csv.writer\<close> with its defaults: a field with a comma, a quote, or a line end is quoted; the line end is CR LF.\<close>

definition csv_field :: "string \<Rightarrow> string" where
  "csv_field t =
     (if list_ex (\<lambda>c. c \<in> {CHR '','', CHR 0x22, CHR 0x0D, CHR 0x0A}) t
      then CHR 0x22 # concat (map (\<lambda>c. if c = CHR 0x22 then [c, c] else [c]) t) @ [CHR 0x22]
      else t)"

definition csv_row :: "string list \<Rightarrow> string" where
  "csv_row fields' = join '','' (map csv_field fields') @ [CHR 0x0D, CHR 0x0A]"

definition export_campaign_recipients_csv :: "db \<Rightarrow> uuid \<Rightarrow> uuid \<Rightarrow> membership option \<Rightarrow> string outcome" where
  "export_campaign_recipients_csv s account_id campaign_id mo =
     (case list_campaign_recipients s account_id campaign_id mo of
        Inl e \<Rightarrow> Inl e
      | Inr items \<Rightarrow> Inr (csv_row [''name'', ''phone'', ''status'', ''error'']
          @ concat (map (\<lambda>i. csv_row [case it_display_name i of None \<Rightarrow> [] | Some n \<Rightarrow> n, it_phone i, it_status i,
              case it_error_message i of None \<Rightarrow> [] | Some m \<Rightarrow> m]) items)))"

end
