(* ===== verification/CampaignMessages.thy ===== *)
theory CampaignMessages
  imports Campaigns
begin

text \<open>
  The inbox side of a campaign send: \<open>record_campaign_outbound_message\<close> and the backfill of
  \<open>services/campaigns.py\<close>, with \<open>services/template_display.py\<close>.  The columns of a template's components are
  JSON objects as Meta gives them.
\<close>

section \<open>Text of a template\<close>

text \<open>\<open>str(x)\<close> of a JSON value where the code expects a text; lists and objects, whose
  text is not spelled out, are no component type and no body of a template.\<close>

fun text_of_json :: "json \<Rightarrow> string" where
  "text_of_json (JStr t) = t"
| "text_of_json (JInt i) = int_str i"
| "text_of_json (JBool True) = ''True''"
| "text_of_json (JBool False) = ''False''"
| "text_of_json JNull = ''None''"
| "text_of_json (JList xs) = ''[...]''"
| "text_of_json (JObj kvs) = ''{...}''"

fun body_text :: "json list \<Rightarrow> string option" where
  "body_text [] = None"
| "body_text (c # cs) =
     (if py_upper (case jget c ''type'' of None \<Rightarrow> [] | Some t \<Rightarrow> text_of_json t) = ''BODY'' \<and> j_truthy (jget c ''text'')
      then Some (py_strip (text_of_json (the (jget c ''text''))))
      else body_text cs)"

definition render_template_body_text :: "json list option \<Rightarrow> string option \<Rightarrow> string option" where
  "render_template_body_text components fallback =
     (case body_text (case components of None \<Rightarrow> [] | Some cs \<Rightarrow> cs) of
        Some t \<Rightarrow> Some t
      | None \<Rightarrow> (case fallback of None \<Rightarrow> None
          | Some f \<Rightarrow> if py_strip f \<noteq> [] then Some (py_strip f) else None))"

definition extract_template_fields :: "json option \<Rightarrow> string option \<times> json list option" where
  "extract_template_fields provider_payload =
     (case provider_payload of
        Some (JObj kvs) \<Rightarrow>
          (let name = map_of kvs ''template_name''
           in (if j_truthy name then Some (text_of_json (the name)) else None,
               case map_of kvs ''components'' of Some (JList cs) \<Rightarrow> if cs = [] then None else Some cs | _ \<Rightarrow> None))
      | _ \<Rightarrow> (None, None))"

section \<open>Recording a send\<close>

fun RECIPIENT_TO_MESSAGE_STATUS :: "recipient_status \<Rightarrow> message_status option" where
  "RECIPIENT_TO_MESSAGE_STATUS RSent = Some MsgSent"
| "RECIPIENT_TO_MESSAGE_STATUS RDelivered = Some MsgDelivered"
| "RECIPIENT_TO_MESSAGE_STATUS RRead = Some MsgRead"
| "RECIPIENT_TO_MESSAGE_STATUS RFailed = Some MsgFailed"
| "RECIPIENT_TO_MESSAGE_STATUS _ = None"

definition find_by_external_id :: "db \<Rightarrow> string \<Rightarrow> message option" where
  "find_by_external_id s e = find (\<lambda>m. msg_external_message_id m = Some e) (messages s)"

definition open_conversation :: "db \<Rightarrow> uuid \<Rightarrow> uuid \<Rightarrow> conversation option" where
  "open_conversation s contact_id channel_id = find (\<lambda>c. conv_contact_id c = contact_id \<and> conv_channel_id c = channel_id
     \<and> conv_deleted_at c = None \<and> conv_status c \<in> {ConvOpen, ConvPending}) (conversations s)"

definition new_conversation :: "uuid \<Rightarrow> campaign \<Rightarrow> uuid \<Rightarrow> uuid \<Rightarrow> conversation" where
  "new_conversation i campaign channel_id contact_id =
     \<lparr>conv_id = i, conv_account_id = cmp_account_id campaign, conv_organization_id = cmp_organization_id campaign,
      conv_channel_id = channel_id, conv_contact_id = contact_id, conv_assigned_membership_id = None,
      conv_status = ConvOpen, conv_priority = PrioNormal, conv_last_message_at = None, conv_first_response_at = None,
      conv_closed_at = None, conv_is_starred = False, conv_snoozed_until = None, conv_archived_at = None,
      conv_sla_deadline_at = None, conv_sla_breached_at = None, conv_deleted_at = None\<rparr>"

definition opt_json :: "('a \<Rightarrow> json) \<Rightarrow> 'a option \<Rightarrow> json" where
  "opt_json f x = (case x of None \<Rightarrow> JNull | Some v \<Rightarrow> f v)"

definition campaign_message :: "datetime \<Rightarrow> uuid \<Rightarrow> campaign \<Rightarrow> campaign_recipient \<Rightarrow> contact \<Rightarrow> whatsapp_account \<Rightarrow>
    whatsapp_template \<Rightarrow> string \<Rightarrow> string \<Rightarrow> json list \<Rightarrow> message_status \<Rightarrow> uuid \<Rightarrow> message" where
  "campaign_message now i campaign recipient contact wa template to_address external_message_id send_components status conversation_id =
     \<lparr>msg_id = i, msg_account_id = cmp_account_id campaign, msg_organization_id = cmp_organization_id campaign,
      msg_channel_id = wa_channel_id wa, msg_contact_id = Some (con_id contact), msg_conversation_id = Some conversation_id,
      msg_external_message_id = Some external_message_id, msg_direction = OUTBOUND, msg_type = MtTemplate,
      msg_from_address = wa_display_phone_number wa, msg_to_address = to_address,
      msg_text_body = render_template_body_text (tpl_components template) (tpl_body_text template),
      msg_provider_payload = Some (JObj [(''template_name'', JStr (tpl_name template)),
        (''language_code'', JStr (tpl_language template)), (''campaign_id'', JStr (uuid_str (cmp_id campaign))),
        (''campaign_recipient_id'', JStr (uuid_str (rcp_id recipient))),
        (''send_components'', JList send_components), (''components'', opt_json JList (tpl_components template))]),
      msg_status = status, msg_created_at = now\<rparr>"

definition with_delivery_error :: "string \<Rightarrow> json option \<Rightarrow> json" where
  "with_delivery_error e payload =
     JObj (dict_set ''delivery_error'' (JStr e) (case payload of Some (JObj kvs) \<Rightarrow> kvs | _ \<Rightarrow> []))"

definition update_recorded_message :: "campaign_recipient \<Rightarrow> recipient_status \<Rightarrow> message \<Rightarrow> message" where
  "update_recorded_message recipient recipient_status existing =
     (case RECIPIENT_TO_MESSAGE_STATUS recipient_status of
        None \<Rightarrow> existing
      | Some mapped \<Rightarrow>
          if msg_status existing = mapped then existing
          else (case rcp_error_message recipient of
              Some e \<Rightarrow> if e \<noteq> [] \<and> recipient_status = RFailed
                then existing\<lparr>msg_status := mapped,
                       msg_provider_payload := Some (with_delivery_error e (msg_provider_payload existing))\<rparr>
                else existing\<lparr>msg_status := mapped\<rparr>
            | None \<Rightarrow> existing\<lparr>msg_status := mapped\<rparr>))"

text \<open>\<open>conv_new\<close> and \<open>msg_new\<close> are the ids of rows it may add.\<close>

definition record_campaign_outbound_message :: "datetime \<Rightarrow> uuid \<Rightarrow> uuid \<Rightarrow> campaign \<Rightarrow> campaign_recipient \<Rightarrow> contact \<Rightarrow>
    whatsapp_account \<Rightarrow> whatsapp_template \<Rightarrow> string \<Rightarrow> string \<Rightarrow> json list \<Rightarrow> recipient_status \<Rightarrow> db \<Rightarrow> message option \<times> db" where
  "record_campaign_outbound_message now conv_new msg_new campaign recipient contact wa template to_address
       external_message_id send_components recipient_status s =
     (if external_message_id = [] then (None, s)
      else (case find_by_external_id s external_message_id of
          Some existing \<Rightarrow>
            (let existing' = update_recorded_message recipient recipient_status existing
             in (Some existing', put_message existing' s))
        | None \<Rightarrow>
            (let (conversation, s1) =
                   (case open_conversation s (con_id contact) (wa_channel_id wa) of
                      Some c \<Rightarrow> (c, s)
                    | None \<Rightarrow> (let c = new_conversation conv_new campaign (wa_channel_id wa) (con_id contact)
                        in (c, s\<lparr>conversations := conversations s @ [c]\<rparr>)));
                 message_status = (case RECIPIENT_TO_MESSAGE_STATUS recipient_status of None \<Rightarrow> MsgSent | Some m \<Rightarrow> m);
                 message = campaign_message now msg_new campaign recipient contact wa template to_address
                   external_message_id send_components message_status (conv_id conversation);
                 s2 = s1\<lparr>messages := messages s1 @ [message]\<rparr>;
                 s3 = put_conversation (conversation\<lparr>conv_last_message_at := Some now\<rparr>) s2
             in (Some message, s3))))"

section \<open>Backfill\<close>

text \<open>The rows of the outer join that have no message, latest attempt first.  PostgreSQL sorts nulls first in a
  descending order.\<close>

definition attempt_rank :: "campaign_recipient \<Rightarrow> int \<times> int" where
  "attempt_rank r = (case rcp_last_attempt_at r of None \<Rightarrow> (0, 0) | Some t \<Rightarrow> (1, - t))"

definition backfill_candidates :: "db \<Rightarrow> uuid \<Rightarrow> campaign_recipient list" where
  "backfill_candidates s account_id = filter (\<lambda>r.
     (case campaign_of s r of None \<Rightarrow> False | Some c \<Rightarrow> cmp_account_id c = account_id
        \<and> get_whatsapp_account s (cmp_whatsapp_account_id c) \<noteq> None \<and> get_template s (cmp_template_id c) \<noteq> None)
     \<and> get_contact_row s (rcp_contact_id r) \<noteq> None
     \<and> (case rcp_external_message_id r of None \<Rightarrow> False | Some e \<Rightarrow> find_by_external_id s e = None)
     \<and> rcp_status r \<in> {RSent, RDelivered, RRead, RFailed}) (recipients s)"

definition backfill_recipient :: "datetime \<Rightarrow> (uuid \<Rightarrow> uuid) \<Rightarrow> (uuid \<Rightarrow> uuid) \<Rightarrow> campaign_recipient \<Rightarrow> nat \<times> db \<Rightarrow> nat \<times> db" where
  "backfill_recipient now conv_new msg_new r acc =
     (let (created, s) = acc in
      case campaign_of s r of None \<Rightarrow> acc | Some campaign \<Rightarrow>
     (case get_contact_row s (rcp_contact_id r) of None \<Rightarrow> acc | Some contact \<Rightarrow>
     (case get_whatsapp_account s (cmp_whatsapp_account_id campaign) of None \<Rightarrow> acc | Some wa \<Rightarrow>
     (case get_template s (cmp_template_id campaign) of None \<Rightarrow> acc | Some template \<Rightarrow>
       (let norm = normalize_whatsapp_phone (Some (con_external_address contact)) (dial_code contact);
            to_address = (if norm = [] then con_external_address contact else norm);
            components = (case rcp_template_parameters r of None \<Rightarrow> [] | Some cs \<Rightarrow> cs);
            (message, s') = record_campaign_outbound_message now (conv_new (rcp_id r)) (msg_new (rcp_id r)) campaign r
              contact wa template to_address (case rcp_external_message_id r of None \<Rightarrow> [] | Some e \<Rightarrow> e) components (rcp_status r) s
        in (if message \<noteq> None then created + 1 else created, s'))))))"

definition backfill_campaign_inbox_messages :: "datetime \<Rightarrow> (uuid \<Rightarrow> uuid) \<Rightarrow> (uuid \<Rightarrow> uuid) \<Rightarrow> uuid \<Rightarrow> int \<Rightarrow> db \<Rightarrow> nat \<times> db" where
  "backfill_campaign_inbox_messages now conv_new msg_new account_id limit s =
     (let rows = take (nat (min (max limit 1) 2000)) (sort_key (\<lambda>r. fst (attempt_rank r))
            (sort_key (\<lambda>r. snd (attempt_rank r)) (backfill_candidates s account_id)))
      in fold (backfill_recipient now conv_new msg_new) rows (0, s))"

section \<open>One message per send\<close>

definition external_ids :: "db \<Rightarrow> string list" where
  "external_ids s = List.map_filter msg_external_message_id (messages s)"

lemma map_filter_append: "List.map_filter f (xs @ ys) = List.map_filter f xs @ List.map_filter f ys"
  by (simp add: List.map_filter_def)

lemma set_map_filter: "set (List.map_filter f xs) = {y. \<exists>x \<in> set xs. f x = Some y}"
  by (force simp: List.map_filter_def)

lemma find_by_external_None: "find_by_external_id s e = None \<longleftrightarrow> e \<notin> set (external_ids s)"
  by (auto simp: find_by_external_id_def external_ids_def set_map_filter find_None_iff)

lemma update_recorded_fields [simp]:
  "msg_id (update_recorded_message r st m) = msg_id m"
  "msg_external_message_id (update_recorded_message r st m) = msg_external_message_id m"
  by (simp_all add: update_recorded_message_def split: option.splits)

lemma put_message_externals:
  assumes "m \<in> set (messages s)" "distinct (map msg_id (messages s))" "msg_id m' = msg_id m"
    and "msg_external_message_id m' = msg_external_message_id m"
  shows "map msg_external_message_id (messages (put_message m' s)) = map msg_external_message_id (messages s)"
proof -
  have "msg_external_message_id (if msg_id x = msg_id m' then m' else x) = msg_external_message_id x"
    if "x \<in> set (messages s)" for x
  proof (cases "msg_id x = msg_id m'")
    case True
    then have "x = m" using that assms(1,2,3) by (metis distinct_map inj_onD)
    with assms(4) show ?thesis by simp
  qed simp
  then show ?thesis by (simp add: put_message_def tbl_put_def)
qed

lemma external_ids_map:
  fixes ms ms' :: "message list"
  assumes "map msg_external_message_id ms = map msg_external_message_id ms'"
  shows "List.map_filter msg_external_message_id ms = List.map_filter msg_external_message_id ms'"
proof -
  have eq: "List.map_filter msg_external_message_id xs = List.map_filter id (map msg_external_message_id xs)" for xs :: "message list"
    by (induction xs) (auto simp: List.map_filter_def)
  show ?thesis unfolding eq assms ..
qed

lemma put_conversation_messages [simp]: "messages (put_conversation c s) = messages s"
  by (simp add: put_conversation_def)

text \<open>A send is recorded once: however often a delivery with the same external id is recorded, and whatever
  other sends are recorded between, the messages keep distinct external ids and the one of this id is
  there; and recording again adds no row, neither of a message nor of a conversation.\<close>

theorem send_recorded_once:
  assumes "record_campaign_outbound_message now cn mn c r k wa t to e comps st s = (Some m, s')"
    and "distinct (external_ids s)" "distinct (map msg_id (messages s))"
  shows "distinct (external_ids s') \<and> msg_external_message_id m = Some e \<and> e \<in> set (external_ids s') \<and>
    (\<forall>now2 cn2 mn2 c2 r2 k2 wa2 t2 to2 comps2 st2.
       let s2 = snd (record_campaign_outbound_message now2 cn2 mn2 c2 r2 k2 wa2 t2 to2 e comps2 st2 s')
       in length (messages s2) = length (messages s') \<and> conversations s2 = conversations s')"
proof -
  have e: "e \<noteq> []" using assms(1) by (auto simp: record_campaign_outbound_message_def)
  have main: "distinct (external_ids s') \<and> msg_external_message_id m = Some e \<and> e \<in> set (external_ids s')"
  proof (cases "find_by_external_id s e")
    case (Some x)
    then have x: "x \<in> set (messages s)" "msg_external_message_id x = Some e"
      by (auto simp: find_by_external_id_def find_Some_iff)
    have m: "m = update_recorded_message r st x" "s' = put_message m s"
      using assms(1) e Some by (auto simp: record_campaign_outbound_message_def Let_def)
    have "external_ids s' = external_ids s"
      unfolding external_ids_def m(2)
      by (rule external_ids_map, rule put_message_externals [OF x(1) assms(3)]) (simp_all add: m(1))
    moreover have "e \<in> set (external_ids s)" using x by (auto simp: external_ids_def set_map_filter)
    ultimately show ?thesis using assms(2) x(2) m(1) by simp
  next
    case None
    have m: "msg_external_message_id m = Some e" "messages s' = messages s @ [m]"
      using assms(1) e None
      by (cases "open_conversation s (con_id k) (wa_channel_id wa)";
          force simp: record_campaign_outbound_message_def Let_def campaign_message_def)+
    have "external_ids s' = external_ids s @ [e]"
      by (simp add: external_ids_def m map_filter_append List.map_filter_def)
    with None assms(2) m show ?thesis by (simp add: find_by_external_None)
  qed
  then obtain x where "find_by_external_id s' e = Some x" using find_by_external_None by fastforce
  then have again: "length (messages (snd (record_campaign_outbound_message now2 cn2 mn2 c2 r2 k2 wa2 t2 to2 e comps2 st2 s')))
       = length (messages s') \<and>
     conversations (snd (record_campaign_outbound_message now2 cn2 mn2 c2 r2 k2 wa2 t2 to2 e comps2 st2 s')) = conversations s'"
    for now2 cn2 mn2 c2 r2 k2 wa2 t2 to2 comps2 st2
    using e by (simp add: record_campaign_outbound_message_def Let_def put_message_def)
  show ?thesis
    unfolding Let_def by (intro conjI allI) (use main again in simp_all)
qed

definition demo_template :: whatsapp_template where
  "demo_template = \<lparr>tpl_id = 9, tpl_account_id = 1, tpl_organization_id = 2, tpl_whatsapp_account_id = 4,
     tpl_meta_template_id = None, tpl_name = ''offer'', tpl_language = ''ar'', tpl_category = MARKETING,
     tpl_status = TplApproved, tpl_body_text = Some ''hello'', tpl_components = None, tpl_meta_status_detail = None\<rparr>"

lemma send_recorded_once_witness:
  "let s1 = snd (record_campaign_outbound_message 5 50 51 (demo_campaign 10 4) (new_recipient 60 10 5 None)
       (fresh_contact 5 ''50000000'') (demo_wa 4 1 3) demo_template ''96550000000'' ''wamid.1'' [] RSent empty_db);
     s2 = snd (record_campaign_outbound_message 6 52 53 (demo_campaign 10 4) (new_recipient 60 10 5 None)
       (fresh_contact 5 ''50000000'') (demo_wa 4 1 3) demo_template ''96550000000'' ''wamid.1'' [] RRead s1)
   in length (messages s2) = length (messages s1)"
proof -
  let ?r = "record_campaign_outbound_message 5 50 51 (demo_campaign 10 4) (new_recipient 60 10 5 None)
       (fresh_contact 5 ''50000000'') (demo_wa 4 1 3) demo_template ''96550000000'' ''wamid.1'' [] RSent empty_db"
  have "\<exists>m. ?r = (Some m, snd ?r)"
    by (simp add: record_campaign_outbound_message_def find_by_external_id_def open_conversation_def empty_db_def Let_def)
  then obtain m where m: "?r = (Some m, snd ?r)" by blast
  show ?thesis
    using send_recorded_once [OF m] by (simp add: external_ids_def empty_db_def List.map_filter_def Let_def)
qed

end
