(* ===== verification/CampaignLifecycle.thy ===== *)
theory CampaignLifecycle
  imports Campaigns
begin

text \<open>
  Follow-up campaigns (\<open>services/campaign_follow_up.py\<close>), recovery of stuck campaigns and retry of failed
  recipients (\<open>services/campaign_recovery.py\<close>), and what creation, start, recovery and retry promise.
  \<open>run_campaign.apply_async\<close> puts the pair of campaign and token on the queue of campaign runs and returns a
  task id, here \<open>task_of\<close> of the token.
\<close>

section \<open>Follow-up\<close>

definition FOLLOW_UP_TYPES :: "string \<Rightarrow> recipient_status list option" where
  "FOLLOW_UP_TYPES kind = map_of
     [(''not_delivered'', [RSent, RFailed, RPending, RQueued]),
      (''not_read'', [RSent, RDelivered, RFailed, RPending, RQueued]),
      (''failed'', [RFailed])] kind"

definition follow_up_rows :: "db \<Rightarrow> uuid \<Rightarrow> recipient_status list \<Rightarrow> campaign_recipient list" where
  "follow_up_rows s parent_id statuses = filter (\<lambda>r. rcp_status r \<in> set statuses \<and>
     (case get_contact_row s (rcp_contact_id r) of None \<Rightarrow> False | Some c \<Rightarrow> con_deleted_at c = None)) (recipients_of s parent_id)"

text \<open>\<open>title\<close> is the text after the parent's name, a dash and the given or default suffix (Arabic texts).\<close>

definition create_follow_up_campaign :: "datetime \<Rightarrow> fresh_ids \<Rightarrow> uuid \<Rightarrow> uuid \<Rightarrow> uuid \<Rightarrow> string \<Rightarrow> string \<Rightarrow>
    membership option \<Rightarrow> db \<Rightarrow> campaign outcome \<times> db" where
  "create_follow_up_campaign now fi account_id user_id campaign_id follow_up_type title mo s =
     (if map_of (get_feature_flags s account_id) ''follow_up_campaigns'' \<noteq> Some True
      then (Inl (ValueError ''FOLLOW_UP_CAMPAIGNS_DISABLED''), s)
      else (case FOLLOW_UP_TYPES follow_up_type of
        None \<Rightarrow> (Inl (ValueError ''INVALID_FOLLOW_UP_TYPE''), s)
      | Some statuses \<Rightarrow>
     (case get_campaign s account_id campaign_id mo of
        Inl e \<Rightarrow> (Inl e, s)
      | Inr parent \<Rightarrow>
          if cmp_status parent \<notin> {COMPLETED, COMPLETED_WITH_ERRORS, PAUSED}
          then (Inl (ValueError ''PARENT_CAMPAIGN_NOT_FINISHED''), s)
          else
            (let rows = follow_up_rows s (cmp_id parent) statuses in
             if rows = [] then (Inl (ValueError ''NO_FOLLOW_UP_RECIPIENTS''), s)
             else
               (let child = \<lparr>cmp_id = fi_campaign fi, cmp_account_id = cmp_account_id parent,
                      cmp_organization_id = cmp_organization_id parent,
                      cmp_whatsapp_account_id = cmp_whatsapp_account_id parent,
                      cmp_template_id = cmp_template_id parent, cmp_created_by_user_id = user_id,
                      cmp_name = take 160 (cmp_name parent @ title), cmp_status = DRAFT, cmp_scheduled_at = None,
                      cmp_started_at = None, cmp_completed_at = None, cmp_approved_by_user_id = None,
                      cmp_approved_at = None, cmp_paused_at = None, cmp_cancelled_reason = None,
                      cmp_max_recipients = min (int (length rows)) (cmp_max_recipients parent),
                      cmp_requires_approval = True, cmp_execution_token = None, cmp_active_task_id = None,
                      cmp_last_heartbeat_at = None, cmp_parent_campaign_id = Some (cmp_id parent),
                      cmp_follow_up_type = Some follow_up_type, cmp_include_opt_out_option = True,
                      cmp_archived_at = None, cmp_created_at = now\<rparr>;
                    s1 = s\<lparr>campaigns := campaigns s @ [child],
                      recipients := recipients s @ map (\<lambda>r. new_recipient (fi_recipient fi (rcp_contact_id r))
                         (cmp_id child) (rcp_contact_id r) (rcp_template_parameters r)) rows\<rparr>
                in (Inr child, campaign_event now (fi_event fi) account_id ''campaign.follow_up_created'' (cmp_id child)
                      [(''parent_campaign_id'', JStr (uuid_str (cmp_id parent))),
                       (''follow_up_type'', JStr follow_up_type),
                       (''recipient_count'', JInt (int (length rows)))] s1))))))"

section \<open>Recovery and retry\<close>

definition STALE_RUNNING_MINUTES :: int where "STALE_RUNNING_MINUTES = 15"
definition STALE_SCHEDULED_MINUTES :: int where "STALE_SCHEDULED_MINUTES = 3"

definition stuck_running :: "datetime \<Rightarrow> campaign \<Rightarrow> bool" where
  "stuck_running now c \<longleftrightarrow> cmp_status c = RUNNING \<and>
     (case cmp_last_heartbeat_at c of None \<Rightarrow> False | Some t \<Rightarrow> t < now - minutes STALE_RUNNING_MINUTES)"

definition stuck_scheduled :: "datetime \<Rightarrow> campaign \<Rightarrow> bool" where
  "stuck_scheduled now c \<longleftrightarrow> cmp_status c = SCHEDULED \<and> cmp_started_at c = None \<and>
     cmp_created_at c < now - minutes STALE_SCHEDULED_MINUTES"

definition heartbeat_key :: "campaign \<Rightarrow> int" where
  "heartbeat_key c = (case cmp_last_heartbeat_at c of None \<Rightarrow> 0 | Some t \<Rightarrow> t)"

definition stuck_campaigns :: "datetime \<Rightarrow> nat \<Rightarrow> db \<Rightarrow> campaign list" where
  "stuck_campaigns now limit s =
     (let running_rows = take limit (sort_key heartbeat_key (filter (stuck_running now) (campaigns s)));
          scheduled_rows = take limit (sort_key cmp_created_at (filter (stuck_scheduled now) (campaigns s)))
      in take limit (running_rows @ filter (\<lambda>c. c \<notin> set running_rows) scheduled_rows))"

definition update_campaign :: "uuid \<Rightarrow> (campaign \<Rightarrow> campaign) \<Rightarrow> db \<Rightarrow> db" where
  "update_campaign i f s = s\<lparr>campaigns := tbl_update (\<lambda>c. cmp_id c = i) f (campaigns s)\<rparr>"

definition enqueue_campaign :: "uuid \<Rightarrow> uuid \<Rightarrow> task_queues \<Rightarrow> task_queues" where
  "enqueue_campaign i token q = q\<lparr>campaign_queue := campaign_queue q @ [(uuid_str i, uuid_str token)]\<rparr>"

definition recover_campaign :: "datetime \<Rightarrow> (uuid \<Rightarrow> uuid) \<Rightarrow> (uuid \<Rightarrow> string) \<Rightarrow> campaign \<Rightarrow> db \<times> task_queues \<Rightarrow> db \<times> task_queues" where
  "recover_campaign now token_of task_of c st =
     (let (s, q) = st;
          token = token_of (cmp_id c);
          s1 = update_campaign (cmp_id c) (\<lambda>k. k\<lparr>cmp_execution_token := Some token, cmp_status := SCHEDULED,
                 cmp_active_task_id := None\<rparr>) s;
          q1 = enqueue_campaign (cmp_id c) token q
      in (update_campaign (cmp_id c) (\<lambda>k. k\<lparr>cmp_active_task_id := Some (task_of token), cmp_status := RUNNING,
            cmp_last_heartbeat_at := Some now\<rparr>) s1, q1))"

definition recover_stuck_campaigns :: "datetime \<Rightarrow> (uuid \<Rightarrow> uuid) \<Rightarrow> (uuid \<Rightarrow> string) \<Rightarrow> nat \<Rightarrow> db \<times> task_queues \<Rightarrow>
    nat \<times> db \<times> task_queues" where
  "recover_stuck_campaigns now token_of task_of limit st =
     (let rows = stuck_campaigns now limit (fst st)
      in (length rows, fold (recover_campaign now token_of task_of) rows st))"

definition reset_failed :: "campaign_recipient \<Rightarrow> campaign_recipient" where
  "reset_failed r = r\<lparr>rcp_status := RPending, rcp_error_message := None, rcp_external_message_id := None,
     rcp_sending_started_at := None\<rparr>"

definition is_failed_of :: "uuid \<Rightarrow> campaign_recipient \<Rightarrow> bool" where
  "is_failed_of i r \<longleftrightarrow> rcp_campaign_id r = i \<and> rcp_status r = RFailed"

definition retry_failed_campaign_recipients :: "datetime \<Rightarrow> uuid \<Rightarrow> (uuid \<Rightarrow> string) \<Rightarrow> uuid \<Rightarrow> uuid \<Rightarrow> membership option \<Rightarrow>
    db \<times> task_queues \<Rightarrow> nat outcome \<times> db \<times> task_queues" where
  "retry_failed_campaign_recipients now new_token task_of account_id campaign_id mo st =
     (let (s, q) = st in
      case get_campaign s account_id campaign_id mo of
        Inl e \<Rightarrow> (Inl e, st)
      | Inr c \<Rightarrow>
          if cmp_status c \<notin> {COMPLETED, COMPLETED_WITH_ERRORS, PAUSED, FAILED}
          then (Inl (ValueError ''CAMPAIGN_CANNOT_RETRY''), st)
          else
            (let reset_count = tbl_count (is_failed_of (cmp_id c)) (recipients s) in
             if reset_count = 0 then (Inl (ValueError ''NO_FAILED_RECIPIENTS''), st)
             else
               (let s1 = s\<lparr>recipients := tbl_update (is_failed_of (cmp_id c)) reset_failed (recipients s)\<rparr>;
                    s2 = update_campaign (cmp_id c) (\<lambda>k. k\<lparr>cmp_status := SCHEDULED, cmp_execution_token := Some new_token,
                           cmp_active_task_id := None, cmp_completed_at := None, cmp_last_heartbeat_at := Some now\<rparr>) s1;
                    q1 = enqueue_campaign (cmp_id c) new_token q;
                    s3 = update_campaign (cmp_id c) (\<lambda>k. k\<lparr>cmp_active_task_id := Some (task_of new_token),
                           cmp_status := RUNNING\<rparr>) s2
                in (Inr reset_count, s3, q1))))"

definition count_sendable_recipients :: "db \<Rightarrow> uuid \<Rightarrow> int" where
  "count_sendable_recipients s campaign_id =
     int (length (filter (\<lambda>r. rcp_status r \<in> {RPending, RQueued}) (recipients_of s campaign_id)))"

section \<open>The audience of a new campaign\<close>

lemma keep_if_iff:
  "item \<in> set (keep_if rows p items) \<longleftrightarrow> item \<in> set items \<and> (\<exists>c. by_id rows (ri_contact_id item) = Some c \<and> p c)"
  by (auto simp: keep_if_def split: option.splits)

lemma keep_if_distinct: "distinct (map ri_contact_id items) \<Longrightarrow> distinct (map ri_contact_id (keep_if rows p items))"
  unfolding keep_if_def by (rule distinct_map_filter)

lemma by_id_member: "by_id rows i = Some c \<Longrightarrow> c \<in> set rows \<and> con_id c = i"
  by (auto simp: by_id_def find_Some_iff)

lemma select_recipients_sound:
  assumes "select_recipients s a wa payload = Inr items"
  shows "items \<noteq> []" "distinct (map ri_contact_id items)" "set items \<subseteq> set (cc_recipients payload)"
    "\<forall>item \<in> set items. \<exists>c \<in> set (contacts s). con_id c = ri_contact_id item \<and> con_account_id c = a
       \<and> con_organization_id c = cc_organization_id payload \<and> con_deleted_at c = None
       \<and> con_channel_id c = wa_channel_id wa \<and> con_marketing_opt_in c
       \<and> is_contact_campaign_eligible c (cc_exclude_unreachable payload) (cc_exclude_risky payload) True"
    "cc_only_never_sent payload \<Longrightarrow> \<forall>item \<in> set items. \<not> (\<exists>m \<in> set (messages s). msg_account_id m = a
       \<and> msg_contact_id m = Some (ri_contact_id item) \<and> msg_direction m = OUTBOUND)"
proof -
  let ?rows = "campaign_contacts s a payload"
  define on_channel where "on_channel = keep_if ?rows (\<lambda>c. con_channel_id c = wa_channel_id wa) (cc_recipients payload)"
  define opted where "opted = (if cc_exclude_marketing_opt_out payload then keep_if ?rows con_marketing_opt_in on_channel else on_channel)"
  define eligible where "eligible = keep_if ?rows (\<lambda>c. is_contact_campaign_eligible c (cc_exclude_unreachable payload)
     (cc_exclude_risky payload) True) opted"
  let ?never = "filter_never_sent_contact_ids s a (map ri_contact_id eligible)"
  have dist: "distinct (map ri_contact_id (cc_recipients payload))"
    and ne: "eligible \<noteq> []" and items0: "items \<noteq> []"
    and items: "items = (if cc_only_never_sent payload then filter (\<lambda>item. ri_contact_id item \<in> set ?never) eligible else eligible)"
    using assms unfolding select_recipients_def Let_def on_channel_def [symmetric] opted_def [symmetric] eligible_def [symmetric]
    by (auto split: if_splits)
  have sub: "set items \<subseteq> set eligible" using items by auto
  have dist_e: "distinct (map ri_contact_id eligible)"
    unfolding eligible_def opted_def on_channel_def using dist by (simp add: keep_if_distinct)
  show "items \<noteq> []" by (rule items0)
  show "distinct (map ri_contact_id items)" using dist_e items by (auto intro: distinct_map_filter)
  have in_opted: "item \<in> set on_channel" if "item \<in> set opted" for item
    using that by (auto simp: opted_def keep_if_iff split: if_splits)
  show "set items \<subseteq> set (cc_recipients payload)"
    using sub in_opted by (auto simp: eligible_def on_channel_def keep_if_iff)
  show "\<forall>item \<in> set items. \<exists>c \<in> set (contacts s). con_id c = ri_contact_id item \<and> con_account_id c = a
       \<and> con_organization_id c = cc_organization_id payload \<and> con_deleted_at c = None
       \<and> con_channel_id c = wa_channel_id wa \<and> con_marketing_opt_in c
       \<and> is_contact_campaign_eligible c (cc_exclude_unreachable payload) (cc_exclude_risky payload) True"
  proof
    fix item assume "item \<in> set items"
    then have "item \<in> set eligible" using sub by blast
    then obtain c where c: "by_id ?rows (ri_contact_id item) = Some c" "item \<in> set opted"
      "is_contact_campaign_eligible c (cc_exclude_unreachable payload) (cc_exclude_risky payload) True"
      by (auto simp: eligible_def keep_if_iff)
    moreover have "con_channel_id c = wa_channel_id wa"
      using in_opted [OF c(2)] c(1) by (auto simp: on_channel_def keep_if_iff)
    moreover have "con_marketing_opt_in c" using c(3) by (auto simp: is_contact_campaign_eligible_def split: if_splits)
    ultimately show "\<exists>c \<in> set (contacts s). con_id c = ri_contact_id item \<and> con_account_id c = a
       \<and> con_organization_id c = cc_organization_id payload \<and> con_deleted_at c = None
       \<and> con_channel_id c = wa_channel_id wa \<and> con_marketing_opt_in c
       \<and> is_contact_campaign_eligible c (cc_exclude_unreachable payload) (cc_exclude_risky payload) True"
      using by_id_member [OF c(1)] by (intro bexI [of _ c]) (auto simp: campaign_contacts_def)
  qed
  show "\<forall>item \<in> set items. \<not> (\<exists>m \<in> set (messages s). msg_account_id m = a
       \<and> msg_contact_id m = Some (ri_contact_id item) \<and> msg_direction m = OUTBOUND)" if "cc_only_never_sent payload"
    using that items never_sent_iff [of _ s a "map ri_contact_id eligible"] by auto
qed

lemma create_campaign_success:
  assumes "create_campaign now fi a user payload mo s = (Inr c, s')"
  obtains wa items where
    "campaign_whatsapp_account s a mo (cc_organization_id payload) (cc_whatsapp_account_id payload) = Inr wa"
    "check_campaign_template s a wa payload = Inr ()" "select_recipients s a wa payload = Inr items"
    "cmp_id c = fi_campaign fi" "cmp_account_id c = a" "cmp_status c = DRAFT" "cmp_requires_approval c"
    "cmp_approved_at c = None" "cmp_execution_token c = None" "cmp_scheduled_at c = cc_scheduled_at payload"
    "campaigns s' = campaigns s @ [c]"
    "recipients s' = recipients s @ map (\<lambda>item. new_recipient (fi_recipient fi (ri_contact_id item))
        (cmp_id c) (ri_contact_id item) (Some (ri_template_parameters item))) items"
    "contacts s' = contacts s" "messages s' = messages s"
    "\<exists>e. outbox_events s' = outbox_events s @ [e] \<and> ob_event_type e = ''campaign.created''
       \<and> ob_aggregate_id e = uuid_str (cmp_id c)"
proof -
  obtain wa where wa: "campaign_whatsapp_account s a mo (cc_organization_id payload) (cc_whatsapp_account_id payload) = Inr wa"
    using assms by (auto simp: create_campaign_def split: sum.splits)
  have tpl: "check_campaign_template s a wa payload = Inr ()"
    using assms wa by (auto simp: create_campaign_def split: sum.splits)
  obtain items where items: "select_recipients s a wa payload = Inr items"
    using assms wa tpl by (auto simp: create_campaign_def split: sum.splits)
  note made = assms [unfolded create_campaign_def wa tpl items sum.case Let_def campaign_event_def add_outbox_event_def]
  show ?thesis
    by (rule that [OF wa tpl items]) (use made in auto)
qed

text \<open>What is required of a recipient row \<open>r\<close> of the new campaign \<open>c\<close>.\<close>

definition in_audience :: "db \<Rightarrow> uuid \<Rightarrow> membership option \<Rightarrow> campaign_create \<Rightarrow> campaign \<Rightarrow> campaign_recipient \<Rightarrow> bool" where
  "in_audience s a mo payload c r \<longleftrightarrow>
     rcp_status r = RPending \<and> rcp_campaign_id r = cmp_id c \<and> rcp_external_message_id r = None \<and>
     (\<exists>k \<in> set (contacts s). con_id k = rcp_contact_id r \<and> con_account_id k = a \<and> con_deleted_at k = None
        \<and> con_organization_id k = cc_organization_id payload \<and> con_marketing_opt_in k
        \<and> (\<exists>wa. campaign_whatsapp_account s a mo (cc_organization_id payload) (cc_whatsapp_account_id payload) = Inr wa
             \<and> con_channel_id k = wa_channel_id wa)
        \<and> is_contact_campaign_eligible k (cc_exclude_unreachable payload) (cc_exclude_risky payload) True) \<and>
     (cc_only_never_sent payload \<longrightarrow> \<not> (\<exists>m \<in> set (messages s). msg_account_id m = a
        \<and> msg_contact_id m = Some (rcp_contact_id r) \<and> msg_direction m = OUTBOUND))"

text \<open>The audience of a new campaign: the campaign is an unapproved draft, its pending recipients have distinct
  contacts, and every contact is live, of the same account and branch, on the channel of the campaign's
  WhatsApp account, opted in to marketing and eligible under the request's exclusions, with no earlier outbound
  message if only new customers were asked for; one event is added to the outbox in the same step.  The opt-in
  holds also when the request does not ask to exclude opted-out contacts.\<close>

theorem created_campaign_audience:
  assumes "create_campaign now fi a user payload mo s = (Inr c, s')"
  shows "cmp_status c = DRAFT \<and> cmp_requires_approval c \<and> cmp_approved_at c = None \<and> campaigns s' = campaigns s @ [c] \<and>
    length (outbox_events s') = Suc (length (outbox_events s)) \<and>
    (\<exists>new. recipients s' = recipients s @ new \<and> new \<noteq> [] \<and> distinct (map rcp_contact_id new) \<and>
      (\<forall>r \<in> set new. in_audience s a mo payload c r))"
proof -
  obtain wa items where
    wa: "campaign_whatsapp_account s a mo (cc_organization_id payload) (cc_whatsapp_account_id payload) = Inr wa" and
    "check_campaign_template s a wa payload = Inr ()" and items: "select_recipients s a wa payload = Inr items" and
    c: "cmp_id c = fi_campaign fi" "cmp_account_id c = a" "cmp_status c = DRAFT" "cmp_requires_approval c"
    "cmp_approved_at c = None" "cmp_execution_token c = None" "cmp_scheduled_at c = cc_scheduled_at payload" and
    s': "campaigns s' = campaigns s @ [c]"
    "recipients s' = recipients s @ map (\<lambda>item. new_recipient (fi_recipient fi (ri_contact_id item))
        (cmp_id c) (ri_contact_id item) (Some (ri_template_parameters item))) items"
    "contacts s' = contacts s" "messages s' = messages s" and
    ev: "\<exists>e. outbox_events s' = outbox_events s @ [e] \<and> ob_event_type e = ''campaign.created''
       \<and> ob_aggregate_id e = uuid_str (cmp_id c)"
    by (rule create_campaign_success [OF assms])
  note sound = select_recipients_sound [OF items]
  let ?new = "map (\<lambda>item. new_recipient (fi_recipient fi (ri_contact_id item)) (cmp_id c) (ri_contact_id item)
      (Some (ri_template_parameters item))) items"
  have "map rcp_contact_id ?new = map ri_contact_id items" by (simp add: new_recipient_def)
  with sound(2) have dist: "distinct (map rcp_contact_id ?new)" by metis
  have each: "in_audience s a mo payload c r" if r: "r \<in> set ?new" for r
  proof -
    obtain item where item: "item \<in> set items" "r = new_recipient (fi_recipient fi (ri_contact_id item)) (cmp_id c)
        (ri_contact_id item) (Some (ri_template_parameters item))"
      using r by auto
    then have r': "rcp_status r = RPending" "rcp_campaign_id r = cmp_id c" "rcp_external_message_id r = None"
      "rcp_contact_id r = ri_contact_id item" by (simp_all add: new_recipient_def)
    from sound(4) item(1) obtain k where "k \<in> set (contacts s)" "con_id k = ri_contact_id item" "con_account_id k = a"
      "con_organization_id k = cc_organization_id payload" "con_deleted_at k = None" "con_channel_id k = wa_channel_id wa"
      "con_marketing_opt_in k" "is_contact_campaign_eligible k (cc_exclude_unreachable payload) (cc_exclude_risky payload) True"
      by blast
    moreover have "cc_only_never_sent payload \<longrightarrow> \<not> (\<exists>m \<in> set (messages s). msg_account_id m = a
        \<and> msg_contact_id m = Some (rcp_contact_id r) \<and> msg_direction m = OUTBOUND)"
      using sound(5) item(1) r'(4) by simp
    ultimately show ?thesis unfolding in_audience_def using r' wa by auto
  qed
  have "recipients s' = recipients s @ ?new \<and> ?new \<noteq> [] \<and> distinct (map rcp_contact_id ?new)
      \<and> (\<forall>r \<in> set ?new. in_audience s a mo payload c r)"
    using s'(2) sound(1) dist each by blast
  then have "\<exists>new. recipients s' = recipients s @ new \<and> new \<noteq> [] \<and> distinct (map rcp_contact_id new)
      \<and> (\<forall>r \<in> set new. in_audience s a mo payload c r)" by blast
  moreover have "length (outbox_events s') = Suc (length (outbox_events s))" using ev by auto
  ultimately show ?thesis using c s'(1) by blast
qed

definition demo_contact :: "uuid \<Rightarrow> contact" where
  "demo_contact i = fresh_contact i ''50000000''"

definition campaign_example :: db where
  "campaign_example = access_example\<lparr>contacts := [demo_contact 5, (demo_contact 6)\<lparr>con_marketing_opt_in := False\<rparr>],
     templates := [\<lparr>tpl_id = 9, tpl_account_id = 1, tpl_organization_id = 2, tpl_whatsapp_account_id = 4,
       tpl_meta_template_id = None, tpl_name = ''offer'', tpl_language = ''ar'', tpl_category = MARKETING,
       tpl_status = TplApproved, tpl_body_text = None, tpl_components = None, tpl_meta_status_detail = None\<rparr>]\<rparr>"

definition demo_create :: campaign_create where
  "demo_create = \<lparr>cc_organization_id = 2, cc_whatsapp_account_id = 4, cc_template_id = 9, cc_name = ''Offer'',
     cc_scheduled_at = None, cc_recipients = [\<lparr>ri_contact_id = 5, ri_template_parameters = []\<rparr>,
       \<lparr>ri_contact_id = 6, ri_template_parameters = []\<rparr>], cc_include_opt_out_option = True,
     cc_exclude_marketing_opt_out = False, cc_exclude_unreachable = True, cc_exclude_risky = False,
     cc_only_never_sent = False\<rparr>"

definition demo_ids :: fresh_ids where
  "demo_ids = \<lparr>fi_campaign = 10, fi_event = 11, fi_recipient = (\<lambda>c. 100 + c)\<rparr>"

lemma created_campaign_audience_witness:
  "\<exists>c s'. create_campaign 7 demo_ids 1 8 demo_create None campaign_example = (Inr c, s') \<and> cmp_status c = DRAFT
     \<and> (\<forall>r \<in> set (recipients s'). in_audience campaign_example 1 None demo_create c r)"
proof -
  have "returns (fst (create_campaign 7 demo_ids 1 8 demo_create None campaign_example))" by code_simp
  then obtain c where "fst (create_campaign 7 demo_ids 1 8 demo_create None campaign_example) = Inr c"
    by (auto simp: returns_iff)
  then obtain s' where ok: "create_campaign 7 demo_ids 1 8 demo_create None campaign_example = (Inr c, s')"
    by (metis prod.collapse)
  have "recipients campaign_example = []"
    by (simp add: campaign_example_def access_example_def empty_db_def)
  with created_campaign_audience [OF ok] ok show ?thesis by auto
qed

section \<open>Start\<close>

lemma prepare_success:
  assumes "prepare_campaign_start tok a i mo s = (Inr c', s')"
  obtains c where "get_campaign_row s i = Some c" "cmp_account_id c = a" "cmp_status c \<in> {DRAFT, SCHEDULED, PAUSED}"
    "cmp_requires_approval c \<longrightarrow> cmp_approved_at c \<noteq> None" "recipient_count s i \<le> cmp_max_recipients c"
    "enforce_campaign_tier_limit s c = Inr ()"
    "c' = c\<lparr>cmp_status := SCHEDULED, cmp_execution_token := Some tok, cmp_active_task_id := None,
        cmp_paused_at := None, cmp_cancelled_reason := None\<rparr>" "s' = put_campaign c' s"
    "\<forall>m. mo = Some m \<longrightarrow> ensure_campaign_access s a m c = Inr ()"
proof -
  let ?acc = "case mo of None \<Rightarrow> Inr () | Some m \<Rightarrow>
              (case get_campaign s a i mo of Inl e \<Rightarrow> Inl e | Inr _ \<Rightarrow> Inr ())"
  have acc: "?acc = Inr ()" using assms by (auto simp: prepare_campaign_start_def split: sum.splits)
  obtain c where c: "get_campaign_row s i = Some c"
    using assms acc by (auto simp: prepare_campaign_start_def split: option.splits)
  have id: "cmp_id c = i" using c by (rule campaign_rows.get_key)
  note rest = assms [unfolded prepare_campaign_start_def acc c sum.case option.case]
  have g: "cmp_account_id c = a" "cmp_status c \<in> {DRAFT, SCHEDULED, PAUSED}"
    "cmp_requires_approval c \<longrightarrow> cmp_approved_at c \<noteq> None" "recipient_count s i \<le> cmp_max_recipients c"
    using rest id by (auto split: if_splits)
  have t: "enforce_campaign_tier_limit s c = Inr ()"
    using rest by (auto split: if_splits sum.splits)
  have r: "c' = c\<lparr>cmp_status := SCHEDULED, cmp_execution_token := Some tok, cmp_active_task_id := None,
        cmp_paused_at := None, cmp_cancelled_reason := None\<rparr>" "s' = put_campaign c' s"
    using rest t by (auto simp: Let_def split: if_splits)
  have "\<forall>m. mo = Some m \<longrightarrow> ensure_campaign_access s a m c = Inr ()"
    using acc c g(1) by (auto simp: get_campaign_def split: sum.splits)
  from that [OF c g t r this] show ?thesis .
qed

text \<open>C5. A campaign starts only when it may: the start succeeds only for a draft, scheduled or paused campaign of the
  account that the caller may open, that is approved where approval is required, whose recipients are within its own limit and,
  with a tier limit on the WhatsApp account, whose open recipients are within the tier and whose quality is
  not red; it then is scheduled under the fresh token, and no other campaign changes.\<close>

theorem start_is_guarded:
  assumes "prepare_campaign_start tok a i mo s = (Inr c', s')"
  shows "\<exists>c. get_campaign_row s i = Some c \<and> cmp_account_id c = a \<and> cmp_status c \<in> {DRAFT, SCHEDULED, PAUSED}
    \<and> (cmp_requires_approval c \<longrightarrow> cmp_approved_at c \<noteq> None) \<and> recipient_count s i \<le> cmp_max_recipients c
    \<and> (\<forall>m. mo = Some m \<longrightarrow> ensure_campaign_access s a m c = Inr ())
    \<and> (\<forall>wa limit. get_whatsapp_account s (cmp_whatsapp_account_id c) = Some wa \<and> wa_messaging_limit wa = Some limit \<and> limit \<noteq> 0
         \<longrightarrow> wa_quality_rating wa \<noteq> Some ''RED'' \<and>
             int (length (filter (\<lambda>r. rcp_status r \<in> {RPending, RQueued, RSending}) (recipients_of s i))) \<le> limit)
    \<and> get_campaign_row s' i = Some c' \<and> cmp_status c' = SCHEDULED \<and> cmp_execution_token c' = Some tok
    \<and> (\<forall>j. j \<noteq> i \<longrightarrow> get_campaign_row s' j = get_campaign_row s j) \<and> recipients s' = recipients s"
proof -
  obtain c where c: "get_campaign_row s i = Some c" "cmp_account_id c = a" "cmp_status c \<in> {DRAFT, SCHEDULED, PAUSED}"
    "cmp_requires_approval c \<longrightarrow> cmp_approved_at c \<noteq> None" "recipient_count s i \<le> cmp_max_recipients c"
    and tier: "enforce_campaign_tier_limit s c = Inr ()"
    and c': "c' = c\<lparr>cmp_status := SCHEDULED, cmp_execution_token := Some tok, cmp_active_task_id := None,
        cmp_paused_at := None, cmp_cancelled_reason := None\<rparr>" and s': "s' = put_campaign c' s"
    and acc: "\<forall>m. mo = Some m \<longrightarrow> ensure_campaign_access s a m c = Inr ()"
    by (rule prepare_success [OF assms])
  have id: "cmp_id c = i" using c(1) by (rule campaign_rows.get_key)
  have t: "wa_quality_rating wa \<noteq> Some ''RED'' \<and>
       int (length (filter (\<lambda>r. rcp_status r \<in> {RPending, RQueued, RSending}) (recipients_of s i))) \<le> limit"
    if "get_whatsapp_account s (cmp_whatsapp_account_id c) = Some wa" "wa_messaging_limit wa = Some limit" "limit \<noteq> 0" for wa limit
    using tier that id by (auto simp: enforce_campaign_tier_limit_def Let_def split: if_splits)
  have row: "get_campaign_row s' j = (if j = i then Some c' else get_campaign_row s j)" for j
    using c(1) id by (simp add: s' c' campaign_rows.get_put)
  have "recipients s' = recipients s" by (simp add: s')
  with c acc t row show ?thesis by (intro exI [of _ c]) (simp add: c')
qed

definition started_example :: db where
  "started_example = campaign_example\<lparr>campaigns := [(demo_campaign 10 4)\<lparr>cmp_requires_approval := True, cmp_approved_at := Some 1\<rparr>],
     recipients := [new_recipient 105 10 5 None]\<rparr>"

lemma start_is_guarded_witness:
  "\<exists>c'. get_campaign_row (snd (prepare_campaign_start 77 1 10 None started_example)) 10 = Some c' \<and> cmp_execution_token c' = Some 77"
proof -
  have "returns (fst (prepare_campaign_start 77 1 10 None started_example))" by code_simp
  then obtain c' where "fst (prepare_campaign_start 77 1 10 None started_example) = Inr c'" by (auto simp: returns_iff)
  then have "prepare_campaign_start 77 1 10 None started_example = (Inr c', snd (prepare_campaign_start 77 1 10 None started_example))"
    by (metis prod.collapse)
  from start_is_guarded [OF this] show ?thesis by blast
qed

section \<open>Recovery and retry\<close>

lemma campaigns_update_campaign [simp]:
  "campaigns (update_campaign i f s) = tbl_update (\<lambda>c. cmp_id c = i) f (campaigns s)"
  by (simp add: update_campaign_def)

definition recovered_row :: "datetime \<Rightarrow> (uuid \<Rightarrow> uuid) \<Rightarrow> (uuid \<Rightarrow> string) \<Rightarrow> campaign \<Rightarrow> campaign" where
  "recovered_row now token_of task_of k = k\<lparr>cmp_execution_token := Some (token_of (cmp_id k)), cmp_status := RUNNING,
     cmp_active_task_id := Some (task_of (token_of (cmp_id k))), cmp_last_heartbeat_at := Some now\<rparr>"

lemma recover_queue:
  "campaign_queue (snd (recover_campaign now token_of task_of c st)) =
     campaign_queue (snd st) @ [(uuid_str (cmp_id c), uuid_str (token_of (cmp_id c)))]"
  by (cases st) (simp add: recover_campaign_def enqueue_campaign_def Let_def)

lemma recover_rows:
  "campaigns (fst (recover_campaign now token_of task_of c st)) =
     map (\<lambda>k. if cmp_id k = cmp_id c then recovered_row now token_of task_of k else k) (campaigns (fst st))"
  by (cases st) (simp add: recover_campaign_def tbl_update_def recovered_row_def Let_def)

lemma fold_recover_queue:
  "campaign_queue (snd (fold (recover_campaign now token_of task_of) rows st)) =
     campaign_queue (snd st) @ map (\<lambda>c. (uuid_str (cmp_id c), uuid_str (token_of (cmp_id c)))) rows"
  by (induction rows arbitrary: st) (simp_all add: recover_queue)

lemma fold_recover_rows:
  "campaigns (fst (fold (recover_campaign now token_of task_of) rows st)) =
     map (\<lambda>k. if cmp_id k \<in> cmp_id ` set rows then recovered_row now token_of task_of k else k) (campaigns (fst st))"
proof (induction rows arbitrary: st)
  case (Cons c rows)
  have "recovered_row now token_of task_of (recovered_row now token_of task_of k) = recovered_row now token_of task_of k"
    "cmp_id (recovered_row now token_of task_of k) = cmp_id k" for k
    by (simp_all add: recovered_row_def)
  then show ?case by (auto simp: Cons.IH recover_rows)
qed simp

lemmas fold_recover = fold_recover_queue fold_recover_rows

lemma stuck_campaigns_all:
  assumes "c \<in> set (campaigns s)" "stuck_scheduled now c"
    and "tbl_count (stuck_running now) (campaigns s) + tbl_count (stuck_scheduled now) (campaigns s) \<le> limit"
  shows "c \<in> set (stuck_campaigns now limit s)"
proof -
  let ?run = "sort_key heartbeat_key (filter (stuck_running now) (campaigns s))"
  let ?sch = "sort_key cmp_created_at (filter (stuck_scheduled now) (campaigns s))"
  have len: "length ?run + length ?sch \<le> limit" using assms(3) by (simp add: tbl_count_def)
  then have t: "take limit ?run = ?run" "take limit ?sch = ?sch" by simp_all
  have "length (filter (\<lambda>c. c \<notin> set ?run) ?sch) \<le> length ?sch" by (rule length_filter_le)
  with len have all: "take limit (?run @ filter (\<lambda>c. c \<notin> set ?run) ?sch) = ?run @ filter (\<lambda>c. c \<notin> set ?run) ?sch"
    by simp
  have "c \<in> set ?sch" using assms(1,2) by simp
  then show ?thesis unfolding stuck_campaigns_def Let_def t all by auto
qed

text \<open>Recovery does not look at the planned time: a campaign that is scheduled for later and was created more than
  three minutes ago counts as stuck, and the next recovery puts its run on the queue at once, under a
  fresh token that makes the planned job stale.\<close>

theorem recovery_ignores_schedule:
  assumes "c \<in> set (campaigns s)" "cmp_status c = SCHEDULED" "cmp_started_at c = None"
    and "cmp_scheduled_at c = Some t" "now < t" "cmp_created_at c < now - minutes 3"
    and "tbl_count (stuck_running now) (campaigns s) + tbl_count (stuck_scheduled now) (campaigns s) \<le> limit"
    and "recover_stuck_campaigns now token_of task_of limit (s, q) = (n, s', q')"
  shows "(uuid_str (cmp_id c), uuid_str (token_of (cmp_id c))) \<in> set (campaign_queue q') \<and>
    (\<exists>k \<in> set (campaigns s'). cmp_id k = cmp_id c \<and> cmp_status k = RUNNING
       \<and> cmp_execution_token k = Some (token_of (cmp_id c)) \<and> cmp_scheduled_at k = Some t)"
proof -
  let ?rows = "stuck_campaigns now limit s"
  have "stuck_scheduled now c"
    using assms(2,3,6) by (simp add: stuck_scheduled_def STALE_SCHEDULED_MINUTES_def)
  from stuck_campaigns_all [OF assms(1) this assms(7)] have c: "c \<in> set ?rows" .
  have "fold (recover_campaign now token_of task_of) ?rows (s, q) = (s', q')"
    using assms(8) by (simp add: recover_stuck_campaigns_def Let_def)
  note fin = fold_recover [of now token_of task_of ?rows "(s, q)", unfolded this fst_conv snd_conv]
  have "(uuid_str (cmp_id c), uuid_str (token_of (cmp_id c))) \<in> set (campaign_queue q')"
    unfolding fin(1) using c by auto
  moreover have "recovered_row now token_of task_of c \<in> set (campaigns s')"
    unfolding fin(2) using assms(1) c by force
  ultimately show ?thesis using assms(4) by (intro conjI bexI [of _ "recovered_row now token_of task_of c"]) (simp_all add: recovered_row_def)
qed

lemma recovery_ignores_schedule_witness:
  "(uuid_str 10, uuid_str 99) \<in> set (campaign_queue (snd (snd (recover_stuck_campaigns (hours 1) (\<lambda>_. 99) (\<lambda>_. ''task'') 20
     (started_example\<lparr>campaigns := [(demo_campaign 10 4)\<lparr>cmp_status := SCHEDULED, cmp_scheduled_at := Some (hours 48)\<rparr>]\<rparr>,
      \<lparr>campaign_queue = [], automation_queue = []\<rparr>)))))"
proof -
  let ?c = "(demo_campaign 10 4)\<lparr>cmp_status := SCHEDULED, cmp_scheduled_at := Some (hours 48)\<rparr>"
  let ?s = "started_example\<lparr>campaigns := [?c]\<rparr>" and ?q = "\<lparr>campaign_queue = [], automation_queue = []\<rparr>"
  obtain n s' q' where r: "recover_stuck_campaigns (hours 1) (\<lambda>_. 99) (\<lambda>_. ''task'') 20 (?s, ?q) = (n, s', q')"
    by (metis prod_cases3)
  show ?thesis
    using recovery_ignores_schedule [OF _ _ _ _ _ _ _ r, of ?c "hours 48"] r
    by (simp add: demo_campaign_def timedelta_defs tbl_count_def stuck_running_def stuck_scheduled_def)
qed

text \<open>A retry resets every failed recipient, also those whose delivery state is unknown: each failed recipient of the
  campaign becomes pending without error text, external id and start of sending, every other recipient stays,
  and one run of the campaign is put on the queue under the fresh token.\<close>

theorem retry_resets_all_failed:
  assumes "retry_failed_campaign_recipients now tok task_of a i mo (s, q) = (Inr n, s', q')"
  shows "recipients s' = map (\<lambda>r. if rcp_campaign_id r = i \<and> rcp_status r = RFailed
        then r\<lparr>rcp_status := RPending, rcp_error_message := None, rcp_external_message_id := None, rcp_sending_started_at := None\<rparr>
        else r) (recipients s)
    \<and> n = length (filter (\<lambda>r. rcp_campaign_id r = i \<and> rcp_status r = RFailed) (recipients s)) \<and> n > 0
    \<and> campaign_queue q' = campaign_queue q @ [(uuid_str i, uuid_str tok)]
    \<and> (\<exists>c. get_campaign_row s i = Some c \<and> cmp_account_id c = a \<and> cmp_status c \<in> {COMPLETED, COMPLETED_WITH_ERRORS, PAUSED, FAILED})"
proof -
  obtain c where c: "get_campaign s a i mo = Inr c"
    using assms by (auto simp: retry_failed_campaign_recipients_def split: sum.splits)
  then have row: "get_campaign_row s i = Some c" "cmp_account_id c = a"
    by (auto simp: get_campaign_def split: option.splits if_splits sum.splits)
  have id: "cmp_id c = i" using row(1) by (rule campaign_rows.get_key)
  note r = assms [unfolded retry_failed_campaign_recipients_def Let_def prod.case c sum.case id]
  have st: "cmp_status c \<in> {COMPLETED, COMPLETED_WITH_ERRORS, PAUSED, FAILED}" and n: "n = tbl_count (is_failed_of i) (recipients s)" "n \<noteq> 0"
    and s': "recipients s' = tbl_update (is_failed_of i) reset_failed (recipients s)"
    and q': "q' = enqueue_campaign i tok q"
    using r by (auto simp: update_campaign_def split: if_splits)
  have "is_failed_of i = (\<lambda>r. rcp_campaign_id r = i \<and> rcp_status r = RFailed)" by (simp add: fun_eq_iff is_failed_of_def)
  with st n s' q' row show ?thesis
    by (simp add: tbl_count_def tbl_update_def reset_failed_def [abs_def] enqueue_campaign_def cong: if_cong)
qed

definition UNKNOWN_DELIVERY :: string where
  "UNKNOWN_DELIVERY = ''Delivery state unknown after worker interruption; reconcile before retry''"

lemma retry_resets_all_failed_witness:
  "recipients (fst (snd (retry_failed_campaign_recipients 9 77 (\<lambda>_. ''task'') 1 10 None
     (started_example\<lparr>campaigns := [(demo_campaign 10 4)\<lparr>cmp_status := PAUSED\<rparr>],
        recipients := [(new_recipient 105 10 5 None)\<lparr>rcp_status := RFailed, rcp_error_message := Some UNKNOWN_DELIVERY\<rparr>]\<rparr>,
      \<lparr>campaign_queue = [], automation_queue = []\<rparr>)))) = [new_recipient 105 10 5 None]"
proof -
  let ?s = "started_example\<lparr>campaigns := [(demo_campaign 10 4)\<lparr>cmp_status := PAUSED\<rparr>],
        recipients := [(new_recipient 105 10 5 None)\<lparr>rcp_status := RFailed, rcp_error_message := Some UNKNOWN_DELIVERY\<rparr>]\<rparr>"
  let ?r = "retry_failed_campaign_recipients 9 77 (\<lambda>_. ''task'') 1 10 None (?s, \<lparr>campaign_queue = [], automation_queue = []\<rparr>)"
  have "fst ?r = Inr 1"
    by (simp add: retry_failed_campaign_recipients_def get_campaign_def get_campaign_row_def tbl_get_def demo_campaign_def
        is_failed_of_def [abs_def] tbl_count_def new_recipient_def Let_def)
  then have "?r = (Inr 1, fst (snd ?r), snd (snd ?r))" by (metis prod.collapse)
  from retry_resets_all_failed [OF this] show ?thesis by (simp add: new_recipient_def)
qed

end
