(* ===== verification/CampaignWorker.thy ===== *)
theory CampaignWorker
  imports CampaignMessages CampaignLifecycle
begin

text \<open>
  The campaign task (\<open>workers/campaign_tasks.py\<close>): one run of \<open>_run_campaign\<close> in an environment \<open>env\<close> that
  fixes the clock, the ids of new rows, the rows locked by others, the answers of Meta and, at every
  \<open>db.refresh(campaign)\<close>, what other transactions have committed meanwhile.  The state of a run holds the
  database, the position in the environment, the counters and a log of the calls to Meta, with the rows each
  call was made for, that only the theorems read.

  A worker writes single columns of rows.  Rows of a batch are the values read when the batch was selected.
  A raise that nothing catches ends the run with what had been committed.  The loop may go on for ever
  while Meta answers with transient errors, so it runs with fuel and yields \<open>None\<close> when that is used up.  Sleeping
  only moves the clock, which is arbitrary; the event to the browser after a send is left out.  The
  components of the message (\<open>resolve_send_components\<close> in \<open>services/template_media.py\<close>) are a function of the environment.
\<close>

section \<open>Environment and state\<close>

datatype provider_reply = Accepted "string option" | Refused meta_error | Crash

record env =
  clock :: "nat \<Rightarrow> datetime"
  others :: "nat \<Rightarrow> db \<Rightarrow> db"
  locked_rows :: "nat \<Rightarrow> uuid \<Rightarrow> bool"
  answer :: "nat \<Rightarrow> provider_reply"
  new_conversation_id :: "nat \<Rightarrow> uuid"
  new_message_id :: "nat \<Rightarrow> uuid"
  components_of :: "json list option \<Rightarrow> json list option \<Rightarrow> json list outcome"

record call =
  call_to :: string
  call_template :: string
  call_language :: string
  call_components :: "json list"
  call_recipient :: campaign_recipient
  call_contact :: contact
  call_campaign :: campaign
  call_answer :: provider_reply

record run =
  run_db :: db
  run_tick :: nat
  run_sent :: nat
  run_failed :: nat
  run_rate_limited :: nat
  run_attempt :: nat
  run_calls :: "call list"
  run_unflushed :: "uuid option"

datatype run_result = NotFound | StaleTask | ApprovalRequired | AlreadyCancelled | MissingConfiguration | Superseded
  | Stopped campaign_status nat nat | Finished campaign_status nat nat nat | Raised

definition STALE_SENDING_MINUTES :: int where
  "STALE_SENDING_MINUTES = 10"

definition update_recipient :: "uuid \<Rightarrow> (campaign_recipient \<Rightarrow> campaign_recipient) \<Rightarrow> db \<Rightarrow> db" where
  "update_recipient i f s = s\<lparr>recipients := tbl_update (\<lambda>r. rcp_id r = i) f (recipients s)\<rparr>"

definition update_contact :: "uuid \<Rightarrow> (contact \<Rightarrow> contact) \<Rightarrow> db \<Rightarrow> db" where
  "update_contact i f s = s\<lparr>contacts := tbl_update (\<lambda>c. con_id c = i) f (contacts s)\<rparr>"

definition on_db :: "(db \<Rightarrow> db) \<Rightarrow> run \<Rightarrow> run" where
  "on_db f st = st\<lparr>run_db := f (run_db st)\<rparr>"

text \<open>\<open>db.refresh(campaign)\<close> makes the commits of others visible; \<open>tick\<close> passes the time.\<close>

definition refresh :: "env \<Rightarrow> run \<Rightarrow> run" where
  "refresh env st = st\<lparr>run_db := others env (run_tick st) (run_db st), run_tick := Suc (run_tick st)\<rparr>"

text \<open>After a transient error the assignment in \<open>finally\<close> comes after the commit; it reaches the database with the
  next commit.\<close>

definition commit :: "run \<Rightarrow> run" where
  "commit st = (case run_unflushed st of
     None \<Rightarrow> st
   | Some i \<Rightarrow> st\<lparr>run_db := update_recipient i (\<lambda>r. r\<lparr>rcp_sending_started_at := None\<rparr>) (run_db st), run_unflushed := None\<rparr>)"

section \<open>One recipient\<close>

text \<open>The columns that \<open>record_delivery_failure\<close> writes, from the contact as it was read.\<close>

definition write_delivery_failure :: "datetime \<Rightarrow> string option \<Rightarrow> contact \<Rightarrow> db \<Rightarrow> db" where
  "write_delivery_failure now message contact s =
     (let c = record_delivery_failure now message contact
      in update_contact (con_id contact) (\<lambda>k. k\<lparr>con_delivery_failure_count := con_delivery_failure_count c,
           con_last_delivery_failure_at := con_last_delivery_failure_at c,
           con_reachability_reason := con_reachability_reason c,
           con_reachability_status := con_reachability_status c\<rparr>) s)"

definition delivery_key_of :: "campaign \<Rightarrow> campaign_recipient \<Rightarrow> string" where
  "delivery_key_of campaign r = (case rcp_delivery_key r of
     Some (c # cs) \<Rightarrow> c # cs
   | _ \<Rightarrow> ''campaign:'' @ uuid_str (cmp_id campaign) @ '':recipient:'' @ uuid_str (rcp_id r))"

definition mark_sending :: "datetime \<Rightarrow> campaign \<Rightarrow> campaign_recipient \<Rightarrow> db \<Rightarrow> db" where
  "mark_sending now campaign r s =
     update_campaign (cmp_id campaign) (\<lambda>c. c\<lparr>cmp_last_heartbeat_at := Some now\<rparr>)
       (update_recipient (rcp_id r) (\<lambda>q. q\<lparr>rcp_status := RSending, rcp_sending_started_at := Some now,
          rcp_last_attempt_at := Some now, rcp_delivery_key := Some (delivery_key_of campaign r)\<rparr>) s)"

definition skip_recipient :: "datetime \<Rightarrow> campaign \<Rightarrow> campaign_recipient \<Rightarrow> db \<Rightarrow> db" where
  "skip_recipient now campaign r s =
     update_campaign (cmp_id campaign) (\<lambda>c. c\<lparr>cmp_last_heartbeat_at := Some now\<rparr>)
       (update_recipient (rcp_id r) (\<lambda>q. q\<lparr>rcp_status := RSkipped, rcp_error_message := Some ''Marketing opt-out'',
          rcp_last_attempt_at := Some now\<rparr>) s)"

definition mark_already_sent :: "datetime \<Rightarrow> campaign \<Rightarrow> campaign_recipient \<Rightarrow> db \<Rightarrow> db" where
  "mark_already_sent now campaign r s =
     update_campaign (cmp_id campaign) (\<lambda>c. c\<lparr>cmp_last_heartbeat_at := Some now\<rparr>)
       (update_recipient (rcp_id r) (\<lambda>q. q\<lparr>rcp_status := RSent, rcp_error_message := None,
          rcp_sending_started_at := None\<rparr>) s)"

definition fail_recipient :: "campaign_recipient \<Rightarrow> string \<Rightarrow> db \<Rightarrow> db" where
  "fail_recipient r message s = update_recipient (rcp_id r) (\<lambda>q. q\<lparr>rcp_status := RFailed,
     rcp_error_message := Some message, rcp_sending_started_at := None\<rparr>) s"

definition mark_sent :: "campaign_recipient \<Rightarrow> string option \<Rightarrow> db \<Rightarrow> db" where
  "mark_sent r external_id s = update_recipient (rcp_id r) (\<lambda>q. q\<lparr>rcp_external_message_id := external_id,
     rcp_status := RSent, rcp_error_message := None, rcp_sending_started_at := None\<rparr>) s"

definition requeue :: "campaign_recipient \<Rightarrow> string \<Rightarrow> db \<Rightarrow> db" where
  "requeue r message s = update_recipient (rcp_id r) (\<lambda>q. q\<lparr>rcp_status := RQueued, rcp_error_message := Some message\<rparr>) s"

definition has_external_id :: "campaign_recipient \<Rightarrow> bool" where
  "has_external_id r \<longleftrightarrow> rcp_external_message_id r \<notin> {None, Some []}"

text \<open>The call, and what is written for each answer.\<close>

definition handle_answer :: "env \<Rightarrow> campaign \<Rightarrow> whatsapp_account \<Rightarrow> whatsapp_template \<Rightarrow> campaign_recipient \<Rightarrow> contact \<Rightarrow>
    string \<Rightarrow> json list \<Rightarrow> run \<Rightarrow> run_result option \<times> run" where
  "handle_answer env campaign wa template r contact to components st =
     (let n = length (run_calls st);
          now = clock env (run_tick st);
          reply = answer env n;
          st1 = st\<lparr>run_calls := run_calls st @ [\<lparr>call_to = to, call_template = tpl_name template,
                  call_language = tpl_language template, call_components = components, call_recipient = r,
                  call_contact = contact, call_campaign = campaign, call_answer = reply\<rparr>]\<rparr> in
      case reply of
        Crash \<Rightarrow> (Some Raised, st1)
      | Accepted external_id \<Rightarrow>
          (let st2 = (on_db (mark_sent r external_id) st1)\<lparr>run_sent := Suc (run_sent st), run_attempt := 0\<rparr>;
               r' = r\<lparr>rcp_external_message_id := external_id, rcp_status := RSent, rcp_error_message := None\<rparr>
           in (None, case external_id of
                 None \<Rightarrow> st2
               | Some e \<Rightarrow> on_db (\<lambda>s. snd (record_campaign_outbound_message now (new_conversation_id env n)
                   (new_message_id env n) campaign r' contact wa template to e components RSent s)) st2))
      | Refused exc \<Rightarrow>
          if is_transient_meta_error exc
          then (None, (on_db (requeue r (take 2000 (me_message exc))) st1)\<lparr>run_rate_limited := Suc (run_rate_limited st),
                  run_attempt := Suc (run_attempt st), run_unflushed := Some (rcp_id r)\<rparr>)
          else (None, (on_db (\<lambda>s. write_delivery_failure now (Some (take 2000 (me_message exc))) contact
                  (fail_recipient r (take 2000 (me_message exc)) s)) st1)\<lparr>run_failed := Suc (run_failed st)\<rparr>))"

definition deliver :: "env \<Rightarrow> campaign \<Rightarrow> whatsapp_account \<Rightarrow> whatsapp_template \<Rightarrow> campaign_recipient \<Rightarrow> contact \<Rightarrow>
    run \<Rightarrow> run_result option \<times> run" where
  "deliver env campaign wa template r contact st =
     (case components_of env (tpl_components template) (rcp_template_parameters r) of
        Inl e \<Rightarrow> (Some Raised, st)
      | Inr components \<Rightarrow>
          (let to = normalize_whatsapp_phone (Some (con_external_address contact)) (dial_code contact) in
           if to = [] then
             (None, (on_db (\<lambda>s. write_delivery_failure (clock env (run_tick st)) (Some ''Invalid phone number'') contact
                (fail_recipient r ''Invalid phone number'' s)) st)\<lparr>run_failed := Suc (run_failed st)\<rparr>)
           else handle_answer env campaign wa template r contact to components st))"

definition process_row :: "env \<Rightarrow> uuid \<Rightarrow> uuid \<Rightarrow> whatsapp_account \<Rightarrow> whatsapp_template \<Rightarrow>
    campaign_recipient \<times> contact \<Rightarrow> run \<Rightarrow> run_result option \<times> run" where
  "process_row env campaign_id execution_token wa template row st0 =
     (let (r, contact) = row; st1 = refresh env st0 in
      case get_campaign_row (run_db st1) campaign_id of
        None \<Rightarrow> (Some Raised, st1)
      | Some campaign \<Rightarrow>
          (let st2 = commit st1; now = clock env (run_tick st1) in
           if cmp_execution_token campaign \<noteq> Some execution_token \<or> cmp_status campaign \<in> {PAUSED, CANCELLED}
           then (Some (Stopped (cmp_status campaign) (run_sent st2) (run_failed st2)), st2)
           else if con_marketing_opt_in contact = False then (None, on_db (skip_recipient now campaign r) st2)
           else if has_external_id r
           then (None, (on_db (mark_already_sent now campaign r) st2)\<lparr>run_sent := Suc (run_sent st2)\<rparr>)
           else deliver env campaign wa template r contact (on_db (mark_sending now campaign r) st2)))"

fun process_rows :: "env \<Rightarrow> uuid \<Rightarrow> uuid \<Rightarrow> whatsapp_account \<Rightarrow> whatsapp_template \<Rightarrow>
    (campaign_recipient \<times> contact) list \<Rightarrow> run \<Rightarrow> run_result option \<times> run" where
  "process_rows env campaign_id execution_token wa template [] st = (None, st)"
| "process_rows env campaign_id execution_token wa template (row # rows) st =
     (case process_row env campaign_id execution_token wa template row st of
        (Some res, st') \<Rightarrow> (Some res, st')
      | (None, st') \<Rightarrow> process_rows env campaign_id execution_token wa template rows st')"

section \<open>The loop\<close>

definition is_stale_sending :: "uuid \<Rightarrow> datetime \<Rightarrow> campaign_recipient \<Rightarrow> bool" where
  "is_stale_sending campaign_id cutoff r \<longleftrightarrow> rcp_campaign_id r = campaign_id \<and> rcp_status r = RSending
     \<and> (case rcp_sending_started_at r of None \<Rightarrow> False | Some t \<Rightarrow> t < cutoff) \<and> rcp_external_message_id r = None"

definition fail_stale_sending :: "uuid \<Rightarrow> datetime \<Rightarrow> db \<Rightarrow> db" where
  "fail_stale_sending campaign_id cutoff s = s\<lparr>recipients := tbl_update (is_stale_sending campaign_id cutoff)
     (\<lambda>r. r\<lparr>rcp_status := RFailed, rcp_error_message := Some UNKNOWN_DELIVERY, rcp_sending_started_at := None\<rparr>) (recipients s)\<rparr>"

definition is_open :: "campaign_recipient \<Rightarrow> bool" where
  "is_open r \<longleftrightarrow> rcp_status r = RPending \<or> rcp_status r = RQueued"

definition sendable :: "db \<Rightarrow> uuid \<Rightarrow> campaign_recipient \<Rightarrow> (campaign_recipient \<times> contact) option" where
  "sendable s campaign_id r =
     (if rcp_campaign_id r = campaign_id \<and> is_open r
      then (case get_contact_row s (rcp_contact_id r) of
          None \<Rightarrow> None
        | Some c \<Rightarrow> if con_deleted_at c = None then Some (r, c) else None)
      else None)"

definition select_batch :: "(uuid \<Rightarrow> bool) \<Rightarrow> nat \<Rightarrow> uuid \<Rightarrow> db \<Rightarrow> (campaign_recipient \<times> contact) list" where
  "select_batch locked batch_size campaign_id s =
     take batch_size (List.map_filter (sendable s campaign_id) (filter (\<lambda>r. \<not> locked (rcp_id r)) (recipients s)))"

definition finish_campaign :: "env \<Rightarrow> uuid \<Rightarrow> run \<Rightarrow> run_result \<times> run" where
  "finish_campaign env campaign_id st =
     (let status = (if run_failed st = 0 then COMPLETED else COMPLETED_WITH_ERRORS)
      in (Finished status (run_sent st) (run_failed st) (run_rate_limited st),
          commit (on_db (update_campaign campaign_id (\<lambda>c. c\<lparr>cmp_status := status,
            cmp_completed_at := Some (clock env (run_tick st)), cmp_active_task_id := None\<rparr>)) st)))"

fun run_loop :: "nat \<Rightarrow> env \<Rightarrow> nat \<Rightarrow> uuid \<Rightarrow> uuid \<Rightarrow> whatsapp_account \<Rightarrow> whatsapp_template \<Rightarrow> run \<Rightarrow>
    run_result option \<times> run" where
  "run_loop 0 env batch_size campaign_id execution_token wa template st = (None, st)"
| "run_loop (Suc fuel) env batch_size campaign_id execution_token wa template st =
     (let st1 = refresh env st in
      case get_campaign_row (run_db st1) campaign_id of
        None \<Rightarrow> (Some Raised, st1)
      | Some campaign \<Rightarrow>
          if cmp_execution_token campaign \<noteq> Some execution_token then (Some Superseded, st1)
          else if cmp_status campaign \<in> {PAUSED, CANCELLED}
          then (Some (Stopped (cmp_status campaign) (run_sent st1) (run_failed st1)), st1)
          else
            (let cutoff = clock env (run_tick st1) - minutes STALE_SENDING_MINUTES;
                 st2 = on_db (fail_stale_sending campaign_id cutoff) (commit st1);
                 rows = select_batch (locked_rows env (run_tick st2)) batch_size campaign_id (run_db st2)
             in if rows = [] then map_prod Some id (finish_campaign env campaign_id st2)
                else (case process_rows env campaign_id execution_token wa template rows st2 of
                    (Some res, st3) \<Rightarrow> (Some res, st3)
                  | (None, st3) \<Rightarrow> run_loop fuel env batch_size campaign_id execution_token wa template st3)))"

text \<open>\<open>_run_campaign\<close>.\<close>

definition start_run :: "env \<Rightarrow> db \<Rightarrow> run" where
  "start_run env s = \<lparr>run_db = s, run_tick = 0, run_sent = 0, run_failed = 0, run_rate_limited = 0, run_attempt = 0,
     run_calls = [], run_unflushed = None\<rparr>"

definition run_campaign :: "nat \<Rightarrow> env \<Rightarrow> uuid \<Rightarrow> uuid \<Rightarrow> db \<Rightarrow> run_result option \<times> run" where
  "run_campaign fuel env campaign_id execution_token s =
     (let st = start_run env s; now = clock env 0 in
      case get_campaign_row s campaign_id of
        None \<Rightarrow> (Some NotFound, st)
      | Some campaign \<Rightarrow>
          if cmp_execution_token campaign \<noteq> Some execution_token then (Some StaleTask, st)
          else if cmp_requires_approval campaign \<and> cmp_approved_at campaign = None then (Some ApprovalRequired, st)
          else if cmp_status campaign = CANCELLED then (Some AlreadyCancelled, st)
          else (case (get_whatsapp_account s (cmp_whatsapp_account_id campaign), get_template s (cmp_template_id campaign)) of
              (Some wa, Some template) \<Rightarrow>
                (let fast_mode = (map_of (get_feature_flags s (cmp_account_id campaign)) ''fast_campaigns'' = Some True);
                     batch_size = (if fast_mode then 50 else 25);
                     campaign' = campaign\<lparr>cmp_status := RUNNING,
                       cmp_started_at := (case cmp_started_at campaign of None \<Rightarrow> Some now | Some t \<Rightarrow> Some t),
                       cmp_last_heartbeat_at := Some now\<rparr>
                 in run_loop fuel env batch_size campaign_id execution_token wa template (on_db (put_campaign campaign') st))
            | _ \<Rightarrow> (Some MissingConfiguration, on_db (put_campaign (campaign\<lparr>cmp_status := FAILED\<rparr>)) st)))"

end
