(* ===== verification/CampaignRuns.thy ===== *)
theory CampaignRuns
  imports CampaignWorker
begin

text \<open>
  What a run of the campaign task guarantees, whatever the environment does: the guards under which Meta is
  called, one settled call per recipient, termination, and what a finished run leaves behind.  The induction
  over the loop is done once, in the locale \<open>run_invariant\<close>; each guarantee is an interpretation of it.
\<close>

section \<open>Open recipients\<close>

definition open_ids :: "uuid \<Rightarrow> db \<Rightarrow> uuid set" where
  "open_ids i s = rcp_id ` set (filter (\<lambda>r. rcp_campaign_id r = i \<and> is_open r) (recipients s))"

definition recipient_ids :: "db \<Rightarrow> uuid list" where
  "recipient_ids s = map rcp_id (recipients s)"

lemma finite_open_ids [simp]: "finite (open_ids i s)"
  by (simp add: open_ids_def)

named_theorems open_simps

lemma recipients_frames [open_simps]:
  "recipients (update_campaign k g s) = recipients s"
  "recipients (update_contact k f s) = recipients s"
  "recipients (write_delivery_failure now m c s) = recipients s"
  "recipients (snd (record_campaign_outbound_message now ci mi campaign r c wa t to e cs st s)) = recipients s"
  by (auto simp: update_campaign_def update_contact_def write_delivery_failure_def Let_def row_defs
      put_message_def record_campaign_outbound_message_def split: option.splits prod.splits if_splits)

lemma open_ids_frames [open_simps]:
  "open_ids i (update_campaign k g s) = open_ids i s"
  "open_ids i (write_delivery_failure now m c s) = open_ids i s"
  "open_ids i (snd (record_campaign_outbound_message now ci mi campaign r c wa t to e cs st s)) = open_ids i s"
  "recipient_ids (update_campaign k g s) = recipient_ids s"
  "recipient_ids (write_delivery_failure now m c s) = recipient_ids s"
  "recipient_ids (snd (record_campaign_outbound_message now ci mi campaign r c wa t to e cs st s)) = recipient_ids s"
  by (simp_all add: open_ids_def recipient_ids_def open_simps)

lemma recipient_ids_update:
  assumes "\<And>r. rcp_id (f r) = rcp_id r"
  shows "recipient_ids (update_recipient k f s) = recipient_ids s"
  using assms by (simp add: recipient_ids_def update_recipient_def tbl_update_def comp_def if_distrib cong: if_cong)

lemma open_ids_iff: "q \<in> open_ids i s \<longleftrightarrow> (\<exists>r \<in> set (recipients s). rcp_id r = q \<and> rcp_campaign_id r = i \<and> is_open r)"
  by (auto simp: open_ids_def)

lemma open_ids_update:
  assumes "\<And>r. rcp_id (f r) = rcp_id r"
  shows "q \<in> open_ids i (update_recipient k f s) \<longleftrightarrow> (\<exists>r \<in> set (recipients s). rcp_id r = q \<and>
     (if q = k then rcp_campaign_id (f r) = i \<and> is_open (f r) else rcp_campaign_id r = i \<and> is_open r))" (is "_ \<longleftrightarrow> ?R")
proof -
  have rows: "recipients (update_recipient k f s) = map (\<lambda>r. if rcp_id r = k then f r else r) (recipients s)"
    by (simp add: update_recipient_def tbl_update_def)
  show ?thesis
    unfolding open_ids_iff rows set_map bex_simps by (rule bex_cong [OF refl]) (auto simp: assms)
qed

lemma open_ids_close:
  assumes "\<And>r. rcp_id (f r) = rcp_id r" "\<And>r. \<not> is_open (f r)"
  shows "open_ids i (update_recipient k f s) = open_ids i s - {k}"
  by (rule set_eqI, subst open_ids_update [OF assms(1)]) (auto simp: assms(2) open_ids_iff)

lemma open_ids_any:
  assumes "\<And>r. rcp_id (f r) = rcp_id r"
  shows "open_ids i (update_recipient k f s) \<subseteq> insert k (open_ids i s)"
proof
  fix q assume "q \<in> open_ids i (update_recipient k f s)"
  then show "q \<in> insert k (open_ids i s)"
    by (subst (asm) open_ids_update [OF assms], cases "q = k") (simp_all add: open_ids_iff)
qed

lemma open_ids_same:
  assumes "\<And>r. rcp_id (f r) = rcp_id r" "\<And>r. rcp_status (f r) = rcp_status r" "\<And>r. rcp_campaign_id (f r) = rcp_campaign_id r"
  shows "open_ids i (update_recipient k f s) = open_ids i s"
  by (rule set_eqI, subst open_ids_update [OF assms(1)]) (simp only: open_ids_iff is_open_def assms(2,3) if_cancel)

lemma closing_writes [open_simps]:
  "open_ids i (mark_sending now campaign r s) = open_ids i s - {rcp_id r}"
  "open_ids i (skip_recipient now campaign r s) = open_ids i s - {rcp_id r}"
  "open_ids i (mark_already_sent now campaign r s) = open_ids i s - {rcp_id r}"
  "open_ids i (fail_recipient r m s) = open_ids i s - {rcp_id r}"
  "open_ids i (mark_sent r e s) = open_ids i s - {rcp_id r}"
  unfolding mark_sending_def skip_recipient_def mark_already_sent_def fail_recipient_def mark_sent_def open_simps
  by (rule open_ids_close; simp add: is_open_def)+

lemma writes_recipient_ids [open_simps]:
  "recipient_ids (mark_sending now campaign r s) = recipient_ids s"
  "recipient_ids (skip_recipient now campaign r s) = recipient_ids s"
  "recipient_ids (mark_already_sent now campaign r s) = recipient_ids s"
  "recipient_ids (fail_recipient r m s) = recipient_ids s"
  "recipient_ids (mark_sent r e s) = recipient_ids s"
  "recipient_ids (requeue r m s) = recipient_ids s"
  unfolding mark_sending_def skip_recipient_def mark_already_sent_def fail_recipient_def mark_sent_def requeue_def open_simps
  by (rule recipient_ids_update; simp)+

lemma open_ids_requeue: "open_ids i (requeue r m s) \<subseteq> insert (rcp_id r) (open_ids i s)"
  unfolding requeue_def by (rule open_ids_any) simp

lemma commit_frames [open_simps]:
  "open_ids i (run_db (commit st)) = open_ids i (run_db st)"
  "recipient_ids (run_db (commit st)) = recipient_ids (run_db st)"
  "run_calls (commit st) = run_calls st"
  "run_sent (commit st) = run_sent st" "run_failed (commit st) = run_failed st" "run_tick (commit st) = run_tick st"
  by (auto simp: commit_def open_ids_same recipient_ids_update split: option.splits)

lemma fail_stale_frames [open_simps]:
  "open_ids i (fail_stale_sending j cutoff s) = open_ids i s"
  "recipient_ids (fail_stale_sending j cutoff s) = recipient_ids s"
proof -
  let ?g = "\<lambda>r. if is_stale_sending j cutoff r then r\<lparr>rcp_status := RFailed, rcp_error_message := Some UNKNOWN_DELIVERY,
      rcp_sending_started_at := None\<rparr> else r"
  have rows: "recipients (fail_stale_sending j cutoff s) = map ?g (recipients s)"
    by (simp add: fail_stale_sending_def tbl_update_def)
  have g: "is_open (?g r) = is_open r" "rcp_id (?g r) = rcp_id r" "rcp_campaign_id (?g r) = rcp_campaign_id r" for r
    by (simp_all add: is_open_def is_stale_sending_def)
  show "open_ids i (fail_stale_sending j cutoff s) = open_ids i s"
    by (rule set_eqI) (simp only: open_ids_iff rows set_map bex_simps image_iff g)
  show "recipient_ids (fail_stale_sending j cutoff s) = recipient_ids s"
    by (simp add: recipient_ids_def rows comp_def g)
qed

lemma on_db_simps [simp]:
  "run_db (on_db f st) = f (run_db st)" "run_calls (on_db f st) = run_calls st" "run_tick (on_db f st) = run_tick st"
  "run_sent (on_db f st) = run_sent st" "run_failed (on_db f st) = run_failed st"
  by (simp_all add: on_db_def)

lemma refresh_simps [simp]:
  "run_db (refresh env st) = others env (run_tick st) (run_db st)" "run_calls (refresh env st) = run_calls st"
  "run_sent (refresh env st) = run_sent st" "run_failed (refresh env st) = run_failed st"
  by (simp_all add: refresh_def)

section \<open>One recipient\<close>

text \<open>A call is settled unless Meta answered with a transient error.\<close>

definition settled_call :: "call \<Rightarrow> bool" where
  "settled_call c \<longleftrightarrow> (case call_answer c of Refused exc \<Rightarrow> \<not> is_transient_meta_error exc | _ \<Rightarrow> True)"

lemma handle_answer_call:
  assumes "handle_answer env campaign wa template r contact to components st = (res, st')"
  shows "run_calls st' = run_calls st @ [\<lparr>call_to = to, call_template = tpl_name template,
     call_language = tpl_language template, call_components = components, call_recipient = r,
     call_contact = contact, call_campaign = campaign, call_answer = answer env (length (run_calls st))\<rparr>]"
  using assms by (simp add: handle_answer_def Let_def split: provider_reply.splits if_splits option.splits) (auto)

text \<open>What one row adds to the log and does to the open recipients: no call, and the recipient is closed; or one
  call, for the row, and the recipient is closed unless the answer was a transient error.\<close>

definition row_outcome :: "env \<Rightarrow> uuid \<Rightarrow> campaign \<Rightarrow> whatsapp_template \<Rightarrow> campaign_recipient \<times> contact \<Rightarrow> run \<Rightarrow> run \<Rightarrow> bool" where
  "row_outcome env i campaign template row st st' \<longleftrightarrow> recipient_ids (run_db st') = recipient_ids (run_db st) \<and>
     (run_calls st' = run_calls st \<and> open_ids i (run_db st') \<subseteq> open_ids i (run_db st) - {rcp_id (fst row)} \<or>
      (\<exists>call. run_calls st' = run_calls st @ [call] \<and> call_recipient call = fst row \<and> call_contact call = snd row
         \<and> call_to call = normalize_whatsapp_phone (Some (con_external_address (snd row))) (dial_code (snd row))
         \<and> call_to call \<noteq> [] \<and> call_template call = tpl_name template \<and> call_language call = tpl_language template
         \<and> call_campaign call = campaign \<and> call_answer call = answer env (length (run_calls st))
         \<and> (settled_call call \<longrightarrow> open_ids i (run_db st') \<subseteq> open_ids i (run_db st) - {rcp_id (fst row)})
         \<and> open_ids i (run_db st') \<subseteq> insert (rcp_id (fst row)) (open_ids i (run_db st))))"

lemma handle_answer_rows:
  assumes "handle_answer env campaign wa template r contact to components st = (res, st')"
    and "reply = answer env (length (run_calls st))"
  shows "recipient_ids (run_db st') = recipient_ids (run_db st) \<and>
    ((\<forall>exc. reply = Refused exc \<longrightarrow> \<not> is_transient_meta_error exc) \<longrightarrow> open_ids i (run_db st') \<subseteq> open_ids i (run_db st)) \<and>
    open_ids i (run_db st') \<subseteq> insert (rcp_id r) (open_ids i (run_db st))"
proof (cases reply)
  case Crash
  then show ?thesis using assms by (auto simp: handle_answer_def Let_def)
next
  case (Accepted e)
  then show ?thesis using assms by (cases e) (auto simp: handle_answer_def Let_def open_simps)
next
  case (Refused exc)
  then show ?thesis
    using assms open_ids_requeue [of i r "take 2000 (me_message exc)" "run_db st"]
    by (cases "is_transient_meta_error exc") (auto simp: handle_answer_def Let_def open_simps)
qed

lemma deliver_outcome:
  assumes "deliver env campaign wa template r contact st = (res, st')"
    and "rcp_id r \<notin> open_ids i (run_db st)" "res = None \<or> run_calls st' \<noteq> run_calls st"
  shows "row_outcome env i campaign template (r, contact) st st'"
proof (cases "components_of env (tpl_components template) (rcp_template_parameters r)")
  case (Inl e)
  then show ?thesis using assms by (simp add: deliver_def)
next
  case (Inr components)
  let ?to = "normalize_whatsapp_phone (Some (con_external_address contact)) (dial_code contact)"
  show ?thesis
  proof (cases "?to = []")
    case True
    then show ?thesis using assms Inr by (auto simp: deliver_def row_outcome_def Let_def open_simps)
  next
    case False
    then have h: "handle_answer env campaign wa template r contact ?to components st = (res, st')"
      using assms Inr by (simp add: deliver_def Let_def)
    show ?thesis
      using handle_answer_rows [OF h refl, of i] handle_answer_call [OF h] assms(2) False
      unfolding row_outcome_def settled_call_def
      by (intro conjI disjI2 exI) (auto split: provider_reply.splits)
  qed
qed

definition may_send :: "uuid \<Rightarrow> uuid \<Rightarrow> campaign \<Rightarrow> bool" where
  "may_send i tok campaign \<longleftrightarrow> cmp_id campaign = i \<and> cmp_execution_token campaign = Some tok
     \<and> cmp_status campaign \<noteq> PAUSED \<and> cmp_status campaign \<noteq> CANCELLED"

lemma process_row_cases:
  assumes "process_row env i tok wa template (r, contact) st = (res, st')"
  obtains (stopped) "res \<noteq> None" "run_calls st' = run_calls st"
  | (handled) campaign where "get_campaign_row (run_db (refresh env st)) i = Some campaign" "may_send i tok campaign"
      "run_calls st' \<noteq> run_calls st \<Longrightarrow> con_marketing_opt_in contact \<and> \<not> has_external_id r"
      "row_outcome env i campaign template (r, contact) (refresh env st) st'"
proof -
  let ?st1 = "refresh env st"
  show thesis
  proof (cases "get_campaign_row (run_db ?st1) i")
    case None
    then show thesis using assms stopped by (simp add: process_row_def Let_def del: refresh_simps) auto
  next
    case (Some campaign)
    let ?st2 = "commit ?st1" and ?now = "clock env (run_tick ?st1)"
    have id: "cmp_id campaign = i" using Some by (rule campaign_rows.get_key)
    consider (stop) "cmp_execution_token campaign \<noteq> Some tok \<or> cmp_status campaign \<in> {PAUSED, CANCELLED}"
      | (skip) "may_send i tok campaign" "\<not> con_marketing_opt_in contact"
      | (sent) "may_send i tok campaign" "con_marketing_opt_in contact" "has_external_id r"
      | (send) "may_send i tok campaign" "con_marketing_opt_in contact" "\<not> has_external_id r"
      using id by (auto simp: may_send_def)
    then show thesis
    proof cases
      case stop
      then show thesis using assms Some stopped by (auto simp: process_row_def Let_def open_simps)
    next
      case skip
      then have "res = None" "st' = on_db (skip_recipient ?now campaign r) ?st2"
        using assms Some by (auto simp: process_row_def Let_def may_send_def)
      then show thesis
        using skip Some by (intro handled [of campaign]) (auto simp: row_outcome_def open_simps)
    next
      case sent
      then have "res = None" "st' = (on_db (mark_already_sent ?now campaign r) ?st2)\<lparr>run_sent := Suc (run_sent ?st2)\<rparr>"
        using assms Some by (auto simp: process_row_def Let_def may_send_def)
      then show thesis
        using sent Some by (intro handled [of campaign]) (auto simp: row_outcome_def open_simps)
    next
      case send
      let ?st3 = "on_db (mark_sending ?now campaign r) ?st2"
      have d: "deliver env campaign wa template r contact ?st3 = (res, st')"
        using assms Some send by (auto simp: process_row_def Let_def may_send_def)
      show thesis
      proof (cases "res = None \<or> run_calls st' \<noteq> run_calls ?st3")
        case True
        have "row_outcome env i campaign template (r, contact) ?st3 st'"
          by (rule deliver_outcome [OF d _ True]) (simp add: open_simps)
        then have "row_outcome env i campaign template (r, contact) ?st1 st'"
          unfolding row_outcome_def by (auto simp: open_simps)
        then show thesis using send Some by (intro handled [of campaign]) auto
      next
        case False
        then show thesis by (intro stopped) (auto simp: open_simps)
      qed
    qed
  qed
qed

section \<open>The loop\<close>

text \<open>The state in which a pass of the loop selects its batch.\<close>

definition batch_state :: "env \<Rightarrow> uuid \<Rightarrow> run \<Rightarrow> run" where
  "batch_state env i st = (let st1 = refresh env st
     in on_db (fail_stale_sending i (clock env (run_tick st1) - minutes STALE_SENDING_MINUTES)) (commit st1))"

lemma batch_state_frames [open_simps]:
  "open_ids i (run_db (batch_state env j st)) = open_ids i (others env (run_tick st) (run_db st))"
  "recipient_ids (run_db (batch_state env j st)) = recipient_ids (others env (run_tick st) (run_db st))"
  "run_calls (batch_state env j st) = run_calls st"
  by (simp_all add: batch_state_def Let_def open_simps)

lemma batch_state_row: "get_campaign_row (run_db (batch_state env j st)) = get_campaign_row (others env (run_tick st) (run_db st))"
  by (auto simp: batch_state_def Let_def fail_stale_sending_def commit_def update_recipient_def get_campaign_row_def refresh_def on_db_def
      fun_eq_iff split: option.splits)

lemma run_loop_pass:
  assumes "get_campaign_row (run_db (refresh env st)) i = Some c" "may_send i tok c"
    and "rows = select_batch (locked_rows env (run_tick (batch_state env i st))) batch i (run_db (batch_state env i st))"
  shows "run_loop (Suc fuel) env batch i tok wa template st =
    (if rows = [] then map_prod Some id (finish_campaign env i (batch_state env i st))
     else (case process_rows env i tok wa template rows (batch_state env i st) of
         (Some res, st') \<Rightarrow> (Some res, st')
       | (None, st') \<Rightarrow> run_loop fuel env batch i tok wa template st'))"
  using assms by (simp add: batch_state_def Let_def may_send_def del: refresh_simps)

text \<open>
  An assertion about a run: \<open>Inv rows\<close> holds while \<open>rows\<close> remain of the current batch, \<open>Post\<close> at the end.  What the
  loop, whose rows come from \<open>process_row\<close>, must respect is stated once per step.
\<close>

locale run_invariant =
  fixes env :: env and i tok :: uuid and batch :: nat and wa :: whatsapp_account and template :: whatsapp_template
    and Inv :: "(campaign_recipient \<times> contact) list \<Rightarrow> run \<Rightarrow> bool" and Post :: "run_result option \<Rightarrow> run \<Rightarrow> bool"
  assumes out_of_fuel: "Inv [] st \<Longrightarrow> Post None st"
    and given_up: "Inv [] st \<Longrightarrow> res \<in> {Superseded, Raised} \<or> (\<exists>c n m. res = Stopped c n m) \<Longrightarrow> Post (Some res) (refresh env st)"
    and next_batch: "Inv [] st \<Longrightarrow> get_campaign_row (run_db (refresh env st)) i = Some c \<Longrightarrow> may_send i tok c \<Longrightarrow>
      Inv (select_batch locked batch i (run_db (batch_state env i st))) (batch_state env i st)"
    and next_row: "Inv (row # rows) st \<Longrightarrow> process_row env i tok wa template row st = (None, st') \<Longrightarrow> Inv rows st'"
    and row_stops: "Inv (row # rows) st \<Longrightarrow> process_row env i tok wa template row st = (Some res, st') \<Longrightarrow> Post (Some res) st'"
    and nothing_left: "Inv [] st \<Longrightarrow> get_campaign_row (run_db st) i \<noteq> None \<Longrightarrow> select_batch (locked_rows env (run_tick st)) batch i (run_db st) = [] \<Longrightarrow>
      Post (Some (fst (finish_campaign env i st))) (snd (finish_campaign env i st))"
begin

lemma rows_preserve:
  assumes "Inv rows st" "process_rows env i tok wa template rows st = (res, st')"
  shows "(case res of None \<Rightarrow> Inv [] st' | Some _ \<Rightarrow> Post res st')"
  using assms
proof (induction rows arbitrary: st)
  case (Cons row rows)
  obtain res1 st1 where r: "process_row env i tok wa template row st = (res1, st1)" by force
  show ?case
  proof (cases res1)
    case None
    with r Cons.prems(2) have "process_rows env i tok wa template rows st1 = (res, st')" by simp
    then show ?thesis using Cons.IH [OF next_row [OF Cons.prems(1)]] r None by blast
  next
    case (Some e)
    then show ?thesis using row_stops [OF Cons.prems(1), of e st1] r Cons.prems(2) by auto
  qed
qed auto

theorem loop_ends_in_post:
  assumes "Inv [] st" "run_loop fuel env batch i tok wa template st = (res, st')"
  shows "Post res st'"
  using assms
proof (induction fuel arbitrary: st)
  case 0
  then show ?case by (simp add: out_of_fuel)
next
  case (Suc fuel)
  show ?case
  proof (cases "get_campaign_row (run_db (refresh env st)) i")
    case None
    then show ?thesis using Suc.prems given_up by (auto simp: Let_def simp del: refresh_simps)
  next
    case (Some c)
    have id: "cmp_id c = i" using Some by (rule campaign_rows.get_key)
    show ?thesis
    proof (cases "may_send i tok c")
      case False
      then show ?thesis
        using Suc.prems Some id given_up
        by (auto simp: Let_def may_send_def simp del: refresh_simps split: if_splits)
    next
      case True
      let ?st2 = "batch_state env i st"
      let ?rows = "select_batch (locked_rows env (run_tick ?st2)) batch i (run_db ?st2)"
      have inv: "Inv ?rows ?st2" by (rule next_batch [OF Suc.prems(1) Some True])
      note loop = run_loop_pass [OF Some True refl]
      show ?thesis
      proof (cases "?rows = []")
        case True
        then have "Inv [] ?st2" using inv by (simp only: True)
        from nothing_left [OF this _ True] show ?thesis
          using Suc.prems(2) True Some unfolding loop by (cases "finish_campaign env i ?st2") (auto simp: batch_state_row)
      next
        case False
        obtain res3 st3 where r: "process_rows env i tok wa template ?rows ?st2 = (res3, st3)" by force
        show ?thesis
          using rows_preserve [OF inv r] Suc.prems(2) False r Suc.IH unfolding loop by (cases res3) auto
      qed
    qed
  qed
qed

end

section \<open>Meta is called only for whom it may be\<close>

definition guarded_row :: "uuid \<Rightarrow> campaign_recipient \<Rightarrow> contact \<Rightarrow> bool" where
  "guarded_row i r c \<longleftrightarrow> rcp_campaign_id r = i \<and> is_open r \<and> con_id c = rcp_contact_id r \<and> con_deleted_at c = None"

definition guarded_call :: "uuid \<Rightarrow> uuid \<Rightarrow> call \<Rightarrow> bool" where
  "guarded_call i tok call \<longleftrightarrow> guarded_row i (call_recipient call) (call_contact call)
     \<and> con_marketing_opt_in (call_contact call) \<and> \<not> has_external_id (call_recipient call)
     \<and> call_to call = normalize_whatsapp_phone (Some (con_external_address (call_contact call))) (dial_code (call_contact call))
     \<and> call_to call \<noteq> [] \<and> may_send i tok (call_campaign call)"

lemma select_batch_guarded: "\<forall>(r, c) \<in> set (select_batch locked n i s). guarded_row i r c \<and> rcp_id r \<in> open_ids i s"
proof -
  have "guarded_row i r c \<and> rcp_id r \<in> open_ids i s" if "(r, c) \<in> set (select_batch locked n i s)" for r c
  proof -
    from that obtain q where "q \<in> set (recipients s)" "sendable s i q = Some (r, c)"
      by (auto simp: select_batch_def set_map_filter dest!: in_set_takeD)
    then show ?thesis
      by (auto simp: sendable_def guarded_row_def open_ids_iff contact_rows.get_key split: if_splits option.splits)
  qed
  then show ?thesis by blast
qed

definition calls_guarded :: "uuid \<Rightarrow> uuid \<Rightarrow> (campaign_recipient \<times> contact) list \<Rightarrow> run \<Rightarrow> bool" where
  "calls_guarded i tok rows st \<longleftrightarrow> (\<forall>(r, c) \<in> set rows. guarded_row i r c) \<and> (\<forall>call \<in> set (run_calls st). guarded_call i tok call)"

lemma calls_guarded_row:
  assumes "calls_guarded i tok (row # rows) st" "process_row env i tok wa template row st = (res, st')"
  shows "calls_guarded i tok rows st'"
proof -
  obtain r c where row: "row = (r, c)" by force
  show ?thesis
    using assms(2) unfolding row
  proof (cases rule: process_row_cases)
    case stopped
    then show ?thesis using assms(1) by (simp add: calls_guarded_def)
  next
    case (handled campaign)
    have g: "guarded_row i r c" using assms(1) row by (simp add: calls_guarded_def)
    from handled(4) consider "run_calls st' = run_calls st"
      | call where "run_calls st' = run_calls st @ [call]" "call_recipient call = r" "call_contact call = c"
        "call_to call = normalize_whatsapp_phone (Some (con_external_address c)) (dial_code c)" "call_to call \<noteq> []"
        "call_campaign call = campaign"
      unfolding row_outcome_def by auto
    then show ?thesis
    proof cases
      case 1
      then show ?thesis using assms(1) by (simp add: calls_guarded_def)
    next
      case 2
      then have "guarded_call i tok call" using g handled(2,3) by (simp add: guarded_call_def)
      then show ?thesis using assms(1) 2 by (simp add: calls_guarded_def)
    qed
  qed
qed

lemma calls_guarded_frame:
  "calls_guarded i tok rows st \<Longrightarrow> run_calls st' = run_calls st \<Longrightarrow> calls_guarded i tok [] st'"
  by (simp add: calls_guarded_def)

lemma finish_calls [simp]: "run_calls (snd (finish_campaign env i st)) = run_calls st"
  by (simp add: finish_campaign_def Let_def open_simps)

lemma calls_guarded_batch:
  assumes "calls_guarded i tok [] st"
  shows "calls_guarded i tok (select_batch locked batch i (run_db (batch_state env i st))) (batch_state env i st)"
  using assms select_batch_guarded [of locked batch i] by (fastforce simp: calls_guarded_def batch_state_frames)

interpretation call_guards: run_invariant env i tok batch wa template
    "calls_guarded i tok" "\<lambda>_ st. calls_guarded i tok [] st"
  for env i tok batch wa template
  by unfold_locales (blast intro: calls_guarded_row calls_guarded_batch calls_guarded_frame refresh_simps(2) finish_calls)+

text \<open>A run either ends before the loop, without a call, or it is the loop for a campaign that passed the checks.\<close>

lemma run_campaign_cases:
  assumes "run_campaign fuel env i tok s = (res, st)"
  obtains (refused) e where "res = Some e" "run_calls st = []"
      "e \<in> {NotFound, StaleTask, ApprovalRequired, AlreadyCancelled, MissingConfiguration}"
  | (started) c c' wa template batch where "get_campaign_row s i = Some c" "cmp_execution_token c = Some tok"
      "cmp_requires_approval c \<longrightarrow> cmp_approved_at c \<noteq> None" "cmp_status c \<noteq> CANCELLED"
      "batch > 0" "cmp_id c' = i"
      "run_loop fuel env batch i tok wa template (on_db (put_campaign c') (start_run env s)) = (res, st)"
proof -
  show thesis
  proof (cases "get_campaign_row s i")
    case None
    then show thesis using assms refused by (auto simp: run_campaign_def start_run_def)
  next
    case (Some c)
    have id: "cmp_id c = i" using Some by (rule campaign_rows.get_key)
    consider (bad) "cmp_execution_token c \<noteq> Some tok \<or> (cmp_requires_approval c \<and> cmp_approved_at c = None) \<or> cmp_status c = CANCELLED"
      | (conf) "get_whatsapp_account s (cmp_whatsapp_account_id c) = None \<or> get_template s (cmp_template_id c) = None"
        "cmp_execution_token c = Some tok" "cmp_requires_approval c \<longrightarrow> cmp_approved_at c \<noteq> None" "cmp_status c \<noteq> CANCELLED"
      | (good) wa template where "get_whatsapp_account s (cmp_whatsapp_account_id c) = Some wa" "get_template s (cmp_template_id c) = Some template"
        "cmp_execution_token c = Some tok" "cmp_requires_approval c \<longrightarrow> cmp_approved_at c \<noteq> None" "cmp_status c \<noteq> CANCELLED"
      by (cases "get_whatsapp_account s (cmp_whatsapp_account_id c)"; cases "get_template s (cmp_template_id c)"; blast)
    then show thesis
    proof cases
      case bad
      then have "res \<in> Some ` {StaleTask, ApprovalRequired, AlreadyCancelled} \<and> run_calls st = []"
        using assms Some by (simp add: run_campaign_def start_run_def Let_def split: if_splits) auto
      then show thesis by (auto intro: refused)
    next
      case conf
      have "res = Some MissingConfiguration" "run_calls st = []"
        using assms Some conf by (auto simp: run_campaign_def start_run_def Let_def split: option.splits)
      then show thesis by (auto intro: refused)
    next
      case good
      then show thesis
        using assms Some id by (intro started) (auto simp: run_campaign_def Let_def split: if_splits)
    qed
  qed
qed

text \<open>C1. Whoever Meta is called for may be sent to: in any run, with anything happening in the meantime, every call is
  for an open recipient of this campaign that has no message id yet, whose contact is the recipient's, not
  deleted and opted in, to the non-empty normalized number of that contact; at the last look before the
  call, the campaign carried the token of this run and was neither paused nor cancelled; and the run had found the campaign
  approved, where approval is required, under its token and not cancelled.\<close>

theorem calls_are_guarded:
  assumes "run_campaign fuel env i tok s = (res, st)" "call \<in> set (run_calls st)"
  shows "guarded_call i tok call \<and> (\<exists>c. get_campaign_row s i = Some c \<and> cmp_execution_token c = Some tok
     \<and> (cmp_requires_approval c \<longrightarrow> cmp_approved_at c \<noteq> None) \<and> cmp_status c \<noteq> CANCELLED)"
  using assms(1)
proof (cases rule: run_campaign_cases)
  case (started c c' wa template batch)
  have "calls_guarded i tok [] (on_db (put_campaign c') (start_run env s))"
    by (simp add: calls_guarded_def start_run_def)
  from call_guards.loop_ends_in_post [OF this started(7)] assms(2) show ?thesis
    using started(1-4) by (auto simp: calls_guarded_def)
qed (use assms(2) in simp)

section \<open>One settled call per recipient\<close>

text \<open>
  What a run needs of the other transactions: while the campaign keeps the token of the run, they neither
  open a recipient of the campaign nor add one, and ids stay unique.  In the code the recipients of
  a campaign are all added before it starts, and \<open>retry_failed_campaign_recipients\<close>, which opens them, sets a new token.
\<close>

definition no_reopening :: "env \<Rightarrow> uuid \<Rightarrow> uuid \<Rightarrow> bool" where
  "no_reopening env i tok \<longleftrightarrow> (\<forall>n s c. get_campaign_row (others env n s) i = Some c \<and> cmp_execution_token c = Some tok \<longrightarrow>
     open_ids i (others env n s) \<subseteq> open_ids i s \<and> (distinct (recipient_ids s) \<longrightarrow> distinct (recipient_ids (others env n s))))"

definition settled_ids :: "run \<Rightarrow> uuid list" where
  "settled_ids st = map (\<lambda>call. rcp_id (call_recipient call)) (filter settled_call (run_calls st))"

definition row_ids :: "(campaign_recipient \<times> contact) list \<Rightarrow> uuid list" where
  "row_ids rows = map (\<lambda>row. rcp_id (fst row)) rows"

definition settled_once :: "env \<Rightarrow> uuid \<Rightarrow> uuid \<Rightarrow> (campaign_recipient \<times> contact) list \<Rightarrow> run \<Rightarrow> bool" where
  "settled_once env i tok rows st \<longleftrightarrow> (no_reopening env i tok \<longrightarrow> distinct (recipient_ids (run_db st)) \<and>
     distinct (settled_ids st) \<and> set (settled_ids st) \<inter> open_ids i (run_db st) = {} \<and>
     distinct (row_ids rows) \<and> set (settled_ids st) \<inter> set (row_ids rows) = {})"

lemma select_batch_row_ids:
  assumes "distinct (recipient_ids s)"
  shows "distinct (row_ids (select_batch locked n i s))" "set (row_ids (select_batch locked n i s)) \<subseteq> open_ids i s"
proof -
  let ?rs = "filter (\<lambda>r. sendable s i r \<noteq> None) (filter (\<lambda>r. \<not> locked (rcp_id r)) (recipients s))"
  have sub: "map (\<lambda>row. rcp_id (fst row)) (List.map_filter (sendable s i) rs) = map rcp_id (filter (\<lambda>r. sendable s i r \<noteq> None) rs)" for rs
    by (induction rs) (auto simp: List.map_filter_simps sendable_def split: option.splits)
  have rows: "row_ids (select_batch locked n i s) = take n (map rcp_id ?rs)"
    by (simp only: select_batch_def row_ids_def take_map [symmetric] sub)
  have "distinct (map rcp_id ?rs)"
    using assms by (simp add: recipient_ids_def distinct_map inj_on_def)
  then show "distinct (row_ids (select_batch locked n i s))" unfolding rows by (rule distinct_take)
  show "set (row_ids (select_batch locked n i s)) \<subseteq> open_ids i s"
    using select_batch_guarded [of locked n i s] by (fastforce simp: row_ids_def)
qed

lemma refreshed_rows:
  assumes "no_reopening env i tok" "get_campaign_row (run_db (refresh env st)) i = Some c" "may_send i tok c"
  shows "open_ids i (run_db (refresh env st)) \<subseteq> open_ids i (run_db st)"
    "distinct (recipient_ids (run_db st)) \<Longrightarrow> distinct (recipient_ids (run_db (refresh env st)))"
  using assms unfolding no_reopening_def may_send_def refresh_simps by blast+

lemma settled_once_row:
  assumes inv: "settled_once env i tok (row # rows) st" and row: "process_row env i tok wa template row st = (res, st')"
    and env: "no_reopening env i tok"
  shows "distinct (settled_ids st') \<and> (res = None \<longrightarrow> settled_once env i tok rows st')"
proof -
  obtain r c where rc: "row = (r, c)" by force
  have facts: "distinct (recipient_ids (run_db st))" "distinct (settled_ids st)" "set (settled_ids st) \<inter> open_ids i (run_db st) = {}"
    "rcp_id r \<notin> set (row_ids rows)" "distinct (row_ids rows)" "rcp_id r \<notin> set (settled_ids st)"
    "set (settled_ids st) \<inter> set (row_ids rows) = {}"
    using inv env rc by (simp_all add: settled_once_def row_ids_def)
  show ?thesis
    using row unfolding rc
  proof (cases rule: process_row_cases)
    case stopped
    then have "settled_ids st' = settled_ids st" by (simp add: settled_ids_def)
    then show ?thesis using facts(2) stopped(1) by auto
  next
    case (handled campaign)
    note fresh = refreshed_rows [OF env handled(1,2)]
    have ids: "distinct (recipient_ids (run_db st'))"
      using handled(4) fresh(2) [OF facts(1)] by (simp add: row_outcome_def)
    from handled(4) consider (none) "run_calls st' = run_calls st" "open_ids i (run_db st') \<subseteq> open_ids i (run_db (refresh env st))"
      | (settled) call where "run_calls st' = run_calls st @ [call]" "call_recipient call = r" "settled_call call"
        "open_ids i (run_db st') \<subseteq> open_ids i (run_db (refresh env st)) - {rcp_id r}"
      | (retry) call where "run_calls st' = run_calls st @ [call]" "\<not> settled_call call"
        "open_ids i (run_db st') \<subseteq> insert (rcp_id r) (open_ids i (run_db (refresh env st)))"
      unfolding row_outcome_def by (auto simp del: refresh_simps(1))
    then show ?thesis
    proof cases
      case none
      then have "settled_ids st' = settled_ids st" by (simp add: settled_ids_def)
      then show ?thesis using facts ids none(2) fresh(1) unfolding settled_once_def by auto
    next
      case settled
      then have "settled_ids st' = settled_ids st @ [rcp_id r]" by (simp add: settled_ids_def)
      then show ?thesis using facts ids settled(4) fresh(1) unfolding settled_once_def by auto
    next
      case retry
      then have "settled_ids st' = settled_ids st" by (simp add: settled_ids_def)
      then show ?thesis using facts ids retry(3) fresh(1) unfolding settled_once_def by auto
    qed
  qed
qed

lemma settled_once_batch:
  assumes inv: "settled_once env i tok [] st" and c: "get_campaign_row (run_db (refresh env st)) i = Some c" "may_send i tok c"
  shows "settled_once env i tok (select_batch locked batch i (run_db (batch_state env i st))) (batch_state env i st)"
  unfolding settled_once_def
proof
  assume env: "no_reopening env i tok"
  let ?s2 = "run_db (batch_state env i st)"
  note fresh = refreshed_rows [OF env c]
  have ids: "distinct (recipient_ids ?s2)"
    using inv env fresh(2) by (simp add: settled_once_def open_simps)
  have settled: "settled_ids (batch_state env i st) = settled_ids st" by (simp add: settled_ids_def open_simps)
  have disj: "set (settled_ids st) \<inter> open_ids i ?s2 = {}"
    using inv env fresh(1) by (auto simp: settled_once_def open_simps)
  show "distinct (recipient_ids ?s2) \<and> distinct (settled_ids (batch_state env i st)) \<and>
     set (settled_ids (batch_state env i st)) \<inter> open_ids i ?s2 = {} \<and>
     distinct (row_ids (select_batch locked batch i ?s2)) \<and>
     set (settled_ids (batch_state env i st)) \<inter> set (row_ids (select_batch locked batch i ?s2)) = {}"
    using ids disj inv env select_batch_row_ids [OF ids, of locked batch i] unfolding settled settled_once_def by blast
qed

lemma settled_ids_frame: "run_calls st' = run_calls st \<Longrightarrow> settled_ids st' = settled_ids st"
  by (simp add: settled_ids_def)

interpretation settled_calls: run_invariant env i tok batch wa template
    "settled_once env i tok" "\<lambda>_ st. no_reopening env i tok \<longrightarrow> distinct (settled_ids st)"
  for env i tok batch wa template
proof unfold_locales
  fix st :: run and locked c
  assume "settled_once env i tok [] st" "get_campaign_row (run_db (refresh env st)) i = Some c" "may_send i tok c"
  then show "settled_once env i tok (select_batch locked batch i (run_db (batch_state env i st))) (batch_state env i st)"
    by (rule settled_once_batch)
next
  fix row rows and st st' :: run
  assume "settled_once env i tok (row # rows) st" "process_row env i tok wa template row st = (None, st')"
  then show "settled_once env i tok rows st'"
    using settled_once_row [of env i tok row rows st wa template None st'] by (auto simp: settled_once_def)
next
  fix row rows and st st' :: run and res
  assume "settled_once env i tok (row # rows) st" "process_row env i tok wa template row st = (Some res, st')"
  then show "no_reopening env i tok \<longrightarrow> distinct (settled_ids st')"
    using settled_once_row [of env i tok row rows st wa template "Some res" st'] by blast
qed (auto simp: settled_once_def settled_ids_def)

text \<open>C2. At most one settled call per recipient: within a run, after Meta has accepted a message or refused it for good (or
  the call crashed), no second call is made for that recipient; only a transient error is followed by another
  try.  Other transactions may do anything that does not open or add recipients of the campaign under
  the same token.\<close>

theorem one_settled_call_per_recipient:
  assumes "run_campaign fuel env i tok s = (res, st)" "no_reopening env i tok" "distinct (map rcp_id (recipients s))"
  shows "distinct (map (\<lambda>call. rcp_id (call_recipient call)) (filter settled_call (run_calls st)))"
  using assms(1)
proof (cases rule: run_campaign_cases)
  case (started c c' wa template batch)
  have "settled_once env i tok [] (on_db (put_campaign c') (start_run env s))"
    using assms(3) by (simp add: settled_once_def start_run_def settled_ids_def row_ids_def recipient_ids_def)
  from settled_calls.loop_ends_in_post [OF this started(7)] assms(2) show ?thesis by (simp add: settled_ids_def)
qed simp

section \<open>A run ends\<close>

definition no_transient_errors :: "env \<Rightarrow> bool" where
  "no_transient_errors env \<longleftrightarrow> (\<forall>n exc. answer env n = Refused exc \<longrightarrow> \<not> is_transient_meta_error exc)"

lemma row_closes:
  assumes "process_row env i tok wa template row st = (None, st')" "no_reopening env i tok" "no_transient_errors env"
  shows "open_ids i (run_db st') \<subseteq> open_ids i (run_db st) - {rcp_id (fst row)}"
proof -
  obtain r c where rc: "row = (r, c)" by force
  have p: "process_row env i tok wa template (r, c) st = (None, st')" using assms(1) rc by simp
  then show ?thesis
  proof (cases rule: process_row_cases)
    case (handled campaign)
    have "settled_call call" if "call_answer call = answer env n" for call n
      using assms(3) that by (auto simp: settled_call_def no_transient_errors_def split: provider_reply.splits)
    then have "open_ids i (run_db st') \<subseteq> open_ids i (run_db (refresh env st)) - {rcp_id r}"
      using handled(4) unfolding row_outcome_def fst_conv by blast
    then show ?thesis
      using refreshed_rows(1) [OF assms(2) handled(1,2)] rc by (auto simp del: refresh_simps(1))
  qed simp
qed

lemma rows_close:
  assumes "process_rows env i tok wa template rows st = (None, st')" "no_reopening env i tok" "no_transient_errors env"
  shows "open_ids i (run_db st') \<subseteq> open_ids i (run_db st) - set (row_ids rows)"
  using assms(1)
proof (induction rows arbitrary: st)
  case (Cons row rows)
  then obtain st1 where r: "process_row env i tok wa template row st = (None, st1)"
    and rs: "process_rows env i tok wa template rows st1 = (None, st')"
    by (auto split: prod.splits option.splits)
  show ?case using row_closes [OF r assms(2,3)] Cons.IH [OF rs] by (auto simp: row_ids_def)
qed (simp add: row_ids_def)

lemma strictly_fewer:
  fixes A B C D :: "'a set"
  assumes "A \<noteq> {}" "A \<subseteq> B" "C \<subseteq> B - A" "B \<subseteq> D"
  shows "C \<subset> D"
  using assms by blast

lemma run_loop_ends:
  assumes "no_reopening env i tok" "no_transient_errors env" "card (open_ids i (run_db st)) < fuel"
  shows "fst (run_loop fuel env batch i tok wa template st) \<noteq> None"
  using assms(3)
proof (induction fuel arbitrary: st)
  case (Suc fuel)
  show ?case
  proof (cases "\<exists>c. get_campaign_row (run_db (refresh env st)) i = Some c \<and> may_send i tok c")
    case False
    then show ?thesis
      by (auto simp: Let_def may_send_def campaign_rows.get_key simp del: refresh_simps split: option.splits)
  next
    case True
    then obtain c where c: "get_campaign_row (run_db (refresh env st)) i = Some c" "may_send i tok c" by blast
    let ?st2 = "batch_state env i st"
    let ?rows = "select_batch (locked_rows env (run_tick ?st2)) batch i (run_db ?st2)"
    obtain res3 st3 where r: "process_rows env i tok wa template ?rows ?st2 = (res3, st3)" by force
    note loop = run_loop_pass [OF c refl, where batch = batch and fuel = fuel and wa = wa and template = template]
    have sub: "open_ids i (run_db ?st2) \<subseteq> open_ids i (run_db st)"
      using refreshed_rows(1) [OF assms(1) c] by (simp add: open_simps)
    show ?thesis
    proof (cases "?rows = [] \<or> res3 \<noteq> None")
      case True
      then show ?thesis using r unfolding loop by (cases "?rows = []") auto
    next
      case False
      then have rows: "?rows \<noteq> []" and none: "res3 = None" by auto
      have "set (row_ids ?rows) \<noteq> {}" using rows by (simp add: row_ids_def)
      moreover have "set (row_ids ?rows) \<subseteq> open_ids i (run_db ?st2)"
        using select_batch_guarded [of _ batch i "run_db ?st2"] by (fastforce simp: row_ids_def)
      moreover have "open_ids i (run_db st3) \<subseteq> open_ids i (run_db ?st2) - set (row_ids ?rows)"
        by (rule rows_close [OF r [unfolded none] assms(1,2)])
      ultimately have "open_ids i (run_db st3) \<subset> open_ids i (run_db st)"
        by (rule strictly_fewer [OF _ _ _ sub])
      then have "card (open_ids i (run_db st3)) < card (open_ids i (run_db st))" by (rule psubset_card_mono [OF finite_open_ids])
      with Suc.prems have "card (open_ids i (run_db st3)) < fuel" by simp
      from Suc.IH [OF this] show ?thesis
        by (simp only: loop rows r none if_False prod.case option.case not_False_eq_True)
    qed
  qed
qed simp

text \<open>C3. A run comes to an end: as long as Meta answers no call with a transient error and nobody opens or adds recipients
  under the token of the run, one pass of the loop more than there are open recipients is enough, whatever
  else other transactions do.\<close>

theorem run_terminates:
  assumes "no_reopening env i tok" "no_transient_errors env"
    and "length (filter (\<lambda>r. rcp_campaign_id r = i \<and> is_open r) (recipients s)) < fuel"
  shows "\<exists>e st. run_campaign fuel env i tok s = (Some e, st)"
proof -
  obtain res st where run: "run_campaign fuel env i tok s = (res, st)" by force
  have "card (open_ids i s) < fuel"
    using assms(3) card_image_le [of "set (filter (\<lambda>r. rcp_campaign_id r = i \<and> is_open r) (recipients s))" rcp_id]
      card_length [of "filter (\<lambda>r. rcp_campaign_id r = i \<and> is_open r) (recipients s)"] by (simp add: open_ids_def)
  have "res \<noteq> None"
    using run
  proof (cases rule: run_campaign_cases)
    case (started c c' wa template batch)
    have "card (open_ids i (run_db (on_db (put_campaign c') (start_run env s)))) < fuel"
      using \<open>card (open_ids i s) < fuel\<close> by (simp add: start_run_def open_ids_def)
    from run_loop_ends [OF assms(1,2) this] started(7) show ?thesis by (metis fst_conv)
  qed simp
  then show ?thesis using run by auto
qed

section \<open>What a finished run leaves\<close>

lemma process_row_result:
  assumes "process_row env i tok wa template row st = (Some res, st')"
  shows "res = Raised \<or> (\<exists>c n m. res = Stopped c n m)"
proof (cases "get_campaign_row (run_db (refresh env st)) i")
  case None
  then show ?thesis using assms by (auto simp: process_row_def Let_def simp del: refresh_simps split: prod.splits)
next
  case (Some campaign)
  then show ?thesis
    using assms
    by (auto simp: process_row_def deliver_def handle_answer_def Let_def
        split: prod.splits if_splits sum.splits provider_reply.splits)
qed

definition nothing_sendable :: "env \<Rightarrow> uuid \<Rightarrow> db \<Rightarrow> bool" where
  "nothing_sendable env i s \<longleftrightarrow> (\<forall>r \<in> set (recipients s). rcp_campaign_id r = i \<and> is_open r \<longrightarrow>
     (\<exists>n. locked_rows env n (rcp_id r)) \<or> (\<forall>c. get_contact_row s (rcp_contact_id r) = Some c \<longrightarrow> con_deleted_at c \<noteq> None))"

definition finished_state :: "env \<Rightarrow> uuid \<Rightarrow> run_result option \<Rightarrow> run \<Rightarrow> bool" where
  "finished_state env i res st \<longleftrightarrow> (\<forall>status sent failed limited. res = Some (Finished status sent failed limited) \<longrightarrow>
     status = (if failed = 0 then COMPLETED else COMPLETED_WITH_ERRORS) \<and>
     (\<exists>c. get_campaign_row (run_db st) i = Some c \<and> cmp_status c = status \<and> cmp_active_task_id c = None \<and> cmp_completed_at c \<noteq> None) \<and>
     nothing_sendable env i (run_db st))"

lemma commit_recipients:
  assumes "r \<in> set (recipients (run_db (commit st)))"
  shows "\<exists>q \<in> set (recipients (run_db st)). rcp_id q = rcp_id r \<and> rcp_campaign_id q = rcp_campaign_id r
    \<and> is_open q = is_open r \<and> rcp_contact_id q = rcp_contact_id r"
  using assms by (auto simp: commit_def update_recipient_def tbl_update_def is_open_def split: option.splits if_splits)

lemma commit_other_rows [simp]:
  "campaigns (run_db (commit st)) = campaigns (run_db st)" "contacts (run_db (commit st)) = contacts (run_db st)"
  by (simp_all add: commit_def update_recipient_def split: option.splits)

lemma empty_batch:
  assumes "select_batch (locked_rows env t) batch i s = []" "batch > 0"
  shows "nothing_sendable env i s"
proof -
  have sel: "sendable s i r = None" if "r \<in> set (recipients s)" "\<not> locked_rows env t (rcp_id r)" for r
  proof (rule ccontr)
    assume "sendable s i r \<noteq> None"
    then have "set (List.map_filter (sendable s i) (filter (\<lambda>r. \<not> locked_rows env t (rcp_id r)) (recipients s))) \<noteq> {}"
      using that by (auto simp: set_map_filter)
    then show False using assms by (auto simp: select_batch_def)
  qed
  have dead: "locked_rows env t (rcp_id r) \<or> sendable s i r = None" if "r \<in> set (recipients s)" for r
    using sel [OF that] by (cases "locked_rows env t (rcp_id r)") simp_all
  show ?thesis
    unfolding nothing_sendable_def
  proof (intro ballI impI)
    fix r assume r: "r \<in> set (recipients s)" "rcp_campaign_id r = i \<and> is_open r"
    then have "con_deleted_at c \<noteq> None" if "sendable s i r = None" "get_contact_row s (rcp_contact_id r) = Some c" for c
      using that by (simp add: sendable_def split: if_splits)
    then show "(\<exists>n. locked_rows env n (rcp_id r)) \<or> (\<forall>c. get_contact_row s (rcp_contact_id r) = Some c \<longrightarrow> con_deleted_at c \<noteq> None)"
      using dead [OF r(1)] by blast
  qed
qed

lemma nothing_sendable_commit:
  assumes "nothing_sendable env i (run_db st)"
  shows "nothing_sendable env i (run_db (commit st))"
  unfolding nothing_sendable_def
proof (intro ballI impI)
  fix r assume r: "r \<in> set (recipients (run_db (commit st)))" "rcp_campaign_id r = i \<and> is_open r"
  obtain q where "q \<in> set (recipients (run_db st))" "rcp_id q = rcp_id r" "rcp_campaign_id q = i" "is_open q"
    "rcp_contact_id q = rcp_contact_id r" using commit_recipients [OF r(1)] r(2) by auto
  then show "(\<exists>n. locked_rows env n (rcp_id r)) \<or>
      (\<forall>c. get_contact_row (run_db (commit st)) (rcp_contact_id r) = Some c \<longrightarrow> con_deleted_at c \<noteq> None)"
    using assms unfolding nothing_sendable_def get_contact_row_def commit_other_rows by metis
qed

lemma finish_state:
  assumes "get_campaign_row (run_db st) i \<noteq> None" "select_batch (locked_rows env (run_tick st)) batch i (run_db st) = []" "batch > 0"
  shows "finished_state env i (Some (fst (finish_campaign env i st))) (snd (finish_campaign env i st))"
proof -
  let ?status = "if run_failed st = 0 then COMPLETED else COMPLETED_WITH_ERRORS"
  let ?f = "\<lambda>c. c\<lparr>cmp_status := ?status, cmp_completed_at := Some (clock env (run_tick st)), cmp_active_task_id := None\<rparr>"
  let ?st = "on_db (update_campaign i ?f) st"
  obtain c where c: "get_campaign_row (run_db st) i = Some c" using assms(1) by blast
  have "get_campaign_row (run_db (commit ?st)) i = Some (?f c)"
    using c tbl_get_update [of cmp_id ?f "\<lambda>c. cmp_id c = i" "campaigns (run_db st)" i] campaign_rows.get_key [OF c]
    by (simp add: get_campaign_row_def)
  moreover have "nothing_sendable env i (run_db ?st)"
    using empty_batch [OF assms(2,3)] by (simp add: nothing_sendable_def get_contact_row_def update_campaign_def)
  ultimately show ?thesis
    using nothing_sendable_commit [of env i ?st] unfolding finished_state_def finish_campaign_def Let_def by simp
qed

interpretation finished_runs: run_invariant env i tok "Suc n" wa template "\<lambda>_ _. True" "finished_state env i"
  for env i tok n wa template
  by unfold_locales (use finish_state in \<open>auto simp: finished_state_def dest!: process_row_result\<close>)

text \<open>C4. A run that reports that it finished has done its work: the campaign is completed, without errors exactly when the
  run counted no failure, and no task is active; every open recipient that is left has no live contact or was locked by
  somebody else.\<close>

theorem finished_run_complete:
  assumes "run_campaign fuel env i tok s = (Some (Finished status sent failed limited), st)"
  shows "status = (if failed = 0 then COMPLETED else COMPLETED_WITH_ERRORS)
    \<and> (\<exists>c. get_campaign_row (run_db st) i = Some c \<and> cmp_status c = status \<and> cmp_active_task_id c = None \<and> cmp_completed_at c \<noteq> None)
    \<and> (\<forall>r \<in> set (recipients (run_db st)). rcp_campaign_id r = i \<and> is_open r \<longrightarrow> (\<exists>n. locked_rows env n (rcp_id r))
         \<or> (\<forall>c. get_contact_row (run_db st) (rcp_contact_id r) = Some c \<longrightarrow> con_deleted_at c \<noteq> None))"
  using assms
proof (cases rule: run_campaign_cases)
  case (started c c' wa template batch)
  then obtain n where "batch = Suc n" by (cases batch) auto
  from finished_runs.loop_ends_in_post [OF TrueI started(7) [unfolded this]]
  show ?thesis unfolding finished_state_def nothing_sendable_def by blast
qed auto

section \<open>Pausing before the task starts\<close>

text \<open>A pause before the task starts has no effect: pausing a scheduled campaign keeps the token of the waiting task, and
  that task then runs exactly as if the campaign were still scheduled.\<close>

theorem paused_before_start_runs:
  assumes "pause_campaign now a i mo s = (Inr c', s')" "get_campaign_row s i = Some c" "cmp_status c = SCHEDULED"
    and "cmp_execution_token c = Some tok" "cmp_requires_approval c \<longrightarrow> cmp_approved_at c \<noteq> None"
  shows "cmp_status c' = PAUSED \<and> get_campaign_row s' i = Some c' \<and>
    run_campaign fuel env i tok s' = run_campaign fuel env i tok (put_campaign (c'\<lparr>cmp_status := SCHEDULED\<rparr>) s')"
proof -
  have c': "c' = c\<lparr>cmp_status := PAUSED, cmp_paused_at := Some now\<rparr>" and s': "s' = put_campaign c' s"
    using assms(1-3) by (auto simp: pause_campaign_def get_campaign_def Let_def split: if_splits option.splits sum.splits)
  have id: "cmp_id c = i" by (rule campaign_rows.get_key [OF assms(2)])
  have row: "get_campaign_row s' i = Some c'"
    unfolding s' by (rule campaign_rows.read_modify_write [OF assms(2)]) (simp add: c' id)
  let ?c2 = "c'\<lparr>cmp_status := SCHEDULED\<rparr>" and ?s2 = "put_campaign (c'\<lparr>cmp_status := SCHEDULED\<rparr>) s'"
  have row2: "get_campaign_row ?s2 i = Some ?c2"
    by (rule campaign_rows.read_modify_write [OF row]) (simp add: c' id)
  have put: "put_campaign d ?s2 = put_campaign d s'" if "cmp_id d = i" for d
    using that id by (auto simp: row_defs tbl_put_def c' intro!: db.equality)
  have same: "get_whatsapp_account ?s2 = get_whatsapp_account s'" "get_template ?s2 = get_template s'"
    "get_feature_flags ?s2 = get_feature_flags s'"
    by (auto simp: fun_eq_iff get_whatsapp_account_def get_template_def get_feature_flags_def get_account_def split: option.splits)
  have props: "cmp_id c' = i" "cmp_status c' = PAUSED" "cmp_execution_token c' = Some tok"
    "\<not> (cmp_requires_approval c' \<and> cmp_approved_at c' = None)"
    using id c' assms(4,5) by auto
  have unflushed: "on_db (put_campaign d) (start_run env ?s2) = on_db (put_campaign d) (start_run env s')" if "cmp_id d = i" for d
    using put [OF that] by (simp add: on_db_def start_run_def)
  show ?thesis
    using row props
    by (simp only: run_campaign_def same row2 Let_def unflushed option.case campaign.simps) (auto simp: unflushed split: option.split)
qed

section \<open>An example\<close>

text \<open>An approved campaign with two recipients, the second opted out; Meta answers the first call with a server error and
  then accepts.  In \<open>busy_env\<close> somebody pauses the campaign when the run looks for the sixth time.\<close>

definition run_example :: db where
  "run_example = campaign_example\<lparr>campaigns := [(demo_campaign 10 4)\<lparr>cmp_requires_approval := True, cmp_approved_at := Some 1,
       cmp_status := SCHEDULED, cmp_execution_token := Some 77\<rparr>],
     recipients := [new_recipient 105 10 5 None, new_recipient 106 10 6 None]\<rparr>"

definition quiet_env :: "(nat \<Rightarrow> provider_reply) \<Rightarrow> env" where
  "quiet_env answers = \<lparr>clock = (\<lambda>n. int n * seconds 1), others = (\<lambda>_ s. s), locked_rows = (\<lambda>_ _. False), answer = answers,
     new_conversation_id = (\<lambda>n. 1000 + n), new_message_id = (\<lambda>n. 2000 + n), components_of = (\<lambda>_ _. Inr [])\<rparr>"

definition server_error :: meta_error where
  "server_error = \<lparr>me_message = ''unavailable'', me_status_code = Some 503, me_response_data = None\<rparr>"

definition first_fails :: "nat \<Rightarrow> provider_reply" where
  "first_fails n = (if n = 0 then Refused server_error else Accepted (Some ''wamid.1''))"

definition busy_env :: env where
  "busy_env = (quiet_env first_fails)\<lparr>others := (\<lambda>n s. if n = 5 then snd (pause_campaign 0 1 10 None s) else s)\<rparr>"

lemma pause_keeps_recipients [simp]: "recipients (snd (pause_campaign now a i mo s)) = recipients s"
  by (simp add: pause_campaign_def Let_def split: sum.split)

lemma busy_no_reopening: "no_reopening busy_env i tok"
  by (simp add: no_reopening_def busy_env_def open_ids_def recipient_ids_def)

lemma calls_are_guarded_witness:
  "\<exists>call st. run_calls st = [call] \<and> guarded_call 10 77 call
     \<and> run_campaign 2 (quiet_env (\<lambda>_. Accepted None)) 10 77 run_example = (Some (Finished COMPLETED 1 0 0), st)"
proof -
  let ?r = "run_campaign 2 (quiet_env (\<lambda>_. Accepted None)) 10 77 run_example"
  have "fst ?r = Some (Finished COMPLETED 1 0 0)" "length (run_calls (snd ?r)) = 1" by code_simp+
  then obtain st where st: "?r = (Some (Finished COMPLETED 1 0 0), st)" "length (run_calls st) = 1" by (metis prod.collapse)
  then obtain call where call: "run_calls st = [call]" by (auto simp: length_Suc_conv)
  then have "call \<in> set (run_calls st)" by simp
  from calls_are_guarded [OF st(1) this] st(1) call show ?thesis by blast
qed

lemma one_settled_call_per_recipient_witness:
  "\<exists>st. run_campaign 3 busy_env 10 77 run_example = (Some (Stopped PAUSED 1 0), st) \<and> length (run_calls st) = 2
     \<and> distinct (map (\<lambda>call. rcp_id (call_recipient call)) (filter settled_call (run_calls st)))"
proof -
  let ?r = "run_campaign 3 busy_env 10 77 run_example"
  have "fst ?r = Some (Stopped PAUSED 1 0)" "length (run_calls (snd ?r)) = 2" by code_simp+
  then obtain st where r: "?r = (Some (Stopped PAUSED 1 0), st)" "length (run_calls st) = 2" by (metis prod.collapse)
  have "distinct (map rcp_id (recipients run_example))" by (simp add: run_example_def new_recipient_def)
  from one_settled_call_per_recipient [OF r(1) busy_no_reopening this] r show ?thesis by blast
qed

lemma run_terminates_witness: "\<exists>e st. run_campaign 3 (quiet_env (\<lambda>_. Accepted None)) 10 77 run_example = (Some e, st)"
  by (rule run_terminates)
    (simp_all add: no_reopening_def no_transient_errors_def quiet_env_def run_example_def new_recipient_def is_open_def)

lemma finished_run_complete_witness:
  "\<exists>st c. run_campaign 3 (quiet_env first_fails) 10 77 run_example = (Some (Finished COMPLETED 1 0 1), st)
     \<and> get_campaign_row (run_db st) 10 = Some c \<and> cmp_status c = COMPLETED"
proof -
  have "fst (run_campaign 3 (quiet_env first_fails) 10 77 run_example) = Some (Finished COMPLETED 1 0 1)" by code_simp
  then obtain st where "run_campaign 3 (quiet_env first_fails) 10 77 run_example = (Some (Finished COMPLETED 1 0 1), st)"
    by (metis prod.collapse)
  with finished_run_complete [OF this] show ?thesis by auto
qed

lemma paused_before_start_runs_witness:
  "\<exists>c' s'. pause_campaign 9 1 10 None run_example = (Inr c', s') \<and> cmp_status c' = PAUSED \<and>
     run_campaign 3 (quiet_env first_fails) 10 77 s' =
     run_campaign 3 (quiet_env first_fails) 10 77 (put_campaign (c'\<lparr>cmp_status := SCHEDULED\<rparr>) s')"
proof -
  have "returns (fst (pause_campaign 9 1 10 None run_example))" by code_simp
  then obtain c' s' where p: "pause_campaign 9 1 10 None run_example = (Inr c', s')"
    by (metis prod.collapse returns_iff)
  let ?c = "(demo_campaign 10 4)\<lparr>cmp_requires_approval := True, cmp_approved_at := Some 1,
       cmp_status := SCHEDULED, cmp_execution_token := Some 77\<rparr>"
  have "get_campaign_row run_example 10 = Some ?c"
    by (simp add: run_example_def get_campaign_row_def tbl_get_def demo_campaign_def)
  from paused_before_start_runs [OF p this, of 77 3 "quiet_env first_fails"] p show ?thesis by auto
qed

end
