(* ===== verification/Subscriptions.thy ===== *)
theory Subscriptions
  imports Models
begin

text \<open>
  The tenant's plan: cap arithmetic (\<open>services/plan_limits.py\<close>) and the subscription of an account
  (\<open>services/billing.py\<close>).  The unique keys of the tables (plan code, account of a subscription) make a
  query for one row a search for the first.
\<close>

section \<open>Caps\<close>

definition UNLIMITED :: int where
  "UNLIMITED = 0"

definition is_unlimited :: "int \<Rightarrow> bool" where
  "is_unlimited limit \<longleftrightarrow> limit \<le> 0"

definition organization_limit_reached :: "int \<Rightarrow> int \<Rightarrow> bool" where
  "organization_limit_reached current_count max_organizations =
     (if is_unlimited max_organizations then False else current_count \<ge> max_organizations)"

definition limit_reached :: "int \<Rightarrow> int \<Rightarrow> bool" where
  "limit_reached current_count max_limit =
     (if is_unlimited max_limit then False else current_count \<ge> max_limit)"

definition within_limit :: "int \<Rightarrow> int \<Rightarrow> bool" where
  "within_limit n limit \<longleftrightarrow> is_unlimited limit \<or> n \<le> limit"

lemma room_for_one: "\<not> limit_reached n limit \<Longrightarrow> within_limit (n + 1) limit"
  by (auto simp: limit_reached_def within_limit_def split: if_splits)

section \<open>Plans and subscriptions\<close>

definition find_plan :: "db \<Rightarrow> uuid \<Rightarrow> plan option" where
  "find_plan s i = tbl_get pl_id (plans s) i"

definition find_subscription :: "db \<Rightarrow> uuid \<Rightarrow> subscription option" where
  "find_subscription s account_id = find (\<lambda>b. sub_account_id b = account_id) (subscriptions s)"

definition trial_plan :: "uuid \<Rightarrow> plan" where
  "trial_plan i = \<lparr>pl_id = i, pl_code = ''trial'', pl_name = ''Free Trial'', pl_monthly_price = 0,
     pl_yearly_price = 0, pl_max_users = 3, pl_max_organizations = UNLIMITED, pl_max_channels = UNLIMITED,
     pl_included_mac = 100, pl_over_mac_price_per_100 = 12000, pl_mac_limit_policy = ''soft'',
     pl_overage_enabled = True, pl_trial_days = 14, pl_allow_multi_organization = True, pl_active = True\<rparr>"

definition get_or_create_trial_plan :: "uuid \<Rightarrow> db \<Rightarrow> plan \<times> db" where
  "get_or_create_trial_plan new_id s =
     (case find (\<lambda>p. pl_code p = ''trial'') (plans s) of
        Some p \<Rightarrow> (p, s)
      | None \<Rightarrow> (trial_plan new_id, s\<lparr>plans := plans s @ [trial_plan new_id]\<rparr>))"

text \<open>\<open>now + timedelta(days=n)\<close> is calendar arithmetic of the \<open>datetime\<close> type: here a parameter.\<close>

definition create_trial_subscription ::
  "(dt \<Rightarrow> int \<Rightarrow> dt) \<Rightarrow> dt \<Rightarrow> uuid \<Rightarrow> uuid \<Rightarrow> uuid \<Rightarrow> db \<Rightarrow> subscription \<times> db" where
  "create_trial_subscription add_days now plan_id sub_id' account_id s =
     (let (plan, s1) = get_or_create_trial_plan plan_id s;
          subscription = \<lparr>sub_id = sub_id', sub_account_id = account_id, sub_plan_id = pl_id plan,
            sub_status = SubTrial, sub_billing_cycle = ''trial'', sub_starts_at = now,
            sub_ends_at = add_days now (pl_trial_days plan), sub_included_mac_override = None,
            sub_over_mac_price_per_100_override = None\<rparr>
      in (subscription, s1\<lparr>subscriptions := subscriptions s1 @ [subscription]\<rparr>))"

definition get_active_subscription :: "datetime \<Rightarrow> db \<Rightarrow> uuid \<Rightarrow> (subscription \<times> plan) option" where
  "get_active_subscription now s account_id =
     (case find_subscription s account_id of
        None \<Rightarrow> None
      | Some subscription \<Rightarrow>
          (case find_plan s (sub_plan_id subscription) of
             None \<Rightarrow> None
           | Some plan \<Rightarrow>
               if instant_of (sub_ends_at subscription) \<le> now then None else Some (subscription, plan)))"

definition list_public_plans :: "db \<Rightarrow> plan list" where
  "list_public_plans s =
     sort_key (\<lambda>p. (pl_monthly_price p)) (sort_key pl_name (filter (\<lambda>p. pl_active p \<and> pl_code p \<noteq> ''trial'') (plans s)))"

end
