(* ===== verification/Auth.thy ===== *)
theory Auth
  imports Access Subscriptions
begin

text \<open>
  Sessions and passwords (\<open>services/auth.py\<close>, \<open>core/security.py\<close>) and the check that every request passes
  (\<open>api/dependencies/auth.py\<close>).  The password hash and the hash of opaque tokens are parameters
  (\<open>pwdlib\<close>, \<open>hashlib\<close>); an access token is the record of its claims, as signing and checking it
  (\<open>jwt\<close>) gives the claims back or raises.  Random values, new row ids and the clock are arguments.
\<close>

section \<open>Settings and tokens\<close>

definition access_token_expire_minutes :: int where "access_token_expire_minutes = 30"
definition refresh_token_expire_days :: int where "refresh_token_expire_days = 30"
definition login_max_attempts :: int where "login_max_attempts = 5"
definition login_lock_minutes :: int where "login_lock_minutes = 15"
definition password_reset_token_expire_hours :: int where "password_reset_token_expire_hours = 1"
definition invitation_token_expire_hours :: int where "invitation_token_expire_hours = 72"

lemmas settings_defs = access_token_expire_minutes_def refresh_token_expire_days_def login_max_attempts_def
  login_lock_minutes_def password_reset_token_expire_hours_def invitation_token_expire_hours_def

record access_claims =
  clm_user_id :: uuid
  clm_account_id :: uuid
  clm_session_id :: uuid
  clm_password_version :: int
  clm_expires_at :: datetime

text \<open>\<open>int(password_changed_at.timestamp()) if password_changed_at else 0\<close>: whole seconds.\<close>

definition password_version :: "datetime option \<Rightarrow> int" where
  "password_version t = (case t of None \<Rightarrow> 0 | Some t \<Rightarrow> t div 1000000)"

definition create_access_token :: "datetime \<Rightarrow> uuid \<Rightarrow> uuid \<Rightarrow> uuid \<Rightarrow> datetime option \<Rightarrow> access_claims" where
  "create_access_token now user_id account_id session_id password_changed_at =
     \<lparr>clm_user_id = user_id, clm_account_id = account_id, clm_session_id = session_id,
      clm_password_version = password_version password_changed_at,
      clm_expires_at = now + minutes access_token_expire_minutes\<rparr>"

record reset_claims =
  rst_user_id :: uuid
  rst_password_version :: int
  rst_expires_at :: datetime

definition create_password_reset_token :: "datetime \<Rightarrow> uuid \<Rightarrow> datetime option \<Rightarrow> reset_claims" where
  "create_password_reset_token now user_id password_changed_at =
     \<lparr>rst_user_id = user_id, rst_password_version = password_version password_changed_at,
      rst_expires_at = now + hours password_reset_token_expire_hours\<rparr>"

section \<open>Sessions\<close>

definition get_user_by_email :: "db \<Rightarrow> string \<Rightarrow> user option" where
  "get_user_by_email s email = find (\<lambda>u. usr_email u = email) (users s)"

text \<open>\<open>refresh\<close> is the random text, \<open>new_id\<close> and \<open>new_family\<close> the random ids.\<close>

definition new_session :: "(string \<Rightarrow> string) \<Rightarrow> datetime \<Rightarrow> string \<Rightarrow> uuid \<Rightarrow> uuid \<Rightarrow> uuid \<Rightarrow> uuid \<Rightarrow> refresh_session" where
  "new_session hash_opaque_token now refresh new_id user_id account_id family_id =
     \<lparr>ses_id = new_id, ses_user_id = user_id, ses_account_id = account_id,
      ses_token_hash = hash_opaque_token refresh, ses_expires_at = now + days refresh_token_expire_days,
      ses_revoked_at = None, ses_family_id = family_id, ses_replaced_by_session_id = None,
      ses_reuse_detected_at = None\<rparr>"

definition issue_token_pair :: "(string \<Rightarrow> string) \<Rightarrow> datetime \<Rightarrow> string \<Rightarrow> uuid \<Rightarrow> uuid \<Rightarrow> user \<Rightarrow> uuid \<Rightarrow>
    uuid option \<Rightarrow> db \<Rightarrow> (access_claims \<times> string) \<times> db" where
  "issue_token_pair hash_opaque_token now refresh new_id new_family user account_id family_id s =
     (let session = new_session hash_opaque_token now refresh new_id (usr_id user) account_id
            (case family_id of None \<Rightarrow> new_family | Some f \<Rightarrow> f)
      in ((create_access_token now (usr_id user) account_id (ses_id session) (usr_password_changed_at user), refresh),
          s\<lparr>refresh_sessions := refresh_sessions s @ [session]\<rparr>))"

definition find_session :: "(string \<Rightarrow> string) \<Rightarrow> db \<Rightarrow> string \<Rightarrow> refresh_session option" where
  "find_session hash_opaque_token s refresh =
     find (\<lambda>x. ses_token_hash x = hash_opaque_token refresh) (refresh_sessions s)"

definition rotate_refresh_token :: "(string \<Rightarrow> string) \<Rightarrow> datetime \<Rightarrow> string \<Rightarrow> uuid \<Rightarrow> string \<Rightarrow> db \<Rightarrow>
    (access_claims \<times> string) option \<times> db" where
  "rotate_refresh_token hash_opaque_token now new_refresh new_id refresh_token s =
     (case find_session hash_opaque_token s refresh_token of
        None \<Rightarrow> (None, s)
      | Some session \<Rightarrow>
          if ses_expires_at session \<le> now then (None, s)
          else if ses_revoked_at session \<noteq> None then
            (None, (put_session (session\<lparr>ses_reuse_detected_at := Some now\<rparr>) s)\<lparr>refresh_sessions :=
               tbl_update (\<lambda>x. ses_family_id x = ses_family_id session \<and> ses_revoked_at x = None)
                 (\<lambda>x. x\<lparr>ses_revoked_at := Some now\<rparr>)
                 (refresh_sessions (put_session (session\<lparr>ses_reuse_detected_at := Some now\<rparr>) s))\<rparr>)
          else (case get_user s (ses_user_id session) of
             None \<Rightarrow> (None, s)
           | Some user \<Rightarrow>
               if usr_status user \<noteq> UserActive then (None, s)
               else
                 (let replacement = new_session hash_opaque_token now new_refresh new_id (ses_user_id session)
                        (ses_account_id session) (ses_family_id session);
                      s1 = s\<lparr>refresh_sessions := refresh_sessions s @ [replacement]\<rparr>;
                      s2 = put_session (session\<lparr>ses_revoked_at := Some now,
                             ses_replaced_by_session_id := Some (ses_id replacement)\<rparr>) s1
                  in (Some (create_access_token now (usr_id user) (ses_account_id session) (ses_id replacement)
                              (usr_password_changed_at user), new_refresh), s2))))"

definition revoke_refresh_token :: "(string \<Rightarrow> string) \<Rightarrow> datetime \<Rightarrow> string \<Rightarrow> db \<Rightarrow> bool \<times> db" where
  "revoke_refresh_token hash_opaque_token now refresh_token s =
     (case find_session hash_opaque_token s refresh_token of
        None \<Rightarrow> (False, s)
      | Some session \<Rightarrow>
          (True, if ses_revoked_at session = None then put_session (session\<lparr>ses_revoked_at := Some now\<rparr>) s else s))"

definition revoke_all_user_sessions :: "datetime \<Rightarrow> uuid \<Rightarrow> db \<Rightarrow> nat \<times> db" where
  "revoke_all_user_sessions now user_id s =
     (tbl_count (\<lambda>x. ses_user_id x = user_id \<and> ses_revoked_at x = None) (refresh_sessions s),
      s\<lparr>refresh_sessions := tbl_update (\<lambda>x. ses_user_id x = user_id \<and> ses_revoked_at x = None)
          (\<lambda>x. x\<lparr>ses_revoked_at := Some now\<rparr>) (refresh_sessions s)\<rparr>)"

section \<open>Login\<close>

definition list_active_memberships :: "db \<Rightarrow> uuid \<Rightarrow> membership list" where
  "list_active_memberships s user_id = sort_key mem_created_at
     (filter (\<lambda>m. mem_user_id m = user_id \<and> mem_status m = MembershipActive) (memberships s))"

record login_request =
  lg_email :: string
  lg_password :: string
  lg_account_id :: "uuid option"

datatype login_result = Rejected | ChooseAccount user "membership list"
  | LoggedIn user membership access_claims string

definition BLOCKED_ACCOUNT_STATUSES :: "account_status list" where
  "BLOCKED_ACCOUNT_STATUSES = [AccSuspended, AccCancelled, AccScheduledForDeletion, AccClosed]"

definition record_failed_login :: "datetime \<Rightarrow> user \<Rightarrow> user" where
  "record_failed_login now u =
     (let u1 = u\<lparr>usr_failed_login_attempts := usr_failed_login_attempts u + 1\<rparr>
      in if usr_failed_login_attempts u1 \<ge> login_max_attempts
         then u1\<lparr>usr_locked_until := Some (now + minutes login_lock_minutes), usr_failed_login_attempts := 0\<rparr>
         else u1)"

definition choose_membership :: "uuid option \<Rightarrow> membership list \<Rightarrow> membership option outcome" where
  "choose_membership account_id ms =
     (case account_id of
        None \<Rightarrow> Inr (if length ms = 1 then Some (hd ms) else None)
      | Some a \<Rightarrow> (case find (\<lambda>m. mem_account_id m = a) ms of
           None \<Rightarrow> Inl (ValueError ''ACCOUNT_NOT_AVAILABLE'')
         | Some m \<Rightarrow> Inr (Some m)))"

definition authenticate_user :: "(string \<Rightarrow> string \<Rightarrow> bool) \<Rightarrow> (string \<Rightarrow> string) \<Rightarrow> datetime \<Rightarrow> string \<Rightarrow> uuid \<Rightarrow> uuid \<Rightarrow>
    login_request \<Rightarrow> db \<Rightarrow> login_result outcome \<times> db" where
  "authenticate_user verify_password hash_opaque_token now refresh new_id new_family payload s =
     (case get_user_by_email s (lg_email payload) of
        None \<Rightarrow> (Inr Rejected, s)
      | Some user \<Rightarrow>
          if (case usr_locked_until user of None \<Rightarrow> False | Some t \<Rightarrow> t > now) then (Inr Rejected, s)
          else if \<not> verify_password (lg_password payload) (usr_password_hash user)
          then (Inr Rejected, put_user (record_failed_login now user) s)
          else if usr_status user \<noteq> UserActive then (Inr Rejected, s)
          else
            (let user1 = user\<lparr>usr_failed_login_attempts := 0, usr_locked_until := None\<rparr>;
                 s1 = put_user user1 s;
                 ms = list_active_memberships s1 (usr_id user1)
             in if ms = [] then (Inr Rejected, s1)
                else (case choose_membership (lg_account_id payload) ms of
                    Inl e \<Rightarrow> (Inl e, s1)
                  | Inr None \<Rightarrow> (Inr (ChooseAccount user1 ms), s1)
                  | Inr (Some m) \<Rightarrow>
                      (case get_account s1 (mem_account_id m) of
                         None \<Rightarrow> (Inl (ValueError ''ACCOUNT_NOT_ACTIVE''), s1)
                       | Some account \<Rightarrow>
                           if acc_status account \<in> set BLOCKED_ACCOUNT_STATUSES
                           then (Inl (ValueError ''ACCOUNT_NOT_ACTIVE''), s1)
                           else (let ((access, refr), s2) = issue_token_pair hash_opaque_token now refresh new_id
                                       new_family user1 (mem_account_id m) None s1
                                 in (Inr (LoggedIn user1 m access refr), s2))))))"

section \<open>Password reset\<close>

text \<open>The e-mail itself is not modelled: \<open>send\<close> tells whether it was sent.\<close>

definition request_password_reset :: "(string \<Rightarrow> reset_claims \<Rightarrow> bool) \<Rightarrow> datetime \<Rightarrow> db \<Rightarrow> string \<Rightarrow> bool" where
  "request_password_reset send now s email =
     (case get_user_by_email s email of
        None \<Rightarrow> False
      | Some user \<Rightarrow>
          if usr_status user \<noteq> UserActive then False
          else send (usr_email user) (create_password_reset_token now (usr_id user) (usr_password_changed_at user)))"

text \<open>\<open>jwt.decode\<close> raises on an expired token; a token that does not decode is \<open>None\<close>.\<close>

definition reset_password_with_token :: "(string \<Rightarrow> string) \<Rightarrow> datetime \<Rightarrow> reset_claims option \<Rightarrow> string \<Rightarrow> db \<Rightarrow>
    unit outcome \<times> db" where
  "reset_password_with_token hash_password now token password s =
     (case token of
        None \<Rightarrow> (Inl (ValueError ''INVALID_OR_EXPIRED_TOKEN''), s)
      | Some claims \<Rightarrow>
          if rst_expires_at claims \<le> now then (Inl (ValueError ''INVALID_OR_EXPIRED_TOKEN''), s)
          else (case get_user s (rst_user_id claims) of
              None \<Rightarrow> (Inl (ValueError ''INVALID_OR_EXPIRED_TOKEN''), s)
            | Some user \<Rightarrow>
                if usr_status user \<noteq> UserActive then (Inl (ValueError ''INVALID_OR_EXPIRED_TOKEN''), s)
                else if rst_password_version claims \<noteq> password_version (usr_password_changed_at user)
                then (Inl (ValueError ''INVALID_OR_EXPIRED_TOKEN''), s)
                else (Inr (), snd (revoke_all_user_sessions now (usr_id user)
                        (put_user (user\<lparr>usr_password_hash := hash_password password,
                           usr_password_changed_at := Some now, usr_failed_login_attempts := 0,
                           usr_locked_until := None\<rparr>) s)))))"

section \<open>The check of a request\<close>

datatype http_error = Unauthorized | Forbidden string | PaymentRequired

text \<open>\<open>token\<close> is what decoding gives, \<open>support_grant\<close> whether the account has a support grant in force for the
  user; \<open>None\<close> as membership stands for the temporary admin membership of a support user.\<close>

record auth_context =
  ctx_user :: user
  ctx_membership :: "membership option"
  ctx_account :: account

definition get_auth_context :: "(uuid \<Rightarrow> uuid \<Rightarrow> bool) \<Rightarrow> datetime \<Rightarrow> access_claims option \<Rightarrow> db \<Rightarrow> http_error + auth_context" where
  "get_auth_context support_grant now token s =
     (case token of
        None \<Rightarrow> Inl Unauthorized
      | Some claims \<Rightarrow>
     if clm_expires_at claims \<le> now then Inl Unauthorized
     else (case get_user s (clm_user_id claims) of
        None \<Rightarrow> Inl Unauthorized
      | Some user \<Rightarrow>
     if usr_status user \<noteq> UserActive then Inl Unauthorized
     else if clm_password_version claims \<noteq> password_version (usr_password_changed_at user) then Inl Unauthorized
     else (case get_session s (clm_session_id claims) of
        None \<Rightarrow> Inl Unauthorized
      | Some session \<Rightarrow>
     if ses_user_id session \<noteq> clm_user_id claims \<or> ses_account_id session \<noteq> clm_account_id claims
        \<or> ses_revoked_at session \<noteq> None \<or> ses_expires_at session \<le> now then Inl Unauthorized
     else (case get_account s (clm_account_id claims) of
        None \<Rightarrow> Inl (Forbidden ''ACCOUNT_NOT_ACTIVE'')
      | Some account \<Rightarrow>
     if acc_status account \<in> set BLOCKED_ACCOUNT_STATUSES then Inl (Forbidden ''ACCOUNT_NOT_ACTIVE'')
     else (case find (\<lambda>m. mem_user_id m = clm_user_id claims \<and> mem_account_id m = clm_account_id claims) (memberships s) of
        Some m \<Rightarrow>
          if mem_status m = MembershipActive
          then Inr \<lparr>ctx_user = user, ctx_membership = Some m, ctx_account = account\<rparr>
          else if \<not> usr_is_super_admin user then Inl Unauthorized
          else if \<not> support_grant (clm_account_id claims) (clm_user_id claims) then Inl Unauthorized
          else Inr \<lparr>ctx_user = user, ctx_membership = None, ctx_account = account\<rparr>
      | None \<Rightarrow>
          if \<not> usr_is_super_admin user then Inl Unauthorized
          else if \<not> support_grant (clm_account_id claims) (clm_user_id claims) then Inl Unauthorized
          else Inr \<lparr>ctx_user = user, ctx_membership = None, ctx_account = account\<rparr>)))))"

text \<open>\<open>support_scope\<close> is the answer of \<open>_super_admin_has_support_access\<close>; an unknown stored permission makes
  \<open>membership_has_permission\<close> raise.\<close>

definition WRITE_RESTRICTED_STATUSES :: "account_status list" where
  "WRITE_RESTRICTED_STATUSES = [AccPastDue, AccRestricted]"

definition require_permissions :: "(permission list \<Rightarrow> bool) \<Rightarrow> permission list \<Rightarrow> bool \<Rightarrow> auth_context \<Rightarrow>
    (http_error + auth_context) outcome" where
  "require_permissions support_scope perms write context =
     (if write \<and> acc_status (ctx_account context) \<in> set WRITE_RESTRICTED_STATUSES then Inr (Inl PaymentRequired)
      else (case ctx_membership context of
          None \<Rightarrow> if support_scope perms then Inr (Inr context) else Inr (Inl (Forbidden ''SUPPORT_ACCESS_REQUIRED''))
        | Some m \<Rightarrow> (case get_effective_permissions m of
              Inl e \<Rightarrow> if perms = [] then Inr (Inr context) else Inl e
            | Inr ps \<Rightarrow> if list_all (\<lambda>p. p \<in> ps) perms then Inr (Inr context)
                else Inr (Inl (Forbidden ''MISSING_PERMISSION'')))))"

section \<open>Rotation of refresh tokens\<close>

lemma find_put:
  assumes "find P t = Some r" "key r' = key r" "P r'"
  shows "find P (tbl_put key r' t) = Some r'"
  using assms unfolding tbl_put_def by (induction t) (auto split: if_splits)

lemma find_append_left: "find P t = Some r \<Longrightarrow> find P (t @ u) = Some r"
  by (induction t) (auto split: if_splits)

definition family_revoked :: "uuid \<Rightarrow> db \<Rightarrow> bool" where
  "family_revoked f s \<longleftrightarrow> (\<forall>x \<in> set (refresh_sessions s). ses_family_id x = f \<longrightarrow> ses_revoked_at x \<noteq> None)"

lemma rotate_success:
  assumes "rotate_refresh_token H now r2 i2 r s = (Some pair, s1)"
  obtains x u where "find_session H s r = Some x" "ses_revoked_at x = None" "now < ses_expires_at x"
    "get_user s (ses_user_id x) = Some u" "usr_status u = UserActive"
    "s1 = put_session (x\<lparr>ses_revoked_at := Some now, ses_replaced_by_session_id := Some i2\<rparr>)
       (s\<lparr>refresh_sessions := refresh_sessions s @
            [new_session H now r2 i2 (ses_user_id x) (ses_account_id x) (ses_family_id x)]\<rparr>)"
proof (cases "find_session H s r")
  case None
  with assms show ?thesis by (simp add: rotate_refresh_token_def)
next
  case (Some x)
  then have live: "\<not> ses_expires_at x \<le> now" "ses_revoked_at x = None"
    using assms by (auto simp: rotate_refresh_token_def split: if_splits)
  then obtain u where u: "get_user s (ses_user_id x) = Some u"
    using assms Some by (auto simp: rotate_refresh_token_def split: option.splits)
  have "usr_status u = UserActive"
    using assms Some live u by (simp add: rotate_refresh_token_def split: if_splits)
  with assms Some live u that [of x u] show ?thesis
    by (simp add: rotate_refresh_token_def new_session_def Let_def)
qed

lemma replayed_revokes_family:
  assumes "find_session H s r = Some x" "ses_revoked_at x \<noteq> None" "now < ses_expires_at x"
  shows "fst (rotate_refresh_token H now r2 i2 r s) = None \<and>
    family_revoked (ses_family_id x) (snd (rotate_refresh_token H now r2 i2 r s))"
  using assms by (auto simp: rotate_refresh_token_def family_revoked_def tbl_update_def)

text \<open>C13. A refresh token works once: after a successful rotation, presenting the old token again gives nothing
  and, while the old session has not expired, revokes the whole family, the token just issued included.\<close>

theorem rotated_token_is_single_use:
  assumes "rotate_refresh_token H now r2 i2 r s = (Some pair, s1)"
    and "find_session H s r = Some x"
  shows "fst (rotate_refresh_token H now' r3 i3 r s1) = None \<and>
     (now' < ses_expires_at x \<longrightarrow> family_revoked (ses_family_id x) (snd (rotate_refresh_token H now' r3 i3 r s1)))"
proof -
  from rotate_success [OF assms(1)] assms(2) have s1:
    "s1 = put_session (x\<lparr>ses_revoked_at := Some now, ses_replaced_by_session_id := Some i2\<rparr>)
       (s\<lparr>refresh_sessions := refresh_sessions s @
            [new_session H now r2 i2 (ses_user_id x) (ses_account_id x) (ses_family_id x)]\<rparr>)"
    by (metis option.inject)
  have hash: "ses_token_hash x = H r"
    using assms(2) by (auto simp: find_session_def find_Some_iff)
  have f: "find_session H s1 r = Some (x\<lparr>ses_revoked_at := Some now, ses_replaced_by_session_id := Some i2\<rparr>)"
    unfolding s1 find_session_def put_session_def
    using assms(2) hash by (simp add: find_put [where r = x] find_append_left find_session_def)
  show ?thesis
  proof (cases "now' < ses_expires_at x")
    case True
    with replayed_revokes_family [OF f, of now' r3 i3] show ?thesis by simp
  next
    case False
    with f show ?thesis by (simp add: rotate_refresh_token_def)
  qed
qed

definition demo_user :: "uuid \<Rightarrow> string \<Rightarrow> user" where
  "demo_user i email = \<lparr>usr_id = i, usr_email = email, usr_full_name = ''A'', usr_password_hash = ''pw'',
     usr_preferred_language = ''ar'', usr_is_super_admin = False, usr_failed_login_attempts = 0,
     usr_locked_until = None, usr_password_changed_at = None, usr_status = UserActive\<rparr>"

definition auth_example :: db where
  "auth_example = empty_db\<lparr>users := [demo_user 8 ''a@b''],
     refresh_sessions := [new_session id 0 ''r1'' 20 8 1 30]\<rparr>"

lemma rotated_token_is_single_use_witness:
  "family_revoked 30 (snd (rotate_refresh_token id 7 ''r3'' 22 ''r1''
      (snd (rotate_refresh_token id 5 ''r2'' 21 ''r1'' auth_example))))"
proof -
  have ok: "rotate_refresh_token id 5 ''r2'' 21 ''r1'' auth_example =
     (Some (create_access_token 5 8 1 21 None, ''r2''), snd (rotate_refresh_token id 5 ''r2'' 21 ''r1'' auth_example))"
    by code_simp
  have f: "find_session id auth_example ''r1'' = Some (new_session id 0 ''r1'' 20 8 1 30)"
    by code_simp
  have "(7::int) < ses_expires_at (new_session id 0 ''r1'' 20 8 1 30)"
    by (simp add: new_session_def timedelta_defs settings_defs)
  moreover have "ses_family_id (new_session id 0 ''r1'' 20 8 1 30) = 30" by (simp add: new_session_def)
  ultimately show ?thesis
    using rotated_token_is_single_use [OF ok f, of 7 "''r3''" 22] by simp
qed

section \<open>Families of sessions\<close>

text \<open>The sessions of a database evolve by the operations of \<open>services/auth.py\<close>: a login starts a family with
  fresh random values.  Operations that do not touch the sessions are one more step.\<close>

inductive session_step :: "(string \<Rightarrow> string) \<Rightarrow> db \<Rightarrow> db \<Rightarrow> bool" for H where
  login: "\<lbrakk>issue_token_pair H now refresh new_id new_family user account_id None s = (pair, s');
     new_id \<notin> ses_id ` set (refresh_sessions s); new_family \<notin> ses_family_id ` set (refresh_sessions s)\<rbrakk>
     \<Longrightarrow> session_step H s s'"
| rotate: "\<lbrakk>rotate_refresh_token H now new_refresh new_id token s = (result, s');
     new_id \<notin> ses_id ` set (refresh_sessions s)\<rbrakk> \<Longrightarrow> session_step H s s'"
| revoke: "revoke_refresh_token H now token s = (found, s') \<Longrightarrow> session_step H s s'"
| revoke_all: "revoke_all_user_sessions now user_id s = (n, s') \<Longrightarrow> session_step H s s'"
| other: "refresh_sessions s' = refresh_sessions s \<Longrightarrow> session_step H s s'"

inductive session_reachable :: "(string \<Rightarrow> string) \<Rightarrow> db \<Rightarrow> bool" for H where
  start: "refresh_sessions s = [] \<Longrightarrow> session_reachable H s"
| step: "session_reachable H s \<Longrightarrow> session_step H s s' \<Longrightarrow> session_reachable H s'"

definition one_live_per_family :: "refresh_session list \<Rightarrow> bool" where
  "one_live_per_family xs \<longleftrightarrow> distinct (map ses_id xs) \<and>
     (\<forall>x \<in> set xs. \<forall>y \<in> set xs. ses_family_id x = ses_family_id y \<and> ses_revoked_at x = None \<and> ses_revoked_at y = None
        \<longrightarrow> x = y)"

lemma one_live_distinct: "one_live_per_family xs \<Longrightarrow> distinct (map ses_id xs)"
  by (simp add: one_live_per_family_def)

lemma one_liveD:
  assumes "one_live_per_family xs" "x \<in> set xs" "y \<in> set xs" "ses_family_id x = ses_family_id y"
    and "ses_revoked_at x = None" "ses_revoked_at y = None"
  shows "x = y"
  using assms unfolding one_live_per_family_def by blast

lemma one_liveI:
  assumes "distinct (map ses_id xs)"
    and "\<And>x y. \<lbrakk>x \<in> set xs; y \<in> set xs; ses_family_id x = ses_family_id y; ses_revoked_at x = None;
      ses_revoked_at y = None\<rbrakk> \<Longrightarrow> x = y"
  shows "one_live_per_family xs"
  using assms unfolding one_live_per_family_def by blast

text \<open>Rows may be revoked, or annotated once revoked, in place.\<close>

lemma one_live_map:
  assumes inv: "one_live_per_family xs"
    and f: "\<And>x. x \<in> set xs \<Longrightarrow> ses_id (f x) = ses_id x \<and> ses_family_id (f x) = ses_family_id x \<and>
      (ses_revoked_at (f x) = None \<longrightarrow> ses_revoked_at x = None)"
  shows "one_live_per_family (map f xs)"
proof (rule one_liveI)
  have ids: "map ses_id (map f xs) = map ses_id xs" unfolding list.map_comp by (rule map_cong) (use f in simp_all)
  show "distinct (map ses_id (map f xs))" unfolding ids by (rule one_live_distinct [OF inv])
next
  fix a b
  assume a: "a \<in> set (map f xs)" and b: "b \<in> set (map f xs)"
    and same: "ses_family_id a = ses_family_id b" and live: "ses_revoked_at a = None" "ses_revoked_at b = None"
  obtain a0 where a0: "a0 \<in> set xs" "a = f a0" using a by (metis imageE list.set_map)
  obtain b0 where b0: "b0 \<in> set xs" "b = f b0" using b by (metis imageE list.set_map)
  have "ses_family_id a0 = ses_family_id b0" "ses_revoked_at a0 = None" "ses_revoked_at b0 = None"
    using f [OF a0(1)] f [OF b0(1)] a0(2) b0(2) same live by simp_all
  then have "a0 = b0" by (rule one_liveD [OF inv a0(1) b0(1)])
  with a0 b0 show "a = b" by simp
qed

lemma one_live_put:
  assumes inv: "one_live_per_family xs" and x: "x \<in> set xs"
    and x': "ses_id x' = ses_id x" "ses_family_id x' = ses_family_id x" "ses_revoked_at x' = None \<Longrightarrow> ses_revoked_at x = None"
  shows "one_live_per_family (tbl_put ses_id x' xs)"
proof -
  have only: "y = x" if "y \<in> set xs" "ses_id y = ses_id x" for y
    using one_live_distinct [OF inv] that x by (metis distinct_map inj_onD)
  have "one_live_per_family (map (\<lambda>y. if ses_id y = ses_id x' then x' else y) xs)"
    by (rule one_live_map [OF inv]) (use only x' in auto)
  then show ?thesis by (simp add: tbl_put_def)
qed

lemma one_live_append:
  assumes inv: "one_live_per_family xs" and "ses_id n \<notin> ses_id ` set xs"
    and dead: "\<And>x. x \<in> set xs \<Longrightarrow> ses_family_id x = ses_family_id n \<Longrightarrow> ses_revoked_at x \<noteq> None"
  shows "one_live_per_family (xs @ [n])"
proof (rule one_liveI)
  show "distinct (map ses_id (xs @ [n]))" using one_live_distinct [OF inv] assms(2) by simp
next
  fix a b
  assume ab: "a \<in> set (xs @ [n])" "b \<in> set (xs @ [n])"
    and rest: "ses_family_id a = ses_family_id b" "ses_revoked_at a = None" "ses_revoked_at b = None"
  consider "a \<in> set xs" "b \<in> set xs" | "a \<in> set xs" "b = n" | "a = n" "b \<in> set xs" | "a = n" "b = n"
    using ab by auto
  then show "a = b"
  proof cases
    case 1
    then show ?thesis using one_liveD [OF inv] rest by blast
  next
    case 2
    then show ?thesis using dead [of a] rest by simp
  next
    case 3
    then show ?thesis using dead [of b] rest by simp
  qed simp
qed

lemma rotate_sessions:
  "refresh_sessions (snd (rotate_refresh_token H now r2 i2 r s)) = refresh_sessions s
   \<or> (\<exists>x \<in> set (refresh_sessions s). ses_revoked_at x \<noteq> None \<and>
        refresh_sessions (snd (rotate_refresh_token H now r2 i2 r s)) =
          tbl_update (\<lambda>y. ses_family_id y = ses_family_id x \<and> ses_revoked_at y = None) (\<lambda>y. y\<lparr>ses_revoked_at := Some now\<rparr>)
            (tbl_put ses_id (x\<lparr>ses_reuse_detected_at := Some now\<rparr>) (refresh_sessions s)))
   \<or> (\<exists>x \<in> set (refresh_sessions s). ses_revoked_at x = None \<and>
        refresh_sessions (snd (rotate_refresh_token H now r2 i2 r s)) =
          tbl_put ses_id (x\<lparr>ses_revoked_at := Some now, ses_replaced_by_session_id := Some i2\<rparr>)
            (refresh_sessions s @ [new_session H now r2 i2 (ses_user_id x) (ses_account_id x) (ses_family_id x)]))"
proof (cases "find_session H s r")
  case None
  then show ?thesis by (simp add: rotate_refresh_token_def)
next
  case (Some x)
  then have x: "x \<in> set (refresh_sessions s)" by (auto simp: find_session_def find_Some_iff)
  show ?thesis
  proof (cases "ses_expires_at x \<le> now")
    case True
    with Some show ?thesis by (simp add: rotate_refresh_token_def)
  next
    case False
    note fresh = False
    show ?thesis
    proof (cases "ses_revoked_at x = None")
      case True
      show ?thesis
      proof (cases "\<exists>u. get_user s (ses_user_id x) = Some u \<and> usr_status u = UserActive")
        case True
        then obtain u where "get_user s (ses_user_id x) = Some u" "usr_status u = UserActive" by blast
        with Some fresh \<open>ses_revoked_at x = None\<close>
        have "refresh_sessions (snd (rotate_refresh_token H now r2 i2 r s)) =
          tbl_put ses_id (x\<lparr>ses_revoked_at := Some now, ses_replaced_by_session_id := Some i2\<rparr>)
            (refresh_sessions s @ [new_session H now r2 i2 (ses_user_id x) (ses_account_id x) (ses_family_id x)])"
          by (simp add: rotate_refresh_token_def put_session_def Let_def new_session_def)
        with x \<open>ses_revoked_at x = None\<close> show ?thesis by blast
      next
        case False
        with Some fresh \<open>ses_revoked_at x = None\<close> show ?thesis
          by (cases "get_user s (ses_user_id x)") (simp_all add: rotate_refresh_token_def)
      qed
    next
      case False
      with Some fresh have "refresh_sessions (snd (rotate_refresh_token H now r2 i2 r s)) =
          tbl_update (\<lambda>y. ses_family_id y = ses_family_id x \<and> ses_revoked_at y = None) (\<lambda>y. y\<lparr>ses_revoked_at := Some now\<rparr>)
            (tbl_put ses_id (x\<lparr>ses_reuse_detected_at := Some now\<rparr>) (refresh_sessions s))"
        by (simp add: rotate_refresh_token_def put_session_def)
      with x False show ?thesis by blast
    qed
  qed
qed

lemma revoke_update_one_live:
  "one_live_per_family xs \<Longrightarrow> one_live_per_family (tbl_update p (\<lambda>y. y\<lparr>ses_revoked_at := Some now\<rparr>) xs)"
  unfolding tbl_update_def by (rule one_live_map) auto

lemma rotate_one_live:
  assumes inv: "one_live_per_family (refresh_sessions s)" and new: "i2 \<notin> ses_id ` set (refresh_sessions s)"
  shows "one_live_per_family (refresh_sessions (snd (rotate_refresh_token H now r2 i2 r s)))"
  using rotate_sessions [of H now r2 i2 r s]
proof (elim disjE bexE conjE)
  assume "refresh_sessions (snd (rotate_refresh_token H now r2 i2 r s)) = refresh_sessions s"
  with inv show ?thesis by simp
next
  fix x
  assume x: "x \<in> set (refresh_sessions s)" "ses_revoked_at x \<noteq> None"
    and eq: "refresh_sessions (snd (rotate_refresh_token H now r2 i2 r s)) =
      tbl_update (\<lambda>y. ses_family_id y = ses_family_id x \<and> ses_revoked_at y = None) (\<lambda>y. y\<lparr>ses_revoked_at := Some now\<rparr>)
        (tbl_put ses_id (x\<lparr>ses_reuse_detected_at := Some now\<rparr>) (refresh_sessions s))"
  show ?thesis unfolding eq
    by (rule revoke_update_one_live, rule one_live_put [OF inv x(1)]) (use x(2) in simp_all)
next
  fix x :: refresh_session
  let ?x' = "x\<lparr>ses_revoked_at := Some now, ses_replaced_by_session_id := Some i2\<rparr>"
  let ?n = "new_session H now r2 i2 (ses_user_id x) (ses_account_id x) (ses_family_id x)"
  assume x: "x \<in> set (refresh_sessions s)" "ses_revoked_at x = None"
    and eq: "refresh_sessions (snd (rotate_refresh_token H now r2 i2 r s)) =
      tbl_put ses_id ?x' (refresh_sessions s @ [?n])"
  have i2: "ses_id ?n = i2" by (simp add: new_session_def)
  with new x(1) have "i2 \<noteq> ses_id x" by blast
  with i2 have split: "tbl_put ses_id ?x' (refresh_sessions s @ [?n]) = tbl_put ses_id ?x' (refresh_sessions s) @ [?n]"
    by (simp add: tbl_put_def)
  have "one_live_per_family (tbl_put ses_id ?x' (refresh_sessions s))"
    by (rule one_live_put [OF inv x(1)]) simp_all
  then show ?thesis unfolding eq split
  proof (rule one_live_append)
    have "ses_id ` set (tbl_put ses_id ?x' (refresh_sessions s)) = ses_id ` set (refresh_sessions s)"
      by (metis map_key_put set_map)
    with new i2 show "ses_id ?n \<notin> ses_id ` set (tbl_put ses_id ?x' (refresh_sessions s))" by simp
  next
    fix y
    assume y: "y \<in> set (tbl_put ses_id ?x' (refresh_sessions s))" and fam: "ses_family_id y = ses_family_id ?n"
    show "ses_revoked_at y \<noteq> None"
    proof (cases "y = ?x'")
      case True
      then show ?thesis by simp
    next
      case False
      with y have y0: "y \<in> set (refresh_sessions s)" "ses_id y \<noteq> ses_id x"
        by (auto simp: tbl_put_def split: if_splits)
      have "ses_family_id y = ses_family_id x" using fam by (simp add: new_session_def)
      with one_liveD [OF inv y0(1) x(1) _ _ x(2)] y0(2) show ?thesis by auto
    qed
  qed
qed

lemma session_step_one_live:
  assumes "session_step H s s'" "one_live_per_family (refresh_sessions s)"
  shows "one_live_per_family (refresh_sessions s')"
  using assms
proof (cases rule: session_step.cases)
  case (login now refresh new_id new_family user account_id pair)
  have s': "refresh_sessions s' = refresh_sessions s @
      [new_session H now refresh new_id (usr_id user) account_id new_family]"
    using login(1) by (auto simp: issue_token_pair_def Let_def)
  show ?thesis unfolding s'
    by (rule one_live_append [OF assms(2)]) (use login(2,3) in \<open>auto simp: new_session_def\<close>)
next
  case (rotate now new_refresh new_id token result)
  with rotate_one_live [OF assms(2), of new_id H now new_refresh token] show ?thesis by simp
next
  case (revoke now token found)
  show ?thesis
  proof (cases "find_session H s token")
    case None
    with revoke assms(2) show ?thesis by (simp add: revoke_refresh_token_def)
  next
    case (Some x)
    then have x: "x \<in> set (refresh_sessions s)" by (auto simp: find_session_def find_Some_iff)
    have "one_live_per_family (tbl_put ses_id (x\<lparr>ses_revoked_at := Some now\<rparr>) (refresh_sessions s))"
      by (rule one_live_put [OF assms(2) x]) simp_all
    with Some revoke assms(2) show ?thesis
      by (auto simp: revoke_refresh_token_def put_session_def split: if_splits)
  qed
next
  case (revoke_all now user_id n)
  then have "refresh_sessions s' = tbl_update (\<lambda>x. ses_user_id x = user_id \<and> ses_revoked_at x = None)
      (\<lambda>x. x\<lparr>ses_revoked_at := Some now\<rparr>) (refresh_sessions s)"
    by (auto simp: revoke_all_user_sessions_def)
  with revoke_update_one_live [OF assms(2)] show ?thesis by simp
next
  case other
  with assms(2) show ?thesis by simp
qed

text \<open>C14. In every reachable state a family of sessions, one login followed through its rotations, has at most one
  session that is not revoked: there is never more than one usable refresh token per login.\<close>

theorem one_live_session_per_family:
  assumes "session_reachable H s"
  shows "\<forall>x \<in> set (refresh_sessions s). \<forall>y \<in> set (refresh_sessions s).
     ses_family_id x = ses_family_id y \<and> ses_revoked_at x = None \<and> ses_revoked_at y = None \<longrightarrow> x = y"
proof -
  have "one_live_per_family (refresh_sessions s)"
    using assms
  proof induction
    case (start s)
    then show ?case by (simp add: one_live_per_family_def)
  next
    case (step s s')
    then show ?case using session_step_one_live by blast
  qed
  then show ?thesis by (simp add: one_live_per_family_def)
qed

lemma auth_example_reachable: "session_reachable id auth_example"
proof -
  let ?s0 = "empty_db\<lparr>users := [demo_user 8 ''a@b'']\<rparr>"
  have "session_reachable id ?s0" by (rule start) (simp add: empty_db_def)
  moreover have "session_step id ?s0 auth_example"
  proof (rule login)
    show "issue_token_pair id 0 ''r1'' 20 30 (demo_user 8 ''a@b'') 1 None ?s0 =
        ((create_access_token 0 8 1 20 None, ''r1''), auth_example)"
      by (simp add: issue_token_pair_def auth_example_def Let_def demo_user_def new_session_def empty_db_def)
  qed (simp_all add: empty_db_def)
  ultimately show ?thesis by (rule step)
qed

lemma one_live_session_per_family_witness:
  "\<exists>s. s = snd (rotate_refresh_token id 5 ''r2'' 21 ''r1'' auth_example) \<and> session_reachable id s \<and>
     (\<forall>x \<in> set (refresh_sessions s). \<forall>y \<in> set (refresh_sessions s).
       ses_family_id x = ses_family_id y \<and> ses_revoked_at x = None \<and> ses_revoked_at y = None \<longrightarrow> x = y)"
proof -
  let ?s = "snd (rotate_refresh_token id 5 ''r2'' 21 ''r1'' auth_example)"
  have "session_step id auth_example ?s"
    by (rule rotate [OF surjective_pairing]) (simp add: auth_example_def new_session_def)
  with auth_example_reachable have "session_reachable id ?s" by (rule step)
  with one_live_session_per_family [OF this] show ?thesis by blast
qed

section \<open>Lockout\<close>

definition unlocked :: "datetime \<Rightarrow> user \<Rightarrow> bool" where
  "unlocked now u \<longleftrightarrow> (case usr_locked_until u of None \<Rightarrow> True | Some t \<Rightarrow> t \<le> now)"

lemma wrong_password_step:
  assumes "get_user_by_email s (lg_email p) = Some u" "unlocked now u"
    and "\<not> verify (lg_password p) (usr_password_hash u)"
  shows "authenticate_user verify H now r i f p s = (Inr Rejected, put_user (record_failed_login now u) s)"
    and "get_user_by_email (put_user (record_failed_login now u) s) (lg_email p) = Some (record_failed_login now u)"
proof -
  have open': "\<not> (case usr_locked_until u of None \<Rightarrow> False | Some t \<Rightarrow> t > now)"
    using assms(2) by (auto simp: unlocked_def split: option.splits)
  show "authenticate_user verify H now r i f p s = (Inr Rejected, put_user (record_failed_login now u) s)"
    unfolding authenticate_user_def assms(1) option.case if_not_P [OF open'] if_P [OF assms(3)] ..
  have "usr_email u = lg_email p" using assms(1) by (auto simp: get_user_by_email_def find_Some_iff)
  then show "get_user_by_email (put_user (record_failed_login now u) s) (lg_email p) = Some (record_failed_login now u)"
    using assms(1) unfolding get_user_by_email_def put_user_def
    by (simp add: find_put [where r = u] record_failed_login_def Let_def)
qed

text \<open>Attempts in a row with the passwords \<open>ps\<close>; the random values do not matter when none is accepted.\<close>

fun attempts :: "(string \<Rightarrow> string \<Rightarrow> bool) \<Rightarrow> (string \<Rightarrow> string) \<Rightarrow> (datetime \<times> login_request) list \<Rightarrow> db \<Rightarrow> db" where
  "attempts verify H [] s = s"
| "attempts verify H ((now, p) # ps) s = attempts verify H ps (snd (authenticate_user verify H now [] 0 0 p s))"

definition wrong_for :: "(string \<Rightarrow> string \<Rightarrow> bool) \<Rightarrow> user \<Rightarrow> login_request \<Rightarrow> bool" where
  "wrong_for verify u p \<longleftrightarrow> lg_email p = usr_email u \<and> \<not> verify (lg_password p) (usr_password_hash u)"

lemma failed_login_fields [simp]:
  "usr_email (record_failed_login now u) = usr_email u"
  "usr_password_hash (record_failed_login now u) = usr_password_hash u"
  by (simp_all add: record_failed_login_def Let_def)

lemma wrong_attempts_count:
  assumes "get_user_by_email s (usr_email u) = Some u" "usr_locked_until u = None"
    and "usr_failed_login_attempts u + int (length ps) < 5" "\<forall>(now, p) \<in> set ps. wrong_for verify u p"
  shows "get_user_by_email (attempts verify H ps s) (usr_email u) =
     Some (u\<lparr>usr_failed_login_attempts := usr_failed_login_attempts u + int (length ps)\<rparr>)"
  using assms
proof (induction ps arbitrary: s u)
  case (Cons a ps)
  obtain now p where a: "a = (now, p)" by force
  have w: "lg_email p = usr_email u" "\<not> verify (lg_password p) (usr_password_hash u)"
    using Cons.prems(4) a by (auto simp: wrong_for_def)
  let ?u1 = "u\<lparr>usr_failed_login_attempts := usr_failed_login_attempts u + 1\<rparr>"
  have u1: "record_failed_login now u = ?u1"
    using Cons.prems(3) by (simp add: record_failed_login_def login_max_attempts_def Let_def)
  have "unlocked now u" using Cons.prems(2) by (simp add: unlocked_def)
  note step = wrong_password_step(1) [of s p u now verify H "[]" 0 0, unfolded w(1), OF Cons.prems(1) this w(2)]
    wrong_password_step(2) [of s p u now verify, unfolded w(1), OF Cons.prems(1) this w(2)]
  have "get_user_by_email (attempts verify H ps (put_user ?u1 s)) (usr_email ?u1) =
     Some (?u1\<lparr>usr_failed_login_attempts := usr_failed_login_attempts ?u1 + int (length ps)\<rparr>)"
  proof (rule Cons.IH)
    show "get_user_by_email (put_user ?u1 s) (usr_email ?u1) = Some ?u1" using step(2) u1 by simp
    show "\<forall>(now, p) \<in> set ps. wrong_for verify ?u1 p"
      using Cons.prems(4) by (auto simp: wrong_for_def)
  qed (use Cons.prems in simp_all)
  with step(1) u1 a show ?case by (simp add: algebra_simps)
qed simp

text \<open>C15. Five wrong passwords lock the user: after any four wrong attempts from a clean counter and a fifth at
  time \<open>t\<close>, every attempt before \<open>t\<close> plus 15 minutes is rejected and changes nothing, also with the right
  password.\<close>

theorem lockout_after_five_failures:
  assumes "get_user_by_email s (usr_email u) = Some u" "usr_locked_until u = None" "usr_failed_login_attempts u = 0"
    and "length ps = 4" "\<forall>(now, p) \<in> set ps. wrong_for verify u p" "wrong_for verify u q"
    and "now < t + minutes 15" "lg_email p = usr_email u"
  shows "authenticate_user verify H now r i f p (attempts verify H (ps @ [(t, q)]) s) =
     (Inr Rejected, attempts verify H (ps @ [(t, q)]) s)"
proof -
  let ?u4 = "u\<lparr>usr_failed_login_attempts := 4\<rparr>" and ?s4 = "attempts verify H ps s"
  have app: "attempts verify H (xs @ [(t, q)]) s = snd (authenticate_user verify H t [] 0 0 q (attempts verify H xs s))" for xs s
    by (induction xs arbitrary: s) auto
  have u4: "get_user_by_email ?s4 (usr_email u) = Some ?u4"
    using wrong_attempts_count [OF assms(1,2) _ assms(5), of H] assms(3,4) by simp
  have q: "lg_email q = usr_email u" "\<not> verify (lg_password q) (usr_password_hash ?u4)"
    using assms(6) by (simp_all add: wrong_for_def)
  have "unlocked t ?u4" using assms(2) by (simp add: unlocked_def)
  note step = wrong_password_step(1) [of ?s4 q ?u4 t verify H "[]" 0 0, unfolded q(1), OF u4 this q(2)]
    wrong_password_step(2) [of ?s4 q ?u4 t verify, unfolded q(1), OF u4 this q(2)]
  have locked: "usr_locked_until (record_failed_login t ?u4) = Some (t + minutes 15)"
    by (simp add: record_failed_login_def settings_defs Let_def)
  have "get_user_by_email (attempts verify H (ps @ [(t, q)]) s) (lg_email p) = Some (record_failed_login t ?u4)"
    unfolding app step(1) snd_conv assms(8) by (rule step(2))
  with locked assms(7) show ?thesis by (simp add: authenticate_user_def)
qed

definition login_as :: "string \<Rightarrow> string \<Rightarrow> login_request" where
  "login_as e pw = \<lparr>lg_email = e, lg_password = pw, lg_account_id = None\<rparr>"

lemma lockout_after_five_failures_witness:
  "fst (authenticate_user (=) id 900 ''r'' 50 51 (login_as ''a@b'' ''pw'')
     (attempts (=) id ([(1, login_as ''a@b'' ''x''), (2, login_as ''a@b'' ''y''), (3, login_as ''a@b'' ''z''),
        (4, login_as ''a@b'' ''w'')] @ [(5, login_as ''a@b'' ''v'')]) auth_example)) = Inr Rejected"
proof -
  have u: "get_user_by_email auth_example (usr_email (demo_user 8 ''a@b'')) = Some (demo_user 8 ''a@b'')"
    by (simp add: get_user_by_email_def auth_example_def demo_user_def)
  show ?thesis
    by (subst lockout_after_five_failures [OF u])
      (simp_all add: demo_user_def login_as_def wrong_for_def timedelta_defs)
qed

section \<open>Password reset\<close>

text \<open>C16. A password reset cuts off everything issued before: after it succeeds, no access token of the user, for
  whatever session, passes the check of a request, and the same reset token does not work again once a
  second has passed since the last password change.\<close>

theorem reset_revokes_access:
  assumes "reset_password_with_token hash now (Some rc) pw s = (Inr (), s')"
    and "distinct (map usr_id (users s))"
  shows "(\<forall>claims now' grant. clm_user_id claims = rst_user_id rc \<longrightarrow>
            get_auth_context grant now' (Some claims) s' = Inl Unauthorized)
    \<and> (now div 1000000 \<noteq> rst_password_version rc \<longrightarrow>
         reset_password_with_token hash now2 (Some rc) pw2 s' = (Inl (ValueError ''INVALID_OR_EXPIRED_TOKEN''), s'))"
proof -
  obtain u where u: "get_user s (rst_user_id rc) = Some u"
    and s': "s' = snd (revoke_all_user_sessions now (usr_id u) (put_user (u\<lparr>usr_password_hash := hash pw,
        usr_password_changed_at := Some now, usr_failed_login_attempts := 0, usr_locked_until := None\<rparr>) s))"
    using assms(1) by (auto simp: reset_password_with_token_def split: if_splits option.splits)
  let ?u' = "u\<lparr>usr_password_hash := hash pw, usr_password_changed_at := Some now, usr_failed_login_attempts := 0,
      usr_locked_until := None\<rparr>"
  have id: "usr_id u = rst_user_id rc" using u by (rule user_rows.get_key)
  have users': "get_user s' i = get_user (put_user ?u' s) i" for i
    by (simp add: s' revoke_all_user_sessions_def get_user_def)
  have user': "get_user s' (rst_user_id rc) = Some ?u'"
    using u id by (simp add: users' user_rows.get_put)
  have sessions': "ses_revoked_at x \<noteq> None" if "get_session s' i = Some x" "ses_user_id x = rst_user_id rc" for i x
  proof -
    have "x \<in> set (refresh_sessions s')" using that(1) by (auto simp: get_session_def dest: tbl_get_mem)
    with that(2) id show ?thesis by (auto simp: s' revoke_all_user_sessions_def tbl_update_def)
  qed
  have "get_auth_context grant now' (Some claims) s' = Inl Unauthorized"
    if c: "clm_user_id claims = rst_user_id rc" for claims now' grant
  proof (cases "get_session s' (clm_session_id claims)")
    case None
    with c user' show ?thesis by (simp add: get_auth_context_def)
  next
    case (Some x)
    with sessions' [OF Some] c user' show ?thesis by (auto simp: get_auth_context_def)
  qed
  moreover have "reset_password_with_token hash now2 (Some rc) pw2 s' = (Inl (ValueError ''INVALID_OR_EXPIRED_TOKEN''), s')"
    if "now div 1000000 \<noteq> rst_password_version rc"
    using that user' by (simp add: reset_password_with_token_def password_version_def)
  ultimately show ?thesis by blast
qed

lemma reset_revokes_access_witness:
  "get_auth_context (\<lambda>_ _. True) 6000000 (Some (create_access_token 0 8 1 20 None))
     (snd (reset_password_with_token id 5000000 (Some (create_password_reset_token 0 8 None)) ''new'' auth_example))
   = Inl Unauthorized"
proof -
  have ok: "reset_password_with_token id 5000000 (Some (create_password_reset_token 0 8 None)) ''new'' auth_example =
     (Inr (), snd (reset_password_with_token id 5000000 (Some (create_password_reset_token 0 8 None)) ''new'' auth_example))"
    by code_simp
  show ?thesis
    using reset_revokes_access [OF ok]
    by (simp add: auth_example_def create_access_token_def create_password_reset_token_def)
qed

end
