(* ===== verification/Team.thy ===== *)
theory Team
  imports Auth
begin

text \<open>
  Employees and invitations (\<open>services/team.py\<close>) and the branches of an account
  (\<open>services/organizations.py\<close>).  A \<open>ValueError\<close> leaves the database as it was: the session is dropped
  without a commit.  A Python set of ids is the list of its elements in the order in which the query gave
  them.  The password hash is a parameter; an invitation token is the id it carries
  (\<open>create_invitation_token\<close> and \<open>decode_invitation_token\<close> sign and check it, \<open>None\<close> is their exception).
\<close>

section \<open>Branches\<close>

definition list_organizations :: "db \<Rightarrow> uuid \<Rightarrow> organization list" where
  "list_organizations s account_id = sort_key org_created_at (filter (\<lambda>o'. org_account_id o' = account_id) (organizations s))"

definition count_organization_members :: "db \<Rightarrow> uuid \<Rightarrow> int" where
  "count_organization_members s organization_id =
     int (length [(m, om). m \<leftarrow> memberships s, om \<leftarrow> organization_memberships s,
       om_membership_id om = mem_id m, om_organization_id om = organization_id, mem_status m = MembershipActive])"

definition count_organization_channels :: "db \<Rightarrow> uuid \<Rightarrow> int" where
  "count_organization_channels s organization_id =
     int (tbl_count (\<lambda>c. ch_organization_id c = organization_id \<and> ch_deleted_at c = None) (channels s))"

record organization_create =
  oc_name :: string
  oc_slug :: string
  oc_country_code :: string
  oc_currency_code :: string
  oc_timezone :: string
  oc_default_language :: string
  oc_max_users :: int
  oc_max_channels :: int
  oc_branch_admin_email :: "string option"

definition create_organization :: "datetime \<Rightarrow> uuid \<Rightarrow> uuid \<Rightarrow> organization_create \<Rightarrow> db \<Rightarrow> organization outcome \<times> db" where
  "create_organization now new_id account_id payload s =
     (case get_active_subscription now s account_id of
        None \<Rightarrow> (Inl (ValueError ''NO_ACTIVE_SUBSCRIPTION''), s)
      | Some (_, plan) \<Rightarrow>
          (let current_count = int (tbl_count (\<lambda>o'. org_account_id o' = account_id) (organizations s)) in
           if organization_limit_reached current_count (pl_max_organizations plan)
           then (Inl (ValueError ''ORGANIZATION_LIMIT_REACHED''), s)
           else if oc_branch_admin_email payload \<notin> {None, Some []} \<and> \<not> is_unlimited (oc_max_users payload)
             \<and> oc_max_users payload < 1
           then (Inl (ValueError ''ORG_USER_LIMIT_TOO_LOW_FOR_ADMIN''), s)
           else
             (let organization = \<lparr>org_id = new_id, org_account_id = account_id, org_name = oc_name payload,
                    org_slug = oc_slug payload, org_country_code = oc_country_code payload,
                    org_currency_code = oc_currency_code payload, org_timezone = oc_timezone payload,
                    org_default_language = oc_default_language payload, org_status = OrgActive,
                    org_max_users = oc_max_users payload, org_max_channels = oc_max_channels payload,
                    org_created_at = now\<rparr>
              in (Inr organization, s\<lparr>organizations := organizations s @ [organization]\<rparr>))))"

definition get_organization_for_account :: "db \<Rightarrow> uuid \<Rightarrow> uuid \<Rightarrow> organization option" where
  "get_organization_for_account s account_id organization_id =
     (case get_organization s organization_id of
        None \<Rightarrow> None
      | Some organization \<Rightarrow> if org_account_id organization \<noteq> account_id then None else Some organization)"

record organization_update =
  ou_max_users :: "int option"
  ou_max_channels :: "int option"
  ou_status :: "organization_status option"

text \<open>A cap is not set below what is in use.\<close>

definition new_cap :: "int option \<Rightarrow> int \<Rightarrow> int \<Rightarrow> string \<Rightarrow> int outcome" where
  "new_cap wanted current in_use code =
     (case wanted of
        None \<Rightarrow> Inr current
      | Some n \<Rightarrow> if \<not> is_unlimited n \<and> n < in_use then Inl (ValueError code) else Inr n)"

definition update_organization :: "organization \<Rightarrow> organization_update \<Rightarrow> db \<Rightarrow> organization outcome \<times> db" where
  "update_organization organization payload s =
     (case new_cap (ou_max_users payload) (org_max_users organization)
             (count_organization_members s (org_id organization)) ''ORG_USER_LIMIT_BELOW_CURRENT'' of
        Inl e \<Rightarrow> (Inl e, s)
      | Inr max_users \<Rightarrow>
          (case new_cap (ou_max_channels payload) (org_max_channels organization)
                  (count_organization_channels s (org_id organization)) ''ORG_CHANNEL_LIMIT_BELOW_CURRENT'' of
             Inl e \<Rightarrow> (Inl e, s)
           | Inr max_channels \<Rightarrow>
               (let organization' = organization\<lparr>org_max_users := max_users, org_max_channels := max_channels,
                      org_status := (case ou_status payload of None \<Rightarrow> org_status organization | Some st \<Rightarrow> st)\<rparr>
                in (Inr organization', put_organization organization' s))))"

section \<open>Who may manage whom\<close>

definition assignable_permissions_for_actor :: "membership_role \<Rightarrow> permission set option" where
  "assignable_permissions_for_actor actor_role =
     (if actor_role = OWNER \<or> actor_role = ADMIN then None
      else if actor_role = BRANCH_ADMIN then Some BRANCH_ADMIN_ASSIGNABLE_PERMISSIONS
      else if actor_role = MANAGER then Some MANAGER_ASSIGNABLE_PERMISSIONS
      else Some {})"

definition protected_roles_for_actor :: "membership_role \<Rightarrow> membership_role set" where
  "protected_roles_for_actor actor_role =
     (let protected = {OWNER, ADMIN};
          protected = (if actor_role = MANAGER then insert BRANCH_ADMIN protected else protected)
      in if actor_role = BRANCH_ADMIN then insert BRANCH_ADMIN protected else protected)"

definition max_assignable_role :: "membership_role \<Rightarrow> membership_role" where
  "max_assignable_role actor_role =
     (if actor_role = OWNER \<or> actor_role = ADMIN then ADMIN
      else if actor_role = BRANCH_ADMIN then MANAGER
      else MANAGER)"

definition assert_actor_can_manage_target ::
  "membership_role \<Rightarrow> uuid list \<Rightarrow> membership_role \<Rightarrow> uuid list \<Rightarrow> membership_role option \<Rightarrow> unit outcome" where
  "assert_actor_can_manage_target actor_role actor_org_ids target_role target_org_ids new_role =
     (let effective_role = (case new_role of None \<Rightarrow> target_role | Some r \<Rightarrow> r) in
      if actor_role = OWNER \<or> actor_role = ADMIN then Inr ()
      else if actor_role \<notin> set BRANCH_SCOPED_ROLES then Inl (ValueError ''FORBIDDEN'')
      else
        (let protected = protected_roles_for_actor actor_role in
         if target_role \<in> protected \<or> effective_role \<in> protected then Inl (ValueError ''FORBIDDEN'')
         else if ROLE_RANK effective_role > ROLE_RANK (max_assignable_role actor_role) then Inl (ValueError ''FORBIDDEN'')
         else if target_org_ids = [] \<or> \<not> set target_org_ids \<subseteq> set actor_org_ids then Inl (ValueError ''OUT_OF_SCOPE'')
         else Inr ()))"

definition validate_branch_scoped_assignment :: "membership_role \<Rightarrow> uuid list \<Rightarrow> unit outcome" where
  "validate_branch_scoped_assignment role organization_ids =
     (if role \<in> set BRANCH_SCOPED_ROLES \<and> organization_ids = [] then Inl (ValueError ''ORGANIZATION_REQUIRED'')
      else Inr ())"

definition validate_organization_ids :: "db \<Rightarrow> uuid \<Rightarrow> uuid list \<Rightarrow> uuid list outcome" where
  "validate_organization_ids s account_id organization_ids =
     (let valid_ids = map org_id (filter (\<lambda>o'. org_account_id o' = account_id \<and> org_id o' \<in> set organization_ids)
            (organizations s))
      in if set valid_ids \<noteq> set organization_ids then Inl (ValueError ''INVALID_ORGANIZATION'') else Inr (remdups valid_ids))"

definition apply_membership_channel_access ::
  "uuid \<Rightarrow> uuid \<Rightarrow> uuid list \<Rightarrow> uuid list option \<Rightarrow> db \<Rightarrow> db outcome" where
  "apply_membership_channel_access account_id membership_id organization_ids channel_ids s =
     (case channel_ids of
        None \<Rightarrow> Inr s
      | Some [] \<Rightarrow> Inr (replace_membership_channel_access membership_id [] s)
      | Some ids \<Rightarrow>
          (case validate_channel_ids s account_id (set organization_ids) ids of
             Inl e \<Rightarrow> Inl e
           | Inr valid \<Rightarrow> Inr (replace_membership_channel_access membership_id (remdups ids) s)))"

definition active_member_count :: "db \<Rightarrow> uuid \<Rightarrow> int" where
  "active_member_count s account_id =
     int (tbl_count (\<lambda>m. mem_account_id m = account_id \<and> mem_status m = MembershipActive) (memberships s))"

fun check_organization_capacity :: "db \<Rightarrow> uuid \<Rightarrow> uuid list \<Rightarrow> unit outcome" where
  "check_organization_capacity s account_id [] = Inr ()"
| "check_organization_capacity s account_id (i # is) =
     (case get_organization s i of
        None \<Rightarrow> Inl (ValueError ''INVALID_ORGANIZATION'')
      | Some organization \<Rightarrow>
          if org_account_id organization \<noteq> account_id then Inl (ValueError ''INVALID_ORGANIZATION'')
          else if is_unlimited (org_max_users organization) then check_organization_capacity s account_id is
          else if limit_reached (count_organization_members s i) (org_max_users organization)
            then Inl (ValueError ''ORG_USER_LIMIT_REACHED'')
          else check_organization_capacity s account_id is)"

text \<open>The join of memberships and users on the e-mail address.\<close>

definition email_is_member :: "db \<Rightarrow> uuid \<Rightarrow> string \<Rightarrow> bool" where
  "email_is_member s account_id email =
     list_ex (\<lambda>m. mem_account_id m = account_id \<and>
       (case get_user s (mem_user_id m) of None \<Rightarrow> False | Some u \<Rightarrow> usr_email u = email)) (memberships s)"

definition validate_new_member_capacity :: "datetime \<Rightarrow> db \<Rightarrow> uuid \<Rightarrow> string \<Rightarrow> uuid list \<Rightarrow> unit outcome" where
  "validate_new_member_capacity now s account_id email organization_ids =
     (case get_active_subscription now s account_id of
        None \<Rightarrow> Inl (ValueError ''NO_ACTIVE_SUBSCRIPTION'')
      | Some (_, plan) \<Rightarrow>
          if \<not> is_unlimited (pl_max_users plan) \<and> active_member_count s account_id \<ge> pl_max_users plan
          then Inl (ValueError ''USER_LIMIT_REACHED'')
          else (case check_organization_capacity s account_id organization_ids of
              Inl e \<Rightarrow> Inl e
            | Inr _ \<Rightarrow> if email_is_member s account_id email then Inl (ValueError ''ALREADY_MEMBER'') else Inr ()))"

section \<open>Invitations\<close>

record invite_request =
  iv_email :: string
  iv_role :: membership_role
  iv_organization_ids :: "uuid list"
  iv_channel_ids :: "uuid list"

definition close_stale_invitation :: "datetime \<Rightarrow> invitation \<Rightarrow> invitation" where
  "close_stale_invitation now i = i\<lparr>inv_status := (if inv_expires_at i \<le> now then InvExpired else InvRevoked)\<rparr>"

definition replace_invitation_channel_access :: "uuid \<Rightarrow> uuid list \<Rightarrow> db \<Rightarrow> db" where
  "replace_invitation_channel_access invitation_id channel_ids s =
     s\<lparr>invitation_channels := filter (\<lambda>a. ica_invitation_id a \<noteq> invitation_id) (invitation_channels s)
        @ map (\<lambda>c. \<lparr>ica_invitation_id = invitation_id, ica_channel_id = c\<rparr>) channel_ids\<rparr>"

text \<open>The checks of \<open>create_invitation\<close>, in order; the result is the validated organizations and channels.\<close>

definition invitation_checks :: "datetime \<Rightarrow> uuid \<Rightarrow> membership \<Rightarrow> invite_request \<Rightarrow> db \<Rightarrow> (uuid list \<times> uuid list) outcome" where
  "invitation_checks now account_id actor payload s =
     (let actor_org_ids = list_membership_organization_ids s (mem_id actor) in
      case assert_actor_can_manage_target (mem_role actor) actor_org_ids (iv_role payload) (iv_organization_ids payload) None of
        Inl e \<Rightarrow> Inl e
      | Inr _ \<Rightarrow>
     (case validate_branch_scoped_assignment (iv_role payload) (iv_organization_ids payload) of
        Inl e \<Rightarrow> Inl e
      | Inr _ \<Rightarrow>
     (if mem_role actor \<in> set BRANCH_SCOPED_ROLES \<and> \<not> set (iv_organization_ids payload) \<subseteq> set actor_org_ids
      then Inl (ValueError ''OUT_OF_SCOPE'')
      else (case validate_new_member_capacity now s account_id (iv_email payload) (iv_organization_ids payload) of
        Inl e \<Rightarrow> Inl e
      | Inr _ \<Rightarrow>
     (case validate_organization_ids s account_id (iv_organization_ids payload) of
        Inl e \<Rightarrow> Inl e
      | Inr valid_ids \<Rightarrow>
     (case validate_channel_ids s account_id (set valid_ids) (iv_channel_ids payload) of
        Inl e \<Rightarrow> Inl e
      | Inr _ \<Rightarrow> Inr (valid_ids, remdups (iv_channel_ids payload))))))))"

definition create_invitation :: "datetime \<Rightarrow> uuid \<Rightarrow> uuid \<Rightarrow> uuid \<Rightarrow> membership \<Rightarrow> invite_request \<Rightarrow> db \<Rightarrow>
    (invitation \<times> uuid) outcome \<times> db" where
  "create_invitation now new_id account_id invited_by_user_id actor payload s =
     (case invitation_checks now account_id actor payload s of
        Inl e \<Rightarrow> (Inl e, s)
      | Inr (valid_ids, channel_ids) \<Rightarrow>
          (let invitation = \<lparr>inv_id = new_id, inv_account_id = account_id, inv_email = iv_email payload,
                 inv_role = iv_role payload, inv_invited_by_user_id = invited_by_user_id,
                 inv_expires_at = now + hours invitation_token_expire_hours, inv_status = InvPending,
                 inv_accepted_at = None\<rparr>;
               s1 = s\<lparr>invitations := tbl_update (\<lambda>i. inv_account_id i = account_id \<and> inv_email i = iv_email payload
                        \<and> inv_status i = InvPending) (close_stale_invitation now) (invitations s) @ [invitation],
                      invitation_organizations := invitation_organizations s
                        @ map (\<lambda>o'. \<lparr>io_invitation_id = new_id, io_organization_id = o'\<rparr>) valid_ids\<rparr>;
               s2 = (if channel_ids = [] then s1 else replace_invitation_channel_access new_id channel_ids s1)
           in (Inr (invitation, new_id), s2)))"

record accept_request =
  ac_token :: "uuid option"
  ac_full_name :: string
  ac_password :: string
  ac_preferred_language :: string

text \<open>The user that accepts: a new one, or the existing one with the fields that are overwritten.\<close>

definition invited_user :: "(string \<Rightarrow> string) \<Rightarrow> uuid \<Rightarrow> accept_request \<Rightarrow> string \<Rightarrow> user option \<Rightarrow> user" where
  "invited_user hash_password new_user_id payload email user =
     (case user of
        None \<Rightarrow> \<lparr>usr_id = new_user_id, usr_email = email, usr_full_name = ac_full_name payload,
          usr_password_hash = hash_password (ac_password payload),
          usr_preferred_language = ac_preferred_language payload, usr_is_super_admin = False,
          usr_failed_login_attempts = 0, usr_locked_until = None, usr_password_changed_at = None,
          usr_status = UserActive\<rparr>
      | Some u0 \<Rightarrow> u0\<lparr>usr_full_name := py_strip (ac_full_name payload),
          usr_password_hash := hash_password (ac_password payload),
          usr_preferred_language := ac_preferred_language payload, usr_status := UserActive\<rparr>)"

definition store_invited_user :: "user option \<Rightarrow> user \<Rightarrow> db \<Rightarrow> db" where
  "store_invited_user user u s = (case user of None \<Rightarrow> s\<lparr>users := users s @ [u]\<rparr> | Some _ \<Rightarrow> put_user u s)"

definition join_account :: "membership \<Rightarrow> uuid list \<Rightarrow> uuid \<Rightarrow> db \<Rightarrow> db" where
  "join_account m organization_ids invitation_id s =
     (let s1 = s\<lparr>memberships := memberships s @ [m],
            organization_memberships := organization_memberships s
              @ map (\<lambda>o'. \<lparr>om_organization_id = o', om_membership_id = mem_id m\<rparr>) organization_ids\<rparr>;
          chans = map ica_channel_id (filter (\<lambda>a. ica_invitation_id a = invitation_id) (invitation_channels s1))
      in if chans = [] then s1 else replace_membership_channel_access (mem_id m) (remdups chans) s1)"

definition accept_invitation :: "(string \<Rightarrow> string) \<Rightarrow> datetime \<Rightarrow> uuid \<Rightarrow> uuid \<Rightarrow> accept_request \<Rightarrow> db \<Rightarrow>
    (user \<times> membership \<times> uuid list) outcome \<times> db" where
  "accept_invitation hash_password now new_user_id new_membership_id payload s =
     (case ac_token payload of
        None \<Rightarrow> (Inl (OtherError ''InvalidTokenError''), s)
      | Some invitation_id \<Rightarrow>
     (case get_invitation s invitation_id of
        None \<Rightarrow> (Inl (ValueError ''INVALID_INVITATION''), s)
      | Some invitation \<Rightarrow>
     if inv_status invitation \<noteq> InvPending \<or> inv_expires_at invitation \<le> now
     then (Inl (ValueError ''INVALID_INVITATION''), s)
     else
       (let user = get_user_by_email s (inv_email invitation) in
        if (case user of None \<Rightarrow> False | Some u \<Rightarrow>
              list_ex (\<lambda>m. mem_account_id m = inv_account_id invitation \<and> mem_user_id m = usr_id u) (memberships s))
        then (Inl (ValueError ''ALREADY_MEMBER''), s)
        else
          (let organization_ids = map io_organization_id
                 (filter (\<lambda>o'. io_invitation_id o' = inv_id invitation) (invitation_organizations s)) in
           case validate_new_member_capacity now s (inv_account_id invitation) (inv_email invitation) organization_ids of
             Inl e \<Rightarrow> (Inl e, s)
           | Inr _ \<Rightarrow>
               (let u = invited_user hash_password new_user_id payload (inv_email invitation) user;
                    m = \<lparr>mem_id = new_membership_id, mem_account_id = inv_account_id invitation, mem_user_id = usr_id u,
                      mem_role = inv_role invitation, mem_status = MembershipActive, mem_custom_permissions = None,
                      mem_created_at = now\<rparr>;
                    s1 = join_account m organization_ids (inv_id invitation) (store_invited_user user u s)
                in (Inr (u, m, organization_ids),
                    put_invitation (invitation\<lparr>inv_status := InvAccepted, inv_accepted_at := Some now\<rparr>) s1))))))"

section \<open>Employees\<close>

record create_employee_request =
  ce_email :: string
  ce_full_name :: string
  ce_password :: string
  ce_role :: membership_role
  ce_organization_ids :: "uuid list"
  ce_channel_ids :: "uuid list"
  ce_preferred_language :: string
  ce_permissions :: "string list option"

text \<open>The assignment of custom permissions that \<open>create_employee\<close> and \<open>update_employee\<close> share.\<close>

definition requested_permissions ::
  "membership_role \<Rightarrow> membership_role \<Rightarrow> string list \<Rightarrow> string list option outcome" where
  "requested_permissions actor_role role permissions =
     (if permissions = [] then Inr None
      else (case validate_custom_permissions_for_role role permissions (assignable_permissions_for_actor actor_role) of
          Inl e \<Rightarrow> Inl e
        | Inr stored \<Rightarrow> Inr (Some stored)))"

definition employee_checks :: "datetime \<Rightarrow> uuid \<Rightarrow> membership \<Rightarrow> create_employee_request \<Rightarrow> db \<Rightarrow> uuid list outcome" where
  "employee_checks now account_id actor payload s =
     (let actor_org_ids = list_membership_organization_ids s (mem_id actor) in
      case assert_actor_can_manage_target (mem_role actor) actor_org_ids (ce_role payload) (ce_organization_ids payload) None of
        Inl e \<Rightarrow> Inl e
      | Inr _ \<Rightarrow>
     (case validate_branch_scoped_assignment (ce_role payload) (ce_organization_ids payload) of
        Inl e \<Rightarrow> Inl e
      | Inr _ \<Rightarrow>
     (case validate_new_member_capacity now s account_id (ce_email payload) (ce_organization_ids payload) of
        Inl e \<Rightarrow> Inl e
      | Inr _ \<Rightarrow>
     (case validate_organization_ids s account_id (ce_organization_ids payload) of
        Inl e \<Rightarrow> Inl e
      | Inr valid_ids \<Rightarrow>
          if get_user_by_email s (ce_email payload) \<noteq> None then Inl (ValueError ''EMAIL_ALREADY_REGISTERED'')
          else Inr valid_ids))))"

definition create_employee :: "(string \<Rightarrow> string) \<Rightarrow> datetime \<Rightarrow> uuid \<Rightarrow> uuid \<Rightarrow> uuid \<Rightarrow> membership \<Rightarrow>
    create_employee_request \<Rightarrow> db \<Rightarrow> (membership \<times> user \<times> uuid list) outcome \<times> db" where
  "create_employee hash_password now new_user_id new_membership_id account_id actor payload s =
     (case employee_checks now account_id actor payload s of
        Inl e \<Rightarrow> (Inl e, s)
      | Inr valid_ids \<Rightarrow>
     (case (case ce_permissions payload of None \<Rightarrow> Inr None
            | Some ps \<Rightarrow> requested_permissions (mem_role actor) (ce_role payload) ps) of
        Inl e \<Rightarrow> (Inl e, s)
      | Inr custom \<Rightarrow>
          (let u = \<lparr>usr_id = new_user_id, usr_email = ce_email payload, usr_full_name = py_strip (ce_full_name payload),
                 usr_password_hash = hash_password (ce_password payload),
                 usr_preferred_language = ce_preferred_language payload, usr_is_super_admin = False,
                 usr_failed_login_attempts = 0, usr_locked_until = None, usr_password_changed_at = None,
                 usr_status = UserActive\<rparr>;
               m = \<lparr>mem_id = new_membership_id, mem_account_id = account_id, mem_user_id = new_user_id,
                 mem_role = ce_role payload, mem_status = MembershipActive, mem_custom_permissions = custom,
                 mem_created_at = now\<rparr>;
               s1 = s\<lparr>users := users s @ [u], memberships := memberships s @ [m],
                 organization_memberships := organization_memberships s
                   @ map (\<lambda>o'. \<lparr>om_organization_id = o', om_membership_id = new_membership_id\<rparr>) valid_ids\<rparr>
           in (case apply_membership_channel_access account_id new_membership_id valid_ids (Some (ce_channel_ids payload)) s1 of
                 Inl e \<Rightarrow> (Inl e, s)
               | Inr s2 \<Rightarrow> (Inr (m, u, valid_ids), s2)))))"

definition list_employees :: "db \<Rightarrow> uuid \<Rightarrow> membership option \<Rightarrow> (membership \<times> user \<times> uuid list) list" where
  "list_employees s account_id actor_membership =
     (let rows = sort_key (\<lambda>(m, u). mem_created_at m)
            (List.map_filter (\<lambda>m. map_option (Pair m) (get_user s (mem_user_id m)))
              (filter (\<lambda>m. mem_account_id m = account_id) (memberships s)));
          visible = (\<lambda>m. case actor_membership of
              None \<Rightarrow> True
            | Some actor \<Rightarrow>
                if mem_role actor \<notin> set BRANCH_SCOPED_ROLES then True
                else if mem_role m = OWNER \<or> mem_role m = ADMIN then False
                else if mem_role actor = MANAGER \<and> mem_role m = BRANCH_ADMIN then False
                else if mem_role actor = BRANCH_ADMIN \<and> mem_role m = BRANCH_ADMIN \<and> mem_id m \<noteq> mem_id actor then False
                else set (list_membership_organization_ids s (mem_id m))
                       \<inter> set (list_membership_organization_ids s (mem_id actor)) \<noteq> {})
      in map (\<lambda>(m, u). (m, u, list_membership_organization_ids s (mem_id m))) (filter (\<lambda>(m, u). visible m) rows))"

record employee_update =
  eu_role :: "membership_role option"
  eu_status :: "membership_status option"
  eu_organization_ids :: "uuid list option"
  eu_channel_ids :: "uuid list option"
  eu_permissions :: "string list option"

definition active_owner_count :: "db \<Rightarrow> uuid \<Rightarrow> int" where
  "active_owner_count s account_id = int (tbl_count (\<lambda>m. mem_account_id m = account_id \<and> mem_role m = OWNER
     \<and> mem_status m = MembershipActive) (memberships s))"

text \<open>\<open>DELETE\<close> the memberships of the branches and add the new ones.\<close>

definition replace_organizations :: "uuid \<Rightarrow> uuid list \<Rightarrow> db \<Rightarrow> db" where
  "replace_organizations membership_id ids s =
     s\<lparr>organization_memberships := filter (\<lambda>o'. om_membership_id o' \<noteq> membership_id) (organization_memberships s)
        @ map (\<lambda>o'. \<lparr>om_organization_id = o', om_membership_id = membership_id\<rparr>) ids\<rparr>"

definition update_employee_organizations :: "uuid \<Rightarrow> uuid \<Rightarrow> membership_role \<Rightarrow> uuid list \<Rightarrow> uuid list option \<Rightarrow> db \<Rightarrow>
    (db \<times> uuid list) outcome" where
  "update_employee_organizations account_id membership_id actor_role actor_org_ids organization_ids s =
     (case organization_ids of
        None \<Rightarrow> Inr (s, list_membership_organization_ids s membership_id)
      | Some ids \<Rightarrow>
          if actor_role \<in> set BRANCH_SCOPED_ROLES \<and> \<not> set ids \<subseteq> set actor_org_ids then Inl (ValueError ''OUT_OF_SCOPE'')
          else (case validate_organization_ids s account_id ids of
              Inl e \<Rightarrow> Inl e
            | Inr valid_ids \<Rightarrow> Inr (replace_organizations membership_id valid_ids s, valid_ids)))"

definition update_employee_channels :: "uuid \<Rightarrow> uuid \<Rightarrow> membership_role \<Rightarrow> uuid list \<Rightarrow> uuid list \<Rightarrow> uuid list option \<Rightarrow>
    db \<Rightarrow> db outcome" where
  "update_employee_channels account_id membership_id actor_role actor_org_ids target_org_ids channel_ids s =
     (case channel_ids of
        None \<Rightarrow> Inr s
      | Some ids \<Rightarrow>
          if actor_role \<in> set BRANCH_SCOPED_ROLES \<and> \<not> set target_org_ids \<subseteq> set actor_org_ids
          then Inl (ValueError ''OUT_OF_SCOPE'')
          else apply_membership_channel_access account_id membership_id target_org_ids (Some ids) s)"

definition update_employee_permissions :: "membership_role \<Rightarrow> membership_role \<Rightarrow> employee_update \<Rightarrow> membership \<Rightarrow>
    membership outcome" where
  "update_employee_permissions actor_role previous_role payload m =
     (case eu_permissions payload of
        Some ps \<Rightarrow>
          (case requested_permissions actor_role
                  (case eu_role payload of None \<Rightarrow> mem_role m | Some r \<Rightarrow> r) ps of
             Inl e \<Rightarrow> Inl e
           | Inr custom \<Rightarrow> Inr (m\<lparr>mem_custom_permissions := custom\<rparr>))
      | None \<Rightarrow>
          if eu_role payload \<noteq> None \<and> eu_role payload \<noteq> Some previous_role
          then Inr (m\<lparr>mem_custom_permissions := None\<rparr>) else Inr m)"

text \<open>The row of the acting membership is loaded in the same session: when the actor edits itself, the
  assignment \<open>membership.role = payload.role\<close> also changes \<open>actor_membership.role\<close>, which is read again by
  the later checks.\<close>

definition actor_role_now :: "membership \<Rightarrow> membership \<Rightarrow> membership_role" where
  "actor_role_now actor edited = (if mem_id edited = mem_id actor then mem_role edited else mem_role actor)"

definition update_employee :: "uuid \<Rightarrow> uuid \<Rightarrow> membership \<Rightarrow> employee_update \<Rightarrow> db \<Rightarrow>
    (membership \<times> user option \<times> uuid list) outcome \<times> db" where
  "update_employee account_id membership_id actor payload s =
     (case get_membership s membership_id of
        None \<Rightarrow> (Inl (ValueError ''EMPLOYEE_NOT_FOUND''), s)
      | Some m \<Rightarrow>
     if mem_account_id m \<noteq> account_id then (Inl (ValueError ''EMPLOYEE_NOT_FOUND''), s)
     else
       (let actor_org_ids = list_membership_organization_ids s (mem_id actor);
            target_org_ids = list_membership_organization_ids s (mem_id m) in
        case assert_actor_can_manage_target (mem_role actor) actor_org_ids (mem_role m) target_org_ids (eu_role payload) of
          Inl e \<Rightarrow> (Inl e, s)
        | Inr _ \<Rightarrow>
       if mem_id m = mem_id actor \<and> eu_status payload = Some MembershipSuspended
       then (Inl (ValueError ''CANNOT_SUSPEND_SELF''), s)
       else if mem_role m = OWNER \<and> eu_role payload \<notin> {None, Some OWNER} \<and> active_owner_count s account_id \<le> 1
       then (Inl (ValueError ''LAST_OWNER''), s)
       else
         (let m1 = m\<lparr>mem_role := (case eu_role payload of None \<Rightarrow> mem_role m | Some r \<Rightarrow> r),
                mem_status := (case eu_status payload of None \<Rightarrow> mem_status m | Some st \<Rightarrow> st)\<rparr>;
              actor_role = actor_role_now actor m1 in
          case update_employee_organizations account_id (mem_id m) actor_role actor_org_ids (eu_organization_ids payload) s of
            Inl e \<Rightarrow> (Inl e, s)
          | Inr (s1, target_org_ids1) \<Rightarrow>
         (case update_employee_channels account_id (mem_id m) actor_role actor_org_ids target_org_ids1
                 (eu_channel_ids payload) s1 of
            Inl e \<Rightarrow> (Inl e, s)
          | Inr s2 \<Rightarrow>
         (case update_employee_permissions actor_role (mem_role m) payload m1 of
            Inl e \<Rightarrow> (Inl e, s)
          | Inr m2 \<Rightarrow>
         (case validate_branch_scoped_assignment (mem_role m2) target_org_ids1 of
            Inl e \<Rightarrow> (Inl e, s)
          | Inr _ \<Rightarrow>
              (let s3 = put_membership m2 s2
               in (Inr (m2, get_user s3 (mem_user_id m2), list_membership_organization_ids s3 (mem_id m2)), s3))))))))"

definition set_employee_password :: "(string \<Rightarrow> string) \<Rightarrow> datetime \<Rightarrow> uuid \<Rightarrow> uuid \<Rightarrow> membership \<Rightarrow> string \<Rightarrow> db \<Rightarrow>
    user outcome \<times> db" where
  "set_employee_password hash_password now account_id membership_id actor password s =
     (case get_membership s membership_id of
        None \<Rightarrow> (Inl (ValueError ''EMPLOYEE_NOT_FOUND''), s)
      | Some m \<Rightarrow>
     if mem_account_id m \<noteq> account_id then (Inl (ValueError ''EMPLOYEE_NOT_FOUND''), s)
     else
       (case assert_actor_can_manage_target (mem_role actor) (list_membership_organization_ids s (mem_id actor))
               (mem_role m) (list_membership_organization_ids s (mem_id m)) None of
          Inl e \<Rightarrow> (Inl e, s)
        | Inr _ \<Rightarrow>
       if mem_role m = OWNER \<and> mem_role actor \<noteq> OWNER then (Inl (ValueError ''FORBIDDEN''), s)
       else
         (case get_user s (mem_user_id m) of
            None \<Rightarrow> (Inl (ValueError ''EMPLOYEE_NOT_FOUND''), s)
          | Some u \<Rightarrow>
              (let u' = u\<lparr>usr_password_hash := hash_password password, usr_password_changed_at := Some now,
                     usr_failed_login_attempts := 0, usr_locked_until := None\<rparr>
               in (Inr u', snd (revoke_all_user_sessions now (usr_id u') (put_user u' s)))))))"

section \<open>Authority\<close>

lemma managed_by_branch_role:
  assumes "assert_actor_can_manage_target actor_role actor_orgs target_role target_orgs new_role = Inr ()"
    and "actor_role \<notin> {OWNER, ADMIN}"
  shows "actor_role \<in> {MANAGER, BRANCH_ADMIN}" "target_role \<in> {MANAGER, AGENT, VIEWER}"
    "(case new_role of None \<Rightarrow> target_role | Some r \<Rightarrow> r) \<in> {MANAGER, AGENT, VIEWER}"
    "target_orgs \<noteq> []" "set target_orgs \<subseteq> set actor_orgs"
proof -
  let ?eff = "case new_role of None \<Rightarrow> target_role | Some r \<Rightarrow> r"
  have a: "actor_role \<in> {MANAGER, BRANCH_ADMIN}" "target_role \<notin> protected_roles_for_actor actor_role"
      "?eff \<notin> protected_roles_for_actor actor_role" "target_orgs \<noteq> []" "set target_orgs \<subseteq> set actor_orgs"
    using assms
    by (auto simp: assert_actor_can_manage_target_def Let_def BRANCH_SCOPED_ROLES_def split: if_splits)
  have p: "protected_roles_for_actor actor_role = {OWNER, ADMIN, BRANCH_ADMIN}"
    using a(1) by (auto simp: protected_roles_for_actor_def Let_def)
  have three: "r \<in> {MANAGER, AGENT, VIEWER}" if "r \<notin> {OWNER, ADMIN, BRANCH_ADMIN}" for r
    using that by (cases r) auto
  show "actor_role \<in> {MANAGER, BRANCH_ADMIN}" "target_orgs \<noteq> []" "set target_orgs \<subseteq> set actor_orgs"
    using a by simp_all
  show "target_role \<in> {MANAGER, AGENT, VIEWER}" by (rule three) (use a(2) p in simp)
  show "?eff \<in> {MANAGER, AGENT, VIEWER}" by (rule three) (use a(3) p in simp)
qed

lemma replace_organizations_frame [simp]:
  "memberships (replace_organizations k ids s) = memberships s"
  "organizations (replace_organizations k ids s) = organizations s"
  "users (replace_organizations k ids s) = users s"
  by (simp_all add: replace_organizations_def)

lemma replace_channels_frame [simp]:
  "memberships (replace_membership_channel_access k ids s) = memberships s"
  "organization_memberships (replace_membership_channel_access k ids s) = organization_memberships s"
  "users (replace_membership_channel_access k ids s) = users s"
  "invitations (replace_membership_channel_access k ids s) = invitations s"
  by (simp_all add: replace_membership_channel_access_def)

lemma list_organizations_replace [simp]:
  "list_membership_organization_ids (replace_organizations k ids s) j =
     (if j = k then ids else list_membership_organization_ids s j)"
proof -
  have "map om_organization_id (filter (\<lambda>o'. om_membership_id o' = j)
      (map (\<lambda>o'. \<lparr>om_organization_id = o', om_membership_id = k\<rparr>) ids)) = (if j = k then ids else [])"
    by (induction ids) auto
  moreover have "filter (\<lambda>o'. om_membership_id o' = j) (filter (\<lambda>o'. om_membership_id o' \<noteq> k) xs) =
      (if j = k then [] else filter (\<lambda>o'. om_membership_id o' = j) xs)" for xs :: "organization_membership list"
    by (induction xs) auto
  ultimately show ?thesis
    by (simp add: list_membership_organization_ids_def replace_organizations_def)
qed

lemma apply_channels_frame:
  assumes "apply_membership_channel_access a k orgs ch s = Inr s'"
  shows "memberships s' = memberships s" "organization_memberships s' = organization_memberships s"
    "users s' = users s"
  using assms by (auto simp: apply_membership_channel_access_def split: option.splits list.splits sum.splits)

lemma update_channels_frame:
  assumes "update_employee_channels a k r ao to ch s = Inr s'"
  shows "memberships s' = memberships s" "organization_memberships s' = organization_memberships s"
    "users s' = users s"
  using assms apply_channels_frame
  by (auto simp: update_employee_channels_def split: option.splits if_splits)

lemma update_permissions_fields:
  assumes "update_employee_permissions r pr payload m = Inr m'"
  shows "mem_id m' = mem_id m" "mem_role m' = mem_role m" "mem_status m' = mem_status m"
    "mem_account_id m' = mem_account_id m" "mem_user_id m' = mem_user_id m"
  using assms by (auto simp: update_employee_permissions_def split: option.splits sum.splits if_splits)

lemma update_organizations_result:
  assumes "update_employee_organizations a k r ao ids s = Inr (s', to)"
  shows "memberships s' = memberships s" "users s' = users s"
    "set (list_membership_organization_ids s' k) = set to"
    "ids = None \<Longrightarrow> to = list_membership_organization_ids s k"
    "ids \<noteq> None \<Longrightarrow> r \<in> set BRANCH_SCOPED_ROLES \<Longrightarrow> set to \<subseteq> set ao"
  using assms
  by (auto simp: update_employee_organizations_def validate_organization_ids_def Let_def
      split: option.splits if_splits sum.splits)

lemma list_organizations_put [simp]:
  "list_membership_organization_ids (put_membership r s) j = list_membership_organization_ids s j"
  by (simp add: list_membership_organization_ids_def put_membership_def)

text \<open>The shape of a successful update.\<close>

lemma update_employee_success:
  assumes "update_employee a k actor payload s = (Inr (m', u, orgs), s')"
  obtains m s1 s2 to where "get_membership s k = Some m" "mem_id m = k" "mem_account_id m = a"
    "assert_actor_can_manage_target (mem_role actor) (list_membership_organization_ids s (mem_id actor)) (mem_role m)
       (list_membership_organization_ids s k) (eu_role payload) = Inr ()"
    "\<not> (mem_role m = OWNER \<and> eu_role payload \<notin> {None, Some OWNER} \<and> active_owner_count s a \<le> 1)"
    "update_employee_organizations a k
       (actor_role_now actor m')
       (list_membership_organization_ids s (mem_id actor)) (eu_organization_ids payload) s = Inr (s1, to)"
    "memberships s2 = memberships s" "set (list_membership_organization_ids s2 k) = set to"
    "s' = put_membership m' s2" "mem_id m' = k" "mem_account_id m' = a" "mem_user_id m' = mem_user_id m"
    "mem_role m' = (case eu_role payload of None \<Rightarrow> mem_role m | Some r \<Rightarrow> r)"
    "mem_status m' = (case eu_status payload of None \<Rightarrow> mem_status m | Some st \<Rightarrow> st)"
proof -
  obtain m where m: "get_membership s k = Some m" "mem_account_id m = a"
    using assms by (auto simp: update_employee_def split: option.splits if_splits)
  have id: "mem_id m = k" using m(1) by (rule membership_rows.get_key)
  let ?ao = "list_membership_organization_ids s (mem_id actor)"
  let ?role = "case eu_role payload of None \<Rightarrow> mem_role m | Some r \<Rightarrow> r"
  let ?m1 = "m\<lparr>mem_role := ?role, mem_status := (case eu_status payload of None \<Rightarrow> mem_status m | Some st \<Rightarrow> st)\<rparr>"
  define ar where "ar = actor_role_now actor ?m1"
  note upd = assms [unfolded update_employee_def m(1) option.case id Let_def, simplified m(2), simplified, folded ar_def]
  have chk: "assert_actor_can_manage_target (mem_role actor) ?ao (mem_role m)
       (list_membership_organization_ids s k) (eu_role payload) = Inr ()"
    using upd by (auto split: sum.splits)
  note upd = upd [unfolded chk]
  have own: "\<not> (mem_role m = OWNER \<and> eu_role payload \<notin> {None, Some OWNER} \<and> active_owner_count s a \<le> 1)"
    using upd by (auto split: if_splits)
  obtain s1 to where o1: "update_employee_organizations a k ar ?ao (eu_organization_ids payload) s = Inr (s1, to)"
    using upd by (auto split: if_splits sum.splits)
  note upd = upd [unfolded sum.case o1]
  obtain s2 where o2: "update_employee_channels a k ar ?ao to (eu_channel_ids payload) s1 = Inr s2"
    using upd by (auto split: if_splits sum.splits)
  note upd = upd [unfolded sum.case prod.case o2]
  have o3: "update_employee_permissions ar (mem_role m) payload ?m1 = Inr m'" "s' = put_membership m' s2"
    using upd by (auto split: if_splits sum.splits)
  note f1 = update_organizations_result [OF o1] and f2 = update_channels_frame [OF o2]
    and f3 = update_permissions_fields [OF o3(1)]
  have "set (list_membership_organization_ids s2 k) = set to"
    using f1(3) f2(2) by (simp add: list_membership_organization_ids_def)
  moreover have "ar = actor_role_now actor m'"
    using f3 id by (simp add: ar_def actor_role_now_def)
  ultimately show ?thesis
    using that [OF m(1) id m(2) chk own] o1 f1 f2 f3 o3(2) id m(2) by simp
qed

text \<open>The authority of a branch role: when somebody who is neither owner nor admin updates an employee, the
  actor is a manager or a branch admin, the employee was and stays a manager, agent or viewer, all
  branches the employee had are branches of the actor, nobody else's membership changes, and an employee
  other than the actor ends in branches of the actor.\<close>

theorem branch_actor_authority:
  assumes "update_employee a k actor payload s = (Inr (m', u, orgs), s')"
    and "mem_role actor \<notin> {OWNER, ADMIN}"
  shows "mem_role actor \<in> {MANAGER, BRANCH_ADMIN} \<and>
    (\<exists>m. get_membership s k = Some m \<and> mem_role m \<in> {MANAGER, AGENT, VIEWER}) \<and>
    mem_role m' \<in> {MANAGER, AGENT, VIEWER} \<and> get_membership s' k = Some m' \<and>
    set (list_membership_organization_ids s k) \<subseteq> set (list_membership_organization_ids s (mem_id actor)) \<and>
    (\<forall>j. j \<noteq> k \<longrightarrow> get_membership s' j = get_membership s j) \<and>
    (k \<noteq> mem_id actor \<longrightarrow>
       set (list_membership_organization_ids s' k) \<subseteq> set (list_membership_organization_ids s (mem_id actor)))"
proof -
  obtain m s1 s2 to where
    m: "get_membership s k = Some m" "mem_id m = k" "mem_account_id m = a" and
    chk: "assert_actor_can_manage_target (mem_role actor) (list_membership_organization_ids s (mem_id actor)) (mem_role m)
       (list_membership_organization_ids s k) (eu_role payload) = Inr ()" and
    "\<not> (mem_role m = OWNER \<and> eu_role payload \<notin> {None, Some OWNER} \<and> active_owner_count s a \<le> 1)" and
    o1: "update_employee_organizations a k (actor_role_now actor m') (list_membership_organization_ids s (mem_id actor))
       (eu_organization_ids payload) s = Inr (s1, to)" and
    s2: "memberships s2 = memberships s" "set (list_membership_organization_ids s2 k) = set to" and
    s': "s' = put_membership m' s2" and
    m': "mem_id m' = k" "mem_account_id m' = a" "mem_user_id m' = mem_user_id m"
    "mem_role m' = (case eu_role payload of None \<Rightarrow> mem_role m | Some r \<Rightarrow> r)"
    "mem_status m' = (case eu_status payload of None \<Rightarrow> mem_status m | Some st \<Rightarrow> st)"
    by (rule update_employee_success [OF assms(1)])
  note auth = managed_by_branch_role [OF chk assms(2)]
  have get2: "get_membership s2 j = get_membership s j" for j
    by (simp add: get_membership_def s2(1))
  have orgs': "list_membership_organization_ids s' k = list_membership_organization_ids s2 k"
    by (simp add: s' list_membership_organization_ids_def put_membership_def)
  have new: "set to \<subseteq> set (list_membership_organization_ids s (mem_id actor))" if "k \<noteq> mem_id actor"
  proof (cases "eu_organization_ids payload = None")
    case True
    with update_organizations_result(4) [OF o1] auth(5) show ?thesis by simp
  next
    case False
    have "actor_role_now actor m' = mem_role actor" using that m'(1) by (simp add: actor_role_now_def)
    then have "actor_role_now actor m' \<in> set BRANCH_SCOPED_ROLES" using auth(1) by (auto simp: BRANCH_SCOPED_ROLES_def)
    with update_organizations_result(5) [OF o1 False] show ?thesis by simp
  qed
  have frame: "get_membership s' j = get_membership s j" if "j \<noteq> k" for j
    using that m'(1) by (simp add: s' membership_rows.get_put get2)
  have "get_membership s' k = Some m'"
    using m m'(1) by (simp add: s' membership_rows.get_put get2)
  moreover have "mem_role m' \<in> {MANAGER, AGENT, VIEWER}" using auth(3) m'(4) by simp
  moreover have "\<exists>m. get_membership s k = Some m \<and> mem_role m \<in> {MANAGER, AGENT, VIEWER}" using m(1) auth(2) by blast
  ultimately show ?thesis using auth(1,5) frame new s2(2) orgs' by simp
qed

definition demo_member :: "uuid \<Rightarrow> membership_role \<Rightarrow> membership" where
  "demo_member i role = \<lparr>mem_id = i, mem_account_id = 1, mem_user_id = 100 + i, mem_role = role,
     mem_status = MembershipActive, mem_custom_permissions = None, mem_created_at = 0\<rparr>"

definition team_example :: db where
  "team_example = empty_db\<lparr>memberships := [demo_member 1 OWNER, demo_member 2 ADMIN, demo_member 3 MANAGER, demo_member 4 AGENT],
     organizations := [demo_org 20 1, demo_org 21 1],
     organization_memberships := [\<lparr>om_organization_id = 20, om_membership_id = 3\<rparr>,
       \<lparr>om_organization_id = 20, om_membership_id = 4\<rparr>]\<rparr>"

definition no_update :: employee_update where
  "no_update = \<lparr>eu_role = None, eu_status = None, eu_organization_ids = None, eu_channel_ids = None, eu_permissions = None\<rparr>"

lemmas team_example_defs = team_example_def demo_member_def demo_org_def empty_db_def no_update_def

lemma branch_actor_authority_witness:
  "get_membership (snd (update_employee 1 4 (demo_member 3 MANAGER) (no_update\<lparr>eu_role := Some VIEWER\<rparr>) team_example)) 1
     = get_membership team_example 1"
proof -
  have ok: "\<exists>m u orgs. update_employee 1 4 (demo_member 3 MANAGER) (no_update\<lparr>eu_role := Some VIEWER\<rparr>) team_example =
     (Inr (m, u, orgs), snd (update_employee 1 4 (demo_member 3 MANAGER) (no_update\<lparr>eu_role := Some VIEWER\<rparr>) team_example))"
    by (simp add: team_example_defs update_employee_def get_membership_def tbl_get_def
        list_membership_organization_ids_def assert_actor_can_manage_target_def BRANCH_SCOPED_ROLES_def
        protected_roles_for_actor_def max_assignable_role_def update_employee_organizations_def
        update_employee_channels_def update_employee_permissions_def validate_branch_scoped_assignment_def Let_def)
  then obtain m u orgs where "update_employee 1 4 (demo_member 3 MANAGER) (no_update\<lparr>eu_role := Some VIEWER\<rparr>) team_example =
     (Inr (m, u, orgs), snd (update_employee 1 4 (demo_member 3 MANAGER) (no_update\<lparr>eu_role := Some VIEWER\<rparr>) team_example))"
    by blast
  from branch_actor_authority [OF this] show ?thesis by (simp add: demo_member_def)
qed

text \<open>A manager can leave its branches: by changing its own role to agent in the same request, a manager
  moves to any set of organizations of the account, as the later scope checks read the role that the
  request has just changed.\<close>

theorem manager_escapes_scope:
  assumes "get_membership s (mem_id actor) = Some actor" "mem_account_id actor = a" "mem_role actor = MANAGER"
    and "list_membership_organization_ids s (mem_id actor) \<noteq> []"
    and "validate_organization_ids s a ids = Inr valid"
  shows "\<exists>u orgs s'. update_employee a (mem_id actor) actor
       \<lparr>eu_role = Some AGENT, eu_status = None, eu_organization_ids = Some ids, eu_channel_ids = None,
        eu_permissions = None\<rparr> s = (Inr (actor\<lparr>mem_role := AGENT, mem_custom_permissions := None\<rparr>, u, orgs), s')
     \<and> set (list_membership_organization_ids s' (mem_id actor)) = set ids"
proof -
  have "set valid = set ids"
    using assms(5) by (auto simp: validate_organization_ids_def Let_def split: if_splits)
  with assms show ?thesis
    by (simp add: update_employee_def assert_actor_can_manage_target_def BRANCH_SCOPED_ROLES_def
        protected_roles_for_actor_def max_assignable_role_def update_employee_organizations_def actor_role_now_def
        update_employee_channels_def update_employee_permissions_def validate_branch_scoped_assignment_def Let_def)
qed

lemma manager_escapes_scope_witness:
  "\<exists>u orgs s'. update_employee 1 3 (demo_member 3 MANAGER)
       \<lparr>eu_role = Some AGENT, eu_status = None, eu_organization_ids = Some [21], eu_channel_ids = None,
        eu_permissions = None\<rparr> team_example = (Inr ((demo_member 3 MANAGER)\<lparr>mem_role := AGENT, mem_custom_permissions := None\<rparr>, u, orgs), s')
     \<and> set (list_membership_organization_ids s' 3) = {21}"
proof -
  have v: "validate_organization_ids team_example 1 [21] = Inr [21]" by code_simp
  show ?thesis
    using manager_escapes_scope [of team_example "demo_member 3 MANAGER" 1 "[21]" "[21]", OF _ _ _ _ v]
    by (simp add: team_example_defs get_membership_def tbl_get_def list_membership_organization_ids_def)
qed

section \<open>The last owner\<close>

lemma count_put:
  assumes "distinct (map key t)" "tbl_get key t (key r') = Some r"
  shows "int (tbl_count P (tbl_put key r' t)) = int (tbl_count P t) - (if P r then 1 else 0) + (if P r' then 1 else 0)"
  using assms
proof (induction t)
  case Nil
  then show ?case by (simp add: tbl_get_def)
next
  case (Cons x t)
  show ?case
  proof (cases "key x = key r'")
    case True
    then have "x = r" using Cons.prems(2) by (simp add: tbl_get_def)
    have "key r' \<notin> key ` set t" using Cons.prems(1) True by simp
    then have "tbl_put key r' t = t" unfolding tbl_put_def by (intro map_idI) (metis image_eqI)
    with True \<open>x = r\<close> show ?thesis by (simp add: tbl_count_def tbl_put_def)
  next
    case False
    have "int (tbl_count P (tbl_put key r' t)) = int (tbl_count P t) - (if P r then 1 else 0) + (if P r' then 1 else 0)"
      by (rule Cons.IH) (use Cons.prems False in \<open>simp_all add: tbl_get_def\<close>)
    moreover have "tbl_count P (tbl_put key r' (x # t)) = (if P x then 1 else 0) + tbl_count P (tbl_put key r' t)"
      "tbl_count P (x # t) = (if P x then 1 else 0) + tbl_count P t"
      using False by (simp_all add: tbl_count_def tbl_put_def)
    ultimately show ?thesis by simp
  qed
qed

definition is_active_owner :: "uuid \<Rightarrow> membership \<Rightarrow> bool" where
  "is_active_owner a m \<longleftrightarrow> mem_account_id m = a \<and> mem_role m = OWNER \<and> mem_status m = MembershipActive"

lemma active_owner_count_alt: "active_owner_count s a = int (tbl_count (is_active_owner a) (memberships s))"
proof -
  have "is_active_owner a = (\<lambda>m. mem_account_id m = a \<and> mem_role m = OWNER \<and> mem_status m = MembershipActive)"
    by (simp add: fun_eq_iff is_active_owner_def)
  then show ?thesis by (simp add: active_owner_count_def)
qed

lemma owner_count_after_update:
  assumes "update_employee a k actor payload s = (Inr (m', u, orgs), s')"
    and "distinct (map mem_id (memberships s))" "get_membership s k = Some m"
  shows "active_owner_count s' a =
     active_owner_count s a - (if is_active_owner a m then 1 else 0) + (if is_active_owner a m' then 1 else 0)"
    and "mem_status m' = (case eu_status payload of None \<Rightarrow> mem_status m | Some st \<Rightarrow> st)"
    and "mem_role m' = (case eu_role payload of None \<Rightarrow> mem_role m | Some r \<Rightarrow> r)"
    and "mem_account_id m = a \<and> mem_account_id m' = a"
    and "\<not> (mem_role m = OWNER \<and> eu_role payload \<notin> {None, Some OWNER} \<and> active_owner_count s a \<le> 1)"
proof -
  obtain m0 s1 s2 to where
    m: "get_membership s k = Some m0" "mem_id m0 = k" "mem_account_id m0 = a" and
    "assert_actor_can_manage_target (mem_role actor) (list_membership_organization_ids s (mem_id actor)) (mem_role m0)
       (list_membership_organization_ids s k) (eu_role payload) = Inr ()" and
    own: "\<not> (mem_role m0 = OWNER \<and> eu_role payload \<notin> {None, Some OWNER} \<and> active_owner_count s a \<le> 1)" and
    "update_employee_organizations a k (actor_role_now actor m') (list_membership_organization_ids s (mem_id actor))
       (eu_organization_ids payload) s = Inr (s1, to)" and
    s2: "memberships s2 = memberships s" and "set (list_membership_organization_ids s2 k) = set to" and
    s': "s' = put_membership m' s2" and
    m': "mem_id m' = k" "mem_account_id m' = a" "mem_user_id m' = mem_user_id m0"
    "mem_role m' = (case eu_role payload of None \<Rightarrow> mem_role m0 | Some r \<Rightarrow> r)"
    "mem_status m' = (case eu_status payload of None \<Rightarrow> mem_status m0 | Some st \<Rightarrow> st)"
    by (rule update_employee_success [OF assms(1)])
  have eq: "m0 = m" using m(1) assms(3) by simp
  have "tbl_get mem_id (memberships s) (mem_id m') = Some m" using assms(3) m'(1) by (simp add: get_membership_def)
  from count_put [OF assms(2) this, of "is_active_owner a"]
  show "active_owner_count s' a =
     active_owner_count s a - (if is_active_owner a m then 1 else 0) + (if is_active_owner a m' then 1 else 0)"
    by (simp add: s' s2 active_owner_count_alt put_membership_def)
  show "mem_status m' = (case eu_status payload of None \<Rightarrow> mem_status m | Some st \<Rightarrow> st)"
    "mem_role m' = (case eu_role payload of None \<Rightarrow> mem_role m | Some r \<Rightarrow> r)"
    "mem_account_id m = a \<and> mem_account_id m' = a"
    "\<not> (mem_role m = OWNER \<and> eu_role payload \<notin> {None, Some OWNER} \<and> active_owner_count s a \<le> 1)"
    using m m' own unfolding eq by simp_all
qed

lemma refused_update_keeps: "update_employee a k actor payload s = (Inl e, s') \<Longrightarrow> s' = s"
  by (auto simp: update_employee_def Let_def split: option.splits if_splits sum.splits)

lemma owner_left_by_update:
  assumes "update_employee a k actor payload s = (r, s')" "distinct (map mem_id (memberships s))"
    and "eu_status payload \<noteq> Some MembershipSuspended" "active_owner_count s a \<ge> 1"
  shows "active_owner_count s' a \<ge> 1"
proof (cases r)
  case (Inl e)
  then show ?thesis using refused_update_keeps assms(1,4) by blast
next
  case (Inr x)
  then obtain m' u orgs where ok: "update_employee a k actor payload s = (Inr (m', u, orgs), s')" using assms(1) by (cases x) auto
  obtain m where m: "get_membership s k = Some m" using ok by (cases "get_membership s k") (auto simp: update_employee_def)
  note upd = owner_count_after_update [OF ok assms(2) m]
  show ?thesis
  proof (cases "is_active_owner a m \<and> \<not> is_active_owner a m'")
    case True
    then have "mem_role m = OWNER" "mem_status m = MembershipActive" by (simp_all add: is_active_owner_def)
    moreover from this assms(3) have "mem_status m' = MembershipActive"
      unfolding upd(2) by (cases "eu_status payload") (auto, metis membership_status.exhaust)
    ultimately have "mem_role m' \<noteq> OWNER" using True upd(4) by (simp add: is_active_owner_def)
    then have "eu_role payload \<notin> {None, Some OWNER}" using \<open>mem_role m = OWNER\<close> upd(3) by (auto split: option.splits)
    with upd(5) \<open>mem_role m = OWNER\<close> have "active_owner_count s a > 1" by linarith
    with upd(1) show ?thesis by (simp split: if_splits)
  next
    case False
    with upd(1) assms(4) show ?thesis by (simp split: if_splits)
  qed
qed

lemma suspension_succeeds:
  assumes "get_membership s k = Some m" "is_active_owner a m" "mem_role actor \<in> {OWNER, ADMIN}" "mem_id actor \<noteq> k"
  shows "\<exists>u orgs s'. update_employee a k actor (no_update\<lparr>eu_status := Some MembershipSuspended\<rparr>) s =
    (Inr (m\<lparr>mem_status := MembershipSuspended\<rparr>, u, orgs), s')"
proof -
  have "mem_id m = k" using assms(1) membership_rows.get_key by (simp add: get_membership_def)
  then show ?thesis using assms
    by (auto simp: update_employee_def is_active_owner_def assert_actor_can_manage_target_def no_update_def Let_def
        update_employee_organizations_def update_employee_channels_def update_employee_permissions_def validate_branch_scoped_assignment_def
        BRANCH_SCOPED_ROLES_def)
qed

text \<open>C19. The last owner: no update that does not suspend, accepted or refused, takes the last active owner from an account; but a request of
  another owner or administrator that suspends the sole active owner is accepted, and leaves the account without one.\<close>

theorem last_owner_guard:
  assumes "distinct (map mem_id (memberships s))"
  shows "(eu_status payload \<noteq> Some MembershipSuspended \<and> active_owner_count s a \<ge> 1 \<longrightarrow>
      active_owner_count (snd (update_employee a k actor payload s)) a \<ge> 1) \<and>
    (get_membership s k = Some m \<and> is_active_owner a m \<and> active_owner_count s a = 1 \<and> mem_role actor \<in> {OWNER, ADMIN} \<and> mem_id actor \<noteq> k \<longrightarrow>
      returns (fst (update_employee a k actor (no_update\<lparr>eu_status := Some MembershipSuspended\<rparr>) s)) \<and>
      active_owner_count (snd (update_employee a k actor (no_update\<lparr>eu_status := Some MembershipSuspended\<rparr>) s)) a = 0)"
proof (intro conjI impI; (elim conjE)?)
  assume "eu_status payload \<noteq> Some MembershipSuspended" "active_owner_count s a \<ge> 1"
  then show "active_owner_count (snd (update_employee a k actor payload s)) a \<ge> 1"
    by (rule owner_left_by_update [OF surjective_pairing assms])
next
  let ?u = "update_employee a k actor (no_update\<lparr>eu_status := Some MembershipSuspended\<rparr>) s"
  assume m: "get_membership s k = Some m" "is_active_owner a m" and one: "active_owner_count s a = 1"
    and actor: "mem_role actor \<in> {OWNER, ADMIN}" "mem_id actor \<noteq> k"
  obtain u orgs s' where ok: "?u = (Inr (m\<lparr>mem_status := MembershipSuspended\<rparr>, u, orgs), s')"
    using suspension_succeeds [OF m actor] by blast
  show "returns (fst ?u)" by (simp add: ok returns_def)
  show "active_owner_count (snd ?u) a = 0"
    using owner_count_after_update(1) [OF ok assms m(1)] m(2) one by (simp add: ok is_active_owner_def)
qed

lemma last_owner_guard_witness:
  "active_owner_count team_example 1 = 1 \<and>
   active_owner_count (snd (update_employee 1 1 (demo_member 2 ADMIN) (no_update\<lparr>eu_status := Some MembershipSuspended\<rparr>) team_example)) 1 = 0 \<and>
   active_owner_count (snd (update_employee 1 1 (demo_member 2 ADMIN) (no_update\<lparr>eu_role := Some AGENT\<rparr>) team_example)) 1 \<ge> 1"
proof -
  have "distinct (map mem_id (memberships team_example))" "get_membership team_example 1 = Some (demo_member 1 OWNER)"
    "is_active_owner 1 (demo_member 1 OWNER)" "active_owner_count team_example 1 = 1"
    "mem_role (demo_member 2 ADMIN) = ADMIN" "mem_id (demo_member 2 ADMIN) = 2" by code_simp+
  then show ?thesis
    using last_owner_guard [of team_example "no_update\<lparr>eu_role := Some AGENT\<rparr>" 1 1 "demo_member 2 ADMIN" "demo_member 1 OWNER"]
    by (simp add: no_update_def)
qed

section \<open>Accepting an invitation\<close>

lemma find_member_found:
  assumes "distinct (map key t)" "find P t = Some r" "key r' = key r"
  shows "tbl_get key (tbl_put key r' t) (key r) = Some r'"
proof -
  have "tbl_get key t (key r) = Some r"
    using assms(1,2) by (intro tbl_get_distinct) (auto simp: find_Some_iff)
  with assms(3) show ?thesis by (simp add: tbl_get_put)
qed

lemma accept_invitation_success:
  assumes "accept_invitation hash now uid mid payload s = (Inr (u, m, orgs), s')" "ac_token payload = Some i"
  obtains inv where "get_invitation s i = Some inv" "inv_status inv = InvPending" "now < inv_expires_at inv"
    "validate_new_member_capacity now s (inv_account_id inv) (inv_email inv) orgs = Inr ()"
    "u = invited_user hash uid payload (inv_email inv) (get_user_by_email s (inv_email inv))"
    "m = \<lparr>mem_id = mid, mem_account_id = inv_account_id inv, mem_user_id = usr_id u, mem_role = inv_role inv,
       mem_status = MembershipActive, mem_custom_permissions = None, mem_created_at = now\<rparr>"
    "s' = put_invitation (inv\<lparr>inv_status := InvAccepted, inv_accepted_at := Some now\<rparr>)
       (join_account m orgs (inv_id inv) (store_invited_user (get_user_by_email s (inv_email inv)) u s))"
proof -
  obtain inv where inv: "get_invitation s i = Some inv"
    using assms(1,2) by (auto simp: accept_invitation_def split: option.splits)
  have pend: "inv_status inv = InvPending" "\<not> inv_expires_at inv \<le> now"
    using assms(1,2) inv by (auto simp: accept_invitation_def split: if_splits)
  let ?found = "get_user_by_email s (inv_email inv)"
  let ?orgs = "map io_organization_id (filter (\<lambda>o'. io_invitation_id o' = inv_id inv) (invitation_organizations s))"
  have nomem: "\<not> (case ?found of None \<Rightarrow> False | Some u \<Rightarrow>
       list_ex (\<lambda>m. mem_account_id m = inv_account_id inv \<and> mem_user_id m = usr_id u) (memberships s))"
    using assms(1,2) inv pend by (auto simp: accept_invitation_def Let_def split: if_splits)
  have cap: "validate_new_member_capacity now s (inv_account_id inv) (inv_email inv) ?orgs = Inr ()"
    using assms(1,2) inv pend nomem by (simp add: accept_invitation_def Let_def split: sum.splits)
  have orgs: "orgs = ?orgs" and u: "u = invited_user hash uid payload (inv_email inv) ?found"
    and m: "m = \<lparr>mem_id = mid, mem_account_id = inv_account_id inv, mem_user_id = usr_id u, mem_role = inv_role inv,
       mem_status = MembershipActive, mem_custom_permissions = None, mem_created_at = now\<rparr>"
    and s': "s' = put_invitation (inv\<lparr>inv_status := InvAccepted, inv_accepted_at := Some now\<rparr>)
       (join_account m orgs (inv_id inv) (store_invited_user ?found u s))"
    using assms(1,2) inv pend nomem cap
    by (auto simp: accept_invitation_def Let_def)
  from pend(2) have "now < inv_expires_at inv" by simp
  from that [OF inv pend(1) this cap [folded orgs] u m s'] show ?thesis .
qed

lemma join_account_frame [simp]:
  "invitations (join_account m orgs i s) = invitations s" "users (join_account m orgs i s) = users s"
  "refresh_sessions (join_account m orgs i s) = refresh_sessions s"
  "memberships (join_account m orgs i s) = memberships s @ [m]"
  by (simp_all add: join_account_def Let_def replace_membership_channel_access_def)

lemma store_invited_user_frame [simp]:
  "invitations (store_invited_user f u s) = invitations s" "memberships (store_invited_user f u s) = memberships s"
  "refresh_sessions (store_invited_user f u s) = refresh_sessions s"
  by (simp_all add: store_invited_user_def put_user_def split: option.splits)

text \<open>An invitation is accepted once and gives the invited role and nothing more: it must be pending and not
  expired, the new membership is active with the role and account of the invitation and without custom
  permissions, and accepting the same invitation again fails and changes nothing.  But whoever holds the
  token sets the password: a user that already exists, in whatever accounts, then has the password that
  the accepting request chose, and its recorded time of the last password change and its sessions stay as they
  were.\<close>

theorem accept_invitation_effect:
  assumes "accept_invitation hash now uid mid payload s = (Inr (u, m, orgs), s')" "ac_token payload = Some i"
    and "distinct (map usr_id (users s))"
  shows "(\<exists>inv. get_invitation s i = Some inv \<and> inv_status inv = InvPending \<and> now < inv_expires_at inv
        \<and> mem_role m = inv_role inv \<and> mem_account_id m = inv_account_id inv \<and> mem_status m = MembershipActive
        \<and> mem_custom_permissions m = None \<and> mem_user_id m = usr_id u \<and> usr_email u = inv_email inv
        \<and> (\<forall>u0. get_user_by_email s (inv_email inv) = Some u0 \<longrightarrow>
             get_user s' (usr_id u0) = Some u \<and> usr_password_hash u = hash (ac_password payload)
             \<and> usr_password_changed_at u = usr_password_changed_at u0))
    \<and> refresh_sessions s' = refresh_sessions s
    \<and> accept_invitation hash now2 uid2 mid2 payload s' = (Inl (ValueError ''INVALID_INVITATION''), s')"
proof -
  obtain inv where inv: "get_invitation s i = Some inv" and pend: "inv_status inv = InvPending" "now < inv_expires_at inv"
    and cap: "validate_new_member_capacity now s (inv_account_id inv) (inv_email inv) orgs = Inr ()"
    and u: "u = invited_user hash uid payload (inv_email inv) (get_user_by_email s (inv_email inv))"
    and m: "m = \<lparr>mem_id = mid, mem_account_id = inv_account_id inv, mem_user_id = usr_id u, mem_role = inv_role inv,
       mem_status = MembershipActive, mem_custom_permissions = None, mem_created_at = now\<rparr>"
    and s': "s' = put_invitation (inv\<lparr>inv_status := InvAccepted, inv_accepted_at := Some now\<rparr>)
       (join_account m orgs (inv_id inv) (store_invited_user (get_user_by_email s (inv_email inv)) u s))"
    by (rule accept_invitation_success [OF assms(1,2)])
  let ?found = "get_user_by_email s (inv_email inv)"
  let ?s3 = "join_account m orgs (inv_id inv) (store_invited_user ?found u s)"
  have u1: "usr_email u = inv_email inv"
    unfolding u by (auto simp: invited_user_def get_user_by_email_def find_Some_iff split: option.splits)
  have u2: "usr_id u = usr_id u0 \<and> usr_password_hash u = hash (ac_password payload)
        \<and> usr_password_changed_at u = usr_password_changed_at u0" if "?found = Some u0" for u0
    unfolding u that by (simp add: invited_user_def)
  define inv' where "inv' = inv\<lparr>inv_status := InvAccepted, inv_accepted_at := Some now\<rparr>"
  have "get_invitation s' i = Some inv'"
    using inv invitation_rows.get_key [OF inv]
    by (simp add: s' inv'_def get_invitation_def put_invitation_def tbl_get_put)
  then have again: "accept_invitation hash now2 uid2 mid2 payload s' = (Inl (ValueError ''INVALID_INVITATION''), s')"
    using assms(2) by (simp add: accept_invitation_def inv'_def)
  have user: "get_user s' (usr_id u0) = Some u" if f: "?found = Some u0" for u0
  proof -
    have "usr_id u = usr_id u0" using u2 [OF f] by simp
    moreover have "users s' = tbl_put usr_id u (users s)"
      by (simp add: s' put_invitation_def store_invited_user_def put_user_def f)
    ultimately show ?thesis
      using find_member_found [OF assms(3) f [unfolded get_user_by_email_def]] by (simp add: get_user_def)
  qed
  moreover have "refresh_sessions s' = refresh_sessions s" by (simp add: s' put_invitation_def)
  moreover have "mem_role m = inv_role inv" "mem_account_id m = inv_account_id inv" "mem_status m = MembershipActive"
    "mem_custom_permissions m = None" "mem_user_id m = usr_id u"
    by (simp_all add: m)
  ultimately show ?thesis using inv pend u1 u2 again by blast
qed

definition demo_plan :: "int \<Rightarrow> plan" where
  "demo_plan cap = (trial_plan 40)\<lparr>pl_max_users := cap\<rparr>"

definition demo_subscription :: subscription where
  "demo_subscription = \<lparr>sub_id = 41, sub_account_id = 1, sub_plan_id = 40, sub_status = SubActive,
     sub_billing_cycle = ''monthly'', sub_starts_at = DT 2025 1 1 0, sub_ends_at = DT 2026 1 1 0,
     sub_included_mac_override = None, sub_over_mac_price_per_100_override = None\<rparr>"

definition invite_example :: db where
  "invite_example = team_example\<lparr>plans := [demo_plan 5], subscriptions := [demo_subscription],
     users := [demo_user 70 ''v@x''],
     invitations := [\<lparr>inv_id = 60, inv_account_id = 1, inv_email = ''v@x'', inv_role = AGENT,
       inv_invited_by_user_id = 101, inv_expires_at = 1000, inv_status = InvPending, inv_accepted_at = None\<rparr>],
     invitation_organizations := [\<lparr>io_invitation_id = 60, io_organization_id = 20\<rparr>]\<rparr>"

definition demo_accept :: accept_request where
  "demo_accept = \<lparr>ac_token = Some 60, ac_full_name = ''N'', ac_password = ''chosen'', ac_preferred_language = ''ar''\<rparr>"

lemma accept_invitation_effect_witness:
  "\<exists>u. get_user (snd (accept_invitation id 5 71 72 demo_accept invite_example)) 70 = Some u
     \<and> usr_password_hash u = ''chosen''"
proof -
  let ?r = "accept_invitation id 5 71 72 demo_accept invite_example"
  have "returns (fst ?r)" by code_simp
  then obtain x where "fst ?r = Inr x" by (auto simp: returns_iff)
  then obtain u m orgs where ok: "?r = (Inr (u, m, orgs), snd ?r)" by (metis prod_cases3 prod.collapse)
  have found: "get_user_by_email invite_example ''v@x'' = Some (demo_user 70 ''v@x'')"
    by (simp add: get_user_by_email_def invite_example_def demo_user_def)
  have inv: "map_option inv_email (get_invitation invite_example 60) = Some ''v@x''"
    by (simp add: get_invitation_def tbl_get_def invite_example_def)
  show ?thesis
    using accept_invitation_effect [OF ok, of 60] found inv
    by (auto simp: demo_accept_def) (auto simp: demo_user_def invite_example_def)
qed

section \<open>The cap on users\<close>

lemma capacity_leaves_room:
  assumes "validate_new_member_capacity now s a email orgs = Inr ()"
    and "get_active_subscription now s a = Some (b, p)"
  shows "within_limit (active_member_count s a + 1) (pl_max_users p)"
  using assms
  by (auto simp: validate_new_member_capacity_def within_limit_def split: if_splits)

lemma active_member_count_append:
  assumes "memberships s' = memberships s @ [m]" "mem_account_id m = a" "mem_status m = MembershipActive"
  shows "active_member_count s' a = active_member_count s a + 1"
  using assms by (simp add: active_member_count_def tbl_count_def)

text \<open>C20. The two ways in keep the plan's cap on users: when \<open>create_employee\<close> or \<open>accept_invitation\<close> succeeds, the
  account has one active member more and is still within the cap of its plan.\<close>

theorem new_member_within_plan:
  assumes "get_active_subscription now s a = Some (b, p)"
    and "create_employee hash now uid mid a actor payload s = (Inr r, s') \<or>
      (\<exists>u m orgs. accept_invitation hash now uid mid accept s = (Inr (u, m, orgs), s') \<and> mem_account_id m = a)"
  shows "active_member_count s' a = active_member_count s a + 1 \<and> within_limit (active_member_count s' a) (pl_max_users p)"
  using assms(2)
proof (elim disjE exE conjE)
  assume ok: "create_employee hash now uid mid a actor payload s = (Inr r, s')"
  then obtain ids where chk: "employee_checks now a actor payload s = Inr ids"
    by (auto simp: create_employee_def split: sum.splits)
  then have cap: "validate_new_member_capacity now s a (ce_email payload) (ce_organization_ids payload) = Inr ()"
    by (auto simp: employee_checks_def Let_def split: sum.splits)
  let ?custom = "case ce_permissions payload of None \<Rightarrow> Inr None
            | Some ps \<Rightarrow> requested_permissions (mem_role actor) (ce_role payload) ps"
  obtain custom where custom: "?custom = Inr custom"
    using ok chk by (auto simp: create_employee_def split: sum.splits)
  note made = ok [unfolded create_employee_def chk custom sum.case Let_def]
  have "\<exists>m. memberships s' = memberships s @ [m] \<and> mem_account_id m = a \<and> mem_status m = MembershipActive"
    using made apply_channels_frame(1) by (fastforce split: sum.splits)
  then show ?thesis
    using active_member_count_append [of s' s _ a] capacity_leaves_room [OF cap assms(1)] by auto
next
  fix u m orgs
  assume ok: "accept_invitation hash now uid mid accept s = (Inr (u, m, orgs), s')" and ma: "mem_account_id m = a"
  obtain i where i: "ac_token accept = Some i" using ok by (auto simp: accept_invitation_def split: option.splits)
  obtain inv where "get_invitation s i = Some inv" "inv_status inv = InvPending" "now < inv_expires_at inv"
    and cap: "validate_new_member_capacity now s (inv_account_id inv) (inv_email inv) orgs = Inr ()"
    and "u = invited_user hash uid accept (inv_email inv) (get_user_by_email s (inv_email inv))"
    and m: "m = \<lparr>mem_id = mid, mem_account_id = inv_account_id inv, mem_user_id = usr_id u, mem_role = inv_role inv,
       mem_status = MembershipActive, mem_custom_permissions = None, mem_created_at = now\<rparr>"
    and s': "s' = put_invitation (inv\<lparr>inv_status := InvAccepted, inv_accepted_at := Some now\<rparr>)
       (join_account m orgs (inv_id inv) (store_invited_user (get_user_by_email s (inv_email inv)) u s))"
    by (rule accept_invitation_success [OF ok i])
  have "inv_account_id inv = a" "mem_status m = MembershipActive" using m ma by simp_all
  moreover have "memberships s' = memberships s @ [m]" by (simp add: s' put_invitation_def)
  ultimately show ?thesis
    using active_member_count_append [of s' s m a] ma capacity_leaves_room [OF cap] assms(1) by simp
qed

lemma new_member_within_plan_witness:
  "active_member_count (snd (accept_invitation id 5 71 72 demo_accept invite_example)) 1 = 5"
proof -
  let ?r = "accept_invitation id 5 71 72 demo_accept invite_example"
  have "returns (fst ?r)" by code_simp
  then obtain x where "fst ?r = Inr x" by (auto simp: returns_iff)
  then obtain u m orgs where ok: "?r = (Inr (u, m, orgs), snd ?r)" by (metis prod_cases3 prod.collapse)
  have "map_sum (\<lambda>_. ()) (\<lambda>(u, m, orgs). mem_account_id m) (fst ?r) = Inr 1" by code_simp
  then have acc: "mem_account_id m = 1" using ok by (metis fst_conv map_sum.simps(2) prod.case sum.inject(2))
  have sub: "get_active_subscription 5 invite_example 1 = Some (demo_subscription, demo_plan 5)" by code_simp
  have "active_member_count invite_example 1 = 4" by code_simp
  moreover have "\<exists>u m orgs. ?r = (Inr (u, m, orgs), snd ?r) \<and> mem_account_id m = 1" using ok acc by blast
  ultimately show ?thesis
    using new_member_within_plan [OF sub disjI2, of id 71 72 demo_accept "snd ?r"] by simp
qed

end
