(* ===== verification/AutomationGraphs.thy ===== *)
theory AutomationGraphs
  imports Models
begin

text \<open>
  Publishing checks of an automation graph: \<open>validate_publishable_graph\<close> of \<open>services/automations.py\<close>, and its
  equivalence with the definition of a publishable graph in terms of the edge relation.
\<close>

section \<open>The checks\<close>

definition SUPPORTED_NODE_TYPES :: "string list" where
  "SUPPORTED_NODE_TYPES = [''trigger'', ''condition'', ''send_text'', ''send_quick_reply'', ''send_template'',
     ''send_media'', ''send_catalog'', ''ai_reply'', ''create_deal'', ''add_tag'', ''remove_tag'', ''assign_team'',
     ''assign_user'', ''set_status'', ''set_lifecycle'', ''collect_input'', ''delay'', ''webhook'', ''http_request'', ''stop'']"

definition node_ids :: "automation_graph \<Rightarrow> string list" where
  "node_ids g = map nd_id (gr_nodes g)"

definition targets_of :: "automation_graph \<Rightarrow> string \<Rightarrow> string list" where
  "targets_of g n = map ed_target (filter (\<lambda>e. ed_source e = n) (gr_edges g))"

definition key_error :: py_error where
  "key_error = OtherError ''KeyError''"

text \<open>The \<open>while stack\<close> loop; the top of the stack is the head of the list.  \<open>outgoing\<close> has the keys of \<open>node_map\<close> only.\<close>

function visit_all :: "automation_graph \<Rightarrow> string list \<Rightarrow> string list \<Rightarrow> string list outcome" where
  "visit_all g visited [] = Inr visited"
| "visit_all g visited (n # stack) =
     (if n \<in> set visited then visit_all g visited stack
      else if n \<notin> set (node_ids g) then Inl key_error
      else visit_all g (n # visited) (rev (targets_of g n) @ stack))"
  by pat_completeness auto
termination
proof (relation "measures [\<lambda>(g, visited, stack). card (set (node_ids g) - set visited), \<lambda>(g, visited, stack). length stack]", goal_cases)
  case (3 g visited n stack)
  then have "card (set (node_ids g) - set (n # visited)) < card (set (node_ids g) - set visited)"
    by (intro psubset_card_mono) auto
  then show ?case by simp
qed auto

text \<open>The recursive \<open>dfs\<close> with its two sets; it returns \<open>completed\<close>, and \<open>visiting\<close> is the same after a return as before.\<close>

function dfs :: "automation_graph \<Rightarrow> string list \<Rightarrow> string list \<Rightarrow> string \<Rightarrow> string list outcome"
  and dfs_targets :: "automation_graph \<Rightarrow> string list \<Rightarrow> string list \<Rightarrow> string list \<Rightarrow> string list outcome" where
  "dfs g visiting completed n =
     (if n \<in> set visiting then Inl (ValueError ''AUTOMATION_GRAPH_CYCLE'')
      else if n \<in> set completed then Inr completed
      else if n \<notin> set (node_ids g) then Inl key_error
      else (case dfs_targets g (n # visiting) completed (targets_of g n) of
          Inl e \<Rightarrow> Inl e
        | Inr completed' \<Rightarrow> Inr (n # completed')))"
| "dfs_targets g visiting completed [] = Inr completed"
| "dfs_targets g visiting completed (t # ts) =
     (case dfs g visiting completed t of
        Inl e \<Rightarrow> Inl e
      | Inr completed' \<Rightarrow> dfs_targets g visiting completed' ts)"
  by pat_completeness auto
termination
proof (relation "measures [\<lambda>x. case x of Inl (g, visiting, completed, n) \<Rightarrow> card (set (node_ids g) - set visiting)
        | Inr (g, visiting, completed, ts) \<Rightarrow> card (set (node_ids g) - set visiting),
      \<lambda>x. case x of Inl _ \<Rightarrow> 0 | Inr (g, visiting, completed, ts) \<Rightarrow> Suc (length ts)]", goal_cases)
  case (2 g visiting completed n)
  then have "card (set (node_ids g) - set (n # visiting)) < card (set (node_ids g) - set visiting)"
    by (intro psubset_card_mono) auto
  then show ?case by simp
qed auto

declare dfs.simps [simp del]

definition trigger_nodes :: "automation_graph \<Rightarrow> automation_node list" where
  "trigger_nodes g = filter (\<lambda>n. nd_type n = ''trigger'') (gr_nodes g)"

definition validate_publishable_graph :: "automation_graph \<Rightarrow> unit outcome" where
  "validate_publishable_graph g =
     (if gr_nodes g = [] then Inl (ValueError ''AUTOMATION_GRAPH_EMPTY'')
      else (case trigger_nodes g of
          [trigger] \<Rightarrow>
            if \<exists>n \<in> set (gr_nodes g). nd_type n \<notin> set SUPPORTED_NODE_TYPES then Inl (ValueError ''UNSUPPORTED_NODE_TYPE'')
            else if \<exists>e \<in> set (gr_edges g). ed_source e \<notin> set (node_ids g) \<or> ed_target e \<notin> set (node_ids g)
            then Inl (ValueError ''INVALID_EDGE'')
            else (case visit_all g [] [nd_id trigger] of
                Inl e \<Rightarrow> Inl e
              | Inr visited \<Rightarrow>
                  if set visited \<noteq> set (node_ids g) then Inl (ValueError ''AUTOMATION_HAS_UNREACHABLE_NODES'')
                  else (case dfs g [] [] (nd_id trigger) of Inl e \<Rightarrow> Inl e | Inr _ \<Rightarrow> Inr ()))
        | _ \<Rightarrow> Inl (ValueError ''AUTOMATION_REQUIRES_ONE_TRIGGER'')))"

section \<open>What they mean\<close>

definition edge_rel :: "automation_graph \<Rightarrow> (string \<times> string) set" where
  "edge_rel g = (\<lambda>e. (ed_source e, ed_target e)) ` set (gr_edges g)"

definition edges_known :: "automation_graph \<Rightarrow> bool" where
  "edges_known g \<longleftrightarrow> edge_rel g \<subseteq> set (node_ids g) \<times> set (node_ids g)"

definition publishable :: "automation_graph \<Rightarrow> bool" where
  "publishable g \<longleftrightarrow> (\<forall>n \<in> set (gr_nodes g). nd_type n \<in> set SUPPORTED_NODE_TYPES) \<and> edges_known g \<and> acyclic (edge_rel g) \<and>
     (\<exists>t. trigger_nodes g = [t] \<and> (\<forall>n \<in> set (node_ids g). (nd_id t, n) \<in> (edge_rel g)\<^sup>*))"

lemma targets_iff: "t \<in> set (targets_of g n) \<longleftrightarrow> (n, t) \<in> edge_rel g"
  by (force simp: targets_of_def edge_rel_def)

lemma closed_rtrancl:
  assumes "(x, y) \<in> r\<^sup>*" "x \<in> A" "r `` A \<subseteq> A"
  shows "y \<in> A"
  using assms by (induction rule: rtrancl_induct) auto

lemma closed_trancl:
  assumes "(x, y) \<in> r\<^sup>+" "r `` {x} \<subseteq> A" "r `` A \<subseteq> A"
  shows "y \<in> A"
  using assms by (induction rule: trancl_induct) auto

lemma visit_all_reachable:
  assumes "edges_known g" "set stack \<subseteq> set (node_ids g)"
    and "\<forall>n \<in> set visited. set (targets_of g n) \<subseteq> set visited \<union> set stack"
  shows "\<exists>w. visit_all g visited stack = Inr w \<and> set w = (edge_rel g)\<^sup>* `` (set visited \<union> set stack)"
  using assms
proof (induction g visited stack rule: visit_all.induct)
  case (1 g visited)
  then have "edge_rel g `` set visited \<subseteq> set visited" using targets_iff by fastforce
  then have "(edge_rel g)\<^sup>* `` set visited = set visited" using closed_rtrancl by (metis Image_closed_trancl)
  then show ?case by simp
next
  case (2 g visited n stack)
  show ?case
  proof (cases "n \<in> set visited")
    case True
    have eq: "set visited \<union> set (n # stack) = set visited \<union> set stack" using True by auto
    have "\<exists>w. visit_all g visited stack = Inr w \<and> set w = (edge_rel g)\<^sup>* `` (set visited \<union> set stack)"
      by (rule 2(1) [OF True 2(3)]) (use 2 True in auto)
    then show ?thesis using True eq by simp
  next
    case False
    have n: "n \<in> set (node_ids g)" using 2 by simp
    let ?st = "rev (targets_of g n) @ stack"
    have sub: "set (targets_of g n) \<subseteq> set (node_ids g)"
      using \<open>edges_known g\<close> targets_iff by (fastforce simp: edges_known_def)
    have "\<exists>w. visit_all g (n # visited) ?st = Inr w \<and> set w = (edge_rel g)\<^sup>* `` (set (n # visited) \<union> set ?st)"
      by (rule 2(2)) (use 2 False n sub in auto)
    moreover have "(edge_rel g)\<^sup>* `` (set (n # visited) \<union> set ?st) = (edge_rel g)\<^sup>* `` (set visited \<union> set (n # stack))"
      using targets_iff [of _ g n] by (auto intro: converse_rtrancl_into_rtrancl)
    ultimately show ?thesis using False n by simp
  qed
qed

text \<open>Completed nodes: closed under edges, on no cycle.\<close>

definition finished_nodes :: "automation_graph \<Rightarrow> string set \<Rightarrow> bool" where
  "finished_nodes g C \<longleftrightarrow> edge_rel g `` C \<subseteq> C \<and> (\<forall>x \<in> C. (x, x) \<notin> (edge_rel g)\<^sup>+)"

lemma finish_node:
  assumes "finished_nodes g C" "edge_rel g `` {n} \<subseteq> C" "n \<notin> C"
  shows "finished_nodes g (insert n C)"
proof -
  have "(n, n) \<notin> (edge_rel g)\<^sup>+"
    using closed_trancl [of n n "edge_rel g" C] assms by (auto simp: finished_nodes_def)
  then show ?thesis using assms by (auto simp: finished_nodes_def)
qed

lemma dfs_sound:
  "dfs g visiting completed n = Inr C \<Longrightarrow> finished_nodes g (set completed) \<Longrightarrow> set completed \<inter> set visiting = {} \<Longrightarrow>
     finished_nodes g (set C) \<and> set C \<inter> set visiting = {} \<and> insert n (set completed) \<subseteq> set C"
  "dfs_targets g visiting completed ts = Inr C \<Longrightarrow> finished_nodes g (set completed) \<Longrightarrow> set completed \<inter> set visiting = {} \<Longrightarrow>
     finished_nodes g (set C) \<and> set C \<inter> set visiting = {} \<and> set ts \<union> set completed \<subseteq> set C"
proof (induction g visiting completed n and g visiting completed ts arbitrary: C and C rule: dfs_dfs_targets.induct)
  case (1 g visiting completed n)
  show ?case
  proof (cases "n \<in> set completed")
    case True
    then show ?thesis using "1.prems" by (auto simp: dfs.simps split: if_splits)
  next
    case False
    then obtain C' where nv: "n \<notin> set visiting" and "n \<in> set (node_ids g)"
      and C': "dfs_targets g (n # visiting) completed (targets_of g n) = Inr C'" "C = n # C'"
      using "1.prems"(1) by (auto simp: dfs.simps split: if_splits sum.splits)
    then have "finished_nodes g (set C') \<and> set C' \<inter> set (n # visiting) = {} \<and> set (targets_of g n) \<union> set completed \<subseteq> set C'"
      using "1.IH" [OF nv False _ C'(1)] "1.prems" False by auto
    moreover from this have "edge_rel g `` {n} \<subseteq> set C'" using targets_iff by fastforce
    ultimately show ?thesis using finish_node [of g "set C'" n] C'(2) nv by auto
  qed
next
  case (2 g visiting completed)
  then show ?case by simp
next
  case (3 g visiting completed t ts)
  then obtain C' where C': "dfs g visiting completed t = Inr C'" "dfs_targets g visiting C' ts = Inr C"
    by (auto split: sum.splits)
  have first: "finished_nodes g (set C')" "set C' \<inter> set visiting = {}" "insert t (set completed) \<subseteq> set C'"
    using "3.IH"(1) [OF C'(1) "3.prems"(2,3)] by blast+
  have "finished_nodes g (set C) \<and> set C \<inter> set visiting = {} \<and> set ts \<union> set C' \<subseteq> set C"
    by (rule "3.IH"(2) [OF C'(1) C'(2) first(1,2)])
  then show ?case using first(3) by auto
qed

lemma dfs_complete:
  "dfs g visiting completed n = Inl e \<Longrightarrow> edges_known g \<Longrightarrow> n \<in> set (node_ids g) \<Longrightarrow>
     \<forall>v \<in> set visiting. (v, n) \<in> (edge_rel g)\<^sup>+ \<Longrightarrow> \<not> acyclic (edge_rel g)"
  "dfs_targets g visiting completed ts = Inl e \<Longrightarrow> edges_known g \<Longrightarrow> set ts \<subseteq> set (node_ids g) \<Longrightarrow>
     \<forall>v \<in> set visiting. \<forall>t \<in> set ts. (v, t) \<in> (edge_rel g)\<^sup>+ \<Longrightarrow> \<not> acyclic (edge_rel g)"
proof (induction g visiting completed n and g visiting completed ts arbitrary: e and e rule: dfs_dfs_targets.induct)
  case (1 g visiting completed n)
  show ?case
  proof (cases "n \<in> set visiting")
    case True
    then show ?thesis using "1.prems"(4) by (auto simp: acyclic_def)
  next
    case False
    then have nc: "n \<notin> set completed" and C': "dfs_targets g (n # visiting) completed (targets_of g n) = Inl e"
      using "1.prems" by (auto simp: dfs.simps split: if_splits sum.splits)
    have "\<forall>v \<in> set (n # visiting). \<forall>t \<in> set (targets_of g n). (v, t) \<in> (edge_rel g)\<^sup>+"
      using "1.prems"(4) targets_iff [of _ g n] by (auto intro: trancl_into_trancl)
    moreover have "set (targets_of g n) \<subseteq> set (node_ids g)"
      using "1.prems"(2) targets_iff by (fastforce simp: edges_known_def)
    ultimately show ?thesis using "1.IH" [OF False nc _ C'] "1.prems"(2,3) by blast
  qed
next
  case (3 g visiting completed t ts)
  then show ?case by (auto split: sum.splits)
qed simp

lemma dfs_decides:
  assumes "edges_known g" "t \<in> set (node_ids g)" "\<forall>n \<in> set (node_ids g). (t, n) \<in> (edge_rel g)\<^sup>*"
  shows "returns (dfs g [] [] t) \<longleftrightarrow> acyclic (edge_rel g)"
proof (cases "dfs g [] [] t")
  case (Inl e)
  then have "\<not> acyclic (edge_rel g)" using dfs_complete(1) [of g "[]" "[]" t e] assms by simp
  then show ?thesis using Inl by simp
next
  case (Inr C)
  then have C: "finished_nodes g (set C)" "t \<in> set C"
    using dfs_sound(1) [of g "[]" "[]" t C] by (auto simp: finished_nodes_def)
  have "n \<in> set C" if "n \<in> set (node_ids g)" for n
    using closed_rtrancl [of t n "edge_rel g" "set C"] C assms(3) that by (auto simp: finished_nodes_def)
  moreover have "x \<in> set (node_ids g)" if "(x, x) \<in> (edge_rel g)\<^sup>+" for x
    using that assms(1) by (auto simp: edges_known_def dest: tranclD)
  ultimately have "acyclic (edge_rel g)" using C(1) by (auto simp: acyclic_def finished_nodes_def)
  then show ?thesis using Inr by simp
qed

lemma edges_known_alt:
  "edges_known g \<longleftrightarrow> \<not> (\<exists>e \<in> set (gr_edges g). ed_source e \<notin> set (node_ids g) \<or> ed_target e \<notin> set (node_ids g))"
  by (force simp: edges_known_def edge_rel_def)

lemma validated_iff:
  assumes "trigger_nodes g = [t]" "\<forall>n \<in> set (gr_nodes g). nd_type n \<in> set SUPPORTED_NODE_TYPES" "edges_known g"
  shows "validate_publishable_graph g = Inr () \<longleftrightarrow>
    (\<forall>n \<in> set (node_ids g). (nd_id t, n) \<in> (edge_rel g)\<^sup>*) \<and> acyclic (edge_rel g)"
proof -
  have "t \<in> set (trigger_nodes g)" using assms(1) by simp
  then have "t \<in> set (gr_nodes g)" by (simp add: trigger_nodes_def)
  then have t: "nd_id t \<in> set (node_ids g)" and ne: "gr_nodes g \<noteq> []" by (auto simp: node_ids_def)
  obtain w where w: "visit_all g [] [nd_id t] = Inr w" "set w = (edge_rel g)\<^sup>* `` {nd_id t}"
    using visit_all_reachable [of g "[nd_id t]" "[]"] assms(3) t by auto
  have sub: "set w \<subseteq> set (node_ids g)"
    using closed_rtrancl [of "nd_id t" _ "edge_rel g" "set (node_ids g)"] assms(3) t w(2) by (auto simp: edges_known_def)
  have reach: "set w = set (node_ids g) \<longleftrightarrow> (\<forall>n \<in> set (node_ids g). (nd_id t, n) \<in> (edge_rel g)\<^sup>*)"
    using sub w(2) by auto
  have steps: "validate_publishable_graph g = (if set w \<noteq> set (node_ids g) then Inl (ValueError ''AUTOMATION_HAS_UNREACHABLE_NODES'')
      else (case dfs g [] [] (nd_id t) of Inl e \<Rightarrow> Inl e | Inr _ \<Rightarrow> Inr ()))"
    using assms ne w(1) by (simp add: validate_publishable_graph_def edges_known_alt del: visit_all.simps)
  show ?thesis
    using dfs_decides [OF assms(3) t] unfolding steps reach returns_def
    by (auto split: sum.splits)
qed

lemma validate_exact: "validate_publishable_graph g = Inr () \<longleftrightarrow> publishable g"
proof (cases "(\<exists>t. trigger_nodes g = [t]) \<and> (\<forall>n \<in> set (gr_nodes g). nd_type n \<in> set SUPPORTED_NODE_TYPES) \<and> edges_known g")
  case True
  then obtain t where "trigger_nodes g = [t]" by blast
  with True validated_iff [OF this] show ?thesis by (auto simp: publishable_def)
next
  case False
  then have "validate_publishable_graph g \<noteq> Inr ()"
    by (auto simp: validate_publishable_graph_def edges_known_alt split: list.splits)
  then show ?thesis using False by (auto simp: publishable_def)
qed

text \<open>C6. The publishing check is exact: \<open>validate_publishable_graph\<close> accepts a graph if and only if its node types are
  supported, its edges join known nodes, it has one trigger, every node is reachable from the trigger, and the edge relation is
  acyclic.\<close>

theorem validate_iff_publishable: "validate_publishable_graph g = Inr () \<longleftrightarrow> publishable g"
  by (rule validate_exact)

end
