(* ===== verification/PyValues.thy ===== *)
theory PyValues
  imports Prelude
begin

text \<open>
  Python's \<open>str\<close>, \<open>int\<close>, \<open>==\<close> and \<open>str.split\<close> on values that come from JSON columns.  Texts have code points 0 to 255.
\<close>

section \<open>Splitting and numbers\<close>

fun split_on :: "char \<Rightarrow> string \<Rightarrow> string list" where
  "split_on sep [] = [[]]"
| "split_on sep (c # cs) =
     (if c = sep then [] # split_on sep cs
      else (case split_on sep cs of [] \<Rightarrow> [[c]] | w # ws \<Rightarrow> (c # w) # ws))"

lemma split_on_join: "join [sep] (split_on sep s) = s"
proof (induction s)
  case (Cons c cs)
  have "split_on sep cs \<noteq> []" by (cases cs) (auto split: list.splits)
  then obtain w ws where "split_on sep cs = w # ws" by (cases "split_on sep cs") auto
  then show ?case using Cons by (cases ws) auto
qed simp

definition digits_value :: "string \<Rightarrow> int" where
  "digits_value ds = foldl (\<lambda>n c. 10 * n + (int (of_char c) - 48)) 0 ds"

text \<open>\<open>int(s)\<close>: blanks around, a sign, digits with single underscores between them.\<close>

definition parse_int :: "string \<Rightarrow> int option" where
  "parse_int s =
     (let t = py_strip s;
          (neg, ds) = (case t of [] \<Rightarrow> (False, [])
            | c # cs \<Rightarrow> if c = CHR ''-'' then (True, cs) else if c = CHR ''+'' then (False, cs) else (False, t));
          parts = split_on (CHR ''_'') ds
      in if \<forall>p \<in> set parts. p \<noteq> [] \<and> (\<forall>c \<in> set p. is_digit c)
         then Some (if neg then - digits_value (concat parts) else digits_value (concat parts)) else None)"

text \<open>\<open>int(x or 0)\<close>\<close>

definition int_or_zero :: "json option \<Rightarrow> int outcome" where
  "int_or_zero x =
     (if \<not> j_truthy x then Inr 0
      else (case x of
          Some (JInt i) \<Rightarrow> Inr i
        | Some (JBool b) \<Rightarrow> Inr 1
        | Some (JStr s) \<Rightarrow> (case parse_int s of Some i \<Rightarrow> Inr i
            | None \<Rightarrow> Inl (ValueError ''invalid literal for int() with base 10''))
        | _ \<Rightarrow> Inl (OtherError ''int() argument must be a string, a bytes-like object or a real number'')))"

section \<open>Texts of values\<close>

definition repr_char :: "char \<Rightarrow> char \<Rightarrow> string" where
  "repr_char quote c = (let n = (of_char c :: nat); bs = char_of (92::nat) in
     if c = quote \<or> n = 92 then [bs, c]
     else if n = 10 then bs # ''n'' else if n = 13 then bs # ''r'' else if n = 9 then bs # ''t''
     else if n < 32 \<or> (127 \<le> n \<and> n \<le> 160) \<or> n = 173 then bs # ''x'' @ hex_digits 2 n
     else [c])"

definition py_repr_str :: "string \<Rightarrow> string" where
  "py_repr_str s = (let single = char_of (39::nat); double = char_of (34::nat);
       quote = (if single \<in> set s \<and> double \<notin> set s then double else single)
     in quote # concat (map (repr_char quote) s) @ [quote])"

fun py_repr :: "json \<Rightarrow> string" where
  "py_repr JNull = ''None''"
| "py_repr (JBool b) = (if b then ''True'' else ''False'')"
| "py_repr (JInt i) = int_str i"
| "py_repr (JStr s) = py_repr_str s"
| "py_repr (JList xs) = ''['' @ join '', '' (map py_repr xs) @ '']''"
| "py_repr (JObj kvs) = char_of (123::nat) #
     join '', '' (map (\<lambda>(k, t). py_repr_str k @ '': '' @ t) (map (\<lambda>(k, v). (k, py_repr v)) kvs)) @ [char_of (125::nat)]"

fun py_str :: "json \<Rightarrow> string" where
  "py_str (JStr s) = s"
| "py_str v = py_repr v"

text \<open>\<open>str(x)\<close> where a missing key gives \<open>None\<close>, and \<open>str(x or "")\<close>.\<close>

definition str_of :: "json option \<Rightarrow> string" where
  "str_of x = py_str (case x of None \<Rightarrow> JNull | Some v \<Rightarrow> v)"

definition str_or :: "string \<Rightarrow> json option \<Rightarrow> string" where
  "str_or fallback x = (if j_truthy x then str_of x else fallback)"

section \<open>Equality\<close>

text \<open>\<open>True == 1\<close> and \<open>False == 0\<close>; the order of keys does not matter.\<close>

fun as_number :: "json \<Rightarrow> int option" where
  "as_number (JInt i) = Some i"
| "as_number (JBool b) = Some (if b then 1 else 0)"
| "as_number _ = None"

fun py_eq :: "json \<Rightarrow> json \<Rightarrow> bool"
  and py_eq_list :: "json list \<Rightarrow> json list \<Rightarrow> bool"
  and py_eq_dict :: "(string \<times> json) list \<Rightarrow> (string \<times> json) list \<Rightarrow> bool" where
  "py_eq JNull w = (w = JNull)"
| "py_eq (JBool b) w = (as_number w = Some (if b then 1 else 0))"
| "py_eq (JInt i) w = (as_number w = Some i)"
| "py_eq (JStr s) w = (w = JStr s)"
| "py_eq (JList xs) w = (case w of JList ys \<Rightarrow> py_eq_list xs ys | _ \<Rightarrow> False)"
| "py_eq (JObj kvs) w = (case w of JObj lws \<Rightarrow> length kvs = length lws \<and> py_eq_dict kvs lws | _ \<Rightarrow> False)"
| "py_eq_list [] ys = (ys = [])"
| "py_eq_list (x # xs) ys = (case ys of [] \<Rightarrow> False | y # ys' \<Rightarrow> py_eq x y \<and> py_eq_list xs ys')"
| "py_eq_dict [] lws = True"
| "py_eq_dict ((k, v) # kvs) lws = ((case map_of lws k of None \<Rightarrow> False | Some w \<Rightarrow> py_eq v w) \<and> py_eq_dict kvs lws)"

lemma py_eq_str [simp]: "py_eq (JStr a) (JStr b) \<longleftrightarrow> a = b"
  by auto

end
