(* ===== verification/Automations.thy ===== *)
theory Automations
  imports AutomationGraphs PyValues Access Outbox Scheduler
begin

text \<open>
  Automations: the operations of \<open>services/automations.py\<close>, the triggers of \<open>services/automation_triggers.py\<close> and the
  engine of \<open>workers/automation_tasks.py\<close>.

  The engine runs in an environment that fixes the clock, the ids of new rows, what other transactions commit before each
  \<open>db.refresh(run)\<close>, and the actions that leave the system or belong to other services (sending messages, catalog and
  AI replies, deals, web requests).  Conditions, delays, tags, assignments, statuses and life-cycle stages are modelled as
  they are.  A pass of the loop executes one node; the number of passes is bounded by fuel.
\<close>

section \<open>Operations\<close>

record automation_create =
  ac_organization_id :: uuid
  ac_name :: string
  ac_description :: "string option"
  ac_trigger_type :: automation_trigger
  ac_trigger_config :: json
  ac_graph :: automation_graph

text \<open>The fields of an update that are set in the request; \<open>exclude_unset\<close> leaves the others out.  An
  explicit null for a column that cannot be null fails in the database and is left out.\<close>

record automation_update =
  au_name :: "string option"
  au_description :: "string option option"
  au_trigger_type :: "automation_trigger option"
  au_trigger_config :: "json option"
  au_graph :: "automation_graph option"
  au_status :: "automation_status option"

definition sum_outcomes :: "int outcome list \<Rightarrow> int outcome" where
  "sum_outcomes xs = foldl (\<lambda>acc x. case acc of Inl e \<Rightarrow> Inl e
     | Inr a \<Rightarrow> (case x of Inl e \<Rightarrow> Inl e | Inr b \<Rightarrow> Inr (a + b))) (Inr 0) xs"

definition node_delay :: "json \<Rightarrow> int outcome" where
  "node_delay data = (case int_or_zero (jget data ''seconds'') of Inl e \<Rightarrow> Inl e
     | Inr s \<Rightarrow> (case int_or_zero (jget data ''minutes'') of Inl e \<Rightarrow> Inl e | Inr m \<Rightarrow> Inr (s + m * 60)))"

definition estimate_graph_delay_seconds :: "automation_graph \<Rightarrow> int outcome" where
  "estimate_graph_delay_seconds g =
     sum_outcomes (map (\<lambda>n. node_delay (nd_data n)) (filter (\<lambda>n. nd_type n = ''delay'') (gr_nodes g)))"

definition run_deadline_for_graph :: "automation_graph \<Rightarrow> datetime outcome" where
  "run_deadline_for_graph g = (case estimate_graph_delay_seconds g of Inl e \<Rightarrow> Inl e
     | Inr delay_seconds \<Rightarrow> Inr (minutes (max 15 (15 + delay_seconds div 60))))"

definition get_automation :: "db \<Rightarrow> uuid \<Rightarrow> uuid \<Rightarrow> membership option \<Rightarrow> automation outcome" where
  "get_automation s account_id automation_id mo =
     (case get_automation_row s automation_id of
        None \<Rightarrow> Inl (ValueError ''AUTOMATION_NOT_FOUND'')
      | Some item \<Rightarrow>
          if aut_account_id item \<noteq> account_id then Inl (ValueError ''AUTOMATION_NOT_FOUND'')
          else (case mo of None \<Rightarrow> Inr item
            | Some m \<Rightarrow> (case ensure_membership_organization_access s account_id m (aut_organization_id item) of
                Inl e \<Rightarrow> Inl e | Inr _ \<Rightarrow> Inr item)))"

definition create_automation :: "datetime \<Rightarrow> uuid \<Rightarrow> uuid \<Rightarrow> uuid \<Rightarrow> uuid \<Rightarrow> automation_create \<Rightarrow> membership option \<Rightarrow> db \<Rightarrow>
    automation outcome \<times> db" where
  "create_automation now new_id event_id account_id user_id payload mo s =
     (if (case get_organization s (ac_organization_id payload) of None \<Rightarrow> True | Some o' \<Rightarrow> org_account_id o' \<noteq> account_id)
      then (Inl (ValueError ''INVALID_ORGANIZATION''), s)
      else (case (case mo of None \<Rightarrow> Inr () | Some m \<Rightarrow>
                ensure_membership_organization_access s account_id m (ac_organization_id payload)) of
          Inl e \<Rightarrow> (Inl e, s)
        | Inr _ \<Rightarrow>
            (let item = \<lparr>aut_id = new_id, aut_account_id = account_id, aut_organization_id = ac_organization_id payload,
                   aut_created_by_user_id = user_id, aut_name = ac_name payload, aut_description = ac_description payload,
                   aut_status = AutDraft, aut_trigger_type = ac_trigger_type payload,
                   aut_trigger_config = ac_trigger_config payload, aut_graph = ac_graph payload, aut_version = 1,
                   aut_updated_at = now\<rparr>
             in (Inr item, add_outbox_event now event_id account_id ''automation.created'' ''automation'' (uuid_str new_id)
                   (JObj [(''automation_id'', JStr (uuid_str new_id))]) (s\<lparr>automations := automations s @ [item]\<rparr>)))))"

definition list_automations :: "db \<Rightarrow> uuid \<Rightarrow> membership option \<Rightarrow> automation list" where
  "list_automations s account_id mo = sort_key (\<lambda>a. - aut_updated_at a) (filter (\<lambda>a. aut_account_id a = account_id \<and>
     (case mo of None \<Rightarrow> True | Some m \<Rightarrow> organization_scope_clauses s account_id m (Some (aut_organization_id a)))) (automations s))"

definition apply_changes :: "automation_update \<Rightarrow> automation \<Rightarrow> automation" where
  "apply_changes p item = item\<lparr>
     aut_name := (case au_name p of None \<Rightarrow> aut_name item | Some v \<Rightarrow> v),
     aut_description := (case au_description p of None \<Rightarrow> aut_description item | Some v \<Rightarrow> v),
     aut_trigger_type := (case au_trigger_type p of None \<Rightarrow> aut_trigger_type item | Some v \<Rightarrow> v),
     aut_trigger_config := (case au_trigger_config p of None \<Rightarrow> aut_trigger_config item | Some v \<Rightarrow> v),
     aut_status := (case au_status p of None \<Rightarrow> aut_status item | Some v \<Rightarrow> v)\<rparr>"

definition update_automation :: "datetime \<Rightarrow> uuid \<Rightarrow> uuid \<Rightarrow> automation_update \<Rightarrow> membership option \<Rightarrow> db \<Rightarrow> automation outcome \<times> db" where
  "update_automation now account_id automation_id payload mo s =
     (case get_automation s account_id automation_id mo of
        Inl e \<Rightarrow> (Inl e, s)
      | Inr item \<Rightarrow>
          (let item1 = apply_changes payload item;
               item2 = (case au_graph payload of None \<Rightarrow> item1 | Some g \<Rightarrow> item1\<lparr>aut_graph := g\<rparr>);
               item3 = item2\<lparr>aut_version := aut_version item2 + 1, aut_updated_at := now\<rparr>;
               item4 = (if aut_status item3 = AutActive \<and> au_graph payload \<noteq> None then item3\<lparr>aut_status := AutDraft\<rparr> else item3)
           in (Inr item4, put_automation_row item4 s)))"

definition publish_automation :: "datetime \<Rightarrow> uuid \<Rightarrow> uuid \<Rightarrow> uuid \<Rightarrow> membership option \<Rightarrow> db \<Rightarrow> automation outcome \<times> db" where
  "publish_automation now event_id account_id automation_id mo s =
     (case get_automation s account_id automation_id mo of
        Inl e \<Rightarrow> (Inl e, s)
      | Inr item \<Rightarrow>
          (case validate_publishable_graph (aut_graph item) of
             Inl e \<Rightarrow> (Inl e, s)
           | Inr _ \<Rightarrow>
               (let item' = item\<lparr>aut_status := AutActive, aut_version := aut_version item + 1, aut_updated_at := now\<rparr>
                in (Inr item', add_outbox_event now event_id account_id ''automation.published'' ''automation''
                     (uuid_str (aut_id item)) (JObj [(''automation_id'', JStr (uuid_str (aut_id item))),
                       (''version'', JInt (aut_version item'))]) (put_automation_row item' s)))))"

definition pause_automation :: "datetime \<Rightarrow> uuid \<Rightarrow> uuid \<Rightarrow> membership option \<Rightarrow> db \<Rightarrow> automation outcome \<times> db" where
  "pause_automation now account_id automation_id mo s =
     (case get_automation s account_id automation_id mo of
        Inl e \<Rightarrow> (Inl e, s)
      | Inr item \<Rightarrow> (let item' = item\<lparr>aut_status := AutPaused, aut_updated_at := now\<rparr> in (Inr item', put_automation_row item' s)))"

definition max_steps_for :: "automation_graph \<Rightarrow> int" where
  "max_steps_for g = min (max (int (length (gr_nodes g)) * 3) 25) 500"

definition new_run :: "datetime \<Rightarrow> uuid \<Rightarrow> uuid \<Rightarrow> automation \<Rightarrow> json \<Rightarrow> datetime \<Rightarrow> automation_run" where
  "new_run now i account_id item payload deadline =
     \<lparr>ar_id = i, ar_automation_id = aut_id item, ar_account_id = account_id, ar_status = ArQueued, ar_trigger_payload = payload,
      ar_context = [], ar_current_node_id = None, ar_error_message = None, ar_started_at = None, ar_finished_at = None,
      ar_step_count = 0, ar_max_steps = max_steps_for (aut_graph item), ar_deadline_at = Some (now + deadline),
      ar_cancellation_requested_at = None, ar_created_at = now\<rparr>"

definition create_test_run :: "datetime \<Rightarrow> uuid \<Rightarrow> uuid \<Rightarrow> uuid \<Rightarrow> json \<Rightarrow> membership option \<Rightarrow> db \<Rightarrow> automation_run outcome \<times> db" where
  "create_test_run now new_id account_id automation_id trigger_payload mo s =
     (case get_automation s account_id automation_id mo of
        Inl e \<Rightarrow> (Inl e, s)
      | Inr item \<Rightarrow>
          (case validate_publishable_graph (aut_graph item) of
             Inl e \<Rightarrow> (Inl e, s)
           | Inr _ \<Rightarrow>
               (case run_deadline_for_graph (aut_graph item) of
                  Inl e \<Rightarrow> (Inl e, s)
                | Inr d \<Rightarrow> (let r = new_run now new_id account_id item trigger_payload d
                    in (Inr r, s\<lparr>automation_runs := automation_runs s @ [r]\<rparr>)))))"

definition list_runs :: "db \<Rightarrow> uuid \<Rightarrow> uuid \<Rightarrow> membership option \<Rightarrow> automation_run list outcome" where
  "list_runs s account_id automation_id mo =
     (case get_automation s account_id automation_id mo of
        Inl e \<Rightarrow> Inl e
      | Inr _ \<Rightarrow> Inr (take 100 (sort_key (\<lambda>r. - ar_created_at r) (filter (\<lambda>r. ar_automation_id r = automation_id) (automation_runs s)))))"

definition request_run_cancellation :: "datetime \<Rightarrow> uuid \<Rightarrow> uuid \<Rightarrow> db \<Rightarrow> automation_run outcome \<times> db" where
  "request_run_cancellation now account_id i s =
     (case get_run_row s i of
        None \<Rightarrow> (Inl (ValueError ''AUTOMATION_RUN_NOT_FOUND''), s)
      | Some r \<Rightarrow>
          if ar_account_id r \<noteq> account_id then (Inl (ValueError ''AUTOMATION_RUN_NOT_FOUND''), s)
          else if ar_status r \<in> {ArSucceeded, ArFailed, ArStopped} then (Inl (ValueError ''AUTOMATION_RUN_ALREADY_FINISHED''), s)
          else (let r' = r\<lparr>ar_cancellation_requested_at := Some now\<rparr> in (Inr r', put_run_row r' s)))"

section \<open>Triggers\<close>

definition differs_from :: "json option \<Rightarrow> json option \<Rightarrow> bool" where
  "differs_from configured actual \<longleftrightarrow> j_truthy configured \<and> str_of configured \<noteq> str_of actual"

text \<open>The elements a \<open>for\<close> loop takes from the value under \<open>keywords\<close>.\<close>

fun iterate_json :: "json \<Rightarrow> json list outcome" where
  "iterate_json (JList xs) = Inr xs"
| "iterate_json (JStr s) = Inr (map (\<lambda>c. JStr [c]) s)"
| "iterate_json (JObj kvs) = Inr (map (\<lambda>(k, v). JStr k) kvs)"
| "iterate_json _ = Inl (OtherError ''object is not iterable'')"

definition matches_trigger_config :: "automation \<Rightarrow> json \<Rightarrow> bool outcome" where
  "matches_trigger_config automation payload =
     (let config = aut_trigger_config automation in
      if \<not> j_truthy (Some config) then Inr True
      else if differs_from (jget config ''organization_id'') (jget payload ''organization_id'') then Inr False
      else if differs_from (jget config ''channel_id'') (jget payload ''channel_id'') then Inr False
      else if differs_from (jget config ''tag_id'') (jget payload ''tag_id'') then Inr False
      else
        (let keywords = jget config ''keywords'';
             button = (let b = jget config ''button_id''
               in \<not> (j_truthy b \<and> str_of b \<noteq> str_or [] (jget payload ''button_id'')))
         in case (if j_truthy keywords then map_option iterate_json keywords else None) of
              None \<Rightarrow> Inr button
            | Some (Inl e) \<Rightarrow> Inl e
            | Some (Inr ks) \<Rightarrow>
                (let text = py_lower (str_or [] (jget payload ''text''))
                 in if \<exists>k \<in> set ks. py_strip (py_str k) \<noteq> [] \<and> contains text (py_lower (py_str k)) then Inr button else Inr False)))"

fun filter_matching :: "json \<Rightarrow> automation list \<Rightarrow> automation list outcome" where
  "filter_matching payload [] = Inr []"
| "filter_matching payload (a # as) =
     (case matches_trigger_config a payload of
        Inl e \<Rightarrow> Inl e
      | Inr b \<Rightarrow> (case filter_matching payload as of Inl e \<Rightarrow> Inl e | Inr ms \<Rightarrow> Inr (if b then a # ms else ms)))"

fun add_runs :: "datetime \<Rightarrow> (uuid \<Rightarrow> uuid) \<Rightarrow> uuid \<Rightarrow> json \<Rightarrow> automation list \<Rightarrow> db \<Rightarrow> uuid list outcome \<times> db" where
  "add_runs now new_ids account_id payload [] s = (Inr [], s)"
| "add_runs now new_ids account_id payload (a # as) s =
     (case run_deadline_for_graph (aut_graph a) of
        Inl e \<Rightarrow> (Inl e, s)
      | Inr d \<Rightarrow>
          (let r = new_run now (new_ids (aut_id a)) account_id a payload d;
               (ids, s') = add_runs now new_ids account_id payload as (s\<lparr>automation_runs := automation_runs s @ [r]\<rparr>)
           in (case ids of Inl e \<Rightarrow> Inl e | Inr is \<Rightarrow> Inr (ar_id r # is), s')))"

definition is_triggered :: "uuid \<Rightarrow> uuid \<Rightarrow> automation_trigger \<Rightarrow> automation \<Rightarrow> bool" where
  "is_triggered account_id organization_id trigger a \<longleftrightarrow> aut_account_id a = account_id \<and> aut_organization_id a = organization_id
     \<and> aut_status a = AutActive \<and> aut_trigger_type a = trigger"

definition queue_automation_runs :: "datetime \<Rightarrow> (uuid \<Rightarrow> uuid) \<Rightarrow> uuid \<Rightarrow> automation_trigger \<Rightarrow> json \<Rightarrow> db \<Rightarrow> uuid list outcome \<times> db" where
  "queue_automation_runs now new_ids account_id trigger payload s =
     (case jget payload ''organization_id'' of
        None \<Rightarrow> (Inr [], s)
      | Some JNull \<Rightarrow> (Inr [], s)
      | Some organization_id \<Rightarrow>
          (case parse_uuid (py_str organization_id) of
             None \<Rightarrow> (Inl (ValueError ''badly formed hexadecimal UUID string''), s)
           | Some org \<Rightarrow>
               (case filter_matching payload (filter (is_triggered account_id org trigger) (automations s)) of
                  Inl e \<Rightarrow> (Inl e, s)
                | Inr matching \<Rightarrow> add_runs now new_ids account_id payload matching s)))"

definition dispatch_automation_runs :: "uuid list \<Rightarrow> task_queues \<Rightarrow> task_queues" where
  "dispatch_automation_runs run_ids q = q\<lparr>automation_queue := automation_queue q @ map uuid_str run_ids\<rparr>"

definition build_conversation_trigger_payload :: "db \<Rightarrow> conversation \<Rightarrow> (string \<times> json) list \<Rightarrow> json" where
  "build_conversation_trigger_payload s conversation extra =
     JObj (dict_update [(''organization_id'', JStr (uuid_str (conv_organization_id conversation))),
       (''channel_id'', JStr (uuid_str (conv_channel_id conversation))),
       (''conversation_id'', JStr (uuid_str (conv_id conversation))),
       (''contact_id'', JStr (uuid_str (conv_contact_id conversation))),
       (''from'', (case get_contact_row s (conv_contact_id conversation) of None \<Rightarrow> JNull | Some c \<Rightarrow> JStr (con_external_address c)))] extra)"

section \<open>Conditions and delays\<close>

definition SYNC_DELAY_MAX_SECONDS :: int where
  "SYNC_DELAY_MAX_SECONDS = 30"

definition TRIGGER_FIELDS :: "string list" where
  "TRIGGER_FIELDS = [''text'', ''from'', ''conversation_id'', ''contact_id'', ''whatsapp_account_id'', ''channel_id'',
     ''organization_id'', ''tag_id'', ''button_id'', ''button_title'']"

definition condition_field :: "json \<Rightarrow> string" where
  "condition_field config =
     (let field = py_strip (str_or ''trigger.text'' (jget config ''field'')) in
      if field \<noteq> [] \<and> \<not> starts_with field ''trigger.''
      then (if starts_with field ''message.'' then ''trigger.'' @ field
            else if field \<in> set TRIGGER_FIELDS then ''trigger.'' @ field else field)
      else field)"

definition lookup_path :: "string \<Rightarrow> json \<Rightarrow> json" where
  "lookup_path field context = foldl (\<lambda>actual part. if part = [] then actual
     else (case jget actual part of None \<Rightarrow> JNull | Some v \<Rightarrow> v)) context (split_on (CHR ''.'') field)"

text \<open>The table of results is looked up with the operator, which must be hashable.\<close>

definition evaluate_condition :: "json \<Rightarrow> json \<Rightarrow> bool outcome" where
  "evaluate_condition config context =
     (let actual = lookup_path (condition_field config) context;
          operator = (case jget config ''operator'' of None \<Rightarrow> JStr ''equals'' | Some v \<Rightarrow> v);
          expected = (case jget config ''value'' of None \<Rightarrow> JNull | Some v \<Rightarrow> v);
          text = py_lower (str_or [] (Some actual));
          needle = py_lower (py_str expected)
      in case operator of
           JStr op \<Rightarrow> Inr (if op = ''equals'' then py_eq actual expected
             else if op = ''not_equals'' then \<not> py_eq actual expected
             else if op = ''contains'' then contains text needle
             else if op = ''starts_with'' then starts_with text needle
             else if op = ''exists'' then actual \<noteq> JNull
             else False)
         | JList _ \<Rightarrow> Inl (OtherError ''unhashable type: list'')
         | JObj _ \<Rightarrow> Inl (OtherError ''unhashable type: dict'')
         | _ \<Rightarrow> Inr False)"

definition delay_seconds :: "json \<Rightarrow> int outcome" where
  "delay_seconds data = (case node_delay data of Inl e \<Rightarrow> Inl e | Inr n \<Rightarrow> Inr (min (max n 0) 86400))"

section \<open>The engine's state\<close>

record auto_env =
  at_clock :: "nat \<Rightarrow> datetime"
  at_commits :: "nat \<Rightarrow> db \<Rightarrow> db"
  at_step_id :: "nat \<Rightarrow> uuid"
  at_job_id :: uuid
  at_other_action :: "nat \<Rightarrow> db \<Rightarrow> automation_run \<Rightarrow> string \<Rightarrow> json \<Rightarrow> (string \<times> json) list \<Rightarrow> json outcome \<times> db"

text \<open>\<open>at_trace\<close> lists the executed nodes with the targets they put on the queue; only theorems read it.\<close>

record auto_state =
  at_db :: db
  at_tick :: nat
  at_trace :: "(string \<times> string list) list"

datatype auto_result = RunNotFound | AlreadyFinished automation_run_status | RunWaiting int | RunSucceeded int
  | RunStopped int | RunFailed string | RunCrashed

definition update_run :: "uuid \<Rightarrow> (automation_run \<Rightarrow> automation_run) \<Rightarrow> db \<Rightarrow> db" where
  "update_run i f s = s\<lparr>automation_runs := tbl_update (\<lambda>r. ar_id r = i) f (automation_runs s)\<rparr>"

definition on_auto_db :: "(db \<Rightarrow> db) \<Rightarrow> auto_state \<Rightarrow> auto_state" where
  "on_auto_db f st = st\<lparr>at_db := f (at_db st)\<rparr>"

datatype guard_result = GoOn automation_run | CancelSeen int | GuardError string | RunGone

definition run_guard :: "auto_env \<Rightarrow> uuid \<Rightarrow> auto_state \<Rightarrow> guard_result \<times> auto_state" where
  "run_guard env i st =
     (let s = at_commits env (at_tick st) (at_db st);
          now = at_clock env (at_tick st);
          st' = st\<lparr>at_db := s, at_tick := Suc (at_tick st)\<rparr>
      in case get_run_row s i of
           None \<Rightarrow> (RunGone, st')
         | Some r \<Rightarrow>
             if ar_cancellation_requested_at r \<noteq> None
             then (CancelSeen (ar_step_count r), on_auto_db (update_run i (\<lambda>q. q\<lparr>ar_status := ArStopped,
                     ar_error_message := Some ''Cancellation requested'', ar_finished_at := Some now\<rparr>)) st')
             else if (case ar_deadline_at r of None \<Rightarrow> False | Some d \<Rightarrow> d \<le> now)
             then (GuardError ''Automation execution deadline exceeded'', st')
             else if ar_max_steps r \<le> ar_step_count r
             then (GuardError ''Automation exceeded maximum execution steps'', st')
             else (GoOn r, st'))"

fun sleep_guarded :: "nat \<Rightarrow> auto_env \<Rightarrow> uuid \<Rightarrow> auto_state \<Rightarrow> guard_result option \<times> auto_state" where
  "sleep_guarded 0 env i st = (None, st)"
| "sleep_guarded (Suc n) env i st =
     (case run_guard env i st of
        (GoOn r, st') \<Rightarrow> sleep_guarded n env i st'
      | (stop, st') \<Rightarrow> (Some stop, st'))"

section \<open>Actions\<close>

text \<open>\<open>_uuid\<close>: the first truthy value under the key in the node, the context and the trigger.\<close>

definition context_value :: "json \<Rightarrow> (string \<times> json) list \<Rightarrow> string \<Rightarrow> json option" where
  "context_value config context key =
     (if j_truthy (jget config key) then jget config key
      else if j_truthy (map_of context key) then map_of context key
      else (case map_of context ''trigger'' of None \<Rightarrow> None | Some t \<Rightarrow> jget t key))"

definition context_uuid :: "json \<Rightarrow> (string \<times> json) list \<Rightarrow> string \<Rightarrow> uuid option outcome" where
  "context_uuid config context key =
     (let v = context_value config context key in
      if j_truthy v then (case parse_uuid (str_of v) of None \<Rightarrow> Inl (ValueError ''badly formed hexadecimal UUID string'')
                            | Some i \<Rightarrow> Inr (Some i))
      else Inr None)"

fun parse_conversation_status :: "string \<Rightarrow> conversation_status option" where
  "parse_conversation_status t = (if t = ''open'' then Some ConvOpen else if t = ''pending'' then Some ConvPending
     else if t = ''closed'' then Some ConvClosed else if t = ''spam'' then Some ConvSpam else None)"

definition opt_uuid_str :: "uuid option \<Rightarrow> string" where
  "opt_uuid_str i = (case i of None \<Rightarrow> ''None'' | Some u \<Rightarrow> uuid_str u)"

definition CONVERSATION_ACTIONS :: "string list" where
  "CONVERSATION_ACTIONS = [''add_tag'', ''remove_tag'', ''assign_team'', ''assign_user'', ''set_status'']"

text \<open>The actions on a conversation, which is there and belongs to the account.\<close>

definition conversation_action :: "automation_run \<Rightarrow> string \<Rightarrow> json \<Rightarrow> (string \<times> json) list \<Rightarrow> conversation \<Rightarrow> db \<Rightarrow> json outcome \<times> db" where
  "conversation_action run kind data context conv s =
     (if kind = ''add_tag'' then
        (case context_uuid data context ''tag_id'' of
           Inl e \<Rightarrow> (Inl e, s)
         | Inr wanted \<Rightarrow>
             (case (case wanted of None \<Rightarrow> None | Some i \<Rightarrow> get_tag s i) of
                None \<Rightarrow> (Inl (ValueError ''Tag not available''), s)
              | Some t \<Rightarrow>
                  if tag_account_id t \<noteq> ar_account_id run then (Inl (ValueError ''Tag not available''), s)
                  else (let link = \<lparr>ct_conversation_id = conv_id conv, ct_tag_id = tag_id t\<rparr>
                    in (Inr (JObj [(''tag_added'', JStr (uuid_str (tag_id t)))]),
                        if link \<in> set (conversation_tags s) then s
                        else s\<lparr>conversation_tags := conversation_tags s @ [link]\<rparr>))))
      else if kind = ''remove_tag'' then
        (case context_uuid data context ''tag_id'' of
           Inl e \<Rightarrow> (Inl e, s)
         | Inr i \<Rightarrow> (Inr (JObj [(''tag_removed'', JStr (opt_uuid_str i))]),
             s\<lparr>conversation_tags := filter (\<lambda>l. \<not> (ct_conversation_id l = conv_id conv \<and> Some (ct_tag_id l) = i)) (conversation_tags s)\<rparr>))
      else if kind = ''assign_user'' then
        (case context_uuid data context ''membership_id'' of
           Inl e \<Rightarrow> (Inl e, s)
         | Inr membership_id \<Rightarrow>
             (case (case membership_id of None \<Rightarrow> None | Some i \<Rightarrow> get_membership s i) of
                None \<Rightarrow> (Inl (ValueError ''Membership not available''), s)
              | Some m \<Rightarrow>
                  if mem_account_id m \<noteq> ar_account_id run then (Inl (ValueError ''Membership not available''), s)
                  else (Inr (JObj [(''assigned_membership_id'', JStr (uuid_str (mem_id m)))]),
                        put_conversation (conv\<lparr>conv_assigned_membership_id := Some (mem_id m)\<rparr>) s)))
      else if kind = ''assign_team'' then
        (case context_uuid data context ''team_id'' of
           Inl e \<Rightarrow> (Inl e, s)
         | Inr i \<Rightarrow>
             (case find (\<lambda>l. Some (tm_team_id l) = i \<and>
                    (case get_membership s (tm_membership_id l) of None \<Rightarrow> False | Some m \<Rightarrow> mem_account_id m = ar_account_id run))
                  (team_members s) of
                None \<Rightarrow> (Inl (ValueError ''Team has no available member''), s)
              | Some l \<Rightarrow> (Inr (JObj [(''assigned_membership_id'', JStr (uuid_str (tm_membership_id l)))]),
                  put_conversation (conv\<lparr>conv_assigned_membership_id := Some (tm_membership_id l)\<rparr>) s)))
      else
        (let status = (case jget data ''status'' of None \<Rightarrow> ''open'' | Some v \<Rightarrow> py_str v) in
         case parse_conversation_status status of
           None \<Rightarrow> (Inl (ValueError (py_repr_str status @ '' is not a valid ConversationStatus'')), s)
         | Some v \<Rightarrow> (Inr (JObj [(''status'', JStr status)]), put_conversation (conv\<lparr>conv_status := v\<rparr>) s)))"

definition set_lifecycle_action :: "automation_run \<Rightarrow> json \<Rightarrow> (string \<times> json) list \<Rightarrow> db \<Rightarrow> json outcome \<times> db" where
  "set_lifecycle_action run data context s =
     (case context_uuid data context ''contact_id'' of
        Inl e \<Rightarrow> (Inl e, s)
      | Inr contact_id \<Rightarrow>
          (let stage = take 30 (py_strip (str_or (str_or ''lead'' (jget data ''stage'')) (jget data ''lifecycle_stage''))) in
           case contact_id of
             None \<Rightarrow> (Inl (ValueError ''set_lifecycle requires contact_id''), s)
           | Some i \<Rightarrow>
               (case get_contact_row s i of
                  None \<Rightarrow> (Inl (ValueError ''Contact not available''), s)
                | Some c \<Rightarrow>
                    if con_account_id c \<noteq> ar_account_id run \<or> con_deleted_at c \<noteq> None
                    then (Inl (ValueError ''Contact not available''), s)
                    else (let stage' = (if stage = [] then ''lead'' else stage)
                      in (Inr (JObj [(''lifecycle_stage'', JStr stage')]), put_contact (c\<lparr>con_lifecycle_stage := stage'\<rparr>) s)))))"

definition run_action :: "auto_env \<Rightarrow> automation_run \<Rightarrow> string \<Rightarrow> json \<Rightarrow> (string \<times> json) list \<Rightarrow> auto_state \<Rightarrow> json outcome \<times> db" where
  "run_action env run kind data context st =
     (let s = at_db st in
      case context_uuid data context ''conversation_id'' of
        Inl e \<Rightarrow> (Inl e, s)
      | Inr None \<Rightarrow>
          if kind \<in> set CONVERSATION_ACTIONS then (Inl (ValueError (kind @ '' requires conversation_id'')), s)
          else if kind = ''set_lifecycle'' then set_lifecycle_action run data context s
          else at_other_action env (at_tick st) s run kind data context
      | Inr (Some i) \<Rightarrow>
          (case get_conversation_row s i of
             None \<Rightarrow> (Inl (ValueError ''Conversation not available''), s)
           | Some conv \<Rightarrow>
               if conv_account_id conv \<noteq> ar_account_id run \<or> conv_deleted_at conv \<noteq> None
               then (Inl (ValueError ''Conversation not available''), s)
               else if kind \<in> set CONVERSATION_ACTIONS then conversation_action run kind data context conv s
               else if kind = ''set_lifecycle'' then set_lifecycle_action run data context s
               else at_other_action env (at_tick st) s run kind data context))"

section \<open>The engine\<close>

definition find_node :: "automation_graph \<Rightarrow> string \<Rightarrow> automation_node option" where
  "find_node g node_id = find (\<lambda>n. nd_id n = node_id) (rev (gr_nodes g))"

definition branch_of :: "automation_edge \<Rightarrow> string" where
  "branch_of e = (let name = (\<lambda>x. case x of None \<Rightarrow> [] | Some t \<Rightarrow> t) in
     py_lower (if name (ed_source_handle e) \<noteq> [] then name (ed_source_handle e) else name (ed_label e)))"

datatype node_result = NodeDone json "string list" | NodeDelayed int "string list" | NodeHalted guard_result | NodeError string

definition start_step :: "uuid \<Rightarrow> datetime \<Rightarrow> uuid \<Rightarrow> automation_node \<Rightarrow> (string \<times> json) list \<Rightarrow> db \<Rightarrow> db" where
  "start_step step now i node context s =
     (let s1 = update_run i (\<lambda>r. r\<lparr>ar_current_node_id := Some (nd_id node)\<rparr>) s
      in s1\<lparr>run_steps := run_steps s1 @ [\<lparr>ars_id = step, ars_run_id = i, ars_node_id = nd_id node, ars_node_type = nd_type node,
           ars_status = StepRunning, ars_input_data = context, ars_output_data = None, ars_started_at = Some now,
           ars_finished_at = None\<rparr>]\<rparr>)"

definition finish_step :: "uuid \<Rightarrow> datetime \<Rightarrow> uuid \<Rightarrow> json \<Rightarrow> db \<Rightarrow> db" where
  "finish_step step now i output s =
     (let s1 = update_run i (\<lambda>r. r\<lparr>ar_step_count := ar_step_count r + 1\<rparr>) s
      in s1\<lparr>run_steps := tbl_update (\<lambda>x. ars_id x = step) (\<lambda>x. x\<lparr>ars_status := StepSucceeded,
           ars_output_data := Some output, ars_finished_at := Some now\<rparr>) (run_steps s1)\<rparr>)"

definition exec_node :: "auto_env \<Rightarrow> uuid \<Rightarrow> automation_run \<Rightarrow> automation_graph \<Rightarrow> automation_node \<Rightarrow> (string \<times> json) list \<Rightarrow> auto_state \<Rightarrow>
    node_result \<times> auto_state" where
  "exec_node env i run g node context st =
     (let next_edges = filter (\<lambda>e. ed_source e = nd_id node) (gr_edges g); data = nd_data node in
      if nd_type node = ''condition'' then
        (case evaluate_condition data (JObj context) of
           Inl e \<Rightarrow> (NodeError (error_text e), st)
         | Inr b \<Rightarrow> (NodeDone (JObj [(''result'', JBool b)])
             (map ed_target (filter (\<lambda>e. branch_of e = (if b then ''true'' else ''false'')) next_edges)), st))
      else if nd_type node = ''delay'' then
        (case delay_seconds data of
           Inl e \<Rightarrow> (NodeError (error_text e), st)
         | Inr n \<Rightarrow>
             if n > SYNC_DELAY_MAX_SECONDS then (NodeDelayed n (map ed_target next_edges), st)
             else (case sleep_guarded (nat n) env i st of
                 (Some (GuardError m), st') \<Rightarrow> (NodeError m, st')
               | (Some stop, st') \<Rightarrow> (NodeHalted stop, st')
               | (None, st') \<Rightarrow> (NodeDone (JObj [(''delayed_seconds'', JInt n)]) (map ed_target next_edges), st')))
      else if nd_type node = ''stop'' then (NodeDone (JObj [(''stopped'', JBool True)]) [], st)
      else if nd_type node = ''trigger'' then (NodeDone (JObj [(''triggered'', JBool True)]) (map ed_target next_edges), st)
      else (case run_action env run (nd_type node) data context st of
          (Inl e, s) \<Rightarrow> (NodeError (error_text e), st\<lparr>at_db := s\<rparr>)
        | (Inr output, s) \<Rightarrow> (NodeDone output (map ed_target next_edges), st\<lparr>at_db := s\<rparr>)))"

definition fail_run :: "auto_env \<Rightarrow> uuid \<Rightarrow> string \<Rightarrow> auto_state \<Rightarrow> auto_result option \<times> auto_state" where
  "fail_run env i message st = (Some (RunFailed message), on_auto_db (update_run i (\<lambda>r. r\<lparr>ar_status := ArFailed,
     ar_error_message := Some (take 2000 message), ar_finished_at := Some (at_clock env (at_tick st))\<rparr>)) st)"

definition add_step_output :: "string \<Rightarrow> json \<Rightarrow> (string \<times> json) list \<Rightarrow> (string \<times> json) list" where
  "add_step_output node_id output context =
     dict_set ''steps'' (JObj (dict_set node_id output (case map_of context ''steps'' of Some (JObj kvs) \<Rightarrow> kvs | _ \<Rightarrow> []))) context"

definition schedule_delay_resume :: "auto_env \<Rightarrow> uuid \<Rightarrow> int \<Rightarrow> string list \<Rightarrow> (string \<times> json) list \<Rightarrow> auto_state \<Rightarrow> auto_state" where
  "schedule_delay_resume env i n next_targets context st =
     on_auto_db (\<lambda>s. schedule_job (at_job_id env) (case get_run_row s i of None \<Rightarrow> 0 | Some r \<Rightarrow> ar_account_id r)
         ''automation.resume'' (JObj [(''run_id'', JStr (uuid_str i))]) (at_clock env (at_tick st) + n * seconds 1) 5
         (update_run i (\<lambda>r. r\<lparr>ar_context := dict_set ''resume_queue'' (JList (map JStr next_targets)) context,
            ar_status := ArWaiting\<rparr>) s)) st"

definition log_node :: "string \<Rightarrow> string list \<Rightarrow> auto_state \<Rightarrow> auto_state" where
  "log_node node_id targets st = st\<lparr>at_trace := at_trace st @ [(node_id, targets)]\<rparr>"

fun exec_loop :: "nat \<Rightarrow> auto_env \<Rightarrow> uuid \<Rightarrow> automation_graph \<Rightarrow> string list \<Rightarrow> (string \<times> json) list \<Rightarrow> auto_state \<Rightarrow>
    auto_result option \<times> auto_state" where
  "exec_loop 0 env i g queue context st = (None, st)"
| "exec_loop (Suc fuel) env i g [] context st =
     (Some (RunSucceeded (case get_run_row (at_db st) i of None \<Rightarrow> 0 | Some r \<Rightarrow> ar_step_count r)),
      on_auto_db (update_run i (\<lambda>r. r\<lparr>ar_status := ArSucceeded, ar_current_node_id := None,
        ar_finished_at := Some (at_clock env (at_tick st))\<rparr>)) st)"
| "exec_loop (Suc fuel) env i g (node_id # queue) context st =
     (case run_guard env i st of
        (CancelSeen n, st1) \<Rightarrow> (Some (RunStopped n), st1)
      | (RunGone, st1) \<Rightarrow> (Some RunCrashed, st1)
      | (GuardError m, st1) \<Rightarrow> fail_run env i m st1
      | (GoOn run, st1) \<Rightarrow>
          (case find_node g node_id of
             None \<Rightarrow> fail_run env i (''Automation node not found: '' @ node_id) st1
           | Some node \<Rightarrow>
               (let step = at_step_id env (at_tick st1);
                    st2 = on_auto_db (start_step step (at_clock env (at_tick st1)) i node context) st1
                in case exec_node env i run g node context st2 of
                     (NodeError m, st3) \<Rightarrow> fail_run env i m st3
                   | (NodeHalted (CancelSeen n), st3) \<Rightarrow> (Some (RunStopped n), st3)
                   | (NodeHalted _, st3) \<Rightarrow> (Some RunCrashed, st3)
                   | (NodeDelayed n targets, st3) \<Rightarrow>
                       (let output = JObj [(''delayed_seconds'', JInt n), (''scheduled'', JBool True)];
                            st4 = on_auto_db (finish_step step (at_clock env (at_tick st3)) i output) (log_node node_id targets st3)
                        in (Some (RunWaiting n), schedule_delay_resume env i n targets context st4))
                   | (NodeDone output targets, st3) \<Rightarrow>
                       (let context' = add_step_output node_id output context;
                            st4 = on_auto_db (\<lambda>s. update_run i (\<lambda>r. r\<lparr>ar_context := context'\<rparr>)
                              (finish_step step (at_clock env (at_tick st3)) i output s)) (log_node node_id targets st3)
                        in exec_loop fuel env i g (queue @ targets) context' st4))))"

text \<open>\<open>_execute_run\<close>.  A run that waits goes on with the stored queue, if that is not empty; any other run starts at the
  trigger.\<close>

definition resume_queue :: "(string \<times> json) list \<Rightarrow> string list" where
  "resume_queue context = (case map_of context ''resume_queue'' of Some (JList xs) \<Rightarrow> map py_str xs | _ \<Rightarrow> [])"

definition execute_run :: "nat \<Rightarrow> auto_env \<Rightarrow> uuid \<Rightarrow> db \<Rightarrow> auto_result option \<times> auto_state" where
  "execute_run fuel env i s =
     (let st = \<lparr>at_db = s, at_tick = 0, at_trace = []\<rparr> in
      case get_run_row s i of
        None \<Rightarrow> (Some RunNotFound, st)
      | Some run \<Rightarrow>
          if ar_status run \<in> {ArSucceeded, ArFailed, ArStopped} then (Some (AlreadyFinished (ar_status run)), st)
          else (case get_automation_row s (ar_automation_id run) of
              None \<Rightarrow> fail_run env i ''Automation not found'' st
            | Some automation \<Rightarrow>
                (let g = aut_graph automation in
                 case trigger_nodes g of
                   [] \<Rightarrow> fail_run env i ''Automation trigger is missing'' st
                 | trigger # _ \<Rightarrow>
                     (let stored = filter (\<lambda>(k, v). k \<noteq> ''resume_queue'') (ar_context run);
                          resume = (ar_status run = ArWaiting \<and> resume_queue (ar_context run) \<noteq> []);
                          context = (if resume then stored else [(''trigger'', ar_trigger_payload run)]);
                          queue = (if resume then resume_queue (ar_context run) else [nd_id trigger])
                      in exec_loop fuel env i g queue context (on_auto_db (update_run i (\<lambda>r. r\<lparr>ar_status := ArRunning,
                           ar_started_at := (case ar_started_at r of None \<Rightarrow> Some (at_clock env 0) | Some t \<Rightarrow> Some t),
                           ar_context := context\<rparr>)) st)))))"

end
