(* ===== verification/AutomationRuns.thy ===== *)
theory AutomationRuns
  imports Automations "HOL-Library.Multiset"
begin

text \<open>
  What the automation engine guarantees: a run ends within its budget of steps, executes only what the edges of the graph
  put on its queue, once for every time it was put there, and what happens at long delays; and which
  operations can make an automation active and queue runs.
\<close>

section \<open>Runs and budgets\<close>

definition budget :: "uuid \<Rightarrow> db \<Rightarrow> nat" where
  "budget i s = (case get_run_row s i of None \<Rightarrow> 0 | Some r \<Rightarrow> nat (ar_max_steps r - ar_step_count r))"

text \<open>Neither other transactions nor the actions of the environment give the run more steps.\<close>

definition keeps_budget :: "auto_env \<Rightarrow> uuid \<Rightarrow> bool" where
  "keeps_budget env i \<longleftrightarrow> (\<forall>n s. budget i (at_commits env n s) \<le> budget i s) \<and>
     (\<forall>n s run kind data context. budget i (snd (at_other_action env n s run kind data context)) \<le> budget i s)"

lemma get_run_update:
  assumes "\<And>r. ar_id (f r) = ar_id r"
  shows "get_run_row (update_run i f s) i = map_option f (get_run_row s i)"
proof -
  have "get_run_row (update_run i f s) i = map_option (\<lambda>r. if ar_id r = i then f r else r) (get_run_row s i)"
    unfolding get_run_row_def update_run_def by (simp add: tbl_get_update assms)
  also have "\<dots> = map_option f (get_run_row s i)"
    using tbl_get_key [of ar_id "automation_runs s" i] by (auto simp: get_run_row_def intro!: option.map_cong0 dest: tbl_get_key)
  finally show ?thesis .
qed

lemma budget_same:
  assumes "\<And>r. ar_id (f r) = ar_id r" "\<And>r. ar_max_steps (f r) = ar_max_steps r" "\<And>r. ar_step_count (f r) = ar_step_count r"
  shows "budget i (update_run i f s) = budget i s"
  by (simp add: budget_def get_run_update [OF assms(1)] assms(2,3) split: option.splits)

lemma budget_frame: "automation_runs s' = automation_runs s \<Longrightarrow> budget i s' = budget i s"
  by (simp add: budget_def get_run_row_def)

lemma start_step_budget [simp]: "budget i (start_step step now i node context s) = budget i s"
proof -
  let ?s1 = "update_run i (\<lambda>r. r\<lparr>ar_current_node_id := Some (nd_id node)\<rparr>) s"
  have "budget i (start_step step now i node context s) = budget i ?s1"
    by (rule budget_frame) (simp add: start_step_def Let_def)
  also have "\<dots> = budget i s" by (rule budget_same) simp_all
  finally show ?thesis .
qed

lemma finish_step_budget: "budget i (finish_step step now i output s) = budget i s - 1"
proof -
  let ?s1 = "update_run i (\<lambda>r. r\<lparr>ar_step_count := ar_step_count r + 1\<rparr>) s"
  have "budget i (finish_step step now i output s) = budget i ?s1"
    by (rule budget_frame) (simp add: finish_step_def Let_def)
  also have "\<dots> = budget i s - 1"
    by (auto simp: budget_def get_run_update split: option.splits)
  finally show ?thesis .
qed

lemma run_action_budget:
  assumes "keeps_budget env i"
  shows "budget i (snd (run_action env run kind data context st)) \<le> budget i (at_db st)"
proof -
  have conv: "automation_runs (snd (conversation_action run k data context c s)) = automation_runs s" for k c s
    by (simp add: conversation_action_def row_defs Let_def split: sum.split option.split)
  have life: "automation_runs (snd (set_lifecycle_action run data context s)) = automation_runs s" for s
    by (simp add: set_lifecycle_action_def row_defs Let_def split: sum.split option.split)
  have other: "budget i (snd (at_other_action env n s run kind data ctx)) \<le> budget i s" for n s ctx
    using assms by (simp add: keeps_budget_def)
  show ?thesis
    unfolding run_action_def Let_def
    by (simp add: budget_frame [OF conv] budget_frame [OF life] other split: sum.split option.split)
qed

lemma guard_go:
  assumes "run_guard env i st = (GoOn r, st')"
  shows "at_trace st' = at_trace st" "at_db st' = at_commits env (at_tick st) (at_db st)" "budget i (at_db st') > 0"
  using assms by (auto simp: run_guard_def Let_def budget_def split: option.splits if_splits)

lemma guard_trace: "at_trace (snd (run_guard env i st)) = at_trace st"
  by (auto simp: run_guard_def Let_def on_auto_db_def split: option.split)

lemma sleep_frame:
  assumes "sleep_guarded n env i st = (stop, st')"
  shows "at_trace st' = at_trace st"
    and "keeps_budget env i \<Longrightarrow> stop = None \<Longrightarrow> budget i (at_db st') \<le> budget i (at_db st)"
proof -
  have "at_trace st' = at_trace st \<and> (keeps_budget env i \<longrightarrow> stop = None \<longrightarrow> budget i (at_db st') \<le> budget i (at_db st))"
    using assms
  proof (induction n env i st rule: sleep_guarded.induct)
    case (2 n env i st)
    obtain g st1 where g: "run_guard env i st = (g, st1)" by force
    then have tr: "at_trace st1 = at_trace st" using guard_trace [of env i st] by simp
    show ?case
    proof (cases g)
      case (GoOn r)
      then have "at_trace st' = at_trace st1 \<and> (keeps_budget env i \<longrightarrow> stop = None \<longrightarrow> budget i (at_db st') \<le> budget i (at_db st1))"
        using 2 g by simp
      moreover have "keeps_budget env i \<Longrightarrow> budget i (at_db st1) \<le> budget i (at_db st)"
        using guard_go(2) [of env i st r st1] g GoOn by (simp add: keeps_budget_def)
      ultimately show ?thesis using tr by (auto intro: le_trans)
    qed (use 2 g tr in auto)
  qed simp
  then show "at_trace st' = at_trace st"
    and "keeps_budget env i \<Longrightarrow> stop = None \<Longrightarrow> budget i (at_db st') \<le> budget i (at_db st)" by auto
qed

lemma exec_node_trace:
  assumes "exec_node env i run g node context st = (res, st')"
  shows "at_trace st' = at_trace st"
  using assms sleep_frame(1)
  by (auto simp: exec_node_def Let_def split: if_splits sum.splits prod.splits option.splits guard_result.splits)

lemma exec_node_done:
  assumes "exec_node env i run g node context st = (NodeDone output targets, st')"
  shows "mset targets \<subseteq># mset (targets_of g (nd_id node))"
    and "keeps_budget env i \<Longrightarrow> budget i (at_db st') \<le> budget i (at_db st)"
proof -
  have sub: "mset (map ed_target (filter P (filter Q xs))) \<subseteq># mset (map ed_target (filter Q xs))" for P Q xs
    unfolding mset_map mset_filter by (intro image_mset_subseteq_mono multiset_filter_subset)
  show "mset targets \<subseteq># mset (targets_of g (nd_id node))"
    using assms sub unfolding targets_of_def
    by (auto simp: exec_node_def Let_def split: if_splits sum.splits prod.splits option.splits guard_result.splits)
  show "budget i (at_db st') \<le> budget i (at_db st)" if kb: "keeps_budget env i"
  proof -
    have act: "budget i s' \<le> budget i (at_db st)"
      if "run_action env run (nd_type node) (nd_data node) c st = (r, s')" for c r s'
      using run_action_budget [OF kb, of run "nd_type node" "nd_data node" c st] that by simp
    have slept: "budget i (at_db st1) \<le> budget i (at_db st)" if "sleep_guarded n env i st = (None, st1)" for n st1
      using sleep_frame(2) [OF that kb] by simp
    show ?thesis
      using assms act slept
      by (auto simp: exec_node_def Let_def split: if_splits sum.splits prod.splits option.splits guard_result.splits)
  qed
qed

lemma exec_node_delayed:
  assumes "exec_node env i run g node context st = (NodeDelayed n targets, st')"
  shows "targets = targets_of g (nd_id node)" "st' = st"
  using assms by (auto simp: exec_node_def targets_of_def Let_def split: if_splits sum.splits prod.splits option.splits guard_result.splits)

section \<open>One pass of the loop\<close>

lemma fail_run_frame [simp]: "fst (fail_run env i m st) = Some (RunFailed m)" "at_trace (snd (fail_run env i m st)) = at_trace st"
  by (simp_all add: fail_run_def on_auto_db_def)

lemma exec_loop_pass:
  assumes "exec_loop (Suc fuel) env i g (n # queue) context st = (res, st')"
  obtains (ended) e where "res = Some e" "at_trace st' = at_trace st" "\<forall>k. e \<noteq> RunSucceeded k"
  | (delayed) k where "res = Some (RunWaiting k)" "at_trace st' = at_trace st @ [(n, targets_of g n)]"
      "keeps_budget env i \<Longrightarrow> budget i (at_db st) > 0"
  | (continued) targets context' st1 where "at_trace st1 = at_trace st @ [(n, targets)]" "mset targets \<subseteq># mset (targets_of g n)"
      "exec_loop fuel env i g (queue @ targets) context' st1 = (res, st')"
      "keeps_budget env i \<Longrightarrow> budget i (at_db st1) < budget i (at_db st)"
proof -
  obtain gr st1 where gr: "run_guard env i st = (gr, st1)" by force
  have tr1: "at_trace st1 = at_trace st" using guard_trace [of env i st] gr by simp
  show thesis
  proof (cases gr)
    case (GoOn run)
    have b1: "0 < budget i (at_db st1)" and b2: "keeps_budget env i \<Longrightarrow> budget i (at_db st1) \<le> budget i (at_db st)"
      using guard_go [of env i st run st1] gr GoOn by (auto simp: keeps_budget_def)
    show thesis
    proof (cases "find_node g n")
      case None
      have "fail_run env i (''Automation node not found: '' @ n) st1 = (res, st')" using assms gr GoOn None by simp
      then have "res = Some (RunFailed (''Automation node not found: '' @ n))" "at_trace st' = at_trace st1"
        using fail_run_frame [of env i _ st1] by (metis fst_conv snd_conv)+
      then show thesis using tr1 by (intro ended) auto
    next
      case (Some node)
      have id: "nd_id node = n" using Some by (auto simp: find_node_def find_Some_iff)
      let ?st2 = "on_auto_db (start_step (at_step_id env (at_tick st1)) (at_clock env (at_tick st1)) i node context) st1"
      have st2: "at_trace ?st2 = at_trace st" "budget i (at_db ?st2) = budget i (at_db st1)"
        by (simp_all add: on_auto_db_def tr1)
      obtain nr st3 where ex: "exec_node env i run g node context ?st2 = (nr, st3)" by force
      have tr3: "at_trace st3 = at_trace st" using exec_node_trace [OF ex] st2 by simp
      note step = assms [simplified exec_loop.simps gr GoOn Some Let_def prod.case guard_result.case option.case ex]
      show thesis
      proof (cases nr)
        case (NodeError m)
        have "fail_run env i m st3 = (res, st')" using step NodeError by simp
        then have "res = Some (RunFailed m)" "at_trace st' = at_trace st3"
          using fail_run_frame [of env i _ st3] by (metis fst_conv snd_conv)+
        then show thesis using tr3 by (intro ended) auto
      next
        case (NodeHalted stop)
        then show thesis using step tr3 by (cases stop) (auto intro: ended)
      next
        case (NodeDelayed k targets)
        have "targets = targets_of g n" using exec_node_delayed(1) [OF ex [unfolded NodeDelayed]] id by simp
        then show thesis using step NodeDelayed tr3 b1 b2
          by (intro delayed [of k]) (auto simp: schedule_delay_resume_def log_node_def on_auto_db_def)
      next
        case (NodeDone out targets)
        note fin = exec_node_done [OF ex [unfolded NodeDone], unfolded id]
        let ?ctx = "add_step_output n out context"
        let ?f = "\<lambda>s. update_run i (\<lambda>r. r\<lparr>ar_context := ?ctx\<rparr>)
            (finish_step (at_step_id env (at_tick st1)) (at_clock env (at_tick st3)) i out s)"
        let ?st4 = "on_auto_db ?f (log_node n targets st3)"
        have loop: "exec_loop fuel env i g (queue @ targets) ?ctx ?st4 = (res, st')" using step NodeDone by simp
        have "budget i (at_db ?st4) = budget i (at_db st3) - 1"
          by (simp add: on_auto_db_def log_node_def finish_step_budget budget_same)
        then have "budget i (at_db ?st4) < budget i (at_db st)" if "keeps_budget env i"
          using fin(2) [OF that] b1 b2 [OF that] st2(2) by simp
        moreover have "at_trace ?st4 = at_trace st @ [(n, targets)]" using tr3 by (simp add: on_auto_db_def log_node_def)
        ultimately show thesis using loop fin(1) by (intro continued)
      qed
    qed
  qed (use assms gr tr1 in \<open>auto simp: fail_run_def on_auto_db_def intro: ended\<close>)
qed

declare exec_loop.simps(3) [simp del]

text \<open>The budget bounds the passes, and the queue is accounted for: what was executed or is left is what the queue held at
  first and what the executed nodes put on it.\<close>

lemma exec_loop_ends:
  assumes "keeps_budget env i" "budget i (at_db st) < fuel"
  shows "\<exists>e st'. exec_loop fuel env i g queue ctx st = (Some e, st') \<and>
    length (at_trace st') \<le> length (at_trace st) + budget i (at_db st)"
  using assms(2)
proof (induction fuel arbitrary: queue ctx st)
  case (Suc fuel)
  show ?case
  proof (cases queue)
    case Nil
    then show ?thesis by (simp add: on_auto_db_def)
  next
    case (Cons n rest)
    obtain res st' where ex: "exec_loop (Suc fuel) env i g (n # rest) ctx st = (res, st')" by force
    then show ?thesis
    proof (cases rule: exec_loop_pass)
      case (ended e)
      then show ?thesis using ex Cons by simp
    next
      case (delayed k)
      then show ?thesis using ex Cons assms(1) by simp
    next
      case (continued targets context' st1)
      have less: "budget i (at_db st1) < budget i (at_db st)" using continued(4) assms(1) .
      with Suc.prems have "budget i (at_db st1) < fuel" by simp
      from Suc.IH [OF this, of "rest @ targets" context'] continued(1,3) ex Cons less
      show ?thesis by fastforce
    qed
  qed
qed simp

lemma exec_loop_flow:
  assumes "exec_loop fuel env i g queue ctx st = (res, st')"
  shows "\<exists>new left. at_trace st' = at_trace st @ new \<and> (\<forall>(n, ts) \<in> set new. mset ts \<subseteq># mset (targets_of g n)) \<and>
     mset (map fst new) + left = mset queue + mset (concat (map snd new)) \<and> ((\<exists>k. res = Some (RunSucceeded k)) \<longrightarrow> left = {#})"
  using assms
proof (induction fuel arbitrary: queue ctx st)
  case 0
  then show ?case by simp
next
  case (Suc fuel)
  show ?case
  proof (cases queue)
    case Nil
    then show ?thesis using Suc.prems by (auto simp: on_auto_db_def)
  next
    case (Cons n rest)
    with Suc.prems have ex: "exec_loop (Suc fuel) env i g (n # rest) ctx st = (res, st')" by simp
    then show ?thesis
    proof (cases rule: exec_loop_pass)
      case (ended e)
      then show ?thesis by (intro exI [of _ "[]"] exI [of _ "mset queue"]) auto
    next
      case (delayed k)
      then show ?thesis using Cons
        by (intro exI [of _ "[(n, targets_of g n)]"] exI [of _ "mset rest + mset (targets_of g n)"]) auto
    next
      case (continued targets context' st1)
      obtain new left where new: "at_trace st' = at_trace st1 @ new" "\<forall>(n, ts) \<in> set new. mset ts \<subseteq># mset (targets_of g n)"
        "mset (map fst new) + left = mset (rest @ targets) + mset (concat (map snd new))"
        "(\<exists>k. res = Some (RunSucceeded k)) \<longrightarrow> left = {#}"
        using Suc.IH [OF continued(3)] by blast
      have "mset (map fst ((n, targets) # new)) + left = mset queue + mset (concat (map snd ((n, targets) # new)))"
        using new(3) Cons by simp
      moreover have "at_trace st' = at_trace st @ (n, targets) # new" using new(1) continued(1) by simp
      ultimately show ?thesis using new(2,4) continued(2)
        by (intro exI [of _ "(n, targets) # new"] exI [of _ left]) auto
    qed
  qed
qed

section \<open>A run of an automation\<close>

text \<open>The state in which the loop starts, and the queue and context it starts with.\<close>

definition running :: "auto_env \<Rightarrow> uuid \<Rightarrow> (string \<times> json) list \<Rightarrow> db \<Rightarrow> auto_state" where
  "running env i ctx s = \<lparr>at_db = update_run i (\<lambda>r. r\<lparr>ar_status := ArRunning,
     ar_started_at := (case ar_started_at r of None \<Rightarrow> Some (at_clock env 0) | Some t \<Rightarrow> Some t), ar_context := ctx\<rparr>) s,
     at_tick = 0, at_trace = []\<rparr>"

definition resumes :: "automation_run \<Rightarrow> bool" where
  "resumes r \<longleftrightarrow> ar_status r = ArWaiting \<and> resume_queue (ar_context r) \<noteq> []"

definition first_queue :: "automation_graph \<Rightarrow> automation_run \<Rightarrow> string list" where
  "first_queue g r = (if resumes r then resume_queue (ar_context r) else map nd_id (take 1 (trigger_nodes g)))"

lemma execute_run_cases:
  assumes "execute_run fuel env i s = (res, st)"
  obtains (refused) e where "res = Some e" "at_trace st = []" "\<forall>k. e \<noteq> RunSucceeded k"
  | (loop) r a ctx where "get_run_row s i = Some r" "get_automation_row s (ar_automation_id r) = Some a"
      "exec_loop fuel env i (aut_graph a) (first_queue (aut_graph a) r) ctx (running env i ctx s) = (res, st)"
proof -
  show thesis
  proof (cases "get_run_row s i")
    case None
    then show thesis using assms by (intro refused) (auto simp: execute_run_def)
  next
    case (Some r)
    show thesis
    proof (cases "ar_status r \<in> {ArSucceeded, ArFailed, ArStopped} \<or> get_automation_row s (ar_automation_id r) = None \<or>
        (\<exists>a. get_automation_row s (ar_automation_id r) = Some a \<and> trigger_nodes (aut_graph a) = [])")
      case True
      then have "res \<noteq> None \<and> at_trace st = [] \<and> (\<forall>k. res \<noteq> Some (RunSucceeded k))"
        using assms Some
        by (elim disjE exE conjE; cases "ar_status r \<in> {ArSucceeded, ArFailed, ArStopped}")
          (auto simp: execute_run_def fail_run_def on_auto_db_def Let_def split: option.splits)
      then show thesis using refused by auto
    next
      case False
      then obtain a t ts where a: "get_automation_row s (ar_automation_id r) = Some a" "trigger_nodes (aut_graph a) = t # ts"
        "\<not> ar_status r \<in> {ArSucceeded, ArFailed, ArStopped}"
        by (metis not_None_eq list.exhaust)
      let ?ctx = "if resumes r then filter (\<lambda>(k, v). k \<noteq> ''resume_queue'') (ar_context r) else [(''trigger'', ar_trigger_payload r)]"
      have "exec_loop fuel env i (aut_graph a) (first_queue (aut_graph a) r) ?ctx (running env i ?ctx s) = (res, st)"
      proof (cases "resumes r")
        case True
        then have "ar_status r = ArWaiting" "resume_queue (ar_context r) \<noteq> []" by (simp_all add: resumes_def)
        then show ?thesis using assms Some a True
          by (simp add: execute_run_def running_def first_queue_def on_auto_db_def Let_def)
      next
        case False
        then have "(ar_status r = ArWaiting \<and> resume_queue (ar_context r) \<noteq> []) = False" by (simp add: resumes_def)
        then show ?thesis using assms Some a False
          by (simp add: execute_run_def running_def first_queue_def on_auto_db_def Let_def del: de_Morgan_conj)
      qed
      then show thesis by (rule loop [OF Some a(1)])
    qed
  qed
qed

lemma running_budget: "budget i (at_db (running env i ctx s)) = budget i s"
  by (simp add: running_def budget_same)

text \<open>C7. A run of an automation ends within its budget: with more fuel than the steps it has left, whatever the graph and
  the actions do, it ends, and it has executed at most that many nodes.  (The actions and other sessions may do anything but raise the
  steps that the run has left.)\<close>

theorem automation_run_ends:
  assumes "keeps_budget env i" "get_run_row s i = Some r" "nat (ar_max_steps r - ar_step_count r) < fuel"
  shows "\<exists>e st. execute_run fuel env i s = (Some e, st) \<and> length (at_trace st) \<le> nat (ar_max_steps r - ar_step_count r)"
proof -
  have b: "budget i s = nat (ar_max_steps r - ar_step_count r)" using assms(2) by (simp add: budget_def)
  obtain res st where ex: "execute_run fuel env i s = (res, st)" by force
  then show ?thesis
  proof (cases rule: execute_run_cases)
    case (refused e)
    then show ?thesis using ex by simp
  next
    case (loop r' a ctx)
    have "budget i (at_db (running env i ctx s)) < fuel" using assms(3) b by (simp add: running_budget)
    from exec_loop_ends [OF assms(1) this, of "aut_graph a" "first_queue (aut_graph a) r'" ctx] loop(3) ex show ?thesis
      by (auto simp: running_budget b) (simp add: running_def)
  qed
qed

text \<open>Every node is executed as often as it was put on the queue: in a run that succeeds, counting repetitions, the
  executed nodes are the first queue together with all the targets that the executed nodes chose, and the targets chosen by a node are
  among its successors in the graph.  A node that two executed nodes lead to is therefore executed twice.\<close>

theorem executed_as_often_as_reached:
  assumes "execute_run fuel env i s = (Some (RunSucceeded k), st)"
  shows "\<exists>r a. get_run_row s i = Some r \<and> get_automation_row s (ar_automation_id r) = Some a \<and>
    mset (map fst (at_trace st)) = mset (first_queue (aut_graph a) r) + mset (concat (map snd (at_trace st))) \<and>
    (\<forall>(n, ts) \<in> set (at_trace st). mset ts \<subseteq># mset (targets_of (aut_graph a) n))"
  using assms
proof (cases rule: execute_run_cases)
  case (loop r a ctx)
  obtain new left where "at_trace st = at_trace (running env i ctx s) @ new"
    "\<forall>(n, ts) \<in> set new. mset ts \<subseteq># mset (targets_of (aut_graph a) n)"
    "mset (map fst new) + left = mset (first_queue (aut_graph a) r) + mset (concat (map snd new))" "left = {#}"
    using exec_loop_flow [OF loop(3)] by blast
  then show ?thesis using loop(1,2) by (auto simp: running_def)
qed auto

text \<open>A long delay forgets the rest of the queue: when a delay of more than 30 seconds is at the head, what the run does is the
  same for every rest of the queue, so branches that were waiting beside the delay are never executed.\<close>

theorem long_delay_drops_queue:
  assumes "find_node g n = Some node" "nd_type node = ''delay''" "delay_seconds (nd_data node) = Inr d" "d > 30"
  shows "exec_loop (Suc fuel) env i g (n # rest) ctx st = exec_loop (Suc fuel) env i g [n] ctx st"
  using assms
  by (simp add: exec_loop.simps(3) exec_node_def SYNC_DELAY_MAX_SECONDS_def Let_def split: prod.split guard_result.split)

text \<open>A long delay at the end starts the automation again: the state that a long delay without successors leaves for the
  run is, when the scheduled job resumes it, executed exactly as a fresh run that is still queued.\<close>

theorem final_delay_restarts:
  assumes s_def: "s = at_db (schedule_delay_resume env' i d [] ctx st)"
    and "get_run_row (at_db st) i = Some r" "get_automation_row (at_db st) (ar_automation_id r) = Some a"
    "trigger_nodes (aut_graph a) \<noteq> []"
  shows "execute_run fuel env i s = execute_run fuel env i (update_run i (\<lambda>r. r\<lparr>ar_status := ArQueued, ar_context := []\<rparr>) s)"
proof -
  let ?f = "\<lambda>r. r\<lparr>ar_status := ArQueued, ar_context := []\<rparr>"
  let ?h = "\<lambda>r. r\<lparr>ar_context := dict_set ''resume_queue'' (JList []) ctx, ar_status := ArWaiting\<rparr>"
  have "get_run_row (update_run i ?h (at_db st)) i = Some (?h r)" using assms by (simp add: get_run_update)
  then have row: "get_run_row s i = Some (?h r)"
    by (simp add: s_def schedule_delay_resume_def on_auto_db_def schedule_job_def get_run_row_def)
  have row': "get_run_row (update_run i ?f s) i = Some (?f (?h r))" using row by (simp add: get_run_update)
  have aut: "get_automation_row s (ar_automation_id r) = Some a"
    using assms(3) by (simp add: s_def schedule_delay_resume_def on_auto_db_def schedule_job_def get_automation_row_def update_run_def)
  have auts: "get_automation_row (update_run i ?f s) = get_automation_row s"
    by (simp add: fun_eq_iff get_automation_row_def update_run_def)
  have none: "resume_queue (dict_set ''resume_queue'' (JList []) ctx) = []"
    by (simp add: resume_queue_def map_of_dict_set)
  obtain t ts where t: "trigger_nodes (aut_graph a) = t # ts" using assms(4) by (cases "trigger_nodes (aut_graph a)") auto
  let ?g = "\<lambda>c r. r\<lparr>ar_status := ArRunning,
      ar_started_at := (case ar_started_at r of None \<Rightarrow> Some (at_clock env 0) | Some t \<Rightarrow> Some t), ar_context := c\<rparr>"
  have same: "update_run i (?g c) (update_run i ?f s) = update_run i (?g c) s" for c
    by (simp add: update_run_def tbl_update_def)
  show ?thesis
    unfolding execute_run_def Let_def row row' option.case auts
    by (simp add: aut t none on_auto_db_def same)
qed


section \<open>Activation and triggering\<close>

lemma get_automation_row_id:
  assumes "get_automation s account_id i mo = Inr item"
  shows "get_automation_row s i = Some item" "aut_id item = i"
  using assms by (auto simp: get_automation_def get_automation_row_def dest: tbl_get_key split: option.splits if_splits sum.splits)

text \<open>Two ways to activate an automation: publishing succeeds exactly on graphs that pass the check, while an update that
  sets the status to active and brings no graph activates whatever graph is stored.\<close>

theorem activation_paths:
  assumes "get_automation s account_id i mo = Inr item"
  shows "(returns (fst (publish_automation now event_id account_id i mo s)) \<longleftrightarrow> publishable (aut_graph item)) \<and>
    (au_status p = Some AutActive \<and> au_graph p = None \<longrightarrow>
      (\<exists>a. get_automation_row (snd (update_automation now account_id i p mo s)) i = Some a \<and>
        aut_status a = AutActive \<and> aut_graph a = aut_graph item))"
proof (intro conjI impI)
  note row = get_automation_row_id [OF assms]
  show "returns (fst (publish_automation now event_id account_id i mo s)) \<longleftrightarrow> publishable (aut_graph item)"
    unfolding validate_exact [symmetric] publish_automation_def assms
    by (simp add: returns_def Let_def split: sum.split)
  assume active: "au_status p = Some AutActive \<and> au_graph p = None"
  let ?a = "(apply_changes p item)\<lparr>aut_version := aut_version item + 1, aut_updated_at := now\<rparr>"
  have "snd (update_automation now account_id i p mo s) = put_automation_row ?a s"
    using active unfolding update_automation_def assms by (simp add: Let_def apply_changes_def)
  then show "\<exists>a. get_automation_row (snd (update_automation now account_id i p mo s)) i = Some a \<and>
      aut_status a = AutActive \<and> aut_graph a = aut_graph item"
    using active row by (simp add: get_automation_row_def put_automation_row_def tbl_get_put apply_changes_def)
qed

lemma max_steps_bounds: "25 \<le> max_steps_for g" "max_steps_for g \<le> 500"
  by (simp_all add: max_steps_for_def)

lemma deadline_bound: "run_deadline_for_graph g = Inr d \<Longrightarrow> minutes 15 \<le> d"
  by (auto simp: run_deadline_for_graph_def minutes_def seconds_def split: sum.splits)

lemma filter_matching_exact:
  "filter_matching payload as = Inr ms \<Longrightarrow> ms = filter (\<lambda>a. matches_trigger_config a payload = Inr True) as"
proof (induction as arbitrary: ms)
  case (Cons a as)
  then obtain b where b: "matches_trigger_config a payload = Inr b"
    by (cases "matches_trigger_config a payload") auto
  obtain ms' where ms': "filter_matching payload as = Inr ms'" using Cons.prems b by (cases "filter_matching payload as") auto
  have "ms' = filter (\<lambda>a. matches_trigger_config a payload = Inr True) as" by (rule Cons.IH [OF ms'])
  then show ?case using Cons.prems b ms' by (auto split: if_splits)
qed simp

definition queued_for :: "datetime \<Rightarrow> uuid \<Rightarrow> json \<Rightarrow> automation_run \<Rightarrow> bool" where
  "queued_for now account_id payload r \<longleftrightarrow> ar_status r = ArQueued \<and> ar_account_id r = account_id \<and> ar_trigger_payload r = payload \<and>
     ar_step_count r = 0 \<and> 25 \<le> ar_max_steps r \<and> ar_max_steps r \<le> 500 \<and>
     (\<exists>d. ar_deadline_at r = Some d \<and> now + minutes 15 \<le> d)"

lemma new_run_queued: "run_deadline_for_graph (aut_graph a) = Inr d \<Longrightarrow> queued_for now account_id payload (new_run now i account_id a payload d)"
  using deadline_bound [of "aut_graph a" d] by (simp add: queued_for_def new_run_def max_steps_bounds)

lemma add_runs_exact:
  assumes "add_runs now new_ids account_id payload as s = (Inr ids, s')"
  shows "\<exists>new. s' = s\<lparr>automation_runs := automation_runs s @ new\<rparr> \<and> ids = map ar_id new \<and>
    map ar_automation_id new = map aut_id as \<and> list_all (queued_for now account_id payload) new"
  using assms
proof (induction as arbitrary: s ids s')
  case Nil
  then show ?case by (intro exI [of _ "[]"]) auto
next
  case (Cons a as)
  obtain d where d: "run_deadline_for_graph (aut_graph a) = Inr d"
    using Cons.prems by (cases "run_deadline_for_graph (aut_graph a)") auto
  let ?r = "new_run now (new_ids (aut_id a)) account_id a payload d"
  obtain res s1 where rest: "add_runs now new_ids account_id payload as (s\<lparr>automation_runs := automation_runs s @ [?r]\<rparr>) = (res, s1)"
    by force
  with Cons.prems d obtain js where js: "res = Inr js" "ids = ar_id ?r # js" "s' = s1"
    by (auto simp: Let_def split: sum.splits)
  obtain new where new: "s1 = (s\<lparr>automation_runs := automation_runs s @ [?r]\<rparr>)\<lparr>automation_runs := (automation_runs s @ [?r]) @ new\<rparr>"
    "js = map ar_id new" "map ar_automation_id new = map aut_id as" "list_all (queued_for now account_id payload) new"
    using Cons.IH [OF rest [unfolded js(1)]] by auto
  have q: "queued_for now account_id payload ?r" by (rule new_run_queued [OF d])
  have "ar_automation_id ?r = aut_id a" by (simp add: new_run_def)
  then show ?case using new js q by (intro exI [of _ "?r # new"]) simp
qed

text \<open>A trigger queues one run for each matching automation: when the triggering event names an organization, the
  operation appends exactly one queued run for every active automation of the account, organization and trigger whose
  configuration matches, returns their ids in order, and every run has between 25 and 500 steps and at least 15 minutes.\<close>

theorem triggered_runs_exact:
  assumes "queue_automation_runs now new_ids account_id trigger payload s = (Inr ids, s')"
    "jget payload ''organization_id'' = Some v" "v \<noteq> JNull"
  shows "\<exists>org new. parse_uuid (py_str v) = Some org \<and> s' = s\<lparr>automation_runs := automation_runs s @ new\<rparr> \<and> ids = map ar_id new \<and>
    map ar_automation_id new = map aut_id (filter (\<lambda>a. matches_trigger_config a payload = Inr True)
      (filter (is_triggered account_id org trigger) (automations s))) \<and>
    list_all (queued_for now account_id payload) new"
proof -
  have "queue_automation_runs now new_ids account_id trigger payload s = (case parse_uuid (py_str v) of
             None \<Rightarrow> (Inl (ValueError ''badly formed hexadecimal UUID string''), s)
           | Some org \<Rightarrow>
               (case filter_matching payload (filter (is_triggered account_id org trigger) (automations s)) of
                  Inl e \<Rightarrow> (Inl e, s)
                | Inr matching \<Rightarrow> add_runs now new_ids account_id payload matching s))"
    using assms(2,3) unfolding queue_automation_runs_def by (cases v) simp_all
  with assms(1) obtain org ms where org: "parse_uuid (py_str v) = Some org"
    and ms: "filter_matching payload (filter (is_triggered account_id org trigger) (automations s)) = Inr ms"
    and add: "add_runs now new_ids account_id payload ms s = (Inr ids, s')"
    by (auto split: option.splits sum.splits)
  show ?thesis using add_runs_exact [OF add] org filter_matching_exact [OF ms] by auto
qed

section \<open>Witnesses\<close>

definition demo_node :: "string \<Rightarrow> string \<Rightarrow> json \<Rightarrow> automation_node" where
  "demo_node i kind data = \<lparr>nd_id = i, nd_type = kind, nd_data = data\<rparr>"

definition demo_edge :: "string \<Rightarrow> string \<Rightarrow> automation_edge" where
  "demo_edge a b = \<lparr>ed_source = a, ed_target = b, ed_source_handle = None, ed_label = None\<rparr>"

text \<open>A diamond: the trigger leads to \<open>a\<close> and \<open>b\<close>, and both lead to \<open>c\<close>.\<close>

definition diamond :: automation_graph where
  "diamond = \<lparr>gr_nodes = [demo_node ''t'' ''trigger'' (JObj []), demo_node ''a'' ''delay'' (JObj []), demo_node ''b'' ''delay'' (JObj []),
       demo_node ''c'' ''stop'' (JObj [])],
     gr_edges = [demo_edge ''t'' ''a'', demo_edge ''t'' ''b'', demo_edge ''a'' ''c'', demo_edge ''b'' ''c'']\<rparr>"

definition demo_automation :: automation where
  "demo_automation = \<lparr>aut_id = 5, aut_account_id = 1, aut_organization_id = 2, aut_created_by_user_id = 3, aut_name = ''welcome'',
     aut_description = None, aut_status = AutActive, aut_trigger_type = MessageReceived, aut_trigger_config = JObj [],
     aut_graph = diamond, aut_version = 1, aut_updated_at = 0\<rparr>"

definition automation_example :: db where
  "automation_example = empty_db\<lparr>automations := [demo_automation],
     automation_runs := [new_run 0 7 1 demo_automation (JObj []) (minutes 15)]\<rparr>"

definition quiet_auto_env :: auto_env where
  "quiet_auto_env = \<lparr>at_clock = (\<lambda>n. int n), at_commits = (\<lambda>n s. s), at_step_id = (\<lambda>n. n), at_job_id = 9,
     at_other_action = (\<lambda>n s run kind data ctx. (Inr JNull, s))\<rparr>"

lemma example_run: "get_run_row automation_example 7 = Some (new_run 0 7 1 demo_automation (JObj []) (minutes 15))"
  by (simp add: automation_example_def get_run_row_def tbl_get_def new_run_def)

lemma example_automation: "get_automation automation_example 1 5 None = Inr demo_automation"
  by (simp add: automation_example_def get_automation_def get_automation_row_def tbl_get_def demo_automation_def)

lemma automation_run_ends_witness: "\<exists>e st. execute_run 26 quiet_auto_env 7 automation_example = (Some e, st)
    \<and> length (at_trace st) \<le> 25"
  using automation_run_ends [of quiet_auto_env 7 automation_example _ 26, OF _ example_run]
  by (simp add: keeps_budget_def quiet_auto_env_def new_run_def max_steps_for_def demo_automation_def diamond_def)

lemma executed_as_often_as_reached_witness:
  "\<exists>st r (a :: automation). execute_run 26 quiet_auto_env 7 automation_example = (Some (RunSucceeded 5), st) \<and>
     map fst (at_trace st) = [''t'', ''a'', ''b'', ''c'', ''c''] \<and>
     mset (map fst (at_trace st)) = mset (first_queue (aut_graph a) r) + mset (concat (map snd (at_trace st)))"
proof -
  let ?r = "execute_run 26 quiet_auto_env 7 automation_example"
  have "fst ?r = Some (RunSucceeded 5)" "map fst (at_trace (snd ?r)) = [''t'', ''a'', ''b'', ''c'', ''c'']" by code_simp+
  then obtain st where st: "?r = (Some (RunSucceeded 5), st)" "map fst (at_trace st) = [''t'', ''a'', ''b'', ''c'', ''c'']"
    by (metis prod.collapse)
  from executed_as_often_as_reached [OF st(1)]
  obtain r a where "mset (map fst (at_trace st)) = mset (first_queue (aut_graph (a :: automation)) r) + mset (concat (map snd (at_trace st)))"
    by (elim exE conjE) blast
  with st show ?thesis by (intro exI [of _ st] exI [of _ r] exI [of _ a] conjI)
qed

definition slow_graph :: automation_graph where
  "slow_graph = \<lparr>gr_nodes = [demo_node ''d'' ''delay'' (JObj [(''minutes'', JInt 5)])], gr_edges = []\<rparr>"

lemma long_delay_drops_queue_witness:
  "exec_loop 3 quiet_auto_env 7 slow_graph (''d'' # [''x'', ''y'']) [] \<lparr>at_db = automation_example, at_tick = 0, at_trace = []\<rparr> =
   exec_loop 3 quiet_auto_env 7 slow_graph [''d''] [] \<lparr>at_db = automation_example, at_tick = 0, at_trace = []\<rparr>"
proof -
  have "find_node slow_graph ''d'' = Some (demo_node ''d'' ''delay'' (JObj [(''minutes'', JInt 5)]))" by code_simp
  moreover have "delay_seconds (JObj [(''minutes'', JInt 5)]) = Inr 300" by code_simp
  ultimately show ?thesis
    using long_delay_drops_queue [of slow_graph "''d''" _ 300 2 quiet_auto_env 7 "[''x'', ''y'']"]
    by (simp add: demo_node_def numeral_3_eq_3)
qed

lemma final_delay_restarts_witness:
  "\<exists>s. s = at_db (schedule_delay_resume quiet_auto_env 7 300 [] [] \<lparr>at_db = automation_example, at_tick = 0, at_trace = []\<rparr>) \<and>
     execute_run 26 quiet_auto_env 7 s = execute_run 26 quiet_auto_env 7
       (update_run 7 (\<lambda>r. r\<lparr>ar_status := ArQueued, ar_context := []\<rparr>) s)"
proof -
  have "get_automation_row automation_example 5 = Some demo_automation" "trigger_nodes diamond \<noteq> []" by code_simp+
  then show ?thesis
    using final_delay_restarts [OF refl, of "\<lparr>at_db = automation_example, at_tick = 0, at_trace = []\<rparr>" 7 _ demo_automation
      26 quiet_auto_env quiet_auto_env 300 "[]"] example_run
    by (simp add: new_run_def demo_automation_def)
qed

lemma activation_paths_witness:
  "returns (fst (publish_automation 3 8 1 5 None automation_example)) \<and>
   (\<exists>a. get_automation_row (snd (update_automation 3 1 5
        \<lparr>au_name = None, au_description = None, au_trigger_type = None, au_trigger_config = None, au_graph = None,
          au_status = Some AutActive\<rparr> None automation_example)) 5 = Some a \<and> aut_status a = AutActive \<and> aut_graph a = diamond)"
proof -
  have "validate_publishable_graph diamond = Inr ()" by code_simp
  then have "publishable diamond" by (simp add: validate_exact)
  then show ?thesis
    using activation_paths [OF example_automation, of 3 8 "\<lparr>au_name = None, au_description = None, au_trigger_type = None,
      au_trigger_config = None, au_graph = None, au_status = Some AutActive\<rparr>"]
    by (simp add: demo_automation_def)
qed

definition demo_trigger :: json where
  "demo_trigger = JObj [(''organization_id'', JStr (uuid_str 2)), (''text'', JStr ''hello'')]"

lemma triggered_runs_exact_witness:
  "\<exists>org new s'. queue_automation_runs 4 (\<lambda>i. i + 10) 1 MessageReceived demo_trigger automation_example = (Inr [15], s') \<and>
     parse_uuid (uuid_str 2) = Some org \<and> [15] = map ar_id new \<and> list_all (queued_for 4 1 demo_trigger) new"
proof -
  let ?r = "queue_automation_runs 4 (\<lambda>i. i + 10) 1 MessageReceived demo_trigger automation_example"
  have "fst ?r = Inr [15]" by code_simp
  then obtain s' where q: "?r = (Inr [15], s')" by (metis prod.collapse)
  have "jget demo_trigger ''organization_id'' = Some (JStr (uuid_str 2))" by code_simp
  from triggered_runs_exact [OF q this json.distinct(5) [symmetric]] obtain org new where "parse_uuid (py_str (JStr (uuid_str 2))) = Some org"
    "[15] = map ar_id new" "list_all (queued_for 4 1 demo_trigger) new"
    by (elim exE conjE)
  with q show ?thesis by (intro exI conjI) simp_all
qed

end
