(* ===== verification/Assignments.thy ===== *)
theory Assignments
  imports Models "HOL-Library.Multiset"
begin

text \<open>
  Teams, assignment rules and the automatic assignment of conversations: \<open>services/assignments.py\<close>.

  A python set of ids that is written to the table is the list of the ids in the order of the query.  The unique key
  of \<open>team_members\<close> makes the join with memberships a filter, and the foreign keys cascade when a team is deleted.  The
  laws of the two strategies are stated for sequences of assignments: round robin serves every member once per round,
  and least open keeps the loads balanced.
\<close>

section \<open>Teams\<close>

record team_create =
  tc_organization_id :: uuid
  tc_name :: string
  tc_description :: "string option"
  tc_membership_ids :: "uuid list"

record team_update =
  tu_name :: "string option"
  tu_description :: "string option"
  tu_membership_ids :: "uuid list option"

definition validate_memberships :: "db \<Rightarrow> uuid \<Rightarrow> uuid list \<Rightarrow> uuid list outcome" where
  "validate_memberships s account_id membership_ids =
     (if membership_ids = [] then Inr []
      else (let valid = map mem_id (filter (\<lambda>m. mem_account_id m = account_id \<and> mem_status m = MembershipActive
                 \<and> mem_id m \<in> set membership_ids) (memberships s))
            in if set valid \<noteq> set membership_ids then Inl (ValueError ''INVALID_MEMBERSHIP'') else Inr valid))"

definition in_organization :: "db \<Rightarrow> uuid \<Rightarrow> uuid \<Rightarrow> bool" where
  "in_organization s organization_id membership_id \<longleftrightarrow> (\<exists>l \<in> set (organization_memberships s).
     om_membership_id l = membership_id \<and> om_organization_id l = organization_id)"

definition validate_memberships_in_organization :: "db \<Rightarrow> uuid \<Rightarrow> uuid \<Rightarrow> uuid list \<Rightarrow> uuid list outcome" where
  "validate_memberships_in_organization s account_id organization_id membership_ids =
     (case validate_memberships s account_id membership_ids of
        Inl e \<Rightarrow> Inl e
      | Inr valid \<Rightarrow>
          if valid = [] then Inr valid
          else if \<exists>i \<in> set valid. \<not> in_organization s organization_id i then Inl (ValueError ''MEMBER_OUT_OF_BRANCH'')
          else Inr valid)"

definition add_team_members :: "uuid \<Rightarrow> uuid list \<Rightarrow> db \<Rightarrow> db" where
  "add_team_members i ids s = s\<lparr>team_members := team_members s @ map (\<lambda>m. \<lparr>tm_team_id = i, tm_membership_id = m\<rparr>) ids\<rparr>"

definition replace_team_members :: "uuid \<Rightarrow> uuid list \<Rightarrow> db \<Rightarrow> db" where
  "replace_team_members i ids s = add_team_members i ids (s\<lparr>team_members := filter (\<lambda>l. tm_team_id l \<noteq> i) (team_members s)\<rparr>)"

definition team_member_ids :: "db \<Rightarrow> uuid \<Rightarrow> uuid list" where
  "team_member_ids s i = map tm_membership_id (filter (\<lambda>l. tm_team_id l = i) (team_members s))"

definition create_team :: "uuid \<Rightarrow> uuid \<Rightarrow> team_create \<Rightarrow> db \<Rightarrow> team outcome \<times> db" where
  "create_team new_id account_id payload s =
     (if (case get_organization s (tc_organization_id payload) of None \<Rightarrow> True | Some o' \<Rightarrow> org_account_id o' \<noteq> account_id)
      then (Inl (ValueError ''INVALID_ORGANIZATION''), s)
      else (case validate_memberships_in_organization s account_id (tc_organization_id payload) (tc_membership_ids payload) of
          Inl e \<Rightarrow> (Inl e, s)
        | Inr valid \<Rightarrow>
            (let t = \<lparr>team_id = new_id, team_account_id = account_id, team_organization_id = tc_organization_id payload,
                   team_name = tc_name payload, team_description = tc_description payload\<rparr>
             in (Inr t, add_team_members new_id valid (s\<lparr>teams := teams s @ [t]\<rparr>)))))"

definition list_teams :: "db \<Rightarrow> uuid \<Rightarrow> (team \<times> uuid list) list" where
  "list_teams s account_id = map (\<lambda>t. (t, team_member_ids s (team_id t)))
     (sort_key team_name (filter (\<lambda>t. team_account_id t = account_id) (teams s)))"

definition own_team :: "db \<Rightarrow> uuid \<Rightarrow> uuid \<Rightarrow> team outcome" where
  "own_team s account_id i = (case get_team s i of
     None \<Rightarrow> Inl (ValueError ''TEAM_NOT_FOUND'')
   | Some t \<Rightarrow> if team_account_id t \<noteq> account_id then Inl (ValueError ''TEAM_NOT_FOUND'') else Inr t)"

definition update_team_members :: "uuid \<Rightarrow> uuid \<Rightarrow> uuid list \<Rightarrow> db \<Rightarrow> (team \<times> uuid list) outcome \<times> db" where
  "update_team_members account_id i membership_ids s =
     (case own_team s account_id i of
        Inl e \<Rightarrow> (Inl e, s)
      | Inr t \<Rightarrow>
          (case validate_memberships_in_organization s account_id (team_organization_id t) membership_ids of
             Inl e \<Rightarrow> (Inl e, s)
           | Inr valid \<Rightarrow> (Inr (t, valid), replace_team_members i valid s)))"

text \<open>The name and description are already set on the object when the members are refused; the error leaves the request
  without a commit, so the database is unchanged.\<close>

definition update_team :: "uuid \<Rightarrow> uuid \<Rightarrow> team_update \<Rightarrow> db \<Rightarrow> (team \<times> uuid list) outcome \<times> db" where
  "update_team account_id i payload s =
     (case own_team s account_id i of
        Inl e \<Rightarrow> (Inl e, s)
      | Inr t \<Rightarrow>
          (let t1 = t\<lparr>team_name := (case tu_name payload of None \<Rightarrow> team_name t | Some n \<Rightarrow> py_strip n),
                 team_description := (case tu_description payload of None \<Rightarrow> team_description t | Some d \<Rightarrow> Some d)\<rparr>
           in case tu_membership_ids payload of
                None \<Rightarrow> (Inr (t1, team_member_ids s i), put_team t1 s)
              | Some ids \<Rightarrow>
                  (case validate_memberships_in_organization s account_id (team_organization_id t) ids of
                     Inl e \<Rightarrow> (Inl e, s)
                   | Inr valid \<Rightarrow> (Inr (t1, valid), replace_team_members i valid (put_team t1 s)))))"

definition delete_team :: "uuid \<Rightarrow> uuid \<Rightarrow> db \<Rightarrow> unit outcome \<times> db" where
  "delete_team account_id i s =
     (case own_team s account_id i of
        Inl e \<Rightarrow> (Inl e, s)
      | Inr _ \<Rightarrow> (Inr (), s\<lparr>teams := filter (\<lambda>t. team_id t \<noteq> i) (teams s),
          team_members := filter (\<lambda>l. tm_team_id l \<noteq> i) (team_members s),
          assignment_rules := filter (\<lambda>r. rule_team_id r \<noteq> i) (assignment_rules s)\<rparr>))"

section \<open>Assignment rules\<close>

record rule_create =
  rc_organization_id :: uuid
  rc_channel_id :: "uuid option"
  rc_team_id :: uuid
  rc_name :: string
  rc_strategy :: assignment_strategy
  rc_priority :: int
  rc_is_active :: bool

text \<open>The fields set in the request; an explicit null is possible for the channel only, the other columns refuse it.\<close>

record rule_update =
  ru_name :: "string option"
  ru_strategy :: "assignment_strategy option"
  ru_priority :: "int option"
  ru_channel_id :: "uuid option option"
  ru_is_active :: "bool option"

definition create_assignment_rule :: "datetime \<Rightarrow> uuid \<Rightarrow> uuid \<Rightarrow> rule_create \<Rightarrow> db \<Rightarrow> assignment_rule outcome \<times> db" where
  "create_assignment_rule now new_id account_id payload s =
     (if (case get_team s (rc_team_id payload) of None \<Rightarrow> True
          | Some t \<Rightarrow> team_account_id t \<noteq> account_id \<or> team_organization_id t \<noteq> rc_organization_id payload)
      then (Inl (ValueError ''INVALID_TEAM''), s)
      else (let r = \<lparr>rule_id = new_id, rule_account_id = account_id, rule_organization_id = rc_organization_id payload,
                  rule_team_id = rc_team_id payload, rule_channel_id = rc_channel_id payload, rule_name = rc_name payload,
                  rule_strategy = rc_strategy payload, rule_priority = rc_priority payload, rule_is_active = rc_is_active payload,
                  rule_last_assigned_membership_id = None, rule_created_at = now\<rparr>
            in (Inr r, s\<lparr>assignment_rules := assignment_rules s @ [r]\<rparr>)))"

definition by_priority :: "assignment_rule list \<Rightarrow> assignment_rule list" where
  "by_priority rs = sort_key rule_priority (sort_key rule_created_at rs)"

definition list_assignment_rules :: "db \<Rightarrow> uuid \<Rightarrow> assignment_rule list" where
  "list_assignment_rules s account_id = by_priority (filter (\<lambda>r. rule_account_id r = account_id) (assignment_rules s))"

definition own_rule :: "db \<Rightarrow> uuid \<Rightarrow> uuid \<Rightarrow> assignment_rule outcome" where
  "own_rule s account_id i = (case get_rule s i of
     None \<Rightarrow> Inl (ValueError ''RULE_NOT_FOUND'')
   | Some r \<Rightarrow> if rule_account_id r \<noteq> account_id then Inl (ValueError ''RULE_NOT_FOUND'') else Inr r)"

definition update_assignment_rule :: "uuid \<Rightarrow> uuid \<Rightarrow> rule_update \<Rightarrow> db \<Rightarrow> assignment_rule outcome \<times> db" where
  "update_assignment_rule account_id i payload s =
     (case own_rule s account_id i of
        Inl e \<Rightarrow> (Inl e, s)
      | Inr r \<Rightarrow>
          (let r' = r\<lparr>rule_name := (case ru_name payload of None \<Rightarrow> rule_name r | Some v \<Rightarrow> v),
                 rule_strategy := (case ru_strategy payload of None \<Rightarrow> rule_strategy r | Some v \<Rightarrow> v),
                 rule_priority := (case ru_priority payload of None \<Rightarrow> rule_priority r | Some v \<Rightarrow> v),
                 rule_is_active := (case ru_is_active payload of None \<Rightarrow> rule_is_active r | Some v \<Rightarrow> v),
                 rule_channel_id := (case ru_channel_id payload of None \<Rightarrow> rule_channel_id r | Some v \<Rightarrow> v)\<rparr>
           in (Inr r', put_rule r' s)))"

definition delete_assignment_rule :: "uuid \<Rightarrow> uuid \<Rightarrow> db \<Rightarrow> unit outcome \<times> db" where
  "delete_assignment_rule account_id i s =
     (case own_rule s account_id i of
        Inl e \<Rightarrow> (Inl e, s)
      | Inr _ \<Rightarrow> (Inr (), s\<lparr>assignment_rules := filter (\<lambda>r. rule_id r \<noteq> i) (assignment_rules s)\<rparr>))"

section \<open>Automatic assignment\<close>

definition rule_applies :: "conversation \<Rightarrow> assignment_rule \<Rightarrow> bool" where
  "rule_applies c r \<longleftrightarrow> rule_account_id r = conv_account_id c \<and> rule_organization_id r = conv_organization_id c \<and>
     rule_is_active r \<and> (rule_channel_id r = None \<or> rule_channel_id r = Some (conv_channel_id c))"

definition first_rule :: "db \<Rightarrow> conversation \<Rightarrow> assignment_rule option" where
  "first_rule s c = (case by_priority (filter (rule_applies c) (assignment_rules s)) of [] \<Rightarrow> None | r # _ \<Rightarrow> Some r)"

definition team_rota :: "db \<Rightarrow> uuid \<Rightarrow> membership list" where
  "team_rota s i = sort_key mem_created_at
     (filter (\<lambda>m. mem_id m \<in> set (team_member_ids s i) \<and> mem_status m = MembershipActive) (memberships s))"

definition open_load :: "db \<Rightarrow> conversation \<Rightarrow> uuid \<Rightarrow> nat" where
  "open_load s c i = length (filter (\<lambda>k. conv_account_id k = conv_account_id c \<and> conv_organization_id k = conv_organization_id c \<and>
     conv_assigned_membership_id k = Some i \<and> conv_status k \<in> {ConvOpen, ConvPending}) (conversations s))"

text \<open>\<open>min\<close> with the pair of the count and the age as key returns the first smallest element.\<close>

definition less_loaded :: "db \<Rightarrow> conversation \<Rightarrow> membership \<Rightarrow> membership \<Rightarrow> bool" where
  "less_loaded s c a b \<longleftrightarrow> open_load s c (mem_id a) < open_load s c (mem_id b) \<or>
     open_load s c (mem_id a) = open_load s c (mem_id b) \<and> mem_created_at a < mem_created_at b"

fun least_loaded :: "db \<Rightarrow> conversation \<Rightarrow> membership \<Rightarrow> membership list \<Rightarrow> membership" where
  "least_loaded s c best [] = best"
| "least_loaded s c best (m # ms) = least_loaded s c (if less_loaded s c m best then m else best) ms"

fun position :: "uuid \<Rightarrow> uuid list \<Rightarrow> nat option" where
  "position i [] = None"
| "position i (x # xs) = (if x = i then Some 0 else map_option Suc (position i xs))"

definition next_in_turn :: "membership list \<Rightarrow> uuid option \<Rightarrow> membership" where
  "next_in_turn members last_id =
     (case (case last_id of None \<Rightarrow> None | Some i \<Rightarrow> position i (map mem_id members)) of
        Some index \<Rightarrow> members ! ((index + 1) mod length members)
      | None \<Rightarrow> members ! 0)"

definition auto_assign_conversation :: "conversation \<Rightarrow> db \<Rightarrow> membership option \<times> db" where
  "auto_assign_conversation c s =
     (case first_rule s c of
        None \<Rightarrow> (None, s)
      | Some r \<Rightarrow>
          (case team_rota s (rule_team_id r) of
             [] \<Rightarrow> (None, s)
           | m # ms \<Rightarrow>
               (let (selected, s1) =
                  (if rule_strategy r = LEAST_OPEN then (least_loaded s c m ms, s)
                   else (let x = next_in_turn (m # ms) (rule_last_assigned_membership_id r)
                         in (x, put_rule (r\<lparr>rule_last_assigned_membership_id := Some (mem_id x)\<rparr>) s)))
                in (Some selected, put_conversation (c\<lparr>conv_assigned_membership_id := Some (mem_id selected)\<rparr>) s1))))"


section \<open>Teams hold valid members\<close>

lemma valid_memberships:
  assumes "validate_memberships s account_id ids = Inr valid"
  shows "set valid = set ids" "i \<in> set valid \<Longrightarrow>
    \<exists>m \<in> set (memberships s). mem_id m = i \<and> mem_account_id m = account_id \<and> mem_status m = MembershipActive"
proof -
  let ?v = "map mem_id (filter (\<lambda>m. mem_account_id m = account_id \<and> mem_status m = MembershipActive \<and> mem_id m \<in> set ids) (memberships s))"
  have v: "ids = [] \<and> valid = [] \<or> set ?v = set ids \<and> valid = ?v"
    using assms by (simp add: validate_memberships_def Let_def split: if_splits)
  then show "set valid = set ids" by auto
  show "\<exists>m \<in> set (memberships s). mem_id m = i \<and> mem_account_id m = account_id \<and> mem_status m = MembershipActive"
    if "i \<in> set valid"
  proof -
    have "i \<in> set ?v" using v that by (elim disjE conjE) simp_all
    then show ?thesis by auto
  qed
qed

lemma validated_members:
  assumes "validate_memberships_in_organization s account_id org ids = Inr valid"
  shows "set valid = set ids" "i \<in> set ids \<Longrightarrow> in_organization s org i \<and>
    (\<exists>m \<in> set (memberships s). mem_id m = i \<and> mem_account_id m = account_id \<and> mem_status m = MembershipActive)"
proof -
  from assms have v: "validate_memberships s account_id ids = Inr valid" "\<forall>i \<in> set valid. in_organization s org i"
    by (auto simp: validate_memberships_in_organization_def split: sum.splits if_splits)
  note valid = valid_memberships [OF v(1)]
  show "set valid = set ids" by (rule valid(1))
  show "in_organization s org i \<and>
      (\<exists>m \<in> set (memberships s). mem_id m = i \<and> mem_account_id m = account_id \<and> mem_status m = MembershipActive)" if "i \<in> set ids"
    using valid v(2) that by blast
qed

lemma replaced_members: "team_member_ids (replace_team_members i ids s) j = (if j = i then ids else team_member_ids s j)"
proof -
  have "filter (\<lambda>x. tm_team_id x \<noteq> i \<and> tm_team_id x = j) xs = (if j = i then [] else filter (\<lambda>l. tm_team_id l = j) xs)"
    for xs :: "team_member list"
    by (induction xs) auto
  then show ?thesis
    by (simp add: team_member_ids_def replace_team_members_def add_team_members_def filter_map comp_def)
qed

text \<open>A team holds only members of its branch: when the members of a team are replaced, the stored members are exactly the
  requested ones, each is an active member of the account who belongs to the organization of the team, and no other team changes.\<close>

theorem team_members_of_branch:
  assumes "update_team_members account_id i ids s = (Inr (t, valid), s')"
  shows "set (team_member_ids s' i) = set ids \<and> (\<forall>j. j \<noteq> i \<longrightarrow> team_member_ids s' j = team_member_ids s j) \<and>
    (\<forall>k \<in> set ids. in_organization s' (team_organization_id t) k \<and>
      (\<exists>m \<in> set (memberships s'). mem_id m = k \<and> mem_account_id m = account_id \<and> mem_status m = MembershipActive))"
proof -
  from assms have v: "validate_memberships_in_organization s account_id (team_organization_id t) ids = Inr valid"
    and s': "s' = replace_team_members i valid s"
    by (auto simp: update_team_members_def split: sum.splits)
  have "memberships s' = memberships s" "organization_memberships s' = organization_memberships s"
    by (simp_all add: s' replace_team_members_def add_team_members_def)
  then show ?thesis using validated_members [OF v] by (simp add: s' replaced_members in_organization_def)
qed

section \<open>Round robin\<close>

fun assign_all :: "conversation list \<Rightarrow> db \<Rightarrow> membership option list \<times> db" where
  "assign_all [] s = ([], s)"
| "assign_all (c # cs) s =
     (let (m, s1) = auto_assign_conversation c s; (ms, s2) = assign_all cs s1 in (m # ms, s2))"

definition same_inbox :: "conversation \<Rightarrow> conversation \<Rightarrow> bool" where
  "same_inbox c k \<longleftrightarrow> conv_account_id k = conv_account_id c \<and> conv_organization_id k = conv_organization_id c \<and>
     conv_channel_id k = conv_channel_id c"

lemma same_inbox_rule: "same_inbox c k \<Longrightarrow> first_rule s k = first_rule s c"
proof -
  assume "same_inbox c k"
  then have "rule_applies k = rule_applies c" by (auto simp: same_inbox_def rule_applies_def fun_eq_iff)
  then show ?thesis by (simp add: first_rule_def)
qed

lemma insort_key_map: "(\<And>x. k (f x) = k x) \<Longrightarrow> insort_key k (f x) (map f xs) = map f (insort_key k x xs)"
  by (induction xs) auto

lemma sort_key_map: "(\<And>x. k (f x) = k x) \<Longrightarrow> sort_key k (map f xs) = map f (sort_key k xs)"
  by (induction xs) (auto simp: insort_key_map)

lemma first_rule_mem: "first_rule s c = Some r \<Longrightarrow> r \<in> set (assignment_rules s)"
proof -
  assume "first_rule s c = Some r"
  then have "r \<in> set (by_priority (filter (rule_applies c) (assignment_rules s)))"
    by (auto simp: first_rule_def split: list.splits)
  then show ?thesis by (simp add: by_priority_def)
qed

definition set_last :: "uuid \<Rightarrow> assignment_rule \<Rightarrow> assignment_rule" where
  "set_last i r = r\<lparr>rule_last_assigned_membership_id := Some i\<rparr>"

lemma put_rule_update:
  assumes "r \<in> set (assignment_rules s)" "distinct (map rule_id (assignment_rules s))"
  shows "assignment_rules (put_rule (set_last i r) s) =
    map (\<lambda>x. if rule_id x = rule_id r then set_last i x else x) (assignment_rules s)"
proof -
  have "x = r" if "x \<in> set (assignment_rules s)" "rule_id x = rule_id r" for x
    using that assms by (metis inj_on_eq_iff distinct_map)
  then show ?thesis by (auto simp: put_rule_def tbl_put_def set_last_def)
qed

lemma first_rule_set_last:
  assumes "first_rule s c = Some r" "distinct (map rule_id (assignment_rules s))"
  shows "first_rule (put_rule (set_last i r) s) c = Some (set_last i r)"
proof -
  let ?f = "\<lambda>x. if rule_id x = rule_id r then set_last i x else x"
  have keep: "rule_applies c (?f x) = rule_applies c x" "rule_priority (?f x) = rule_priority x"
    "rule_created_at (?f x) = rule_created_at x" for x
    by (simp_all add: set_last_def rule_applies_def)
  have "by_priority (filter (rule_applies c) (map ?f xs)) = map ?f (by_priority (filter (rule_applies c) xs))" for xs
    using keep by (simp add: by_priority_def filter_map comp_def sort_key_map [of _ ?f])
  then show ?thesis
    using assms(1) unfolding first_rule_def put_rule_update [OF first_rule_mem [OF assms(1)] assms(2)]
    by (auto split: list.splits)
qed

lemma next_in_turn_mem: "ms \<noteq> [] \<Longrightarrow> next_in_turn ms l \<in> set ms"
  by (auto simp: next_in_turn_def split: option.splits)

lemma position_nth: "distinct xs \<Longrightarrow> i < length xs \<Longrightarrow> position (xs ! i) xs = Some i"
proof (induction xs arbitrary: i)
  case (Cons x xs)
  then show ?case by (cases i) auto
qed simp

lemma next_in_turn_after:
  assumes "distinct (map mem_id ms)" "i < length ms"
  shows "next_in_turn ms (Some (mem_id (ms ! i))) = ms ! (Suc i mod length ms)"
  using position_nth [OF assms(1), of i] assms(2) by (simp add: next_in_turn_def)

lemma assign_round_robin:
  assumes "first_rule s c = Some r" "rule_strategy r = ROUND_ROBIN" "team_rota s (rule_team_id r) = ms" "ms \<noteq> []"
    "distinct (map rule_id (assignment_rules s))"
  obtains s' where "auto_assign_conversation c s = (Some (next_in_turn ms (rule_last_assigned_membership_id r)), s')"
    "first_rule s' c = Some (set_last (mem_id (next_in_turn ms (rule_last_assigned_membership_id r))) r)"
    "\<And>i. team_rota s' i = team_rota s i" "distinct (map rule_id (assignment_rules s'))"
proof -
  let ?x = "next_in_turn ms (rule_last_assigned_membership_id r)"
  let ?s1 = "put_rule (set_last (mem_id ?x) r) s"
  let ?s' = "put_conversation (c\<lparr>conv_assigned_membership_id := Some (mem_id ?x)\<rparr>) ?s1"
  have run: "auto_assign_conversation c s = (Some ?x, ?s')"
    using assms(1-4) by (cases ms) (simp_all add: auto_assign_conversation_def set_last_def Let_def)
  have rules: "assignment_rules ?s' = assignment_rules ?s1" by (simp add: put_conversation_def)
  then have "first_rule ?s' c = first_rule ?s1 c" by (simp add: first_rule_def)
  then have fr: "first_rule ?s' c = Some (set_last (mem_id ?x) r)" using first_rule_set_last [OF assms(1,5)] by simp
  have rota: "team_rota ?s' i = team_rota s i" for i
    by (simp add: team_rota_def team_member_ids_def put_conversation_def put_rule_def)
  have "map rule_id (assignment_rules ?s') = map rule_id (assignment_rules s)"
    unfolding rules by (simp add: put_rule_def map_key_put)
  then show thesis using that [OF run fr rota] assms(5) by simp
qed

lemma assign_all_rota:
  assumes "first_rule s c = Some r" "rule_strategy r = ROUND_ROBIN" "team_rota s (rule_team_id r) = ms" "distinct (map mem_id ms)"
    "distinct (map rule_id (assignment_rules s))" "\<forall>k \<in> set cs. same_inbox c k"
    "next_in_turn ms (rule_last_assigned_membership_id r) = ms ! i" "i < length ms"
  shows "fst (assign_all cs s) = map (\<lambda>j. Some (ms ! ((i + j) mod length ms))) [0..<length cs]"
  using assms
proof (induction cs arbitrary: s r i)
  case (Cons k cs)
  have ne: "ms \<noteq> []" using Cons.prems(8) by auto
  have fr: "first_rule s k = Some r" using Cons.prems(1,6) same_inbox_rule [of c k s] by simp
  obtain s' where s': "auto_assign_conversation k s = (Some (ms ! i), s')" "first_rule s' k = Some (set_last (mem_id (ms ! i)) r)"
    "\<And>i. team_rota s' i = team_rota s i" "distinct (map rule_id (assignment_rules s'))"
    by (rule assign_round_robin [OF fr Cons.prems(2,3) ne Cons.prems(5)]) (simp add: Cons.prems(7))
  let ?r' = "set_last (mem_id (ms ! i)) r"
  have "fst (assign_all cs s') = map (\<lambda>j. Some (ms ! ((Suc i mod length ms + j) mod length ms))) [0..<length cs]"
  proof (rule Cons.IH [of s' ?r'])
    show "first_rule s' c = Some ?r'" using s'(2) Cons.prems(6) same_inbox_rule [of c k s'] by simp
    show "next_in_turn ms (rule_last_assigned_membership_id ?r') = ms ! (Suc i mod length ms)"
      using next_in_turn_after [OF Cons.prems(4,8)] by (simp add: set_last_def)
    show "Suc i mod length ms < length ms" using ne by simp
  qed (use Cons.prems s'(3,4) in \<open>simp_all add: set_last_def\<close>)
  moreover have "(Suc i mod length ms + j) mod length ms = (i + Suc j) mod length ms" for j by (simp add: mod_simps)
  ultimately have "fst (assign_all cs s') = map (\<lambda>j. Some (ms ! ((i + Suc j) mod length ms))) [0..<length cs]" by simp
  moreover have "fst (assign_all (k # cs) s) = Some (ms ! i) # fst (assign_all cs s')"
    by (simp add: s'(1) split: prod.split)
  moreover have "[0..<length (k # cs)] = 0 # map Suc [0..<length cs]" by (simp add: upt_conv_Cons map_Suc_upt del: upt_Suc)
  ultimately show ?case using Cons.prems(8) by simp
qed simp

text \<open>C8. Round robin is fair: a sequence of conversations of one inbox, as many as the team has active members, is assigned
  to the members in the cyclic order of the rota, so each member receives exactly one of them.\<close>

theorem round_robin_fair:
  assumes "first_rule s c = Some r" "rule_strategy r = ROUND_ROBIN" "distinct (map mem_id (team_rota s (rule_team_id r)))"
    "distinct (map rule_id (assignment_rules s))" "\<forall>k \<in> set cs. same_inbox c k" "length cs = length (team_rota s (rule_team_id r))"
  shows "\<exists>i. fst (assign_all cs s) = map Some (rotate i (team_rota s (rule_team_id r)))"
proof (cases cs)
  case Nil
  then show ?thesis using assms(6) by simp
next
  case (Cons k ks)
  let ?ms = "team_rota s (rule_team_id r)"
  have "?ms \<noteq> []" using assms(6) Cons by auto
  then obtain i where i: "i < length ?ms" "next_in_turn ?ms (rule_last_assigned_membership_id r) = ?ms ! i"
    by (metis next_in_turn_mem in_set_conv_nth)
  have "fst (assign_all cs s) = map (\<lambda>j. Some (?ms ! ((i + j) mod length ?ms))) [0..<length cs]"
    by (rule assign_all_rota [OF assms(1,2) refl assms(3,4,5) i(2,1)])
  also have "\<dots> = map Some (rotate i ?ms)"
    using assms(6) by (intro nth_equalityI) (auto simp: nth_rotate)
  finally show ?thesis by blast
qed

section \<open>Least open\<close>

definition balanced :: "db \<Rightarrow> conversation \<Rightarrow> membership list \<Rightarrow> bool" where
  "balanced s c ms \<longleftrightarrow> (\<forall>a \<in> set ms. \<forall>b \<in> set ms. open_load s c (mem_id a) \<le> open_load s c (mem_id b) + 1)"

lemma least_loaded_min:
  "least_loaded s c m ms \<in> set (m # ms) \<and> (\<forall>a \<in> set (m # ms). open_load s c (mem_id (least_loaded s c m ms)) \<le> open_load s c (mem_id a))"
proof (induction ms arbitrary: m)
  case (Cons a ms)
  let ?b = "if less_loaded s c a m then a else m"
  have "open_load s c (mem_id ?b) \<le> open_load s c (mem_id a)" "open_load s c (mem_id ?b) \<le> open_load s c (mem_id m)"
    by (auto simp: less_loaded_def)
  with Cons [of ?b] show ?case by (auto intro: le_trans split: if_splits)
qed simp

lemma load_after_assign:
  assumes "c \<in> set (conversations s)" "distinct (map conv_id (conversations s))"
    "conv_assigned_membership_id c = None" "conv_status c \<in> {ConvOpen, ConvPending}"
  shows "open_load (put_conversation (c\<lparr>conv_assigned_membership_id := Some k\<rparr>) s) c i =
    open_load s c i + (if i = k then 1 else 0)"
proof -
  obtain xs ys where split: "conversations s = xs @ c # ys" using assms(1) by (meson split_list)
  let ?c = "c\<lparr>conv_assigned_membership_id := Some k\<rparr>"
  have same: "tbl_put conv_id ?c zs = zs" if "conv_id c \<notin> conv_id ` set zs" for zs
    using that by (induction zs) (auto simp: tbl_put_def)
  have "conv_id c \<notin> conv_id ` set xs" "conv_id c \<notin> conv_id ` set ys" using assms(2) split by auto
  then have "conversations (put_conversation ?c s) = xs @ ?c # ys"
    using same by (simp add: put_conversation_def split tbl_put_def)
  then show ?thesis using assms(3,4) by (auto simp: open_load_def split)
qed

text \<open>Least open keeps the loads balanced: the conversation goes to a member of the team with the smallest number of
  open and pending conversations, only this number grows, by one, and when the loads of the team differ by at most one before the
  assignment they do so after it.\<close>

theorem least_open_balances:
  assumes "first_rule s c = Some r" "rule_strategy r = LEAST_OPEN" "team_rota s (rule_team_id r) \<noteq> []"
    "c \<in> set (conversations s)" "distinct (map conv_id (conversations s))" "conv_assigned_membership_id c = None"
    "conv_status c \<in> {ConvOpen, ConvPending}"
  shows "\<exists>m s'. auto_assign_conversation c s = (Some m, s') \<and> m \<in> set (team_rota s (rule_team_id r)) \<and>
    (\<forall>a \<in> set (team_rota s (rule_team_id r)). open_load s c (mem_id m) \<le> open_load s c (mem_id a)) \<and>
    (\<forall>i. open_load s' c i = open_load s c i + (if i = mem_id m then 1 else 0)) \<and>
    (balanced s c (team_rota s (rule_team_id r)) \<longrightarrow> balanced s' c (team_rota s' (rule_team_id r)))"
proof -
  let ?ms = "team_rota s (rule_team_id r)"
  obtain a as where ms: "?ms = a # as" using assms(3) by (cases ?ms) auto
  let ?m = "least_loaded s c a as"
  let ?s' = "put_conversation (c\<lparr>conv_assigned_membership_id := Some (mem_id ?m)\<rparr>) s"
  have run: "auto_assign_conversation c s = (Some ?m, ?s')"
    using assms(1,2) ms by (simp add: auto_assign_conversation_def)
  have least: "?m \<in> set ?ms" "\<forall>b \<in> set ?ms. open_load s c (mem_id ?m) \<le> open_load s c (mem_id b)"
    using least_loaded_min [of s c a as] ms by simp_all
  have load: "open_load ?s' c i = open_load s c i + (if i = mem_id ?m then 1 else 0)" for i
    by (rule load_after_assign [OF assms(4-7)])
  have rota: "team_rota ?s' (rule_team_id r) = ?ms"
    by (simp add: team_rota_def team_member_ids_def put_conversation_def)
  have "balanced s c ?ms \<Longrightarrow> balanced ?s' c ?ms"
    using least(2) unfolding balanced_def load by (fastforce split: if_splits)
  then show ?thesis using run least load rota by (intro exI conjI) auto
qed


section \<open>Witnesses\<close>

definition rota_member :: "uuid \<Rightarrow> datetime \<Rightarrow> membership" where
  "rota_member i at = \<lparr>mem_id = i, mem_account_id = 1, mem_user_id = i + 100, mem_role = AGENT, mem_status = MembershipActive,
     mem_custom_permissions = None, mem_created_at = at\<rparr>"

definition demo_rule :: "assignment_strategy \<Rightarrow> assignment_rule" where
  "demo_rule k = \<lparr>rule_id = 40, rule_account_id = 1, rule_organization_id = 2, rule_team_id = 30, rule_channel_id = None,
     rule_name = ''all'', rule_strategy = k, rule_priority = 100, rule_is_active = True,
     rule_last_assigned_membership_id = Some 11, rule_created_at = 0\<rparr>"

definition demo_conversation :: "uuid \<Rightarrow> uuid option \<Rightarrow> conversation" where
  "demo_conversation i k = \<lparr>conv_id = i, conv_account_id = 1, conv_organization_id = 2, conv_channel_id = 3, conv_contact_id = i,
     conv_assigned_membership_id = k, conv_status = ConvOpen, conv_priority = PrioNormal, conv_last_message_at = None,
     conv_first_response_at = None, conv_closed_at = None, conv_is_starred = False, conv_snoozed_until = None,
     conv_archived_at = None, conv_sla_deadline_at = None, conv_sla_breached_at = None, conv_deleted_at = None\<rparr>"

definition assignment_example :: "assignment_strategy \<Rightarrow> db" where
  "assignment_example k = empty_db\<lparr>memberships := [rota_member 12 7, rota_member 11 5],
     organization_memberships := [\<lparr>om_organization_id = 2, om_membership_id = 11\<rparr>, \<lparr>om_organization_id = 2, om_membership_id = 12\<rparr>],
     teams := [\<lparr>team_id = 30, team_account_id = 1, team_organization_id = 2, team_name = ''sales'', team_description = None\<rparr>],
     team_members := [\<lparr>tm_team_id = 30, tm_membership_id = 11\<rparr>, \<lparr>tm_team_id = 30, tm_membership_id = 12\<rparr>],
     assignment_rules := [demo_rule k],
     conversations := [demo_conversation 50 (Some 11), demo_conversation 51 None, demo_conversation 52 None]\<rparr>"

lemma team_members_of_branch_witness:
  "\<exists>t valid s'. update_team_members 1 30 [12] (assignment_example ROUND_ROBIN) = (Inr (t, valid), s') \<and>
     set (team_member_ids s' 30) = {12} \<and> in_organization s' (team_organization_id t) 12"
proof -
  have "returns (fst (update_team_members 1 30 [12] (assignment_example ROUND_ROBIN)))" by code_simp
  then obtain t valid s' where u: "update_team_members 1 30 [12] (assignment_example ROUND_ROBIN) = (Inr (t, valid), s')"
    by (cases "update_team_members 1 30 [12] (assignment_example ROUND_ROBIN)") (auto simp: returns_def split: sum.splits)
  from team_members_of_branch [OF u] u show ?thesis by auto
qed

lemma round_robin_fair_witness:
  "\<exists>i. fst (assign_all [demo_conversation 51 None, demo_conversation 52 None] (assignment_example ROUND_ROBIN)) =
     map Some (rotate i [rota_member 11 5, rota_member 12 7])"
proof -
  have rota: "team_rota (assignment_example ROUND_ROBIN) 30 = [rota_member 11 5, rota_member 12 7]" by code_simp
  have rule: "first_rule (assignment_example ROUND_ROBIN) (demo_conversation 51 None) = Some (demo_rule ROUND_ROBIN)" by code_simp
  show ?thesis
    using round_robin_fair [OF rule, of "[demo_conversation 51 None, demo_conversation 52 None]"] rota
    by (simp add: demo_rule_def rota_member_def assignment_example_def same_inbox_def demo_conversation_def)
qed

lemma least_open_balances_witness:
  "\<exists>m s'. auto_assign_conversation (demo_conversation 51 None) (assignment_example LEAST_OPEN) = (Some m, s') \<and>
     open_load s' (demo_conversation 51 None) 11 + open_load s' (demo_conversation 51 None) 12 = 2 \<and>
     balanced s' (demo_conversation 51 None) (team_rota s' 30)"
proof -
  have rota: "team_rota (assignment_example LEAST_OPEN) 30 = [rota_member 11 5, rota_member 12 7]" by code_simp
  have rule: "first_rule (assignment_example LEAST_OPEN) (demo_conversation 51 None) = Some (demo_rule LEAST_OPEN)" by code_simp
  have "demo_conversation 51 None \<in> set (conversations (assignment_example LEAST_OPEN))"
    "distinct (map conv_id (conversations (assignment_example LEAST_OPEN)))"
    by (simp_all add: assignment_example_def demo_conversation_def)
  moreover have "balanced (assignment_example LEAST_OPEN) (demo_conversation 51 None) [rota_member 11 5, rota_member 12 7]"
    "open_load (assignment_example LEAST_OPEN) (demo_conversation 51 None) 11 = 1"
    "open_load (assignment_example LEAST_OPEN) (demo_conversation 51 None) 12 = 0"
    by code_simp+
  ultimately show ?thesis
    using least_open_balances [OF rule] rota
    by (fastforce simp: demo_rule_def demo_conversation_def rota_member_def)
qed

end
