(* ===== verification/BillingPeriods.thy ===== *)
theory BillingPeriods
  imports Subscriptions
begin

text \<open>
  Billing periods: \<open>services/billing_period.py\<close>.  The period of a subscription or a channel that contains a moment is
  found by stepping from the anchor by months or years until the end; the last period is cut at the end.  The stepping ends because
  every step adds months, and the periods it finds partition the time of the subscription.
\<close>

section \<open>Finding a period\<close>

definition parse_billing_cycle :: "string \<Rightarrow> billing_cycle" where
  "parse_billing_cycle v = (if v = ''yearly'' then YEARLY else if v = ''trial'' then TRIAL else MONTHLY)"

definition step_months :: "bool \<Rightarrow> int" where
  "step_months yearly = (if yearly then 12 else 1)"

text \<open>The measure of the loop: months left until the end.  A month outside 1 to 12 is possible in the type, in the first
  step only.\<close>

definition months_left :: "dt \<Rightarrow> dt \<Rightarrow> nat" where
  "months_left period_start ends_at =
     (let n = nat (12 * dt_year ends_at + 13 - month_number period_start)
      in if 1 \<le> dt_month period_start \<and> dt_month period_start \<le> 12 then n else Suc n)"

definition period_end_from :: "bool \<Rightarrow> dt \<Rightarrow> dt \<Rightarrow> dt" where
  "period_end_from yearly ends_at period_start =
     (let period_end = add_months period_start (step_months yearly) in if period_end > ends_at then ends_at else period_end)"

lemma months_left_step:
  assumes "p < e"
  shows "months_left (add_months p (step_months yearly)) e < months_left p e"
proof -
  let ?q = "add_months p (step_months yearly)"
  have q: "1 \<le> dt_month ?q" "dt_month ?q \<le> 12" using month_in_year by simp_all
  have n: "month_number ?q = month_number p + step_months yearly" "1 \<le> step_months yearly"
    by (simp_all add: step_months_def)
  show ?thesis
  proof (cases "1 \<le> dt_month p \<and> dt_month p \<le> 12")
    case True
    then have "month_number p < 12 * dt_year e + 13"
      using assms by (auto simp: month_number_def less_dt_def)
    then show ?thesis using True q n unfolding months_left_def Let_def by (simp del: add_months_sel month_number_add)
  next
    case False
    have "nat (12 * dt_year e + 13 - month_number ?q) < Suc (nat (12 * dt_year e + 13 - month_number p))"
      using n by linarith
    moreover have "months_left p e = Suc (nat (12 * dt_year e + 13 - month_number p))"
      using False by (simp only: months_left_def Let_def if_False)
    moreover have "months_left ?q e = nat (12 * dt_year e + 13 - month_number ?q)"
      using q by (simp only: months_left_def Let_def if_True simp_thms)
    ultimately show ?thesis by (simp only:)
  qed
qed

function billing_loop :: "bool \<Rightarrow> dt \<Rightarrow> dt \<Rightarrow> dt \<Rightarrow> dt \<Rightarrow> dt \<times> dt" where
  "billing_loop yearly starts_at ends_at ref period_start =
     (if period_start < ends_at then
        (let period_end = period_end_from yearly ends_at period_start
         in if ref < period_end \<or> period_end \<ge> ends_at then (period_start, period_end)
            else billing_loop yearly starts_at ends_at ref period_end)
      else (starts_at, ends_at))"
  by pat_completeness auto

termination
proof (relation "measure (\<lambda>(yearly, starts_at, ends_at, ref, period_start). months_left period_start ends_at)")
qed (auto simp: Let_def months_left_step period_end_from_def split: if_splits)

declare billing_loop.simps [simp del]

definition billing_period_for_anchor :: "dt \<Rightarrow> dt \<Rightarrow> string \<Rightarrow> dt \<Rightarrow> dt \<times> dt" where
  "billing_period_for_anchor starts_at ends_at cycle ref =
     (case parse_billing_cycle cycle of
        TRIAL \<Rightarrow> (starts_at, ends_at)
      | YEARLY \<Rightarrow> billing_loop True starts_at ends_at ref starts_at
      | MONTHLY \<Rightarrow> billing_loop False starts_at ends_at ref starts_at)"

definition billing_period_for_subscription :: "subscription \<Rightarrow> dt \<Rightarrow> dt \<times> dt" where
  "billing_period_for_subscription b ref = billing_period_for_anchor (sub_starts_at b) (sub_ends_at b) (sub_billing_cycle b) ref"

definition cycle_month_key :: "dt \<Rightarrow> int \<times> int" where
  "cycle_month_key period_start = (dt_year period_start, dt_month period_start)"

definition calendar_month :: "int \<Rightarrow> int \<Rightarrow> dt \<times> dt" where
  "calendar_month year month = (DT year month 1 0, add_months (DT year month 1 0) 1)"

text \<open>\<open>now\<close> is the clock that decides whether the subscription is active, \<open>ref\<close> the moment of the activity.\<close>

definition resolve_billing_period :: "dt \<Rightarrow> db \<Rightarrow> uuid \<Rightarrow> dt \<Rightarrow> dt \<times> dt" where
  "resolve_billing_period now s account_id ref =
     (case get_active_subscription (instant_of now) s account_id of
        None \<Rightarrow> calendar_month (dt_year ref) (dt_month ref)
      | Some (subscription, _) \<Rightarrow> billing_period_for_subscription subscription ref)"

definition resolve_channel_billing_period :: "dt \<Rightarrow> db \<Rightarrow> uuid \<Rightarrow> dt \<Rightarrow> (dt \<times> dt) option" where
  "resolve_channel_billing_period now s channel_id ref =
     (case get_channel s channel_id of
        None \<Rightarrow> None
      | Some c \<Rightarrow>
          if ch_deleted_at c \<noteq> None then None
          else (case (ch_billing_starts_at c, ch_billing_ends_at c) of
              (Some a, Some b) \<Rightarrow> Some (billing_period_for_anchor a b (ch_billing_cycle c) ref)
            | _ \<Rightarrow> Some (resolve_billing_period now s (ch_account_id c) ref)))"

section \<open>Periods partition the subscription\<close>

lemma billing_loop_stop:
  "p < e \<Longrightarrow> ref < period_end_from yearly e p \<or> e \<le> period_end_from yearly e p \<Longrightarrow>
    billing_loop yearly s e ref p = (p, period_end_from yearly e p)"
  by (simp add: billing_loop.simps [of yearly s e ref p] Let_def)

lemma billing_loop_step:
  "p < e \<Longrightarrow> \<not> (ref < period_end_from yearly e p \<or> e \<le> period_end_from yearly e p) \<Longrightarrow>
    billing_loop yearly s e ref p = billing_loop yearly s e ref (period_end_from yearly e p)"
  by (simp add: billing_loop.simps [of yearly s e ref p] Let_def)

lemma period_end_later:
  assumes "valid_dt p" "p < e"
  shows "p < period_end_from yearly e p" "period_end_from yearly e p \<le> e"
    "period_end_from yearly e p < e \<Longrightarrow> valid_dt (period_end_from yearly e p)"
  using assms add_months_later [OF assms(1)] add_months_valid [OF assms(1)]
  by (auto simp: period_end_from_def step_months_def Let_def split: if_splits)

lemma billing_loop_contains:
  assumes "valid_dt p" "p \<le> ref" "ref < e" "billing_loop yearly s e ref p = (a, b)"
  shows "p \<le> a \<and> a \<le> ref \<and> ref < b \<and> b \<le> e"
  using assms
proof (induction yearly s e ref p rule: billing_loop.induct)
  case (1 yearly s e ref p)
  let ?q = "period_end_from yearly e p"
  have pe: "p < e" using "1.prems"(2,3) by simp
  note later = period_end_later [OF "1.prems"(1) pe, of yearly]
  show ?case
  proof (cases "ref < ?q \<or> e \<le> ?q")
    case True
    then have "a = p" "b = ?q" using billing_loop_stop [OF pe True, of s] "1.prems"(4) by simp_all
    then show ?thesis using True "1.prems"(2,3) later(2) by auto
  next
    case False
    then have q: "?q \<le> ref" "?q < e" by (simp_all add: not_less not_le)
    have "?q \<le> a \<and> a \<le> ref \<and> ref < b \<and> b \<le> e"
      using "1.IH" [OF pe refl False later(3) [OF q(2)] q(1) "1.prems"(3)] billing_loop_step [OF pe False, of s] "1.prems"(4) by simp
    then show ?thesis using later(1) by (meson less_imp_le order_trans)
  qed
qed

lemma billing_loop_same:
  assumes "valid_dt p" "p \<le> ref" "ref < e" "billing_loop yearly s e ref p = (a, b)" "a \<le> r'" "r' < b"
  shows "billing_loop yearly s e r' p = (a, b)"
  using assms
proof (induction yearly s e ref p rule: billing_loop.induct)
  case (1 yearly s e ref p)
  let ?q = "period_end_from yearly e p"
  have pe: "p < e" using "1.prems"(2,3) by simp
  note later = period_end_later [OF "1.prems"(1) pe, of yearly]
  show ?case
  proof (cases "ref < ?q \<or> e \<le> ?q")
    case True
    then have ab: "a = p" "b = ?q" using billing_loop_stop [OF pe True, of s] "1.prems"(4) by simp_all
    then have "r' < ?q" using "1.prems"(6) by simp
    then show ?thesis using billing_loop_stop [OF pe, of r' yearly s] ab by simp
  next
    case False
    have rec: "billing_loop yearly s e ref ?q = (a, b)" using billing_loop_step [OF pe False, of s] "1.prems"(4) by simp
    have q: "valid_dt ?q" "?q \<le> ref" using later(3) False by (simp_all add: not_less not_le)
    have "?q \<le> a" using billing_loop_contains [OF q "1.prems"(3) rec] by simp
    then have "\<not> (r' < ?q \<or> e \<le> ?q)" using "1.prems"(5) False by simp
    then show ?thesis using "1.IH" [OF pe refl False q "1.prems"(3) rec "1.prems"(5,6)] billing_loop_step [OF pe, of r' yearly s] by simp
  qed
qed

text \<open>Billing periods partition the time of a subscription: the period found for a moment between the start and the end
  contains the moment and lies between them, and any other moment has the same period exactly when it lies in it.\<close>

theorem billing_periods_partition:
  assumes "valid_dt starts_at" "starts_at \<le> ref" "ref < ends_at" "starts_at \<le> ref'" "ref' < ends_at"
    and "billing_period_for_anchor starts_at ends_at cycle ref = (a, b)"
  shows "starts_at \<le> a \<and> a \<le> ref \<and> ref < b \<and> b \<le> ends_at \<and>
    (billing_period_for_anchor starts_at ends_at cycle ref' = (a, b) \<longleftrightarrow> a \<le> ref' \<and> ref' < b)"
proof (cases "parse_billing_cycle cycle = TRIAL")
  case True
  then show ?thesis using assms by (auto simp: billing_period_for_anchor_def)
next
  case False
  define yearly where "yearly = (parse_billing_cycle cycle = YEARLY)"
  have loop: "billing_period_for_anchor starts_at ends_at cycle x = billing_loop yearly starts_at ends_at x starts_at" for x
    using False by (cases "parse_billing_cycle cycle") (simp_all add: billing_period_for_anchor_def yearly_def)
  have ab: "billing_loop yearly starts_at ends_at ref starts_at = (a, b)" using assms(6) loop by simp
  from billing_loop_contains [OF assms(1-3) ab] billing_loop_same [OF assms(1-3) ab, of ref']
    billing_loop_contains [OF assms(1,4,5), of yearly starts_at a b]
  show ?thesis unfolding loop by auto
qed

lemma billing_periods_partition_witness:
  "\<exists>a b. billing_period_for_anchor (DT 2026 1 31 0) (DT 2027 1 31 0) ''monthly'' (DT 2026 4 2 0) = (a, b) \<and>
     a \<le> DT 2026 4 2 0 \<and> DT 2026 4 2 0 < b \<and>
     (billing_period_for_anchor (DT 2026 1 31 0) (DT 2027 1 31 0) ''monthly'' (DT 2026 3 28 0) = (a, b) \<longleftrightarrow>
        a \<le> DT 2026 3 28 0 \<and> DT 2026 3 28 0 < b)"
proof -
  obtain a b where ab: "billing_period_for_anchor (DT 2026 1 31 0) (DT 2027 1 31 0) ''monthly'' (DT 2026 4 2 0) = (a, b)"
    by force
  have "valid_dt (DT 2026 1 31 0)" by code_simp
  moreover have "DT 2026 1 31 0 \<le> DT 2026 4 2 0" "DT 2026 4 2 0 < DT 2027 1 31 0" "DT 2026 1 31 0 \<le> DT 2026 3 28 0"
    "DT 2026 3 28 0 < DT 2027 1 31 0"
    by (simp_all add: less_eq_dt_def less_dt_def)
  ultimately show ?thesis using billing_periods_partition [OF _ _ _ _ _ ab] ab by blast
qed

end
