(* ===== verification/MacUsage.thy ===== *)
theory MacUsage
  imports BillingPeriods
begin

text \<open>
  Monthly active contacts: \<open>services/mac_usage.py\<close>, and the counting, limits and overage of \<open>services/mac_tracking.py\<close>,
  \<open>billing_limits.py\<close> and \<open>channel_billing.py\<close>.  An activity of a contact on a channel inserts at most one row for the billing
  period, guarded by a unique key, and always leaves an audit row.  Prices are in thousandths of the currency, the
  precision of their columns; the code computes with floats and rounds to three digits.  The breakdowns by trigger,
  channel and day are reports and are left out.
\<close>

section \<open>Recording activity\<close>

text \<open>The activity is given as a trigger or by the name of an activity type; another name raises.\<close>

datatype activity_arg = ByTrigger mac_trigger_source | ByName string

definition activity_from_trigger :: "mac_trigger_source \<Rightarrow> mac_activity_type" where
  "activity_from_trigger t = (case t of TrigInbound \<Rightarrow> ActMessageInbound | TrigInboxOutbound \<Rightarrow> ActMessageOutbound
     | TrigAiOutbound \<Rightarrow> ActMessageOutbound)"

definition activity_to_trigger :: "mac_activity_type \<Rightarrow> mac_trigger_source" where
  "activity_to_trigger a = (if a = ActMessageInbound then TrigInbound else if a = ActCall then TrigInbound else TrigInboxOutbound)"

definition parse_activity_type :: "string \<Rightarrow> mac_activity_type option" where
  "parse_activity_type v = (if v = ''message_inbound'' then Some ActMessageInbound else if v = ''message_outbound'' then Some ActMessageOutbound
     else if v = ''call'' then Some ActCall else if v = ''broadcast'' then Some ActBroadcast else None)"

definition MAC_COUNTED_ACTIVITIES :: "mac_activity_type list" where
  "MAC_COUNTED_ACTIVITIES = [ActMessageInbound, ActMessageOutbound, ActCall]"

record mac_activity_result =
  res_created :: bool
  res_mac_record_id :: "uuid option"
  res_reason :: string

record activity =
  act_account_id :: uuid
  act_contact_id :: "uuid option"
  act_channel_id :: uuid
  act_type :: activity_arg
  act_at :: "dt option"
  act_organization_id :: "uuid option"
  act_source_event_id :: "string option"
  act_message_id :: "uuid option"

text \<open>The unique key \<open>uq_mac_account_channel_contact_billing_period\<close>.\<close>

definition mac_key :: "monthly_active_contact \<Rightarrow> uuid \<times> uuid \<times> uuid \<times> dt" where
  "mac_key r = (mac_account_id r, mac_channel_id r, mac_contact_id r, mac_billing_period_start r)"

definition aud_key :: "mac_activation_audit \<Rightarrow> uuid \<times> uuid \<times> uuid \<times> dt" where
  "aud_key a = (aud_account_id a, aud_channel_id a, aud_contact_id a, aud_billing_period_start a)"

definition known_event :: "db \<Rightarrow> uuid \<Rightarrow> string option \<Rightarrow> bool" where
  "known_event s account_id source_event_id \<longleftrightarrow> (case source_event_id of None \<Rightarrow> False | Some e \<Rightarrow> e \<noteq> [] \<and>
     (\<exists>a \<in> set (mac_audits s). aud_account_id a = account_id \<and> aud_source_event_id a = Some e))"

definition record_activity :: "dt \<Rightarrow> uuid \<Rightarrow> uuid \<Rightarrow> activity \<Rightarrow> db \<Rightarrow> mac_activity_result outcome \<times> db" where
  "record_activity now new_mac_id new_audit_id p s =
     (let ignored = (\<lambda>reason. Inr \<lparr>res_created = False, res_mac_record_id = None, res_reason = reason\<rparr>) in
      case act_contact_id p of
        None \<Rightarrow> (ignored ''missing_contact'', s)
      | Some contact_id \<Rightarrow>
          (case (case act_type p of ByTrigger t \<Rightarrow> Some (activity_from_trigger t, t)
                 | ByName n \<Rightarrow> map_option (\<lambda>a. (a, activity_to_trigger a)) (parse_activity_type n)) of
             None \<Rightarrow> (Inl (ValueError ''not a valid MacActivityType''), s)
           | Some (activity, trigger_source) \<Rightarrow>
               if activity = ActBroadcast \<or> activity \<notin> set MAC_COUNTED_ACTIVITIES then (ignored ''activity_not_counted'', s)
               else (let at = (case act_at p of None \<Rightarrow> now | Some t \<Rightarrow> t) in
                case resolve_channel_billing_period now s (act_channel_id p) at of
                  None \<Rightarrow> (ignored ''no_billing_period'', s)
                | Some (period_start, period_end) \<Rightarrow>
                    if known_event s (act_account_id p) (act_source_event_id p) then (ignored ''duplicate_event'', s)
                    else
                      (let org_id = (case act_organization_id p of Some i \<Rightarrow> Some i
                             | None \<Rightarrow> map_option con_organization_id (get_contact_row s contact_id));
                           row = \<lparr>mac_id = new_mac_id, mac_account_id = act_account_id p, mac_organization_id = org_id,
                             mac_channel_id = act_channel_id p, mac_contact_id = contact_id,
                             mac_cycle_month = cycle_month_key period_start, mac_billing_period_start = period_start,
                             mac_billing_period_end = period_end, mac_trigger_source = trigger_source,
                             mac_first_activity_at = at, mac_last_active_at = at,
                             mac_source_event_id = act_source_event_id p\<rparr>;
                           created = (\<forall>r \<in> set (macs s). mac_key r \<noteq> mac_key row);
                           rows = (if created then macs s @ [row]
                             else tbl_update (\<lambda>r. mac_key r = mac_key row) (\<lambda>r. r\<lparr>mac_last_active_at := at\<rparr>) (macs s));
                           mac_record_id = (if created then Some new_mac_id
                             else map_option mac_id (find (\<lambda>r. mac_key r = mac_key row) rows));
                           audit = \<lparr>aud_id = new_audit_id, aud_account_id = act_account_id p, aud_organization_id = org_id,
                             aud_contact_id = contact_id, aud_channel_id = act_channel_id p, aud_mac_record_id = mac_record_id,
                             aud_billing_period_start = period_start, aud_billing_period_end = period_end,
                             aud_activity_type = activity, aud_activation_source = trigger_source,
                             aud_source_event_id = act_source_event_id p, aud_message_id = act_message_id p,
                             aud_created_new_mac = created, aud_created_at = at\<rparr>
                       in (Inr \<lparr>res_created = created, res_mac_record_id = mac_record_id,
                             res_reason = (if created then ''created'' else ''already_active'')\<rparr>,
                           s\<lparr>macs := rows, mac_audits := mac_audits s @ [audit]\<rparr>)))))"

definition record_mac :: "dt \<Rightarrow> uuid \<Rightarrow> uuid \<Rightarrow> activity \<Rightarrow> mac_trigger_source \<Rightarrow> db \<Rightarrow> bool outcome \<times> db" where
  "record_mac now new_mac_id new_audit_id p trigger_source s =
     (let (r, s') = record_activity now new_mac_id new_audit_id (p\<lparr>act_type := ByTrigger trigger_source\<rparr>) s
      in (case r of Inl e \<Rightarrow> Inl e | Inr x \<Rightarrow> Inr (res_created x), s'))"

section \<open>Limits and overage\<close>

record mac_balance =
  bal_mac_remaining :: int
  bal_is_over_mac :: bool
  bal_over_mac_count :: int
  bal_over_mac_blocks :: int

definition compute_mac_balance :: "int \<Rightarrow> int \<Rightarrow> mac_balance" where
  "compute_mac_balance mac_count included_mac =
     (let over_count = max 0 (mac_count - included_mac) in
      \<lparr>bal_mac_remaining = max 0 (included_mac - mac_count), bal_is_over_mac = (mac_count > included_mac),
       bal_over_mac_count = over_count, bal_over_mac_blocks = (over_count + 99) div 100\<rparr>)"

definition estimate_over_mac_charge :: "int \<Rightarrow> int \<Rightarrow> int" where
  "estimate_over_mac_charge over_mac_count price_per_100 =
     (if over_mac_count \<le> 0 then 0 else (over_mac_count + 99) div 100 * price_per_100)"

definition effective_included_mac :: "subscription option \<Rightarrow> plan option \<Rightarrow> int" where
  "effective_included_mac b p =
     (case (case b of None \<Rightarrow> None | Some x \<Rightarrow> sub_included_mac_override x) of
        Some n \<Rightarrow> n | None \<Rightarrow> (case p of Some x \<Rightarrow> pl_included_mac x | None \<Rightarrow> 1000))"

definition effective_channel_included_mac :: "channel \<Rightarrow> subscription option \<Rightarrow> plan option \<Rightarrow> int" where
  "effective_channel_included_mac c b p = (case ch_included_mac c of Some n \<Rightarrow> n | None \<Rightarrow> effective_included_mac b p)"

definition effective_workspace_over_price :: "subscription option \<Rightarrow> plan option \<Rightarrow> int" where
  "effective_workspace_over_price b p =
     (case (case b of None \<Rightarrow> None | Some x \<Rightarrow> sub_over_mac_price_per_100_override x) of
        Some n \<Rightarrow> n | None \<Rightarrow> (case p of Some x \<Rightarrow> pl_over_mac_price_per_100 x | None \<Rightarrow> 12000))"

definition effective_channel_over_price :: "channel \<Rightarrow> subscription option \<Rightarrow> plan option \<Rightarrow> int" where
  "effective_channel_over_price c b p =
     (case ch_over_mac_price_per_100 c of Some n \<Rightarrow> n | None \<Rightarrow> effective_workspace_over_price b p)"

record channel_over =
  over_attributed_count :: int
  over_blocks :: int
  over_charge :: int

definition compute_channel_over_mac_charge :: "int \<Rightarrow> int \<Rightarrow> int \<Rightarrow> bool \<Rightarrow> channel_over" where
  "compute_channel_over_mac_charge channel_mac included_mac price_per_100 overage_enabled =
     (let balance = compute_mac_balance channel_mac included_mac; over_count = bal_over_mac_count balance in
      if \<not> overage_enabled \<or> over_count \<le> 0 then \<lparr>over_attributed_count = 0, over_blocks = 0, over_charge = 0\<rparr>
      else \<lparr>over_attributed_count = over_count, over_blocks = bal_over_mac_blocks balance,
            over_charge = estimate_over_mac_charge over_count price_per_100\<rparr>)"

section \<open>Counts and summaries\<close>

definition period_for_account :: "dt \<Rightarrow> db \<Rightarrow> uuid \<Rightarrow> (int \<times> int) option \<Rightarrow> dt \<times> dt" where
  "period_for_account now s account_id cycle_month =
     (case cycle_month of Some (y, m) \<Rightarrow> calendar_month y m | None \<Rightarrow> resolve_billing_period now s account_id now)"

definition period_for_channel :: "dt \<Rightarrow> db \<Rightarrow> uuid \<Rightarrow> (int \<times> int) option \<Rightarrow> (dt \<times> dt) option" where
  "period_for_channel now s channel_id cycle_month =
     (case cycle_month of Some (y, m) \<Rightarrow> Some (calendar_month y m) | None \<Rightarrow> resolve_channel_billing_period now s channel_id now)"

definition count_mac_for_channel :: "db \<Rightarrow> uuid \<Rightarrow> uuid \<Rightarrow> dt \<Rightarrow> nat" where
  "count_mac_for_channel s account_id channel_id period_start = tbl_count (\<lambda>r. mac_account_id r = account_id
     \<and> mac_channel_id r = channel_id \<and> mac_billing_period_start r = period_start) (macs s)"

definition list_channels :: "db \<Rightarrow> uuid \<Rightarrow> channel list" where
  "list_channels s account_id = filter (\<lambda>c. ch_account_id c = account_id \<and> ch_deleted_at c = None) (channels s)"

fun channel_period_pairs :: "dt \<Rightarrow> db \<Rightarrow> (int \<times> int) option \<Rightarrow> channel list \<Rightarrow> (channel \<times> dt \<times> dt) list" where
  "channel_period_pairs now s cycle_month [] = []"
| "channel_period_pairs now s cycle_month (c # cs) =
     (case period_for_channel now s (ch_id c) cycle_month of
        None \<Rightarrow> channel_period_pairs now s cycle_month cs
      | Some (a, b) \<Rightarrow> (c, a, b) # channel_period_pairs now s cycle_month cs)"

definition count_mac_for_account :: "dt \<Rightarrow> db \<Rightarrow> uuid \<Rightarrow> (int \<times> int) option \<Rightarrow> nat" where
  "count_mac_for_account now s account_id cycle_month =
     sum_list (map (\<lambda>(c, a, b). count_mac_for_channel s account_id (ch_id c) a)
       (channel_period_pairs now s cycle_month (list_channels s account_id)))"

record mac_summary =
  sum_cycle_month :: "int \<times> int"
  sum_mac_count :: int
  sum_included_mac :: int
  sum_mac_limit_policy :: string
  sum_overage_enabled :: bool
  sum_mac_remaining :: int
  sum_is_over_mac :: bool
  sum_over_mac_count :: int
  sum_over_mac_blocks :: int
  sum_estimated_charge :: int

definition channel_line :: "db \<Rightarrow> uuid \<Rightarrow> subscription option \<Rightarrow> plan option \<Rightarrow> bool \<Rightarrow> channel \<times> dt \<times> dt \<Rightarrow> int \<times> int \<times> channel_over" where
  "channel_line s account_id b p overage_enabled x =
     (case x of (c, a, _) \<Rightarrow>
       (let channel_mac = int (count_mac_for_channel s account_id (ch_id c) a);
            included = effective_channel_included_mac c b p;
            price = effective_channel_over_price c b p
        in (channel_mac, included, compute_channel_over_mac_charge channel_mac included price overage_enabled)))"

definition get_account_mac_summary :: "dt \<Rightarrow> db \<Rightarrow> uuid \<Rightarrow> (int \<times> int) option \<Rightarrow> mac_summary" where
  "get_account_mac_summary now s account_id cycle_month =
     (let (period_start, period_end) = period_for_account now s account_id cycle_month;
          data = get_active_subscription (instant_of now) s account_id;
          b = map_option fst data; p = map_option snd data;
          policy = (case p of None \<Rightarrow> ''soft'' | Some x \<Rightarrow> if pl_mac_limit_policy x = [] then ''soft'' else pl_mac_limit_policy x);
          overage_enabled = (case p of None \<Rightarrow> True | Some x \<Rightarrow> pl_overage_enabled x);
          rows = map (channel_line s account_id b p overage_enabled) (channel_period_pairs now s cycle_month (list_channels s account_id));
          total_mac = sum_list (map fst rows);
          total_included = sum_list (map (fst \<circ> snd) rows);
          balance = compute_mac_balance total_mac total_included;
          total_charge = sum_list (map (over_charge \<circ> snd \<circ> snd) rows)
      in \<lparr>sum_cycle_month = cycle_month_key period_start, sum_mac_count = total_mac, sum_included_mac = total_included,
          sum_mac_limit_policy = policy, sum_overage_enabled = overage_enabled,
          sum_mac_remaining = bal_mac_remaining balance, sum_is_over_mac = bal_is_over_mac balance,
          sum_over_mac_count = sum_list (map (over_attributed_count \<circ> snd \<circ> snd) rows),
          sum_over_mac_blocks = sum_list (map (over_blocks \<circ> snd \<circ> snd) rows),
          sum_estimated_charge = (if overage_enabled then total_charge else 0)\<rparr>)"


section \<open>One row for every contact of a period\<close>

definition mac_ok :: "db \<Rightarrow> bool" where
  "mac_ok s \<longleftrightarrow> distinct (map mac_key (macs s)) \<and> mac_key ` set (macs s) = aud_key ` set (mac_audits s)"

lemma mac_ok_record:
  assumes "mac_ok s"
  shows "mac_ok (snd (record_activity now i j p s))"
proof -
  let ?s' = "snd (record_activity now i j p s)"
  consider "?s' = s" | row audit where "mac_key row \<notin> mac_key ` set (macs s)" "aud_key audit = mac_key row"
      "macs ?s' = macs s @ [row]" "mac_audits ?s' = mac_audits s @ [audit]"
    | k t audit where "k \<in> mac_key ` set (macs s)" "aud_key audit = k" "mac_audits ?s' = mac_audits s @ [audit]"
      "macs ?s' = tbl_update (\<lambda>r. mac_key r = k) (\<lambda>r. r\<lparr>mac_last_active_at := t\<rparr>) (macs s)"
  proof -
    note def = record_activity_def [of now i j p s]
    show thesis
    proof (cases "?s' = s")
      case False
      then obtain c a t b e where c: "act_contact_id p = Some c"
        and a: "(case act_type p of ByTrigger t \<Rightarrow> Some (activity_from_trigger t, t)
                 | ByName n \<Rightarrow> map_option (\<lambda>a. (a, activity_to_trigger a)) (parse_activity_type n)) = Some (a, t)"
        and counted: "\<not> (a = ActBroadcast \<or> a \<notin> set MAC_COUNTED_ACTIVITIES)"
        and per: "resolve_channel_billing_period now s (act_channel_id p) (case act_at p of None \<Rightarrow> now | Some t \<Rightarrow> t) = Some (b, e)"
        and new: "\<not> known_event s (act_account_id p) (act_source_event_id p)"
        unfolding def by (auto simp: Let_def split: option.splits if_splits)
      let ?key = "(act_account_id p, act_channel_id p, c, b)"
      show thesis
      proof (cases "?key \<in> mac_key ` set (macs s)")
        case True
        then have "\<not> (\<forall>r \<in> set (macs s). mac_key r \<noteq> ?key)" by auto
        then show thesis using True
          by (intro that(3) [of ?key]) (auto simp: def c a counted per new Let_def mac_key_def aud_key_def)
      next
        case False
        then have "\<forall>r \<in> set (macs s). mac_key r \<noteq> ?key" by (metis image_eqI)
        then show thesis using False
          by (intro that(2)) (auto simp: def c a counted per new Let_def mac_key_def aud_key_def)
      qed
    qed (rule that(1))
  qed
  then show ?thesis
  proof cases
    case (3 k t audit)
    have "map mac_key (macs ?s') = map mac_key (macs s)" by (simp add: 3(4) tbl_update_def mac_key_def)
    moreover from this have "mac_key ` set (macs ?s') = mac_key ` set (macs s)" by (metis list.set_map)
    ultimately show ?thesis using 3 assms by (auto simp: mac_ok_def)
  qed (use assms in \<open>auto simp: mac_ok_def\<close>)
qed

fun record_all :: "(dt \<times> uuid \<times> uuid \<times> activity) list \<Rightarrow> db \<Rightarrow> db" where
  "record_all [] s = s"
| "record_all ((now, i, j, p) # xs) s = record_all xs (snd (record_activity now i j p s))"

lemma mac_ok_record_all: "mac_ok s \<Longrightarrow> mac_ok (record_all xs s)"
  by (induction xs s rule: record_all.induct) (simp_all add: mac_ok_record)

definition active_contacts :: "db \<Rightarrow> uuid \<Rightarrow> uuid \<Rightarrow> dt \<Rightarrow> uuid set" where
  "active_contacts s account_id channel_id period_start = {c. (account_id, channel_id, c, period_start) \<in> aud_key ` set (mac_audits s)}"

lemma mac_count_contacts:
  assumes "mac_ok s"
  shows "count_mac_for_channel s account_id channel_id b = card (active_contacts s account_id channel_id b)"
proof -
  let ?rows = "filter (\<lambda>r. mac_account_id r = account_id \<and> mac_channel_id r = channel_id \<and> mac_billing_period_start r = b) (macs s)"
  have d: "distinct (map mac_key (macs s))" using assms by (simp add: mac_ok_def)
  have inj: "inj_on mac_contact_id (set ?rows)"
  proof (rule inj_onI)
    fix x y assume "x \<in> set ?rows" "y \<in> set ?rows" "mac_contact_id x = mac_contact_id y"
    then have "mac_key x = mac_key y" "x \<in> set (macs s)" "y \<in> set (macs s)" by (auto simp: mac_key_def)
    moreover have "inj_on mac_key (set (macs s))" using d by (simp add: distinct_map)
    ultimately show "x = y" by (meson inj_onD)
  qed
  have "distinct ?rows" using d by (simp add: distinct_map)
  then have "length ?rows = card (set ?rows)" by (rule distinct_card [symmetric])
  also have "\<dots> = card (mac_contact_id ` set ?rows)" by (rule card_image [OF inj, symmetric])
  also have "mac_contact_id ` set ?rows = {c. (account_id, channel_id, c, b) \<in> mac_key ` set (macs s)}"
    by (force simp: mac_key_def)
  also have "\<dots> = active_contacts s account_id channel_id b"
    using assms by (simp add: active_contacts_def mac_ok_def)
  finally show ?thesis by (simp add: count_mac_for_channel_def tbl_count_def)
qed

text \<open>C9. Usage counts contacts, not messages: after any sequence of recorded activities, with whatever repetitions, channels
  and times, the usage of a channel in a billing period is the number of different contacts with an audited activity in it.\<close>

theorem usage_counts_contacts:
  assumes "macs s = []" "mac_audits s = []"
  shows "count_mac_for_channel (record_all xs s) account_id channel_id b = card (active_contacts (record_all xs s) account_id channel_id b)"
  using assms by (intro mac_count_contacts mac_ok_record_all) (simp add: mac_ok_def)

section \<open>Overage\<close>

lemma blocks_bounds: "0 \<le> n \<Longrightarrow> n \<le> 100 * ((n + 99) div 100) \<and> 100 * ((n + 99) div 100) < n + (100::int)"
  by linarith

lemma channel_line_bounds:
  assumes "channel_line s account_id b p enabled x = (m, i, r)"
  shows "enabled \<Longrightarrow> m - i \<le> over_attributed_count r" "0 \<le> over_attributed_count r"
    "over_attributed_count r \<le> 100 * over_blocks r" "100 * over_blocks r \<le> over_attributed_count r + 99"
    "\<not> enabled \<Longrightarrow> over_attributed_count r = 0"
proof -
  obtain c a e where x: "x = (c, a, e)" by (cases x)
  define price where "price = effective_channel_over_price c b p"
  have r: "r = compute_channel_over_mac_charge m i price enabled"
    using assms unfolding x price_def by (auto simp: channel_line_def Let_def)
  note defs = r compute_channel_over_mac_charge_def compute_mac_balance_def Let_def
  show "enabled \<Longrightarrow> m - i \<le> over_attributed_count r" "0 \<le> over_attributed_count r" "\<not> enabled \<Longrightarrow> over_attributed_count r = 0"
    by (auto simp: defs)
  show "over_attributed_count r \<le> 100 * over_blocks r" "100 * over_blocks r \<le> over_attributed_count r + 99"
    using blocks_bounds [of "max 0 (m - i)"] by (auto simp: defs)
qed

lemma lines_bounds:
  assumes rows: "rows = map (channel_line s account_id b p enabled) xs"
  shows "enabled \<Longrightarrow> sum_list (map fst rows) - sum_list (map (fst \<circ> snd) rows) \<le> sum_list (map (over_attributed_count \<circ> snd \<circ> snd) rows)"
    "0 \<le> sum_list (map (over_attributed_count \<circ> snd \<circ> snd) rows)"
    "sum_list (map (over_attributed_count \<circ> snd \<circ> snd) rows) \<le> 100 * sum_list (map (over_blocks \<circ> snd \<circ> snd) rows)"
    "100 * sum_list (map (over_blocks \<circ> snd \<circ> snd) rows)
      \<le> sum_list (map (over_attributed_count \<circ> snd \<circ> snd) rows) + 99 * int (length xs)"
    "\<not> enabled \<Longrightarrow> sum_list (map (over_attributed_count \<circ> snd \<circ> snd) rows) = 0"
proof -
  have line: "(enabled \<longrightarrow> fst y - fst (snd y) \<le> over_attributed_count (snd (snd y))) \<and> 0 \<le> over_attributed_count (snd (snd y)) \<and>
      over_attributed_count (snd (snd y)) \<le> 100 * over_blocks (snd (snd y)) \<and>
      100 * over_blocks (snd (snd y)) \<le> over_attributed_count (snd (snd y)) + 99 \<and>
      (\<not> enabled \<longrightarrow> over_attributed_count (snd (snd y)) = 0)"
    if "y = channel_line s account_id b p enabled x" for x y
    using channel_line_bounds [of s account_id b p enabled x "fst y" "fst (snd y)" "snd (snd y)"] that by simp
  show "enabled \<Longrightarrow> sum_list (map fst rows) - sum_list (map (fst \<circ> snd) rows) \<le> sum_list (map (over_attributed_count \<circ> snd \<circ> snd) rows)"
    unfolding rows
  proof (induction xs)
    case (Cons x xs)
    then show ?case using line [OF refl, of x] by simp
  qed simp
  show "0 \<le> sum_list (map (over_attributed_count \<circ> snd \<circ> snd) rows)"
    unfolding rows
  proof (induction xs)
    case (Cons x xs)
    then show ?case using line [OF refl, of x] by simp
  qed simp
  show "sum_list (map (over_attributed_count \<circ> snd \<circ> snd) rows) \<le> 100 * sum_list (map (over_blocks \<circ> snd \<circ> snd) rows)"
    unfolding rows
  proof (induction xs)
    case (Cons x xs)
    then show ?case using line [OF refl, of x] by simp
  qed simp
  show "100 * sum_list (map (over_blocks \<circ> snd \<circ> snd) rows)
      \<le> sum_list (map (over_attributed_count \<circ> snd \<circ> snd) rows) + 99 * int (length xs)"
    unfolding rows
  proof (induction xs)
    case (Cons x xs)
    then show ?case using line [OF refl, of x] by simp
  qed simp
  show "\<not> enabled \<Longrightarrow> sum_list (map (over_attributed_count \<circ> snd \<circ> snd) rows) = 0"
    unfolding rows
  proof (induction xs)
    case (Cons x xs)
    then show ?case using line [OF refl, of x] by simp
  qed simp
qed

lemma length_channel_period_pairs: "length (channel_period_pairs now s m cs) \<le> length cs"
  by (induction cs) (auto split: option.splits)

text \<open>The overage of an account is at least the overage of its channels taken together: with overage enabled, the over-limit
  contacts of the summary are at least the total usage minus the total included, they are charged in blocks of a hundred that
  cover them with less than one block per channel to spare, and with overage disabled nothing is attributed or charged.\<close>

theorem account_overage_bounds:
  assumes "r = get_account_mac_summary now s account_id cycle_month"
  shows "(sum_overage_enabled r \<longrightarrow> sum_mac_count r - sum_included_mac r \<le> sum_over_mac_count r) \<and> 0 \<le> sum_over_mac_count r \<and>
    sum_over_mac_count r \<le> 100 * sum_over_mac_blocks r \<and>
    100 * sum_over_mac_blocks r \<le> sum_over_mac_count r + 99 * int (length (list_channels s account_id)) \<and>
    (\<not> sum_overage_enabled r \<longrightarrow> sum_over_mac_count r = 0 \<and> sum_estimated_charge r = 0)"
proof -
  define data where "data = get_active_subscription (instant_of now) s account_id"
  define enabled where "enabled = (case map_option snd data of None \<Rightarrow> True | Some x \<Rightarrow> pl_overage_enabled x)"
  define xs where "xs = channel_period_pairs now s cycle_month (list_channels s account_id)"
  define rows where "rows = map (channel_line s account_id (map_option fst data) (map_option snd data) enabled) xs"
  have r: "sum_overage_enabled r = enabled" "sum_mac_count r = sum_list (map fst rows)"
    "sum_included_mac r = sum_list (map (fst \<circ> snd) rows)"
    "sum_over_mac_count r = sum_list (map (over_attributed_count \<circ> snd \<circ> snd) rows)"
    "sum_over_mac_blocks r = sum_list (map (over_blocks \<circ> snd \<circ> snd) rows)"
    "\<not> enabled \<Longrightarrow> sum_estimated_charge r = 0"
    unfolding assms rows_def xs_def enabled_def data_def get_account_mac_summary_def Let_def
    by (simp_all add: case_prod_beta)
  have "length xs \<le> length (list_channels s account_id)" unfolding xs_def by (rule length_channel_period_pairs)
  then show ?thesis
    using lines_bounds [OF rows_def] r by fastforce
qed

section \<open>Witnesses\<close>

definition demo_channel :: "uuid \<Rightarrow> int option \<Rightarrow> channel" where
  "demo_channel i included = \<lparr>ch_id = i, ch_account_id = 1, ch_organization_id = 2, ch_type = WHATSAPP, ch_name = ''main'',
     ch_external_id = None, ch_status = ChannelActive, ch_over_mac_price_per_100 = None, ch_billing_starts_at = Some (DT 2026 1 10 0),
     ch_billing_ends_at = Some (DT 2027 1 10 0), ch_billing_cycle = ''monthly'', ch_included_mac = included, ch_deleted_at = None\<rparr>"

definition demo_activity :: "uuid \<Rightarrow> string \<Rightarrow> activity" where
  "demo_activity contact event = \<lparr>act_account_id = 1, act_contact_id = Some contact, act_channel_id = 3, act_type = ByTrigger TrigInbound,
     act_at = Some (DT 2026 2 1 0), act_organization_id = Some 2, act_source_event_id = Some event, act_message_id = None\<rparr>"

definition usage_example :: db where
  "usage_example = empty_db\<lparr>channels := [demo_channel 3 (Some 1), demo_channel 4 (Some 100)]\<rparr>"

definition demo_activities :: "(dt \<times> uuid \<times> uuid \<times> activity) list" where
  "demo_activities = [(DT 2026 2 1 0, 20, 30, demo_activity 7 ''e1''), (DT 2026 2 1 0, 21, 31, demo_activity 8 ''e2''),
     (DT 2026 2 1 0, 22, 32, demo_activity 7 ''e3''), (DT 2026 2 1 0, 23, 33, demo_activity 9 ''e1'')]"

lemma usage_counts_contacts_witness:
  "card (active_contacts (record_all demo_activities usage_example) 1 3 (DT 2026 1 10 0)) = 2"
proof -
  have "macs usage_example = []" "mac_audits usage_example = []" by (simp_all add: usage_example_def empty_db_def)
  moreover have "count_mac_for_channel (record_all demo_activities usage_example) 1 3 (DT 2026 1 10 0) = 2" by code_simp
  ultimately show ?thesis using usage_counts_contacts by metis
qed

lemma account_overage_bounds_witness:
  "\<exists>r. r = get_account_mac_summary (DT 2026 2 3 0) (record_all demo_activities usage_example) 1 None \<and>
     sum_mac_count r = 2 \<and> sum_included_mac r = 101 \<and> sum_over_mac_count r = 1 \<and> \<not> sum_is_over_mac r \<and> 1 \<le> 100 * sum_over_mac_blocks r"
proof -
  let ?r = "get_account_mac_summary (DT 2026 2 3 0) (record_all demo_activities usage_example) 1 None"
  have "sum_mac_count ?r = 2" "sum_included_mac ?r = 101" "sum_over_mac_count ?r = 1" "\<not> sum_is_over_mac ?r" by code_simp+
  then show ?thesis using account_overage_bounds [OF refl, of "DT 2026 2 3 0" "record_all demo_activities usage_example" 1 None] by auto
qed

end
