(* ===== verification/Inbound.thy ===== *)
theory Inbound
  imports PyValues CampaignMessages Assignments Automations MacUsage
begin

text \<open>
  Inbound WhatsApp traffic: \<open>services/inbound_whatsapp.py\<close>, the webhook processing of \<open>services/whatsapp.py\<close>,
  \<open>services/inbound_interactive.py\<close>, \<open>services/contacts.py\<close> (matching by phone) and \<open>services/notifications.py\<close>.

  A flush of a new row, or of a changed key, fails with \<open>IntegrityError\<close> when it breaks a unique key of the table;
  these keys are \<open>uq_contacts_org_channel_address\<close>, \<open>uq_conversations_contact_channel_status\<close> and the unique external id of a message.
  Other transactions, new ids, the clock, the download of media, the parsing of catalog orders, the updates of
  template statuses and the side effects that follow a stored message are an environment.  The payload has the shape that Meta
  documents: a missing key reads as empty, and texts are texts.  Attribution columns of contacts and titles of notifications are left out.
\<close>

section \<open>Rows guarded by unique keys\<close>

definition integrity_error :: py_error where
  "integrity_error = OtherError ''IntegrityError''"

definition contact_key :: "contact \<Rightarrow> uuid \<times> uuid \<times> string" where
  "contact_key c = (con_organization_id c, con_channel_id c, con_external_address c)"

definition conversation_key :: "conversation \<Rightarrow> uuid \<times> uuid \<times> conversation_status" where
  "conversation_key c = (conv_contact_id c, conv_channel_id c, conv_status c)"

definition insert_contact :: "contact \<Rightarrow> db \<Rightarrow> db outcome" where
  "insert_contact c s = (if \<exists>x \<in> set (contacts s). contact_key x = contact_key c then Inl integrity_error
     else Inr (s\<lparr>contacts := contacts s @ [c]\<rparr>))"

definition flush_contact :: "contact \<Rightarrow> db \<Rightarrow> db outcome" where
  "flush_contact c s = (if \<exists>x \<in> set (contacts s). con_id x \<noteq> con_id c \<and> contact_key x = contact_key c then Inl integrity_error
     else Inr (put_contact c s))"

definition insert_conversation :: "conversation \<Rightarrow> db \<Rightarrow> db outcome" where
  "insert_conversation c s = (if \<exists>x \<in> set (conversations s). conversation_key x = conversation_key c then Inl integrity_error
     else Inr (s\<lparr>conversations := conversations s @ [c]\<rparr>))"

definition insert_message :: "message \<Rightarrow> db \<Rightarrow> db outcome" where
  "insert_message m s = (if msg_external_message_id m \<noteq> None \<and> (\<exists>x \<in> set (messages s). msg_external_message_id x = msg_external_message_id m)
     then Inl integrity_error else Inr (s\<lparr>messages := messages s @ [m]\<rparr>))"

definition create_notification :: "uuid \<Rightarrow> uuid \<Rightarrow> uuid option \<Rightarrow> string \<Rightarrow> json \<Rightarrow> db \<Rightarrow> db" where
  "create_notification i account_id user_id kind data s =
     s\<lparr>notifications := notifications s @ [\<lparr>nt_id = i, nt_account_id = account_id, nt_user_id = user_id, nt_type = kind, nt_data = data\<rparr>]\<rparr>"

section \<open>Contact and conversation\<close>

definition find_contact_on_channel_by_phone :: "db \<Rightarrow> uuid \<Rightarrow> uuid \<Rightarrow> string \<Rightarrow> string \<Rightarrow> contact option" where
  "find_contact_on_channel_by_phone s organization_id channel_id external_address country_code =
     (let normalized = normalize_whatsapp_phone (Some external_address) country_code in
      if normalized = [] then None
      else find (\<lambda>c. phones_match (Some (con_external_address c)) (Some normalized) country_code)
        (filter (\<lambda>c. con_organization_id c = organization_id \<and> con_channel_id c = channel_id \<and> con_deleted_at c = None) (contacts s)))"

record inbound_ids =
  ii_contact :: uuid
  ii_conversation :: uuid
  ii_message :: uuid
  ii_notification :: uuid
  ii_mac :: uuid
  ii_audit :: uuid

definition new_contact :: "uuid \<Rightarrow> whatsapp_account \<Rightarrow> string \<Rightarrow> string option \<Rightarrow> contact" where
  "new_contact i wa sender display_name =
     \<lparr>con_id = i, con_account_id = wa_account_id wa, con_organization_id = wa_organization_id wa, con_channel_id = wa_channel_id wa,
      con_external_address = sender, con_display_name = display_name, con_email = None, con_language = None, con_gender = ''unknown'',
      con_country_code = None, con_marketing_opt_in = True,
      con_reachability_status = None, con_reachability_reason = None, con_delivery_failure_count = 0,
      con_last_delivery_failure_at = None, con_last_inbound_at = None, con_lifecycle_stage = ''lead'', con_deleted_at = None\<rparr>"

definition inbound_conversation :: "uuid \<Rightarrow> whatsapp_account \<Rightarrow> uuid \<Rightarrow> conversation" where
  "inbound_conversation i wa contact_id =
     \<lparr>conv_id = i, conv_account_id = wa_account_id wa, conv_organization_id = wa_organization_id wa,
      conv_channel_id = wa_channel_id wa, conv_contact_id = contact_id, conv_assigned_membership_id = None,
      conv_status = ConvOpen, conv_priority = PrioNormal, conv_last_message_at = None, conv_first_response_at = None,
      conv_closed_at = None, conv_is_starred = False, conv_snoozed_until = None, conv_archived_at = None,
      conv_sla_deadline_at = None, conv_sla_breached_at = None, conv_deleted_at = None\<rparr>"

definition nonempty :: "string option \<Rightarrow> bool" where
  "nonempty x \<longleftrightarrow> x \<noteq> None \<and> x \<noteq> Some []"

definition match_contact :: "uuid \<Rightarrow> whatsapp_account \<Rightarrow> string \<Rightarrow> string option \<Rightarrow> db \<Rightarrow> (contact \<times> db) outcome" where
  "match_contact new_id wa sender display_name s =
     (case find_contact_on_channel_by_phone s (wa_organization_id wa) (wa_channel_id wa) sender DEFAULT_COUNTRY_CODE of
        None \<Rightarrow> (let c = new_contact new_id wa sender display_name in map_sum id (\<lambda>s'. (c, s')) (insert_contact c s))
      | Some c \<Rightarrow>
          if nonempty display_name \<and> \<not> nonempty (con_display_name c)
          then (let c' = c\<lparr>con_display_name := display_name\<rparr> in Inr (c', put_contact c' s))
          else if con_external_address c \<noteq> sender
          then (let c' = c\<lparr>con_external_address := sender\<rparr> in map_sum id (\<lambda>s'. (c', s')) (flush_contact c' s))
          else Inr (c, s))"

definition open_thread :: "inbound_ids \<Rightarrow> whatsapp_account \<Rightarrow> contact \<Rightarrow> db \<Rightarrow> (conversation \<times> bool \<times> db) outcome" where
  "open_thread ids wa contact s =
     (case open_conversation s (con_id contact) (wa_channel_id wa) of
        Some c \<Rightarrow> Inr (c, False, s)
      | None \<Rightarrow>
          (let c = inbound_conversation (ii_conversation ids) wa (con_id contact) in
           case insert_conversation c s of
             Inl e \<Rightarrow> Inl e
           | Inr s1 \<Rightarrow>
               (case auto_assign_conversation c s1 of
                  (None, s2) \<Rightarrow> Inr (c, True, s2)
                | (Some m, s2) \<Rightarrow> Inr (c\<lparr>conv_assigned_membership_id := Some (mem_id m)\<rparr>, True,
                    create_notification (ii_notification ids) (conv_account_id c) (Some (mem_user_id m)) ''conversation_auto_assigned''
                      (JObj [(''conversation_id'', JStr (uuid_str (conv_id c)))]) s2))))"

definition get_or_create_contact_and_conversation :: "inbound_ids \<Rightarrow> whatsapp_account \<Rightarrow> string \<Rightarrow> string option \<Rightarrow> db \<Rightarrow>
    (contact \<times> conversation \<times> bool \<times> db) outcome" where
  "get_or_create_contact_and_conversation ids wa sender display_name s =
     (let sender = normalize_whatsapp_phone (Some sender) DEFAULT_COUNTRY_CODE in
      if sender = [] then Inl (ValueError ''INVALID_SENDER'')
      else (case match_contact (ii_contact ids) wa sender display_name s of
          Inl e \<Rightarrow> Inl e
        | Inr (contact, s1) \<Rightarrow> (case open_thread ids wa contact s1 of
              Inl e \<Rightarrow> Inl e
            | Inr (conversation, created, s2) \<Rightarrow> Inr (contact, conversation, created, s2))))"

section \<open>Content of a message\<close>

definition dict_of :: "json option \<Rightarrow> (string \<times> json) list" where
  "dict_of x = (case x of Some (JObj kvs) \<Rightarrow> kvs | _ \<Rightarrow> [])"

definition is_dict :: "json option \<Rightarrow> bool" where
  "is_dict x \<longleftrightarrow> (case x of Some (JObj kvs) \<Rightarrow> True | _ \<Rightarrow> False)"

definition extract_interactive_reply :: "json \<Rightarrow> (string \<times> json) list option" where
  "extract_interactive_reply item =
     (let button = JObj (dict_of (jget item ''button''));
          payload = str_or (str_or [] (jget button ''id'')) (jget button ''payload'');
          text = str_or [] (jget button ''text'') in
      if is_dict (jget item ''button'') \<and> (payload \<noteq> [] \<or> text \<noteq> [])
      then Some [(''interactive_type'', JStr ''button''), (''button_id'', JStr payload), (''button_title'', JStr text), (''text'', JStr text)]
      else if \<not> is_dict (jget item ''interactive'') then None
      else
        (let interactive = the (jget item ''interactive'');
             kind = py_lower (str_or [] (jget interactive ''type''));
             reply = (\<lambda>k. JObj (dict_of (jget interactive k)));
             part = (\<lambda>r k. JStr (str_or [] (jget r k))) in
         if kind = ''button_reply'' then
           (let r = reply ''button_reply'' in
            Some [(''interactive_type'', JStr ''button_reply''), (''button_id'', part r ''id''), (''button_title'', part r ''title''),
              (''text'', part r ''title'')])
         else if kind = ''list_reply'' then
           (let r = reply ''list_reply'' in
            Some [(''interactive_type'', JStr ''list_reply''), (''list_id'', part r ''id''), (''list_title'', part r ''title''),
              (''list_description'', part r ''description''), (''text'', part r ''title'')])
         else if kind = ''nfm_reply'' then
           Some [(''interactive_type'', JStr ''nfm_reply''),
             (''response_json'', (case jget (reply ''nfm_reply'') ''response_json'' of None \<Rightarrow> JNull | Some v \<Rightarrow> v)),
             (''text'', JStr ''Flow response'')]
         else None))"

fun message_type_value :: "message_type \<Rightarrow> string" where
  "message_type_value MtText = ''text''"
| "message_type_value MtImage = ''image''"
| "message_type_value MtVideo = ''video''"
| "message_type_value MtAudio = ''audio''"
| "message_type_value MtDocument = ''document''"
| "message_type_value MtLocation = ''location''"
| "message_type_value MtTemplate = ''template''"
| "message_type_value MtInteractive = ''interactive''"
| "message_type_value MtOrder = ''order''"
| "message_type_value MtUnknown = ''unknown''"

definition inbound_message_type_for_item :: "json option \<Rightarrow> message_type" where
  "inbound_message_type_for_item v =
     (let lowered = py_lower (str_or ''unknown'' v) in
      if lowered = ''order'' then MtOrder
      else if lowered = ''sticker'' then MtImage
      else (case find (\<lambda>t. message_type_value t = lowered) [MtText, MtImage, MtVideo, MtAudio, MtDocument, MtLocation, MtTemplate,
             MtInteractive, MtOrder, MtUnknown] of Some t \<Rightarrow> t | None \<Rightarrow> MtUnknown))"

definition MEDIA_MESSAGE_TYPES :: "message_type list" where
  "MEDIA_MESSAGE_TYPES = [MtImage, MtVideo, MtAudio, MtDocument]"

definition media_block :: "json \<Rightarrow> message_type \<Rightarrow> json option" where
  "media_block item t =
     (if is_dict (jget item (message_type_value t)) then jget item (message_type_value t)
      else if t = MtImage \<and> is_dict (jget item ''sticker'') then jget item ''sticker'' else None)"

definition text_value :: "json option \<Rightarrow> string option" where
  "text_value x = (case x of Some (JStr t) \<Rightarrow> Some t | _ \<Rightarrow> None)"

definition extract_inbound_text_and_caption :: "json \<Rightarrow> message_type \<Rightarrow> string option" where
  "extract_inbound_text_and_caption item t =
     (if t = MtText then text_value (jget (JObj (dict_of (jget item ''text''))) ''body'')
      else (case media_block item t of None \<Rightarrow> None | Some block \<Rightarrow> text_value (jget block ''caption'')))"

end
