(* ===== verification/Webhooks.thy ===== *)
theory Webhooks
  imports Inbound
begin

text \<open>
  Storing inbound messages and processing webhooks: \<open>persist_inbound_message\<close> of \<open>services/inbound_whatsapp.py\<close> and
  \<open>store_and_process_webhook\<close> of \<open>services/whatsapp.py\<close>.  A message is stored in a savepoint, tried twice when a unique
  key conflicts, and committed on its own before its side effects run; a failure to store is collected and raised
  at the end, so that the task retries the whole payload.
\<close>

section \<open>Storing a message\<close>

record inbound_context =
  ctx_contact :: contact
  ctx_conversation :: conversation
  ctx_created_conversation :: bool
  ctx_message :: message
  ctx_interactive_reply :: "(string \<times> json) list option"

text \<open>\<open>wh_media\<close> is the download of media and its storage, \<open>wh_order\<close> the parsing of a catalog order into its text and
  its stored form; both may raise.\<close>

record webhook_env =
  wh_clock :: "nat \<Rightarrow> datetime"
  wh_civil :: "nat \<Rightarrow> dt"
  wh_ids :: "nat \<Rightarrow> inbound_ids"
  wh_event_id :: "nat \<Rightarrow> uuid"
  wh_outbox_id :: "nat \<Rightarrow> uuid"
  wh_commits :: "nat \<Rightarrow> db \<Rightarrow> db"
  wh_media :: "nat \<Rightarrow> whatsapp_account \<Rightarrow> json \<Rightarrow> message_type \<Rightarrow> (string \<times> json) list outcome"
  wh_order :: "json \<Rightarrow> (string \<times> json) option outcome"
  wh_side_effects :: "nat \<Rightarrow> whatsapp_account \<Rightarrow> inbound_context \<Rightarrow> db \<Rightarrow> (string list \<times> db) outcome"
  wh_template_update :: "nat \<Rightarrow> json \<Rightarrow> json \<Rightarrow> db \<Rightarrow> bool \<times> db"

definition find_duplicate_inbound :: "db \<Rightarrow> string option \<Rightarrow> bool" where
  "find_duplicate_inbound s external_id \<longleftrightarrow> nonempty external_id \<and>
     (\<exists>m \<in> set (messages s). msg_external_message_id m = external_id)"

definition sender_name :: "json \<Rightarrow> string option" where
  "sender_name value = (case jget value ''contacts'' of
     Some (JList (c # _)) \<Rightarrow> text_value (jget (JObj (dict_of (jget c ''profile''))) ''name'') | _ \<Rightarrow> None)"

definition referred_product :: "json \<Rightarrow> json option" where
  "referred_product item =
     (let referred = JObj (dict_of (jget (JObj (dict_of (jget item ''context''))) ''referred_product''));
          catalog_id = py_strip (str_or [] (jget referred ''catalog_id''));
          retailer_id = py_strip (str_or [] (jget referred ''product_retailer_id''))
      in if catalog_id = [] \<and> retailer_id = [] then None
         else Some (JObj [(''catalog_id'', JStr catalog_id), (''product_retailer_id'', JStr retailer_id)]))"

text \<open>Type, text and stored payload of a message.\<close>

definition inbound_content :: "webhook_env \<Rightarrow> nat \<Rightarrow> whatsapp_account \<Rightarrow> json \<Rightarrow> (message_type \<times> string option \<times> json) outcome" where
  "inbound_content env tick wa item =
     (let reply = extract_interactive_reply item;
          t = inbound_message_type_for_item (case jget item ''type'' of None \<Rightarrow> Some (JStr ''unknown'') | v \<Rightarrow> v) in
      case (if t = MtOrder then wh_order env item else Inr None) of
        Inl e \<Rightarrow> Inl e
      | Inr order \<Rightarrow>
          (let text0 = extract_inbound_text_and_caption item t;
               text1 = (case order of None \<Rightarrow> text0 | Some (shown, _) \<Rightarrow> Some shown);
               reply_text = (case reply of None \<Rightarrow> None | Some r \<Rightarrow> text_value (map_of r ''text''));
               text2 = (if nonempty reply_text \<and> \<not> nonempty text1 then reply_text else text1);
               p1 = dict_of (Some item);
               p2 = (case reply of None \<Rightarrow> p1 | Some r \<Rightarrow> dict_set ''interactive_reply'' (JObj r) p1);
               p3 = (case order of None \<Rightarrow> p2 | Some (_, parsed) \<Rightarrow> dict_set ''order_parsed'' parsed p2);
               p4 = (case referred_product item of None \<Rightarrow> p3 | Some r \<Rightarrow> dict_set ''referred_product'' r p3) in
           if t \<notin> set MEDIA_MESSAGE_TYPES then Inr (t, text2, JObj p4)
           else (case wh_media env tick wa item t of
               Inl e \<Rightarrow> Inl e
             | Inr media_fields \<Rightarrow>
                 (let caption = text_value (map_of media_fields ''caption'')
                  in Inr (t, (if \<not> nonempty text2 \<and> nonempty caption then caption else text2), JObj (dict_update p4 media_fields))))))"

definition store_inbound :: "webhook_env \<Rightarrow> nat \<Rightarrow> whatsapp_account \<Rightarrow> json \<Rightarrow> json \<Rightarrow> db \<Rightarrow> (inbound_context \<times> db) outcome" where
  "store_inbound env tick wa item value s =
     (let external_id = text_value (jget item ''id'');
          sender = (case text_value (jget item ''from'') of None \<Rightarrow> [] | Some t \<Rightarrow> t);
          ids = wh_ids env tick; now = wh_clock env tick in
      case get_or_create_contact_and_conversation ids wa sender (sender_name value) s of
        Inl e \<Rightarrow> Inl e
      | Inr (contact, conversation, created, s1) \<Rightarrow>
          (case inbound_content env tick wa item of
             Inl e \<Rightarrow> Inl e
           | Inr (t, text, payload) \<Rightarrow>
               (let message = \<lparr>msg_id = ii_message ids, msg_account_id = wa_account_id wa, msg_organization_id = wa_organization_id wa,
                      msg_channel_id = wa_channel_id wa, msg_contact_id = Some (con_id contact),
                      msg_conversation_id = Some (conv_id conversation), msg_external_message_id = external_id,
                      msg_direction = INBOUND, msg_type = t, msg_from_address = sender,
                      msg_to_address = wa_display_phone_number wa, msg_text_body = text, msg_provider_payload = Some payload,
                      msg_status = MsgReceived, msg_created_at = now\<rparr> in
                case insert_message message s1 of
                  Inl e \<Rightarrow> Inl e
                | Inr s2 \<Rightarrow>
                    (let conversation' = conversation\<lparr>conv_last_message_at := Some now\<rparr>;
                         (recorded, s3) = record_mac (wh_civil env tick) (ii_mac ids) (ii_audit ids)
                           \<lparr>act_account_id = wa_account_id wa, act_contact_id = Some (con_id contact), act_channel_id = wa_channel_id wa,
                            act_type = ByTrigger TrigInbound, act_at = None, act_organization_id = Some (con_organization_id contact),
                            act_source_event_id = external_id, act_message_id = Some (msg_id message)\<rparr> TrigInbound
                           (put_conversation conversation' s2)
                     in case recorded of
                          Inl e \<Rightarrow> Inl e
                        | Inr _ \<Rightarrow> Inr (\<lparr>ctx_contact = contact, ctx_conversation = conversation', ctx_created_conversation = created,
                            ctx_message = message, ctx_interactive_reply = extract_interactive_reply item\<rparr>, s3)))))"

text \<open>A failing attempt is rolled back to its savepoint; other transactions commit before each attempt.\<close>

definition persist_inbound_message :: "webhook_env \<Rightarrow> nat \<Rightarrow> whatsapp_account \<Rightarrow> json \<Rightarrow> json \<Rightarrow> db \<Rightarrow>
    inbound_context option outcome \<times> db" where
  "persist_inbound_message env tick wa item value s =
     (let external_id = text_value (jget item ''id'') in
      if find_duplicate_inbound s external_id then (Inr None, s)
      else
        (let s0 = wh_commits env tick s in
         case store_inbound env tick wa item value s0 of
           Inr (ctx, s1) \<Rightarrow> (Inr (Some ctx), s1)
         | Inl e \<Rightarrow>
             if e \<noteq> integrity_error then (Inl e, s0)
             else if find_duplicate_inbound s0 external_id then (Inr None, s0)
             else
               (let t0 = wh_commits env (Suc tick) s0 in
                case store_inbound env (Suc tick) wa item value t0 of
                  Inr (ctx, t1) \<Rightarrow> (Inr (Some ctx), t1)
                | Inl e' \<Rightarrow> if e' = integrity_error \<and> find_duplicate_inbound t0 external_id then (Inr None, t0) else (Inl e', t0))))"

section \<open>Processing a webhook\<close>

record webhook_state =
  ws_db :: db
  ws_tick :: nat
  ws_processed :: int
  ws_run_ids :: "string list"
  ws_errors :: "string list"

fun error_class :: "py_error \<Rightarrow> string" where
  "error_class (OtherError name) = name"
| "error_class e = ''ValueError''"

definition process_message_item :: "webhook_env \<Rightarrow> whatsapp_account \<Rightarrow> json \<Rightarrow> json \<Rightarrow> webhook_state \<Rightarrow> webhook_state" where
  "process_message_item env wa value item st =
     (let (res, s1) = persist_inbound_message env (ws_tick st) wa item value (ws_db st);
          st1 = st\<lparr>ws_db := s1, ws_tick := ws_tick st + 2\<rparr> in
      case res of
        Inl e \<Rightarrow> st1\<lparr>ws_errors := ws_errors st @ [''inbound:'' @ str_or ''unknown'' (jget item ''id'') @ '':'' @ error_class e]\<rparr>
      | Inr None \<Rightarrow> st1
      | Inr (Some ctx) \<Rightarrow>
          (let st2 = st1\<lparr>ws_processed := ws_processed st + 1\<rparr> in
           case wh_side_effects env (ws_tick st) wa ctx s1 of
             Inl _ \<Rightarrow> st2
           | Inr (run_ids, s2) \<Rightarrow> st2\<lparr>ws_db := s2, ws_run_ids := ws_run_ids st @ run_ids\<rparr>))"

fun parse_message_status :: "json option \<Rightarrow> message_status option" where
  "parse_message_status v = (case text_value v of None \<Rightarrow> None
     | Some t \<Rightarrow> if t = ''received'' then Some MsgReceived else if t = ''queued'' then Some MsgQueued else if t = ''sent'' then Some MsgSent
         else if t = ''delivered'' then Some MsgDelivered else if t = ''read'' then Some MsgRead else if t = ''failed'' then Some MsgFailed
         else None)"

fun parse_recipient_status :: "json option \<Rightarrow> recipient_status option" where
  "parse_recipient_status v = (case text_value v of None \<Rightarrow> None | Some t \<Rightarrow>
     find (\<lambda>r. recipient_status_value r = t) ALL_RECIPIENT_STATUSES)"

definition apply_message_status :: "datetime \<Rightarrow> json \<Rightarrow> message \<Rightarrow> db \<Rightarrow> db" where
  "apply_message_status now status_item m s =
     (let m' = m\<lparr>msg_status := (case parse_message_status (jget status_item ''status'') of None \<Rightarrow> msg_status m | Some v \<Rightarrow> v),
            msg_provider_payload := Some (JObj (dict_set ''delivery_status'' status_item (dict_of (msg_provider_payload m))))\<rparr>;
          s1 = s\<lparr>messages := tbl_update (\<lambda>x. msg_id x = msg_id m) (\<lambda>x. x\<lparr>msg_status := msg_status m', msg_provider_payload := msg_provider_payload m'\<rparr>)
            (messages s)\<rparr> in
      case (case msg_conversation_id m of None \<Rightarrow> None | Some i \<Rightarrow> get_conversation_row s1 i) of
        None \<Rightarrow> s1
      | Some c \<Rightarrow> put_conversation (c\<lparr>conv_last_message_at := Some now\<rparr>) s1)"

definition failure_detail :: "json \<Rightarrow> string option" where
  "failure_detail status_item = (case jget status_item ''errors'' of
     Some (JList (e # _)) \<Rightarrow>
       (let first = JObj (dict_of (Some e));
            detail = (if j_truthy (jget first ''title'') then jget first ''title'' else if j_truthy (jget first ''message'')
              then jget first ''message'' else jget first ''code'')
        in if j_truthy detail then Some (take 2000 (str_of detail)) else None)
   | _ \<Rightarrow> None)"

definition apply_recipient_status :: "datetime \<Rightarrow> json \<Rightarrow> campaign_recipient \<Rightarrow> db \<Rightarrow> db" where
  "apply_recipient_status now status_item r s =
     (let status_value = jget status_item ''status'';
          r1 = r\<lparr>rcp_status := (case parse_recipient_status status_value of None \<Rightarrow> rcp_status r | Some v \<Rightarrow> v)\<rparr>;
          failed = (text_value status_value = Some ''failed'');
          r2 = (if failed then (case failure_detail status_item of None \<Rightarrow> r1 | d \<Rightarrow> r1\<lparr>rcp_error_message := d\<rparr>) else r1);
          s1 = put_recipient r2 s in
      case get_contact_row s1 (rcp_contact_id r) of
        None \<Rightarrow> s1
      | Some c \<Rightarrow>
          if failed then put_contact (record_delivery_failure now (rcp_error_message r2) c) s1
          else if text_value status_value \<in> {Some ''delivered'', Some ''read''} then put_contact (record_delivery_success c) s1
          else s1)"

definition process_status_item :: "webhook_env \<Rightarrow> json \<Rightarrow> webhook_state \<Rightarrow> webhook_state" where
  "process_status_item env status_item st =
     (case text_value (jget status_item ''id'') of
        None \<Rightarrow> st
      | Some external_id \<Rightarrow>
          if external_id = [] then st
          else
            (let now = wh_clock env (ws_tick st);
                 s = ws_db st;
                 message = find_by_external_id s external_id;
                 s1 = (case message of None \<Rightarrow> s | Some m \<Rightarrow> apply_message_status now status_item m s);
                 recipient = find (\<lambda>r. rcp_external_message_id r = Some external_id) (recipients s1);
                 s2 = (case recipient of None \<Rightarrow> s1
                   | Some r \<Rightarrow> if j_truthy (jget status_item ''status'') then apply_recipient_status now status_item r s1 else s1)
             in st\<lparr>ws_db := s2, ws_tick := Suc (ws_tick st),
                  ws_processed := ws_processed st + (if message \<noteq> None \<or> recipient \<noteq> None then 1 else 0)\<rparr>))"

definition items_of :: "json option \<Rightarrow> json list" where
  "items_of x = (case x of Some (JList xs) \<Rightarrow> xs | _ \<Rightarrow> [])"

definition extract_event_type :: "json \<Rightarrow> string" where
  "extract_event_type value =
     (if j_truthy (jget value ''messages'') then ''message'' else if j_truthy (jget value ''statuses'') then ''message_status''
      else if j_truthy (jget value ''errors'') then ''error'' else ''unknown'')"

definition account_of_value :: "db \<Rightarrow> json \<Rightarrow> whatsapp_account option" where
  "account_of_value s value =
     (let p = jget (JObj (dict_of (jget value ''metadata''))) ''phone_number_id'' in
      if j_truthy p then find (\<lambda>w. JStr (wa_phone_number_id w) = the p) (whatsapp_accounts s) else None)"

definition set_event_status :: "uuid \<Rightarrow> webhook_status \<Rightarrow> datetime option \<Rightarrow> db \<Rightarrow> db" where
  "set_event_status i v t s = s\<lparr>webhook_events := tbl_update (\<lambda>e. we_id e = i) (\<lambda>e. e\<lparr>we_status := v, we_processed_at := t\<rparr>) (webhook_events s)\<rparr>"

definition add_webhook_event :: "uuid \<Rightarrow> whatsapp_account option \<Rightarrow> string \<Rightarrow> json \<Rightarrow> bool \<Rightarrow> db \<Rightarrow> db" where
  "add_webhook_event i wa event_type payload received s =
     s\<lparr>webhook_events := webhook_events s @ [\<lparr>we_id = i, we_provider = ''meta_whatsapp'', we_external_event_key = None,
        we_account_id = map_option wa_account_id wa, we_channel_id = map_option wa_channel_id wa, we_event_type = event_type,
        we_payload = payload, we_status = (if received then WhReceived else WhIgnored), we_error_message = None,
        we_processed_at = None\<rparr>]\<rparr>"

definition on_ws :: "(db \<Rightarrow> db) \<Rightarrow> webhook_state \<Rightarrow> webhook_state" where
  "on_ws f st = st\<lparr>ws_db := f (ws_db st), ws_tick := Suc (ws_tick st)\<rparr>"

definition process_change :: "webhook_env \<Rightarrow> json \<Rightarrow> json \<Rightarrow> webhook_state \<Rightarrow> webhook_state" where
  "process_change env entry change st =
     (let value = JObj (dict_of (jget change ''value'')) in
      if jget change ''field'' = Some (JStr ''message_template_status_update'') then
        (let (done', s) = wh_template_update env (ws_tick st) entry value (ws_db st)
         in st\<lparr>ws_db := s, ws_tick := Suc (ws_tick st), ws_processed := ws_processed st + (if done' then 1 else 0)\<rparr>)
      else
        (let event_type = extract_event_type value;
             account = account_of_value (ws_db st) value;
             active = (case account of None \<Rightarrow> False | Some w \<Rightarrow> wa_status w = WaActive);
             event_id = wh_event_id env (ws_tick st);
             now = wh_clock env (ws_tick st);
             st1 = on_ws (add_webhook_event event_id account event_type (JObj [(''entry'', entry), (''change'', change)]) active) st;
             st2 = (case account of
                 None \<Rightarrow> st1
               | Some wa \<Rightarrow>
                   if active \<and> event_type = ''message'' then
                     on_ws (set_event_status event_id WhProcessed (Some now))
                       (fold (process_message_item env wa value) (items_of (jget value ''messages'')) st1)
                   else if event_type = ''message_status'' then
                     on_ws (set_event_status event_id WhProcessed (Some now))
                       (fold (process_status_item env) (items_of (jget value ''statuses'')) st1)
                   else st1)
         in case account of
              None \<Rightarrow> st2
            | Some wa \<Rightarrow> on_ws (add_outbox_event now (wh_outbox_id env (ws_tick st2)) (wa_account_id wa) (''whatsapp.'' @ event_type)
                ''webhook_event'' (uuid_str event_id) (JObj [(''webhook_event_id'', JStr (uuid_str event_id)),
                  (''processed_count'', JInt (ws_processed st2))])) st2))"

definition changes_of :: "json \<Rightarrow> (json \<times> json) list" where
  "changes_of payload = concat (map (\<lambda>entry. map (\<lambda>change. (entry, change)) (items_of (jget entry ''changes'')))
     (items_of (jget payload ''entry'')))"

definition store_and_process_webhook :: "webhook_env \<Rightarrow> json \<Rightarrow> db \<Rightarrow> (int \<times> string list) outcome \<times> db" where
  "store_and_process_webhook env payload s =
     (let st = fold (\<lambda>(entry, change). process_change env entry change) (changes_of payload)
            \<lparr>ws_db = s, ws_tick = 0, ws_processed = 0, ws_run_ids = [], ws_errors = []\<rparr>
      in (if ws_errors st \<noteq> [] then Inl (OtherError (join ''; '' (take 5 (ws_errors st))))
          else Inr (ws_processed st, ws_run_ids st), ws_db st))"

end
