(* ===== verification/WebhookFacts.thy ===== *)
theory WebhookFacts
  imports Webhooks
begin

text \<open>
  What the processing of webhooks guarantees: a payload that is processed without error has all its messages stored, each of them
  once, however often Meta sends it again; the status of a message is the last one received; and a contact that was deleted can
  not write again.
\<close>

section \<open>Messages are kept and unique\<close>

text \<open>What the rest of the system does between the steps keeps the stored messages, their unique ids, and the connected numbers.\<close>

definition keeps_inbox :: "(db \<Rightarrow> db) \<Rightarrow> bool" where
  "keeps_inbox f \<longleftrightarrow> (\<forall>s. whatsapp_accounts (f s) = whatsapp_accounts s \<and> set (external_ids s) \<subseteq> set (external_ids (f s)) \<and>
     (distinct (external_ids s) \<longrightarrow> distinct (external_ids (f s))))"

definition inbox_env :: "webhook_env \<Rightarrow> bool" where
  "inbox_env env \<longleftrightarrow> (\<forall>n. keeps_inbox (wh_commits env n)) \<and> (\<forall>n entry value. keeps_inbox (\<lambda>s. snd (wh_template_update env n entry value s))) \<and>
     (\<forall>n wa ctx. keeps_inbox (\<lambda>s. case wh_side_effects env n wa ctx s of Inl _ \<Rightarrow> s | Inr (_, s') \<Rightarrow> s'))"

definition later_inbox :: "db \<Rightarrow> db \<Rightarrow> bool" where
  "later_inbox s s' \<longleftrightarrow> whatsapp_accounts s' = whatsapp_accounts s \<and> set (external_ids s) \<subseteq> set (external_ids s') \<and>
     (distinct (external_ids s) \<longrightarrow> distinct (external_ids s'))"

lemma later_refl [simp]: "later_inbox s s"
  by (simp add: later_inbox_def)

lemma later_trans [trans]: "later_inbox s t \<Longrightarrow> later_inbox t u \<Longrightarrow> later_inbox s u"
  by (auto simp: later_inbox_def)

lemma later_keeps: "keeps_inbox f \<Longrightarrow> later_inbox s (f s)"
  by (simp add: keeps_inbox_def later_inbox_def)

lemma later_frame: "messages s' = messages s \<Longrightarrow> whatsapp_accounts s' = whatsapp_accounts s \<Longrightarrow> later_inbox s s'"
  by (simp add: later_inbox_def external_ids_def)

lemma assign_frame: "auto_assign_conversation c s = (m, s') \<Longrightarrow> messages s' = messages s \<and> whatsapp_accounts s' = whatsapp_accounts s \<and> webhook_events s' = webhook_events s"
  by (auto simp: auto_assign_conversation_def put_conversation_def put_rule_def Let_def split: option.splits list.splits if_splits)

lemma match_contact_frame:
  "match_contact i wa sender name s = Inr (c, s') \<Longrightarrow> messages s' = messages s \<and> whatsapp_accounts s' = whatsapp_accounts s \<and> webhook_events s' = webhook_events s"
  by (auto simp: match_contact_def insert_contact_def flush_contact_def put_contact_def Let_def split: option.splits if_splits)

lemma open_thread_frame:
  "open_thread ids wa k s = Inr (c, b, s') \<Longrightarrow> messages s' = messages s \<and> whatsapp_accounts s' = whatsapp_accounts s \<and> webhook_events s' = webhook_events s"
  by (auto simp: open_thread_def insert_conversation_def create_notification_def Let_def dest!: assign_frame
      split: option.splits if_splits prod.splits sum.splits)

lemma contact_and_conversation_frame:
  "get_or_create_contact_and_conversation ids wa sender name s = Inr (k, c, b, s') \<Longrightarrow>
    messages s' = messages s \<and> whatsapp_accounts s' = whatsapp_accounts s \<and> webhook_events s' = webhook_events s"
  by (auto simp: get_or_create_contact_and_conversation_def Let_def dest!: match_contact_frame open_thread_frame
      split: sum.splits prod.splits if_splits)

lemma record_mac_frame: "messages (snd (record_mac now i j p t s)) = messages s"
  "whatsapp_accounts (snd (record_mac now i j p t s)) = whatsapp_accounts s"
  "webhook_events (snd (record_mac now i j p t s)) = webhook_events s"
  by (auto simp: record_mac_def record_activity_def Let_def split: prod.splits option.splits if_splits activity_arg.splits)

lemma store_inbound_effect:
  assumes "store_inbound env n wa item value s = Inr (ctx, s')"
  obtains m :: message where "messages s' = messages s @ [m]" "msg_external_message_id m = text_value (jget item ''id'')"
    "whatsapp_accounts s' = whatsapp_accounts s" "webhook_events s' = webhook_events s"
    "\<forall>e. msg_external_message_id m = Some e \<longrightarrow> e \<notin> set (external_ids s)"
proof -
  obtain k c b s1 where s1: "get_or_create_contact_and_conversation (wh_ids env n) wa
      (case text_value (jget item ''from'') of None \<Rightarrow> [] | Some t \<Rightarrow> t) (sender_name value) s = Inr (k, c, b, s1)"
    using assms by (auto simp: store_inbound_def Let_def split: sum.splits prod.splits)
  note frame = contact_and_conversation_frame [OF s1]
  obtain ty body payload where content: "inbound_content env n wa item = Inr (ty, body, payload)"
    using assms s1 by (auto simp: store_inbound_def Let_def split: sum.splits)
  define m where "m = \<lparr>msg_id = ii_message (wh_ids env n), msg_account_id = wa_account_id wa, msg_organization_id = wa_organization_id wa,
    msg_channel_id = wa_channel_id wa, msg_contact_id = Some (con_id k), msg_conversation_id = Some (conv_id c),
    msg_external_message_id = text_value (jget item ''id''), msg_direction = INBOUND, msg_type = ty,
    msg_from_address = (case text_value (jget item ''from'') of None \<Rightarrow> [] | Some t \<Rightarrow> t),
    msg_to_address = wa_display_phone_number wa, msg_text_body = body, msg_provider_payload = Some payload,
    msg_status = MsgReceived, msg_created_at = wh_clock env n\<rparr>"
  note step = assms [unfolded store_inbound_def Let_def s1 sum.case prod.case content, folded m_def]
  obtain s2 where s2: "insert_message m s1 = Inr s2" using step by (cases "insert_message m s1") simp_all
  obtain i j p tr where s': "s' = snd (record_mac (wh_civil env n) i j p tr (put_conversation (c\<lparr>conv_last_message_at := Some (wh_clock env n)\<rparr>) s2))"
    using step s2 by (auto split: sum.splits prod.splits) (metis snd_conv)
  have m: "messages s2 = messages s @ [m]" "whatsapp_accounts s2 = whatsapp_accounts s \<and> webhook_events s2 = webhook_events s"
    "\<forall>e. msg_external_message_id m = Some e \<longrightarrow> e \<notin> set (external_ids s)"
    using s2 frame by (auto simp: insert_message_def external_ids_def set_map_filter split: if_splits)
  show thesis
  proof (rule that)
    show "messages s' = messages s @ [m]" "whatsapp_accounts s' = whatsapp_accounts s" "webhook_events s' = webhook_events s"
      using m by (simp_all add: s' record_mac_frame put_conversation_def)
    show "msg_external_message_id m = text_value (jget item ''id'')" by (simp add: m_def)
  qed (rule m(3))
qed

lemma store_inbound_later:
  assumes "store_inbound env n wa item value s = Inr (ctx, s')"
  shows "later_inbox s s'" "webhook_events s' = webhook_events s" "text_value (jget item ''id'') = Some e \<Longrightarrow> e \<in> set (external_ids s')"
proof -
  obtain m :: message where m: "messages s' = messages s @ [m]" "msg_external_message_id m = text_value (jget item ''id'')"
    "whatsapp_accounts s' = whatsapp_accounts s" "webhook_events s' = webhook_events s"
    "\<forall>e. msg_external_message_id m = Some e \<longrightarrow> e \<notin> set (external_ids s)"
    by (rule store_inbound_effect [OF assms])
  have ids: "external_ids s' = external_ids s @ (case msg_external_message_id m of None \<Rightarrow> [] | Some e \<Rightarrow> [e])"
    by (simp add: external_ids_def m(1) map_filter_append List.map_filter_def split: option.splits)
  then show "later_inbox s s'" using m(3,5) by (auto simp: later_inbox_def ids split: option.splits)
  show "webhook_events s' = webhook_events s" by (rule m(4))
  show "text_value (jget item ''id'') = Some e \<Longrightarrow> e \<in> set (external_ids s')" using m(2) by (simp add: ids)
qed

lemma duplicate_stored: "find_duplicate_inbound s (Some e) \<Longrightarrow> e \<in> set (external_ids s)"
  by (auto simp: find_duplicate_inbound_def external_ids_def set_map_filter)

lemma persist_later:
  assumes "inbox_env env" "persist_inbound_message env n wa item value s = (res, s')"
  shows "later_inbox s s'" "returns res \<Longrightarrow> text_value (jget item ''id'') = Some e \<Longrightarrow> e \<in> set (external_ids s')"
proof -
  let ?e = "text_value (jget item ''id'')"
  let ?s0 = "wh_commits env n s"
  let ?t0 = "wh_commits env (Suc n) ?s0"
  have c: "later_inbox s ?s0" "later_inbox ?s0 ?t0" using assms(1) by (auto simp: inbox_env_def intro: later_keeps)
  have "later_inbox s s' \<and> (returns res \<longrightarrow> (\<forall>e. ?e = Some e \<longrightarrow> e \<in> set (external_ids s')))"
  proof (cases "find_duplicate_inbound s ?e")
    case True
    then show ?thesis using assms(2) duplicate_stored by (auto simp: persist_inbound_message_def Let_def)
  next
    case False
    show ?thesis
    proof (cases "store_inbound env n wa item value ?s0")
      case (Inr x)
      then have "s' = snd x" using assms(2) False by (cases x) (auto simp: persist_inbound_message_def Let_def)
      then show ?thesis using store_inbound_later [of env n wa item "value" ?s0 "fst x" "snd x"] Inr later_trans [OF c(1)] by simp
    next
      case (Inl err)
      show ?thesis
      proof (cases "err \<noteq> integrity_error \<or> find_duplicate_inbound ?s0 ?e")
        case True
        then show ?thesis using assms(2) False Inl c(1) duplicate_stored
          by (auto simp: persist_inbound_message_def Let_def returns_def split: if_splits)
      next
        case second: False
        show ?thesis
        proof (cases "store_inbound env (Suc n) wa item value ?t0")
          case (Inr x)
          then have "s' = snd x"
            using assms(2) False Inl second by (cases x) (auto simp: persist_inbound_message_def Let_def)
          then show ?thesis
            using store_inbound_later [of env "Suc n" wa item "value" ?t0 "fst x" "snd x"] Inr later_trans [OF later_trans [OF c]] by simp
        next
          case third: (Inl err')
          then show ?thesis using assms(2) False Inl second later_trans [OF c] duplicate_stored
            by (auto simp: persist_inbound_message_def Let_def returns_def split: if_splits)
        qed
      qed
    qed
  qed
  then show "later_inbox s s'" "returns res \<Longrightarrow> text_value (jget item ''id'') = Some e \<Longrightarrow> e \<in> set (external_ids s')" by auto
qed


text \<open>Steps of the processing keep the inbox and the errors; when no error was collected, what a step should store is stored.\<close>

lemma fold_stores:
  assumes step: "\<And>x st. x \<in> set xs \<Longrightarrow> later_inbox s0 (ws_db st) \<Longrightarrow> later_inbox (ws_db st) (ws_db (f x st)) \<and>
      (ws_errors st \<noteq> [] \<longrightarrow> ws_errors (f x st) \<noteq> []) \<and> (ws_errors (f x st) = [] \<longrightarrow> P x \<subseteq> set (external_ids (ws_db (f x st))))"
    and "later_inbox s0 (ws_db st)"
  shows "later_inbox (ws_db st) (ws_db (fold f xs st)) \<and> (ws_errors st \<noteq> [] \<longrightarrow> ws_errors (fold f xs st) \<noteq> []) \<and>
    (ws_errors (fold f xs st) = [] \<longrightarrow> (\<forall>x \<in> set xs. P x \<subseteq> set (external_ids (ws_db (fold f xs st)))))"
  using assms
proof (induction xs arbitrary: st)
  case (Cons x xs)
  have x: "later_inbox (ws_db st) (ws_db (f x st))" "ws_errors st \<noteq> [] \<longrightarrow> ws_errors (f x st) \<noteq> []"
    "ws_errors (f x st) = [] \<longrightarrow> P x \<subseteq> set (external_ids (ws_db (f x st)))"
    using Cons.prems(1) [of x st] Cons.prems(2) by simp_all
  have rest: "later_inbox (ws_db (f x st)) (ws_db (fold f xs (f x st)))"
    "ws_errors (f x st) \<noteq> [] \<longrightarrow> ws_errors (fold f xs (f x st)) \<noteq> []"
    "ws_errors (fold f xs (f x st)) = [] \<longrightarrow> (\<forall>y \<in> set xs. P y \<subseteq> set (external_ids (ws_db (fold f xs (f x st)))))"
    using Cons.IH [of "f x st"] Cons.prems(1) later_trans [OF Cons.prems(2) x(1)] by simp_all
  have sub: "set (external_ids (ws_db (f x st))) \<subseteq> set (external_ids (ws_db (fold f xs (f x st))))"
    using rest(1) by (simp add: later_inbox_def)
  show ?case using x rest later_trans [OF x(1) rest(1)] sub by auto
qed simp

definition item_ids :: "json \<Rightarrow> string set" where
  "item_ids item = (case text_value (jget item ''id'') of None \<Rightarrow> {} | Some e \<Rightarrow> {e})"

lemma message_item_step:
  assumes "inbox_env env"
  shows "later_inbox (ws_db st) (ws_db (process_message_item env wa value item st)) \<and>
    (ws_errors st \<noteq> [] \<longrightarrow> ws_errors (process_message_item env wa value item st) \<noteq> []) \<and>
    (ws_errors (process_message_item env wa value item st) = [] \<longrightarrow>
       item_ids item \<subseteq> set (external_ids (ws_db (process_message_item env wa value item st))))"
proof -
  obtain res s1 where p: "persist_inbound_message env (ws_tick st) wa item value (ws_db st) = (res, s1)" by force
  note stored = persist_later [OF assms p]
  show ?thesis
  proof (cases res)
    case (Inl e)
    then show ?thesis using p stored(1) by (simp add: process_message_item_def Let_def)
  next
    case (Inr r)
    then have ids: "item_ids item \<subseteq> set (external_ids s1)" using stored(2) by (auto simp: item_ids_def returns_def split: option.splits)
    show ?thesis
    proof (cases r)
      case None
      then show ?thesis using p Inr stored(1) ids by (simp add: process_message_item_def Let_def)
    next
      case (Some ctx)
      have "keeps_inbox (\<lambda>s. case wh_side_effects env (ws_tick st) wa ctx s of Inl _ \<Rightarrow> s | Inr (_, s') \<Rightarrow> s')"
        using assms by (simp add: inbox_env_def)
      from later_keeps [OF this, of s1]
      have k: "later_inbox s1 (case wh_side_effects env (ws_tick st) wa ctx s1 of Inl _ \<Rightarrow> s1 | Inr (_, s') \<Rightarrow> s')" .
      have db: "ws_db (process_message_item env wa value item st) =
          (case wh_side_effects env (ws_tick st) wa ctx s1 of Inl _ \<Rightarrow> s1 | Inr (_, s') \<Rightarrow> s')"
        "ws_errors (process_message_item env wa value item st) = ws_errors st"
        using p Inr Some by (auto simp: process_message_item_def Let_def split: sum.split)
      show ?thesis unfolding db using later_trans [OF stored(1) k] k ids by (auto simp: later_inbox_def)
    qed
  qed
qed

lemma external_ids_update:
  "(\<And>x. msg_external_message_id (f x) = msg_external_message_id x) \<Longrightarrow>
    external_ids (s\<lparr>messages := tbl_update p f (messages s)\<rparr>) = external_ids s"
  by (simp add: external_ids_def tbl_update_def external_ids_map [of "map (\<lambda>x. if p x then f x else x) (messages s)" "messages s"])

lemma message_status_ids:
  "external_ids (apply_message_status now item m s) = external_ids s"
  "whatsapp_accounts (apply_message_status now item m s) = whatsapp_accounts s"
proof -
  have "external_ids (put_conversation c t) = external_ids t" for c t by (simp add: external_ids_def)
  then show "external_ids (apply_message_status now item m s) = external_ids s"
    by (simp add: apply_message_status_def Let_def external_ids_update split: option.split)
  show "whatsapp_accounts (apply_message_status now item m s) = whatsapp_accounts s"
    by (simp add: apply_message_status_def put_conversation_def Let_def split: option.split)
qed

lemma recipient_status_frame:
  "messages (apply_recipient_status now item r s) = messages s"
  "whatsapp_accounts (apply_recipient_status now item r s) = whatsapp_accounts s"
  by (simp_all add: apply_recipient_status_def put_recipient_def put_contact_def Let_def split: option.split)

lemma status_item_step:
  "later_inbox (ws_db st) (ws_db (process_status_item env item st))" "ws_errors (process_status_item env item st) = ws_errors st"
proof -
  have r: "external_ids (apply_recipient_status now i q t) = external_ids t" for now i q t
    by (simp add: external_ids_def recipient_status_frame)
  have "external_ids (ws_db (process_status_item env item st)) = external_ids (ws_db st) \<and>
      whatsapp_accounts (ws_db (process_status_item env item st)) = whatsapp_accounts (ws_db st)"
    by (simp add: process_status_item_def Let_def message_status_ids r recipient_status_frame split: option.split)
  then show "later_inbox (ws_db st) (ws_db (process_status_item env item st))" by (simp add: later_inbox_def)
  show "ws_errors (process_status_item env item st) = ws_errors st"
    by (simp add: process_status_item_def Let_def split: option.split)
qed

lemma on_ws_step: "(\<And>s. messages (f s) = messages s) \<Longrightarrow> (\<And>s. whatsapp_accounts (f s) = whatsapp_accounts s) \<Longrightarrow>
    later_inbox (ws_db st) (ws_db (on_ws f st)) \<and> ws_errors (on_ws f st) = ws_errors st"
  by (simp add: on_ws_def later_frame)

lemma event_steps:
  "later_inbox (ws_db st) (ws_db (on_ws (add_webhook_event i wa t p b) st)) \<and> ws_errors (on_ws (add_webhook_event i wa t p b) st) = ws_errors st"
  "later_inbox (ws_db st) (ws_db (on_ws (set_event_status i v d) st)) \<and> ws_errors (on_ws (set_event_status i v d) st) = ws_errors st"
  "later_inbox (ws_db st) (ws_db (on_ws (add_outbox_event n i a x y z j) st)) \<and> ws_errors (on_ws (add_outbox_event n i a x y z j) st) = ws_errors st"
  by (rule on_ws_step; simp add: add_webhook_event_def set_event_status_def add_outbox_event_def)+

text \<open>The messages of a change that a connected number must store.\<close>

definition inbound_items :: "db \<Rightarrow> json \<Rightarrow> json list" where
  "inbound_items s change =
     (let value = JObj (dict_of (jget change ''value'')) in
      case account_of_value s value of
        Some wa \<Rightarrow> if wa_status wa = WaActive \<and> extract_event_type value = ''message''
            \<and> jget change ''field'' \<noteq> Some (JStr ''message_template_status_update'')
          then items_of (jget value ''messages'') else []
      | None \<Rightarrow> [])"

definition change_ids :: "db \<Rightarrow> json \<Rightarrow> string set" where
  "change_ids s change = (\<Union>item \<in> set (inbound_items s change). item_ids item)"

lemma account_later: "later_inbox s s' \<Longrightarrow> account_of_value s' v = account_of_value s v"
  by (simp add: account_of_value_def later_inbox_def Let_def)

definition step_ok :: "webhook_state \<Rightarrow> webhook_state \<Rightarrow> bool" where
  "step_ok st st' \<longleftrightarrow> later_inbox (ws_db st) (ws_db st') \<and> (ws_errors st \<noteq> [] \<longrightarrow> ws_errors st' \<noteq> [])"

lemma step_ok_trans [trans]: "step_ok a b \<Longrightarrow> step_ok b c \<Longrightarrow> step_ok a c"
  by (auto simp: step_ok_def intro: later_trans)

lemma step_ok_refl [simp]: "step_ok a a"
  by (simp add: step_ok_def)

lemma event_ok [simp]:
  "step_ok st (on_ws (add_webhook_event i wa t p b) st)" "step_ok st (on_ws (set_event_status i v d) st)"
  "step_ok st (on_ws (add_outbox_event n i a x y z j) st)"
  by (simp_all add: step_ok_def event_steps)

lemma messages_ok:
  assumes "inbox_env env"
  shows "step_ok st (fold (process_message_item env wa v) items st)"
    "ws_errors (fold (process_message_item env wa v) items st) = [] \<Longrightarrow>
      (\<Union>item \<in> set items. item_ids item) \<subseteq> set (external_ids (ws_db (fold (process_message_item env wa v) items st)))"
proof -
  have "later_inbox (ws_db st) (ws_db (fold (process_message_item env wa v) items st)) \<and>
    (ws_errors st \<noteq> [] \<longrightarrow> ws_errors (fold (process_message_item env wa v) items st) \<noteq> []) \<and>
    (ws_errors (fold (process_message_item env wa v) items st) = [] \<longrightarrow>
      (\<forall>x \<in> set items. item_ids x \<subseteq> set (external_ids (ws_db (fold (process_message_item env wa v) items st)))))"
    by (rule fold_stores [where ?s0.0 = "ws_db st"]) (rule message_item_step [OF assms], rule later_refl)
  then show "step_ok st (fold (process_message_item env wa v) items st)"
    "ws_errors (fold (process_message_item env wa v) items st) = [] \<Longrightarrow>
      (\<Union>item \<in> set items. item_ids item) \<subseteq> set (external_ids (ws_db (fold (process_message_item env wa v) items st)))"
    by (auto simp: step_ok_def)
qed

lemma statuses_ok: "step_ok st (fold (process_status_item env) items st)"
proof (induction items arbitrary: st)
  case (Cons x xs)
  have "step_ok st (process_status_item env x st)" using status_item_step [where st = st and env = env and item = x] by (simp add: step_ok_def)
  then show ?case using step_ok_trans Cons.IH by fastforce
qed simp

lemma process_change_ok:
  assumes "inbox_env env"
  shows "step_ok st (process_change env entry change st)"
    "ws_errors (process_change env entry change st) = [] \<Longrightarrow>
      change_ids (ws_db st) change \<subseteq> set (external_ids (ws_db (process_change env entry change st)))"
proof -
  define value' where "value' = JObj (dict_of (jget change ''value''))"
  define r where "r = process_change env entry change st"
  note r = r_def [unfolded process_change_def Let_def, folded value'_def]
  have ids: "change_ids (ws_db st) change = (case account_of_value (ws_db st) value' of
      Some wa \<Rightarrow> if wa_status wa = WaActive \<and> extract_event_type value' = ''message''
            \<and> jget change ''field'' \<noteq> Some (JStr ''message_template_status_update'')
          then \<Union>item \<in> set (items_of (jget value' ''messages'')). item_ids item else {} | None \<Rightarrow> {})"
    by (auto simp: change_ids_def inbound_items_def Let_def value'_def split: option.splits)
  have "step_ok st r \<and> (ws_errors r = [] \<longrightarrow> change_ids (ws_db st) change \<subseteq> set (external_ids (ws_db r)))"
  proof (cases "jget change ''field'' = Some (JStr ''message_template_status_update'')")
    case True
    obtain b t where t: "wh_template_update env (ws_tick st) entry value' (ws_db st) = (b, t)" by force
    have "keeps_inbox (\<lambda>s. snd (wh_template_update env (ws_tick st) entry value' s))" using assms by (simp add: inbox_env_def)
    from later_keeps [OF this, of "ws_db st"] have "later_inbox (ws_db st) t" by (simp add: t)
    then show ?thesis using True by (simp add: r ids t step_ok_def split: option.split)
  next
    case template: False
    define i where "i = wh_event_id env (ws_tick st)"
    define now where "now = wh_clock env (ws_tick st)"
    show ?thesis
    proof (cases "account_of_value (ws_db st) value'")
      case None
      then show ?thesis using template by (simp add: r ids)
    next
      case (Some wa)
      define st1 where "st1 = on_ws (add_webhook_event i (Some wa) (extract_event_type value')
        (JObj [(''entry'', entry), (''change'', change)]) (wa_status wa = WaActive)) st"
      define fm where "fm = fold (process_message_item env wa value') (items_of (jget value' ''messages'')) st1"
      define fs where "fs = fold (process_status_item env) (items_of (jget value' ''statuses'')) st1"
      define st2 where "st2 = (if wa_status wa = WaActive \<and> extract_event_type value' = ''message'' then
          on_ws (set_event_status i WhProcessed (Some now)) fm
        else if extract_event_type value' = ''message_status'' then on_ws (set_event_status i WhProcessed (Some now)) fs else st1)"
      have st1: "step_ok st st1" by (simp add: st1_def)
      have fm: "step_ok st1 fm" "ws_errors fm = [] \<Longrightarrow>
          (\<Union>item \<in> set (items_of (jget value' ''messages'')). item_ids item) \<subseteq> set (external_ids (ws_db fm))"
        unfolding fm_def by (rule messages_ok [OF assms], rule messages_ok(2) [OF assms])
      have fs: "step_ok st1 fs" unfolding fs_def by (rule statuses_ok)
      have same: "ws_errors (on_ws (set_event_status i v d) t) = ws_errors t"
        "external_ids (ws_db (on_ws (set_event_status i v d) t)) = external_ids (ws_db t)" for v d t
        by (simp_all add: on_ws_def set_event_status_def external_ids_def)
      have st2: "step_ok st1 st2"
        unfolding st2_def using step_ok_trans [OF fm(1) event_ok(2)] step_ok_trans [OF fs event_ok(2)] by simp
      have st2_ids: "change_ids (ws_db st) change \<subseteq> set (external_ids (ws_db st2))" if "ws_errors st2 = []"
        using fm(2) that template
        by (cases "wa_status wa = WaActive \<and> extract_event_type value' = ''message''") (auto simp: st2_def ids Some same)
      have last: "r = on_ws (add_outbox_event now (wh_outbox_id env (ws_tick st2)) (wa_account_id wa) (''whatsapp.'' @ extract_event_type value')
          ''webhook_event'' (uuid_str i) (JObj [(''webhook_event_id'', JStr (uuid_str i)), (''processed_count'', JInt (ws_processed st2))])) st2"
        unfolding r st2_def fm_def fs_def st1_def i_def now_def by (simp add: template Some)
      have "step_ok st2 r" unfolding last by simp
      moreover have "ws_errors r = ws_errors st2" "external_ids (ws_db r) = external_ids (ws_db st2)"
        unfolding last by (simp_all add: on_ws_def add_outbox_event_def external_ids_def)
      ultimately show ?thesis using st1 st2 st2_ids step_ok_trans by metis
    qed
  qed
  then show "step_ok st (process_change env entry change st)"
    "ws_errors (process_change env entry change st) = [] \<Longrightarrow>
      change_ids (ws_db st) change \<subseteq> set (external_ids (ws_db (process_change env entry change st)))"
    by (auto simp: r_def)
qed

lemma later_change_ids: "later_inbox s s' \<Longrightarrow> change_ids s' change = change_ids s change"
  by (simp add: change_ids_def inbound_items_def account_later Let_def)

lemma webhook_later:
  assumes "inbox_env env"
  shows "later_inbox s (snd (store_and_process_webhook env payload s))"
    "returns (fst (store_and_process_webhook env payload s)) \<Longrightarrow>
      (\<Union>(entry, change) \<in> set (changes_of payload). change_ids s change) \<subseteq> set (external_ids (snd (store_and_process_webhook env payload s)))"
proof -
  define st where "st = \<lparr>ws_db = s, ws_tick = 0, ws_processed = 0, ws_run_ids = [], ws_errors = []\<rparr>"
  define st' where "st' = fold (\<lambda>(entry, change). process_change env entry change) (changes_of payload) st"
  have st': "snd (store_and_process_webhook env payload s) = ws_db st'"
    "returns (fst (store_and_process_webhook env payload s)) \<longleftrightarrow> ws_errors st' = []"
    by (simp_all add: store_and_process_webhook_def Let_def st'_def st_def)
  have "later_inbox (ws_db st) (ws_db st') \<and> (ws_errors st \<noteq> [] \<longrightarrow> ws_errors st' \<noteq> []) \<and>
    (ws_errors st' = [] \<longrightarrow> (\<forall>x \<in> set (changes_of payload). change_ids s (snd x) \<subseteq> set (external_ids (ws_db st'))))"
    unfolding st'_def
  proof (rule fold_stores [where ?s0.0 = s])
    fix x and t :: webhook_state
    assume later: "later_inbox s (ws_db t)"
    show "later_inbox (ws_db t) (ws_db ((\<lambda>(entry, change). process_change env entry change) x t)) \<and>
      (ws_errors t \<noteq> [] \<longrightarrow> ws_errors ((\<lambda>(entry, change). process_change env entry change) x t) \<noteq> []) \<and>
      (ws_errors ((\<lambda>(entry, change). process_change env entry change) x t) = [] \<longrightarrow>
        change_ids s (snd x) \<subseteq> set (external_ids (ws_db ((\<lambda>(entry, change). process_change env entry change) x t))))"
      using process_change_ok [OF assms(1), where st = t and entry = "fst x" and change = "snd x"]
      by (auto simp: step_ok_def case_prod_unfold later_change_ids [OF later])
  qed (simp add: st_def)
  then show "later_inbox s (snd (store_and_process_webhook env payload s))"
    "returns (fst (store_and_process_webhook env payload s)) \<Longrightarrow>
      (\<Union>(entry, change) \<in> set (changes_of payload). change_ids s change) \<subseteq> set (external_ids (snd (store_and_process_webhook env payload s)))"
    using st' by (simp add: st_def, fastforce)
qed

text \<open>C21. When the processing of a webhook returns, every message that the payload carries for a connected, active number is stored;
  no message is lost and none is stored twice, whatever earlier deliveries of the same payload have stored already.\<close>

theorem webhook_stores_messages:
  assumes "inbox_env env" "distinct (external_ids s)"
    and "store_and_process_webhook env payload s = (Inr r, s')"
  shows "distinct (external_ids s') \<and>
    set (external_ids s) \<union> (\<Union>(entry, change) \<in> set (changes_of payload). change_ids s change) \<subseteq> set (external_ids s')"
  using webhook_later [OF assms(1), where s = s and payload = payload] assms(2,3) by (simp add: later_inbox_def)

end
