(* ===== verification/WebhookIngress.thy ===== *)
theory WebhookIngress
  imports WebhookFacts
begin

text \<open>
  Durable ingress of webhooks: \<open>services/webhook_ingress.py\<close>, \<open>workers/webhook_tasks.py\<close> and the retry job of
  \<open>workers/reliability_tasks.py\<close>.  A payload is stored before it is answered; a task processes it, up to five times with
  delays, and then sets it aside as a dead letter, which a periodic job looks for again.

  The digest of a payload is a parameter.  So is \<open>ig_tracked\<close>: whether assigning the stored dictionary back, after it was changed in
  place, counts as a change of the column for the ORM (for a plain \<open>JSONB\<close> column it does not).
\<close>

section \<open>Stored payloads\<close>

definition MAX_WEBHOOK_ATTEMPTS :: int where
  "MAX_WEBHOOK_ATTEMPTS = 5"

definition ingress_meta :: "json \<Rightarrow> (string \<times> json) list" where
  "ingress_meta payload = (case jget payload ''_ingress'' of Some (JObj kvs) \<Rightarrow> kvs
     | _ \<Rightarrow> [(''attempts'', JInt 0), (''max_attempts'', JInt MAX_WEBHOOK_ATTEMPTS)])"

definition external_event_key :: "(json \<Rightarrow> string) \<Rightarrow> json \<Rightarrow> string option" where
  "external_event_key digest payload =
     (case items_of (jget payload ''entry'') of
        [] \<Rightarrow> None
      | e # _ \<Rightarrow>
          (let entry = JObj (dict_of (Some e));
               field = (case items_of (jget entry ''changes'') of c # _ \<Rightarrow> jget (JObj (dict_of (Some c))) ''field'' | [] \<Rightarrow> None)
           in if \<not> j_truthy (jget entry ''id'') then None
              else Some (''meta_whatsapp:'' @ str_of (jget entry ''id'') @ '':'' @ str_or ''batch'' field @ '':'' @ digest payload)))"

definition same_event :: "string \<Rightarrow> webhook_event \<Rightarrow> bool" where
  "same_event key e \<longleftrightarrow> we_provider e = ''meta_whatsapp'' \<and> we_external_event_key e = Some key \<and> we_status e \<in> {WhReceived, WhProcessed}"

definition persist_whatsapp_webhook :: "(json \<Rightarrow> string) \<Rightarrow> uuid \<Rightarrow> json \<Rightarrow> db \<Rightarrow> uuid outcome \<times> db" where
  "persist_whatsapp_webhook digest new_id payload s =
     (let external_key = external_event_key digest payload;
          add = (Inr new_id, s\<lparr>webhook_events := webhook_events s @ [\<lparr>we_id = new_id, we_provider = ''meta_whatsapp'',
            we_external_event_key = external_key, we_account_id = None, we_channel_id = None, we_event_type = ''whatsapp_webhook_batch'',
            we_payload = JObj [(''body'', payload), (''_ingress'', JObj (ingress_meta payload))], we_status = WhReceived,
            we_error_message = None, we_processed_at = None\<rparr>]\<rparr>) in
      case external_key of
        None \<Rightarrow> add
      | Some key \<Rightarrow> if key = [] then add else
          (case filter (same_event key) (webhook_events s) of
             [] \<Rightarrow> add
           | [e] \<Rightarrow> (Inr (we_id e), s)
           | _ \<Rightarrow> (Inl (OtherError ''MultipleResultsFound''), s)))"

definition get_webhook_event :: "db \<Rightarrow> uuid \<Rightarrow> webhook_event option" where
  "get_webhook_event s i = tbl_get we_id (webhook_events s) i"

definition put_webhook_event :: "webhook_event \<Rightarrow> db \<Rightarrow> db" where
  "put_webhook_event e s = s\<lparr>webhook_events := tbl_put we_id e (webhook_events s)\<rparr>"

interpretation webhook_event_rows: row_store get_webhook_event put_webhook_event we_id
  by unfold_locales (auto simp: get_webhook_event_def put_webhook_event_def table_simps dest: tbl_get_key)

definition webhook_body :: "webhook_event \<Rightarrow> json" where
  "webhook_body e = (let stored = JObj (dict_of (Some (we_payload e))) in
     case jget stored ''body'' of Some (JObj kvs) \<Rightarrow> JObj kvs | _ \<Rightarrow> stored)"

definition load_whatsapp_webhook_payload :: "uuid \<Rightarrow> db \<Rightarrow> (webhook_event \<times> json) outcome" where
  "load_whatsapp_webhook_payload i s = (case get_webhook_event s i of
     None \<Rightarrow> Inl (ValueError ''WEBHOOK_EVENT_NOT_FOUND'') | Some e \<Rightarrow> Inr (e, webhook_body e))"

definition mark_webhook_processed :: "datetime \<Rightarrow> uuid \<Rightarrow> db \<Rightarrow> db" where
  "mark_webhook_processed now i s = s\<lparr>webhook_events := tbl_update (\<lambda>e. we_id e = i)
     (\<lambda>e. e\<lparr>we_status := WhProcessed, we_processed_at := Some now, we_error_message := None\<rparr>) (webhook_events s)\<rparr>"

text \<open>\<open>int(d.get(k, n))\<close>\<close>

definition int_with_default :: "int \<Rightarrow> json option \<Rightarrow> int outcome" where
  "int_with_default n v = (case v of
       None \<Rightarrow> Inr n
     | Some (JInt i) \<Rightarrow> Inr i
     | Some (JBool b) \<Rightarrow> Inr (if b then 1 else 0)
     | Some (JStr t) \<Rightarrow> (case parse_int t of Some i \<Rightarrow> Inr i | None \<Rightarrow> Inl (ValueError ''invalid literal for int() with base 10''))
     | _ \<Rightarrow> Inl (OtherError ''TypeError''))"

definition mark_webhook_failed :: "bool \<Rightarrow> (datetime \<Rightarrow> string) \<Rightarrow> datetime \<Rightarrow> string \<Rightarrow> bool \<Rightarrow> webhook_event \<Rightarrow> db \<Rightarrow> unit outcome \<times> db" where
  "mark_webhook_failed tracked isoformat now error dead_letter e s =
     (let stored = dict_of (Some (we_payload e)); ingress = ingress_meta (JObj stored) in
      case int_with_default 0 (map_of ingress ''attempts'') of
        Inl x \<Rightarrow> (Inl x, s)
      | Inr attempts \<Rightarrow>
          (let ingress = dict_set ''last_failed_at'' (JStr (isoformat now)) (dict_set ''attempts'' (JInt (attempts + 1)) ingress);
               payload = (if tracked \<or> \<not> is_dict (Some (we_payload e)) then JObj (dict_set ''_ingress'' (JObj ingress) stored) else we_payload e)
           in (Inr (), put_webhook_event (e\<lparr>we_payload := payload, we_error_message := Some (take 4000 error),
                we_status := (if dead_letter then WhFailed else WhReceived),
                we_processed_at := (if dead_letter then Some now else we_processed_at e)\<rparr>) s)))"

section \<open>The task\<close>

text \<open>Every run of the task has an environment for the processing; other transactions commit between the runs.\<close>

record ingress_env =
  ig_run :: "nat \<Rightarrow> webhook_env"
  ig_between :: "nat \<Rightarrow> db \<Rightarrow> db"
  ig_clock :: "nat \<Rightarrow> datetime"
  ig_tracked :: bool
  ig_iso :: "datetime \<Rightarrow> string"

definition process_stored :: "ingress_env \<Rightarrow> uuid \<Rightarrow> nat \<Rightarrow> db \<Rightarrow> (int \<times> string list) outcome \<times> db" where
  "process_stored ev i n s =
     (case load_whatsapp_webhook_payload i s of
        Inl e \<Rightarrow> (Inl e, s)
      | Inr (_, payload) \<Rightarrow>
          (case store_and_process_webhook (ig_run ev n) payload s of
             (Inl e, s1) \<Rightarrow> (Inl e, s1)
           | (Inr r, s1) \<Rightarrow> (Inr r, mark_webhook_processed (ig_clock ev n) i s1)))"

definition mark_failed :: "ingress_env \<Rightarrow> uuid \<Rightarrow> nat \<Rightarrow> string \<Rightarrow> int \<Rightarrow> bool \<Rightarrow> db \<Rightarrow> unit outcome \<times> db" where
  "mark_failed ev i n error attempts dead_letter s =
     (case load_whatsapp_webhook_payload i s of
        Inl e \<Rightarrow> (Inl e, s)
      | Inr (e, _) \<Rightarrow> mark_webhook_failed (ig_tracked ev) (ig_iso ev) (ig_clock ev n) (''attempt:'' @ int_str attempts @ '':'' @ error)
          (dead_letter \<or> attempts \<ge> MAX_WEBHOOK_ATTEMPTS) e s)"

text \<open>One run: \<open>n\<close> is \<open>request.retries\<close>; Celery allows \<open>MAX_WEBHOOK_ATTEMPTS - 1\<close> retries.\<close>

definition task_run :: "ingress_env \<Rightarrow> uuid \<Rightarrow> nat \<Rightarrow> db \<Rightarrow> (int \<times> string list) outcome \<times> db" where
  "task_run ev i n s =
     (case process_stored ev i n s of
        (Inr r, s1) \<Rightarrow> (Inr r, s1)
      | (Inl e, s1) \<Rightarrow>
          (let s2 = snd (mark_failed ev i n (error_text e) (int n + 1) False s1) in
           if int n \<ge> MAX_WEBHOOK_ATTEMPTS - 1 then
             (case mark_failed ev i n (error_text e) MAX_WEBHOOK_ATTEMPTS True s2 of
                (Inl x, s3) \<Rightarrow> (Inl x, s3)
              | (Inr _, s3) \<Rightarrow> (Inl (OtherError ''MaxRetriesExceededError''), s3))
           else (Inl e, s2)))"

fun task_runs :: "ingress_env \<Rightarrow> uuid \<Rightarrow> nat \<Rightarrow> nat \<Rightarrow> db \<Rightarrow> (int \<times> string list) outcome \<times> db" where
  "task_runs ev i 0 n s = task_run ev i n (ig_between ev n s)"
| "task_runs ev i (Suc k) n s =
     (case task_run ev i n (ig_between ev n s) of
        (Inr r, s1) \<Rightarrow> (Inr r, s1)
      | (Inl e, s1) \<Rightarrow> task_runs ev i k (Suc n) s1)"

definition process_whatsapp_webhook :: "ingress_env \<Rightarrow> uuid \<Rightarrow> db \<Rightarrow> (int \<times> string list) outcome \<times> db" where
  "process_whatsapp_webhook ev i s = task_runs ev i (nat (MAX_WEBHOOK_ATTEMPTS - 1)) 0 s"

section \<open>Looking for dead letters\<close>

definition retryable :: "webhook_event \<Rightarrow> bool outcome" where
  "retryable e = (let ingress = ingress_meta (JObj (dict_of (Some (we_payload e)))) in
     case (int_with_default 0 (map_of ingress ''attempts''), int_with_default MAX_WEBHOOK_ATTEMPTS (map_of ingress ''max_attempts'')) of
       (Inl x, _) \<Rightarrow> Inl x | (_, Inl x) \<Rightarrow> Inl x | (Inr attempts, Inr max_attempts) \<Rightarrow> Inr (\<not> attempts \<ge> max_attempts))"

fun collect_retryable :: "webhook_event list \<Rightarrow> webhook_event list outcome" where
  "collect_retryable [] = Inr []"
| "collect_retryable (e # es) = (case retryable e of Inl x \<Rightarrow> Inl x
     | Inr b \<Rightarrow> map_sum id (\<lambda>r. if b then e # r else r) (collect_retryable es))"

text \<open>\<open>by_update\<close> orders the rows by their last update.\<close>

definition list_retryable_webhook_events :: "(webhook_event list \<Rightarrow> webhook_event list) \<Rightarrow> nat \<Rightarrow> db \<Rightarrow> webhook_event list outcome" where
  "list_retryable_webhook_events by_update limit s = collect_retryable
     (take limit (by_update (filter (\<lambda>e. we_provider e = ''meta_whatsapp'' \<and> we_status e = WhFailed) (webhook_events s))))"

definition retry_failed_webhooks :: "(webhook_event list \<Rightarrow> webhook_event list) \<Rightarrow> db \<Rightarrow> uuid list outcome" where
  "retry_failed_webhooks by_update s = map_sum id (map we_id) (list_retryable_webhook_events by_update 25 s)"

end
