(* ===== verification/WebhookBehaviour.thy ===== *)
theory WebhookBehaviour
  imports WebhookFacts
begin

text \<open>
  The order in which Meta reports deliveries, and contacts that were deleted: the status of a message is the last one received,
  whatever it was before, and a contact that was deleted can not write again.
\<close>

section \<open>Delivery statuses\<close>

declare parse_message_status.simps [simp del] parse_recipient_status.simps [simp del]

text \<open>The statuses that a list of status items reports for an external id, in their order, as far as they parse.\<close>

definition reported :: "(json option \<Rightarrow> 'v option) \<Rightarrow> string \<Rightarrow> json list \<Rightarrow> 'v list" where
  "reported parse e items = List.map_filter (\<lambda>item. if text_value (jget item ''id'') = Some e then parse (jget item ''status'') else None) items"

lemma reported_Cons: "reported parse e (item # items) =
    (if text_value (jget item ''id'') = Some e then (case parse (jget item ''status'') of None \<Rightarrow> [] | Some v \<Rightarrow> [v]) else []) @ reported parse e items"
  by (simp add: reported_def List.map_filter_def split: option.splits)

lemma find_update_row:
  assumes "\<And>x. x \<in> set t \<Longrightarrow> key x = k \<Longrightarrow> ext (f x) = ext x"
  shows "find (\<lambda>x. ext x = e) (map (\<lambda>x. if key x = k then f x else x) t) =
    map_option (\<lambda>x. if key x = k then f x else x) (find (\<lambda>x. ext x = e) t)"
  using assms by (induction t) auto

lemma find_row: "find (\<lambda>x. ext x = e) t = Some m \<Longrightarrow> m \<in> set t \<and> ext m = e"
  by (auto simp: find_Some_iff)

lemma put_conversation_recipients [simp]: "recipients (put_conversation c s) = recipients s"
  by (simp add: put_conversation_def)

lemma message_status_messages:
  "messages (apply_message_status now item m s) = map (\<lambda>x. if msg_id x = msg_id m then x\<lparr>
     msg_status := (case parse_message_status (jget item ''status'') of None \<Rightarrow> msg_status m | Some v \<Rightarrow> v),
     msg_provider_payload := Some (JObj (dict_set ''delivery_status'' item (dict_of (msg_provider_payload m))))\<rparr> else x) (messages s)"
  "recipients (apply_message_status now item m s) = recipients s"
  by (simp_all add: apply_message_status_def Let_def tbl_update_def split: option.split)

lemma status_item_messages:
  assumes "distinct (map msg_id (messages (ws_db st)))" "find_by_external_id (ws_db st) e = Some m" "e \<noteq> []"
  shows "distinct (map msg_id (messages (ws_db (process_status_item env item st)))) \<and>
    (\<exists>m'. find_by_external_id (ws_db (process_status_item env item st)) e = Some m' \<and>
      msg_status m' = last (msg_status m # reported parse_message_status e [item]))"
proof -
  let ?s = "ws_db st"
  have keep: ?thesis if "messages (ws_db (process_status_item env item st)) = messages ?s" "text_value (jget item ''id'') \<noteq> Some e"
    using assms(1,2) that by (simp add: find_by_external_id_def reported_def List.map_filter_def)
  show ?thesis
  proof (cases "text_value (jget item ''id'')")
    case None
    then show ?thesis by (intro keep) (simp_all add: process_status_item_def)
  next
    case (Some x)
    show ?thesis
    proof (cases "x = [] \<or> find_by_external_id ?s x = None")
      case True
      with Some assms(2,3) have "x \<noteq> e" by auto
      then show ?thesis using Some True
        by (intro keep) (auto simp: process_status_item_def Let_def recipient_status_frame split: option.split)
    next
      case False
      then obtain y where y: "find_by_external_id ?s x = Some y" "x \<noteq> []" by auto
      define g where "g z = z\<lparr>msg_status := (case parse_message_status (jget item ''status'') of None \<Rightarrow> msg_status y | Some v \<Rightarrow> v),
        msg_provider_payload := Some (JObj (dict_set ''delivery_status'' item (dict_of (msg_provider_payload y))))\<rparr>" for z :: message
      have ms: "messages (ws_db (process_status_item env item st)) = map (\<lambda>z. if msg_id z = msg_id y then g z else z) (messages ?s)"
        using Some y by (simp add: process_status_item_def Let_def recipient_status_frame message_status_messages g_def split: option.split)
      have ids: "map msg_id (map (\<lambda>z. if msg_id z = msg_id y then g z else z) (messages ?s)) = map msg_id (messages ?s)"
        by (simp add: g_def)
      have f: "find_by_external_id (ws_db (process_status_item env item st)) e = Some (if msg_id m = msg_id y then g m else m)"
        using assms(2) unfolding find_by_external_id_def ms
        by (subst find_update_row) (simp_all add: g_def)
      have ym: "y \<in> set (messages ?s) \<and> msg_external_message_id y = Some x" "m \<in> set (messages ?s) \<and> msg_external_message_id m = Some e"
        using y(1) assms(2) unfolding find_by_external_id_def by (auto dest!: find_row)
      have same: "msg_id m = msg_id y \<longleftrightarrow> y = m" using ym assms(1) by (auto simp: distinct_map dest: inj_onD)
      have xe: "y = m \<longleftrightarrow> x = e" using ym y(1) assms(2) by auto
      have d: "distinct (map msg_id (messages (ws_db (process_status_item env item st))))" unfolding ms ids by (rule assms(1))
      have "msg_status (if msg_id m = msg_id y then g m else m) = last (msg_status m # reported parse_message_status e [item])"
      proof (cases "x = e")
        case True
        then have "y = m" by (simp add: xe)
        then show ?thesis
          using True Some by (cases "parse_message_status (jget item ''status'')") (simp_all only: g_def reported_def List.map_filter_def, simp_all)
      next
        case False
        then have "msg_id m \<noteq> msg_id y" by (simp add: same xe)
        then show ?thesis using False Some by (simp add: reported_def List.map_filter_def)
      qed
      then show ?thesis using d f by blast
    qed
  qed
qed

lemma recipient_status_row:
  "\<exists>r'. recipients (apply_recipient_status now item r s) = tbl_put rcp_id r' (recipients s) \<and> rcp_id r' = rcp_id r \<and>
    rcp_external_message_id r' = rcp_external_message_id r \<and>
    rcp_status r' = (case parse_recipient_status (jget item ''status'') of None \<Rightarrow> rcp_status r | Some v \<Rightarrow> v)"
proof -
  define r1 where "r1 = r\<lparr>rcp_status := (case parse_recipient_status (jget item ''status'') of None \<Rightarrow> rcp_status r | Some v \<Rightarrow> v)\<rparr>"
  define r2 where "r2 = (if text_value (jget item ''status'') = Some ''failed''
    then (case failure_detail item of None \<Rightarrow> r1 | d \<Rightarrow> r1\<lparr>rcp_error_message := d\<rparr>) else r1)"
  have "recipients (apply_recipient_status now item r s) = recipients (put_recipient r2 s)"
    unfolding apply_recipient_status_def Let_def r1_def [symmetric] r2_def [symmetric] by (auto simp: put_contact_def split: option.split)
  moreover have "rcp_id r2 = rcp_id r" "rcp_external_message_id r2 = rcp_external_message_id r" "rcp_status r2 = rcp_status r1"
    by (simp_all add: r2_def r1_def split: option.split)
  ultimately show ?thesis by (intro exI [of _ r2]) (simp add: put_recipient_def r1_def)
qed

lemma no_status:
  assumes "\<not> j_truthy v"
  shows "parse_recipient_status v = None"
proof -
  from assms have "text_value v = None \<or> text_value v = Some []"
    by (cases v) (auto simp: text_value_def split: json.splits)
  moreover have "find (\<lambda>r. recipient_status_value r = []) ALL_RECIPIENT_STATUSES = None" by (simp add: ALL_RECIPIENT_STATUSES_def)
  ultimately show ?thesis by (auto simp: parse_recipient_status.simps)
qed

definition recipient_of_external_id :: "db \<Rightarrow> string \<Rightarrow> campaign_recipient option" where
  "recipient_of_external_id s e = find (\<lambda>r. rcp_external_message_id r = Some e) (recipients s)"

lemma status_item_recipients:
  assumes "distinct (map rcp_id (recipients (ws_db st)))" "recipient_of_external_id (ws_db st) e = Some r" "e \<noteq> []"
  shows "distinct (map rcp_id (recipients (ws_db (process_status_item env item st)))) \<and>
    (\<exists>r'. recipient_of_external_id (ws_db (process_status_item env item st)) e = Some r' \<and>
      rcp_status r' = last (rcp_status r # reported parse_recipient_status e [item]))"
proof -
  let ?s = "ws_db st"
  have keep: ?thesis if "recipients (ws_db (process_status_item env item st)) = recipients ?s" "reported parse_recipient_status e [item] = []"
    using assms(1,2) that by (simp add: recipient_of_external_id_def)
  have unreported: "reported parse_recipient_status e [item] = []" if "text_value (jget item ''id'') \<noteq> Some e \<or> parse_recipient_status (jget item ''status'') = None"
    using that by (auto simp: reported_def List.map_filter_def)
  show ?thesis
  proof (cases "text_value (jget item ''id'')")
    case None
    then have "reported parse_recipient_status e [item] = []" by (intro unreported) simp
    with None show ?thesis by (intro keep) (simp_all add: process_status_item_def)
  next
    case (Some x)
    define s1 where "s1 = (case find_by_external_id ?s x of None \<Rightarrow> ?s | Some m \<Rightarrow> apply_message_status (wh_clock env (ws_tick st)) item m ?s)"
    have s1: "recipients s1 = recipients ?s" by (simp add: s1_def message_status_messages split: option.split)
    show ?thesis
    proof (cases "x = [] \<or> recipient_of_external_id ?s x = None \<or> \<not> j_truthy (jget item ''status'')")
      case True
      have "recipients (ws_db (process_status_item env item st)) = recipients ?s"
        using Some True s1
        by (auto simp: process_status_item_def Let_def s1_def recipient_of_external_id_def split: option.split)
      moreover have "x \<noteq> e \<or> parse_recipient_status (jget item ''status'') = None" using True assms(2,3) no_status by auto
      ultimately show ?thesis using Some by (intro keep unreported) auto
    next
      case False
      then obtain y where y: "recipient_of_external_id ?s x = Some y" by auto
      obtain g :: campaign_recipient where g: "recipients (apply_recipient_status (wh_clock env (ws_tick st)) item y s1) = tbl_put rcp_id g (recipients s1)"
        "rcp_id g = rcp_id y" "rcp_external_message_id g = rcp_external_message_id y"
        "rcp_status g = (case parse_recipient_status (jget item ''status'') of None \<Rightarrow> rcp_status y | Some v \<Rightarrow> v)"
        using recipient_status_row [of "wh_clock env (ws_tick st)" item y s1] by blast
      have rs: "recipients (ws_db (process_status_item env item st)) = map (\<lambda>z. if rcp_id z = rcp_id y then g else z) (recipients ?s)"
        using Some y False g(1,2) s1
        by (simp add: process_status_item_def Let_def s1_def [symmetric] recipient_of_external_id_def tbl_put_def)
      have ym: "y \<in> set (recipients ?s) \<and> rcp_external_message_id y = Some x" "r \<in> set (recipients ?s) \<and> rcp_external_message_id r = Some e"
        using y(1) assms(2) unfolding recipient_of_external_id_def by (auto dest!: find_row)
      have one: "z = y" if "z \<in> set (recipients ?s)" "rcp_id z = rcp_id y" for z
        using that ym assms(1) by (auto simp: distinct_map dest: inj_onD)
      have ids: "map rcp_id (map (\<lambda>z. if rcp_id z = rcp_id y then g else z) (recipients ?s)) = map rcp_id (recipients ?s)"
        using g(2) by simp
      have f: "recipient_of_external_id (ws_db (process_status_item env item st)) e = Some (if rcp_id r = rcp_id y then g else r)"
        using assms(2) unfolding recipient_of_external_id_def rs
        by (subst find_update_row) (use one g(3) in auto)
      have same: "rcp_id r = rcp_id y \<longleftrightarrow> x = e"
      proof
        assume "rcp_id r = rcp_id y"
        then have "r = y" using one ym by blast
        then show "x = e" using ym by simp
      qed (use y(1) assms(2) in simp)
      have "rcp_status (if rcp_id r = rcp_id y then g else r) = last (rcp_status r # reported parse_recipient_status e [item])"
      proof (cases "x = e")
        case True
        then have "y = r" using y(1) assms(2) by simp
        then show ?thesis using True Some g(4) same
          by (cases "parse_recipient_status (jget item ''status'')") (simp_all only: reported_def List.map_filter_def, simp_all)
      next
        case False
        then have "rcp_id r \<noteq> rcp_id y" by (simp add: same)
        then show ?thesis using False Some by (simp add: reported_def List.map_filter_def)
      qed
      moreover have "distinct (map rcp_id (recipients (ws_db (process_status_item env item st))))" unfolding rs ids by (rule assms(1))
      ultimately show ?thesis using f by blast
    qed
  qed
qed

lemma reported_join: "last (last (a # reported p e [item]) # reported p e items) = last (a # reported p e (item # items))"
  by (simp add: reported_def List.map_filter_def)

text \<open>The order of delivery reports decides: after a list of status items the status of a message, and that of a campaign recipient, is
  the last one reported for its external id, whatever was reported before; a \<open>sent\<close> that arrives after a \<open>read\<close> takes it back.\<close>

theorem last_status_wins:
  assumes "distinct (map msg_id (messages (ws_db st)))" "distinct (map rcp_id (recipients (ws_db st)))" "e \<noteq> []"
    and "find_by_external_id (ws_db st) e = Some m" "recipient_of_external_id (ws_db st) e = Some r"
  shows "\<exists>m' r'. find_by_external_id (ws_db (fold (process_status_item env) items st)) e = Some m' \<and>
    msg_status m' = last (msg_status m # reported parse_message_status e items) \<and>
    recipient_of_external_id (ws_db (fold (process_status_item env) items st)) e = Some r' \<and>
    rcp_status r' = last (rcp_status r # reported parse_recipient_status e items)"
  using assms
proof (induction items arbitrary: st m r)
  case Nil
  then show ?case by (simp add: reported_def List.map_filter_def)
next
  case (Cons item items)
  let ?st = "process_status_item env item st"
  obtain m1 :: message where m1: "distinct (map msg_id (messages (ws_db ?st)))" "find_by_external_id (ws_db ?st) e = Some m1"
    "msg_status m1 = last (msg_status m # reported parse_message_status e [item])"
    using status_item_messages [OF Cons.prems(1,4,3)] by blast
  obtain r1 :: campaign_recipient where r1: "distinct (map rcp_id (recipients (ws_db ?st)))" "recipient_of_external_id (ws_db ?st) e = Some r1"
    "rcp_status r1 = last (rcp_status r # reported parse_recipient_status e [item])"
    using status_item_recipients [OF Cons.prems(2,5,3)] by blast
  show ?case
    using Cons.IH [OF m1(1) r1(1) Cons.prems(3) m1(2) r1(2)] unfolding m1(3) r1(3) reported_join by simp
qed

section \<open>Deleted contacts\<close>

text \<open>Nobody else changes the contacts and messages while the message is stored.\<close>

definition quiet_inbox :: "webhook_env \<Rightarrow> bool" where
  "quiet_inbox env \<longleftrightarrow> (\<forall>n s. contacts (wh_commits env n s) = contacts s \<and> messages (wh_commits env n s) = messages s)"

lemma store_inbound_conflict:
  assumes "k \<in> set (contacts s)" "contact_key k = (wa_organization_id wa, wa_channel_id wa, normalize_whatsapp_phone (Some sender) DEFAULT_COUNTRY_CODE)"
    and "normalize_whatsapp_phone (Some sender) DEFAULT_COUNTRY_CODE \<noteq> []" "text_value (jget item ''from'') = Some sender"
    and "find_contact_on_channel_by_phone s (wa_organization_id wa) (wa_channel_id wa)
      (normalize_whatsapp_phone (Some sender) DEFAULT_COUNTRY_CODE) DEFAULT_COUNTRY_CODE = None"
  shows "store_inbound env n wa item value s = Inl integrity_error"
proof -
  have "match_contact i wa (normalize_whatsapp_phone (Some sender) DEFAULT_COUNTRY_CODE) name s = Inl integrity_error" for i name
    using assms(1,2) by (auto simp: match_contact_def assms(5) insert_contact_def new_contact_def contact_key_def Let_def)
  then show ?thesis using assms(3,4) by (simp add: store_inbound_def get_or_create_contact_and_conversation_def Let_def)
qed

text \<open>C22. A deleted contact locks its number out: deletion keeps the row with its unique address and the match by phone skips it, so
  a new message from the number can not be stored; both attempts fail with \<open>IntegrityError\<close> and nothing is kept of the message.\<close>

theorem deleted_contact_locks_number_out:
  assumes "quiet_inbox env" "text_value (jget item ''from'') = Some sender"
    and "normalize_whatsapp_phone (Some sender) DEFAULT_COUNTRY_CODE = address" "address \<noteq> []"
    and "k \<in> set (contacts s)" "con_deleted_at k \<noteq> None" "contact_key k = (wa_organization_id wa, wa_channel_id wa, address)"
    and "\<And>c. c \<in> set (contacts s) \<Longrightarrow> con_organization_id c = wa_organization_id wa \<Longrightarrow> con_channel_id c = wa_channel_id wa \<Longrightarrow>
      phones_match (Some (con_external_address c)) (Some (normalize_whatsapp_phone (Some address) DEFAULT_COUNTRY_CODE)) DEFAULT_COUNTRY_CODE \<Longrightarrow>
      con_deleted_at c \<noteq> None"
    and "\<not> find_duplicate_inbound s (text_value (jget item ''id''))"
  shows "\<exists>s'. persist_inbound_message env n wa item value s = (Inl integrity_error, s') \<and>
    messages s' = messages s \<and> contacts s' = contacts s"
proof -
  let ?s0 = "wh_commits env n s"
  let ?t0 = "wh_commits env (Suc n) ?s0"
  have same: "contacts ?s0 = contacts s" "messages ?s0 = messages s" "contacts ?t0 = contacts s" "messages ?t0 = messages s"
    using assms(1) by (simp_all add: quiet_inbox_def)
  have nodup: "\<not> find_duplicate_inbound ?s0 (text_value (jget item ''id''))" "\<not> find_duplicate_inbound ?t0 (text_value (jget item ''id''))"
    using assms(9) by (simp_all add: find_duplicate_inbound_def same)
  have none: "find_contact_on_channel_by_phone t (wa_organization_id wa) (wa_channel_id wa) address DEFAULT_COUNTRY_CODE = None"
    if "contacts t = contacts s" for t
    using assms(8) by (auto simp: find_contact_on_channel_by_phone_def that Let_def find_None_iff)
  have "store_inbound env i wa item value t = Inl integrity_error" if "contacts t = contacts s" for i t
    by (rule store_inbound_conflict [of k]) (use assms(2-5,7) that none [OF that] in auto)
  then show ?thesis using assms(9) nodup same by (simp add: persist_inbound_message_def Let_def integrity_error_def)
qed

section \<open>Instances\<close>

definition demo_webhook_env :: webhook_env where
  "demo_webhook_env = \<lparr>wh_clock = (\<lambda>n. int n), wh_civil = (\<lambda>_. DT 2025 6 1 0),
     wh_ids = (\<lambda>n. \<lparr>ii_contact = 100 + n, ii_conversation = 200 + n, ii_message = 300 + n, ii_notification = 400 + n, ii_mac = 500 + n,
       ii_audit = 600 + n\<rparr>), wh_event_id = (\<lambda>n. 700 + n), wh_outbox_id = (\<lambda>n. 800 + n), wh_commits = (\<lambda>_ s. s),
     wh_media = (\<lambda>_ _ _ _. Inl (OtherError ''MetaAPIError'')), wh_order = (\<lambda>_. Inr None),
     wh_side_effects = (\<lambda>_ _ _ s. Inr ([], s)), wh_template_update = (\<lambda>_ _ _ s. (False, s))\<rparr>"

definition text_item :: "string \<Rightarrow> string \<Rightarrow> json" where
  "text_item i sender = JObj [(''id'', JStr i), (''from'', JStr sender), (''type'', JStr ''text''), (''text'', JObj [(''body'', JStr ''hi'')])]"

definition demo_payload :: json where
  "demo_payload = JObj [(''entry'', JList [JObj [(''changes'', JList [JObj [(''field'', JStr ''messages''),
     (''value'', JObj [(''metadata'', JObj [(''phone_number_id'', JStr ''pn'')]),
       (''messages'', JList [text_item ''wamid.1'' ''96550000001'', text_item ''wamid.2'' ''96550000001''])])]])]])]"

definition webhook_example :: db where
  "webhook_example = empty_db\<lparr>whatsapp_accounts := [demo_wa 4 1 3]\<rparr>"

lemma demo_inbox_env: "inbox_env demo_webhook_env"
  by (simp add: inbox_env_def keeps_inbox_def demo_webhook_env_def)

lemma webhook_stores_messages_witness:
  "\<exists>s'. store_and_process_webhook demo_webhook_env demo_payload webhook_example = (Inr (2, []), s') \<and>
     distinct (external_ids s') \<and> {''wamid.1'', ''wamid.2''} \<subseteq> set (external_ids s')"
proof -
  obtain s' where run: "store_and_process_webhook demo_webhook_env demo_payload webhook_example = (Inr (2, []), s')"
  proof
    have "fst (store_and_process_webhook demo_webhook_env demo_payload webhook_example) = Inr (2, [])" by code_simp
    then show "store_and_process_webhook demo_webhook_env demo_payload webhook_example =
        (Inr (2, []), snd (store_and_process_webhook demo_webhook_env demo_payload webhook_example))" by (metis prod.collapse)
  qed
  have "external_ids webhook_example = []" by (simp add: webhook_example_def empty_db_def external_ids_def List.map_filter_def)
  moreover have "(\<Union>(entry, change) \<in> set (changes_of demo_payload). change_ids webhook_example change) = {''wamid.1'', ''wamid.2''}"
    by code_simp
  ultimately show ?thesis using webhook_stores_messages [OF demo_inbox_env _ run] run by auto
qed

definition status_item :: "string \<Rightarrow> string \<Rightarrow> json" where
  "status_item e v = JObj [(''id'', JStr e), (''status'', JStr v)]"

definition status_example :: webhook_state where
  "status_example = \<lparr>ws_db = webhook_example\<lparr>
       messages := [campaign_message 0 9 (demo_campaign 6 4) (new_recipient 7 6 5 None) (fresh_contact 5 ''96550000001'')
         (demo_wa 4 1 3) demo_template ''96550000001'' ''wamid.1'' [] MsgSent 8],
       recipients := [(new_recipient 7 6 5 None)\<lparr>rcp_external_message_id := Some ''wamid.1'', rcp_status := RSent\<rparr>]\<rparr>,
     ws_tick = 0, ws_processed = 0, ws_run_ids = [], ws_errors = []\<rparr>"

lemma last_status_wins_witness:
  "\<exists>m' r'. find_by_external_id (ws_db (fold (process_status_item demo_webhook_env) [status_item ''wamid.1'' ''read'', status_item ''wamid.1'' ''sent'']
       status_example)) ''wamid.1'' = Some m' \<and> msg_status m' = MsgSent \<and>
     recipient_of_external_id (ws_db (fold (process_status_item demo_webhook_env) [status_item ''wamid.1'' ''read'', status_item ''wamid.1'' ''sent'']
       status_example)) ''wamid.1'' = Some r' \<and> rcp_status r' = RSent"
proof -
  have "reported parse_message_status ''wamid.1'' [status_item ''wamid.1'' ''read'', status_item ''wamid.1'' ''sent''] = [MsgRead, MsgSent]"
    "reported parse_recipient_status ''wamid.1'' [status_item ''wamid.1'' ''read'', status_item ''wamid.1'' ''sent''] = [RRead, RSent]"
    by code_simp+
  moreover have "distinct (map msg_id (messages (ws_db status_example)))" "distinct (map rcp_id (recipients (ws_db status_example)))"
    "\<exists>m. find_by_external_id (ws_db status_example) ''wamid.1'' = Some m" "\<exists>r. recipient_of_external_id (ws_db status_example) ''wamid.1'' = Some r"
    by (simp_all add: status_example_def find_by_external_id_def recipient_of_external_id_def campaign_message_def)
  ultimately show ?thesis
    using last_status_wins [of status_example "''wamid.1''" _ _ demo_webhook_env "[status_item ''wamid.1'' ''read'', status_item ''wamid.1'' ''sent'']"]
    by fastforce
qed

lemma deleted_contact_locks_number_out_witness:
  "\<exists>s'. persist_inbound_message demo_webhook_env 0 (demo_wa 4 1 3) (text_item ''wamid.1'' ''96550000001'') (JObj [])
       (webhook_example\<lparr>contacts := [(fresh_contact 5 ''96550000001'')\<lparr>con_deleted_at := Some 9\<rparr>]\<rparr>) = (Inl integrity_error, s') \<and>
     messages s' = []"
proof -
  let ?k = "(fresh_contact 5 ''96550000001'')\<lparr>con_deleted_at := Some 9\<rparr>"
  let ?s = "webhook_example\<lparr>contacts := [?k]\<rparr>"
  have "quiet_inbox demo_webhook_env" by (simp add: quiet_inbox_def demo_webhook_env_def)
  moreover have "text_value (jget (text_item ''wamid.1'' ''96550000001'') ''from'') = Some ''96550000001''"
    by (simp add: text_item_def text_value_def)
  moreover have "normalize_whatsapp_phone (Some ''96550000001'') DEFAULT_COUNTRY_CODE = ''96550000001''" by code_simp
  moreover have "contact_key ?k = (wa_organization_id (demo_wa 4 1 3), wa_channel_id (demo_wa 4 1 3), ''96550000001'')"
    by (simp add: contact_key_def fresh_contact_def demo_wa_def)
  moreover have "\<not> find_duplicate_inbound ?s (text_value (jget (text_item ''wamid.1'' ''96550000001'') ''id''))"
    by (simp add: find_duplicate_inbound_def webhook_example_def empty_db_def)
  moreover have "con_deleted_at ?k \<noteq> None" "contacts ?s = [?k]" "messages ?s = []"
    by (simp_all add: webhook_example_def empty_db_def)
  ultimately have "\<exists>s'. persist_inbound_message demo_webhook_env 0 (demo_wa 4 1 3) (text_item ''wamid.1'' ''96550000001'') (JObj []) ?s =
      (Inl integrity_error, s') \<and> messages s' = messages ?s \<and> contacts s' = contacts ?s"
    by (intro deleted_contact_locks_number_out [of _ _ "''96550000001''" "''96550000001''" ?k]) simp_all
  then show ?thesis using \<open>messages ?s = []\<close> by auto
qed

end
