(* ===== verification/IngressFacts.thy ===== *)
theory IngressFacts
  imports WebhookIngress WebhookBehaviour
begin

text \<open>
  What the ingress guarantees: a stored payload is settled after at most five runs of the task, as processed with all its messages
  stored or as a dead letter; and which dead letters the retry job finds.
\<close>

section \<open>The stored event is left alone by the processing\<close>

definition keeps_event :: "uuid \<Rightarrow> (db \<Rightarrow> db) \<Rightarrow> bool" where
  "keeps_event i f \<longleftrightarrow> (\<forall>s. get_webhook_event (f s) i = get_webhook_event s i)"

definition foreign_env :: "uuid \<Rightarrow> webhook_env \<Rightarrow> bool" where
  "foreign_env i env \<longleftrightarrow> (\<forall>n. wh_event_id env n \<noteq> i) \<and> (\<forall>n. keeps_event i (wh_commits env n)) \<and>
     (\<forall>n entry value. keeps_event i (\<lambda>s. snd (wh_template_update env n entry value s))) \<and>
     (\<forall>n wa ctx. keeps_event i (\<lambda>s. case wh_side_effects env n wa ctx s of Inl _ \<Rightarrow> s | Inr (_, s') \<Rightarrow> s'))"

lemma event_frame: "webhook_events s' = webhook_events s \<Longrightarrow> get_webhook_event s' i = get_webhook_event s i"
  by (simp add: get_webhook_event_def)

lemma persist_keeps_event:
  assumes "foreign_env i env"
  shows "get_webhook_event (snd (persist_inbound_message env n wa item value s)) i = get_webhook_event s i"
proof -
  let ?s0 = "wh_commits env n s"
  let ?t0 = "wh_commits env (Suc n) ?s0"
  have c: "get_webhook_event ?s0 i = get_webhook_event s i" "get_webhook_event ?t0 i = get_webhook_event s i"
    using assms by (simp_all add: foreign_env_def keeps_event_def)
  have stored: "get_webhook_event (snd x) i = get_webhook_event t i" if "store_inbound env k wa item value t = Inr x" for k t x
    by (rule event_frame, rule store_inbound_later(2) [of env k wa item "value" t "fst x"]) (simp add: that)
  show ?thesis
  proof (cases "store_inbound env n wa item value ?s0")
    case (Inr x)
    then show ?thesis using stored [OF Inr] c by (cases x) (simp add: persist_inbound_message_def Let_def)
  next
    case first: (Inl e)
    show ?thesis
    proof (cases "store_inbound env (Suc n) wa item value ?t0")
      case (Inr x)
      then show ?thesis using first stored [OF Inr] c by (cases x) (simp add: persist_inbound_message_def Let_def)
    next
      case (Inl e')
      then show ?thesis using first c by (simp add: persist_inbound_message_def Let_def)
    qed
  qed
qed

lemma message_item_keeps_event:
  assumes "foreign_env i env"
  shows "get_webhook_event (ws_db (process_message_item env wa value item st)) i = get_webhook_event (ws_db st) i"
proof -
  obtain res s1 where p: "persist_inbound_message env (ws_tick st) wa item value (ws_db st) = (res, s1)" by force
  have s1: "get_webhook_event s1 i = get_webhook_event (ws_db st) i" using persist_keeps_event [OF assms] p by (metis snd_conv)
  show ?thesis
  proof (cases "\<exists>ctx. res = Inr (Some ctx)")
    case True
    then obtain ctx where ctx: "res = Inr (Some ctx)" by blast
    have "keeps_event i (\<lambda>s. case wh_side_effects env (ws_tick st) wa ctx s of Inl _ \<Rightarrow> s | Inr (_, s') \<Rightarrow> s')"
      using assms by (simp add: foreign_env_def)
    then have "get_webhook_event (case wh_side_effects env (ws_tick st) wa ctx s1 of Inl _ \<Rightarrow> s1 | Inr (_, s') \<Rightarrow> s') i = get_webhook_event s1 i"
      unfolding keeps_event_def by blast
    then show ?thesis using p ctx s1 by (simp add: process_message_item_def Let_def split: sum.splits prod.splits)
  next
    case False
    then show ?thesis using p s1 by (auto simp: process_message_item_def Let_def split: sum.splits option.splits)
  qed
qed

lemma status_item_keeps_event: "webhook_events (ws_db (process_status_item env item st)) = webhook_events (ws_db st)"
  by (simp add: process_status_item_def apply_message_status_def apply_recipient_status_def put_recipient_def put_contact_def
      put_conversation_def Let_def split: option.split)

lemma change_keeps_event:
  assumes "foreign_env i env"
  shows "get_webhook_event (ws_db (process_change env entry change st)) i = get_webhook_event (ws_db st) i"
proof -
  have new: "wh_event_id env n \<noteq> i" for n using assms by (simp add: foreign_env_def)
  have items: "get_webhook_event (ws_db (fold (process_message_item env wa v) items t)) i = get_webhook_event (ws_db t) i" for wa v items t
    by (induction items arbitrary: t) (simp_all add: message_item_keeps_event [OF assms])
  have statuses: "get_webhook_event (ws_db (fold (process_status_item env) items t)) i = get_webhook_event (ws_db t) i" for items t
  proof (induction items arbitrary: t)
    case (Cons x xs)
    have "get_webhook_event (ws_db (process_status_item env x t)) i = get_webhook_event (ws_db t) i"
      by (rule event_frame [OF status_item_keeps_event])
    then show ?case by (simp add: Cons.IH)
  qed simp
  have add: "get_webhook_event (ws_db (on_ws (add_webhook_event j wa ty p b) t)) i = get_webhook_event (ws_db t) i" if "j \<noteq> i" for j wa ty p b t
    using that by (simp add: on_ws_def add_webhook_event_def get_webhook_event_def table_simps split: option.split)
  have set: "get_webhook_event (ws_db (on_ws (set_event_status j v d) t)) i = get_webhook_event (ws_db t) i" if "j \<noteq> i" for j v d t
  proof -
    have "find (\<lambda>e. we_id e = i) (map (\<lambda>x. if we_id x = j then x\<lparr>we_status := v, we_processed_at := d\<rparr> else x) es) =
        find (\<lambda>e. we_id e = i) es" for es
      using that by (induction es) auto
    then show ?thesis by (simp add: on_ws_def set_event_status_def get_webhook_event_def tbl_get_def tbl_update_def)
  qed
  have outbox: "get_webhook_event (ws_db (on_ws (add_outbox_event a b c d e f g) t)) i = get_webhook_event (ws_db t) i" for a b c d e f g t
    by (simp add: on_ws_def add_outbox_event_def get_webhook_event_def)
  have template: "get_webhook_event (snd (wh_template_update env n entry v t)) i = get_webhook_event t i" for n v t
    using assms by (simp add: foreign_env_def keeps_event_def)
  show ?thesis
    by (simp add: process_change_def Let_def items statuses add set new outbox template case_prod_unfold split: option.split)
qed

lemma webhook_keeps_event:
  assumes "foreign_env i env"
  shows "get_webhook_event (snd (store_and_process_webhook env payload s)) i = get_webhook_event s i"
proof -
  have "get_webhook_event (ws_db (fold (\<lambda>(entry, change). process_change env entry change) cs st)) i = get_webhook_event (ws_db st) i" for cs st
    by (induction cs arbitrary: st) (auto simp: change_keeps_event [OF assms])
  then show ?thesis by (simp add: store_and_process_webhook_def Let_def)
qed

section \<open>Settling a stored payload\<close>

text \<open>A stored event with its body and the counter of its failed attempts.\<close>

definition pending_event :: "int \<Rightarrow> (string \<times> json) list \<Rightarrow> webhook_event \<Rightarrow> bool" where
  "pending_event k body e \<longleftrightarrow> (\<exists>kvs. we_payload e = JObj kvs \<and> map_of kvs ''body'' = Some (JObj body) \<and>
     map_of (ingress_meta (JObj kvs)) ''attempts'' = Some (JInt k) \<and>
     map_of (ingress_meta (JObj kvs)) ''max_attempts'' = Some (JInt MAX_WEBHOOK_ATTEMPTS))"

lemma pending_body: "pending_event k body e \<Longrightarrow> webhook_body e = JObj body"
  by (auto simp: pending_event_def webhook_body_def dict_of_def)

lemma pending_retryable: "pending_event k body e \<Longrightarrow> retryable e = Inr (k < MAX_WEBHOOK_ATTEMPTS)"
  by (auto simp: pending_event_def retryable_def dict_of_def int_with_default_def not_le)

lemma ingress_meta_set: "ingress_meta (JObj (dict_set ''_ingress'' (JObj m) kvs)) = m"
  by (simp add: ingress_meta_def map_of_dict_set)

definition counted :: "bool \<Rightarrow> nat \<Rightarrow> int" where
  "counted tracked n = (if tracked then int n else 0)"

lemma mark_failed_step:
  assumes "get_webhook_event s i = Some e" "pending_event (counted (ig_tracked ev) k) body e"
  obtains e' s' where "mark_failed ev i n err a d s = (Inr (), s')" "get_webhook_event s' i = Some e'"
    "pending_event (counted (ig_tracked ev) (Suc k)) body e'" "we_status e' = (if d \<or> a \<ge> MAX_WEBHOOK_ATTEMPTS then WhFailed else WhReceived)"
    "later_inbox s s'"
proof -
  obtain kvs where kvs: "we_payload e = JObj kvs" "map_of kvs ''body'' = Some (JObj body)"
    "map_of (ingress_meta (JObj kvs)) ''attempts'' = Some (JInt (counted (ig_tracked ev) k))"
    "map_of (ingress_meta (JObj kvs)) ''max_attempts'' = Some (JInt MAX_WEBHOOK_ATTEMPTS)"
    using assms(2) by (auto simp: pending_event_def)
  have i: "we_id e = i" using assms(1) by (rule webhook_event_rows.get_key)
  define m where "m = dict_set ''last_failed_at'' (JStr (ig_iso ev (ig_clock ev n)))
    (dict_set ''attempts'' (JInt (counted (ig_tracked ev) k + 1)) (ingress_meta (JObj kvs)))"
  define e' where "e' = e\<lparr>we_payload := (if ig_tracked ev then JObj (dict_set ''_ingress'' (JObj m) kvs) else JObj kvs),
    we_error_message := Some (take 4000 (''attempt:'' @ int_str a @ '':'' @ err)),
    we_status := (if d \<or> a \<ge> MAX_WEBHOOK_ATTEMPTS then WhFailed else WhReceived),
    we_processed_at := (if d \<or> a \<ge> MAX_WEBHOOK_ATTEMPTS then Some (ig_clock ev n) else we_processed_at e)\<rparr>"
  have dict: "is_dict (Some (we_payload e))" by (simp add: is_dict_def kvs(1))
  show thesis
  proof (rule that [of "put_webhook_event e' s" e'])
    show "mark_failed ev i n err a d s = (Inr (), put_webhook_event e' s)"
      using dict by (simp add: mark_failed_def load_whatsapp_webhook_payload_def assms(1) mark_webhook_failed_def kvs dict_of_def
          int_with_default_def e'_def m_def Let_def)
    have "we_id e' = i" by (simp add: e'_def i)
    then show "get_webhook_event (put_webhook_event e' s) i = Some e'" by (rule webhook_event_rows.read_modify_write [OF assms(1)])
    have "map_of m ''attempts'' = Some (JInt (counted (ig_tracked ev) k + 1))" "map_of m ''max_attempts'' = Some (JInt MAX_WEBHOOK_ATTEMPTS)"
      by (simp_all add: m_def map_of_dict_set kvs)
    then show "pending_event (counted (ig_tracked ev) (Suc k)) body e'"
      using kvs by (auto simp: pending_event_def e'_def ingress_meta_set map_of_dict_set counted_def)
    show "we_status e' = (if d \<or> a \<ge> MAX_WEBHOOK_ATTEMPTS then WhFailed else WhReceived)" by (simp add: e'_def)
    show "later_inbox s (put_webhook_event e' s)" by (rule later_frame) (simp_all add: put_webhook_event_def)
  qed
qed

text \<open>What the environment of the task leaves alone.\<close>

definition ingress_ok :: "uuid \<Rightarrow> ingress_env \<Rightarrow> bool" where
  "ingress_ok i ev \<longleftrightarrow> (\<forall>n. inbox_env (ig_run ev n) \<and> foreign_env i (ig_run ev n) \<and> keeps_inbox (ig_between ev n) \<and> keeps_event i (ig_between ev n))"

definition payload_ids :: "db \<Rightarrow> json \<Rightarrow> string set" where
  "payload_ids s payload = (\<Union>(entry, change) \<in> set (changes_of payload). change_ids s change)"

lemma payload_ids_later: "later_inbox s s' \<Longrightarrow> payload_ids s' p = payload_ids s p"
  by (simp add: payload_ids_def later_change_ids)

lemma process_stored_cases:
  assumes "ingress_ok i ev" "get_webhook_event s i = Some e" "pending_event k body e" "process_stored ev i n s = (res, s')"
  shows "later_inbox s s'"
    "returns res \<Longrightarrow> (\<exists>e'. get_webhook_event s' i = Some e' \<and> we_status e' = WhProcessed) \<and> payload_ids s (JObj body) \<subseteq> set (external_ids s')"
    "\<not> returns res \<Longrightarrow> get_webhook_event s' i = Some e"
proof -
  obtain r s1 where w: "store_and_process_webhook (ig_run ev n) (JObj body) s = (r, s1)" by force
  have env: "inbox_env (ig_run ev n)" "foreign_env i (ig_run ev n)" using assms(1) by (simp_all add: ingress_ok_def)
  note stored = webhook_later [OF env(1), where s = s and payload = "JObj body", unfolded w fst_conv snd_conv, folded payload_ids_def]
  have kept: "get_webhook_event s1 i = Some e"
    using webhook_keeps_event [OF env(2), of "JObj body" s] by (simp add: w assms(2))
  have i: "we_id e = i" using assms(2) by (rule webhook_event_rows.get_key)
  have run: "(res, s') = (case r of Inl x \<Rightarrow> (Inl x, s1) | Inr x \<Rightarrow> (Inr x, mark_webhook_processed (ig_clock ev n) i s1))"
    using assms(2,4) pending_body [OF assms(3)] w
    by (simp add: process_stored_def load_whatsapp_webhook_payload_def split: sum.split)
  have mark: "messages (mark_webhook_processed t i s1) = messages s1" "whatsapp_accounts (mark_webhook_processed t i s1) = whatsapp_accounts s1" for t
    by (simp_all add: mark_webhook_processed_def)
  have processed: "get_webhook_event (mark_webhook_processed t i s1) i = Some (e\<lparr>we_status := WhProcessed, we_processed_at := Some t, we_error_message := None\<rparr>)" for t
    using kept i by (simp add: mark_webhook_processed_def get_webhook_event_def table_simps)
  show "later_inbox s s'"
    using run stored(1) later_trans [OF stored(1) later_frame [OF mark]] by (simp split: sum.splits)
  show "(\<exists>e'. get_webhook_event s' i = Some e' \<and> we_status e' = WhProcessed) \<and> payload_ids s (JObj body) \<subseteq> set (external_ids s')" if "returns res"
    using run that stored(2) processed by (cases r) (auto simp: external_ids_def mark)
  show "get_webhook_event s' i = Some e" if "\<not> returns res"
    using run that kept by (cases r) auto
qed

definition settled :: "bool \<Rightarrow> (string \<times> json) list \<Rightarrow> uuid \<Rightarrow> db \<Rightarrow> (int \<times> string list) outcome \<Rightarrow> db \<Rightarrow> bool" where
  "settled tracked body i s res s' \<longleftrightarrow> (\<exists>e'. get_webhook_event s' i = Some e' \<and>
     (if returns res then we_status e' = WhProcessed \<and> payload_ids s (JObj body) \<subseteq> set (external_ids s')
      else we_status e' = WhFailed \<and> retryable e' = Inr (\<not> tracked)))"

lemma task_run_step:
  assumes "ingress_ok i ev" "get_webhook_event s i = Some e" "pending_event (counted (ig_tracked ev) n) body e" "n \<le> 4"
    and "task_run ev i n s = (res, s')"
  shows "later_inbox s s'"
    "returns res \<or> n = 4 \<Longrightarrow> settled (ig_tracked ev) body i s res s'"
    "\<not> returns res \<Longrightarrow> n < 4 \<Longrightarrow> \<exists>e'. get_webhook_event s' i = Some e' \<and> pending_event (counted (ig_tracked ev) (Suc n)) body e'"
proof -
  obtain r s1 where p: "process_stored ev i n s = (r, s1)" by force
  note ps = process_stored_cases [OF assms(1-3) p]
  have "later_inbox s s' \<and> (returns res \<or> n = 4 \<longrightarrow> settled (ig_tracked ev) body i s res s') \<and>
    (\<not> returns res \<longrightarrow> n < 4 \<longrightarrow> (\<exists>e'. get_webhook_event s' i = Some e' \<and> pending_event (counted (ig_tracked ev) (Suc n)) body e'))"
  proof (cases r)
    case (Inr x)
    then have same: "res = r" "s' = s1" using assms(5) p by (simp_all add: task_run_def)
    have "returns r" by (simp add: Inr)
    then show ?thesis using ps(1,2) unfolding same settled_def by auto
  next
    case (Inl x)
    have e: "get_webhook_event s1 i = Some e" using ps(3) Inl by simp
    obtain e2 s2 where m: "mark_failed ev i n (error_text x) (int n + 1) False s1 = (Inr (), s2)" "get_webhook_event s2 i = Some e2"
      "pending_event (counted (ig_tracked ev) (Suc n)) body e2" "later_inbox s1 s2"
      by (rule mark_failed_step [OF e assms(3)])
    show ?thesis
    proof (cases "n = 4")
      case True
      obtain e3 s3 where m3: "mark_failed ev i n (error_text x) MAX_WEBHOOK_ATTEMPTS True s2 = (Inr (), s3)" "get_webhook_event s3 i = Some e3"
        "pending_event (counted (ig_tracked ev) (Suc (Suc n))) body e3"
        "we_status e3 = (if True \<or> MAX_WEBHOOK_ATTEMPTS \<ge> MAX_WEBHOOK_ATTEMPTS then WhFailed else WhReceived)" "later_inbox s2 s3"
        by (rule mark_failed_step [OF m(2,3)])
      have "res = Inl (OtherError ''MaxRetriesExceededError'')" "s' = s3"
        using assms(5) p Inl m(1) m3(1) True by (simp_all add: task_run_def MAX_WEBHOOK_ATTEMPTS_def)
      moreover have "retryable e3 = Inr (\<not> ig_tracked ev)"
        using pending_retryable [OF m3(3)] True by (simp add: counted_def MAX_WEBHOOK_ATTEMPTS_def)
      ultimately show ?thesis
        using m3 True later_trans [OF ps(1) later_trans [OF m(4) m3(5)]] by (simp add: settled_def)
    next
      case False
      then have "res = Inl x" "s' = s2"
        using assms(4,5) p Inl m(1) by (simp_all add: task_run_def MAX_WEBHOOK_ATTEMPTS_def Let_def)
      then show ?thesis using False m(2,3) later_trans [OF ps(1) m(4)] by simp
    qed
  qed
  then show "later_inbox s s'" "returns res \<or> n = 4 \<Longrightarrow> settled (ig_tracked ev) body i s res s'"
    "\<not> returns res \<Longrightarrow> n < 4 \<Longrightarrow> \<exists>e'. get_webhook_event s' i = Some e' \<and> pending_event (counted (ig_tracked ev) (Suc n)) body e'"
    by blast+
qed

lemma settled_later:
  assumes "later_inbox s t" "settled b body i t res s'"
  shows "settled b body i s res s'"
  using assms(2) unfolding settled_def payload_ids_later [OF assms(1)] .

lemma between_step:
  assumes "ingress_ok i ev"
  shows "later_inbox s (ig_between ev n s)" "get_webhook_event (ig_between ev n s) i = get_webhook_event s i"
  using assms later_keeps by (auto simp: ingress_ok_def keeps_event_def)

lemma task_runs_settle:
  assumes "ingress_ok i ev" "get_webhook_event s i = Some e" "pending_event (counted (ig_tracked ev) n) body e" "n + m = 4"
    and "task_runs ev i m n s = (res, s')"
  shows "settled (ig_tracked ev) body i s res s'"
  using assms(2-5)
proof (induction m arbitrary: n s e)
  case 0
  let ?s0 = "ig_between ev n s"
  have "get_webhook_event ?s0 i = Some e" using between_step(2) [OF assms(1)] 0(1) by simp
  from task_run_step(2) [OF assms(1) this 0(2), of res s'] 0(3,4) have "settled (ig_tracked ev) body i ?s0 res s'" by simp
  then show ?case by (rule settled_later [OF between_step(1) [OF assms(1)]])
next
  case (Suc m)
  let ?s0 = "ig_between ev n s"
  have e: "get_webhook_event ?s0 i = Some e" using between_step(2) [OF assms(1)] Suc.prems(1) by simp
  have n: "n \<le> 4" "n < 4" using Suc.prems(3) by simp_all
  obtain r s1 where r: "task_run ev i n ?s0 = (r, s1)" by force
  note step = task_run_step [OF assms(1) e Suc.prems(2) n(1) r]
  note later = later_trans [OF between_step(1) [OF assms(1), of s n] step(1)]
  show ?case
  proof (cases r)
    case (Inr x)
    then have "res = r" "s' = s1" using Suc.prems(4) r by simp_all
    then show ?thesis using step(2) Inr settled_later [OF between_step(1) [OF assms(1)]] by simp
  next
    case (Inl x)
    then obtain e1 where "get_webhook_event s1 i = Some e1" "pending_event (counted (ig_tracked ev) (Suc n)) body e1"
      using step(3) n by auto
    from Suc.IH [OF this] Suc.prems(3,4) r Inl have "settled (ig_tracked ev) body i s1 res s'" by simp
    then show ?thesis by (rule settled_later [OF later])
  qed
qed

text \<open>C23. Every stored payload is settled: after at most five runs of its task the event is either processed, with every message of the payload for
  a connected number stored, or a dead letter; and the job that looks for dead letters queues it again if and only if the counter of
  attempts, which is changed in place, was not saved: then it qualifies at every round (of the events that qualify, a round takes a limited
  number), and otherwise never.\<close>

theorem webhook_is_settled:
  assumes "ingress_ok i ev" "get_webhook_event s i = Some e"
    and "we_payload e = JObj [(''body'', JObj body), (''_ingress'', JObj (ingress_meta (JObj body)))]" "map_of body ''_ingress'' = None"
    and "process_whatsapp_webhook ev i s = (res, s')"
  shows "\<exists>e'. get_webhook_event s' i = Some e' \<and>
    (if returns res then we_status e' = WhProcessed \<and> payload_ids s (JObj body) \<subseteq> set (external_ids s')
     else we_status e' = WhFailed \<and> retryable e' = Inr (\<not> ig_tracked ev))"
proof -
  have "pending_event (counted (ig_tracked ev) 0) body e"
    using assms(3,4) by (simp add: pending_event_def ingress_meta_def counted_def)
  moreover have "task_runs ev i 4 0 s = (res, s')" using assms(5) by (simp add: process_whatsapp_webhook_def MAX_WEBHOOK_ATTEMPTS_def)
  ultimately have "settled (ig_tracked ev) body i s res s'" using task_runs_settle [OF assms(1,2), of 0] by simp
  then show ?thesis by (simp only: settled_def)
qed

text \<open>The first run can not download the image, the second can.\<close>

definition demo_ingress :: ingress_env where
  "demo_ingress = \<lparr>ig_run = (\<lambda>n. demo_webhook_env\<lparr>wh_media := (\<lambda>_ _ _ _. if n = 0 then Inl (OtherError ''MetaAPIError'') else Inr [])\<rparr>),
     ig_between = (\<lambda>_ s. s), ig_clock = int, ig_tracked = False, ig_iso = (\<lambda>_. ''2025-06-01'')\<rparr>"

definition image_body :: "(string \<times> json) list" where
  "image_body = [(''entry'', JList [JObj [(''changes'', JList [JObj [(''field'', JStr ''messages''),
     (''value'', JObj [(''metadata'', JObj [(''phone_number_id'', JStr ''pn'')]),
       (''messages'', JList [JObj [(''id'', JStr ''wamid.1''), (''from'', JStr ''96550000001''), (''type'', JStr ''image'')]])])]])]])]"

definition ingress_example :: db where
  "ingress_example = snd (persist_whatsapp_webhook (\<lambda>_. ''d'') 9 (JObj image_body) webhook_example)"

lemma webhook_is_settled_witness:
  "\<exists>r s'. process_whatsapp_webhook demo_ingress 9 ingress_example = (Inr r, s') \<and>
     (\<exists>e'. get_webhook_event s' 9 = Some e' \<and> we_status e' = WhProcessed) \<and> ''wamid.1'' \<in> set (external_ids s')"
proof -
  have "returns (fst (process_whatsapp_webhook demo_ingress 9 ingress_example))" by code_simp
  then obtain r s' where run: "process_whatsapp_webhook demo_ingress 9 ingress_example = (Inr r, s')"
    by (cases "process_whatsapp_webhook demo_ingress 9 ingress_example") (auto simp: returns_def split: sum.splits)
  have ok: "ingress_ok 9 demo_ingress"
    by (simp add: ingress_ok_def demo_ingress_def inbox_env_def foreign_env_def keeps_inbox_def keeps_event_def demo_webhook_env_def)
  have key: "external_event_key (\<lambda>_. ''d'') (JObj image_body) = None" by code_simp
  define e where "e = \<lparr>we_id = 9, we_provider = ''meta_whatsapp'',
            we_external_event_key = None, we_account_id = None, we_channel_id = None, we_event_type = ''whatsapp_webhook_batch'',
            we_payload = JObj [(''body'', JObj image_body), (''_ingress'', JObj (ingress_meta (JObj image_body)))], we_status = WhReceived,
            we_error_message = None, we_processed_at = None\<rparr>"
  have e: "get_webhook_event ingress_example 9 = Some e"
    by (simp add: ingress_example_def persist_whatsapp_webhook_def key get_webhook_event_def tbl_get_def webhook_example_def empty_db_def e_def)
  have ids: "payload_ids ingress_example (JObj image_body) = {''wamid.1''}" by code_simp
  have "we_payload e = JObj [(''body'', JObj image_body), (''_ingress'', JObj (ingress_meta (JObj image_body)))]" "map_of image_body ''_ingress'' = None"
    by (simp_all add: e_def image_body_def)
  from webhook_is_settled [OF ok e this run] ids run show ?thesis by auto
qed

end
