(* ===== verification/Contacts.thy ===== *)
theory Contacts
  imports Inbound
begin

text \<open>
  Contacts: \<open>services/contact_management.py\<close>, \<open>services/contacts.py\<close>, \<open>services/interests.py\<close> and the list route of
  \<open>api/routes/contacts.py\<close>.  Inference of a gender from a name (a dictionary and a language model), the \<open>ILIKE\<close> of the database
  and the lookup of the columns of a spreadsheet by their aliases are parameters.  Columns have no maximal length here.
\<close>

text \<open>\<open>min(max(limit, 1), 5000)\<close>, the length of a list.\<close>

definition clamp_limit :: "int \<Rightarrow> nat" where
  "clamp_limit limit = nat (min (max limit 1) 5000)"

section \<open>Single contacts\<close>

definition get_contact_or_raise :: "db \<Rightarrow> uuid \<Rightarrow> uuid \<Rightarrow> contact outcome" where
  "get_contact_or_raise s account_id contact_id =
     (case get_contact_row s contact_id of
        None \<Rightarrow> Inl (ValueError ''CONTACT_NOT_FOUND'')
      | Some c \<Rightarrow> if con_account_id c \<noteq> account_id \<or> con_deleted_at c \<noteq> None then Inl (ValueError ''CONTACT_NOT_FOUND'') else Inr c)"

text \<open>The check that does not look at \<open>deleted_at\<close>.\<close>

definition own_contact :: "db \<Rightarrow> uuid \<Rightarrow> uuid \<Rightarrow> contact outcome" where
  "own_contact s account_id contact_id =
     (case get_contact_row s contact_id of
        None \<Rightarrow> Inl (ValueError ''CONTACT_NOT_FOUND'')
      | Some c \<Rightarrow> if con_account_id c \<noteq> account_id then Inl (ValueError ''CONTACT_NOT_FOUND'') else Inr c)"

record contact_update =
  cu_display_name :: "string option"
  cu_email :: "string option"
  cu_language :: "string option"
  cu_country_code :: "string option"
  cu_marketing_opt_in :: "bool option"
  cu_lifecycle_stage :: "string option"

definition apply_contact_update :: "(string option \<Rightarrow> string) \<Rightarrow> contact_update \<Rightarrow> contact \<Rightarrow> contact" where
  "apply_contact_update infer u c =
     (let c1 = (case cu_display_name u of None \<Rightarrow> c | Some n \<Rightarrow> c\<lparr>con_display_name := Some n, con_gender := infer (Some n)\<rparr>);
          c2 = (case cu_email u of None \<Rightarrow> c1 | e \<Rightarrow> c1\<lparr>con_email := e\<rparr>);
          c3 = (case cu_language u of None \<Rightarrow> c2 | l \<Rightarrow> c2\<lparr>con_language := l\<rparr>);
          c4 = (case cu_country_code u of None \<Rightarrow> c3 | k \<Rightarrow> c3\<lparr>con_country_code := k\<rparr>);
          c5 = (case cu_marketing_opt_in u of None \<Rightarrow> c4 | Some b \<Rightarrow> c4\<lparr>con_marketing_opt_in := b\<rparr>)
      in (case cu_lifecycle_stage u of None \<Rightarrow> c5
          | Some v \<Rightarrow> c5\<lparr>con_lifecycle_stage := (let t = take 30 (py_strip v) in if t = [] then ''lead'' else t)\<rparr>))"

definition update_contact :: "(string option \<Rightarrow> string) \<Rightarrow> uuid \<Rightarrow> uuid \<Rightarrow> contact_update \<Rightarrow> db \<Rightarrow> contact outcome \<times> db" where
  "update_contact infer account_id contact_id u s =
     (case get_contact_or_raise s account_id contact_id of
        Inl e \<Rightarrow> (Inl e, s)
      | Inr c \<Rightarrow> (let c' = apply_contact_update infer u c in (Inr c', put_contact c' s)))"

definition delete_contact :: "datetime \<Rightarrow> uuid \<Rightarrow> uuid \<Rightarrow> db \<Rightarrow> unit outcome \<times> db" where
  "delete_contact now account_id contact_id s =
     (case own_contact s account_id contact_id of
        Inl e \<Rightarrow> (Inl e, s)
      | Inr c \<Rightarrow> (Inr (), put_contact (c\<lparr>con_deleted_at := Some now\<rparr>) s))"

section \<open>Tags and interests\<close>

definition has_contact_tag :: "db \<Rightarrow> uuid \<Rightarrow> uuid \<Rightarrow> bool" where
  "has_contact_tag s contact_id t \<longleftrightarrow> (\<exists>k \<in> set (contact_tags s). kt_contact_id k = contact_id \<and> kt_tag_id k = t)"

definition add_contact_tags :: "uuid \<Rightarrow> uuid list \<Rightarrow> db \<Rightarrow> db" where
  "add_contact_tags contact_id ts s = s\<lparr>contact_tags := contact_tags s @
     map (\<lambda>t. \<lparr>kt_contact_id = contact_id, kt_tag_id = t\<rparr>) (filter (\<lambda>t. \<not> has_contact_tag s contact_id t) ts)\<rparr>"

definition apply_contact_tags :: "uuid \<Rightarrow> uuid \<Rightarrow> uuid list \<Rightarrow> db \<Rightarrow> db outcome" where
  "apply_contact_tags account_id contact_id tag_ids s =
     (if tag_ids = [] then Inr s
      else (case own_contact s account_id contact_id of
          Inl e \<Rightarrow> Inl e
        | Inr _ \<Rightarrow>
            (let valid_ids = map tag_id (filter (\<lambda>t. tag_account_id t = account_id \<and> tag_id t \<in> set tag_ids) (tags s)) in
             if set valid_ids \<noteq> set tag_ids then Inl (ValueError ''INVALID_TAG'')
             else Inr (add_contact_tags contact_id (remdups valid_ids) s))))"

definition add_contact_tag :: "uuid \<Rightarrow> uuid \<Rightarrow> uuid \<Rightarrow> db \<Rightarrow> unit outcome \<times> db" where
  "add_contact_tag account_id contact_id t s =
     (case own_contact s account_id contact_id of
        Inl e \<Rightarrow> (Inl e, s)
      | Inr _ \<Rightarrow> (case get_tag s t of
            None \<Rightarrow> (Inl (ValueError ''TAG_NOT_FOUND''), s)
          | Some tag \<Rightarrow> if tag_account_id tag \<noteq> account_id then (Inl (ValueError ''TAG_NOT_FOUND''), s)
              else (Inr (), add_contact_tags contact_id [t] s)))"

definition remove_contact_tag :: "uuid \<Rightarrow> uuid \<Rightarrow> uuid \<Rightarrow> db \<Rightarrow> unit outcome \<times> db" where
  "remove_contact_tag account_id contact_id t s =
     (case own_contact s account_id contact_id of
        Inl e \<Rightarrow> (Inl e, s)
      | Inr _ \<Rightarrow> (Inr (), s\<lparr>contact_tags := filter (\<lambda>k. \<not> (kt_contact_id k = contact_id \<and> kt_tag_id k = t)) (contact_tags s)\<rparr>))"

definition list_contact_tags :: "uuid \<Rightarrow> uuid \<Rightarrow> db \<Rightarrow> tag list outcome" where
  "list_contact_tags account_id contact_id s =
     (case own_contact s account_id contact_id of
        Inl e \<Rightarrow> Inl e
      | Inr _ \<Rightarrow> Inr (sort_key tag_name (filter (\<lambda>t. has_contact_tag s contact_id (tag_id t)) (tags s))))"

definition list_contact_interest_ids :: "db \<Rightarrow> uuid \<Rightarrow> uuid list" where
  "list_contact_interest_ids s contact_id = map ki_interest_id (filter (\<lambda>k. ki_contact_id k = contact_id) (contact_interests s))"

definition set_contact_interests :: "uuid \<Rightarrow> uuid list \<Rightarrow> db \<Rightarrow> db" where
  "set_contact_interests contact_id ids s = s\<lparr>contact_interests := filter (\<lambda>k. ki_contact_id k \<noteq> contact_id) (contact_interests s) @
     map (\<lambda>i. \<lparr>ki_contact_id = contact_id, ki_interest_id = i\<rparr>) ids\<rparr>"

definition apply_contact_interests :: "uuid \<Rightarrow> uuid \<Rightarrow> uuid list \<Rightarrow> db \<Rightarrow> db outcome" where
  "apply_contact_interests account_id contact_id interest_ids s =
     (if interest_ids = [] then Inr (set_contact_interests contact_id [] s)
      else (case own_contact s account_id contact_id of
          Inl e \<Rightarrow> Inl e
        | Inr _ \<Rightarrow>
            (let valid_ids = map ic_id (filter (\<lambda>i. ic_account_id i = account_id \<and> ic_id i \<in> set interest_ids) (interest_categories s)) in
             if set valid_ids \<noteq> set interest_ids then Inl (ValueError ''INVALID_INTEREST'')
             else Inr (set_contact_interests contact_id (remdups valid_ids) s))))"

section \<open>Creation\<close>

record contact_create =
  cc_organization_id :: uuid
  cc_channel_id :: uuid
  cc_external_address :: string
  cc_display_name :: "string option"
  cc_email :: "string option"
  cc_language :: "string option"
  cc_country_code :: "string option"
  cc_lifecycle_stage :: "string option"
  cc_tag_ids :: "uuid list"
  cc_interest_ids :: "uuid list"

text \<open>\<open>(payload.country_code or "965").strip() or "965"\<close>\<close>

definition payload_country :: "contact_create \<Rightarrow> string" where
  "payload_country p = (let t = py_strip (case cc_country_code p of None \<Rightarrow> ''965'' | Some [] \<Rightarrow> ''965'' | Some k \<Rightarrow> k)
     in if t = [] then ''965'' else t)"

definition payload_stage :: "contact_create \<Rightarrow> string option" where
  "payload_stage p = (case cc_lifecycle_stage p of None \<Rightarrow> None
     | Some v \<Rightarrow> if py_strip v = [] then None else Some (take 30 (py_strip v)))"

definition channel_error :: "db \<Rightarrow> uuid \<Rightarrow> uuid \<Rightarrow> uuid \<Rightarrow> string option" where
  "channel_error s account_id organization_id channel_id =
     (case get_channel s channel_id of
        None \<Rightarrow> Some ''INVALID_CHANNEL''
      | Some c \<Rightarrow> if ch_account_id c \<noteq> account_id \<or> ch_deleted_at c \<noteq> None then Some ''INVALID_CHANNEL''
          else if ch_organization_id c \<noteq> organization_id then Some ''CHANNEL_ORGANIZATION_MISMATCH'' else None)"

definition merge_payload :: "(string option \<Rightarrow> string) \<Rightarrow> contact_create \<Rightarrow> string \<Rightarrow> contact \<Rightarrow> contact" where
  "merge_payload infer p address c =
     (let c0 = c\<lparr>con_external_address := address\<rparr>;
          c1 = (case cc_display_name p of None \<Rightarrow> c0 | Some n \<Rightarrow> c0\<lparr>con_display_name := Some n, con_gender := infer (Some n)\<rparr>);
          c2 = (case cc_email p of None \<Rightarrow> c1 | e \<Rightarrow> c1\<lparr>con_email := e\<rparr>);
          c3 = (case cc_language p of None \<Rightarrow> c2 | l \<Rightarrow> c2\<lparr>con_language := l\<rparr>);
          c4 = (case cc_country_code p of None \<Rightarrow> c3 | k \<Rightarrow> c3\<lparr>con_country_code := k\<rparr>)
      in (case payload_stage p of None \<Rightarrow> c4 | Some v \<Rightarrow> c4\<lparr>con_lifecycle_stage := v\<rparr>))"

definition contact_of_payload :: "(string option \<Rightarrow> string) \<Rightarrow> uuid \<Rightarrow> uuid \<Rightarrow> contact_create \<Rightarrow> string \<Rightarrow> contact" where
  "contact_of_payload infer i account_id p address =
     \<lparr>con_id = i, con_account_id = account_id, con_organization_id = cc_organization_id p, con_channel_id = cc_channel_id p,
      con_external_address = address, con_display_name = cc_display_name p, con_email = cc_email p, con_language = cc_language p,
      con_gender = infer (cc_display_name p), con_country_code = cc_country_code p, con_marketing_opt_in = True,
      con_reachability_status = None, con_reachability_reason = None, con_delivery_failure_count = 0,
      con_last_delivery_failure_at = None, con_last_inbound_at = None,
      con_lifecycle_stage = (case payload_stage p of Some v \<Rightarrow> v | None \<Rightarrow> (case cc_lifecycle_stage p of None \<Rightarrow> ''lead'' | Some v \<Rightarrow> v)),
      con_deleted_at = None\<rparr>"

definition create_contact :: "(string option \<Rightarrow> string) \<Rightarrow> uuid \<Rightarrow> uuid \<Rightarrow> contact_create \<Rightarrow> db \<Rightarrow> contact outcome \<times> db" where
  "create_contact infer new_id account_id p s =
     (case channel_error s account_id (cc_organization_id p) (cc_channel_id p) of
        Some e \<Rightarrow> (Inl (ValueError e), s)
      | None \<Rightarrow>
          (let country_code = payload_country p;
               address = normalize_whatsapp_phone (Some (cc_external_address p)) country_code in
           if address = [] then (Inl (ValueError ''INVALID_PHONE''), s)
           else
             (let (c, stored) =
                (case find_contact_on_channel_by_phone s (cc_organization_id p) (cc_channel_id p) address country_code of
                   Some c \<Rightarrow> (let c' = merge_payload infer p address c in (c', flush_contact c' s))
                 | None \<Rightarrow> (let c' = contact_of_payload infer new_id account_id p address in (c', insert_contact c' s)))
              in (case stored of
                    Inl e \<Rightarrow> (Inl e, s)
                  | Inr s1 \<Rightarrow> (case apply_contact_tags account_id (con_id c) (cc_tag_ids p) s1 of
                        Inl e \<Rightarrow> (Inl e, s)
                      | Inr s2 \<Rightarrow> (case apply_contact_interests account_id (con_id c) (cc_interest_ids p) s2 of
                            Inl e \<Rightarrow> (Inl e, s)
                          | Inr s3 \<Rightarrow> (Inr c, s3)))))))"

end
