(* ===== verification/ContactLists.thy ===== *)
theory ContactLists
  imports Contacts
begin

text \<open>
  Lists of contacts: the filters of segments (\<open>_apply_segment_filters\<close>), audiences, \<open>list_contacts\<close> of \<open>services/contacts.py\<close> and its
  route.  The order of a list is that of the table.  A filter compares what the stored JSON holds; the query joins the
  table of tags once for \<open>tag_ids\<close> and once more for \<open>tag_id\<close>, which the database refuses when both are present.
\<close>

section \<open>Filters of segments\<close>

type_synonym contact_filter = "contact \<Rightarrow> bool"

definition uuid_of_json :: "json \<Rightarrow> uuid outcome" where
  "uuid_of_json v = (case parse_uuid (py_str v) of None \<Rightarrow> Inl (ValueError ''badly formed hexadecimal UUID string'') | Some u \<Rightarrow> Inr u)"

definition iterate_json :: "json \<Rightarrow> json list outcome" where
  "iterate_json v = (case v of
       JList xs \<Rightarrow> Inr xs
     | JStr t \<Rightarrow> Inr (map (\<lambda>c. JStr [c]) t)
     | JObj kvs \<Rightarrow> Inr (map (\<lambda>(k, _). JStr k) kvs)
     | _ \<Rightarrow> Inl (OtherError ''TypeError''))"

definition uuids_of_json :: "json \<Rightarrow> uuid list outcome" where
  "uuids_of_json v = (case iterate_json v of Inl e \<Rightarrow> Inl e | Inr xs \<Rightarrow> all_outcomes uuid_of_json xs)"

fun reachability_text :: "reachability_status \<Rightarrow> string" where
  "reachability_text REACHABLE = ''reachable''"
| "reachability_text RISKY = ''risky''"
| "reachability_text UNREACHABLE = ''unreachable''"

definition search_matches :: "(string \<Rightarrow> string \<Rightarrow> bool) \<Rightarrow> string \<Rightarrow> contact_filter" where
  "search_matches ilike search c =
     (let term = ''%'' @ search @ ''%''; hits = (\<lambda>x. case x of None \<Rightarrow> False | Some t \<Rightarrow> ilike t term)
      in hits (con_display_name c) \<or> ilike (con_external_address c) term \<or> hits (con_email c))"

text \<open>\<open>if v := filters.get(k)\<close>: a clause only when the value is true.\<close>

definition when_truthy :: "(string \<times> json) list \<Rightarrow> string \<Rightarrow> (json \<Rightarrow> contact_filter outcome) \<Rightarrow> contact_filter outcome" where
  "when_truthy filters k clause = (case map_of filters k of
       Some v \<Rightarrow> if j_truthy (Some v) then clause v else Inr (\<lambda>_. True)
     | None \<Rightarrow> Inr (\<lambda>_. True))"

definition has_tag_in :: "db \<Rightarrow> uuid list \<Rightarrow> contact_filter" where
  "has_tag_in s ids c \<longleftrightarrow> (\<exists>k \<in> set (contact_tags s). kt_contact_id k = con_id c \<and> kt_tag_id k \<in> set ids)"

definition has_interest_in :: "db \<Rightarrow> uuid list \<Rightarrow> contact_filter" where
  "has_interest_in s ids c \<longleftrightarrow> ids = [] \<or> (\<exists>k \<in> set (contact_interests s). ki_contact_id k = con_id c \<and> ki_interest_id k \<in> set ids)"

definition segment_clauses :: "(string \<Rightarrow> string \<Rightarrow> bool) \<Rightarrow> db \<Rightarrow> (string \<times> json) list \<Rightarrow> contact_filter outcome list" where
  "segment_clauses ilike s filters =
     [when_truthy filters ''organization_id'' (\<lambda>v. map_sum id (\<lambda>i c. con_organization_id c = i) (uuid_of_json v)),
      when_truthy filters ''channel_id'' (\<lambda>v. map_sum id (\<lambda>i c. con_channel_id c = i) (uuid_of_json v)),
      when_truthy filters ''country_code'' (\<lambda>v. Inr (\<lambda>c. text_value (Some v) \<noteq> None \<and> con_country_code c = text_value (Some v))),
      when_truthy filters ''search'' (\<lambda>v. Inr (search_matches ilike (py_str v))),
      when_truthy filters ''tag_ids'' (\<lambda>v. map_sum id (has_tag_in s) (uuids_of_json v)),
      when_truthy filters ''tag_id'' (\<lambda>v. map_sum id (\<lambda>i. has_tag_in s [i]) (uuid_of_json v)),
      when_truthy filters ''lifecycle_stage'' (\<lambda>v. Inr (\<lambda>c. con_lifecycle_stage c = py_str v)),
      Inr (\<lambda>c. map_of filters ''marketing_opt_in'' = Some (JBool True) \<longrightarrow> con_marketing_opt_in c),
      when_truthy filters ''reachability_status'' (\<lambda>v. Inr (\<lambda>c. map_option reachability_text (con_reachability_status c) = Some (py_str v))),
      Inr (\<lambda>c. map_of filters ''exclude_unreachable'' = Some (JBool True) \<longrightarrow> con_reachability_status c \<noteq> Some UNREACHABLE),
      when_truthy filters ''gender'' (\<lambda>v. Inr (\<lambda>c. con_gender c = py_str v)),
      when_truthy filters ''exclude_genders'' (\<lambda>v. map_sum id (\<lambda>xs c. con_gender c \<notin>
        set (filter (\<lambda>g. g \<in> {''male'', ''female'', ''unknown''}) (map py_str xs))) (iterate_json v)),
      when_truthy filters ''interest_ids'' (\<lambda>v. map_sum id (has_interest_in s) (uuids_of_json v))]"

text \<open>What the database refuses: the table of tags joined twice, and a country that is not a text.\<close>

definition query_error :: "(string \<times> json) list \<Rightarrow> py_error option" where
  "query_error filters =
     (if j_truthy (map_of filters ''tag_ids'') \<and> j_truthy (map_of filters ''tag_id'') then Some (OtherError ''ProgrammingError'')
      else if j_truthy (map_of filters ''country_code'') \<and> text_value (map_of filters ''country_code'') = None then Some (OtherError ''DBAPIError'')
      else None)"

definition run_segment_query :: "(string \<Rightarrow> string \<Rightarrow> bool) \<Rightarrow> uuid \<Rightarrow> (string \<times> json) list \<Rightarrow> nat \<Rightarrow> db \<Rightarrow> contact list outcome" where
  "run_segment_query ilike account_id filters limit s =
     (case all_outcomes id (segment_clauses ilike s filters) of
        Inl e \<Rightarrow> Inl e
      | Inr clauses \<Rightarrow>
          (case query_error filters of
             Some e \<Rightarrow> Inl e
           | None \<Rightarrow> Inr (take limit (filter (\<lambda>c. con_account_id c = account_id \<and> con_deleted_at c = None \<and> (\<forall>p \<in> set clauses. p c)) (contacts s)))))"

definition resolve_audience_contacts :: "(string \<Rightarrow> string \<Rightarrow> bool) \<Rightarrow> uuid \<Rightarrow> (string \<times> json) list \<Rightarrow> int \<Rightarrow> db \<Rightarrow> contact list outcome" where
  "resolve_audience_contacts ilike account_id filters limit s = run_segment_query ilike account_id filters (clamp_limit limit) s"

definition resolve_segment_contacts :: "(string \<Rightarrow> string \<Rightarrow> bool) \<Rightarrow> uuid \<Rightarrow> segment \<Rightarrow> uuid option \<Rightarrow> db \<Rightarrow> contact list outcome" where
  "resolve_segment_contacts ilike account_id segment channel_id s =
     (let filters = (case channel_id of None \<Rightarrow> seg_filter_json segment
        | Some i \<Rightarrow> dict_set ''channel_id'' (JStr (uuid_str i)) (seg_filter_json segment))
      in run_segment_query ilike account_id filters 5000 s)"

definition count_segment_contacts :: "(string \<Rightarrow> string \<Rightarrow> bool) \<Rightarrow> uuid \<Rightarrow> segment \<Rightarrow> db \<Rightarrow> nat outcome" where
  "count_segment_contacts ilike account_id segment s = map_sum id length (resolve_segment_contacts ilike account_id segment None s)"

section \<open>The list of contacts\<close>

record contact_query =
  cq_limit :: int
  cq_channel_id :: "uuid option"
  cq_organization_id :: "uuid option"
  cq_tag_id :: "uuid option"
  cq_segment_id :: "uuid option"
  cq_lifecycle_stage :: "string option"
  cq_q :: "string option"

definition stripped :: "string option \<Rightarrow> string option" where
  "stripped x = (case x of None \<Rightarrow> None | Some t \<Rightarrow> if py_strip t = [] then None else Some (py_strip t))"

definition segment_query_filters :: "contact_query \<Rightarrow> segment \<Rightarrow> (string \<times> json) list" where
  "segment_query_filters q g =
     (let put = (\<lambda>k v d. case v of None \<Rightarrow> d | Some x \<Rightarrow> dict_set k (JStr x) d)
      in put ''search'' (stripped (cq_q q)) (put ''tag_id'' (map_option uuid_str (cq_tag_id q))
           (put ''organization_id'' (map_option uuid_str (cq_organization_id q))
             (put ''channel_id'' (map_option uuid_str (cq_channel_id q)) (seg_filter_json g)))))"

definition is_in :: "'a \<Rightarrow> 'a list option \<Rightarrow> bool" where
  "is_in x scope \<longleftrightarrow> (case scope of None \<Rightarrow> True | Some xs \<Rightarrow> x \<in> set xs)"

definition plain_filter :: "(string \<Rightarrow> string \<Rightarrow> bool) \<Rightarrow> db \<Rightarrow> contact_query \<Rightarrow> uuid list option \<Rightarrow> uuid list option \<Rightarrow> contact_filter" where
  "plain_filter ilike s q chs orgs c \<longleftrightarrow>
     is_in (con_organization_id c) orgs \<and>
     (case cq_channel_id q of Some i \<Rightarrow> con_channel_id c = i | None \<Rightarrow> is_in (con_channel_id c) chs) \<and>
     is_in (con_organization_id c) (map_option (\<lambda>i. [i]) (cq_organization_id q)) \<and>
     (case cq_tag_id q of None \<Rightarrow> True | Some t \<Rightarrow> has_tag_in s [t] c) \<and>
     (case stripped (cq_lifecycle_stage q) of None \<Rightarrow> True | Some v \<Rightarrow> con_lifecycle_stage c = v) \<and>
     (case stripped (cq_q q) of None \<Rightarrow> True | Some v \<Rightarrow> search_matches ilike v c)"

definition select_contacts :: "(string \<Rightarrow> string \<Rightarrow> bool) \<Rightarrow> uuid \<Rightarrow> contact_query \<Rightarrow> uuid list option \<Rightarrow> uuid list option \<Rightarrow> db \<Rightarrow>
    contact list outcome" where
  "select_contacts ilike account_id q chs orgs s =
     (case cq_segment_id q of
        Some i \<Rightarrow>
          (case find (\<lambda>g. seg_id g = i) (segments s) of
             None \<Rightarrow> Inr []
           | Some g \<Rightarrow> if seg_account_id g \<noteq> account_id then Inr []
               else run_segment_query ilike account_id (segment_query_filters q g) (clamp_limit (cq_limit q)) s)
      | None \<Rightarrow>
          if orgs = Some [] then Inr []
          else if cq_channel_id q = None \<and> chs = Some [] then Inr []
          else Inr (take (clamp_limit (cq_limit q)) (filter (\<lambda>c. con_account_id c = account_id \<and> con_deleted_at c = None \<and>
             plain_filter ilike s q chs orgs c) (contacts s))))"

text \<open>A contact of unknown gender with a name gets the gender of the name on the way.\<close>

definition with_gender :: "(string option \<Rightarrow> string) \<Rightarrow> contact \<Rightarrow> contact" where
  "with_gender infer c = (if con_gender c = ''unknown'' \<and> nonempty (con_display_name c) then c\<lparr>con_gender := infer (con_display_name c)\<rparr> else c)"

definition list_contacts :: "(string option \<Rightarrow> string) \<Rightarrow> (string \<Rightarrow> string \<Rightarrow> bool) \<Rightarrow> uuid \<Rightarrow> contact_query \<Rightarrow> uuid list option \<Rightarrow>
    uuid list option \<Rightarrow> db \<Rightarrow> contact list outcome \<times> db" where
  "list_contacts infer ilike account_id q chs orgs s =
     (case select_contacts ilike account_id q chs orgs s of
        Inl e \<Rightarrow> (Inl e, s)
      | Inr cs \<Rightarrow> (let cs' = map (with_gender infer) cs in (Inr cs', if cs' \<noteq> cs then fold put_contact cs' s else s)))"

definition get_contacts :: "(string option \<Rightarrow> string) \<Rightarrow> (string \<Rightarrow> string \<Rightarrow> bool) \<Rightarrow> uuid \<Rightarrow> membership \<Rightarrow> contact_query \<Rightarrow> db \<Rightarrow>
    contact list outcome \<times> db" where
  "get_contacts infer ilike account_id m q s =
     (let chs = resolve_accessible_channel_ids s account_id m; orgs = resolve_accessible_organization_ids s m in
      if (case cq_channel_id q of None \<Rightarrow> False | Some i \<Rightarrow> \<not> is_in i chs) then (Inr [], s)
      else if (case cq_organization_id q of None \<Rightarrow> False | Some i \<Rightarrow> \<not> is_in i orgs) then (Inr [], s)
      else list_contacts infer ilike account_id q (if cq_channel_id q = None then chs else None)
             (if cq_organization_id q = None then orgs else None) s)"

section \<open>The scope of a list\<close>

lemma with_gender_fields [simp]:
  "con_account_id (with_gender infer c) = con_account_id c" "con_organization_id (with_gender infer c) = con_organization_id c"
  "con_channel_id (with_gender infer c) = con_channel_id c" "con_deleted_at (with_gender infer c) = con_deleted_at c"
  by (simp_all add: with_gender_def)

lemma listed_contacts: "list_contacts infer ilike a q chs orgs s = (Inr r, s') \<Longrightarrow>
    \<exists>cs. select_contacts ilike a q chs orgs s = Inr cs \<and> r = map (with_gender infer) cs"
  by (auto simp: list_contacts_def Let_def split: sum.splits)

lemma selected_in_scope:
  assumes "select_contacts ilike a q chs orgs s = Inr cs" "cq_segment_id q = None" "c \<in> set cs"
  shows "con_account_id c = a \<and> con_deleted_at c = None \<and> plain_filter ilike s q chs orgs c"
  using assms by (auto simp: select_contacts_def split: if_splits dest: in_set_takeD)

text \<open>Segments escape the scope of a member: a list of contacts without a segment holds only live contacts of the account, of channels and
  branches that the member may open; but a list for a segment, with no channel and no branch asked for, is the same for every
  member, whatever channels and branches the member may open.\<close>

theorem segment_escapes_scope:
  assumes "get_contacts infer ilike a m q s = (Inr r, s')"
  shows "(cq_segment_id q = None \<longrightarrow> (\<forall>c \<in> set r. con_account_id c = a \<and> con_deleted_at c = None \<and>
      is_in (con_channel_id c) (resolve_accessible_channel_ids s a m) \<and>
      is_in (con_organization_id c) (resolve_accessible_organization_ids s m))) \<and>
    (cq_segment_id q \<noteq> None \<and> cq_channel_id q = None \<and> cq_organization_id q = None \<longrightarrow>
      get_contacts infer ilike a m' q s = (Inr r, s'))"
proof (intro conjI impI ballI)
  fix c assume q: "cq_segment_id q = None" and c: "c \<in> set r"
  let ?chs = "resolve_accessible_channel_ids s a m"
  let ?orgs = "resolve_accessible_organization_ids s m"
  have "r \<noteq> []" using c by auto
  with assms have allowed: "case cq_channel_id q of None \<Rightarrow> True | Some i \<Rightarrow> is_in i ?chs"
    "case cq_organization_id q of None \<Rightarrow> True | Some i \<Rightarrow> is_in i ?orgs"
    by (auto simp: get_contacts_def Let_def split: if_splits option.splits)
  have "list_contacts infer ilike a q (if cq_channel_id q = None then ?chs else None) (if cq_organization_id q = None then ?orgs else None) s = (Inr r, s')"
    using assms \<open>r \<noteq> []\<close> by (auto simp: get_contacts_def Let_def split: if_splits)
  from listed_contacts [OF this] obtain cs where cs: "select_contacts ilike a q (if cq_channel_id q = None then ?chs else None)
      (if cq_organization_id q = None then ?orgs else None) s = Inr cs" "r = map (with_gender infer) cs" by blast
  from c cs(2) obtain c0 where c0: "c0 \<in> set cs" "c = with_gender infer c0" by auto
  note scope = selected_in_scope [OF cs(1) q c0(1)]
  show "con_account_id c = a" "con_deleted_at c = None" using scope by (simp_all add: c0(2))
  show "is_in (con_channel_id c) ?chs" "is_in (con_organization_id c) ?orgs"
    using scope allowed by (auto simp: c0(2) plain_filter_def is_in_def split: option.splits if_splits)
next
  assume q: "cq_segment_id q \<noteq> None \<and> cq_channel_id q = None \<and> cq_organization_id q = None"
  then obtain g where g: "cq_segment_id q = Some g" by auto
  have sel: "select_contacts ilike a q chs orgs s = select_contacts ilike a q None None s" for chs orgs
    unfolding select_contacts_def g option.case ..
  have "list_contacts infer ilike a q chs orgs s = list_contacts infer ilike a q None None s" for chs orgs
    unfolding list_contacts_def sel [of chs orgs] ..
  then show "get_contacts infer ilike a m' q s = (Inr r, s')"
    using q assms unfolding get_contacts_def Let_def by simp metis
qed

definition segment_query :: contact_query where
  "segment_query = \<lparr>cq_limit = 100, cq_channel_id = None, cq_organization_id = None, cq_tag_id = None, cq_segment_id = Some 60,
     cq_lifecycle_stage = None, cq_q = None\<rparr>"

definition segment_example :: db where
  "segment_example = empty_db\<lparr>contacts := [fresh_contact 5 ''96550000001''],
     segments := [\<lparr>seg_id = 60, seg_account_id = 1, seg_name = ''all'', seg_filter_json = []\<rparr>]\<rparr>"

lemma segment_escapes_scope_witness:
  "get_contacts (\<lambda>_. ''unknown'') (\<lambda>_ _. False) 1 (demo_membership AGENT None) segment_query segment_example =
      (Inr [fresh_contact 5 ''96550000001''], segment_example) \<and>
   \<not> is_in (con_channel_id (fresh_contact 5 ''96550000001'')) (resolve_accessible_channel_ids segment_example 1 (demo_membership AGENT None))"
proof
  have "select_contacts (\<lambda>_ _. False) 1 segment_query None None segment_example = Inr [fresh_contact 5 ''96550000001'']" by code_simp
  moreover have "resolve_accessible_channel_ids segment_example 1 (demo_membership OWNER None) = None"
    "resolve_accessible_organization_ids segment_example (demo_membership OWNER None) = None" by code_simp+
  moreover have "with_gender (\<lambda>_. ''unknown'') (fresh_contact 5 ''96550000001'') = fresh_contact 5 ''96550000001''"
    by (simp add: with_gender_def nonempty_def fresh_contact_def)
  ultimately have "get_contacts (\<lambda>_. ''unknown'') (\<lambda>_ _. False) 1 (demo_membership OWNER None) segment_query segment_example =
      (Inr [fresh_contact 5 ''96550000001''], segment_example)"
    by (simp add: get_contacts_def list_contacts_def segment_query_def)
  from segment_escapes_scope [OF this, of "demo_membership AGENT None"]
  show "get_contacts (\<lambda>_. ''unknown'') (\<lambda>_ _. False) 1 (demo_membership AGENT None) segment_query segment_example =
      (Inr [fresh_contact 5 ''96550000001''], segment_example)" by (simp add: segment_query_def)
  show "\<not> is_in (con_channel_id (fresh_contact 5 ''96550000001'')) (resolve_accessible_channel_ids segment_example 1 (demo_membership AGENT None))"
    by code_simp
qed

end
