(* ===== verification/ContactImport.thy ===== *)
theory ContactImport
  imports Contacts
begin

text \<open>
  The import of contacts from a spreadsheet (\<open>import_contacts_from_rows\<close> of \<open>services/contact_management.py\<close>) and what it means: the
  live contacts of a channel are a directory from phone numbers to details, and the import updates the directory row by row.
  A row holds what \<open>get_row_value\<close> finds for its five columns.
\<close>

section \<open>The import\<close>

record import_row =
  ir_phone :: string
  ir_name :: string
  ir_email :: string
  ir_language :: string
  ir_country :: string

definition row_country :: "import_row \<Rightarrow> string" where
  "row_country r = (if ir_country r = [] then ''KW'' else ir_country r)"

definition row_dial :: "import_row \<Rightarrow> string" where
  "row_dial r = (case map_of [(''KW'', ''965''), (''SA'', ''966''), (''AE'', ''971''), (''QA'', ''974''), (''BH'', ''973''), (''OM'', ''968'')]
     (py_upper (row_country r)) of None \<Rightarrow> ''965'' | Some d \<Rightarrow> d)"

definition row_email :: "import_row \<Rightarrow> string option" where
  "row_email r = (let raw = ir_email r in
     if raw \<noteq> [] \<and> CHR ''@'' \<in> set raw \<and> CHR ''.'' \<in> set (last (split_on (CHR ''@'') raw)) then Some raw else None)"

definition row_name :: "import_row \<Rightarrow> string option" where
  "row_name r = (if ir_name r = [] then None else Some (ir_name r))"

definition row_language :: "import_row \<Rightarrow> string" where
  "row_language r = (if ir_language r = [] then ''ar'' else ir_language r)"

definition row_country_code :: "import_row \<Rightarrow> string" where
  "row_country_code r = (if length (py_strip (row_country r)) \<ge> 2 then take 2 (py_upper (row_country r)) else ''KW'')"

definition row_phone :: "import_row \<Rightarrow> string" where
  "row_phone r = normalize_whatsapp_phone (Some (ir_phone r)) (row_dial r)"

definition imported_update :: "(string option \<Rightarrow> string) \<Rightarrow> import_row \<Rightarrow> contact \<Rightarrow> contact" where
  "imported_update infer r c =
     (let c1 = (case row_name r of None \<Rightarrow> c | Some n \<Rightarrow> c\<lparr>con_display_name := Some n, con_gender := infer (row_name r)\<rparr>);
          c2 = (case row_email r of None \<Rightarrow> c1 | e \<Rightarrow> c1\<lparr>con_email := e\<rparr>)
      in c2\<lparr>con_language := Some (row_language r), con_country_code := Some (row_country_code r)\<rparr>)"

definition imported_contact :: "(string option \<Rightarrow> string) \<Rightarrow> uuid \<Rightarrow> uuid \<Rightarrow> uuid \<Rightarrow> uuid \<Rightarrow> import_row \<Rightarrow> contact" where
  "imported_contact infer i account_id organization_id channel_id r =
     \<lparr>con_id = i, con_account_id = account_id, con_organization_id = organization_id, con_channel_id = channel_id,
      con_external_address = row_phone r, con_display_name = row_name r, con_email = row_email r, con_language = Some (row_language r),
      con_gender = infer (row_name r), con_country_code = Some (row_country_code r), con_marketing_opt_in = True,
      con_reachability_status = None, con_reachability_reason = None, con_delivery_failure_count = 0,
      con_last_delivery_failure_at = None, con_last_inbound_at = None, con_lifecycle_stage = ''lead'', con_deleted_at = None\<rparr>"

record import_state =
  im_committed :: db
  im_db :: db
  im_existing :: "string \<rightharpoonup> uuid"
  im_next :: nat
  im_created :: int
  im_existing_count :: int
  im_skipped :: int
  im_invalid :: int
  im_contact_ids :: "uuid list"
  im_batch :: nat

text \<open>Every hundred stored rows are committed.\<close>

definition end_of_row :: "import_state \<Rightarrow> import_state" where
  "end_of_row st = (if im_batch st + 1 \<ge> 100 then st\<lparr>im_committed := im_db st, im_batch := 0\<rparr> else st\<lparr>im_batch := im_batch st + 1\<rparr>)"

definition import_step :: "(string option \<Rightarrow> string) \<Rightarrow> (nat \<Rightarrow> uuid) \<Rightarrow> uuid \<Rightarrow> uuid \<Rightarrow> uuid \<Rightarrow> import_row \<Rightarrow> import_state \<Rightarrow> import_state outcome" where
  "import_step infer ids account_id organization_id channel_id r st =
     (if ir_phone r = [] then Inr (st\<lparr>im_skipped := im_skipped st + 1\<rparr>)
      else if row_phone r = [] then Inr (st\<lparr>im_invalid := im_invalid st + 1\<rparr>)
      else (case im_existing st (row_phone r) of
          Some i \<Rightarrow>
            (let st1 = st\<lparr>im_existing_count := im_existing_count st + 1\<rparr> in
             Inr (end_of_row (case get_contact_row (im_db st) i of
                 None \<Rightarrow> st1
               | Some c \<Rightarrow> st1\<lparr>im_db := put_contact (imported_update infer r c) (im_db st), im_contact_ids := im_contact_ids st @ [con_id c]\<rparr>)))
        | None \<Rightarrow>
            (let c = imported_contact infer (ids (im_next st)) account_id organization_id channel_id r in
             case insert_contact c (im_db st) of
               Inl e \<Rightarrow> Inl e
             | Inr s \<Rightarrow> Inr (end_of_row (st\<lparr>im_db := s, im_existing := (im_existing st)(row_phone r \<mapsto> con_id c), im_next := Suc (im_next st),
                 im_contact_ids := im_contact_ids st @ [con_id c], im_created := im_created st + 1\<rparr>)))))"

record import_report =
  rep_created :: int
  rep_existing :: int
  rep_skipped :: int
  rep_invalid :: int
  rep_contact_ids :: "uuid list"

fun import_loop :: "(string option \<Rightarrow> string) \<Rightarrow> (nat \<Rightarrow> uuid) \<Rightarrow> uuid \<Rightarrow> uuid \<Rightarrow> uuid \<Rightarrow> import_row list \<Rightarrow> import_state \<Rightarrow>
    import_report outcome \<times> db" where
  "import_loop infer ids a o' ch [] st = (Inr \<lparr>rep_created = im_created st, rep_existing = im_existing_count st, rep_skipped = im_skipped st,
     rep_invalid = im_invalid st, rep_contact_ids = im_contact_ids st\<rparr>, im_db st)"
| "import_loop infer ids a o' ch (r # rs) st = (case import_step infer ids a o' ch r st of
       Inl e \<Rightarrow> (Inl e, im_committed st) | Inr st' \<Rightarrow> import_loop infer ids a o' ch rs st')"

definition import_contacts_from_rows :: "(string option \<Rightarrow> string) \<Rightarrow> (nat \<Rightarrow> uuid) \<Rightarrow> uuid \<Rightarrow> uuid \<Rightarrow> uuid \<Rightarrow> import_row list \<Rightarrow> db \<Rightarrow>
    import_report outcome \<times> db" where
  "import_contacts_from_rows infer ids account_id organization_id channel_id rows s =
     (case channel_error s account_id organization_id channel_id of
        Some e \<Rightarrow> (Inl (ValueError e), s)
      | None \<Rightarrow>
          (let live = filter (\<lambda>c. con_organization_id c = organization_id \<and> con_channel_id c = channel_id \<and> con_deleted_at c = None) (contacts s);
               existing = map_of (rev (map (\<lambda>c. (con_external_address c, con_id c)) live))
           in import_loop infer ids account_id organization_id channel_id rows
             \<lparr>im_committed = s, im_db = s, im_existing = existing, im_next = 0, im_created = 0, im_existing_count = 0, im_skipped = 0,
              im_invalid = 0, im_contact_ids = [], im_batch = 0\<rparr>))"

section \<open>The directory of a channel\<close>

record entry =
  en_name :: "string option"
  en_email :: "string option"
  en_language :: "string option"
  en_country :: "string option"

definition entry_of :: "contact \<Rightarrow> entry" where
  "entry_of c = \<lparr>en_name = con_display_name c, en_email = con_email c, en_language = con_language c, en_country = con_country_code c\<rparr>"

definition lookup_contact :: "db \<Rightarrow> uuid \<times> uuid \<times> string \<Rightarrow> contact option" where
  "lookup_contact s k = find (\<lambda>c. contact_key c = k \<and> con_deleted_at c = None) (contacts s)"

definition directory :: "db \<Rightarrow> uuid \<Rightarrow> uuid \<Rightarrow> string \<rightharpoonup> entry" where
  "directory s organization_id channel_id phone = map_option entry_of (lookup_contact s (organization_id, channel_id, phone))"

text \<open>What one row means for a directory.\<close>

definition merge_entry :: "import_row \<Rightarrow> entry option \<Rightarrow> entry" where
  "merge_entry r old =
     \<lparr>en_name = (case row_name r of Some n \<Rightarrow> Some n | None \<Rightarrow> (case old of None \<Rightarrow> None | Some e \<Rightarrow> en_name e)),
      en_email = (case row_email r of Some m \<Rightarrow> Some m | None \<Rightarrow> (case old of None \<Rightarrow> None | Some e \<Rightarrow> en_email e)),
      en_language = Some (row_language r), en_country = Some (row_country_code r)\<rparr>"

definition upsert :: "import_row \<Rightarrow> (string \<rightharpoonup> entry) \<Rightarrow> (string \<rightharpoonup> entry)" where
  "upsert r d = (if ir_phone r = [] \<or> row_phone r = [] then d else d(row_phone r \<mapsto> merge_entry r (d (row_phone r))))"

section \<open>Simulation\<close>

definition rows_unique :: "db \<Rightarrow> bool" where
  "rows_unique s \<longleftrightarrow> distinct (map contact_key (contacts s)) \<and> distinct (map con_id (contacts s))"

definition import_inv :: "(nat \<Rightarrow> uuid) \<Rightarrow> uuid \<Rightarrow> uuid \<Rightarrow> import_state \<Rightarrow> bool" where
  "import_inv ids o' ch st \<longleftrightarrow> rows_unique (im_db st) \<and> (\<forall>n \<ge> im_next st. ids n \<notin> con_id ` set (contacts (im_db st))) \<and>
     (\<forall>p. im_existing st p = map_option con_id (lookup_contact (im_db st) (o', ch, p)))"

lemma updated_key [simp]: "contact_key (imported_update infer r c) = contact_key c" "con_id (imported_update infer r c) = con_id c"
  "con_deleted_at (imported_update infer r c) = con_deleted_at c"
  by (simp_all add: imported_update_def contact_key_def Let_def split: option.split)

lemma lookup_in: "lookup_contact s k = Some c \<Longrightarrow> c \<in> set (contacts s) \<and> contact_key c = k \<and> con_deleted_at c = None"
  by (auto simp: lookup_contact_def find_Some_iff)

lemma lookup_unique:
  assumes "rows_unique s" "c \<in> set (contacts s)" "con_deleted_at c = None"
  shows "lookup_contact s (contact_key c) = Some c"
proof (cases "lookup_contact s (contact_key c)")
  case None
  then show ?thesis using assms(2,3) by (auto simp: lookup_contact_def find_None_iff)
next
  case (Some d)
  then have "d \<in> set (contacts s)" "contact_key d = contact_key c" using lookup_in by auto
  then have "d = c" using assms(1,2) by (auto simp: rows_unique_def distinct_map dest: inj_onD)
  then show ?thesis using Some by simp
qed

text \<open>Writing back a live row with its key changes the lookup at this key alone.\<close>

lemma lookup_put:
  assumes "rows_unique s" "c \<in> set (contacts s)" "con_deleted_at c = None"
    and "con_id c' = con_id c" "contact_key c' = contact_key c" "con_deleted_at c' = None"
  shows "lookup_contact (put_contact c' s) k = (if k = contact_key c then Some c' else lookup_contact s k)"
    "rows_unique (put_contact c' s)" "con_id ` set (contacts (put_contact c' s)) = con_id ` set (contacts s)"
proof -
  have one: "d = c" if "d \<in> set (contacts s)" "con_id d = con_id c" for d
    using that assms(1,2) by (auto simp: rows_unique_def distinct_map dest: inj_onD)
  have map: "contacts (put_contact c' s) = map (\<lambda>d. if con_id d = con_id c then c' else d) (contacts s)"
    by (simp add: put_contact_def tbl_put_def assms(4))
  have keys: "map contact_key (contacts (put_contact c' s)) = map contact_key (contacts s)"
    and ids: "map con_id (contacts (put_contact c' s)) = map con_id (contacts s)"
    unfolding map using one assms(4,5) by auto
  show u: "rows_unique (put_contact c' s)" using assms(1) unfolding rows_unique_def keys ids .
  show "con_id ` set (contacts (put_contact c' s)) = con_id ` set (contacts s)" using ids by (metis list.set_map)
  have c': "c' \<in> set (contacts (put_contact c' s))" unfolding map using assms(2) by force
  show "lookup_contact (put_contact c' s) k = (if k = contact_key c then Some c' else lookup_contact s k)"
  proof (cases "k = contact_key c")
    case True
    then show ?thesis using lookup_unique [OF u c' assms(6)] assms(5) by simp
  next
    case False
    have "find (\<lambda>d. contact_key d = k \<and> con_deleted_at d = None) (map (\<lambda>d. if con_id d = con_id c then c' else d) ds) =
        find (\<lambda>d. contact_key d = k \<and> con_deleted_at d = None) ds" if "set ds \<subseteq> set (contacts s)" for ds
      using that one False assms(5) by (induction ds) auto
    from this [OF subset_refl] show ?thesis using False unfolding lookup_contact_def map by simp
  qed
qed

lemma find_append_case: "find Q (xs @ ys) = (case find Q xs of None \<Rightarrow> find Q ys | Some x \<Rightarrow> Some x)"
  by (induction xs) auto

lemma map_of_rev_keys: "distinct (map fst xs) \<Longrightarrow> map_of (rev xs) = map_of xs"
  by (subst map_of_inject_set) (simp_all add: rev_map [symmetric])

lemma lookup_insert:
  assumes "insert_contact c s = Inr s'" "rows_unique s" "con_id c \<notin> con_id ` set (contacts s)" "con_deleted_at c = None"
  shows "lookup_contact s' k = (if k = contact_key c then Some c else lookup_contact s k)" "rows_unique s'"
    "con_id ` set (contacts s') = insert (con_id c) (con_id ` set (contacts s))" "lookup_contact s (contact_key c) = None"
proof -
  have s': "contacts s' = contacts s @ [c]" and free: "contact_key c \<notin> contact_key ` set (contacts s)"
    using assms(1) by (auto simp: insert_contact_def split: if_splits)
  show u: "rows_unique s'" using assms(2,3) free by (auto simp: rows_unique_def s')
  show "con_id ` set (contacts s') = insert (con_id c) (con_id ` set (contacts s))" by (auto simp: s')
  show "lookup_contact s (contact_key c) = None"
  proof (cases "lookup_contact s (contact_key c)")
    case (Some d)
    then have "d \<in> set (contacts s)" "contact_key c = contact_key d" using lookup_in by auto
    then have "contact_key c \<in> contact_key ` set (contacts s)" by (intro image_eqI)
    then show ?thesis using free by blast
  qed simp
  show "lookup_contact s' k = (if k = contact_key c then Some c else lookup_contact s k)"
  proof (cases "k = contact_key c")
    case True
    then show ?thesis using lookup_unique [OF u, of c] assms(4) by (simp add: s')
  next
    case False
    then show ?thesis by (simp add: lookup_contact_def s' find_append_case split: option.split)
  qed
qed

lemma end_of_row_fields [simp]:
  "im_db (end_of_row st) = im_db st" "im_existing (end_of_row st) = im_existing st" "im_next (end_of_row st) = im_next st"
  by (simp_all add: end_of_row_def)

lemma entry_updated: "entry_of (imported_update infer r c) = merge_entry r (Some (entry_of c))"
  by (simp add: entry_of_def imported_update_def merge_entry_def Let_def split: option.split)

lemma entry_imported: "entry_of (imported_contact infer i a o' ch r) = merge_entry r None"
  by (simp add: entry_of_def imported_contact_def merge_entry_def split: option.split)

lemma import_step_refines:
  assumes "import_inv ids o' ch st" "inj ids" "import_step infer ids a o' ch r st = Inr st'"
  shows "import_inv ids o' ch st'" "directory (im_db st') o' ch = upsert r (directory (im_db st) o' ch)"
    "(oo, cc) \<noteq> (o', ch) \<Longrightarrow> directory (im_db st') oo cc = directory (im_db st) oo cc"
proof -
  note inv = assms(1) [unfolded import_inv_def]
  have "import_inv ids o' ch st' \<and> directory (im_db st') o' ch = upsert r (directory (im_db st) o' ch) \<and>
    ((oo, cc) \<noteq> (o', ch) \<longrightarrow> directory (im_db st') oo cc = directory (im_db st) oo cc)"
  proof (cases "ir_phone r = [] \<or> row_phone r = []")
    case True
    then have "im_db st' = im_db st" "im_existing st' = im_existing st" "im_next st' = im_next st"
      using assms(3) by (auto simp: import_step_def split: if_splits)
    then show ?thesis using True assms(1) by (simp add: import_inv_def upsert_def)
  next
    case False
    show ?thesis
    proof (cases "lookup_contact (im_db st) (o', ch, row_phone r)")
      case (Some c)
      have c: "c \<in> set (contacts (im_db st))" "contact_key c = (o', ch, row_phone r)" "con_deleted_at c = None" using lookup_in [OF Some] by simp_all
      have ex: "im_existing st (row_phone r) = Some (con_id c)" using inv Some by simp
      have u: "rows_unique (im_db st)" using inv by simp
      have row: "get_contact_row (im_db st) (con_id c) = Some c"
        using tbl_get_distinct [of con_id "contacts (im_db st)" c] u c(1) by (simp add: rows_unique_def get_contact_row_def)
      have st': "im_db st' = put_contact (imported_update infer r c) (im_db st)" "im_existing st' = im_existing st" "im_next st' = im_next st"
        using assms(3) False by (auto simp: import_step_def ex row Let_def)
      note put = lookup_put [OF u c(1,3), of "imported_update infer r c", simplified, OF c(3), unfolded c(2)]
      have "import_inv ids o' ch st'" using inv put Some by (auto simp: import_inv_def st' split: if_splits)
      moreover have "directory (im_db st') o' ch = upsert r (directory (im_db st) o' ch)"
        using False Some by (simp add: fun_eq_iff directory_def st' put(1) upsert_def entry_updated)
      moreover have "(oo, cc) \<noteq> (o', ch) \<longrightarrow> directory (im_db st') oo cc = directory (im_db st) oo cc"
        by (auto simp: fun_eq_iff directory_def st' put(1))
      ultimately show ?thesis by blast
    next
      case None
      define c where "c = imported_contact infer (ids (im_next st)) a o' ch r"
      have k: "contact_key c = (o', ch, row_phone r)" "con_deleted_at c = None" "con_id c = ids (im_next st)"
        by (simp_all add: c_def imported_contact_def contact_key_def)
      have ex: "im_existing st (row_phone r) = None" using inv None by simp
      obtain s where s: "insert_contact c (im_db st) = Inr s" "im_db st' = s" "im_existing st' = (im_existing st)(row_phone r \<mapsto> con_id c)"
        "im_next st' = Suc (im_next st)"
        using assms(3) False by (auto simp: import_step_def ex c_def [symmetric] Let_def split: sum.splits)
      have fresh: "con_id c \<notin> con_id ` set (contacts (im_db st))" using inv k(3) by auto
      have u: "rows_unique (im_db st)" using inv by simp
      note ins = lookup_insert [OF s(1) u fresh k(2), unfolded k(1)]
      have next_ids: "ids n \<notin> con_id ` set (contacts s)" if "n \<ge> Suc (im_next st)" for n
        using that inv assms(2) by (auto simp: ins(3) k(3) dest: injD)
      have "import_inv ids o' ch st'" using inv ins(1,2) next_ids by (auto simp: import_inv_def s)
      moreover have "directory (im_db st') o' ch = upsert r (directory (im_db st) o' ch)"
        using False None by (simp add: fun_eq_iff directory_def s(2) ins(1) upsert_def c_def entry_imported)
      moreover have "(oo, cc) \<noteq> (o', ch) \<longrightarrow> directory (im_db st') oo cc = directory (im_db st) oo cc"
        by (auto simp: fun_eq_iff directory_def s(2) ins(1))
      ultimately show ?thesis by blast
    qed
  qed
  then show "import_inv ids o' ch st'" "directory (im_db st') o' ch = upsert r (directory (im_db st) o' ch)"
    "(oo, cc) \<noteq> (o', ch) \<Longrightarrow> directory (im_db st') oo cc = directory (im_db st) oo cc" by blast+
qed

lemma import_loop_refines:
  assumes "import_inv ids o' ch st" "inj ids" "import_loop infer ids a o' ch rs st = (Inr report, s')"
  shows "directory s' o' ch = fold upsert rs (directory (im_db st) o' ch) \<and>
    ((oo, cc) \<noteq> (o', ch) \<longrightarrow> directory s' oo cc = directory (im_db st) oo cc)"
  using assms(1,3)
proof (induction rs arbitrary: st)
  case (Cons r rs)
  then obtain st' where st': "import_step infer ids a o' ch r st = Inr st'" by (auto split: sum.splits)
  note step = import_step_refines [OF Cons.prems(1) assms(2) st']
  from Cons.IH [OF step(1)] Cons.prems(2) st' step(2,3) show ?case by simp
qed simp

lemma distinct_of_map: "distinct (map f xs) \<Longrightarrow> distinct xs"
  by (simp only: distinct_map)

lemma initial_existing:
  assumes "rows_unique s"
  shows "map_of (rev (map (\<lambda>c. (con_external_address c, con_id c))
      (filter (\<lambda>c. con_organization_id c = o' \<and> con_channel_id c = ch \<and> con_deleted_at c = None) (contacts s)))) p =
    map_option con_id (lookup_contact s (o', ch, p))"
proof -
  let ?live = "filter (\<lambda>c. con_organization_id c = o' \<and> con_channel_id c = ch \<and> con_deleted_at c = None) (contacts s)"
  have "distinct (map contact_key (contacts s))" using assms by (simp add: rows_unique_def)
  then have "distinct (map contact_key ?live)" by (rule distinct_map_filter)
  moreover have "map contact_key ?live = map (\<lambda>a. (o', ch, a)) (map con_external_address ?live)" by (simp add: contact_key_def)
  ultimately have "distinct (map (\<lambda>a. (o', ch, a)) (map con_external_address ?live))" by argo
  then have "distinct (map con_external_address ?live)" by (rule distinct_of_map)
  then have "map_of (rev (map (\<lambda>c. (con_external_address c, con_id c)) ?live)) = map_of (map (\<lambda>c. (con_external_address c, con_id c)) ?live)"
    by (intro map_of_rev_keys) (simp add: comp_def)
  moreover have "map_of (map (\<lambda>c. (con_external_address c, con_id c)) (filter (\<lambda>c. con_organization_id c = o' \<and> con_channel_id c = ch \<and> con_deleted_at c = None) xs)) p =
      map_option con_id (find (\<lambda>c. contact_key c = (o', ch, p) \<and> con_deleted_at c = None) xs)" for xs
    by (induction xs) (auto simp: contact_key_def)
  ultimately show ?thesis by (simp add: lookup_contact_def)
qed

text \<open>C24. The import refines updates of a directory: for unique rows and fresh ids, an import that returns changes the directory of its channel, from phone
  numbers to names, addresses, languages and countries, exactly as updating it row by row does, where a blank name or an address
  without a domain keeps the old one; and no other channel's directory changes.\<close>

theorem import_refines_directory:
  assumes "rows_unique s" "inj ids" "\<And>n. ids n \<notin> con_id ` set (contacts s)"
    and "import_contacts_from_rows infer ids account_id organization_id channel_id rows s = (Inr report, s')"
  shows "directory s' organization_id channel_id = fold upsert rows (directory s organization_id channel_id) \<and>
    ((oo, cc) \<noteq> (organization_id, channel_id) \<longrightarrow> directory s' oo cc = directory s oo cc)"
proof -
  define st where "st = \<lparr>im_committed = s, im_db = s, im_existing = map_of (rev (map (\<lambda>c. (con_external_address c, con_id c))
      (filter (\<lambda>c. con_organization_id c = organization_id \<and> con_channel_id c = channel_id \<and> con_deleted_at c = None) (contacts s)))),
    im_next = 0, im_created = 0, im_existing_count = 0, im_skipped = 0, im_invalid = 0, im_contact_ids = [], im_batch = 0\<rparr>"
  have "import_inv ids organization_id channel_id st"
    using assms(1,3) initial_existing [OF assms(1)] by (simp add: import_inv_def st_def)
  moreover have "import_loop infer ids account_id organization_id channel_id rows st = (Inr report, s')"
    using assms(4) by (simp add: import_contacts_from_rows_def st_def Let_def split: option.splits)
  ultimately show ?thesis using import_loop_refines [OF _ assms(2)] by (fastforce simp: st_def)
qed

definition import_example :: db where
  "import_example = empty_db\<lparr>channels := [demo_channel 3 None], contacts := [fresh_contact 5 ''96650000001'']\<rparr>"

definition sheet_row :: "string \<Rightarrow> string \<Rightarrow> import_row" where
  "sheet_row phone name = \<lparr>ir_phone = phone, ir_name = name, ir_email = [], ir_language = [], ir_country = ''SA''\<rparr>"

lemma import_refines_directory_witness:
  "\<exists>report s'. import_contacts_from_rows (\<lambda>_. ''unknown'') (\<lambda>n. 100 + n) 1 2 3 [sheet_row ''50000001'' ''Noura'', sheet_row '''' ''x'']
       import_example = (Inr report, s') \<and>
     directory s' 2 3 = fold upsert [sheet_row ''50000001'' ''Noura'', sheet_row '''' ''x''] (directory import_example 2 3)"
proof -
  let ?rows = "[sheet_row ''50000001'' ''Noura'', sheet_row '''' ''x'']"
  let ?run = "import_contacts_from_rows (\<lambda>_. ''unknown'') (\<lambda>n. 100 + n) 1 2 3 ?rows import_example"
  have "rows_unique import_example" by code_simp
  moreover have "inj (\<lambda>n::nat. 100 + n)" by simp
  moreover have "(100 + n :: nat) \<notin> con_id ` set (contacts import_example)" for n by (simp add: import_example_def fresh_contact_def)
  moreover have "\<not> isl (fst ?run)" by code_simp
  then obtain report s' where "?run = (Inr report, s')" by (metis isl_def prod.collapse sum.exhaust)
  ultimately show ?thesis
    using import_refines_directory [of import_example "\<lambda>n. 100 + n" "\<lambda>_. ''unknown''" 1 2 3 ?rows report s' 0 0] by blast
qed

end
