(* ===== verification/Conversations.thy ===== *)
theory Conversations
  imports Contacts
begin

text \<open>
  The inbox: \<open>services/conversations.py\<close>, \<open>inbox_extended.py\<close>, \<open>inbox_tools.py\<close>, \<open>sla_monitor.py\<close>, the service window of
  \<open>whatsapp_window.py\<close>, the start of a conversation in \<open>contact_management.py\<close>, and the list route of \<open>api/routes/conversations.py\<close>.
  Rows are listed by their last message, newest first, and in the order of the table where the times are equal; PostgreSQL lists rows
  without a time first.  The latest message of a conversation is the one with the greatest \<open>created_at\<close>.
  ISO texts of times, the answer of Meta to a read receipt, and titles of notifications are left out or parameters.
\<close>

section \<open>The service window\<close>

record service_window =
  sw_last_inbound_at :: "datetime option"
  sw_open :: bool
  sw_expires_at :: "datetime option"
  sw_requires_template :: bool

definition SERVICE_WINDOW_HOURS :: int where
  "SERVICE_WINDOW_HOURS = 24"

definition compute_service_window :: "datetime \<Rightarrow> datetime option \<Rightarrow> service_window" where
  "compute_service_window now last_inbound_at =
     (case last_inbound_at of
        None \<Rightarrow> \<lparr>sw_last_inbound_at = None, sw_open = False, sw_expires_at = None, sw_requires_template = True\<rparr>
      | Some t \<Rightarrow>
          (let expires_at = t + hours SERVICE_WINDOW_HOURS; window_open = now < expires_at
           in \<lparr>sw_last_inbound_at = Some t, sw_open = window_open, sw_expires_at = (if window_open then Some expires_at else None),
               sw_requires_template = (\<not> window_open)\<rparr>))"

definition inbound_times :: "db \<Rightarrow> uuid \<Rightarrow> datetime list" where
  "inbound_times s conversation_id = map msg_created_at
     (filter (\<lambda>m. msg_conversation_id m = Some conversation_id \<and> msg_direction m = INBOUND) (messages s))"

definition get_last_inbound_for_conversation :: "db \<Rightarrow> uuid \<Rightarrow> datetime option" where
  "get_last_inbound_for_conversation s conversation_id =
     (case inbound_times s conversation_id of [] \<Rightarrow> None | t # ts \<Rightarrow> Some (fold max ts t))"

definition get_last_inbound_by_conversation :: "db \<Rightarrow> uuid list \<Rightarrow> uuid \<rightharpoonup> datetime" where
  "get_last_inbound_by_conversation s conversation_ids =
     (\<lambda>i. if i \<in> set conversation_ids then get_last_inbound_for_conversation s i else None)"

section \<open>Who sees a conversation\<close>

text \<open>Three checks: with and without the mark of deletion, and the one that a send or a list of messages makes.\<close>

definition own_conversation :: "db \<Rightarrow> uuid \<Rightarrow> uuid \<Rightarrow> conversation outcome" where
  "own_conversation s account_id conversation_id =
     (case get_conversation_row s conversation_id of
        None \<Rightarrow> Inl (ValueError ''CONVERSATION_NOT_FOUND'')
      | Some c \<Rightarrow> if conv_account_id c \<noteq> account_id then Inl (ValueError ''CONVERSATION_NOT_FOUND'') else Inr c)"

definition live_conversation :: "db \<Rightarrow> uuid \<Rightarrow> uuid \<Rightarrow> conversation outcome" where
  "live_conversation s account_id conversation_id =
     (case get_conversation_row s conversation_id of
        None \<Rightarrow> Inl (ValueError ''CONVERSATION_NOT_FOUND'')
      | Some c \<Rightarrow> if conv_account_id c \<noteq> account_id \<or> conv_deleted_at c \<noteq> None then Inl (ValueError ''CONVERSATION_NOT_FOUND'') else Inr c)"

definition limited_to_assigned_conversations :: "membership \<Rightarrow> bool" where
  "limited_to_assigned_conversations m \<longleftrightarrow> mem_role m = VIEWER"

definition get_conversation_for_send :: "db \<Rightarrow> uuid \<Rightarrow> uuid \<Rightarrow> membership \<Rightarrow> conversation outcome" where
  "get_conversation_for_send s account_id conversation_id m =
     (case live_conversation s account_id conversation_id of
        Inl e \<Rightarrow> Inl e
      | Inr c \<Rightarrow>
          if limited_to_assigned_conversations m \<and> conv_assigned_membership_id c \<noteq> Some (mem_id m)
          then Inl (ValueError ''CONVERSATION_FORBIDDEN'')
          else map_sum id (\<lambda>_. c) (ensure_membership_channel_access s account_id m (conv_channel_id c)))"

definition list_messages :: "db \<Rightarrow> uuid \<Rightarrow> uuid \<Rightarrow> membership \<Rightarrow> message list outcome" where
  "list_messages s account_id conversation_id m =
     (case get_conversation_for_send s account_id conversation_id m of
        Inl e \<Rightarrow> Inl e
      | Inr _ \<Rightarrow> Inr (sort_key msg_created_at (filter (\<lambda>x. msg_conversation_id x = Some conversation_id) (messages s))))"

record conversation_query =
  lq_limit :: int
  lq_include_archived :: bool
  lq_archived_only :: bool
  lq_starred_only :: bool
  lq_channel_id :: "uuid option"

definition latest_message :: "db \<Rightarrow> uuid \<Rightarrow> message option" where
  "latest_message s conversation_id =
     (case sort_key msg_created_at (filter (\<lambda>m. msg_conversation_id m = Some conversation_id) (messages s)) of [] \<Rightarrow> None | ms \<Rightarrow> Some (last ms))"

definition find_read_state :: "db \<Rightarrow> uuid \<Rightarrow> uuid \<Rightarrow> conversation_read_state option" where
  "find_read_state s conversation_id membership_id =
     find (\<lambda>r. crs_conversation_id r = conversation_id \<and> crs_membership_id r = membership_id) (read_states s)"

definition matches_query :: "datetime \<Rightarrow> uuid \<Rightarrow> membership \<Rightarrow> conversation_query \<Rightarrow> db \<Rightarrow> conversation \<Rightarrow> bool" where
  "matches_query now account_id m q s c \<longleftrightarrow>
     conv_account_id c = account_id \<and> conv_deleted_at c = None \<and>
     (if lq_archived_only q then conv_archived_at c \<noteq> None else lq_include_archived q \<or> conv_archived_at c = None) \<and>
     (case conv_snoozed_until c of None \<Rightarrow> True | Some t \<Rightarrow> t \<le> now) \<and>
     (lq_starred_only q \<longrightarrow> conv_is_starred c) \<and>
     (case resolve_accessible_channel_ids s account_id m of None \<Rightarrow> True | Some accessible \<Rightarrow> conv_channel_id c \<in> set accessible) \<and>
     (case lq_channel_id q of None \<Rightarrow> True | Some ch \<Rightarrow> conv_channel_id c = ch) \<and>
     (limited_to_assigned_conversations m \<longrightarrow> conv_assigned_membership_id c = Some (mem_id m))"

text \<open>\<open>ORDER BY last_message_at DESC\<close>: no time comes first.\<close>

definition by_last_message :: "(conversation \<times> 'a) list \<Rightarrow> (conversation \<times> 'a) list" where
  "by_last_message rows =
     (let time = (\<lambda>r. conv_last_message_at (fst r))
      in filter (\<lambda>r. time r = None) rows @
         sort_key (\<lambda>r. case time r of None \<Rightarrow> 0 | Some t \<Rightarrow> - t) (filter (\<lambda>r. time r \<noteq> None) rows))"

definition list_conversations :: "datetime \<Rightarrow> uuid \<Rightarrow> membership \<Rightarrow> conversation_query \<Rightarrow> db \<Rightarrow> (conversation \<times> contact \<times> message option \<times> int) list" where
  "list_conversations now account_id m q s =
     (if (case (resolve_accessible_channel_ids s account_id m, lq_channel_id q) of (Some accessible, Some ch) \<Rightarrow> ch \<notin> set accessible | _ \<Rightarrow> False)
      then []
      else take (clamp_limit (lq_limit q)) (by_last_message (List.map_filter (\<lambda>c.
        (case get_contact_row s (conv_contact_id c) of
           None \<Rightarrow> None
         | Some k \<Rightarrow>
             if con_deleted_at k = None \<and> matches_query now account_id m q s c
             then Some (c, k, latest_message s (conv_id c),
               (case find_read_state s (conv_id c) (mem_id m) of None \<Rightarrow> 0 | Some r \<Rightarrow> crs_unread_count r))
             else None)) (conversations s))))"

section \<open>Responses\<close>

record conversation_response =
  cr_conversation :: conversation
  cr_contact_name :: "string option"
  cr_contact_address :: string
  cr_last_message_text :: "string option"
  cr_last_message_status :: "message_status option"
  cr_last_message_direction :: "message_direction option"
  cr_unread_count :: int
  cr_window :: service_window
  cr_needs_reply :: bool
  cr_waiting_minutes :: "int option"

definition awaits_reply :: "conversation \<Rightarrow> message option \<Rightarrow> bool" where
  "awaits_reply c message \<longleftrightarrow> (case message of None \<Rightarrow> False
     | Some m \<Rightarrow> msg_direction m = INBOUND \<and> conv_status c \<in> {ConvOpen, ConvPending} \<and> conv_archived_at c = None)"

definition build_conversation_response :: "datetime \<Rightarrow> conversation \<Rightarrow> contact \<Rightarrow> message option \<Rightarrow> int \<Rightarrow> datetime option \<Rightarrow> conversation_response" where
  "build_conversation_response now c k message unread last_inbound_at =
     \<lparr>cr_conversation = c, cr_contact_name = con_display_name k, cr_contact_address = con_external_address k,
      cr_last_message_text = (case message of None \<Rightarrow> None | Some m \<Rightarrow> msg_text_body m),
      cr_last_message_status = map_option msg_status message, cr_last_message_direction = map_option msg_direction message,
      cr_unread_count = unread, cr_window = compute_service_window now last_inbound_at,
      cr_needs_reply = awaits_reply c message,
      cr_waiting_minutes = (if awaits_reply c message then map_option (\<lambda>t. max 0 ((now - t) div minutes 1)) (conv_last_message_at c) else None)\<rparr>"

text \<open>The address is masked for a member who may not see contacts in full.\<close>

definition can_view_full_contact :: "membership_role \<Rightarrow> permission set \<Rightarrow> bool" where
  "can_view_full_contact role permissions \<longleftrightarrow> role \<in> {OWNER, ADMIN, MANAGER} \<or> CONTACTS_EDIT \<in> permissions"

definition mask_phone :: "string \<Rightarrow> string" where
  "mask_phone v = (let digits = filter is_digit v in
     if v = [] then [] else if length digits < 6 then ''***'' else take 3 digits @ ''***'' @ drop (length digits - 2) digits)"

definition mask_response :: "db \<Rightarrow> uuid \<Rightarrow> membership \<Rightarrow> conversation_response \<Rightarrow> conversation_response" where
  "mask_response s account_id m r =
     (if \<not> (case map_of (get_feature_flags s account_id) ''privacy_mask_agents'' of None \<Rightarrow> True | Some b \<Rightarrow> b) then r
      else if can_view_full_contact (mem_role m) {p \<in> set ALL_PERMISSIONS. role_has_permission (mem_role m) p} then r
      else r\<lparr>cr_contact_address := mask_phone (cr_contact_address r)\<rparr>)"

definition get_conversations :: "datetime \<Rightarrow> uuid \<Rightarrow> membership \<Rightarrow> int \<Rightarrow> bool \<Rightarrow> bool \<Rightarrow> uuid option \<Rightarrow> db \<Rightarrow> conversation_response list" where
  "get_conversations now account_id m limit starred archived channel_id s =
     (let rows = list_conversations now account_id m \<lparr>lq_limit = limit, lq_include_archived = archived, lq_archived_only = archived,
            lq_starred_only = starred, lq_channel_id = channel_id\<rparr> s;
          last_inbound = get_last_inbound_by_conversation s (map (\<lambda>r. conv_id (fst r)) rows)
      in map (\<lambda>(c, k, message, unread). mask_response s account_id m (build_conversation_response now c k message unread (last_inbound (conv_id c)))) rows)"

end
