(* ===== verification/ConversationUpdates.thy ===== *)
theory ConversationUpdates
  imports Conversations
begin

text \<open>
  The operations that change conversations: the update of \<open>services/conversations.py\<close>, read states, stars, snoozing and archiving of
  \<open>services/inbox_extended.py\<close>, tags and notes of \<open>services/inbox_tools.py\<close>, deadlines of \<open>services/sla_monitor.py\<close>, and the start of a
  conversation in \<open>services/contact_management.py\<close>.
\<close>

section \<open>Update\<close>

fun conversation_status_value :: "conversation_status \<Rightarrow> string" where
  "conversation_status_value ConvOpen = ''open''"
| "conversation_status_value ConvPending = ''pending''"
| "conversation_status_value ConvClosed = ''closed''"
| "conversation_status_value ConvSpam = ''spam''"

fun conversation_priority_value :: "conversation_priority \<Rightarrow> string" where
  "conversation_priority_value PrioLow = ''low''"
| "conversation_priority_value PrioNormal = ''normal''"
| "conversation_priority_value PrioHigh = ''high''"
| "conversation_priority_value PrioUrgent = ''urgent''"

text \<open>\<open>up_snoozed_until\<close> is None when the field is not in the request.\<close>

record conversation_update =
  up_assigned_membership_id :: "uuid option"
  up_status :: "conversation_status option"
  up_priority :: "conversation_priority option"
  up_is_starred :: "bool option"
  up_snoozed_until :: "datetime option option"
  up_archived :: "bool option"

definition flush_conversation :: "conversation \<Rightarrow> db \<Rightarrow> db outcome" where
  "flush_conversation c s = (if \<exists>x \<in> set (conversations s). conv_id x \<noteq> conv_id c \<and> conversation_key x = conversation_key c
     then Inl integrity_error else Inr (put_conversation c s))"

record update_env =
  ue_now :: datetime
  ue_iso :: "datetime \<Rightarrow> string"
  ue_notification_id :: uuid
  ue_run_ids :: "uuid \<Rightarrow> uuid"

text \<open>A new assignee is notified, and its automations are queued.\<close>

definition assign_conversation :: "update_env \<Rightarrow> uuid \<Rightarrow> uuid option \<Rightarrow> conversation \<Rightarrow> db \<Rightarrow>
    (conversation \<times> (string \<times> json) list \<times> uuid list \<times> db) outcome" where
  "assign_conversation env account_id assignee c s =
     (case assignee of
        None \<Rightarrow> Inr (c, [], [], s)
      | Some i \<Rightarrow>
          (case get_membership s i of
             None \<Rightarrow> Inl (ValueError ''INVALID_ASSIGNEE'')
           | Some m \<Rightarrow>
               if mem_account_id m \<noteq> account_id then Inl (ValueError ''INVALID_ASSIGNEE'')
               else
                 (let c' = c\<lparr>conv_assigned_membership_id := Some i\<rparr>;
                      change = (''assigned_membership_id'', JStr (uuid_str i));
                      s1 = create_notification (ue_notification_id env) account_id (Some (mem_user_id m)) ''conversation_assigned''
                        (JObj [(''conversation_id'', JStr (uuid_str (conv_id c)))]) s
                  in case queue_automation_runs (ue_now env) (ue_run_ids env) account_id ConversationAssigned
                         (build_conversation_trigger_payload s1 c' [change]) s1 of
                       (Inl e, _) \<Rightarrow> Inl e
                     | (Inr run_ids, s2) \<Rightarrow> Inr (c', [change], run_ids, s2))))"

definition status_change :: "datetime \<Rightarrow> conversation_status option \<Rightarrow> conversation \<Rightarrow> conversation \<times> (string \<times> json) list" where
  "status_change now v c =
     (case v of
        None \<Rightarrow> (c, [])
      | Some st \<Rightarrow> (c\<lparr>conv_status := st, conv_closed_at := (if st = ConvClosed then Some now else None)\<rparr>,
          [(''status'', JStr (conversation_status_value st))]))"

definition plain_changes :: "update_env \<Rightarrow> conversation_update \<Rightarrow> conversation \<Rightarrow> conversation \<times> (string \<times> json) list" where
  "plain_changes env u c0 =
     (let (c1, d1) = status_change (ue_now env) (up_status u) c0;
          (c2, d2) = (case up_priority u of None \<Rightarrow> (c1, [])
            | Some p \<Rightarrow> (c1\<lparr>conv_priority := p\<rparr>, [(''priority'', JStr (conversation_priority_value p))]));
          (c3, d3) = (case up_is_starred u of None \<Rightarrow> (c2, []) | Some b \<Rightarrow> (c2\<lparr>conv_is_starred := b\<rparr>, [(''is_starred'', JBool b)]));
          (c4, d4) = (case up_snoozed_until u of None \<Rightarrow> (c3, [])
            | Some t \<Rightarrow> (c3\<lparr>conv_snoozed_until := t\<rparr>, [(''snoozed_until'', (case t of None \<Rightarrow> JNull | Some x \<Rightarrow> JStr (ue_iso env x)))]));
          (c5, d5) = (case up_archived u of None \<Rightarrow> (c4, [])
            | Some b \<Rightarrow> (c4\<lparr>conv_archived_at := (if b then Some (ue_now env) else None)\<rparr>, [(''archived'', JBool b)]))
      in (c5, d1 @ d2 @ d3 @ d4 @ d5))"

text \<open>The runs are handed to the workers after the commit.\<close>

definition update_conversation :: "update_env \<Rightarrow> uuid \<Rightarrow> uuid \<Rightarrow> uuid \<Rightarrow> conversation_update \<Rightarrow> db \<Rightarrow> (conversation \<times> uuid list) outcome \<times> db" where
  "update_conversation env account_id conversation_id actor_user_id u s =
     (case live_conversation s account_id conversation_id of
        Inl e \<Rightarrow> (Inl e, s)
      | Inr c0 \<Rightarrow>
          (case assign_conversation env account_id (up_assigned_membership_id u) c0 s of
             Inl e \<Rightarrow> (Inl e, s)
           | Inr (c1, assigned, run_ids, s1) \<Rightarrow>
               (let (c2, changes) = plain_changes env u c1;
                    s2 = s1\<lparr>conversation_events := conversation_events s1 @ [\<lparr>ce_conversation_id = conv_id c2, ce_actor_user_id = actor_user_id,
                      ce_event_type = ''conversation_updated'', ce_data = JObj (assigned @ changes)\<rparr>]\<rparr>
                in case flush_conversation c2 s2 of
                     Inl e \<Rightarrow> (Inl e, s)
                   | Inr s3 \<Rightarrow> (Inr (c2, run_ids), s3))))"

section \<open>Read states, stars, snoozing, archiving\<close>

definition get_or_create_read_state :: "uuid \<Rightarrow> uuid \<Rightarrow> db \<Rightarrow> conversation_read_state \<times> db" where
  "get_or_create_read_state conversation_id membership_id s =
     (case find_read_state s conversation_id membership_id of
        Some r \<Rightarrow> (r, s)
      | None \<Rightarrow>
          (let r = \<lparr>crs_conversation_id = conversation_id, crs_membership_id = membership_id, crs_last_read_at = None, crs_unread_count = 0\<rparr>
           in (r, s\<lparr>read_states := read_states s @ [r]\<rparr>)))"

definition put_read_state :: "conversation_read_state \<Rightarrow> db \<Rightarrow> db" where
  "put_read_state r s = s\<lparr>read_states := map (\<lambda>x. if crs_conversation_id x = crs_conversation_id r \<and>
     crs_membership_id x = crs_membership_id r then r else x) (read_states s)\<rparr>"

definition compute_unread_count :: "uuid \<Rightarrow> uuid \<Rightarrow> db \<Rightarrow> int \<times> db" where
  "compute_unread_count conversation_id membership_id s =
     (let (state, s') = get_or_create_read_state conversation_id membership_id s
      in (int (length (filter (\<lambda>m. msg_conversation_id m = Some conversation_id \<and> msg_direction m = INBOUND \<and>
            (case crs_last_read_at state of None \<Rightarrow> True | Some t \<Rightarrow> msg_created_at m > t)) (messages s'))), s'))"

text \<open>The read receipt that goes to Meta afterwards: the number that sends it and the message it names.\<close>

definition read_receipt :: "db \<Rightarrow> conversation \<Rightarrow> (whatsapp_account \<times> string) option" where
  "read_receipt s c =
     (case sort_key msg_created_at (filter (\<lambda>m. msg_conversation_id m = Some (conv_id c) \<and> msg_direction m = INBOUND \<and>
          msg_external_message_id m \<noteq> None) (messages s)) of
        [] \<Rightarrow> None
      | ms \<Rightarrow>
          (case (msg_external_message_id (last ms), find (\<lambda>wa. wa_channel_id wa = conv_channel_id c) (whatsapp_accounts s)) of
             (Some e, Some wa) \<Rightarrow> if e = [] then None else Some (wa, e)
           | _ \<Rightarrow> None))"

definition mark_conversation_read :: "datetime \<Rightarrow> uuid \<Rightarrow> uuid \<Rightarrow> membership \<Rightarrow> db \<Rightarrow>
    (conversation_read_state \<times> (whatsapp_account \<times> string) option) outcome \<times> db" where
  "mark_conversation_read now account_id conversation_id m s =
     (case own_conversation s account_id conversation_id of
        Inl e \<Rightarrow> (Inl e, s)
      | Inr c \<Rightarrow>
          (let (r, s1) = get_or_create_read_state conversation_id (mem_id m) s;
               r' = r\<lparr>crs_last_read_at := Some now, crs_unread_count := 0\<rparr>
           in (Inr (r', read_receipt s1 c), put_read_state r' s1)))"

definition mark_conversation_unread :: "uuid \<Rightarrow> uuid \<Rightarrow> membership \<Rightarrow> db \<Rightarrow> conversation_read_state outcome \<times> db" where
  "mark_conversation_unread account_id conversation_id m s =
     (case own_conversation s account_id conversation_id of
        Inl e \<Rightarrow> (Inl e, s)
      | Inr _ \<Rightarrow>
          (let (r, s1) = get_or_create_read_state conversation_id (mem_id m) s;
               r1 = r\<lparr>crs_last_read_at := None\<rparr>;
               (n, s2) = compute_unread_count conversation_id (mem_id m) (put_read_state r1 s1);
               r2 = r1\<lparr>crs_unread_count := max n 1\<rparr>
           in (Inr r2, put_read_state r2 s2)))"

definition change_conversation :: "(conversation \<Rightarrow> conversation) \<Rightarrow> uuid \<Rightarrow> uuid \<Rightarrow> db \<Rightarrow> conversation outcome \<times> db" where
  "change_conversation f account_id conversation_id s =
     (case own_conversation s account_id conversation_id of
        Inl e \<Rightarrow> (Inl e, s)
      | Inr c \<Rightarrow> (Inr (f c), put_conversation (f c) s))"

definition star_conversation :: "uuid \<Rightarrow> uuid \<Rightarrow> bool \<Rightarrow> db \<Rightarrow> conversation outcome \<times> db" where
  "star_conversation account_id conversation_id starred = change_conversation (\<lambda>c. c\<lparr>conv_is_starred := starred\<rparr>) account_id conversation_id"

definition snooze_conversation :: "uuid \<Rightarrow> uuid \<Rightarrow> datetime option \<Rightarrow> db \<Rightarrow> conversation outcome \<times> db" where
  "snooze_conversation account_id conversation_id until = change_conversation (\<lambda>c. c\<lparr>conv_snoozed_until := until\<rparr>) account_id conversation_id"

definition archive_conversation :: "datetime \<Rightarrow> uuid \<Rightarrow> uuid \<Rightarrow> bool \<Rightarrow> db \<Rightarrow> conversation outcome \<times> db" where
  "archive_conversation now account_id conversation_id archived =
     change_conversation (\<lambda>c. c\<lparr>conv_archived_at := (if archived then Some now else None)\<rparr>) account_id conversation_id"

section \<open>Tags and notes\<close>

record tag_create =
  tc_organization_id :: uuid
  tc_name :: string
  tc_color :: "string option"

definition create_tag :: "uuid \<Rightarrow> uuid \<Rightarrow> tag_create \<Rightarrow> db \<Rightarrow> tag outcome \<times> db" where
  "create_tag new_id account_id p s =
     (case get_organization s (tc_organization_id p) of
        None \<Rightarrow> (Inl (ValueError ''INVALID_ORGANIZATION''), s)
      | Some o' \<Rightarrow>
          if org_account_id o' \<noteq> account_id then (Inl (ValueError ''INVALID_ORGANIZATION''), s)
          else (let t = \<lparr>tag_id = new_id, tag_account_id = account_id, tag_organization_id = tc_organization_id p, tag_name = tc_name p, tag_color = tc_color p\<rparr>
                in if \<exists>x \<in> set (tags s). tag_organization_id x = tag_organization_id t \<and> tag_name x = tag_name t then (Inl integrity_error, s)
                   else (Inr t, s\<lparr>tags := tags s @ [t]\<rparr>)))"

definition list_tags :: "uuid \<Rightarrow> membership option \<Rightarrow> db \<Rightarrow> tag list" where
  "list_tags account_id m s = (filter (\<lambda>t. tag_account_id t = account_id \<and>
     (case m of None \<Rightarrow> True | Some x \<Rightarrow> organization_scope_clauses s account_id x (Some (tag_organization_id t)))) (tags s))"

definition has_conversation_tag :: "db \<Rightarrow> uuid \<Rightarrow> uuid \<Rightarrow> bool" where
  "has_conversation_tag s conversation_id t \<longleftrightarrow> \<lparr>ct_conversation_id = conversation_id, ct_tag_id = t\<rparr> \<in> set (conversation_tags s)"

definition add_tag_to_conversation :: "update_env \<Rightarrow> uuid \<Rightarrow> uuid \<Rightarrow> uuid \<Rightarrow> db \<Rightarrow> uuid list outcome \<times> db" where
  "add_tag_to_conversation env account_id conversation_id t s =
     (case own_conversation s account_id conversation_id of
        Inl e \<Rightarrow> (Inl e, s)
      | Inr c \<Rightarrow>
          (case get_tag s t of
             None \<Rightarrow> (Inl (ValueError ''TAG_NOT_FOUND''), s)
           | Some tag \<Rightarrow>
               if tag_account_id tag \<noteq> account_id then (Inl (ValueError ''TAG_NOT_FOUND''), s)
               else if has_conversation_tag s conversation_id t then (Inr [], s)
               else
                 (let s1 = s\<lparr>conversation_tags := conversation_tags s @ [\<lparr>ct_conversation_id = conversation_id, ct_tag_id = t\<rparr>]\<rparr>
                  in case queue_automation_runs (ue_now env) (ue_run_ids env) account_id TagAdded
                         (build_conversation_trigger_payload s1 c [(''tag_id'', JStr (uuid_str t))]) s1 of
                       (Inl e, _) \<Rightarrow> (Inl e, s)
                     | (Inr run_ids, s2) \<Rightarrow> (Inr run_ids, s2))))"

definition remove_tag_from_conversation :: "uuid \<Rightarrow> uuid \<Rightarrow> uuid \<Rightarrow> db \<Rightarrow> unit outcome \<times> db" where
  "remove_tag_from_conversation account_id conversation_id t s =
     (case own_conversation s account_id conversation_id of
        Inl e \<Rightarrow> (Inl e, s)
      | Inr _ \<Rightarrow> (Inr (), s\<lparr>conversation_tags := filter (\<lambda>l. \<not> (ct_conversation_id l = conversation_id \<and> ct_tag_id l = t)) (conversation_tags s)\<rparr>))"

definition list_conversation_tags :: "uuid \<Rightarrow> uuid \<Rightarrow> db \<Rightarrow> tag list outcome" where
  "list_conversation_tags account_id conversation_id s =
     map_sum id (\<lambda>_. (filter (\<lambda>t. has_conversation_tag s conversation_id (tag_id t)) (tags s))) (own_conversation s account_id conversation_id)"

definition create_note :: "uuid \<Rightarrow> uuid \<Rightarrow> uuid \<Rightarrow> uuid \<Rightarrow> string \<Rightarrow> db \<Rightarrow> conversation_note outcome \<times> db" where
  "create_note new_id account_id conversation_id user_id body s =
     (case own_conversation s account_id conversation_id of
        Inl e \<Rightarrow> (Inl e, s)
      | Inr _ \<Rightarrow>
          (let n = \<lparr>cn_id = new_id, cn_conversation_id = conversation_id, cn_user_id = user_id, cn_body = body, cn_is_internal = True\<rparr>
           in (Inr n, s\<lparr>conversation_notes := conversation_notes s @ [n]\<rparr>)))"

definition list_notes :: "uuid \<Rightarrow> uuid \<Rightarrow> db \<Rightarrow> conversation_note list outcome" where
  "list_notes account_id conversation_id s =
     map_sum id (\<lambda>_. filter (\<lambda>n. cn_conversation_id n = conversation_id) (conversation_notes s)) (own_conversation s account_id conversation_id)"

section \<open>Deadlines\<close>

definition DEFAULT_SLA_MINUTES :: int where
  "DEFAULT_SLA_MINUTES = 15"

definition set_sla_deadline_on_inbound :: "datetime \<Rightarrow> int \<Rightarrow> conversation \<Rightarrow> conversation" where
  "set_sla_deadline_on_inbound now sla_minutes c =
     (if conv_status c \<noteq> ConvOpen then c
      else c\<lparr>conv_sla_deadline_at := Some (now + minutes (max 1 sla_minutes)), conv_sla_breached_at := None\<rparr>)"

definition sla_overdue :: "datetime \<Rightarrow> uuid option \<Rightarrow> conversation \<Rightarrow> bool" where
  "sla_overdue now account_id c \<longleftrightarrow> conv_deleted_at c = None \<and> conv_status c \<in> {ConvOpen, ConvPending} \<and>
     (case conv_sla_deadline_at c of None \<Rightarrow> False | Some t \<Rightarrow> t < now) \<and> conv_sla_breached_at c = None \<and>
     (case account_id of None \<Rightarrow> True | Some a \<Rightarrow> conv_account_id c = a)"

definition breach :: "datetime \<Rightarrow> (uuid \<Rightarrow> uuid) \<Rightarrow> conversation \<Rightarrow> db \<Rightarrow> db" where
  "breach now ids c s = create_notification (ids (conv_id c)) (conv_account_id c) None ''sla_breach''
     (JObj [(''conversation_id'', JStr (uuid_str (conv_id c)))]) (put_conversation (c\<lparr>conv_sla_breached_at := Some now\<rparr>) s)"

definition check_sla_breaches :: "datetime \<Rightarrow> (uuid \<Rightarrow> uuid) \<Rightarrow> uuid option \<Rightarrow> db \<Rightarrow> int \<times> db" where
  "check_sla_breaches now ids account_id s =
     (let overdue = take 200 (filter (sla_overdue now account_id) (conversations s))
      in (int (length overdue), fold (breach now ids) overdue s))"

section \<open>Starting a conversation\<close>

definition active_status :: "conversation \<Rightarrow> bool" where
  "active_status c \<longleftrightarrow> conv_status c \<in> {ConvOpen, ConvPending}"

text \<open>\<open>ORDER BY last_message_at DESC NULLS LAST\<close>, and the first of them.\<close>

definition most_recent :: "conversation list \<Rightarrow> conversation option" where
  "most_recent cs =
     (case filter (\<lambda>c. conv_last_message_at c \<noteq> None) cs of
        [] \<Rightarrow> (case cs of [] \<Rightarrow> None | c # _ \<Rightarrow> Some c)
      | ds \<Rightarrow> Some (last (sort_key (\<lambda>c. case conv_last_message_at c of None \<Rightarrow> 0 | Some t \<Rightarrow> t) ds)))"

definition contact_thread :: "contact \<Rightarrow> uuid \<Rightarrow> uuid \<Rightarrow> conversation" where
  "contact_thread k new_id account_id =
     \<lparr>conv_id = new_id, conv_account_id = account_id, conv_organization_id = con_organization_id k, conv_channel_id = con_channel_id k,
      conv_contact_id = con_id k, conv_assigned_membership_id = None, conv_status = ConvOpen, conv_priority = PrioNormal,
      conv_last_message_at = None, conv_first_response_at = None, conv_closed_at = None, conv_is_starred = False, conv_snoozed_until = None,
      conv_archived_at = None, conv_sla_deadline_at = None, conv_sla_breached_at = None, conv_deleted_at = None\<rparr>"

definition get_or_create_conversation_for_contact :: "uuid \<Rightarrow> uuid \<Rightarrow> uuid \<Rightarrow> bool \<Rightarrow> db \<Rightarrow> (conversation \<times> bool) outcome \<times> db" where
  "get_or_create_conversation_for_contact new_id account_id contact_id reactivate s =
     (case get_contact_or_raise s account_id contact_id of
        Inl e \<Rightarrow> (Inl e, s)
      | Inr k \<Rightarrow>
          (let dormant = filter (\<lambda>c. conv_contact_id c = con_id k \<and> conv_channel_id c = con_channel_id k \<and> conv_deleted_at c = None \<and> active_status c)
                 (conversations s);
               active = filter (\<lambda>c. conv_archived_at c = None) dormant
           in case most_recent active of
                Some c \<Rightarrow>
                  if reactivate \<and> conv_snoozed_until c \<noteq> None
                  then (let c' = c\<lparr>conv_snoozed_until := None\<rparr> in (Inr (c', False), put_conversation c' s))
                  else (Inr (c, False), s)
              | None \<Rightarrow>
                  (case most_recent dormant of
                     Some c \<Rightarrow> (let c' = c\<lparr>conv_archived_at := None, conv_snoozed_until := None\<rparr> in (Inr (c', False), put_conversation c' s))
                   | None \<Rightarrow>
                       (let c = contact_thread k new_id account_id in
                        case insert_conversation c s of Inl e \<Rightarrow> (Inl e, s) | Inr s' \<Rightarrow> (Inr (c, True), s')))))"

definition start_conversation_on_channel :: "(string option \<Rightarrow> string) \<Rightarrow> uuid \<Rightarrow> uuid \<Rightarrow> uuid \<Rightarrow> uuid \<Rightarrow> string \<Rightarrow> string option \<Rightarrow> db \<Rightarrow>
    (conversation \<times> contact \<times> bool) outcome \<times> db" where
  "start_conversation_on_channel infer new_contact_id new_conversation_id account_id channel_id external_address display_name s =
     (case get_channel s channel_id of
        None \<Rightarrow> (Inl (ValueError ''INVALID_CHANNEL''), s)
      | Some ch \<Rightarrow>
          if ch_account_id ch \<noteq> account_id \<or> ch_deleted_at ch \<noteq> None then (Inl (ValueError ''INVALID_CHANNEL''), s)
          else if ch_type ch \<noteq> WHATSAPP then (Inl (ValueError ''CHANNEL_NOT_WHATSAPP''), s)
          else
            (let phone = normalize_whatsapp_phone (Some (py_strip external_address)) DEFAULT_COUNTRY_CODE in
             if length phone < 3 then (Inl (ValueError ''INVALID_PHONE''), s)
             else
               (case create_contact infer new_contact_id account_id
                   \<lparr>cc_organization_id = ch_organization_id ch, cc_channel_id = ch_id ch, cc_external_address = phone, cc_display_name = display_name,
                    cc_email = None, cc_language = None, cc_country_code = None, cc_lifecycle_stage = None, cc_tag_ids = [], cc_interest_ids = []\<rparr> s of
                  (Inl e, s1) \<Rightarrow> (Inl e, s1)
                | (Inr k, s1) \<Rightarrow>
                    (case get_or_create_conversation_for_contact new_conversation_id account_id (con_id k) True s1 of
                       (Inl e, s2) \<Rightarrow> (Inl e, s2)
                     | (Inr (c, created), s2) \<Rightarrow> (Inr (c, k, created), s2)))))"

definition start_conversation :: "(string option \<Rightarrow> string) \<Rightarrow> uuid \<Rightarrow> uuid \<Rightarrow> uuid \<Rightarrow> membership \<Rightarrow> uuid \<Rightarrow> string \<Rightarrow> string option \<Rightarrow> db \<Rightarrow>
    (conversation \<times> contact \<times> bool) outcome \<times> db" where
  "start_conversation infer new_contact_id new_conversation_id account_id m channel_id external_address display_name s =
     (case ensure_membership_channel_access s account_id m channel_id of
        Inl e \<Rightarrow> (Inl e, s)
      | Inr _ \<Rightarrow> start_conversation_on_channel infer new_contact_id new_conversation_id account_id channel_id external_address display_name s)"

end
