(* ===== verification/Sending.thy ===== *)
theory Sending
  imports ConversationUpdates
begin

text \<open>
  Sending from the inbox: the send functions of \<open>services/whatsapp.py\<close>, the text variables of \<open>services/variables.py\<close>, and the
  routes of \<open>api/routes/conversations.py\<close> that send a text or a template.  A send stores a queued message, commits, calls Meta, stores the
  answer and commits again; what it writes after that is in the session only, and a request ends without another commit.  So the
  result of a send has both databases.  The answer of Meta, ids and clock are an environment; single product messages are left out.
\<close>

section \<open>Variables in texts\<close>

definition is_key_char :: "char \<Rightarrow> bool" where
  "is_key_char c \<longleftrightarrow> is_digit c \<or> c \<in> set ''abcdefghijklmnopqrstuvwxyzABCDEFGHIJKLMNOPQRSTUVWXYZ_.''"

text \<open>A placeholder at the head of a text: its key and the text after it.\<close>

definition match_variable :: "string \<Rightarrow> (string \<times> string) option" where
  "match_variable t =
     (if take 2 t \<noteq> ''{{'' then None
      else (let body = dropWhile is_space (drop 2 t);
                key = takeWhile is_key_char body;
                after = dropWhile is_space (dropWhile is_key_char body)
            in if key \<noteq> [] \<and> take 2 after = ''}}'' then Some (key, drop 2 after) else None))"

fun walk_path :: "json \<Rightarrow> string list \<Rightarrow> json" where
  "walk_path v [] = v"
| "walk_path (JObj d) (p # ps) = walk_path (case map_of d p of None \<Rightarrow> JNull | Some v \<Rightarrow> v) ps"
| "walk_path _ (p # ps) = JNull"

lemma match_variable_shorter: "match_variable t = Some (key, rest) \<Longrightarrow> length rest < length t"
  using length_dropWhile_le [of is_space "drop 2 t"] length_dropWhile_le [of is_key_char "dropWhile is_space (drop 2 t)"]
    length_dropWhile_le [of is_space "dropWhile is_key_char (dropWhile is_space (drop 2 t))"]
  by (cases t) (auto simp: match_variable_def Let_def split: if_splits)

function render_template :: "string \<Rightarrow> json \<Rightarrow> string" where
  "render_template t context_dict =
     (case t of
        [] \<Rightarrow> []
      | c # cs \<Rightarrow>
          (case match_variable t of
             None \<Rightarrow> c # render_template cs context_dict
           | Some (key, rest) \<Rightarrow>
               (case walk_path context_dict (split_on (CHR ''.'') key) of
                  JNull \<Rightarrow> take (length t - length rest) t
                | v \<Rightarrow> py_str v) @ render_template rest context_dict))"
  by pat_completeness auto

termination
  by (relation "measure (\<lambda>(t, d). length t)") (auto dest: match_variable_shorter)

declare render_template.simps [simp del]

definition or_empty :: "string option \<Rightarrow> string" where
  "or_empty v = (case v of None \<Rightarrow> [] | Some t \<Rightarrow> t)"

definition build_contact_context :: "contact \<Rightarrow> json" where
  "build_contact_context k = JObj [(''contact'', JObj [(''name'', JStr (or_empty (con_display_name k))), (''phone'', JStr (con_external_address k)),
     (''email'', JStr (or_empty (con_email k))), (''language'', JStr (or_empty (con_language k))),
     (''country'', JStr (or_empty (con_country_code k)))])]"

section \<open>Requests\<close>

text \<open>The validation of \<open>SendTextMessageRequest\<close>: the recipient is reduced to its digits.  \<open>SendTemplateMessageRequest\<close> only has lengths.\<close>

definition length_error :: py_error where
  "length_error = ValueError ''ValidationError''"

definition text_request :: "string \<Rightarrow> string \<Rightarrow> string outcome" where
  "text_request to body =
     (if \<not> (7 \<le> length to \<and> length to \<le> 30) \<or> \<not> (1 \<le> length body \<and> length body \<le> 4096) then Inl length_error
      else (let digits = filter is_digit to in if length digits < 7 then Inl length_error else Inr digits))"

definition template_request :: "string \<Rightarrow> string \<Rightarrow> string \<Rightarrow> unit outcome" where
  "template_request to template_name language_code =
     (if 7 \<le> length to \<and> length to \<le> 30 \<and> 1 \<le> length template_name \<and> length template_name \<le> 512 \<and> 2 \<le> length language_code \<and> length language_code \<le> 20
      then Inr () else Inl length_error)"

section \<open>One send\<close>

datatype meta_call =
    CallText string string bool
  | CallMedia string message_type string "string option" "string option"
  | CallTemplate string string string "json list"
  | CallCatalog string string "string option"
  | CallProductList string string json string "string option" "string option"

text \<open>The answer of Meta, its refusal (\<open>MetaAPIError\<close>), or an exception of the HTTP client such as a timeout, which nothing catches.\<close>

datatype meta_answer = MetaAnswered json | MetaRefused meta_error | MetaLost

record send_env =
  se_now :: datetime
  se_civil :: dt
  se_ids :: inbound_ids
  se_answer :: "meta_call \<Rightarrow> meta_answer"
  se_object_key :: "string \<Rightarrow> string option"
  se_components :: "json list option \<Rightarrow> string option \<Rightarrow> string option \<Rightarrow> json list"

record sent =
  st_result :: "message outcome"
  st_committed :: db
  st_session :: db
  st_calls :: "meta_call list"

text \<open>What the send functions differ in.\<close>

record outgoing =
  og_to :: string
  og_type :: message_type
  og_text :: "string option"
  og_queued :: "json option"
  og_failed :: "json option \<Rightarrow> json option"
  og_sent :: "json \<Rightarrow> json"
  og_first_response :: bool
  og_call :: meta_call

definition refused :: "py_error \<Rightarrow> db \<Rightarrow> sent" where
  "refused e s = \<lparr>st_result = Inl e, st_committed = s, st_session = s, st_calls = []\<rparr>"

definition meta_api_error :: py_error where
  "meta_api_error = OtherError ''MetaAPIError''"

definition transport_error :: py_error where
  "transport_error = OtherError ''HTTPError''"

definition usable_whatsapp_account :: "db \<Rightarrow> uuid \<Rightarrow> uuid \<Rightarrow> whatsapp_account outcome" where
  "usable_whatsapp_account s account_id i =
     (case get_whatsapp_account s i of
        None \<Rightarrow> Inl (ValueError ''WHATSAPP_ACCOUNT_NOT_AVAILABLE'')
      | Some wa \<Rightarrow> if wa_account_id wa \<noteq> account_id \<or> wa_status wa \<noteq> WaActive then Inl (ValueError ''WHATSAPP_ACCOUNT_NOT_AVAILABLE'') else Inr wa)"

definition commerce_whatsapp_account :: "db \<Rightarrow> uuid \<Rightarrow> uuid \<Rightarrow> whatsapp_account outcome" where
  "commerce_whatsapp_account s account_id i =
     (case usable_whatsapp_account s account_id i of
        Inl e \<Rightarrow> Inl e
      | Inr wa \<Rightarrow> if \<not> wa_commerce_enabled wa \<or> \<not> nonempty (wa_meta_catalog_id wa) then Inl (ValueError ''COMMERCE_NOT_CONFIGURED'') else Inr wa)"

text \<open>Contact and conversation of a number, without the check of an empty number that the inbound side makes.\<close>

definition thread_of_number :: "inbound_ids \<Rightarrow> whatsapp_account \<Rightarrow> string \<Rightarrow> db \<Rightarrow> (contact \<times> conversation \<times> bool \<times> db) outcome" where
  "thread_of_number ids wa number s =
     (case match_contact (ii_contact ids) wa (normalize_whatsapp_phone (Some number) DEFAULT_COUNTRY_CODE) None s of
        Inl e \<Rightarrow> Inl e
      | Inr (k, s1) \<Rightarrow> (case open_thread ids wa k s1 of Inl e \<Rightarrow> Inl e | Inr (c, created, s2) \<Rightarrow> Inr (k, c, created, s2)))"

definition queued_message :: "send_env \<Rightarrow> whatsapp_account \<Rightarrow> uuid \<Rightarrow> contact \<Rightarrow> conversation \<Rightarrow> outgoing \<Rightarrow> message" where
  "queued_message env wa account_id k c g =
     \<lparr>msg_id = ii_message (se_ids env), msg_account_id = account_id, msg_organization_id = wa_organization_id wa, msg_channel_id = wa_channel_id wa,
      msg_contact_id = Some (con_id k), msg_conversation_id = Some (conv_id c), msg_external_message_id = None, msg_direction = OUTBOUND,
      msg_type = og_type g, msg_from_address = wa_display_phone_number wa, msg_to_address = og_to g, msg_text_body = og_text g,
      msg_provider_payload = og_queued g, msg_status = MsgQueued, msg_created_at = se_now env\<rparr>"

definition provider_message_id :: "json \<Rightarrow> string option" where
  "provider_message_id response = (case jget response ''messages'' of Some (JList (x # _)) \<Rightarrow> text_value (jget x ''id'') | _ \<Rightarrow> None)"

definition answered_conversation :: "datetime \<Rightarrow> bool \<Rightarrow> conversation \<Rightarrow> conversation" where
  "answered_conversation now first_response c =
     c\<lparr>conv_last_message_at := Some now,
       conv_first_response_at := (if first_response \<and> conv_first_response_at c = None then Some now else conv_first_response_at c)\<rparr>"

definition record_mac_for_contact :: "send_env \<Rightarrow> uuid \<Rightarrow> uuid \<Rightarrow> uuid \<Rightarrow> mac_trigger_source option \<Rightarrow> db \<Rightarrow> bool outcome \<times> db" where
  "record_mac_for_contact env account_id channel_id contact_id trigger =
     (let source = (case trigger of None \<Rightarrow> TrigInboxOutbound | Some t \<Rightarrow> t)
      in record_mac (se_civil env) (ii_mac (se_ids env)) (ii_audit (se_ids env))
        \<lparr>act_account_id = account_id, act_contact_id = Some contact_id, act_channel_id = channel_id, act_type = ByTrigger source, act_at = None,
         act_organization_id = None, act_source_event_id = None, act_message_id = None\<rparr> source)"

definition deliver_message :: "send_env \<Rightarrow> whatsapp_account \<Rightarrow> uuid \<Rightarrow> outgoing \<Rightarrow> bool \<Rightarrow> mac_trigger_source option \<Rightarrow> db \<Rightarrow> sent" where
  "deliver_message env wa account_id g record trigger s =
     (case thread_of_number (se_ids env) wa (og_to g) s of
        Inl e \<Rightarrow> refused e s
      | Inr (k, c, created, s1) \<Rightarrow>
          (let m = queued_message env wa account_id k c g;
               s2 = s1\<lparr>messages := messages s1 @ [m]\<rparr> in
           case se_answer env (og_call g) of
             MetaLost \<Rightarrow> \<lparr>st_result = Inl transport_error, st_committed = s2, st_session = s2, st_calls = [og_call g]\<rparr>
           | MetaRefused exc \<Rightarrow>
               (let s3 = put_message (m\<lparr>msg_status := MsgFailed, msg_provider_payload := og_failed g (me_response_data exc)\<rparr>) s2
                in \<lparr>st_result = Inl meta_api_error, st_committed = s3, st_session = s3, st_calls = [og_call g]\<rparr>)
           | MetaAnswered response \<Rightarrow>
               (let external = provider_message_id response;
                    m' = m\<lparr>msg_external_message_id := external, msg_provider_payload := Some (og_sent g response), msg_status := MsgSent\<rparr>;
                    s3 = put_conversation (answered_conversation (se_now env) (og_first_response g) c) (put_message m' s2) in
                if external \<noteq> None \<and> (\<exists>x \<in> set (messages s1). msg_external_message_id x = external)
                then \<lparr>st_result = Inl integrity_error, st_committed = s2, st_session = s2, st_calls = [og_call g]\<rparr>
                else if \<not> record then \<lparr>st_result = Inr m', st_committed = s3, st_session = s3, st_calls = [og_call g]\<rparr>
                else (let (recorded, s4) = record_mac_for_contact env account_id (wa_channel_id wa) (con_id k) trigger s3
                      in \<lparr>st_result = map_sum id (\<lambda>_. m') recorded, st_committed = s3, st_session = s4, st_calls = [og_call g]\<rparr>))))"

section \<open>The send functions\<close>

definition send_text_message :: "send_env \<Rightarrow> uuid \<Rightarrow> uuid \<Rightarrow> string \<Rightarrow> string \<Rightarrow> bool \<Rightarrow> bool \<Rightarrow> mac_trigger_source option \<Rightarrow> db \<Rightarrow> sent" where
  "send_text_message env account_id whatsapp_account_id to body preview_url record trigger s =
     (case usable_whatsapp_account s account_id whatsapp_account_id of
        Inl e \<Rightarrow> refused e s
      | Inr wa \<Rightarrow> deliver_message env wa account_id
          \<lparr>og_to = to, og_type = MtText, og_text = Some body, og_queued = None, og_failed = id, og_sent = id, og_first_response = True,
           og_call = CallText to body preview_url\<rparr> record trigger s)"

definition with_key :: "string \<Rightarrow> json \<Rightarrow> json \<Rightarrow> json" where
  "with_key name v d = JObj (dict_set name v (dict_of (Some d)))"

definition or_null :: "json option \<Rightarrow> json" where
  "or_null v = (case v of None \<Rightarrow> JNull | Some x \<Rightarrow> x)"

definition str_or_null :: "string option \<Rightarrow> json" where
  "str_or_null v = (case v of None \<Rightarrow> JNull | Some t \<Rightarrow> JStr t)"

definition send_media_message :: "send_env \<Rightarrow> uuid \<Rightarrow> uuid \<Rightarrow> message_type \<Rightarrow> string \<Rightarrow> string \<Rightarrow> string option \<Rightarrow> string option \<Rightarrow> bool \<Rightarrow> db \<Rightarrow> sent" where
  "send_media_message env account_id whatsapp_account_id media_type to media_url caption filename record s =
     (case usable_whatsapp_account s account_id whatsapp_account_id of
        Inl e \<Rightarrow> refused e s
      | Inr wa \<Rightarrow>
          (let stored = JObj ([(''media_url'', JStr media_url), (''filename'', str_or_null filename)] @
             (case se_object_key env media_url of None \<Rightarrow> [] | Some k \<Rightarrow> if k = [] then [] else [(''object_key'', JStr k)]))
           in deliver_message env wa account_id
             \<lparr>og_to = to, og_type = media_type, og_text = caption, og_queued = Some stored,
              og_failed = (\<lambda>e. Some (with_key ''meta_error'' (or_null e) stored)), og_sent = (\<lambda>r. with_key ''meta_response'' r stored),
              og_first_response = False, og_call = CallMedia to media_type media_url caption filename\<rparr> record None s))"

definition send_template_message :: "send_env \<Rightarrow> uuid \<Rightarrow> uuid \<Rightarrow> string \<Rightarrow> string \<Rightarrow> string \<Rightarrow> json list \<Rightarrow> bool \<Rightarrow> json list option \<Rightarrow> string option \<Rightarrow> db \<Rightarrow> sent" where
  "send_template_message env account_id whatsapp_account_id to template_name language_code components record display_components display_body_text s =
     (case usable_whatsapp_account s account_id whatsapp_account_id of
        Inl e \<Rightarrow> refused e s
      | Inr wa \<Rightarrow>
          (let shown = (case display_components of None \<Rightarrow> [] | Some cs \<Rightarrow> cs);
               payload = JObj [(''template_name'', JStr template_name), (''language_code'', JStr language_code),
                 (''send_components'', JList components), (''components'', JList shown)]
           in deliver_message env wa account_id
             \<lparr>og_to = to, og_type = MtTemplate, og_text = render_template_body_text (Some shown) display_body_text, og_queued = Some payload,
              og_failed = (\<lambda>e. Some (with_key ''meta_error'' (or_null e) payload)), og_sent = (\<lambda>r. with_key ''meta_response'' r payload),
              og_first_response = False, og_call = CallTemplate to template_name language_code components\<rparr> record None s))"

definition send_catalog_welcome_message :: "send_env \<Rightarrow> uuid \<Rightarrow> uuid \<Rightarrow> string \<Rightarrow> string \<Rightarrow> string option \<Rightarrow> bool \<Rightarrow> db \<Rightarrow> sent" where
  "send_catalog_welcome_message env account_id whatsapp_account_id to body footer record s =
     (case commerce_whatsapp_account s account_id whatsapp_account_id of
        Inl e \<Rightarrow> refused e s
      | Inr wa \<Rightarrow> deliver_message env wa account_id
          \<lparr>og_to = to, og_type = MtInteractive, og_text = Some body, og_queued = Some (JObj [(''interactive_type'', JStr ''catalog_message'')]),
           og_failed = id, og_sent = id, og_first_response = False, og_call = CallCatalog to body footer\<rparr> record None s)"

definition send_product_list_message :: "send_env \<Rightarrow> uuid \<Rightarrow> uuid \<Rightarrow> string \<Rightarrow> string \<Rightarrow> json \<Rightarrow> string \<Rightarrow> string option \<Rightarrow> string option \<Rightarrow> bool \<Rightarrow> db \<Rightarrow> sent" where
  "send_product_list_message env account_id whatsapp_account_id to catalog_id sections body header_text footer record s =
     (case commerce_whatsapp_account s account_id whatsapp_account_id of
        Inl e \<Rightarrow> refused e s
      | Inr wa \<Rightarrow> deliver_message env wa account_id
          \<lparr>og_to = to, og_type = MtInteractive, og_text = Some body,
           og_queued = Some (JObj [(''interactive_type'', JStr ''product_list''), (''catalog_id'', JStr catalog_id), (''sections'', sections)]),
           og_failed = id, og_sent = id, og_first_response = False, og_call = CallProductList to catalog_id sections body header_text footer\<rparr> record None s)"

section \<open>The routes\<close>

text \<open>The answer of a request: an HTTP error or the message, with what is in the database when the request is over.\<close>

record 'a reply =
  rp_result :: "(int \<times> string) + 'a"
  rp_db :: db
  rp_calls :: "meta_call list"

definition http_error :: "int \<Rightarrow> string \<Rightarrow> db \<Rightarrow> 'a reply" where
  "http_error code detail s = \<lparr>rp_result = Inl (code, detail), rp_db = s, rp_calls = []\<rparr>"

text \<open>An error of Meta is answered with 502; every other error of a text is answered with 400, and a template passes it on as 500.\<close>

definition reply_of :: "int \<Rightarrow> sent \<Rightarrow> message reply" where
  "reply_of code r =
     \<lparr>rp_result = (case st_result r of
        Inr m \<Rightarrow> Inr m
      | Inl e \<Rightarrow> (if e = meta_api_error then Inl (502, error_text e)
          else case e of ValueError t \<Rightarrow> Inl (code, t) | OtherError t \<Rightarrow> Inl (500, t))),
      rp_db = st_committed r, rp_calls = st_calls r\<rparr>"

definition send_access_error :: "py_error \<Rightarrow> db \<Rightarrow> 'a reply" where
  "send_access_error e s = http_error (if error_text e = ''CONVERSATION_FORBIDDEN'' then 403 else 404) ''Conversation is not available'' s"

definition channel_whatsapp_account :: "db \<Rightarrow> uuid \<Rightarrow> whatsapp_account option" where
  "channel_whatsapp_account s channel_id = find (\<lambda>wa. wa_channel_id wa = channel_id) (whatsapp_accounts s)"

text \<open>\<open>instagram\<close> answers for the conversations of Instagram channels.\<close>

definition send_conversation_text :: "send_env \<Rightarrow> (conversation \<Rightarrow> contact \<Rightarrow> string \<Rightarrow> db \<Rightarrow> message reply) \<Rightarrow> uuid \<Rightarrow> membership \<Rightarrow> uuid \<Rightarrow> string \<Rightarrow> db \<Rightarrow>
    message reply" where
  "send_conversation_text env instagram account_id m conversation_id body s =
     (case get_conversation_for_send s account_id conversation_id m of
        Inl e \<Rightarrow> send_access_error e s
      | Inr c \<Rightarrow>
          (case get_contact_row s (conv_contact_id c) of
             None \<Rightarrow> http_error 404 ''Contact not found'' s
           | Some k \<Rightarrow>
               (let rendered = render_template body (build_contact_context k) in
                if sw_requires_template (compute_service_window (se_now env) (get_last_inbound_for_conversation s conversation_id))
                then http_error 409 ''SERVICE_WINDOW_CLOSED'' s
                else if map_option ch_type (get_channel s (conv_channel_id c)) = Some INSTAGRAM then instagram c k rendered s
                else (case channel_whatsapp_account s (conv_channel_id c) of
                    None \<Rightarrow> http_error 400 ''Conversation channel is not connected'' s
                  | Some wa \<Rightarrow> reply_of 400 (case text_request (con_external_address k) rendered of
                        Inl e \<Rightarrow> refused e s
                      | Inr to \<Rightarrow> send_text_message env account_id (wa_id wa) to rendered False True None s)))))"

definition send_conversation_template :: "send_env \<Rightarrow> uuid \<Rightarrow> membership \<Rightarrow> uuid \<Rightarrow> uuid \<Rightarrow> string option \<Rightarrow> string option \<Rightarrow> db \<Rightarrow> message reply" where
  "send_conversation_template env account_id m conversation_id template_id media_url filename s =
     (case get_conversation_for_send s account_id conversation_id m of
        Inl e \<Rightarrow> send_access_error e s
      | Inr c \<Rightarrow>
          (case channel_whatsapp_account s (conv_channel_id c) of
             None \<Rightarrow> http_error 400 ''Conversation channel is not connected'' s
           | Some wa \<Rightarrow>
               (case get_template s template_id of
                  None \<Rightarrow> http_error 400 ''Template is not available'' s
                | Some t \<Rightarrow>
                    if tpl_account_id t \<noteq> account_id \<or> tpl_whatsapp_account_id t \<noteq> wa_id wa \<or> tpl_status t \<noteq> TplApproved
                    then http_error 400 ''Template is not available'' s
                    else (case get_contact_row s (conv_contact_id c) of
                        None \<Rightarrow> http_error 404 ''Contact not found'' s
                      | Some k \<Rightarrow> reply_of 500 (case template_request (con_external_address k) (tpl_name t) (tpl_language t) of
                            Inl e \<Rightarrow> refused e s
                          | Inr _ \<Rightarrow> send_template_message env account_id (wa_id wa) (con_external_address k) (tpl_name t) (tpl_language t)
                              (se_components env (tpl_components t) media_url filename) True (tpl_components t) (tpl_body_text t) s)))))"

end
