(* ===== verification/InboxFacts.thy ===== *)
theory InboxFacts
  imports Sending WebhookFacts
begin

text \<open>
  What the inbox guarantees: the list of conversations and the access check agree, an agent's text leaves only inside the service
  window, masked numbers stay short; and three surprises: a second conversation of a contact can not be closed, the badge of unread
  messages does not grow, and the usage of an agent's message is not committed.
\<close>

section \<open>Lists and access\<close>

lemma channel_access_ok: "ensure_membership_channel_access s a m ch = Inr () \<longleftrightarrow>
    (case resolve_accessible_channel_ids s a m of None \<Rightarrow> True | Some accessible \<Rightarrow> ch \<in> set accessible)"
  by (simp add: ensure_membership_channel_access_def split: option.split)

lemma send_access_iff:
  assumes "get_conversation_row s (conv_id c) = Some c" "conv_account_id c = a" "conv_deleted_at c = None"
  shows "returns (get_conversation_for_send s a (conv_id c) m) \<longleftrightarrow>
    (limited_to_assigned_conversations m \<longrightarrow> conv_assigned_membership_id c = Some (mem_id m)) \<and>
    (case resolve_accessible_channel_ids s a m of None \<Rightarrow> True | Some accessible \<Rightarrow> conv_channel_id c \<in> set accessible)"
  using assms by (simp add: get_conversation_for_send_def live_conversation_def ensure_membership_channel_access_def split: option.split)

definition everything :: conversation_query where
  "everything = \<lparr>lq_limit = 5000, lq_include_archived = True, lq_archived_only = False, lq_starred_only = False, lq_channel_id = None\<rparr>"

lemma everything_fields: "lq_limit everything = 5000" "lq_channel_id everything = None"
  by (simp_all add: everything_def)

lemma by_last_message_set: "set (by_last_message rows) = set rows"
  by (auto simp: by_last_message_def Let_def)

lemma by_last_message_length: "length (by_last_message rows) = length rows"
  using sum_length_filter_compl [of "\<lambda>r. conv_last_message_at (fst r) = None" rows] by (simp add: by_last_message_def Let_def)

lemma map_filter_key:
  assumes "\<And>d x. f d = Some x \<Longrightarrow> fst x = d" "c \<in> set xs"
  shows "c \<in> fst ` set (List.map_filter f xs) \<longleftrightarrow> f c \<noteq> None"
proof
  assume "c \<in> fst ` set (List.map_filter f xs)"
  then obtain d x where "f d = Some x" "fst x = c" by (auto simp: set_map_filter)
  then show "f c \<noteq> None" using assms(1) by auto
next
  assume "f c \<noteq> None"
  then obtain x where x: "f c = Some x" by blast
  then have "x \<in> set (List.map_filter f xs)" using assms(2) by (auto simp: set_map_filter)
  moreover have "fst x = c" using assms(1) [OF x] .
  ultimately show "c \<in> fst ` set (List.map_filter f xs)" by force
qed

lemma listed_everything:
  assumes "length (conversations s) \<le> 5000" "c \<in> set (conversations s)" "get_contact_row s (conv_contact_id c) = Some k" "con_deleted_at k = None"
  shows "c \<in> fst ` set (list_conversations now a m everything s) \<longleftrightarrow> matches_query now a m everything s c"
proof -
  let ?row = "\<lambda>c. case get_contact_row s (conv_contact_id c) of None \<Rightarrow> None
    | Some k \<Rightarrow> if con_deleted_at k = None \<and> matches_query now a m everything s c
        then Some (c, k, latest_message s (conv_id c), (case find_read_state s (conv_id c) (mem_id m) of None \<Rightarrow> 0 | Some r \<Rightarrow> crs_unread_count r)) else None"
  have "length (List.map_filter ?row (conversations s)) \<le> 5000"
    using assms(1) length_filter_le le_trans unfolding List.map_filter_def by (metis (no_types, lifting) length_map)
  then have "list_conversations now a m everything s = by_last_message (List.map_filter ?row (conversations s))"
    by (simp add: list_conversations_def everything_fields clamp_limit_def by_last_message_length split: option.split)
  then have rows: "set (list_conversations now a m everything s) = set (List.map_filter ?row (conversations s))"
    by (simp add: by_last_message_set)
  have "fst x = d" if "?row d = Some x" for d x using that by (auto split: option.splits if_splits)
  from map_filter_key [of ?row, OF this assms(2)] have "c \<in> fst ` set (list_conversations now a m everything s) \<longleftrightarrow> ?row c \<noteq> None"
    unfolding rows by blast
  then show ?thesis using assms(3,4) by simp
qed

text \<open>The list agrees with the access check: of the live conversations with a live contact that are not asleep, a member finds exactly those in
  the list whose messages it may read.\<close>

theorem conversation_list_agrees_with_access:
  assumes "length (conversations s) \<le> 5000" "c \<in> set (conversations s)" "get_conversation_row s (conv_id c) = Some c"
    and "get_contact_row s (conv_contact_id c) = Some k" "con_deleted_at k = None"
    and "conv_account_id c = a" "conv_deleted_at c = None" "\<forall>t. conv_snoozed_until c = Some t \<longrightarrow> t \<le> now"
  shows "c \<in> fst ` set (list_conversations now a m everything s) \<longleftrightarrow> returns (list_messages s a (conv_id c) m)"
proof -
  have "returns (list_messages s a (conv_id c) m) \<longleftrightarrow> returns (get_conversation_for_send s a (conv_id c) m)"
    by (simp add: list_messages_def returns_def split: sum.splits)
  then show ?thesis
    using listed_everything [OF assms(1,2,4,5), of now a m] send_access_iff [OF assms(3,6,7), of m] assms(6-8)
    by (cases "conv_snoozed_until c") (auto simp: matches_query_def everything_def)
qed

section \<open>Masked numbers\<close>

lemma digits_of_mask: "length (filter is_digit (mask_phone v)) \<le> 5"
proof -
  let ?d = "filter is_digit v"
  have "length (filter is_digit (take 3 ?d @ ''***'' @ drop (length ?d - 2) ?d)) \<le> 5" if "6 \<le> length ?d"
  proof -
    have "length (filter is_digit (take 3 ?d)) \<le> 3" using length_filter_le [of is_digit "take 3 ?d"] by simp
    moreover have "length (filter is_digit (drop (length ?d - 2) ?d)) \<le> 2" using length_filter_le [of is_digit "drop (length ?d - 2) ?d"] that by simp
    moreover have "filter is_digit ''***'' = []" by code_simp
    ultimately show ?thesis unfolding filter_append length_append by simp
  qed
  moreover have "length (filter is_digit ''***'') \<le> 5" by code_simp
  ultimately show ?thesis unfolding mask_phone_def Let_def by simp
qed

lemma full_view_iff: "can_view_full_contact r {p \<in> set ALL_PERMISSIONS. role_has_permission r p} \<longleftrightarrow> r \<noteq> VIEWER"
  using in_ALL_PERMISSIONS [of CONTACTS_EDIT]
  by (cases r) (simp_all add: can_view_full_contact_def role_has_permission_def BRANCH_OPS_def)

text \<open>Who sees numbers in full: with the flag \<open>privacy_mask_agents\<close> on, a viewer sees at most five digits of a contact's number; every other role, agents
  included, sees the whole number, whatever the flag says.\<close>

theorem masking_covers_viewers_only:
  "(mem_role m \<noteq> VIEWER \<longrightarrow> mask_response s a m r = r) \<and>
   (mem_role m = VIEWER \<and> map_of (get_feature_flags s a) ''privacy_mask_agents'' \<noteq> Some False \<longrightarrow>
      length (filter is_digit (cr_contact_address (mask_response s a m r))) \<le> 5)"
  using full_view_iff [of "mem_role m"] digits_of_mask by (auto simp: mask_response_def split: option.splits)

section \<open>Closing a second conversation\<close>

lemma add_runs_conversations: "add_runs now ids a p as s = (r, s') \<Longrightarrow> conversations s' = conversations s"
  by (induction now ids a p as s arbitrary: r s' rule: add_runs.induct) (auto simp: Let_def split: sum.splits prod.splits)

lemma queue_runs_conversations: "queue_automation_runs now ids a t p s = (r, s') \<Longrightarrow> conversations s' = conversations s"
  by (auto simp: queue_automation_runs_def dest: add_runs_conversations split: option.splits sum.splits json.splits)

lemma assign_keeps_conversations:
  assumes "assign_conversation env a assignee c s = Inr (c', d, runs, s')"
  shows "conversations s' = conversations s" "conv_id c' = conv_id c" "conversation_key c' = conversation_key c"
  using assms by (auto simp: assign_conversation_def Let_def create_notification_def conversation_key_def dest!: queue_runs_conversations
      split: option.splits if_splits sum.splits prod.splits)

lemma plain_changes_key:
  "conv_id (fst (plain_changes env u c)) = conv_id c" "conv_contact_id (fst (plain_changes env u c)) = conv_contact_id c"
  "conv_channel_id (fst (plain_changes env u c)) = conv_channel_id c"
  "conv_account_id (fst (plain_changes env u c)) = conv_account_id c" "conv_organization_id (fst (plain_changes env u c)) = conv_organization_id c"
  "conv_status (fst (plain_changes env u c)) = (case up_status u of None \<Rightarrow> conv_status c | Some st \<Rightarrow> st)"
  by (simp_all add: plain_changes_def status_change_def Let_def split_def split: option.split)

text \<open>A status can not be taken twice: a conversation can not get the status of another conversation of the same contact on the same channel, so
  when one thread of a contact is closed, no later one can ever be closed; the update fails and changes nothing.\<close>

theorem second_close_conflicts:
  assumes "live_conversation s a i = Inr c" "other \<in> set (conversations s)" "conv_id other \<noteq> conv_id c"
    and "conv_contact_id other = conv_contact_id c" "conv_channel_id other = conv_channel_id c"
    and "up_status u = Some (conv_status other)"
  shows "\<exists>e. update_conversation env a i actor u s = (Inl e, s) \<and> (up_assigned_membership_id u = None \<longrightarrow> e = integrity_error)"
proof (cases "assign_conversation env a (up_assigned_membership_id u) c s")
  case (Inl e)
  then show ?thesis using assms(1) by (auto simp: update_conversation_def assign_conversation_def)
next
  case (Inr x)
  obtain c1 d runs s1 where x: "x = (c1, d, runs, s1)" by (cases x)
  note assigned = assign_keeps_conversations [OF Inr [unfolded x]]
  obtain c2 ds where c2: "plain_changes env u c1 = (c2, ds)" by fastforce
  note changed = plain_changes_key [of env u c1, unfolded c2 fst_conv]
  have "conversation_key other = conversation_key c2" "conv_id other \<noteq> conv_id c2"
    using assigned changed assms(3-6) by (auto simp: conversation_key_def)
  then have "flush_conversation c2 (s1\<lparr>conversation_events := es\<rparr>) = Inl integrity_error" for es
    using assms(2) assigned(1) by (auto simp: flush_conversation_def)
  then show ?thesis using assms(1) Inr x c2 by (simp add: update_conversation_def)
qed

section \<open>Sending\<close>

lemma assign_usage: "auto_assign_conversation c s = (r, s') \<Longrightarrow> macs s' = macs s \<and> mac_audits s' = mac_audits s"
  by (auto simp: auto_assign_conversation_def put_conversation_def put_rule_def Let_def split: option.splits list.splits if_splits)

lemma thread_frame:
  assumes "thread_of_number ids wa number s = Inr (k, c, b, s')"
  shows "macs s' = macs s" "mac_audits s' = mac_audits s" "messages s' = messages s"
proof -
  obtain s1 where m: "match_contact (ii_contact ids) wa (normalize_whatsapp_phone (Some number) DEFAULT_COUNTRY_CODE) None s = Inr (k, s1)"
    and o: "open_thread ids wa k s1 = Inr (c, b, s')"
    using assms by (auto simp: thread_of_number_def split: sum.splits)
  have "macs s1 = macs s \<and> mac_audits s1 = mac_audits s \<and> messages s1 = messages s"
    using m by (auto simp: match_contact_def insert_contact_def flush_contact_def put_contact_def Let_def split: option.splits if_splits)
  moreover have "macs s' = macs s1 \<and> mac_audits s' = mac_audits s1"
    using o by (auto simp: open_thread_def insert_conversation_def create_notification_def Let_def dest!: assign_usage
        split: option.splits if_splits prod.splits sum.splits)
  moreover have "messages s' = messages s1" using open_thread_frame [OF o] by simp
  ultimately show "macs s' = macs s" "mac_audits s' = mac_audits s" "messages s' = messages s" by simp_all
qed

lemma deliver_calls: "st_calls (deliver_message env wa a g record trigger s) \<in> {[], [og_call g]}"
  by (auto simp: deliver_message_def refused_def Let_def split: sum.splits prod.splits meta_answer.splits)

lemma deliver_usage:
  "macs (st_committed (deliver_message env wa a g record trigger s)) = macs s"
  "mac_audits (st_committed (deliver_message env wa a g record trigger s)) = mac_audits s"
  by (auto simp: deliver_message_def refused_def Let_def put_message_def put_conversation_def dest: thread_frame split: sum.splits prod.splits meta_answer.splits)

text \<open>What the route does: it refuses, it hands over to Instagram, or it sends.\<close>

definition text_sent :: "send_env \<Rightarrow> uuid \<Rightarrow> membership \<Rightarrow> uuid \<Rightarrow> string \<Rightarrow> db \<Rightarrow> conversation \<Rightarrow> contact \<Rightarrow> whatsapp_account \<Rightarrow> string \<Rightarrow> bool" where
  "text_sent env a m i body s c k wa to \<longleftrightarrow> get_conversation_for_send s a i m = Inr c \<and> get_contact_row s (conv_contact_id c) = Some k \<and>
     \<not> sw_requires_template (compute_service_window (se_now env) (get_last_inbound_for_conversation s i)) \<and>
     channel_whatsapp_account s (conv_channel_id c) = Some wa \<and>
     text_request (con_external_address k) (render_template body (build_contact_context k)) = Inr to"

definition instagram_thread :: "db \<Rightarrow> uuid \<Rightarrow> bool" where
  "instagram_thread s i \<longleftrightarrow> (case get_conversation_row s i of None \<Rightarrow> False
     | Some c \<Rightarrow> map_option ch_type (get_channel s (conv_channel_id c)) = Some INSTAGRAM)"

lemma send_access_row: "get_conversation_for_send s a i m = Inr c \<Longrightarrow> get_conversation_row s i = Some c"
  by (cases "ensure_membership_channel_access s a m (conv_channel_id (the (get_conversation_row s i)))")
    (auto simp: get_conversation_for_send_def live_conversation_def split: option.splits sum.splits if_splits)

lemma text_route_cases:
  assumes "\<not> instagram_thread s i"
  obtains "rp_calls (send_conversation_text env instagram a m i body s) = []" "rp_db (send_conversation_text env instagram a m i body s) = s"
  | c k wa to where "text_sent env a m i body s c k wa to" "send_conversation_text env instagram a m i body s =
      reply_of 400 (send_text_message env a (wa_id wa) to (render_template body (build_contact_context k)) False True None s)"
proof (cases "get_conversation_for_send s a i m")
  case (Inl e)
  then show thesis using that(1) by (simp add: send_conversation_text_def send_access_error_def http_error_def)
next
  case (Inr c)
  have ig: "map_option ch_type (get_channel s (conv_channel_id c)) \<noteq> Some INSTAGRAM"
    using assms send_access_row [OF Inr] by (simp add: instagram_thread_def)
  show thesis
  proof (cases "\<exists>k wa to. text_sent env a m i body s c k wa to")
    case True
    then obtain k wa to where *: "text_sent env a m i body s c k wa to" by blast
    show thesis by (rule that(2) [OF *]) (use * ig in \<open>simp only: text_sent_def send_conversation_text_def Let_def sum.case option.case if_False\<close>)
  next
    case False
    then show thesis using Inr ig
      by (intro that(1)) (auto simp: send_conversation_text_def text_sent_def http_error_def refused_def reply_of_def Let_def split: option.splits sum.splits)
  qed
qed

lemma text_calls:
  assumes "call \<in> set (st_calls (send_text_message env a i to body preview rec trigger s))"
  shows "call = CallText to body preview \<and> (\<exists>wa. usable_whatsapp_account s a i = Inr wa)"
proof (cases "usable_whatsapp_account s a i")
  case (Inr wa)
  then show ?thesis using assms deliver_calls [of env wa a "\<lparr>og_to = to, og_type = MtText, og_text = Some body, og_queued = None, og_failed = id, og_sent = id,
      og_first_response = True, og_call = CallText to body preview\<rparr>" rec trigger s] by (auto simp: send_text_message_def)
qed (use assms in \<open>simp add: send_text_message_def refused_def\<close>)

text \<open>C25. An agent's text reaches Meta only inside the service window: if the route calls Meta for a text in a thread that is not one of Instagram, the member may read the conversation, a message
  of the contact came in less than 24 hours ago, the number that sends is active, and the text goes to the digits of the contact's address.\<close>

theorem text_within_window:
  assumes "\<not> instagram_thread s i" "call \<in> set (rp_calls (send_conversation_text env instagram a m i body s))"
  shows "\<exists>c k wa t. get_conversation_for_send s a i m = Inr c \<and> get_contact_row s (conv_contact_id c) = Some k \<and>
    get_last_inbound_for_conversation s i = Some t \<and> se_now env < t + hours 24 \<and>
    get_whatsapp_account s (wa_id wa) = Some wa \<and> wa_status wa = WaActive \<and> wa_account_id wa = a \<and>
    call = CallText (filter is_digit (con_external_address k)) (render_template body (build_contact_context k)) False"
  using assms(1)
proof (cases rule: text_route_cases [where env = env and instagram = instagram and a = a and m = m and body = body])
  case 1
  then show ?thesis using assms(2) by simp
next
  case (2 c k wa to)
  then have "call \<in> set (st_calls (send_text_message env a (wa_id wa) to (render_template body (build_contact_context k)) False True None s))"
    using assms(2) by (simp add: reply_of_def)
  from text_calls [OF this] obtain wa' where wa': "usable_whatsapp_account s a (wa_id wa) = Inr wa'"
    and call: "call = CallText to (render_template body (build_contact_context k)) False" by blast
  note sent = 2(1) [unfolded text_sent_def]
  have "get_whatsapp_account s (wa_id wa') = Some wa'" "wa_status wa' = WaActive" "wa_account_id wa' = a"
    using wa' whatsapp_account_rows.get_key by (auto simp: usable_whatsapp_account_def split: option.splits if_splits)
  moreover obtain t where "get_last_inbound_for_conversation s i = Some t" "se_now env < t + hours 24"
    using sent by (auto simp: compute_service_window_def SERVICE_WINDOW_HOURS_def Let_def split: option.splits)
  moreover have "to = filter is_digit (con_external_address k)" using sent by (auto simp: text_request_def Let_def split: if_splits)
  ultimately show ?thesis using sent call by blast
qed

text \<open>Usage of agents is not counted: the route asks for the usage of the month to be recorded, but after the last commit; when the request is
  over, neither the active contacts nor their audit have changed, whatever was sent.\<close>

theorem agent_text_is_not_counted:
  assumes "\<not> instagram_thread s i"
  shows "macs (rp_db (send_conversation_text env instagram a m i body s)) = macs s \<and>
    mac_audits (rp_db (send_conversation_text env instagram a m i body s)) = mac_audits s"
  using assms
proof (cases rule: text_route_cases [where env = env and instagram = instagram and a = a and m = m and body = body])
  case (2 c k wa to)
  then show ?thesis by (simp add: reply_of_def send_text_message_def refused_def deliver_usage split: sum.split)
qed simp

section \<open>Each call is recorded\<close>

lemma put_fresh_message:
  assumes "msg_id m \<notin> msg_id ` set (messages s)" "msg_id m' = msg_id m"
  shows "messages (put_message m' (s\<lparr>messages := messages s @ [m]\<rparr>)) = messages s @ [m']"
proof -
  have "map (\<lambda>x. if msg_id x = msg_id m' then m' else x) (messages s) = messages s"
    using assms by (intro map_idI) (metis imageI)
  then show ?thesis using assms(2) by (simp add: put_message_def tbl_put_def)
qed

text \<open>Sent, when Meta answered with an id that is new; failed, when it refused; queued, when the answer was lost or its id is already stored.\<close>

definition final_status :: "db \<Rightarrow> meta_answer \<Rightarrow> message_status" where
  "final_status s answer = (case answer of
       MetaLost \<Rightarrow> MsgQueued
     | MetaRefused _ \<Rightarrow> MsgFailed
     | MetaAnswered r \<Rightarrow> (case provider_message_id r of None \<Rightarrow> MsgSent | Some e \<Rightarrow> if e \<in> set (external_ids s) then MsgQueued else MsgSent))"

text \<open>C35. Every call is recorded: whatever is sent, text, media, template or catalog, when Meta was called then one message more is stored at the end, to
  the address that was called and with the text of it.  Its status is sent when Meta answered, failed when Meta refused, and it stays queued when the
  answer was lost on the way (or carries an id that is already stored), so that of a queued message it is not known whether Meta took it.\<close>

theorem every_call_is_recorded:
  assumes "st_calls (deliver_message env wa a g counted trigger s) \<noteq> []" "ii_message (se_ids env) \<notin> msg_id ` set (messages s)"
  shows "\<exists>m. messages (st_committed (deliver_message env wa a g counted trigger s)) = messages s @ [m] \<and> msg_to_address m = og_to g \<and>
    msg_direction m = OUTBOUND \<and> msg_text_body m = og_text g \<and> msg_status m = final_status s (se_answer env (og_call g))"
proof -
  obtain k c b s1 where t: "thread_of_number (se_ids env) wa (og_to g) s = Inr (k, c, b, s1)"
    using assms(1) by (cases "thread_of_number (se_ids env) wa (og_to g) s") (auto simp: deliver_message_def refused_def)
  note frame = thread_frame(3) [OF t]
  define m where "m = queued_message env wa a k c g"
  have m: "msg_id m \<notin> msg_id ` set (messages s1)" using assms(2) frame by (simp add: m_def queued_message_def)
  have fields: "msg_to_address m = og_to g" "msg_direction m = OUTBOUND" "msg_text_body m = og_text g" "msg_status m = MsgQueued"
    by (simp_all add: m_def queued_message_def)
  show ?thesis
  proof (cases "se_answer env (og_call g)")
    case (MetaRefused exc)
    then show ?thesis using put_fresh_message [OF m] fields
      by (auto simp: deliver_message_def t m_def [symmetric] Let_def final_status_def frame)
  next
    case MetaLost
    then show ?thesis using fields by (simp add: deliver_message_def t m_def [symmetric] Let_def final_status_def frame)
  next
    case (MetaAnswered response)
    have stored: "(\<exists>x \<in> set (messages s1). msg_external_message_id x = Some e) \<longleftrightarrow> e \<in> set (external_ids s)" for e
      using frame by (auto simp: external_ids_def set_map_filter)
    show ?thesis
    proof (cases "provider_message_id response")
      case None
      then show ?thesis using MetaAnswered put_fresh_message [OF m] fields
        by (auto simp: deliver_message_def t m_def [symmetric] Let_def final_status_def frame put_conversation_def split: prod.splits)
    next
      case (Some e)
      then show ?thesis using MetaAnswered put_fresh_message [OF m] fields stored [of e]
        by (cases "e \<in> set (external_ids s)")
          (auto simp: deliver_message_def t m_def [symmetric] Let_def final_status_def frame put_conversation_def split: prod.splits)
    qed
  qed
qed

section \<open>Instances\<close>

definition demo_send_env :: send_env where
  "demo_send_env = \<lparr>se_now = 500, se_civil = DT 2026 2 1 0,
     se_ids = \<lparr>ii_contact = 100, ii_conversation = 200, ii_message = 300, ii_notification = 400, ii_mac = 500, ii_audit = 600\<rparr>,
     se_answer = (\<lambda>_. MetaAnswered (JObj [(''messages'', JList [JObj [(''id'', JStr ''wamid.9'')]])])), se_object_key = (\<lambda>_. None),
     se_components = (\<lambda>_ _ _. [])\<rparr>"

definition demo_update_env :: update_env where
  "demo_update_env = \<lparr>ue_now = 500, ue_iso = (\<lambda>_. []), ue_notification_id = 700, ue_run_ids = (\<lambda>i. i + 800)\<rparr>"

definition demo_message :: "uuid \<Rightarrow> datetime \<Rightarrow> message" where
  "demo_message i at = \<lparr>msg_id = i, msg_account_id = 1, msg_organization_id = 2, msg_channel_id = 3, msg_contact_id = Some 7,
     msg_conversation_id = Some 7, msg_external_message_id = Some ''wamid.1'', msg_direction = INBOUND, msg_type = MtText,
     msg_from_address = ''96550000001'', msg_to_address = ''96550000000'', msg_text_body = Some ''hi'', msg_provider_payload = None,
     msg_status = MsgReceived, msg_created_at = at\<rparr>"

definition inbox_example :: db where
  "inbox_example = empty_db\<lparr>channels := [demo_channel 3 None], whatsapp_accounts := [demo_wa 4 1 3],
     contacts := [fresh_contact 7 ''96550000001''], conversations := [demo_conversation 7 None], messages := [demo_message 9 100]\<rparr>"

definition no_instagram :: "conversation \<Rightarrow> contact \<Rightarrow> string \<Rightarrow> db \<Rightarrow> message reply" where
  "no_instagram c k t s = http_error 400 ''Conversation channel is not connected'' s"

lemma conversation_list_agrees_with_access_witness:
  "demo_conversation 7 None \<in> fst ` set (list_conversations 500 1 (demo_membership OWNER None) everything inbox_example) \<and>
   returns (list_messages inbox_example 1 7 (demo_membership OWNER None))"
proof -
  have "returns (list_messages inbox_example 1 7 (demo_membership OWNER None))" by code_simp
  moreover have rows: "get_conversation_row inbox_example 7 = Some (demo_conversation 7 None)" by code_simp
  moreover have "get_contact_row inbox_example 7 = Some (fresh_contact 7 ''96550000001'')" by code_simp
  moreover have "conv_id (demo_conversation 7 None) = 7" "conv_contact_id (demo_conversation 7 None) = 7" "conv_account_id (demo_conversation 7 None) = 1"
    "conv_deleted_at (demo_conversation 7 None) = None" "conv_snoozed_until (demo_conversation 7 None) = None"
    "con_deleted_at (fresh_contact 7 ''96550000001'') = None" "conversations inbox_example = [demo_conversation 7 None]"
    by (simp_all add: demo_conversation_def fresh_contact_def inbox_example_def)
  ultimately show ?thesis
    using conversation_list_agrees_with_access [where s = inbox_example and c = "demo_conversation 7 None" and a = 1 and now = 500
        and k = "fresh_contact 7 ''96550000001''" and m = "demo_membership OWNER None"] by simp
qed

lemma masking_covers_viewers_only_witness:
  "length (filter is_digit (cr_contact_address (mask_response inbox_example 1 (demo_membership VIEWER None)
      (build_conversation_response 500 (demo_conversation 7 None) (fresh_contact 7 ''96550000001'') None 0 None)))) \<le> 5"
proof -
  have "mem_role (demo_membership VIEWER None) = VIEWER" by (simp add: demo_membership_def)
  moreover have "map_of (get_feature_flags inbox_example 1) ''privacy_mask_agents'' \<noteq> Some False" by code_simp
  ultimately show ?thesis using masking_covers_viewers_only by blast
qed

definition closed_example :: db where
  "closed_example = inbox_example\<lparr>conversations := [(demo_conversation 6 None)\<lparr>conv_contact_id := 7, conv_status := ConvClosed\<rparr>, demo_conversation 7 None]\<rparr>"

definition close_request :: conversation_update where
  "close_request = \<lparr>up_assigned_membership_id = None, up_status = Some ConvClosed, up_priority = None, up_is_starred = None,
     up_snoozed_until = None, up_archived = None\<rparr>"

lemma second_close_conflicts_witness:
  "update_conversation demo_update_env 1 7 8 close_request closed_example = (Inl integrity_error, closed_example)"
proof -
  let ?other = "(demo_conversation 6 None)\<lparr>conv_contact_id := 7, conv_status := ConvClosed\<rparr>"
  have "live_conversation closed_example 1 7 = Inr (demo_conversation 7 None)" by code_simp
  moreover have "?other \<in> set (conversations closed_example)" by (simp add: closed_example_def)
  moreover have "conv_id ?other \<noteq> conv_id (demo_conversation 7 None)" "conv_contact_id ?other = conv_contact_id (demo_conversation 7 None)"
    "conv_channel_id ?other = conv_channel_id (demo_conversation 7 None)" "up_status close_request = Some (conv_status ?other)"
    "up_assigned_membership_id close_request = None" by (simp_all add: demo_conversation_def close_request_def)
  ultimately show ?thesis using second_close_conflicts [where s = closed_example and other = ?other and u = close_request] by blast
qed

lemma text_within_window_witness:
  "rp_calls (send_conversation_text demo_send_env no_instagram 1 (demo_membership OWNER None) 7 ''hi {{contact.phone}}'' inbox_example) =
     [CallText ''96550000001'' ''hi 96550000001'' False] \<and>
   map_option (\<lambda>t. 500 < t + hours 24) (get_last_inbound_for_conversation inbox_example 7) = Some True"
proof -
  let ?calls = "rp_calls (send_conversation_text demo_send_env no_instagram 1 (demo_membership OWNER None) 7 ''hi {{contact.phone}}'' inbox_example)"
  have calls: "?calls = [CallText ''96550000001'' ''hi 96550000001'' False]" by code_simp
  have "\<not> instagram_thread inbox_example 7" by code_simp
  moreover have "CallText ''96550000001'' ''hi 96550000001'' False \<in> set ?calls" unfolding calls by simp
  ultimately obtain t where "get_last_inbound_for_conversation inbox_example 7 = Some t" "se_now demo_send_env < t + hours 24"
    using text_within_window [where s = inbox_example and env = demo_send_env] by blast
  then show ?thesis using calls by (simp add: demo_send_env_def)
qed

lemma agent_text_is_not_counted_witness:
  "macs (rp_db (send_conversation_text demo_send_env no_instagram 1 (demo_membership OWNER None) 7 ''hi'' inbox_example)) = [] \<and>
   length (messages (rp_db (send_conversation_text demo_send_env no_instagram 1 (demo_membership OWNER None) 7 ''hi'' inbox_example))) = 2"
proof -
  have "\<not> instagram_thread inbox_example 7" by code_simp
  moreover have "macs inbox_example = []" by (simp add: inbox_example_def empty_db_def)
  moreover have "length (messages (rp_db (send_conversation_text demo_send_env no_instagram 1 (demo_membership OWNER None) 7 ''hi'' inbox_example))) = 2"
    by code_simp
  ultimately show ?thesis using agent_text_is_not_counted [where s = inbox_example and i = 7] by simp
qed

definition demo_outgoing :: outgoing where
  "demo_outgoing = \<lparr>og_to = ''96550000001'', og_type = MtText, og_text = Some ''hi'', og_queued = None, og_failed = id, og_sent = id,
     og_first_response = True, og_call = CallText ''96550000001'' ''hi'' False\<rparr>"

lemma every_call_is_recorded_witness:
  "map msg_status (messages (st_committed (deliver_message demo_send_env (demo_wa 4 1 3) 1 demo_outgoing True None inbox_example))) = [MsgReceived, MsgSent] \<and>
   map msg_status (messages (st_committed (deliver_message (demo_send_env\<lparr>se_answer := \<lambda>_. MetaLost\<rparr>) (demo_wa 4 1 3) 1 demo_outgoing True None
     inbox_example))) = [MsgReceived, MsgQueued]"
proof -
  let ?lost = "demo_send_env\<lparr>se_answer := \<lambda>_. MetaLost\<rparr>"
  have "st_calls (deliver_message demo_send_env (demo_wa 4 1 3) 1 demo_outgoing True None inbox_example) \<noteq> []"
    "st_calls (deliver_message ?lost (demo_wa 4 1 3) 1 demo_outgoing True None inbox_example) \<noteq> []" by code_simp+
  moreover have "ii_message (se_ids demo_send_env) \<notin> msg_id ` set (messages inbox_example)" "ii_message (se_ids ?lost) \<notin> msg_id ` set (messages inbox_example)"
    by (simp_all add: demo_send_env_def inbox_example_def demo_message_def)
  moreover have "final_status inbox_example (se_answer demo_send_env (og_call demo_outgoing)) = MsgSent"
    "final_status inbox_example (se_answer ?lost (og_call demo_outgoing)) = MsgQueued" by code_simp+
  moreover have "map msg_status (messages inbox_example) = [MsgReceived]" by code_simp
  ultimately show ?thesis
    using every_call_is_recorded [of demo_send_env "demo_wa 4 1 3" 1 demo_outgoing True None inbox_example]
      every_call_is_recorded [of ?lost "demo_wa 4 1 3" 1 demo_outgoing True None inbox_example] by auto
qed

end
