(* ===== verification/InboxTyping.thy ===== *)
theory InboxTyping
  imports InboxFacts ContactImport
begin

text \<open>
  Tenants stay apart in the inbox.  The place of a row is its channel, account and organization.  A database is well typed when every
  number and every contact is at the place of its channel, every conversation at the place of its contact, and every message at
  the place of its conversation; the operations of the inbox keep it so, whoever calls them in whatever order.
\<close>

section \<open>Places\<close>

type_synonym place = "uuid \<times> uuid \<times> uuid"

definition wa_place :: "whatsapp_account \<Rightarrow> place" where
  "wa_place wa = (wa_channel_id wa, wa_account_id wa, wa_organization_id wa)"

definition con_place :: "contact \<Rightarrow> place" where
  "con_place k = (con_channel_id k, con_account_id k, con_organization_id k)"

definition conv_place :: "conversation \<Rightarrow> place" where
  "conv_place c = (conv_channel_id c, conv_account_id c, conv_organization_id c)"

definition msg_place :: "message \<Rightarrow> place" where
  "msg_place m = (msg_channel_id m, msg_account_id m, msg_organization_id m)"

definition placed :: "db \<Rightarrow> place \<Rightarrow> bool" where
  "placed s p \<longleftrightarrow> (\<exists>ch \<in> set (channels s). p = (ch_id ch, ch_account_id ch, ch_organization_id ch))"

definition conversation_typed :: "db \<Rightarrow> conversation \<Rightarrow> bool" where
  "conversation_typed s c \<longleftrightarrow> (\<exists>k \<in> set (contacts s). con_id k = conv_contact_id c \<and> con_place k = conv_place c)"

definition message_typed :: "db \<Rightarrow> message \<Rightarrow> bool" where
  "message_typed s m \<longleftrightarrow> (\<exists>c \<in> set (conversations s). msg_conversation_id m = Some (conv_id c) \<and> msg_contact_id m = Some (conv_contact_id c) \<and>
     msg_place m = conv_place c)"

definition inbox_typed :: "db \<Rightarrow> bool" where
  "inbox_typed s \<longleftrightarrow> distinct (map ch_id (channels s)) \<and> distinct (map con_id (contacts s)) \<and> distinct (map conv_id (conversations s)) \<and>
     distinct (map msg_id (messages s)) \<and>
     (\<forall>wa \<in> set (whatsapp_accounts s). placed s (wa_place wa)) \<and> (\<forall>k \<in> set (contacts s). placed s (con_place k)) \<and>
     (\<forall>c \<in> set (conversations s). conversation_typed s c) \<and> (\<forall>m \<in> set (messages s). message_typed s m)"

named_theorems place_simps

lemmas [place_simps] = wa_place_def con_place_def conv_place_def msg_place_def

text \<open>A channel has one place.\<close>

lemma one_place: "inbox_typed s \<Longrightarrow> placed s (ch, a, o1) \<Longrightarrow> placed s (ch, b, o2) \<Longrightarrow> a = b \<and> o1 = o2"
  by (auto simp: inbox_typed_def placed_def distinct_map dest: inj_onD)

section \<open>Writes that keep the typing\<close>

definition same_inbox :: "db \<Rightarrow> db \<Rightarrow> bool" where
  "same_inbox s s' \<longleftrightarrow> channels s' = channels s \<and> whatsapp_accounts s' = whatsapp_accounts s \<and> contacts s' = contacts s \<and>
     conversations s' = conversations s \<and> messages s' = messages s"

lemma typed_same: "same_inbox s s' \<Longrightarrow> inbox_typed s \<Longrightarrow> inbox_typed s'"
  by (simp add: same_inbox_def inbox_typed_def placed_def conversation_typed_def message_typed_def)

lemma map_put: "map f (tbl_put f y xs) = map f xs"
  by (simp add: tbl_put_def)

lemma typed_put_contact:
  assumes "inbox_typed s" "k \<in> set (contacts s)" "con_id k' = con_id k" "con_place k' = con_place k"
  shows "inbox_typed (put_contact k' s)"
proof -
  have set: "set (contacts (put_contact k' s)) = insert k' (set (contacts s) - {k})"
    using assms(1-3) set_put [of con_id "contacts s" k k'] by (simp add: put_contact_def inbox_typed_def)
  have "map con_id (contacts (put_contact k' s)) = map con_id (contacts s)" by (simp add: put_contact_def map_put)
  moreover have "channels (put_contact k' s) = channels s" "conversations (put_contact k' s) = conversations s"
    "whatsapp_accounts (put_contact k' s) = whatsapp_accounts s" "messages (put_contact k' s) = messages s" by (simp_all add: put_contact_def)
  ultimately show ?thesis using assms unfolding inbox_typed_def placed_def conversation_typed_def message_typed_def set by auto
qed

lemma typed_add_contact:
  assumes "inbox_typed s" "con_id k \<notin> con_id ` set (contacts s)" "placed s (con_place k)"
  shows "inbox_typed (s\<lparr>contacts := contacts s @ [k]\<rparr>)"
  using assms by (auto simp: inbox_typed_def placed_def conversation_typed_def message_typed_def)

lemma typed_put_conversation:
  assumes "inbox_typed s" "c \<in> set (conversations s)" "conv_id c' = conv_id c" "conv_contact_id c' = conv_contact_id c" "conv_place c' = conv_place c"
  shows "inbox_typed (put_conversation c' s)"
proof -
  have set: "set (conversations (put_conversation c' s)) = insert c' (set (conversations s) - {c})"
    using assms(1-3) set_put [of conv_id "conversations s" c c'] by (simp add: put_conversation_def inbox_typed_def)
  have "map conv_id (conversations (put_conversation c' s)) = map conv_id (conversations s)" by (simp add: put_conversation_def map_put)
  moreover have "channels (put_conversation c' s) = channels s" "contacts (put_conversation c' s) = contacts s"
    "whatsapp_accounts (put_conversation c' s) = whatsapp_accounts s" "messages (put_conversation c' s) = messages s"
    by (simp_all add: put_conversation_def)
  ultimately show ?thesis using assms unfolding inbox_typed_def placed_def conversation_typed_def message_typed_def set by auto
qed

lemma put_conversation_mem: "c \<in> set (conversations s) \<Longrightarrow> conv_id c' = conv_id c \<Longrightarrow> c' \<in> set (conversations (put_conversation c' s))"
  by (force simp: put_conversation_def tbl_put_def)

lemma typed_add_conversation:
  assumes "inbox_typed s" "conv_id c \<notin> conv_id ` set (conversations s)" "conversation_typed s c"
  shows "inbox_typed (s\<lparr>conversations := conversations s @ [c]\<rparr>)"
  using assms by (auto simp: inbox_typed_def placed_def conversation_typed_def message_typed_def)

lemma typed_add_message:
  assumes "inbox_typed s" "msg_id m \<notin> msg_id ` set (messages s)" "message_typed s m"
  shows "inbox_typed (s\<lparr>messages := messages s @ [m]\<rparr>)"
  using assms by (auto simp: inbox_typed_def placed_def conversation_typed_def message_typed_def)

lemma typed_put_message:
  assumes "inbox_typed s" "m \<in> set (messages s)" "msg_id m' = msg_id m" "msg_conversation_id m' = msg_conversation_id m"
    and "msg_contact_id m' = msg_contact_id m" "msg_place m' = msg_place m"
  shows "inbox_typed (put_message m' s)"
proof -
  have set: "set (messages (put_message m' s)) = insert m' (set (messages s) - {m})"
    using assms(1-3) set_put [of msg_id "messages s" m m'] by (simp add: put_message_def inbox_typed_def)
  have "map msg_id (messages (put_message m' s)) = map msg_id (messages s)" by (simp add: put_message_def map_put)
  moreover have "channels (put_message m' s) = channels s" "contacts (put_message m' s) = contacts s"
    "whatsapp_accounts (put_message m' s) = whatsapp_accounts s" "conversations (put_message m' s) = conversations s"
    by (simp_all add: put_message_def)
  moreover have "message_typed s m'" using assms by (auto simp: inbox_typed_def message_typed_def)
  ultimately show ?thesis using assms(1) unfolding inbox_typed_def placed_def conversation_typed_def message_typed_def set by auto
qed

section \<open>Contact and conversation of a number\<close>

text \<open>The ids that an operation takes are new.\<close>

definition new_ids :: "inbound_ids \<Rightarrow> db \<Rightarrow> bool" where
  "new_ids ids s \<longleftrightarrow> ii_contact ids \<notin> con_id ` set (contacts s) \<and> ii_conversation ids \<notin> conv_id ` set (conversations s) \<and>
     ii_message ids \<notin> msg_id ` set (messages s)"

lemma found_contact:
  assumes "find_contact_on_channel_by_phone s o' ch a cc = Some k"
  shows "k \<in> set (contacts s) \<and> con_organization_id k = o' \<and> con_channel_id k = ch"
  using assms by (auto simp: find_contact_on_channel_by_phone_def Let_def find_Some_iff split: if_splits dest!: nth_mem)

lemma typed_match_contact:
  assumes "match_contact i wa number name s = Inr (k, s')" "inbox_typed s" "placed s (wa_place wa)" "i \<notin> con_id ` set (contacts s)"
  shows "inbox_typed s' \<and> k \<in> set (contacts s') \<and> con_place k = wa_place wa \<and> conversations s' = conversations s \<and> messages s' = messages s \<and>
    channels s' = channels s"
proof (cases "find_contact_on_channel_by_phone s (wa_organization_id wa) (wa_channel_id wa) number DEFAULT_COUNTRY_CODE")
  case None
  define c where "c = new_contact i wa number name"
  have c: "con_id c = i" "con_place c = wa_place wa" by (simp_all add: c_def new_contact_def place_simps)
  have s': "k = c" "s' = s\<lparr>contacts := contacts s @ [c]\<rparr>"
    using assms(1) None by (auto simp: match_contact_def insert_contact_def c_def Let_def split: if_splits)
  have "inbox_typed s'" unfolding s' by (rule typed_add_contact) (use assms c in auto)
  then show ?thesis using c by (simp add: s')
next
  case (Some d)
  have d: "d \<in> set (contacts s)" "con_organization_id d = wa_organization_id wa" "con_channel_id d = wa_channel_id wa"
    using found_contact [OF Some] by simp_all
  have "placed s (con_place d)" using assms(2) d(1) by (simp add: inbox_typed_def)
  then have place: "con_place d = wa_place wa" using one_place [OF assms(2)] assms(3) d by (auto simp: place_simps)
  have "(k = d \<and> s' = s) \<or> (con_id k = con_id d \<and> con_place k = con_place d \<and> s' = put_contact k s)"
    using assms(1) Some by (auto simp: match_contact_def flush_contact_def place_simps Let_def split: if_splits)
  then show ?thesis
  proof
    assume "con_id k = con_id d \<and> con_place k = con_place d \<and> s' = put_contact k s"
    then show ?thesis using typed_put_contact [OF assms(2) d(1)] d(1) place
      by (auto simp: put_contact_def tbl_put_def image_iff)
  qed (use assms d place in auto)
qed

lemma typed_assign:
  assumes "auto_assign_conversation c s = (r, s')" "inbox_typed s" "c \<in> set (conversations s)"
  shows "inbox_typed s' \<and> (\<exists>d \<in> set (conversations s'). conv_id d = conv_id c \<and> conv_contact_id d = conv_contact_id c \<and> conv_place d = conv_place c)
    \<and> messages s' = messages s"
proof -
  have rule: "same_inbox s (put_rule x s)" for x s by (simp add: same_inbox_def put_rule_def)
  have put: "inbox_typed (put_conversation (c\<lparr>conv_assigned_membership_id := v\<rparr>) s) \<and>
      (\<exists>d \<in> set (conversations (put_conversation (c\<lparr>conv_assigned_membership_id := v\<rparr>) s)). conv_id d = conv_id c \<and> conv_contact_id d = conv_contact_id c
        \<and> conv_place d = conv_place c)"
    for v
    using typed_put_conversation [OF assms(2,3), of "c\<lparr>conv_assigned_membership_id := v\<rparr>"]
      put_conversation_mem [OF assms(3), of "c\<lparr>conv_assigned_membership_id := v\<rparr>"]
    by (intro conjI bexI [where x = "c\<lparr>conv_assigned_membership_id := v\<rparr>"]) (simp_all add: place_simps)
  have "s' = s \<or> (\<exists>v. s' = put_conversation (c\<lparr>conv_assigned_membership_id := v\<rparr>) s) \<or>
      (\<exists>v x. s' = put_conversation (c\<lparr>conv_assigned_membership_id := v\<rparr>) (put_rule x s))"
    using assms(1) by (auto simp: auto_assign_conversation_def Let_def split: option.splits list.splits if_splits)
  moreover have swap: "put_conversation d (put_rule x s) = put_rule x (put_conversation d s)" for d x by (simp add: put_rule_def put_conversation_def)
  ultimately show ?thesis
  proof (elim disjE exE)
    fix v x assume s': "s' = put_conversation (c\<lparr>conv_assigned_membership_id := v\<rparr>) (put_rule x s)"
    have "inbox_typed s'" unfolding s' swap by (rule typed_same [OF rule]) (use put in blast)
    then show ?thesis using put [of v] unfolding s' swap by (simp add: put_rule_def put_conversation_def)
  qed (use put assms(2,3) in \<open>auto simp: put_conversation_def\<close>)
qed

lemma open_conversation_found:
  assumes "open_conversation s k ch = Some c"
  shows "c \<in> set (conversations s) \<and> conv_contact_id c = k \<and> conv_channel_id c = ch"
  using assms by (auto simp: open_conversation_def find_Some_iff dest!: nth_mem)

lemma place_of_conversation:
  assumes "inbox_typed s" "c \<in> set (conversations s)" "k \<in> set (contacts s)" "conv_contact_id c = con_id k"
  shows "conv_place c = con_place k"
  using assms row_by_id [of con_id "contacts s"] unfolding inbox_typed_def conversation_typed_def by metis

text \<open>The thread that an operation works on.\<close>

definition is_thread :: "db \<Rightarrow> contact \<Rightarrow> conversation \<Rightarrow> bool" where
  "is_thread s k c \<longleftrightarrow> (\<exists>d \<in> set (conversations s). conv_id d = conv_id c \<and> conv_contact_id d = con_id k \<and> conv_contact_id c = con_id k \<and>
     conv_place d = con_place k \<and> conv_place c = con_place k)"

lemma typed_open_thread:
  assumes "open_thread ids wa k s = Inr (c, b, s')" "inbox_typed s" "k \<in> set (contacts s)" "con_place k = wa_place wa"
    and "ii_conversation ids \<notin> conv_id ` set (conversations s)"
  shows "inbox_typed s' \<and> is_thread s' k c \<and> messages s' = messages s"
proof (cases "open_conversation s (con_id k) (wa_channel_id wa)")
  case (Some d)
  then have "c = d" "s' = s" using assms(1) by (simp_all add: open_thread_def)
  then show ?thesis
    using open_conversation_found [OF Some] place_of_conversation [OF assms(2) _ assms(3), of d] assms(2) by (auto simp: is_thread_def)
next
  case None
  define d where "d = inbound_conversation (ii_conversation ids) wa (con_id k)"
  have d: "conv_id d = ii_conversation ids" "conv_contact_id d = con_id k" "conv_place d = con_place k"
    using assms(4) by (simp_all add: d_def inbound_conversation_def place_simps)
  obtain s1 where i: "insert_conversation d s = Inr s1"
    using assms(1) None by (auto simp: open_thread_def d_def [symmetric] Let_def split: sum.splits)
  then have s1: "s1 = s\<lparr>conversations := conversations s @ [d]\<rparr>" by (auto simp: insert_conversation_def split: if_splits)
  have t1: "inbox_typed s1" unfolding s1
    by (rule typed_add_conversation) (use assms d in \<open>auto simp: conversation_typed_def\<close>)
  obtain r s2 where a: "auto_assign_conversation d s1 = (r, s2)" by fastforce
  have "d \<in> set (conversations s1)" by (simp add: s1)
  from typed_assign [OF a t1 this] have t2: "inbox_typed s2" "is_thread s2 k d" "messages s2 = messages s"
    using d s1 by (auto simp: is_thread_def)
  have end': "conv_id c = conv_id d" "conv_contact_id c = conv_contact_id d" "conv_place c = conv_place d" "same_inbox s2 s'"
    using assms(1) None i a
    by (cases r; auto simp: open_thread_def d_def [symmetric] Let_def same_inbox_def create_notification_def place_simps)+
  have "inbox_typed s'" by (rule typed_same [OF end'(4) t2(1)])
  moreover have "is_thread s' k c" using t2(2) end' by (simp add: is_thread_def same_inbox_def)
  ultimately show ?thesis using t2(3) end'(4) by (simp add: same_inbox_def)
qed

lemma typed_reply:
  assumes "inbox_typed s" "is_thread s k c" "conv_id c' = conv_id c" "conv_contact_id c' = conv_contact_id c" "conv_place c' = conv_place c"
  shows "inbox_typed (put_conversation c' s)"
proof -
  obtain d where "d \<in> set (conversations s)" "conv_id d = conv_id c" "conv_contact_id d = con_id k" "conv_contact_id c = con_id k"
    "conv_place d = con_place k" "conv_place c = con_place k" using assms(2) by (auto simp: is_thread_def)
  then show ?thesis using typed_put_conversation [OF assms(1), of d c'] assms(3-5) by simp
qed

lemma typed_new_message:
  assumes "inbox_typed s" "is_thread s k c" "msg_id m \<notin> msg_id ` set (messages s)" "msg_conversation_id m = Some (conv_id c)"
    and "msg_contact_id m = Some (con_id k)" "msg_place m = con_place k"
  shows "inbox_typed (s\<lparr>messages := messages s @ [m]\<rparr>)"
proof (rule typed_add_message [OF assms(1,3)])
  show "message_typed s m" using assms(2,4-6) unfolding is_thread_def message_typed_def by metis
qed

section \<open>The operations\<close>

lemma record_mac_same: "same_inbox s (snd (record_mac now i j p t s))"
  by (auto simp: same_inbox_def record_mac_def record_activity_def Let_def split: prod.splits option.splits if_splits activity_arg.splits)

text \<open>The parts of a stored message.\<close>

lemma store_inbound_parts:
  assumes "store_inbound env n wa item val s = Inr (ctx, s')"
  obtains sender k c b s0 s1 x i j p t where
    "match_contact (ii_contact (wh_ids env n)) wa sender (sender_name val) s = Inr (k, s0)" "open_thread (wh_ids env n) wa k s0 = Inr (c, b, s1)"
    "msg_id x = ii_message (wh_ids env n)" "msg_conversation_id x = Some (conv_id c)" "msg_contact_id x = Some (con_id k)"
    "msg_place x = wa_place wa"
    "s' = snd (record_mac (wh_civil env n) i j p t
       (put_conversation (c\<lparr>conv_last_message_at := Some (wh_clock env n)\<rparr>) (s1\<lparr>messages := messages s1 @ [x]\<rparr>)))"
proof -
  let ?from = "case text_value (jget item ''from'') of None \<Rightarrow> [] | Some t \<Rightarrow> t"
  obtain k c b s1 where g: "get_or_create_contact_and_conversation (wh_ids env n) wa ?from (sender_name val) s = Inr (k, c, b, s1)"
    using assms by (auto simp: store_inbound_def Let_def split: sum.splits prod.splits)
  obtain s0 where m: "match_contact (ii_contact (wh_ids env n)) wa (normalize_whatsapp_phone (Some ?from) DEFAULT_COUNTRY_CODE) (sender_name val) s = Inr (k, s0)"
    and o: "open_thread (wh_ids env n) wa k s0 = Inr (c, b, s1)"
    using g by (auto simp: get_or_create_contact_and_conversation_def Let_def split: sum.splits prod.splits if_splits)
  obtain ty body payload where content: "inbound_content env n wa item = Inr (ty, body, payload)"
    using assms g by (auto simp: store_inbound_def Let_def split: sum.splits)
  define x where "x = \<lparr>msg_id = ii_message (wh_ids env n), msg_account_id = wa_account_id wa, msg_organization_id = wa_organization_id wa,
    msg_channel_id = wa_channel_id wa, msg_contact_id = Some (con_id k), msg_conversation_id = Some (conv_id c),
    msg_external_message_id = text_value (jget item ''id''), msg_direction = INBOUND, msg_type = ty,
    msg_from_address = ?from, msg_to_address = wa_display_phone_number wa, msg_text_body = body, msg_provider_payload = Some payload,
    msg_status = MsgReceived, msg_created_at = wh_clock env n\<rparr>"
  note step = assms [unfolded store_inbound_def Let_def g sum.case prod.case content, folded x_def]
  obtain s2 where s2: "insert_message x s1 = Inr s2" using step by (cases "insert_message x s1") simp_all
  then have app: "s2 = s1\<lparr>messages := messages s1 @ [x]\<rparr>" by (auto simp: insert_message_def split: if_splits)
  have "\<exists>i j p t. s' = snd (record_mac (wh_civil env n) i j p t (put_conversation (c\<lparr>conv_last_message_at := Some (wh_clock env n)\<rparr>) s2))"
    using step [unfolded s2 sum.case] by (auto simp only: split: sum.splits prod.splits) (metis snd_conv)
  then obtain i j p t where s': "s' = snd (record_mac (wh_civil env n) i j p t (put_conversation (c\<lparr>conv_last_message_at := Some (wh_clock env n)\<rparr>) s2))"
    by blast
  show thesis by (rule that [OF m o _ _ _ _ s' [unfolded app]]) (simp_all add: x_def place_simps)
qed

lemma typed_store_inbound:
  assumes "store_inbound env n wa item val s = Inr (ctx, s')" "inbox_typed s" "wa \<in> set (whatsapp_accounts s)" "new_ids (wh_ids env n) s"
  shows "inbox_typed s'"
  using assms(1)
proof (cases rule: store_inbound_parts)
  case (1 sender k c b s0 s1 x i j p t)
  have pl: "placed s (wa_place wa)" using assms(2,3) by (simp add: inbox_typed_def)
  have new: "ii_contact (wh_ids env n) \<notin> con_id ` set (contacts s)" "ii_conversation (wh_ids env n) \<notin> conv_id ` set (conversations s)"
    "ii_message (wh_ids env n) \<notin> msg_id ` set (messages s)" using assms(4) by (simp_all add: new_ids_def)
  note t0 = typed_match_contact [OF 1(1) assms(2) pl new(1)]
  have t1: "inbox_typed s1" "is_thread s1 k c" "messages s1 = messages s" using typed_open_thread [OF 1(2)] t0 new(2) by simp_all
  have "inbox_typed (s1\<lparr>messages := messages s1 @ [x]\<rparr>)"
    by (rule typed_new_message [OF t1(1,2)]) (use 1(3-6) t0 t1(3) new(3) in simp_all)
  moreover have "is_thread (s1\<lparr>messages := messages s1 @ [x]\<rparr>) k c" using t1(2) by (simp add: is_thread_def)
  ultimately have "inbox_typed (put_conversation (c\<lparr>conv_last_message_at := Some (wh_clock env n)\<rparr>) (s1\<lparr>messages := messages s1 @ [x]\<rparr>))"
    by (rule typed_reply) (simp_all add: place_simps)
  from typed_same [OF record_mac_same this] show ?thesis unfolding 1(7) .
qed

text \<open>The stored message is at the place of the number, and so are its conversation and its contact.\<close>

lemma stored_message_place:
  assumes "store_inbound env n wa item val s = Inr (ctx, s')" "inbox_typed s" "wa \<in> set (whatsapp_accounts s)" "new_ids (wh_ids env n) s"
  shows "\<exists>m. messages s' = messages s @ [m] \<and> msg_place m = wa_place wa \<and>
    (\<exists>c \<in> set (conversations s'). msg_conversation_id m = Some (conv_id c) \<and> conv_place c = wa_place wa) \<and>
    (\<exists>k \<in> set (contacts s'). msg_contact_id m = Some (con_id k) \<and> con_place k = wa_place wa)"
proof -
  obtain x where x: "messages s' = messages s @ [x]" "msg_place x = wa_place wa"
    using assms(1)
  proof (cases rule: store_inbound_parts)
    case (1 sender k c b s0 s1 x i j p t)
    have pl: "placed s (wa_place wa)" using assms(2,3) by (simp add: inbox_typed_def)
    have new: "ii_contact (wh_ids env n) \<notin> con_id ` set (contacts s)" "ii_conversation (wh_ids env n) \<notin> conv_id ` set (conversations s)"
      using assms(4) by (simp_all add: new_ids_def)
    note t0 = typed_match_contact [OF 1(1) assms(2) pl new(1)]
    have "messages s1 = messages s" using typed_open_thread [OF 1(2)] t0 new(2) by simp
    moreover have "messages (snd (record_mac now i' j' p' t' u)) = messages u" for now i' j' p' t' u
      using record_mac_same [of u now i' j' p' t'] by (simp add: same_inbox_def)
    ultimately have "messages s' = messages s @ [x]" unfolding 1(7) by (simp add: put_conversation_def)
    then show thesis using that 1(6) by blast
  qed
  note typed = typed_store_inbound [OF assms]
  obtain c where c: "c \<in> set (conversations s')" "msg_conversation_id x = Some (conv_id c)" "msg_contact_id x = Some (conv_contact_id c)"
    "conv_place c = wa_place wa"
    using typed x by (auto simp: inbox_typed_def message_typed_def)
  moreover obtain k where "k \<in> set (contacts s')" "con_id k = conv_contact_id c" "con_place k = conv_place c"
    using typed c(1) by (auto simp: inbox_typed_def conversation_typed_def)
  ultimately show ?thesis using x by (intro exI [of _ x] conjI) (simp_all, metis, metis)
qed

text \<open>Sends.\<close>

lemma typed_sent_message:
  assumes "inbox_typed s" "is_thread s k c" "msg_id m \<notin> msg_id ` set (messages s)" "msg_conversation_id m = Some (conv_id c)"
    and "msg_contact_id m = Some (con_id k)" "msg_place m = con_place k"
    and "msg_id m' = msg_id m" "msg_conversation_id m' = msg_conversation_id m" "msg_contact_id m' = msg_contact_id m" "msg_place m' = msg_place m"
  shows "inbox_typed (put_message m' (s\<lparr>messages := messages s @ [m]\<rparr>))" "is_thread (put_message m' (s\<lparr>messages := messages s @ [m]\<rparr>)) k c"
proof -
  have "inbox_typed (s\<lparr>messages := messages s @ [m]\<rparr>)" by (rule typed_new_message [OF assms(1-6)])
  then show "inbox_typed (put_message m' (s\<lparr>messages := messages s @ [m]\<rparr>))" by (rule typed_put_message [OF _ _ assms(7-10)]) simp
  show "is_thread (put_message m' (s\<lparr>messages := messages s @ [m]\<rparr>)) k c" using assms(2) by (simp add: is_thread_def put_message_def)
qed

lemma typed_deliver:
  assumes "inbox_typed s" "wa \<in> set (whatsapp_accounts s)" "wa_account_id wa = a" "new_ids (se_ids env) s"
  shows "inbox_typed (st_committed (deliver_message env wa a g record trigger s))"
proof (cases "thread_of_number (se_ids env) wa (og_to g) s")
  case (Inl e)
  then show ?thesis using assms(1) by (simp add: deliver_message_def refused_def)
next
  case (Inr x)
  obtain k c b s1 where x: "x = (k, c, b, s1)" by (cases x)
  obtain s0 where mc: "match_contact (ii_contact (se_ids env)) wa (normalize_whatsapp_phone (Some (og_to g)) DEFAULT_COUNTRY_CODE) None s = Inr (k, s0)"
    and o: "open_thread (se_ids env) wa k s0 = Inr (c, b, s1)" using Inr x by (auto simp: thread_of_number_def split: sum.splits)
  have pl: "placed s (wa_place wa)" using assms(1,2) by (simp add: inbox_typed_def)
  have i: "ii_contact (se_ids env) \<notin> con_id ` set (contacts s)" "ii_conversation (se_ids env) \<notin> conv_id ` set (conversations s)"
    "ii_message (se_ids env) \<notin> msg_id ` set (messages s)" using assms(4) by (simp_all add: new_ids_def)
  note t0 = typed_match_contact [OF mc assms(1) pl i(1)]
  have t1: "inbox_typed s1" "is_thread s1 k c" "messages s1 = messages s" using typed_open_thread [OF o] t0 i(2) by simp_all
  define m where "m = queued_message env wa a k c g"
  have new: "msg_id m \<notin> msg_id ` set (messages s1)" "msg_conversation_id m = Some (conv_id c)" "msg_contact_id m = Some (con_id k)"
    "msg_place m = con_place k" using t0 t1(3) i(3) assms(3) by (simp_all add: m_def queued_message_def place_simps)
  have queued: "inbox_typed (s1\<lparr>messages := messages s1 @ [m]\<rparr>)" by (rule typed_new_message [OF t1(1,2) new])
  note rewritten = typed_sent_message [OF t1(1,2) new]
  show ?thesis
  proof (cases "se_answer env (og_call g)")
    case MetaLost
    then show ?thesis using Inr x queued by (simp add: deliver_message_def m_def Let_def)
  next
    case (MetaRefused exc)
    have "inbox_typed (put_message (m\<lparr>msg_status := MsgFailed, msg_provider_payload := v\<rparr>) (s1\<lparr>messages := messages s1 @ [m]\<rparr>))" for v
      by (rule rewritten(1)) (simp_all add: place_simps)
    then show ?thesis using Inr x MetaRefused by (simp add: deliver_message_def m_def Let_def)
  next
    case ok: (MetaAnswered response)
    have "inbox_typed (put_conversation (answered_conversation (se_now env) f c)
        (put_message (m\<lparr>msg_external_message_id := e, msg_provider_payload := v, msg_status := MsgSent\<rparr>) (s1\<lparr>messages := messages s1 @ [m]\<rparr>)))" for f e v
      by (rule typed_reply [OF rewritten]) (simp_all add: answered_conversation_def place_simps)
    then show ?thesis using Inr x ok queued by (simp add: deliver_message_def m_def Let_def split_def)
  qed
qed

lemma usable_account:
  assumes "usable_whatsapp_account s a i = Inr wa"
  shows "wa \<in> set (whatsapp_accounts s) \<and> wa_account_id wa = a"
  using assms by (auto simp: usable_whatsapp_account_def get_whatsapp_account_def tbl_get_def find_Some_iff split: option.splits if_splits dest!: nth_mem)

lemma typed_send_text:
  assumes "inbox_typed s" "new_ids (se_ids env) s"
  shows "inbox_typed (st_committed (send_text_message env a i to body preview record trigger s))"
  using typed_deliver [OF assms(1) _ _ assms(2)] usable_account assms(1)
  by (auto simp: send_text_message_def refused_def split: sum.split)

lemma typed_send_media:
  assumes "inbox_typed s" "new_ids (se_ids env) s"
  shows "inbox_typed (st_committed (send_media_message env a i ty to url caption name record s))"
  using typed_deliver [OF assms(1) _ _ assms(2)] usable_account assms(1)
  by (auto simp: send_media_message_def refused_def Let_def split: sum.split)

lemma typed_send_template:
  assumes "inbox_typed s" "new_ids (se_ids env) s"
  shows "inbox_typed (st_committed (send_template_message env a i to name lang comps record shown body s))"
  using typed_deliver [OF assms(1) _ _ assms(2)] usable_account assms(1)
  by (auto simp: send_template_message_def refused_def Let_def split: sum.split)

lemma typed_send_catalog:
  assumes "inbox_typed s" "new_ids (se_ids env) s"
  shows "inbox_typed (st_committed (send_catalog_welcome_message env a i to body footer record s))"
    "inbox_typed (st_committed (send_product_list_message env a i to catalog_id sections body header_text footer record s))"
  using typed_deliver [OF assms(1) _ _ assms(2)] usable_account assms(1)
  by (auto simp: send_catalog_welcome_message_def send_product_list_message_def commerce_whatsapp_account_def refused_def
      split: sum.split sum.splits if_splits)

text \<open>Contacts.\<close>

lemma merge_place: "con_id (merge_payload infer p address k) = con_id k" "con_place (merge_payload infer p address k) = con_place k"
  by (simp_all add: merge_payload_def Let_def place_simps split: option.split)

lemma update_place: "con_id (apply_contact_update infer u k) = con_id k" "con_place (apply_contact_update infer u k) = con_place k"
  by (simp_all add: apply_contact_update_def Let_def place_simps split: option.split)

lemma tags_same: "apply_contact_tags a k ts s = Inr s' \<Longrightarrow> same_inbox s s'"
  by (auto simp: apply_contact_tags_def add_contact_tags_def same_inbox_def Let_def split: if_splits sum.splits)

lemma interests_same: "apply_contact_interests a k ts s = Inr s' \<Longrightarrow> same_inbox s s'"
  by (auto simp: apply_contact_interests_def set_contact_interests_def same_inbox_def Let_def split: if_splits sum.splits)

lemma same_inbox_trans: "same_inbox s t \<Longrightarrow> same_inbox t u \<Longrightarrow> same_inbox s u"
  by (simp add: same_inbox_def)

lemma typed_create_contact:
  assumes "create_contact infer i a p s = (r, s')" "inbox_typed s" "i \<notin> con_id ` set (contacts s)"
  shows "inbox_typed s' \<and> (case r of Inl _ \<Rightarrow> True | Inr k \<Rightarrow> k \<in> set (contacts s')) \<and> conversations s' = conversations s"
proof (cases "channel_error s a (cc_organization_id p) (cc_channel_id p)")
  case (Some e)
  then show ?thesis using assms by (auto simp: create_contact_def)
next
  case None
  define address where "address = normalize_whatsapp_phone (Some (cc_external_address p)) (payload_country p)"
  define found where "found = find_contact_on_channel_by_phone s (cc_organization_id p) (cc_channel_id p) address (payload_country p)"
  define k where "k = (case found of Some d \<Rightarrow> merge_payload infer p address d | None \<Rightarrow> contact_of_payload infer i a p address)"
  define stored where "stored = (case found of Some d \<Rightarrow> flush_contact k s | None \<Rightarrow> insert_contact k s)"
  obtain ch where ch: "ch \<in> set (channels s)" "ch_id ch = cc_channel_id p" "ch_account_id ch = a" "ch_organization_id ch = cc_organization_id p"
    using None by (auto simp: channel_error_def get_channel_def dest: tbl_get_mem tbl_get_key split: option.splits if_splits)
  have good: "inbox_typed s1 \<and> k \<in> set (contacts s1) \<and> conversations s1 = conversations s" if "stored = Inr s1" for s1
  proof (cases found)
    case None
    have "con_id k = i" "con_place k = (ch_id ch, ch_account_id ch, ch_organization_id ch)"
      using None ch by (simp_all add: k_def contact_of_payload_def place_simps)
    moreover have "s1 = s\<lparr>contacts := contacts s @ [k]\<rparr>" using that None by (auto simp: stored_def insert_contact_def split: if_splits)
    ultimately show ?thesis using typed_add_contact [OF assms(2), of k] assms(3) ch(1) by (auto simp: placed_def)
  next
    case (Some d)
    have d: "d \<in> set (contacts s)" using found_contact Some unfolding found_def by blast
    have s1: "s1 = put_contact k s" using that Some by (auto simp: stored_def flush_contact_def split: if_splits)
    have "con_id k = con_id d" "con_place k = con_place d" using Some by (simp_all add: k_def merge_place)
    then show ?thesis using typed_put_contact [OF assms(2) d] d unfolding s1 by (auto simp: put_contact_def tbl_put_def image_iff)
  qed
  have step: "create_contact infer i a p s = (if address = [] then (Inl (ValueError ''INVALID_PHONE''), s)
      else (case stored of Inl e \<Rightarrow> (Inl e, s) | Inr s1 \<Rightarrow> (case apply_contact_tags a (con_id k) (cc_tag_ids p) s1 of Inl e \<Rightarrow> (Inl e, s)
         | Inr s2 \<Rightarrow> (case apply_contact_interests a (con_id k) (cc_interest_ids p) s2 of Inl e \<Rightarrow> (Inl e, s) | Inr s3 \<Rightarrow> (Inr k, s3)))))"
    using None unfolding stored_def k_def
    by (cases found) (simp_all add: create_contact_def address_def [symmetric] found_def [symmetric] Let_def cong: sum.case_cong)
  consider "s' = s" "\<exists>e. r = Inl e" | s1 s2 where "stored = Inr s1" "same_inbox s1 s2" "same_inbox s2 s'" "r = Inr k"
    using assms(1) unfolding step by (auto split: if_splits sum.splits dest!: tags_same interests_same)
  then show ?thesis
  proof cases
    case 1
    then show ?thesis using assms(2) by auto
  next
    case 2
    have same: "same_inbox s1 s'" by (rule same_inbox_trans [OF 2(2,3)])
    then have "inbox_typed s'" using typed_same good [OF 2(1)] by blast
    then show ?thesis using good [OF 2(1)] same 2(4) by (simp add: same_inbox_def)
  qed
qed

lemma typed_update_contact: "update_contact infer a i u s = (r, s') \<Longrightarrow> inbox_typed s \<Longrightarrow> inbox_typed s'"
  using typed_put_contact [of s _ "apply_contact_update infer u _"]
  by (auto simp: update_contact_def get_contact_or_raise_def get_contact_row_def update_place Let_def dest!: tbl_get_mem split: option.splits if_splits)

lemma typed_delete_contact:
  assumes "delete_contact now a i s = (r, s')" "inbox_typed s"
  shows "inbox_typed s'"
proof -
  have "inbox_typed (put_contact (k\<lparr>con_deleted_at := Some now\<rparr>) s)" if "k \<in> set (contacts s)" for k
    by (rule typed_put_contact [OF assms(2) that]) (simp_all add: place_simps)
  then show ?thesis using assms
    by (auto simp: delete_contact_def own_contact_def get_contact_row_def dest!: tbl_get_mem split: option.splits if_splits)
qed

text \<open>Conversations.\<close>

lemma own_conversation_mem: "own_conversation s a i = Inr c \<Longrightarrow> c \<in> set (conversations s)"
  by (auto simp: own_conversation_def get_conversation_row_def dest!: tbl_get_mem split: option.splits if_splits)

lemma live_conversation_mem: "live_conversation s a i = Inr c \<Longrightarrow> c \<in> set (conversations s)"
  by (auto simp: live_conversation_def get_conversation_row_def dest!: tbl_get_mem split: option.splits if_splits)

lemma typed_change_conversation:
  assumes "change_conversation f a i s = (r, s')" "inbox_typed s" "\<And>c. conv_id (f c) = conv_id c" "\<And>c. conv_contact_id (f c) = conv_contact_id c"
    "\<And>c. conv_place (f c) = conv_place c"
  shows "inbox_typed s'"
  using assms typed_put_conversation [OF assms(2), of _ "f _"]
  by (auto simp: change_conversation_def split: sum.splits dest!: own_conversation_mem)

lemma typed_flags:
  "star_conversation a i b s = (r, s') \<Longrightarrow> inbox_typed s \<Longrightarrow> inbox_typed s'"
  "snooze_conversation a i t s = (r, s') \<Longrightarrow> inbox_typed s \<Longrightarrow> inbox_typed s'"
  "archive_conversation now a i b s = (r, s') \<Longrightarrow> inbox_typed s \<Longrightarrow> inbox_typed s'"
  by (erule typed_change_conversation [of _ a i, OF _ _, rotated 1]; simp add: star_conversation_def snooze_conversation_def archive_conversation_def
      place_simps)+

lemma typed_mark_read: "mark_conversation_read now a i m s = (r, s') \<Longrightarrow> inbox_typed s \<Longrightarrow> inbox_typed s'"
  by (rule typed_same [of s]) (auto simp: mark_conversation_read_def get_or_create_read_state_def put_read_state_def same_inbox_def Let_def
      split: sum.splits option.splits)

lemma add_runs_same: "add_runs now ids a p as s = (r, s') \<Longrightarrow> same_inbox s s'"
  by (induction now ids a p as s arbitrary: r s' rule: add_runs.induct) (auto simp: same_inbox_def Let_def split: sum.splits prod.splits)

lemma queue_runs_same: "queue_automation_runs now ids a t p s = (r, s') \<Longrightarrow> same_inbox s s'"
  by (auto simp: queue_automation_runs_def same_inbox_def dest!: add_runs_same split: option.splits sum.splits json.splits)

lemma assign_same:
  assumes "assign_conversation env a assignee c s = Inr (c', d, runs, s')"
  shows "same_inbox s s'" "conv_id c' = conv_id c" "conv_contact_id c' = conv_contact_id c" "conv_place c' = conv_place c"
  using assms by (auto simp: assign_conversation_def Let_def create_notification_def place_simps same_inbox_def dest!: queue_runs_same
      split: option.splits if_splits sum.splits prod.splits)

lemma typed_update_conversation:
  assumes "update_conversation env a i actor u s = (r, s')" "inbox_typed s"
  shows "inbox_typed s'"
proof -
  consider "s' = s" | c0 c1 d runs s1 es where "live_conversation s a i = Inr c0" "assign_conversation env a (up_assigned_membership_id u) c0 s = Inr (c1, d, runs, s1)"
      "s' = put_conversation (fst (plain_changes env u c1)) (s1\<lparr>conversation_events := es\<rparr>)"
    using assms(1) by (auto simp: update_conversation_def flush_conversation_def Let_def split_def split: sum.splits if_splits)
  then show ?thesis
  proof cases
    case 1
    then show ?thesis using assms(2) by simp
  next
    case 2
    note assigned = assign_same [OF 2(2)]
    have "same_inbox s (s1\<lparr>conversation_events := es\<rparr>)" using assigned(1) by (simp add: same_inbox_def)
    then have t: "inbox_typed (s1\<lparr>conversation_events := es\<rparr>)" and mem: "c0 \<in> set (conversations (s1\<lparr>conversation_events := es\<rparr>))"
      using typed_same assms(2) live_conversation_mem [OF 2(1)] by (blast, simp add: same_inbox_def)
    show ?thesis unfolding 2(3)
      by (rule typed_put_conversation [OF t mem]) (use assigned(2-4) in \<open>simp_all add: plain_changes_key place_simps\<close>)
  qed
qed

lemma most_recent_mem:
  assumes "most_recent cs = Some c"
  shows "c \<in> set cs"
proof -
  let ?t = "\<lambda>c. case conv_last_message_at c of None \<Rightarrow> 0 | Some t \<Rightarrow> t"
  define ds where "ds = filter (\<lambda>c. conv_last_message_at c \<noteq> None) cs"
  have "set ds \<subseteq> set cs" by (auto simp: ds_def)
  moreover have "last (sort_key ?t ds) \<in> set ds" if "ds \<noteq> []"
    using that last_in_set [of "sort_key ?t ds"] by (metis length_0_conv length_sort set_sort)
  ultimately show ?thesis using assms unfolding most_recent_def ds_def [symmetric] by (cases ds) (auto split: list.splits)
qed

lemma typed_get_or_create:
  assumes "get_or_create_conversation_for_contact i a k b s = (r, s')" "inbox_typed s" "i \<notin> conv_id ` set (conversations s)"
  shows "inbox_typed s'"
proof (cases "get_contact_or_raise s a k")
  case (Inl e)
  then show ?thesis using assms(1,2) by (simp add: get_or_create_conversation_for_contact_def)
next
  case (Inr x)
  have x: "x \<in> set (contacts s)" "con_account_id x = a"
    using Inr by (auto simp: get_contact_or_raise_def get_contact_row_def dest!: tbl_get_mem split: option.splits if_splits)
  have put: "inbox_typed (put_conversation (c\<lparr>conv_snoozed_until := None\<rparr>) s)"
    "inbox_typed (put_conversation (c\<lparr>conv_archived_at := None, conv_snoozed_until := None\<rparr>) s)" if "c \<in> set (conversations s)" for c
    by (rule typed_put_conversation [OF assms(2) that]; simp add: place_simps)+
  have "conversation_typed s (contact_thread x i a)" using x by (auto simp: conversation_typed_def contact_thread_def place_simps)
  then have add: "inbox_typed s1" if "insert_conversation (contact_thread x i a) s = Inr s1" for s1
    using that typed_add_conversation [OF assms(2), of "contact_thread x i a"] assms(3)
    by (auto simp: insert_conversation_def contact_thread_def split: if_splits)
  show ?thesis using assms(1,2) Inr put add
    by (auto simp: get_or_create_conversation_for_contact_def Let_def dest!: most_recent_mem split: option.splits if_splits sum.splits)
qed

lemma typed_start_conversation:
  assumes "start_conversation infer i j a m ch number name s = (r, s')" "inbox_typed s" "i \<notin> con_id ` set (contacts s)"
    "j \<notin> conv_id ` set (conversations s)"
  shows "inbox_typed s'"
proof -
  consider "s' = s" | p r1 where "create_contact infer i a p s = (r1, s')"
    | p k s1 r2 where "create_contact infer i a p s = (Inr k, s1)" "get_or_create_conversation_for_contact j a (con_id k) True s1 = (r2, s')"
    using assms(1) by (auto simp: start_conversation_def start_conversation_on_channel_def Let_def split: sum.splits option.splits if_splits prod.splits)
  then show ?thesis
  proof cases
    case 3
    have "inbox_typed s1" "conversations s1 = conversations s" using typed_create_contact [OF 3(1) assms(2,3)] by simp_all
    then show ?thesis using typed_get_or_create [OF 3(2)] assms(4) by simp
  qed (use typed_create_contact assms(2,3) in blast)+
qed

text \<open>The import of contacts.\<close>

definition import_typed :: "(nat \<Rightarrow> uuid) \<Rightarrow> place \<Rightarrow> import_state \<Rightarrow> bool" where
  "import_typed ids p st \<longleftrightarrow> inbox_typed (im_db st) \<and> inbox_typed (im_committed st) \<and> placed (im_db st) p \<and>
     (\<forall>n \<ge> im_next st. ids n \<notin> con_id ` set (contacts (im_db st)))"

lemma typed_end_of_row: "import_typed ids p st \<Longrightarrow> import_typed ids p (end_of_row st)"
  by (simp add: import_typed_def end_of_row_def)

lemma typed_import_step:
  assumes "import_step infer ids a o' ch r st = Inr st'" "import_typed ids (ch, a, o') st" "inj ids"
  shows "import_typed ids (ch, a, o') st'"
proof -
  have old: "import_typed ids (ch, a, o') (st\<lparr>im_existing_count := e, im_db := put_contact (imported_update infer r c) (im_db st), im_contact_ids := xs\<rparr>)"
    if "c \<in> set (contacts (im_db st))" for c e xs
  proof -
    have "con_place (imported_update infer r c) = con_place c" by (simp add: imported_update_def Let_def place_simps split: option.split)
    then have "inbox_typed (put_contact (imported_update infer r c) (im_db st))"
      using assms(2) by (intro typed_put_contact [OF _ that]) (simp_all add: import_typed_def)
    moreover have "con_id ` set (contacts (put_contact (imported_update infer r c) (im_db st))) = con_id ` set (contacts (im_db st))"
      using arg_cong [OF map_put [of con_id "imported_update infer r c" "contacts (im_db st)"], of set] by (simp add: put_contact_def)
    moreover have "placed (put_contact k s) p = placed s p" for k s p by (simp add: placed_def put_contact_def)
    ultimately show ?thesis using assms(2) by (simp add: import_typed_def)
  qed
  let ?c = "imported_contact infer (ids (im_next st)) a o' ch r"
  have new: "import_typed ids (ch, a, o') (st\<lparr>im_db := s1, im_existing := x, im_next := Suc (im_next st), im_contact_ids := xs, im_created := e\<rparr>)"
    if "insert_contact ?c (im_db st) = Inr s1" for s1 x xs e
  proof -
    have s1: "s1 = im_db st\<lparr>contacts := contacts (im_db st) @ [?c]\<rparr>" using that by (simp add: insert_contact_def split: if_splits)
    have "con_id ?c = ids (im_next st)" "con_place ?c = (ch, a, o')" by (simp_all add: imported_contact_def place_simps)
    moreover from this have "inbox_typed s1" unfolding s1 using assms(2) by (intro typed_add_contact) (simp_all add: import_typed_def)
    ultimately show ?thesis using assms(2,3) by (auto simp: import_typed_def s1 placed_def inj_eq)
  qed
  show ?thesis
    using assms(1,2) old new unfolding import_step_def Let_def
    by (auto simp: get_contact_row_def import_typed_def [of ids _ "st\<lparr>im_skipped := x\<rparr>" for x] import_typed_def [of ids _ "st\<lparr>im_invalid := x\<rparr>" for x]
        import_typed_def [of ids _ "st\<lparr>im_existing_count := x\<rparr>" for x] import_typed_def [of ids _ st]
        intro!: typed_end_of_row dest: tbl_get_mem split: if_splits option.splits sum.splits)
qed

lemma typed_import:
  assumes "import_contacts_from_rows infer ids a o' ch rows s = (r, s')" "inbox_typed s" "inj ids" "\<forall>n. ids n \<notin> con_id ` set (contacts s)"
  shows "inbox_typed s'"
proof (cases "channel_error s a o' ch")
  case (Some e)
  then show ?thesis using assms(1,2) by (simp add: import_contacts_from_rows_def)
next
  case None
  have loop: "inbox_typed t" if "import_loop infer ids a o' ch rows st = (q, t)" "import_typed ids (ch, a, o') st" for q t st
    using that
  proof (induction rows arbitrary: st)
    case (Cons x rows)
    then show ?case using typed_import_step [OF _ _ assms(3)] by (auto simp: import_typed_def split: sum.splits)
  qed (simp add: import_typed_def)
  have "placed s (ch, a, o')"
    using None by (auto simp: channel_error_def get_channel_def placed_def dest: tbl_get_mem tbl_get_key split: option.splits if_splits)
  then show ?thesis
    using assms None loop unfolding import_contacts_from_rows_def by (fastforce simp: import_typed_def Let_def)
qed

section \<open>Histories\<close>

text \<open>One operation of the inbox; ids that it takes are new.\<close>

inductive inbox_step :: "db \<Rightarrow> db \<Rightarrow> bool" where
  received: "wa \<in> set (whatsapp_accounts s) \<Longrightarrow> new_ids (wh_ids env n) s \<Longrightarrow> store_inbound env n wa item val s = Inr (ctx, s') \<Longrightarrow> inbox_step s s'"
| texted: "new_ids (se_ids env) s \<Longrightarrow> inbox_step s (st_committed (send_text_message env a i number body preview record trigger s))"
| media_sent: "new_ids (se_ids env) s \<Longrightarrow> inbox_step s (st_committed (send_media_message env a i ty number url caption name record s))"
| template_sent: "new_ids (se_ids env) s \<Longrightarrow>
    inbox_step s (st_committed (send_template_message env a i number name lang comps record shown body s))"
| catalog_sent: "new_ids (se_ids env) s \<Longrightarrow> inbox_step s (st_committed (send_catalog_welcome_message env a i number body footer record s))"
| products_sent: "new_ids (se_ids env) s \<Longrightarrow>
    inbox_step s (st_committed (send_product_list_message env a i number catalog_id sections body header_text footer record s))"
| contacts_imported: "inj ids \<Longrightarrow> \<forall>n. ids n \<notin> con_id ` set (contacts s) \<Longrightarrow> import_contacts_from_rows infer ids a o' ch rows s = (ri, s') \<Longrightarrow>
    inbox_step s s'"
| started: "j \<notin> con_id ` set (contacts s) \<Longrightarrow> l \<notin> conv_id ` set (conversations s) \<Longrightarrow>
    start_conversation infer j l a m ch number name s = (r, s') \<Longrightarrow> inbox_step s s'"
| contact_created: "j \<notin> con_id ` set (contacts s) \<Longrightarrow> create_contact infer j a p s = (r, s') \<Longrightarrow> inbox_step s s'"
| contact_updated: "update_contact infer a i u s = (r, s') \<Longrightarrow> inbox_step s s'"
| contact_deleted: "delete_contact now a i s = (r, s') \<Longrightarrow> inbox_step s s'"
| conversation_updated: "update_conversation uenv a i actor v s = (r, s') \<Longrightarrow> inbox_step s s'"
| conversation_starred: "star_conversation a i b s = (r, s') \<Longrightarrow> inbox_step s s'"
| conversation_snoozed: "snooze_conversation a i t s = (r, s') \<Longrightarrow> inbox_step s s'"
| conversation_archived: "archive_conversation now a i b s = (r, s') \<Longrightarrow> inbox_step s s'"
| conversation_read: "mark_conversation_read now a i m s = (r, s') \<Longrightarrow> inbox_step s s'"

lemma inbox_step_typed: "inbox_step s s' \<Longrightarrow> inbox_typed s \<Longrightarrow> inbox_typed s'"
  by (induction rule: inbox_step.induct)
    (blast intro: typed_store_inbound typed_send_text typed_send_media typed_send_template typed_send_catalog typed_import typed_start_conversation typed_create_contact [THEN conjunct1]
      typed_update_contact typed_delete_contact typed_update_conversation typed_flags typed_mark_read)+

text \<open>C34. Tenants stay apart: whatever messages come in, are sent, whatever contacts are imported and whatever the members do to contacts and
  conversations, in any order, every message stays at the place of its conversation, every conversation at the place of its contact, and every contact at the place of its
  channel; so along the chain of a message no row of one account ever hangs on a row of another.\<close>

theorem inbox_keeps_tenants_apart:
  assumes "inbox_step\<^sup>*\<^sup>* s s'" "inbox_typed s" "m \<in> set (messages s')"
  shows "\<exists>c \<in> set (conversations s'). \<exists>k \<in> set (contacts s'). \<exists>ch \<in> set (channels s').
    msg_conversation_id m = Some (conv_id c) \<and> msg_contact_id m = Some (con_id k) \<and> conv_contact_id c = con_id k \<and>
    msg_channel_id m = ch_id ch \<and> conv_channel_id c = ch_id ch \<and> con_channel_id k = ch_id ch \<and>
    msg_account_id m = ch_account_id ch \<and> conv_account_id c = ch_account_id ch \<and> con_account_id k = ch_account_id ch \<and>
    msg_organization_id m = ch_organization_id ch \<and> conv_organization_id c = ch_organization_id ch \<and> con_organization_id k = ch_organization_id ch"
proof -
  have t: "inbox_typed s'" using assms(1,2) by (induction) (auto intro: inbox_step_typed)
  obtain c where c: "c \<in> set (conversations s')" "msg_conversation_id m = Some (conv_id c)" "msg_contact_id m = Some (conv_contact_id c)"
    "msg_place m = conv_place c" using t assms(3) by (auto simp: inbox_typed_def message_typed_def)
  obtain k where k: "k \<in> set (contacts s')" "con_id k = conv_contact_id c" "con_place k = conv_place c"
    using t c(1) by (auto simp: inbox_typed_def conversation_typed_def)
  obtain ch where ch: "ch \<in> set (channels s')" "con_place k = (ch_id ch, ch_account_id ch, ch_organization_id ch)"
    using t k(1) by (auto simp: inbox_typed_def placed_def)
  show ?thesis
    by (rule bexI [OF _ c(1)], rule bexI [OF _ k(1)], rule bexI [OF _ ch(1)]) (use c k ch in \<open>simp add: place_simps\<close>)
qed

section \<open>What the inbox does not touch\<close>

text \<open>A part of the database that none of the tables which the operations write belongs to.\<close>

locale inbox_frame =
  fixes part :: "db \<Rightarrow> 'a"
  assumes tables: "part (s\<lparr>contacts := c\<rparr>) = part s" "part (s\<lparr>conversations := v\<rparr>) = part s" "part (s\<lparr>messages := m\<rparr>) = part s"
    "part (s\<lparr>notifications := n\<rparr>) = part s" "part (s\<lparr>macs := u\<rparr>) = part s" "part (s\<lparr>mac_audits := w\<rparr>) = part s"
    "part (s\<lparr>assignment_rules := r\<rparr>) = part s" "part (s\<lparr>automation_runs := t\<rparr>) = part s" "part (s\<lparr>conversation_events := e\<rparr>) = part s"
    "part (s\<lparr>contact_tags := k\<rparr>) = part s" "part (s\<lparr>contact_interests := l\<rparr>) = part s"
begin

lemma assign_part: "auto_assign_conversation c s = (r, s') \<Longrightarrow> part s' = part s"
  by (auto simp: tables auto_assign_conversation_def put_conversation_def put_rule_def Let_def split: option.splits list.splits if_splits)

lemma match_part: "match_contact i wa number name s = Inr (k, s') \<Longrightarrow> part s' = part s"
  by (auto simp: tables match_contact_def insert_contact_def flush_contact_def put_contact_def Let_def split: option.splits if_splits)

lemma thread_part: "open_thread ids wa k s = Inr (c, b, s') \<Longrightarrow> part s' = part s"
  by (auto simp: tables open_thread_def insert_conversation_def create_notification_def Let_def dest!: assign_part
      split: option.splits if_splits prod.splits sum.splits)

lemma mac_part: "part (snd (record_mac now i j p t s)) = part s"
  by (auto simp: tables record_mac_def record_activity_def Let_def split: prod.splits option.splits if_splits activity_arg.splits)

lemma store_inbound_part: "store_inbound env n wa item val s = Inr (ctx, s') \<Longrightarrow> part s' = part s"
  by (elim store_inbound_parts) (simp add: tables mac_part put_conversation_def match_part thread_part)

lemma deliver_part: "part (st_committed (deliver_message env wa a g record trigger s)) = part s"
  by (auto simp: tables deliver_message_def refused_def thread_of_number_def Let_def put_message_def put_conversation_def
      dest!: match_part thread_part split: sum.splits prod.splits meta_answer.splits)

lemma send_part:
  "part (st_committed (send_text_message env a i number body preview record trigger s)) = part s"
  "part (st_committed (send_media_message env a i ty number url caption filename record s)) = part s"
  "part (st_committed (send_template_message env a i number name lang comps record shown shown_body s)) = part s"
  "part (st_committed (send_catalog_welcome_message env a i number body footer record s)) = part s"
  "part (st_committed (send_product_list_message env a i number catalog_id sections body header_text footer record s)) = part s"
  by (simp_all add: tables send_text_message_def send_media_message_def send_template_message_def send_catalog_welcome_message_def
      send_product_list_message_def refused_def deliver_part Let_def split: sum.split)

lemma import_part:
  assumes "import_contacts_from_rows infer ids a o' ch rows s = (r, s')"
  shows "part s' = part s"
proof -
  have row: "part (im_db st') = part (im_db st) \<and> part (im_committed st') \<in> {part (im_db st), part (im_committed st)}"
    if "import_step infer ids a o' ch x st = Inr st'" for x st st'
    using that by (auto simp: tables import_step_def end_of_row_def insert_contact_def put_contact_def Let_def split: if_splits option.splits sum.splits)
  have loop: "part t = p" if "import_loop infer ids a o' ch rows st = (q, t)" "part (im_db st) = p" "part (im_committed st) = p" for q t st p
    using that
  proof (induction rows arbitrary: st)
    case (Cons x rows)
    then show ?case using row by (fastforce split: sum.splits)
  qed simp
  show ?thesis using assms loop [where p = "part s"] by (auto simp: import_contacts_from_rows_def Let_def split: option.splits)
qed

lemma label_part:
  "apply_contact_tags a k ts s = Inr s' \<Longrightarrow> part s' = part s"
  "apply_contact_interests a k ts s = Inr s' \<Longrightarrow> part s' = part s"
  by (auto simp: tables apply_contact_tags_def add_contact_tags_def apply_contact_interests_def set_contact_interests_def Let_def split: if_splits sum.splits)

lemma contact_part:
  "create_contact infer i a p s = (r1, s') \<Longrightarrow> part s' = part s"
  "update_contact infer a j u s = (r1, s') \<Longrightarrow> part s' = part s"
  "delete_contact now a j s = (r2, s') \<Longrightarrow> part s' = part s"
  by (auto simp: tables create_contact_def update_contact_def delete_contact_def insert_contact_def flush_contact_def put_contact_def Let_def
      dest!: label_part split: option.splits if_splits sum.splits)

lemma start_part: "start_conversation infer i j a m ch number name s = (r, s') \<Longrightarrow> part s' = part s"
  by (auto simp: tables start_conversation_def start_conversation_on_channel_def get_or_create_conversation_for_contact_def insert_conversation_def put_conversation_def
      Let_def dest!: contact_part split: option.splits if_splits sum.splits prod.splits)

lemma change_part:
  "star_conversation a i b s = (r, s') \<Longrightarrow> part s' = part s"
  "snooze_conversation a i t s = (r, s') \<Longrightarrow> part s' = part s"
  "archive_conversation now a i b s = (r, s') \<Longrightarrow> part s' = part s"
  by (auto simp: tables star_conversation_def snooze_conversation_def archive_conversation_def change_conversation_def put_conversation_def split: sum.splits)

lemma add_runs_part: "add_runs now ids a p as s = (r, s') \<Longrightarrow> part s' = part s"
  by (induction now ids a p as s arbitrary: r s' rule: add_runs.induct) (auto simp: tables Let_def split: sum.splits prod.splits)

lemma queue_runs_part: "queue_automation_runs now ids a t p s = (r, s') \<Longrightarrow> part s' = part s"
  by (auto simp: tables queue_automation_runs_def dest: add_runs_part split: option.splits sum.splits json.splits)

lemma assign_conversation_part: "assign_conversation env a v c s = Inr (c', d, runs, s') \<Longrightarrow> part s' = part s"
  by (auto simp: tables assign_conversation_def create_notification_def Let_def dest!: queue_runs_part split: option.splits if_splits sum.splits prod.splits)

lemma update_part: "update_conversation env a i actor u s = (r, s') \<Longrightarrow> part s' = part s"
  by (auto simp: tables update_conversation_def flush_conversation_def put_conversation_def Let_def dest!: assign_conversation_part
      split: if_splits sum.splits prod.splits)

lemma step_part:
  assumes "inbox_step s s'" "\<And>now a i m r. mark_conversation_read now a i m s \<noteq> (r, s')"
  shows "part s' = part s"
  using assms(1)
proof (cases rule: inbox_step.cases)
  case (conversation_read now a i m r)
  then show ?thesis using assms(2) by blast
qed (simp_all add: store_inbound_part send_part import_part start_part contact_part update_part change_part)

end

interpretation badges: inbox_frame read_states
  by unfold_locales simp_all

interpretation numbers: inbox_frame "\<lambda>s. (channels s, whatsapp_accounts s)"
  by unfold_locales simp_all

section \<open>Badges\<close>

lemma mark_read_badges:
  assumes "mark_conversation_read now a i m s = (r, s')" "\<forall>x \<in> set (read_states s). crs_unread_count x = 0"
  shows "\<forall>x \<in> set (read_states s'). crs_unread_count x = 0"
  using assms by (auto simp: mark_conversation_read_def get_or_create_read_state_def put_read_state_def Let_def split: sum.splits option.splits if_splits)

lemma listed_badge:
  assumes "(c, k, message, unread) \<in> set (list_conversations now a m q s)"
  shows "unread = (case find_read_state s (conv_id c) (mem_id m) of None \<Rightarrow> 0 | Some r \<Rightarrow> crs_unread_count r)"
proof -
  let ?row = "\<lambda>c. case get_contact_row s (conv_contact_id c) of None \<Rightarrow> None
    | Some k \<Rightarrow> if con_deleted_at k = None \<and> matches_query now a m q s c
        then Some (c, k, latest_message s (conv_id c), (case find_read_state s (conv_id c) (mem_id m) of None \<Rightarrow> 0 | Some r \<Rightarrow> crs_unread_count r)) else None"
  have "(c, k, message, unread) \<in> set (List.map_filter ?row (conversations s))"
    using assms in_set_takeD [of "(c, k, message, unread)" _ "by_last_message (List.map_filter ?row (conversations s))"]
    unfolding list_conversations_def by (simp only: by_last_message_set split: if_splits) simp_all
  then obtain d where "?row d = Some (c, k, message, unread)" by (auto simp only: set_map_filter mem_Collect_eq)
  then show ?thesis by (cases "get_contact_row s (conv_contact_id d)") (auto split: if_splits)
qed

text \<open>C36. No message raises the badge of unread messages: the lists take the number of unread messages from the read states, and of the operations
  above none raises it, a message that comes in included; where it is 0 for everyone it stays 0 in every list, however many messages come
  in, until a member marks a conversation as unread.\<close>

theorem unread_badge_stays_zero:
  assumes "inbox_step\<^sup>*\<^sup>* s s'" "\<forall>x \<in> set (read_states s). crs_unread_count x = 0"
    and "(c, k, message, unread) \<in> set (list_conversations now a m q s')"
  shows "unread = 0"
proof -
  have "\<forall>x \<in> set (read_states t'). crs_unread_count x = 0" if "inbox_step t t'" "\<forall>x \<in> set (read_states t). crs_unread_count x = 0" for t t'
    using badges.step_part [OF that(1)] mark_read_badges that(2) by (metis (no_types))
  with assms(1,2) have "\<forall>x \<in> set (read_states s'). crs_unread_count x = 0" by (induction rule: rtranclp_induct) blast+
  moreover have "find_read_state t i j = Some x \<Longrightarrow> x \<in> set (read_states t)" for t i j x
    by (auto simp: find_read_state_def find_Some_iff dest!: nth_mem)
  ultimately show ?thesis using listed_badge [OF assms(3)] by (cases "find_read_state s' (conv_id c) (mem_id m)") auto
qed

section \<open>Instances\<close>

definition demo_step :: "db \<Rightarrow> db" where
  "demo_step s = st_committed (send_text_message demo_send_env 1 4 ''96550000002'' ''hi'' False False None s)"

lemma demo_inbox_typed: "inbox_typed inbox_example"
  by (simp add: inbox_typed_def inbox_example_def empty_db_def placed_def conversation_typed_def message_typed_def place_simps demo_channel_def demo_wa_def
      fresh_contact_def demo_conversation_def demo_message_def)

lemma demo_inbox_step: "inbox_step inbox_example (demo_step inbox_example)"
  unfolding demo_step_def by (rule texted) (simp add: new_ids_def demo_send_env_def inbox_example_def fresh_contact_def demo_conversation_def demo_message_def)

lemma inbox_keeps_tenants_apart_witness:
  "map msg_id (messages (demo_step inbox_example)) = [9, 300] \<and>
   msg_channel_id (last (messages (demo_step inbox_example))) \<in> ch_id ` set (channels (demo_step inbox_example))"
proof -
  have ids: "map msg_id (messages (demo_step inbox_example)) = [9, 300]" by code_simp
  then have "messages (demo_step inbox_example) \<noteq> []" by auto
  then have "last (messages (demo_step inbox_example)) \<in> set (messages (demo_step inbox_example))" by (rule last_in_set)
  then have "\<exists>ch \<in> set (channels (demo_step inbox_example)). msg_channel_id (last (messages (demo_step inbox_example))) = ch_id ch"
    using inbox_keeps_tenants_apart [OF r_into_rtranclp, OF demo_inbox_step demo_inbox_typed] by blast
  then show ?thesis using ids by blast
qed

definition badge_query :: conversation_query where
  "badge_query = \<lparr>lq_limit = 50, lq_include_archived = False, lq_archived_only = False, lq_starred_only = False, lq_channel_id = None\<rparr>"

lemma unread_badge_stays_zero_witness:
  "map (\<lambda>(c, k, m, unread). unread) (list_conversations 500 1 (demo_membership OWNER None) badge_query (demo_step inbox_example)) = [0, 0]"
proof -
  let ?rows = "list_conversations 500 1 (demo_membership OWNER None) badge_query (demo_step inbox_example)"
  have "read_states inbox_example = []" by (simp add: inbox_example_def empty_db_def)
  then have "snd (snd (snd r)) = 0" if "r \<in> set ?rows" for r
    using unread_badge_stays_zero [OF r_into_rtranclp, OF demo_inbox_step, of "fst r" "fst (snd r)" "fst (snd (snd r))" "snd (snd (snd r))"] that by simp
  moreover have "length ?rows = 2" by code_simp
  then obtain x y where "?rows = [x, y]" by (cases ?rows; cases "tl ?rows") auto
  ultimately show ?thesis by (simp add: split_def)
qed

end
