(* ===== verification/Connections.thy ===== *)
theory Connections
  imports Sending Team
begin

text \<open>
  The connection of WhatsApp numbers: channels in \<open>services/channels.py\<close>, accounts in \<open>services/whatsapp.py\<close>, their health in
  \<open>services/whatsapp_health.py\<close>, the list route of \<open>api/routes/whatsapp.py\<close> and the task of \<open>workers/whatsapp_health_tasks.py\<close>.
  The answers of Meta and the encryption of tokens are an environment; texts in an answer of Meta are JSON strings.  The message that explains a
  status to a reader is left out.  Every request for the health of a number is answered, with a result or with an error of Meta: an error of the transport,
  which \<open>sync_whatsapp_account_health\<close> does not catch and which ends the request or the task around it, is not modelled.
\<close>

section \<open>Health of a number\<close>

definition TIER_DAILY_LIMITS :: "(string \<times> int option) list" where
  "TIER_DAILY_LIMITS = [(''TIER_50'', Some 50), (''TIER_250'', Some 250), (''TIER_1K'', Some 1000), (''TIER_2K'', Some 2000),
     (''TIER_10K'', Some 10000), (''TIER_100K'', Some 100000), (''TIER_UNLIMITED'', None)]"

definition is_number :: "string \<Rightarrow> bool" where
  "is_number t \<longleftrightarrow> t \<noteq> [] \<and> (\<forall>c \<in> set t. is_digit c)"

definition tier_to_daily_limit :: "string option \<Rightarrow> int option" where
  "tier_to_daily_limit tier =
     (case tier of
        None \<Rightarrow> None
      | Some t \<Rightarrow>
          if t = [] then None
          else (let key = py_strip (py_upper t) in
            case map_of TIER_DAILY_LIMITS key of
              Some limit \<Rightarrow> limit
            | None \<Rightarrow> if is_number key then Some (digits_value key) else None))"

text \<open>\<open>str(x).upper() if x else None\<close>\<close>

definition upper_or_none :: "json option \<Rightarrow> string option" where
  "upper_or_none v = (if j_truthy v then Some (py_upper (str_of v)) else None)"

definition resolve_effective_name_status :: "json option \<Rightarrow> json option \<Rightarrow> string option" where
  "resolve_effective_name_status name_status new_name_status =
     (let old = upper_or_none name_status; new = upper_or_none new_name_status in
      if new = Some ''APPROVED'' then Some ''APPROVED''
      else if old = Some ''APPROVED'' then Some ''APPROVED''
      else if new = Some ''PENDING'' then Some ''PENDING''
      else if old = Some ''PENDING'' then Some ''PENDING''
      else if old = Some ''DECLINED'' then Some ''DECLINED''
      else if nonempty new then new else old)"

record phone_health =
  ph_display_phone_number :: "string option"
  ph_verified_name :: "string option"
  ph_quality_rating :: "string option"
  ph_messaging_limit_tier :: "string option"
  ph_messaging_limit :: "int option"
  ph_meta_phone_status :: "string option"
  ph_meta_name_status :: "string option"

text \<open>\<open>a or b\<close> on two lookups.\<close>

definition or_else :: "json option \<Rightarrow> json option \<Rightarrow> json option" where
  "or_else a b = (if j_truthy a then a else b)"

definition tier_text :: "json option \<Rightarrow> string option" where
  "tier_text tier =
     (if tier = None \<or> tier = Some JNull \<or> py_strip (str_of tier) = [] then None else Some (py_strip (py_upper (str_of tier))))"

definition parse_phone_health :: "json \<Rightarrow> phone_health" where
  "parse_phone_health data =
     (let tier_str = tier_text (or_else (or_else (jget data ''whatsapp_business_manager_messaging_limit'') (jget data ''messaging_limit_tier''))
            (jget data ''messaging_limit''));
          numeric = (case tier_str of None \<Rightarrow> None | Some t \<Rightarrow> if is_number t then Some (digits_value t) else None)
      in \<lparr>ph_display_phone_number = text_value (jget data ''display_phone_number''), ph_verified_name = text_value (jget data ''verified_name''),
          ph_quality_rating = upper_or_none (jget data ''quality_rating''),
          ph_messaging_limit_tier = (if numeric = None then tier_str else None),
          ph_messaging_limit = (case numeric of Some n \<Rightarrow> Some n | None \<Rightarrow> tier_to_daily_limit tier_str),
          ph_meta_phone_status = upper_or_none (jget data ''status''),
          ph_meta_name_status = resolve_effective_name_status (jget data ''name_status'') (jget data ''new_name_status'')\<rparr>)"

record waba_health =
  wh_meta_account_review_status :: "string option"
  wh_meta_can_send_message :: "string option"

definition no_waba_health :: waba_health where
  "no_waba_health = \<lparr>wh_meta_account_review_status = None, wh_meta_can_send_message = None\<rparr>"

text \<open>The first entity of the business account decides.\<close>

definition parse_waba_health :: "json \<Rightarrow> waba_health" where
  "parse_waba_health data =
     (let health = JObj (dict_of (jget data ''health_status''));
          can_send = jget health ''can_send_message'';
          entities = (case jget health ''entities'' of Some (JList es) \<Rightarrow> es | _ \<Rightarrow> []);
          waba_can_send = (case find (\<lambda>e. is_dict (Some e) \<and> jget e ''entity_type'' = Some (JStr ''WABA'')) entities of
            None \<Rightarrow> can_send | Some e \<Rightarrow> or_else (jget e ''can_send_message'') can_send)
      in \<lparr>wh_meta_account_review_status = upper_or_none (jget data ''account_review_status''),
          wh_meta_can_send_message = upper_or_none waba_can_send\<rparr>)"

definition upper_or_empty :: "string option \<Rightarrow> string" where
  "upper_or_empty v = (case v of None \<Rightarrow> [] | Some t \<Rightarrow> py_upper t)"

definition derive_account_status_from_meta :: "string option \<Rightarrow> string option \<Rightarrow> string option \<Rightarrow> bool \<Rightarrow> wa_account_status" where
  "derive_account_status_from_meta meta_phone_status meta_can_send_message meta_name_status auth_error =
     (if auth_error then WaDisconnected
      else if upper_or_empty meta_can_send_message = ''BLOCKED'' then WaSuspended
      else if upper_or_empty meta_name_status = ''DECLINED'' then WaSuspended
      else if upper_or_empty meta_phone_status \<notin> {[], ''CONNECTED''} then WaDisconnected
      else WaActive)"

definition META_HEALTH_STALE_AFTER :: datetime where
  "META_HEALTH_STALE_AFTER = minutes 10"

definition is_health_stale :: "datetime \<Rightarrow> whatsapp_account \<Rightarrow> bool" where
  "is_health_stale now wa = (case wa_health_synced_at wa of None \<Rightarrow> True | Some t \<Rightarrow> now - t > META_HEALTH_STALE_AFTER)"

definition is_token_auth_error :: "meta_error \<Rightarrow> bool" where
  "is_token_auth_error exc \<longleftrightarrow> me_status_code exc \<in> {Some 401, Some 403} \<or>
     jget (JObj (dict_of (jget (JObj (dict_of (me_response_data exc))) ''error''))) ''code'' \<in> {Some (JInt 190), Some (JInt 102), Some (JInt 10)}"

text \<open>Calls to Meta take a token and the number or business account.\<close>

record connect_env =
  ce_now :: datetime
  ce_id :: uuid
  ce_encrypt :: "string \<Rightarrow> string"
  ce_decrypt :: "string \<Rightarrow> string"
  ce_phone_health :: "string \<Rightarrow> string \<Rightarrow> meta_error + json"
  ce_waba_health :: "string \<Rightarrow> string \<Rightarrow> meta_error + json"
  ce_exchange :: "string \<Rightarrow> meta_error + string"
  ce_unsubscribe :: "string \<Rightarrow> string \<Rightarrow> meta_error + json"

definition healthy_account :: "datetime \<Rightarrow> phone_health \<Rightarrow> waba_health \<Rightarrow> whatsapp_account \<Rightarrow> whatsapp_account" where
  "healthy_account now p w wa =
     wa\<lparr>wa_display_phone_number := (if nonempty (ph_display_phone_number p) then the (ph_display_phone_number p) else wa_display_phone_number wa),
        wa_verified_name := (if nonempty (ph_verified_name p) then ph_verified_name p else wa_verified_name wa),
        wa_quality_rating := ph_quality_rating p, wa_messaging_limit_tier := ph_messaging_limit_tier p, wa_messaging_limit := ph_messaging_limit p,
        wa_meta_phone_status := ph_meta_phone_status p, wa_meta_name_status := ph_meta_name_status p,
        wa_meta_can_send_message := wh_meta_can_send_message w, wa_meta_account_review_status := wh_meta_account_review_status w,
        wa_status := derive_account_status_from_meta (ph_meta_phone_status p) (wh_meta_can_send_message w) (ph_meta_name_status p) False,
        wa_health_synced_at := Some now\<rparr>"

text \<open>Every branch commits.\<close>

definition sync_whatsapp_account_health :: "connect_env \<Rightarrow> whatsapp_account \<Rightarrow> db \<Rightarrow> whatsapp_account outcome \<times> db" where
  "sync_whatsapp_account_health env wa s =
     (let token = ce_decrypt env (wa_access_token_encrypted wa) in
      case ce_phone_health env token (wa_phone_number_id wa) of
        Inl exc \<Rightarrow>
          (let wa' = wa\<lparr>wa_health_synced_at := Some (ce_now env),
             wa_status := (if is_token_auth_error exc then WaDisconnected else wa_status wa)\<rparr>
           in (Inl meta_api_error, put_whatsapp_account wa' s))
      | Inr phone_raw \<Rightarrow>
          (let w = (case ce_waba_health env token (wa_waba_id wa) of Inl _ \<Rightarrow> no_waba_health | Inr d \<Rightarrow> parse_waba_health d);
               wa' = healthy_account (ce_now env) (parse_phone_health phone_raw) w wa
           in (Inr wa', put_whatsapp_account wa' s)))"

definition sync_whatsapp_account_health_safe :: "connect_env \<Rightarrow> whatsapp_account \<Rightarrow> db \<Rightarrow> db" where
  "sync_whatsapp_account_health_safe env wa s = snd (sync_whatsapp_account_health env wa s)"

definition refresh_stale_whatsapp_health :: "connect_env \<Rightarrow> whatsapp_account list \<Rightarrow> db \<Rightarrow> db" where
  "refresh_stale_whatsapp_health env was =
     fold (\<lambda>wa s. if is_health_stale (ce_now env) wa then sync_whatsapp_account_health_safe env wa s else s) was"

text \<open>The task: the accounts are read once, before the loop.\<close>

definition sync_all_whatsapp_health :: "connect_env \<Rightarrow> db \<Rightarrow> (nat \<times> nat) \<times> db" where
  "sync_all_whatsapp_health env s =
     fold (\<lambda>wa ((checked, newly_disconnected), t).
        (let t' = sync_whatsapp_account_health_safe env wa t;
             lost = (case get_whatsapp_account t' (wa_id wa) of None \<Rightarrow> False | Some u \<Rightarrow> wa_status u = WaDisconnected)
         in ((checked + 1, newly_disconnected + (if lost then 1 else 0)), t')))
       (filter (\<lambda>wa. wa_status wa \<in> {WaActive, WaPending}) (whatsapp_accounts s)) ((0, 0), s)"

section \<open>Channels\<close>

record channel_create =
  hc_organization_id :: uuid
  hc_type :: channel_type
  hc_name :: string
  hc_external_id :: "string option"

definition count_account_channels :: "db \<Rightarrow> uuid \<Rightarrow> int" where
  "count_account_channels s account_id = int (tbl_count (\<lambda>c. ch_account_id c = account_id \<and> ch_deleted_at c = None) (channels s))"

definition new_channel :: "uuid \<Rightarrow> uuid \<Rightarrow> channel_create \<Rightarrow> subscription \<Rightarrow> plan \<Rightarrow> channel" where
  "new_channel i account_id p sub plan =
     \<lparr>ch_id = i, ch_account_id = account_id, ch_organization_id = hc_organization_id p, ch_type = hc_type p, ch_name = hc_name p,
      ch_external_id = hc_external_id p, ch_status = ChannelPending, ch_over_mac_price_per_100 = None,
      ch_billing_starts_at = Some (sub_starts_at sub), ch_billing_ends_at = Some (sub_ends_at sub), ch_billing_cycle = sub_billing_cycle sub,
      ch_included_mac = Some (effective_included_mac (Some sub) (Some plan)), ch_deleted_at = None\<rparr>"

definition create_channel :: "datetime \<Rightarrow> uuid \<Rightarrow> uuid \<Rightarrow> channel_create \<Rightarrow> db \<Rightarrow> channel outcome \<times> db" where
  "create_channel now new_id account_id p s =
     (case get_organization s (hc_organization_id p) of
        None \<Rightarrow> (Inl (ValueError ''INVALID_ORGANIZATION''), s)
      | Some o' \<Rightarrow>
          if org_account_id o' \<noteq> account_id then (Inl (ValueError ''INVALID_ORGANIZATION''), s)
          else (case get_active_subscription now s account_id of
              None \<Rightarrow> (Inl (ValueError ''NO_ACTIVE_SUBSCRIPTION''), s)
            | Some (sub, plan) \<Rightarrow>
                if \<not> is_unlimited (pl_max_channels plan) \<and> limit_reached (count_account_channels s account_id) (pl_max_channels plan)
                then (Inl (ValueError ''CHANNEL_LIMIT_REACHED''), s)
                else if \<not> is_unlimited (org_max_channels o') \<and> limit_reached (count_organization_channels s (org_id o')) (org_max_channels o')
                then (Inl (ValueError ''ORG_CHANNEL_LIMIT_REACHED''), s)
                else (let c = new_channel new_id account_id p sub plan in (Inr c, s\<lparr>channels := channels s @ [c]\<rparr>))))"

datatype teardown = OtherActiveOnWaba | MissingCredentials | Unsubscribed bool

definition waba_has_other_active_accounts :: "db \<Rightarrow> string \<Rightarrow> uuid \<Rightarrow> bool" where
  "waba_has_other_active_accounts s waba_id except_account_id \<longleftrightarrow> waba_id \<noteq> [] \<and>
     (\<exists>wa \<in> set (whatsapp_accounts s). wa_waba_id wa = waba_id \<and> wa_status wa = WaActive \<and> wa_id wa \<noteq> except_account_id)"

definition maybe_unsubscribe_whatsapp_account_webhook :: "connect_env \<Rightarrow> whatsapp_account \<Rightarrow> bool \<Rightarrow> teardown" where
  "maybe_unsubscribe_whatsapp_account_webhook env wa other_active_on_waba =
     (if other_active_on_waba then OtherActiveOnWaba
      else if wa_waba_id wa = [] \<or> wa_access_token_encrypted wa = [] then MissingCredentials
      else Unsubscribed (returns (ce_unsubscribe env (ce_decrypt env (wa_access_token_encrypted wa)) (wa_waba_id wa))))"

definition archive_channel :: "connect_env \<Rightarrow> uuid \<Rightarrow> uuid \<Rightarrow> membership option \<Rightarrow> db \<Rightarrow> (channel \<times> teardown option) outcome \<times> db" where
  "archive_channel env account_id channel_id m s =
     (case get_channel s channel_id of
        None \<Rightarrow> (Inl (ValueError ''CHANNEL_NOT_FOUND''), s)
      | Some c \<Rightarrow>
          if ch_account_id c \<noteq> account_id \<or> ch_deleted_at c \<noteq> None then (Inl (ValueError ''CHANNEL_NOT_FOUND''), s)
          else (case (case m of None \<Rightarrow> Inr () | Some x \<Rightarrow> ensure_membership_channel_access s account_id x (ch_id c)) of
              Inl e \<Rightarrow> (Inl e, s)
            | Inr _ \<Rightarrow>
                (let c' = c\<lparr>ch_deleted_at := Some (ce_now env), ch_status := ChannelDisconnected\<rparr>;
                     s1 = put_channel c' s
                 in case find (\<lambda>wa. wa_account_id wa = account_id \<and> wa_channel_id wa = ch_id c) (whatsapp_accounts s) of
                      None \<Rightarrow> (Inr (c', None), s1)
                    | Some wa \<Rightarrow>
                        if wa_status wa = WaDisconnected then (Inr (c', None), s1)
                        else (Inr (c', Some (maybe_unsubscribe_whatsapp_account_webhook env wa
                            (waba_has_other_active_accounts s (wa_waba_id wa) (wa_id wa)))),
                          put_whatsapp_account (wa\<lparr>wa_status := WaDisconnected\<rparr>) s1))))"

section \<open>Accounts\<close>

definition assert_phone_number_available :: "db \<Rightarrow> string \<Rightarrow> uuid option \<Rightarrow> unit outcome" where
  "assert_phone_number_available s phone_number_id except_account_id =
     (case find (\<lambda>wa. wa_phone_number_id wa = phone_number_id) (whatsapp_accounts s) of
        None \<Rightarrow> Inr ()
      | Some existing \<Rightarrow> if except_account_id = Some (wa_id existing) then Inr () else Inl (ValueError ''PHONE_NUMBER_ALREADY_CONNECTED''))"

text \<open>The unique keys: the number and the channel.\<close>

definition account_conflict :: "whatsapp_account \<Rightarrow> db \<Rightarrow> bool" where
  "account_conflict wa s \<longleftrightarrow> (\<exists>x \<in> set (whatsapp_accounts s). wa_id x \<noteq> wa_id wa \<and>
     (wa_phone_number_id x = wa_phone_number_id wa \<or> wa_channel_id x = wa_channel_id wa))"

definition store_whatsapp_account :: "whatsapp_account \<Rightarrow> bool \<Rightarrow> db \<Rightarrow> db outcome" where
  "store_whatsapp_account wa existing s =
     (if account_conflict wa s then Inl integrity_error
      else if existing then Inr (put_whatsapp_account wa s) else Inr (s\<lparr>whatsapp_accounts := whatsapp_accounts s @ [wa]\<rparr>))"

text \<open>The first commit, the sync, and the subscription of the web hook, whose failure is ignored.\<close>

definition finalize_whatsapp_connection :: "connect_env \<Rightarrow> channel \<Rightarrow> whatsapp_account \<Rightarrow> bool \<Rightarrow> db \<Rightarrow> whatsapp_account outcome \<times> db" where
  "finalize_whatsapp_connection env c wa existing s =
     (case store_whatsapp_account wa existing s of
        Inl e \<Rightarrow> (Inl e, s)
      | Inr s1 \<Rightarrow>
          (let s2 = put_channel (c\<lparr>ch_external_id := Some (wa_phone_number_id wa), ch_status := ChannelActive\<rparr>) s1;
               s3 = sync_whatsapp_account_health_safe env wa s2
           in (Inr (case get_whatsapp_account s3 (wa_id wa) of None \<Rightarrow> wa | Some x \<Rightarrow> x), s3)))"

record account_create =
  ac_channel_id :: uuid
  ac_waba_id :: string
  ac_phone_number_id :: string
  ac_display_phone_number :: string
  ac_verified_name :: "string option"
  ac_access_token :: string

text \<open>The channel of a request, its account, and the check that the number is free.\<close>

definition connectable_channel :: "db \<Rightarrow> uuid \<Rightarrow> uuid \<Rightarrow> string \<Rightarrow> (channel \<times> whatsapp_account option) outcome" where
  "connectable_channel s account_id channel_id phone_number_id =
     (case get_channel s channel_id of
        None \<Rightarrow> Inl (ValueError ''INVALID_CHANNEL'')
      | Some c \<Rightarrow>
          if ch_account_id c \<noteq> account_id then Inl (ValueError ''INVALID_CHANNEL'')
          else if ch_type c \<noteq> WHATSAPP then Inl (ValueError ''CHANNEL_NOT_WHATSAPP'')
          else (let old = channel_whatsapp_account s (ch_id c)
                in map_sum id (\<lambda>_. (c, old)) (assert_phone_number_available s phone_number_id (map_option wa_id old))))"

text \<open>The row that a connection starts from: the account of the channel with everything that the request does not set, or a new one.\<close>

definition account_base :: "connect_env \<Rightarrow> uuid \<Rightarrow> channel \<Rightarrow> whatsapp_account option \<Rightarrow> whatsapp_account" where
  "account_base env account_id c old =
     (case old of
        Some wa \<Rightarrow> wa
      | None \<Rightarrow> \<lparr>wa_id = ce_id env, wa_account_id = account_id, wa_organization_id = ch_organization_id c, wa_channel_id = ch_id c, wa_waba_id = [],
          wa_phone_number_id = [], wa_display_phone_number = [], wa_verified_name = None, wa_access_token_encrypted = [], wa_status = WaPending,
          wa_connection_method = ManualConnection, wa_quality_rating = None, wa_messaging_limit_tier = None, wa_messaging_limit = None,
          wa_health_synced_at = None, wa_meta_phone_status = None, wa_meta_name_status = None, wa_meta_can_send_message = None,
          wa_meta_account_review_status = None, wa_meta_catalog_id = None, wa_commerce_enabled = False\<rparr>)"

definition create_whatsapp_account :: "connect_env \<Rightarrow> uuid \<Rightarrow> account_create \<Rightarrow> db \<Rightarrow> whatsapp_account outcome \<times> db" where
  "create_whatsapp_account env account_id p s =
     (case connectable_channel s account_id (ac_channel_id p) (ac_phone_number_id p) of
        Inl e \<Rightarrow> (Inl e, s)
      | Inr (c, old) \<Rightarrow>
          (case ce_phone_health env (ac_access_token p) (ac_phone_number_id p) of
             Inl _ \<Rightarrow> (Inl (ValueError ''INVALID_ACCESS_TOKEN''), s)
           | Inr raw \<Rightarrow>
               (let h = parse_phone_health raw;
                    wa = (account_base env account_id c old)\<lparr>wa_waba_id := ac_waba_id p, wa_phone_number_id := ac_phone_number_id p,
                      wa_display_phone_number := (if nonempty (ph_display_phone_number h) then the (ph_display_phone_number h)
                        else ac_display_phone_number p),
                      wa_verified_name := (if nonempty (ph_verified_name h) then ph_verified_name h else ac_verified_name p),
                      wa_access_token_encrypted := ce_encrypt env (ac_access_token p), wa_status := WaActive,
                      wa_connection_method := ManualConnection, wa_quality_rating := ph_quality_rating h,
                      wa_messaging_limit_tier := ph_messaging_limit_tier h, wa_messaging_limit := ph_messaging_limit h\<rparr>
                in finalize_whatsapp_connection env c wa (old \<noteq> None) s)))"

record embedded_signup =
  es_channel_id :: uuid
  es_waba_id :: string
  es_phone_number_id :: string
  es_code :: "string option"
  es_access_token :: "string option"
  es_display_phone_number :: "string option"
  es_verified_name :: "string option"

definition embedded_token :: "connect_env \<Rightarrow> embedded_signup \<Rightarrow> string outcome" where
  "embedded_token env p =
     (if nonempty (es_code p)
      then (case ce_exchange env (the (es_code p)) of
          Inl _ \<Rightarrow> Inl meta_api_error
        | Inr t \<Rightarrow> if t = [] then Inl (ValueError ''MISSING_ACCESS_TOKEN'') else Inr t)
      else if nonempty (es_access_token p) then Inr (the (es_access_token p)) else Inl (ValueError ''MISSING_ACCESS_TOKEN''))"

definition create_whatsapp_account_from_embedded :: "connect_env \<Rightarrow> uuid \<Rightarrow> embedded_signup \<Rightarrow> db \<Rightarrow> whatsapp_account outcome \<times> db" where
  "create_whatsapp_account_from_embedded env account_id p s =
     (case connectable_channel s account_id (es_channel_id p) (es_phone_number_id p) of
        Inl e \<Rightarrow> (Inl e, s)
      | Inr (c, old) \<Rightarrow>
          (case embedded_token env p of
             Inl e \<Rightarrow> (Inl e, s)
           | Inr token \<Rightarrow>
               (case ce_phone_health env token (es_phone_number_id p) of
                  Inl _ \<Rightarrow> (Inl meta_api_error, s)
                | Inr raw \<Rightarrow>
                    (let h = parse_phone_health raw;
                         wa = (account_base env account_id c old)\<lparr>wa_waba_id := es_waba_id p, wa_phone_number_id := es_phone_number_id p,
                           wa_display_phone_number := (if nonempty (es_display_phone_number p) then the (es_display_phone_number p)
                             else if nonempty (ph_display_phone_number h) then the (ph_display_phone_number h) else es_phone_number_id p),
                           wa_verified_name := (if nonempty (es_verified_name p) then es_verified_name p else ph_verified_name h),
                           wa_access_token_encrypted := ce_encrypt env token, wa_status := WaActive,
                           wa_connection_method := EmbeddedConnection, wa_quality_rating := ph_quality_rating h,
                           wa_messaging_limit_tier := ph_messaging_limit_tier h, wa_messaging_limit := ph_messaging_limit h\<rparr>
                     in finalize_whatsapp_connection env c wa (old \<noteq> None) s))))"

definition own_whatsapp_account :: "db \<Rightarrow> uuid \<Rightarrow> uuid \<Rightarrow> whatsapp_account outcome" where
  "own_whatsapp_account s account_id i =
     (case get_whatsapp_account s i of
        None \<Rightarrow> Inl (ValueError ''WHATSAPP_ACCOUNT_NOT_FOUND'')
      | Some wa \<Rightarrow> if wa_account_id wa \<noteq> account_id then Inl (ValueError ''WHATSAPP_ACCOUNT_NOT_FOUND'') else Inr wa)"

definition update_whatsapp_access_token :: "connect_env \<Rightarrow> uuid \<Rightarrow> uuid \<Rightarrow> string \<Rightarrow> db \<Rightarrow> whatsapp_account outcome \<times> db" where
  "update_whatsapp_access_token env account_id i access_token s =
     (case own_whatsapp_account s account_id i of
        Inl e \<Rightarrow> (Inl e, s)
      | Inr wa \<Rightarrow>
          (case ce_phone_health env access_token (wa_phone_number_id wa) of
             Inl _ \<Rightarrow> (Inl (ValueError ''INVALID_ACCESS_TOKEN''), s)
           | Inr raw \<Rightarrow>
               (let h = parse_phone_health raw;
                    wa' = wa\<lparr>wa_access_token_encrypted := ce_encrypt env access_token, wa_status := WaActive,
                      wa_display_phone_number := (if nonempty (ph_display_phone_number h) then the (ph_display_phone_number h)
                        else wa_display_phone_number wa),
                      wa_verified_name := (if nonempty (ph_verified_name h) then ph_verified_name h else wa_verified_name wa),
                      wa_quality_rating := ph_quality_rating h, wa_messaging_limit_tier := ph_messaging_limit_tier h,
                      wa_messaging_limit := ph_messaging_limit h, wa_health_synced_at := Some (ce_now env)\<rparr>
                in (Inr wa', put_whatsapp_account wa' s))))"

definition disconnect_whatsapp_account :: "connect_env \<Rightarrow> uuid \<Rightarrow> uuid \<Rightarrow> db \<Rightarrow> (whatsapp_account \<times> teardown) outcome \<times> db" where
  "disconnect_whatsapp_account env account_id i s =
     (case own_whatsapp_account s account_id i of
        Inl e \<Rightarrow> (Inl e, s)
      | Inr wa \<Rightarrow>
          (let done' = maybe_unsubscribe_whatsapp_account_webhook env wa (waba_has_other_active_accounts s (wa_waba_id wa) (wa_id wa));
               wa' = wa\<lparr>wa_status := WaDisconnected\<rparr>;
               s1 = put_whatsapp_account wa' s;
               s2 = (case get_channel s (wa_channel_id wa) of
                 None \<Rightarrow> s1
               | Some c \<Rightarrow> if ch_account_id c = account_id then put_channel (c\<lparr>ch_status := ChannelDisconnected\<rparr>) s1 else s1)
           in (Inr (wa', done'), s2)))"

text \<open>The list of accounts, in the order of the table.\<close>

definition list_whatsapp_accounts :: "db \<Rightarrow> uuid \<Rightarrow> whatsapp_account list" where
  "list_whatsapp_accounts s account_id =
     filter (\<lambda>wa. wa_account_id wa = account_id \<and> get_organization s (wa_organization_id wa) \<noteq> None \<and>
       (case get_channel s (wa_channel_id wa) of None \<Rightarrow> False | Some c \<Rightarrow> ch_deleted_at c = None)) (whatsapp_accounts s)"

definition get_whatsapp_accounts :: "connect_env \<Rightarrow> uuid \<Rightarrow> membership \<Rightarrow> db \<Rightarrow> whatsapp_account list \<times> db" where
  "get_whatsapp_accounts env account_id m s =
     (let linked = filter (\<lambda>wa. case resolve_accessible_channel_ids s account_id m of None \<Rightarrow> True | Some ids \<Rightarrow> wa_channel_id wa \<in> set ids)
            (list_whatsapp_accounts s account_id);
          s' = refresh_stale_whatsapp_health env linked s
      in (List.map_filter (\<lambda>wa. get_whatsapp_account s' (wa_id wa)) linked, s'))"

end
