(* ===== verification/ConnectionFacts.thy ===== *)
theory ConnectionFacts
  imports Connections InboxTyping WebhookBehaviour
begin

text \<open>
  What the connection of numbers guarantees.  The keys of an account are its number and the place of its channel; the operations keep numbers
  and channels unique and accounts at the place of their channel, and they keep the typing of the inbox.
\<close>

section \<open>Keys\<close>

type_synonym account_key = "uuid \<times> string \<times> place"

definition account_key :: "whatsapp_account \<Rightarrow> account_key" where
  "account_key wa = (wa_id wa, wa_phone_number_id wa, wa_place wa)"

definition account_keys :: "db \<Rightarrow> account_key list" where
  "account_keys s = map account_key (whatsapp_accounts s)"

definition channel_keys :: "db \<Rightarrow> place list" where
  "channel_keys s = map (\<lambda>c. (ch_id c, ch_account_id c, ch_organization_id c)) (channels s)"

definition keys_ok :: "account_key list \<Rightarrow> place list \<Rightarrow> bool" where
  "keys_ok as cs \<longleftrightarrow> distinct (map fst as) \<and> distinct (map (fst \<circ> snd) as) \<and> distinct (map (fst \<circ> snd \<circ> snd) as) \<and> distinct (map fst cs) \<and>
     snd ` snd ` set as \<subseteq> set cs"

definition numbers_ok :: "db \<Rightarrow> bool" where
  "numbers_ok s \<longleftrightarrow> keys_ok (account_keys s) (channel_keys s)"

lemma placed_keys: "placed s p \<longleftrightarrow> p \<in> set (channel_keys s)"
  by (auto simp: placed_def channel_keys_def)

lemma map_put_same:
  assumes "distinct (map key t)" "x \<in> set t" "key r = key x" "f r = f x"
  shows "map f (tbl_put key r t) = map f t"
proof -
  have "f (if key y = key r then r else y) = f y" if "y \<in> set t" for y
    using assms that row_by_id [OF assms(1,2) that] by auto
  then show ?thesis by (simp add: tbl_put_def)
qed

definition same_keys :: "db \<Rightarrow> db \<Rightarrow> bool" where
  "same_keys s s' \<longleftrightarrow> account_keys s' = account_keys s \<and> channel_keys s' = channel_keys s"

lemma same_keys_trans: "same_keys s t \<Longrightarrow> same_keys t u \<Longrightarrow> same_keys s u"
  by (simp add: same_keys_def)

lemma numbers_ok_same: "same_keys s s' \<Longrightarrow> numbers_ok s \<Longrightarrow> numbers_ok s'"
  by (simp add: same_keys_def numbers_ok_def)

lemma ids_distinct: "numbers_ok s \<Longrightarrow> distinct (map wa_id (whatsapp_accounts s))" "numbers_ok s \<Longrightarrow> distinct (map ch_id (channels s))"
  by (simp_all add: numbers_ok_def keys_ok_def account_keys_def channel_keys_def account_key_def comp_def)

lemma put_account_keys:
  assumes "numbers_ok s" "account_key wa \<in> set (account_keys s)"
  shows "same_keys s (put_whatsapp_account wa s)"
proof -
  obtain x where x: "x \<in> set (whatsapp_accounts s)" "account_key wa = account_key x" using assms(2) by (auto simp: account_keys_def)
  then have "map account_key (tbl_put wa_id wa (whatsapp_accounts s)) = map account_key (whatsapp_accounts s)"
    by (intro map_put_same [OF ids_distinct(1) [OF assms(1)]]) (auto simp: account_key_def)
  then show ?thesis by (simp add: same_keys_def account_keys_def channel_keys_def put_whatsapp_account_def)
qed

lemma put_channel_keys:
  assumes "numbers_ok s" "c \<in> set (channels s)" "ch_id c' = ch_id c" "ch_account_id c' = ch_account_id c" "ch_organization_id c' = ch_organization_id c"
  shows "same_keys s (put_channel c' s)"
  using map_put_same [OF ids_distinct(2) [OF assms(1)] assms(2,3), of "\<lambda>c. (ch_id c, ch_account_id c, ch_organization_id c)"] assms(3-5)
  by (simp add: same_keys_def account_keys_def channel_keys_def put_channel_def)

lemma get_account_key: "get_whatsapp_account s i = Some wa \<Longrightarrow> account_key wa \<in> set (account_keys s)"
  by (auto simp: get_whatsapp_account_def account_keys_def dest: tbl_get_mem)

lemma get_channel_mem: "get_channel s i = Some c \<Longrightarrow> c \<in> set (channels s)"
  by (auto simp: get_channel_def dest: tbl_get_mem)

section \<open>The operations\<close>

lemma sync_writes:
  "\<exists>wa'. sync_whatsapp_account_health_safe env wa s = put_whatsapp_account wa' s \<and> account_key wa' = account_key wa"
  by (auto simp: sync_whatsapp_account_health_safe_def sync_whatsapp_account_health_def healthy_account_def account_key_def wa_place_def Let_def
      split: sum.split)

lemma sync_keys: "numbers_ok s \<Longrightarrow> account_key wa \<in> set (account_keys s) \<Longrightarrow> same_keys s (sync_whatsapp_account_health_safe env wa s)"
  using sync_writes [of env wa s] put_account_keys by metis

lemma refresh_keys:
  assumes "numbers_ok s" "account_key ` set was \<subseteq> set (account_keys s)"
  shows "same_keys s (refresh_stale_whatsapp_health env was s)"
  using assms
proof (induction was arbitrary: s)
  case Nil
  then show ?case by (simp add: refresh_stale_whatsapp_health_def same_keys_def)
next
  case (Cons wa was)
  define t where "t = (if is_health_stale (ce_now env) wa then sync_whatsapp_account_health_safe env wa s else s)"
  have t: "same_keys s t" using Cons.prems sync_keys by (simp add: t_def same_keys_def)
  moreover have "same_keys t (refresh_stale_whatsapp_health env was t)"
    using Cons.IH [of t] Cons.prems numbers_ok_same [OF t] t by (simp add: same_keys_def)
  ultimately show ?case unfolding t_def refresh_stale_whatsapp_health_def by (simp add: same_keys_def)
qed

lemma listed_keys: "account_key ` set (filter p (list_whatsapp_accounts s a)) \<subseteq> set (account_keys s)"
  by (auto simp: list_whatsapp_accounts_def account_keys_def)

lemma sync_fold_keys:
  assumes "numbers_ok t" "account_key ` set was \<subseteq> set (account_keys t)"
  shows "same_keys t (snd (fold (\<lambda>wa ((n, m), t). (let t' = sync_whatsapp_account_health_safe env wa t;
      lost = (case get_whatsapp_account t' (wa_id wa) of None \<Rightarrow> False | Some u \<Rightarrow> wa_status u = WaDisconnected)
      in ((n + 1, m + (if lost then 1 else 0)), t'))) was ((n, m), t)))"
  using assms
proof (induction was arbitrary: t n m)
  case (Cons wa was)
  let ?t = "sync_whatsapp_account_health_safe env wa t"
  have t: "same_keys t ?t" using Cons.prems sync_keys by simp
  show ?case using same_keys_trans [OF t Cons.IH] Cons.prems numbers_ok_same [OF t] t by (simp add: Let_def same_keys_def)
qed (simp add: same_keys_def)

lemma sync_all_keys: "numbers_ok s \<Longrightarrow> same_keys s (snd (sync_all_whatsapp_health env s))"
  unfolding sync_all_whatsapp_health_def by (rule sync_fold_keys) (auto simp: account_keys_def)

lemma archive_keys:
  assumes "archive_channel env a i m s = (r, s')" "numbers_ok s"
  shows "same_keys s s'"
proof -
  have channel: "same_keys s (put_channel (c\<lparr>ch_deleted_at := t, ch_status := u\<rparr>) s)" if "c \<in> set (channels s)" for c t u
    by (rule put_channel_keys [OF assms(2) that]) simp_all
  have account: "same_keys s (put_whatsapp_account (wa\<lparr>wa_status := v\<rparr>) (put_channel (c\<lparr>ch_deleted_at := t, ch_status := u\<rparr>) s))"
    if "c \<in> set (channels s)" "wa \<in> set (whatsapp_accounts s)" for c t u wa v
  proof (rule same_keys_trans [OF channel [OF that(1)]], rule put_account_keys)
    show "numbers_ok (put_channel (c\<lparr>ch_deleted_at := t, ch_status := u\<rparr>) s)" by (rule numbers_ok_same [OF channel [OF that(1)] assms(2)])
    show "account_key (wa\<lparr>wa_status := v\<rparr>) \<in> set (account_keys (put_channel (c\<lparr>ch_deleted_at := t, ch_status := u\<rparr>) s))"
      using that(2) by (auto simp: account_keys_def put_channel_def account_key_def wa_place_def image_iff)
  qed
  show ?thesis using assms(1) channel account
    by (auto simp: archive_channel_def Let_def same_keys_def find_Some_iff dest!: get_channel_mem nth_mem split: option.splits if_splits sum.splits)
qed

lemma distinct_put:
  assumes "distinct (map f t)" "distinct (map key t)" "\<And>y. y \<in> set t \<Longrightarrow> key y \<noteq> key r \<Longrightarrow> f y \<noteq> f r"
  shows "distinct (map f (tbl_put key r t))"
  using assms
proof (induction t)
  case (Cons x t)
  have same: "map (\<lambda>y. if key y = key r then r else y) t = t" if "key x = key r"
    using Cons.prems(2) that by (intro map_idI) (auto simp: image_iff)
  show ?case
  proof (cases "key x = key r")
    case True
    have "f r \<notin> f ` set t"
    proof
      assume "f r \<in> f ` set t"
      then obtain y where "y \<in> set t" "f y = f r" by auto
      then show False using Cons.prems(2,3) True by (auto simp: image_iff)
    qed
    then show ?thesis using Cons.prems(1) True same by (simp add: tbl_put_def)
  next
    case False
    have "f x \<notin> f ` set (tbl_put key r t)" using Cons.prems(1) Cons.prems(3) [of x] False by (auto simp: tbl_put_def)
    moreover have "tbl_put key r (x # t) = x # tbl_put key r t" using False by (simp add: tbl_put_def)
    moreover have "distinct (map f (tbl_put key r t))" using Cons.IH Cons.prems by simp
    ultimately show ?thesis by simp
  qed
qed (simp add: tbl_put_def)

lemma store_keys:
  assumes "store_whatsapp_account wa existing s = Inr s1" "numbers_ok s"
    and "existing \<Longrightarrow> \<exists>u \<in> set (whatsapp_accounts s). wa_id u = wa_id wa \<and> wa_place u = wa_place wa"
    and "\<not> existing \<Longrightarrow> wa_id wa \<notin> wa_id ` set (whatsapp_accounts s) \<and> placed s (wa_place wa)"
  shows "numbers_ok s1 \<and> channel_keys s1 = channel_keys s \<and> account_key wa \<in> set (account_keys s1) \<and> channels s1 = channels s"
proof -
  have free: "\<And>y. y \<in> set (whatsapp_accounts s) \<Longrightarrow> wa_id y \<noteq> wa_id wa \<Longrightarrow> wa_phone_number_id y \<noteq> wa_phone_number_id wa"
    "\<And>y. y \<in> set (whatsapp_accounts s) \<Longrightarrow> wa_id y \<noteq> wa_id wa \<Longrightarrow> wa_channel_id y \<noteq> wa_channel_id wa"
    using assms(1) by (auto simp: store_whatsapp_account_def account_conflict_def split: if_splits)
  have d: "distinct (map wa_id (whatsapp_accounts s))" "distinct (map wa_phone_number_id (whatsapp_accounts s))"
    "distinct (map wa_channel_id (whatsapp_accounts s))" "wa_place ` set (whatsapp_accounts s) \<subseteq> set (channel_keys s)"
    "distinct (map fst (channel_keys s))"
    using assms(2) by (auto simp: numbers_ok_def keys_ok_def account_keys_def account_key_def comp_def wa_place_def image_image)
  show ?thesis
  proof (cases existing)
    case True
    obtain u where u: "u \<in> set (whatsapp_accounts s)" "wa_id u = wa_id wa" "wa_place u = wa_place wa" using assms(3) True by blast
    have s1: "s1 = put_whatsapp_account wa s" using assms(1) True by (auto simp: store_whatsapp_account_def split: if_splits)
    have was: "whatsapp_accounts s1 = tbl_put wa_id wa (whatsapp_accounts s)" "channels s1 = channels s" by (simp_all add: s1 put_whatsapp_account_def)
    have "set (whatsapp_accounts s1) = insert wa (set (whatsapp_accounts s) - {u})"
      unfolding was by (rule set_put [OF d(1) u(1)]) (use u(2) in simp)
    moreover have "distinct (map wa_id (whatsapp_accounts s1))" "distinct (map wa_phone_number_id (whatsapp_accounts s1))"
      "distinct (map wa_channel_id (whatsapp_accounts s1))"
      unfolding was using d free by (simp_all add: distinct_put map_put)
    moreover have "wa_place wa \<in> set (channel_keys s)" using d(4) u by (metis image_subset_iff)
    ultimately show ?thesis using d(4,5) was
      by (auto simp: numbers_ok_def keys_ok_def account_keys_def account_key_def comp_def wa_place_def image_image channel_keys_def)
  next
    case False
    have s1: "s1 = s\<lparr>whatsapp_accounts := whatsapp_accounts s @ [wa]\<rparr>" using assms(1) False by (auto simp: store_whatsapp_account_def split: if_splits)
    have new: "wa_id wa \<notin> wa_id ` set (whatsapp_accounts s)" "wa_place wa \<in> set (channel_keys s)"
      using assms(4) False by (auto simp: placed_keys)
    have "wa_id y \<noteq> wa_id wa" if "y \<in> set (whatsapp_accounts s)" for y using new(1) that by (metis imageI)
    then have "wa_phone_number_id wa \<notin> wa_phone_number_id ` set (whatsapp_accounts s)" "wa_channel_id wa \<notin> wa_channel_id ` set (whatsapp_accounts s)"
      using free by (metis imageE, metis imageE)
    then show ?thesis using d new
      by (auto simp: s1 numbers_ok_def keys_ok_def account_keys_def account_key_def comp_def wa_place_def image_image channel_keys_def)
  qed
qed

lemma finalize_keys:
  assumes "finalize_whatsapp_connection env c wa existing s = (r, s')" "numbers_ok s" "c \<in> set (channels s)"
    and "existing \<Longrightarrow> \<exists>u \<in> set (whatsapp_accounts s). wa_id u = wa_id wa \<and> wa_place u = wa_place wa"
    and "\<not> existing \<Longrightarrow> wa_id wa \<notin> wa_id ` set (whatsapp_accounts s) \<and> placed s (wa_place wa)"
  shows "numbers_ok s' \<and> channel_keys s' = channel_keys s"
proof (cases "store_whatsapp_account wa existing s")
  case (Inl e)
  then show ?thesis using assms(1,2) by (simp add: finalize_whatsapp_connection_def)
next
  case (Inr s1)
  note stored = store_keys [OF Inr assms(2,4,5)]
  let ?c = "c\<lparr>ch_external_id := Some (wa_phone_number_id wa), ch_status := ChannelActive\<rparr>"
  have channel: "same_keys s1 (put_channel ?c s1)" by (rule put_channel_keys [of s1 c]) (use stored assms(3) in simp_all)
  have "same_keys (put_channel ?c s1) (sync_whatsapp_account_health_safe env wa (put_channel ?c s1))"
    by (rule sync_keys) (use numbers_ok_same [OF channel] stored channel in \<open>simp_all add: same_keys_def\<close>)
  with channel have "same_keys s1 s'" using assms(1) Inr by (auto simp: finalize_whatsapp_connection_def same_keys_def Let_def)
  then show ?thesis using stored numbers_ok_same by (metis same_keys_def)
qed

text \<open>What a channel can be connected with.\<close>

lemma connectable:
  assumes "connectable_channel s a i number = Inr (c, old)"
  shows "c \<in> set (channels s) \<and> ch_id c = i \<and> ch_account_id c = a \<and> old = channel_whatsapp_account s (ch_id c)"
  using assms by (auto simp: connectable_channel_def get_channel_def Let_def map_sum_Inr dest: tbl_get_mem tbl_get_key split: option.splits if_splits)

lemma base_keys:
  assumes "connectable_channel s a i number = Inr (c, old)" "ce_id env \<notin> wa_id ` set (whatsapp_accounts s)"
    and "wa_id wa = wa_id (account_base env a c old)" "wa_place wa = wa_place (account_base env a c old)"
  shows "old \<noteq> None \<Longrightarrow> \<exists>u \<in> set (whatsapp_accounts s). wa_id u = wa_id wa \<and> wa_place u = wa_place wa"
    and "\<not> old \<noteq> None \<Longrightarrow> wa_id wa \<notin> wa_id ` set (whatsapp_accounts s) \<and> placed s (wa_place wa)"
proof -
  note c = connectable [OF assms(1)]
  show "\<exists>u \<in> set (whatsapp_accounts s). wa_id u = wa_id wa \<and> wa_place u = wa_place wa" if some: "old \<noteq> None"
  proof -
    obtain u where "old = Some u" using some by blast
    moreover have "u \<in> set (whatsapp_accounts s)" using c calculation find_mem unfolding channel_whatsapp_account_def by metis
    ultimately show ?thesis using assms(3,4) by (auto simp: account_base_def)
  qed
  show "wa_id wa \<notin> wa_id ` set (whatsapp_accounts s) \<and> placed s (wa_place wa)" if "\<not> old \<noteq> None"
    using that c assms(2-4) by (auto simp: account_base_def wa_place_def placed_def intro!: bexI [where x = c])
qed

lemma create_account_keys:
  assumes "create_whatsapp_account env a p s = (r, s')" "numbers_ok s" "ce_id env \<notin> wa_id ` set (whatsapp_accounts s)"
  shows "numbers_ok s' \<and> channel_keys s' = channel_keys s"
proof (cases "connectable_channel s a (ac_channel_id p) (ac_phone_number_id p)")
  case (Inr x)
  obtain c old where x: "x = (c, old)" by (cases x)
  note conn = Inr [unfolded x]
  show ?thesis
  proof (cases "ce_phone_health env (ac_access_token p) (ac_phone_number_id p)")
    case (Inr raw)
    obtain wa where f: "finalize_whatsapp_connection env c wa (old \<noteq> None) s = (r, s')" and wa: "wa_id wa = wa_id (account_base env a c old)"
      "wa_place wa = wa_place (account_base env a c old)"
      using assms(1) conn Inr by (simp add: create_whatsapp_account_def Let_def wa_place_def)
    show ?thesis using finalize_keys [OF f assms(2)] base_keys [OF conn assms(3) wa] connectable [OF conn] by blast
  qed (use assms(1,2) conn in \<open>simp add: create_whatsapp_account_def\<close>)
qed (use assms(1,2) in \<open>simp add: create_whatsapp_account_def\<close>)

lemma embedded_keys:
  assumes "create_whatsapp_account_from_embedded env a p s = (r, s')" "numbers_ok s" "ce_id env \<notin> wa_id ` set (whatsapp_accounts s)"
  shows "numbers_ok s' \<and> channel_keys s' = channel_keys s"
proof (cases "connectable_channel s a (es_channel_id p) (es_phone_number_id p)")
  case (Inr x)
  obtain c old where x: "x = (c, old)" by (cases x)
  note conn = Inr [unfolded x]
  consider "s' = s" | wa where "finalize_whatsapp_connection env c wa (old \<noteq> None) s = (r, s')" "wa_id wa = wa_id (account_base env a c old)"
      "wa_place wa = wa_place (account_base env a c old)"
    using assms(1) conn by (simp add: create_whatsapp_account_from_embedded_def Let_def wa_place_def split: sum.splits)
  then show ?thesis
  proof cases
    case (2 wa)
    show ?thesis using finalize_keys [OF 2(1) assms(2)] base_keys [OF conn assms(3) 2(2,3)] connectable [OF conn] by blast
  qed (use assms(2) in simp)
qed (use assms(1,2) in \<open>simp add: create_whatsapp_account_from_embedded_def\<close>)

lemma own_account_key: "own_whatsapp_account s a i = Inr wa \<Longrightarrow> get_whatsapp_account s i = Some wa \<and> wa_account_id wa = a"
  by (auto simp: own_whatsapp_account_def split: option.splits if_splits)

lemma token_keys:
  assumes "update_whatsapp_access_token env a i token s = (r, s')" "numbers_ok s"
  shows "same_keys s s'"
proof (cases "own_whatsapp_account s a i")
  case (Inr wa)
  note key = get_account_key [OF own_account_key [OF Inr, THEN conjunct1]]
  show ?thesis
  proof (cases "ce_phone_health env token (wa_phone_number_id wa)")
    case h: (Inr raw)
    obtain wa' where "s' = put_whatsapp_account wa' s" "account_key wa' = account_key wa"
      using assms(1) Inr h by (auto simp: update_whatsapp_access_token_def Let_def account_key_def wa_place_def)
    then show ?thesis using put_account_keys [OF assms(2)] key by simp
  qed (use assms(1) Inr in \<open>simp add: update_whatsapp_access_token_def same_keys_def\<close>)
qed (use assms(1) in \<open>simp add: update_whatsapp_access_token_def same_keys_def\<close>)

lemma disconnect_keys:
  assumes "disconnect_whatsapp_account env a i s = (r, s')" "numbers_ok s"
  shows "same_keys s s'"
proof (cases "own_whatsapp_account s a i")
  case (Inr wa)
  let ?s1 = "put_whatsapp_account (wa\<lparr>wa_status := WaDisconnected\<rparr>) s"
  have one: "same_keys s ?s1"
    by (rule put_account_keys [OF assms(2)]) (use get_account_key [OF own_account_key [OF Inr, THEN conjunct1]] in \<open>simp add: account_key_def wa_place_def\<close>)
  have "same_keys ?s1 (put_channel (c\<lparr>ch_status := ChannelDisconnected\<rparr>) ?s1)" if "get_channel s (wa_channel_id wa) = Some c" for c
    by (rule put_channel_keys [of _ c]) (use numbers_ok_same [OF one assms(2)] get_channel_mem [OF that] in \<open>simp_all add: put_whatsapp_account_def\<close>)
  then show ?thesis using assms(1) Inr one same_keys_trans [OF one]
    by (auto simp: disconnect_whatsapp_account_def Let_def split: option.splits if_splits)
qed (use assms(1) in \<open>simp add: disconnect_whatsapp_account_def same_keys_def\<close>)

lemma create_channel_writes:
  assumes "create_channel now i a p s = (r, s')"
  shows "s' = s \<or> (\<exists>c. ch_id c = i \<and> s' = s\<lparr>channels := channels s @ [c]\<rparr>)"
  using assms by (auto simp: create_channel_def new_channel_def Let_def split: option.splits if_splits prod.splits intro!: exI)

lemma create_channel_keys:
  assumes "create_channel now i a p s = (r, s')" "numbers_ok s" "i \<notin> ch_id ` set (channels s)"
  shows "numbers_ok s' \<and> set (channel_keys s) \<subseteq> set (channel_keys s')"
  using create_channel_writes [OF assms(1)]
proof
  assume "\<exists>c. ch_id c = i \<and> s' = s\<lparr>channels := channels s @ [c]\<rparr>"
  then obtain c where c: "ch_id c = i" "s' = s\<lparr>channels := channels s @ [c]\<rparr>" by blast
  have "account_keys s' = account_keys s" "channel_keys s' = channel_keys s @ [(i, ch_account_id c, ch_organization_id c)]"
    by (simp_all add: c account_keys_def channel_keys_def)
  moreover have "i \<notin> fst ` set (channel_keys s)" using assms(3) by (auto simp: channel_keys_def)
  ultimately show ?thesis using assms(2) by (auto simp: numbers_ok_def keys_ok_def)
qed (use assms(2) in simp)

section \<open>Histories of the whole inbox\<close>

text \<open>One operation on the connections; new rows take new ids.\<close>

inductive connection_step :: "db \<Rightarrow> db \<Rightarrow> bool" where
  channel_created: "i \<notin> ch_id ` set (channels s) \<Longrightarrow> create_channel now i a p s = (r, s') \<Longrightarrow> connection_step s s'"
| channel_archived: "archive_channel env a i m s = (r, s') \<Longrightarrow> connection_step s s'"
| number_connected: "ce_id env \<notin> wa_id ` set (whatsapp_accounts s) \<Longrightarrow> create_whatsapp_account env a q s = (r, s') \<Longrightarrow> connection_step s s'"
| number_embedded: "ce_id env \<notin> wa_id ` set (whatsapp_accounts s) \<Longrightarrow> create_whatsapp_account_from_embedded env a e s = (r, s') \<Longrightarrow> connection_step s s'"
| token_updated: "update_whatsapp_access_token env a i token s = (r, s') \<Longrightarrow> connection_step s s'"
| number_disconnected: "disconnect_whatsapp_account env a i s = (r, s') \<Longrightarrow> connection_step s s'"
| accounts_listed: "get_whatsapp_accounts env a m s = (r, s') \<Longrightarrow> connection_step s s'"
| health_synced: "sync_all_whatsapp_health env s = (r, s') \<Longrightarrow> connection_step s s'"

lemma list_writes: "get_whatsapp_accounts env a m s = (r, s') \<Longrightarrow> \<exists>p. s' = refresh_stale_whatsapp_health env (filter p (list_whatsapp_accounts s a)) s"
  by (auto simp: get_whatsapp_accounts_def Let_def)

lemma connection_step_keys:
  assumes "connection_step s s'" "numbers_ok s"
  shows "numbers_ok s' \<and> set (channel_keys s) \<subseteq> set (channel_keys s')"
proof -
  have same: ?thesis if "same_keys s s'" using numbers_ok_same [OF that assms(2)] that by (simp add: same_keys_def)
  show ?thesis using assms(1)
  proof cases
    case (channel_created i now a p r)
    then show ?thesis using create_channel_keys assms(2) by simp
  next
    case (channel_archived env a i m r)
    then show ?thesis using same archive_keys assms(2) by simp
  next
    case (number_connected env a q r)
    then show ?thesis using create_account_keys assms(2) by simp
  next
    case (number_embedded env a e r)
    then show ?thesis using embedded_keys assms(2) by simp
  next
    case (token_updated env a i token r)
    then show ?thesis using same token_keys assms(2) by simp
  next
    case (number_disconnected env a i r)
    then show ?thesis using same disconnect_keys assms(2) by simp
  next
    case (accounts_listed env a m r)
    then show ?thesis using same refresh_keys [OF assms(2) listed_keys] list_writes by metis
  next
    case (health_synced env r)
    then show ?thesis using same sync_all_keys [OF assms(2)] by (metis snd_conv)
  qed
qed

text \<open>The rows of the inbox stay as they are.\<close>

definition inbox_rows :: "db \<Rightarrow> contact list \<times> conversation list \<times> message list" where
  "inbox_rows s = (contacts s, conversations s, messages s)"

lemma put_rows: "inbox_rows (put_channel c s) = inbox_rows s" "inbox_rows (put_whatsapp_account wa s) = inbox_rows s"
  by (simp_all add: inbox_rows_def put_channel_def put_whatsapp_account_def)

lemma sync_rows: "inbox_rows (sync_whatsapp_account_health_safe env wa s) = inbox_rows s"
  using sync_writes [of env wa s] put_rows(2) by metis

lemma refresh_rows: "inbox_rows (refresh_stale_whatsapp_health env was s) = inbox_rows s"
  by (induction was arbitrary: s) (simp_all add: refresh_stale_whatsapp_health_def sync_rows)

lemma sync_fold_rows: "inbox_rows (snd (fold (\<lambda>wa ((n, m), t). (let t' = sync_whatsapp_account_health_safe env wa t;
      lost = (case get_whatsapp_account t' (wa_id wa) of None \<Rightarrow> False | Some u \<Rightarrow> wa_status u = WaDisconnected)
      in ((n + 1, m + (if lost then 1 else 0)), t'))) was ((n, m), t))) = inbox_rows t"
  by (induction was arbitrary: n m t) (simp_all add: sync_rows Let_def)

lemma store_rows: "store_whatsapp_account wa b s = Inr s' \<Longrightarrow> inbox_rows s' = inbox_rows s"
  by (auto simp: store_whatsapp_account_def put_rows inbox_rows_def put_whatsapp_account_def split: if_splits)

lemma finalize_rows: "finalize_whatsapp_connection env c wa b s = (r, s') \<Longrightarrow> inbox_rows s' = inbox_rows s"
  by (auto simp: finalize_whatsapp_connection_def Let_def put_rows sync_rows dest!: store_rows split: sum.splits)

lemma create_account_rows: "create_whatsapp_account env a p s = (r, s') \<Longrightarrow> inbox_rows s' = inbox_rows s"
  by (auto simp: create_whatsapp_account_def Let_def dest: finalize_rows split: sum.splits)

lemma embedded_rows: "create_whatsapp_account_from_embedded env a q s = (r, s') \<Longrightarrow> inbox_rows s' = inbox_rows s"
  by (auto simp: create_whatsapp_account_from_embedded_def Let_def dest: finalize_rows split: sum.splits)

lemma token_rows: "update_whatsapp_access_token env a i token s = (r, s') \<Longrightarrow> inbox_rows s' = inbox_rows s"
  by (auto simp: update_whatsapp_access_token_def put_rows Let_def split: sum.splits)

lemma archive_rows: "archive_channel env a i m s = (r, s') \<Longrightarrow> inbox_rows s' = inbox_rows s"
  by (auto simp: archive_channel_def put_rows Let_def split: option.splits sum.splits if_splits)

lemma disconnect_rows: "disconnect_whatsapp_account env a i s = (r, s') \<Longrightarrow> inbox_rows s' = inbox_rows s"
  by (auto simp: disconnect_whatsapp_account_def put_rows Let_def split: option.splits sum.splits if_splits)

lemma connection_step_rows: "connection_step s s' \<Longrightarrow> inbox_rows s' = inbox_rows s"
proof (induction rule: connection_step.induct)
  case (channel_created i s now a p r s')
  then show ?case using create_channel_writes [of now i a p s r s'] by (auto simp: inbox_rows_def)
next
  case (accounts_listed env a m s r s')
  then show ?case using list_writes refresh_rows by metis
next
  case (health_synced env s r s')
  have "inbox_rows (snd (sync_all_whatsapp_health env s)) = inbox_rows s" unfolding sync_all_whatsapp_health_def by (rule sync_fold_rows)
  then show ?case using health_synced by simp
qed (erule create_account_rows embedded_rows token_rows archive_rows disconnect_rows)+

lemma numbers_ok_connected:
  assumes "numbers_ok s" "wa \<in> set (whatsapp_accounts s)"
  shows "placed s (wa_place wa)"
proof -
  have "account_key wa \<in> set (account_keys s)" using assms(2) by (simp add: account_keys_def)
  then have "snd (snd (account_key wa)) \<in> snd ` snd ` set (account_keys s)" by blast
  then show ?thesis using assms(1) by (auto simp: numbers_ok_def keys_ok_def placed_keys account_key_def)
qed

lemma connection_step_typed:
  assumes "connection_step s s'" "numbers_ok s" "inbox_typed s"
  shows "inbox_typed s'"
proof -
  note step = connection_step_keys [OF assms(1,2)] connection_step_rows [OF assms(1)]
  have rows: "contacts s' = contacts s" "conversations s' = conversations s" "messages s' = messages s" using step by (simp_all add: inbox_rows_def)
  have more: "placed s' p" if "placed s p" for p using step that by (auto simp: placed_keys)
  have "placed s' (wa_place wa)" if "wa \<in> set (whatsapp_accounts s')" for wa using numbers_ok_connected step that by blast
  moreover have "distinct (map ch_id (channels s'))" using ids_distinct(2) step by blast
  ultimately show ?thesis using assms(3) more by (simp add: inbox_typed_def conversation_typed_def message_typed_def rows)
qed

lemma mark_read_numbers: "mark_conversation_read now a i m s = (r, s') \<Longrightarrow> (channels s', whatsapp_accounts s') = (channels s, whatsapp_accounts s)"
  by (auto simp: mark_conversation_read_def get_or_create_read_state_def put_read_state_def Let_def split: sum.splits option.splits)

lemma inbox_step_numbers: "inbox_step s s' \<Longrightarrow> numbers_ok s \<Longrightarrow> numbers_ok s'"
proof -
  assume step: "inbox_step s s'" and ok: "numbers_ok s"
  have "(channels s', whatsapp_accounts s') = (channels s, whatsapp_accounts s)"
  proof (cases "\<exists>now a i m r. mark_conversation_read now a i m s = (r, s')")
    case True
    then show ?thesis using mark_read_numbers by blast
  next
    case False
    then show ?thesis using numbers.step_part [OF step] by blast
  qed
  then show ?thesis using ok by (simp add: numbers_ok_def account_keys_def channel_keys_def)
qed

text \<open>C33. A number has one owner: whatever happens to channels, numbers, contacts and conversations, in any order, a number is connected once, so a webhook
  finds one account for it, and the message that the webhook stores carries the channel, account and organization of that number and hangs on a
  conversation and a contact of the same channel, account and organization, which are those of a stored channel.\<close>

theorem number_has_one_owner:
  assumes "(\<lambda>s t. inbox_step s t \<or> connection_step s t)\<^sup>*\<^sup>* s s'" "inbox_typed s" "numbers_ok s"
    and "account_of_value s' val = Some wa" "new_ids (wh_ids env n) s'" "store_inbound env n wa item val s' = Inr (ctx, t)"
    and "other \<in> set (whatsapp_accounts s')" "wa_phone_number_id other = wa_phone_number_id wa"
  shows "other = wa \<and> inbox_typed t \<and> (\<exists>c \<in> set (channels s'). ch_id c = wa_channel_id wa \<and> ch_account_id c = wa_account_id wa \<and>
    ch_organization_id c = wa_organization_id wa) \<and>
    (\<exists>m. messages t = messages s' @ [m] \<and>
      msg_channel_id m = wa_channel_id wa \<and> msg_account_id m = wa_account_id wa \<and> msg_organization_id m = wa_organization_id wa \<and>
      (\<exists>c \<in> set (conversations t). msg_conversation_id m = Some (conv_id c) \<and>
        conv_channel_id c = wa_channel_id wa \<and> conv_account_id c = wa_account_id wa \<and> conv_organization_id c = wa_organization_id wa) \<and>
      (\<exists>k \<in> set (contacts t). msg_contact_id m = Some (con_id k) \<and>
        con_channel_id k = wa_channel_id wa \<and> con_account_id k = wa_account_id wa \<and> con_organization_id k = wa_organization_id wa))"
proof -
  have ok: "inbox_typed s' \<and> numbers_ok s'" using assms(1-3)
    by (induction rule: rtranclp_induct) (auto intro: inbox_step_typed inbox_step_numbers connection_step_typed dest: connection_step_keys)
  have mem: "wa \<in> set (whatsapp_accounts s')" using assms(4) by (auto simp: account_of_value_def Let_def dest: find_mem split: if_splits)
  have "distinct (map wa_phone_number_id (whatsapp_accounts s'))" using ok
    by (simp add: numbers_ok_def keys_ok_def account_keys_def account_key_def comp_def)
  then have "other = wa" using row_by_id assms(7,8) mem by metis
  moreover have "inbox_typed t" using typed_store_inbound [OF assms(6)] ok mem assms(5) by blast
  moreover have "placed s' (wa_place wa)" using numbers_ok_connected ok mem by blast
  moreover have "\<exists>m. messages t = messages s' @ [m] \<and> msg_place m = wa_place wa \<and>
      (\<exists>c \<in> set (conversations t). msg_conversation_id m = Some (conv_id c) \<and> conv_place c = wa_place wa) \<and>
      (\<exists>k \<in> set (contacts t). msg_contact_id m = Some (con_id k) \<and> con_place k = wa_place wa)"
    using stored_message_place [OF assms(6)] ok mem assms(5) by blast
  ultimately show ?thesis by (simp add: placed_def place_simps) metis
qed

section \<open>Disconnecting\<close>

lemma disconnected_row:
  assumes "disconnect_whatsapp_account env a i s = (Inr (wa, t), s')"
  shows "get_whatsapp_account s' i = Some wa \<and> wa_status wa = WaDisconnected \<and> wa_id wa = i \<and> wa_account_id wa = a"
proof -
  obtain old where old: "own_whatsapp_account s a i = Inr old"
    using assms by (cases "own_whatsapp_account s a i") (simp_all add: disconnect_whatsapp_account_def)
  then have key: "get_whatsapp_account s i = Some old" "wa_account_id old = a" "wa_id old = i"
    using own_account_key whatsapp_account_rows.get_key by blast+
  have wa: "wa = old\<lparr>wa_status := WaDisconnected\<rparr>" using assms old by (simp add: disconnect_whatsapp_account_def Let_def)
  have "whatsapp_accounts s' = whatsapp_accounts (put_whatsapp_account wa s)"
    using assms old by (auto simp: disconnect_whatsapp_account_def Let_def put_channel_def split: option.splits if_splits)
  then have "get_whatsapp_account s' i = get_whatsapp_account (put_whatsapp_account wa s) i" by (simp add: get_whatsapp_account_def)
  then show ?thesis using key wa whatsapp_account_rows.read_modify_write [OF key(1), of wa] by simp
qed

text \<open>A disconnected number is silent: after a disconnection no send function calls Meta for it, each of them refuses and changes nothing.\<close>

theorem disconnected_number_is_silent:
  assumes "disconnect_whatsapp_account env a i s = (Inr (wa, t), s')"
  shows "send_text_message senv a i number body preview counted trigger s' = refused (ValueError ''WHATSAPP_ACCOUNT_NOT_AVAILABLE'') s' \<and>
    send_media_message senv a i ty number url caption filename counted s' = refused (ValueError ''WHATSAPP_ACCOUNT_NOT_AVAILABLE'') s' \<and>
    send_template_message senv a i number name lang comps counted shown shown_body s' =
      refused (ValueError ''WHATSAPP_ACCOUNT_NOT_AVAILABLE'') s' \<and>
    send_catalog_welcome_message senv a i number body footer counted s' = refused (ValueError ''WHATSAPP_ACCOUNT_NOT_AVAILABLE'') s'"
  using disconnected_row [OF assms]
  by (simp add: send_text_message_def send_media_message_def send_template_message_def send_catalog_welcome_message_def commerce_whatsapp_account_def
      usable_whatsapp_account_def)

text \<open>A sync with an answer of Meta that reports no problem.\<close>

definition meta_reports_connected :: "connect_env \<Rightarrow> whatsapp_account \<Rightarrow> bool" where
  "meta_reports_connected env wa \<longleftrightarrow>
     (case ce_phone_health env (ce_decrypt env (wa_access_token_encrypted wa)) (wa_phone_number_id wa) of
        Inl _ \<Rightarrow> False
      | Inr raw \<Rightarrow>
          (let p = parse_phone_health raw;
               w = (case ce_waba_health env (ce_decrypt env (wa_access_token_encrypted wa)) (wa_waba_id wa) of
                 Inl _ \<Rightarrow> no_waba_health | Inr d \<Rightarrow> parse_waba_health d)
           in derive_account_status_from_meta (ph_meta_phone_status p) (wh_meta_can_send_message w) (ph_meta_name_status p) False = WaActive))"

lemma sync_connected:
  assumes "meta_reports_connected env wa" "get_whatsapp_account s (wa_id wa) = Some u"
  shows "\<exists>x. get_whatsapp_account (sync_whatsapp_account_health_safe env wa s) (wa_id wa) = Some x \<and> wa_status x = WaActive \<and> wa_account_id x = wa_account_id wa"
proof -
  obtain raw where raw: "ce_phone_health env (ce_decrypt env (wa_access_token_encrypted wa)) (wa_phone_number_id wa) = Inr raw"
    using assms(1) by (auto simp: meta_reports_connected_def split: sum.splits)
  let ?w = "case ce_waba_health env (ce_decrypt env (wa_access_token_encrypted wa)) (wa_waba_id wa) of Inl _ \<Rightarrow> no_waba_health | Inr d \<Rightarrow> parse_waba_health d"
  define x where "x = healthy_account (ce_now env) (parse_phone_health raw) ?w wa"
  have x: "wa_id x = wa_id wa" "wa_account_id x = wa_account_id wa" by (simp_all add: x_def healthy_account_def)
  have "wa_status x = WaActive" using assms(1) by (simp add: meta_reports_connected_def raw x_def healthy_account_def Let_def)
  moreover have "sync_whatsapp_account_health_safe env wa s = put_whatsapp_account x s"
    by (simp add: sync_whatsapp_account_health_safe_def sync_whatsapp_account_health_def raw x_def Let_def)
  ultimately show ?thesis using whatsapp_account_rows.read_modify_write [OF assms(2) x(1)] x(2) by auto
qed

lemma sync_other:
  assumes "wa_id other \<noteq> i"
  shows "get_whatsapp_account (sync_whatsapp_account_health_safe env other s) i = get_whatsapp_account s i"
proof -
  obtain x where "sync_whatsapp_account_health_safe env other s = put_whatsapp_account x s" "account_key x = account_key other" using sync_writes by blast
  then show ?thesis using whatsapp_account_rows.put_frame [of i x s] assms by (simp add: account_key_def)
qed

lemma refresh_other: "i \<notin> wa_id ` set was \<Longrightarrow> get_whatsapp_account (refresh_stale_whatsapp_health env was s) i = get_whatsapp_account s i"
  by (induction was arbitrary: s) (simp_all add: refresh_stale_whatsapp_health_def sync_other)

lemma refresh_connected:
  assumes "distinct (map wa_id was)" "wa \<in> set was" "is_health_stale (ce_now env) wa" "meta_reports_connected env wa"
    and "get_whatsapp_account s (wa_id wa) = Some u"
  shows "\<exists>x. get_whatsapp_account (refresh_stale_whatsapp_health env was s) (wa_id wa) = Some x \<and> wa_status x = WaActive \<and> wa_account_id x = wa_account_id wa"
  using assms(1,2,5)
proof (induction was arbitrary: s u)
  case (Cons y ys)
  let ?t = "if is_health_stale (ce_now env) y then sync_whatsapp_account_health_safe env y s else s"
  have fold: "refresh_stale_whatsapp_health env (y # ys) s = refresh_stale_whatsapp_health env ys ?t"
    by (simp add: refresh_stale_whatsapp_health_def)
  show ?case
  proof (cases "y = wa")
    case True
    then have "wa_id wa \<notin> wa_id ` set ys" using Cons.prems(1) by auto
    then show ?thesis using refresh_other sync_connected [OF assms(4) Cons.prems(3)] assms(3) True unfolding fold by auto
  next
    case False
    then have "wa \<in> set ys" "wa_id y \<noteq> wa_id wa" using Cons.prems by (auto simp: image_iff)
    then show ?thesis using Cons.IH [of ?t u] Cons.prems(1,3) sync_other unfolding fold by auto
  qed
qed simp

text \<open>C37. A disconnection does not last: the list of accounts refreshes the health of every account it shows, the disconnected ones included; when
  Meta still reports the number as connected, ten minutes after the last sync a look of an owner at the list makes the account active again, and
  messages are sent through it.\<close>

theorem listing_undoes_disconnect:
  assumes "disconnect_whatsapp_account env a i s = (Inr (wa, t), s')" "distinct (map wa_id (whatsapp_accounts s'))"
    and "wa \<in> set (list_whatsapp_accounts s' a)" "mem_role m = OWNER"
    and "is_health_stale (ce_now later) wa" "meta_reports_connected later wa"
  shows "\<exists>x. usable_whatsapp_account (snd (get_whatsapp_accounts later a m s')) a i = Inr x"
proof -
  note row = disconnected_row [OF assms(1)]
  let ?was = "list_whatsapp_accounts s' a"
  have "resolve_accessible_channel_ids s' a m = None"
    using assms(4) by (simp add: resolve_accessible_channel_ids_def get_accessible_channel_ids_def BRANCH_SCOPED_ROLES_def)
  then have look: "snd (get_whatsapp_accounts later a m s') = refresh_stale_whatsapp_health later ?was s'"
    by (simp add: get_whatsapp_accounts_def Let_def)
  have "distinct (map wa_id ?was)" using assms(2) by (simp add: list_whatsapp_accounts_def distinct_map_filter)
  moreover have "get_whatsapp_account s' (wa_id wa) = Some wa" using row by simp
  ultimately obtain x where "get_whatsapp_account (snd (get_whatsapp_accounts later a m s')) (wa_id wa) = Some x" "wa_status x = WaActive"
    "wa_account_id x = wa_account_id wa"
    using refresh_connected [OF _ assms(3,5,6)] unfolding look by blast
  then show ?thesis using row by (simp add: usable_whatsapp_account_def)
qed

section \<open>Archiving and limits\<close>

text \<open>C38. An archived channel keeps its number: after a channel is archived, its number can not be connected by hand (with a token) to any other channel,
  of whatever account; the request fails and changes nothing.\<close>

theorem archived_number_stays_taken:
  assumes "archive_channel env a i m s = (Inr r, s')" "numbers_ok s" "wa \<in> set (whatsapp_accounts s)" "wa_channel_id wa = i"
    and "get_channel s' (ac_channel_id p) = Some c" "ch_id c \<noteq> i" "ch_account_id c = b" "ch_type c = WHATSAPP"
    and "ac_phone_number_id p = wa_phone_number_id wa"
  shows "create_whatsapp_account env2 b p s' = (Inl (ValueError ''PHONE_NUMBER_ALREADY_CONNECTED''), s')"
proof -
  have same: "account_keys s' = account_keys s" and ok: "numbers_ok s'"
    using archive_keys [OF assms(1,2)] numbers_ok_same assms(2) by (auto simp: same_keys_def)
  have "account_key wa \<in> set (account_keys s')" using assms(3) same by (simp add: account_keys_def)
  then obtain u where u: "u \<in> set (whatsapp_accounts s')" "account_key u = account_key wa" by (auto simp: account_keys_def)
  then have phone: "wa_phone_number_id u = ac_phone_number_id p" "wa_channel_id u = i" using assms(4,9) by (simp_all add: account_key_def wa_place_def)
  have d: "distinct (map wa_phone_number_id (whatsapp_accounts s'))" using ok
    by (simp add: numbers_ok_def keys_ok_def account_keys_def account_key_def comp_def)
  have found: "find (\<lambda>x. wa_phone_number_id x = ac_phone_number_id p) (whatsapp_accounts s') = Some u"
  proof (cases "find (\<lambda>x. wa_phone_number_id x = ac_phone_number_id p) (whatsapp_accounts s')")
    case None
    then show ?thesis using u(1) phone by (auto simp: find_None_iff)
  next
    case (Some y)
    then show ?thesis using row_by_id [OF d u(1)] phone find_mem [OF Some] by metis
  qed
  have "wa_id u \<noteq> wa_id y" if "channel_whatsapp_account s' (ch_id c) = Some y" for y
  proof
    assume same: "wa_id u = wa_id y"
    have "y \<in> set (whatsapp_accounts s')" "wa_channel_id y = ch_id c" using find_mem [OF that [unfolded channel_whatsapp_account_def]] by simp_all
    then have "y = u" using row_by_id [OF ids_distinct(1) [OF ok] u(1), of y] same by simp
    then show False using \<open>wa_channel_id y = ch_id c\<close> phone(2) assms(6) by simp
  qed
  then have "map_option wa_id (channel_whatsapp_account s' (ch_id c)) \<noteq> Some (wa_id u)"
    by (cases "channel_whatsapp_account s' (ch_id c)") simp_all
  then have "assert_phone_number_available s' (wa_phone_number_id wa) (map_option wa_id (channel_whatsapp_account s' (ch_id c))) =
      Inl (ValueError ''PHONE_NUMBER_ALREADY_CONNECTED'')"
    using found unfolding assert_phone_number_available_def assms(9) by simp
  then have "connectable_channel s' b (ac_channel_id p) (ac_phone_number_id p) = Inl (ValueError ''PHONE_NUMBER_ALREADY_CONNECTED'')"
    unfolding connectable_channel_def assms(9) using assms(5,7,8) by (simp add: Let_def)
  then show ?thesis unfolding create_whatsapp_account_def by simp
qed

text \<open>Channels stay within the plan: a channel is only created for a live subscription, and afterwards the account has no more live channels than its
  plan allows, and the branch no more than its own limit, where these limits are set.\<close>

theorem new_channel_within_plan:
  assumes "create_channel now i a p s = (Inr c, s')"
  shows "\<exists>sub plan o'. get_active_subscription now s a = Some (sub, plan) \<and> get_organization s (ch_organization_id c) = Some o' \<and>
    org_account_id o' = a \<and> (is_unlimited (pl_max_channels plan) \<or> count_account_channels s' a \<le> pl_max_channels plan) \<and>
    (is_unlimited (org_max_channels o') \<or> count_organization_channels s' (org_id o') \<le> org_max_channels o')"
  using assms organization_rows.get_key [of s "hc_organization_id p"]
  by (auto simp: create_channel_def new_channel_def Let_def count_account_channels_def count_organization_channels_def tbl_count_def
      limit_reached_def split: option.splits if_splits prod.splits)

section \<open>Instances\<close>

definition demo_connect_env :: connect_env where
  "demo_connect_env = \<lparr>ce_now = 1000000000, ce_id = 50, ce_encrypt = id, ce_decrypt = id,
     ce_phone_health = (\<lambda>_ _. Inr (JObj [(''status'', JStr ''CONNECTED''), (''messaging_limit_tier'', JStr ''TIER_1K'')])),
     ce_waba_health = (\<lambda>_ _. Inl \<lparr>me_message = ''no'', me_status_code = None, me_response_data = None\<rparr>), ce_exchange = Inr,
     ce_unsubscribe = (\<lambda>_ _. Inr (JObj []))\<rparr>"

definition number_off :: db where
  "number_off = snd (disconnect_whatsapp_account demo_connect_env 1 4 inbox_example)"

definition demo_value :: json where
  "demo_value = JObj [(''metadata'', JObj [(''phone_number_id'', JStr ''pn'')])]"

lemma demo_disconnected: "disconnect_whatsapp_account demo_connect_env 1 4 inbox_example =
    (Inr ((demo_wa 4 1 3)\<lparr>wa_status := WaDisconnected\<rparr>, Unsubscribed True), number_off)"
proof -
  have "fst (disconnect_whatsapp_account demo_connect_env 1 4 inbox_example) = Inr ((demo_wa 4 1 3)\<lparr>wa_status := WaDisconnected\<rparr>, Unsubscribed True)"
    by code_simp
  then show ?thesis unfolding number_off_def by (metis prod.collapse)
qed

lemma demo_numbers_ok: "numbers_ok inbox_example"
  by (simp add: numbers_ok_def keys_ok_def account_keys_def channel_keys_def inbox_example_def empty_db_def account_key_def wa_place_def demo_wa_def demo_channel_def)

lemma number_has_one_owner_witness:
  "\<exists>wa ctx t m. account_of_value number_off demo_value = Some wa \<and>
     store_inbound demo_webhook_env 0 wa (text_item ''wamid.5'' ''96550000001'') demo_value number_off = Inr (ctx, t) \<and> inbox_typed t \<and>
     messages t = messages number_off @ [m] \<and> msg_channel_id m = 3 \<and> msg_account_id m = 1 \<and> msg_organization_id m = 2"
proof -
  let ?wa = "(demo_wa 4 1 3)\<lparr>wa_status := WaDisconnected\<rparr>"
  let ?run = "store_inbound demo_webhook_env 0 ?wa (text_item ''wamid.5'' ''96550000001'') demo_value number_off"
  have step: "inbox_step inbox_example number_off \<or> connection_step inbox_example number_off"
    using number_disconnected [OF demo_disconnected] by simp
  have found: "account_of_value number_off demo_value = Some ?wa" by code_simp
  have fresh: "new_ids (wh_ids demo_webhook_env 0) number_off" by code_simp
  have mem: "?wa \<in> set (whatsapp_accounts number_off)" by code_simp
  have "returns ?run" by code_simp
  then obtain ctx t where run: "?run = Inr (ctx, t)" by (cases ?run) (auto simp: returns_def)
  have place: "wa_channel_id ?wa = 3" "wa_account_id ?wa = 1" "wa_organization_id ?wa = 2" by code_simp+
  show ?thesis
    using number_has_one_owner [OF r_into_rtranclp, OF step demo_inbox_typed demo_numbers_ok found fresh run mem refl] found run
    unfolding place by blast
qed

lemma disconnected_number_is_silent_witness:
  "send_text_message demo_send_env 1 4 ''96550000002'' ''hi'' False False None number_off = refused (ValueError ''WHATSAPP_ACCOUNT_NOT_AVAILABLE'') number_off"
  using disconnected_number_is_silent [OF demo_disconnected] by simp

lemma listing_undoes_disconnect_witness:
  "\<exists>x. usable_whatsapp_account (snd (get_whatsapp_accounts demo_connect_env 1 (demo_membership OWNER None)
     (snd (disconnect_whatsapp_account demo_connect_env 1 4 (inbox_example\<lparr>organizations := [demo_org 2 1]\<rparr>))))) 1 4 = Inr x"
proof -
  let ?s = "inbox_example\<lparr>organizations := [demo_org 2 1]\<rparr>"
  let ?wa = "(demo_wa 4 1 3)\<lparr>wa_status := WaDisconnected\<rparr>"
  let ?t = "snd (disconnect_whatsapp_account demo_connect_env 1 4 ?s)"
  have "fst (disconnect_whatsapp_account demo_connect_env 1 4 ?s) = Inr (?wa, Unsubscribed True)" by code_simp
  then have run: "disconnect_whatsapp_account demo_connect_env 1 4 ?s = (Inr (?wa, Unsubscribed True), ?t)" by (metis prod.collapse)
  have shown: "?wa \<in> set (list_whatsapp_accounts ?t 1)" by code_simp
  have ids: "distinct (map wa_id (whatsapp_accounts ?t))" by code_simp
  have "is_health_stale (ce_now demo_connect_env) ?wa" "meta_reports_connected demo_connect_env ?wa" by code_simp+
  then show ?thesis using listing_undoes_disconnect [OF run ids shown] by (simp add: demo_membership_def)
qed

definition two_channels :: db where
  "two_channels = inbox_example\<lparr>channels := [demo_channel 3 None, (demo_channel 5 None)\<lparr>ch_account_id := 9\<rparr>]\<rparr>"

definition taken_number :: account_create where
  "taken_number = \<lparr>ac_channel_id = 5, ac_waba_id = ''w9'', ac_phone_number_id = ''pn'', ac_display_phone_number = ''96550000000'',
     ac_verified_name = None, ac_access_token = ''t''\<rparr>"

lemma archived_number_stays_taken_witness:
  "fst (create_whatsapp_account demo_connect_env 9 taken_number (snd (archive_channel demo_connect_env 1 3 (Some (demo_membership OWNER None)) two_channels))) =
     Inl (ValueError ''PHONE_NUMBER_ALREADY_CONNECTED'')"
proof -
  let ?a = "archive_channel demo_connect_env 1 3 (Some (demo_membership OWNER None)) two_channels"
  have "returns (fst ?a)" by code_simp
  then obtain r where run: "?a = (Inr r, snd ?a)" by (cases ?a; cases "fst ?a") (auto simp: returns_def)
  have ok: "numbers_ok two_channels"
    by (simp add: numbers_ok_def keys_ok_def account_keys_def channel_keys_def two_channels_def inbox_example_def empty_db_def account_key_def
        wa_place_def demo_wa_def demo_channel_def)
  have mem: "demo_wa 4 1 3 \<in> set (whatsapp_accounts two_channels)" "wa_channel_id (demo_wa 4 1 3) = 3"
    by (simp_all add: two_channels_def inbox_example_def demo_wa_def)
  have ch: "get_channel (snd ?a) (ac_channel_id taken_number) = Some ((demo_channel 5 None)\<lparr>ch_account_id := 9\<rparr>)" by code_simp
  show ?thesis
    using archived_number_stays_taken [OF run ok mem ch, of 9] by (simp add: demo_channel_def taken_number_def demo_wa_def)
qed

definition limited_plan :: db where
  "limited_plan = inbox_example\<lparr>organizations := [demo_org 2 1], plans := [(demo_plan 5)\<lparr>pl_max_channels := 2\<rparr>], subscriptions := [demo_subscription]\<rparr>"

definition second_channel :: channel_create where
  "second_channel = \<lparr>hc_organization_id = 2, hc_type = WHATSAPP, hc_name = ''second'', hc_external_id = None\<rparr>"

lemma new_channel_within_plan_witness:
  "count_account_channels (snd (create_channel 5 8 1 second_channel limited_plan)) 1 \<le> 2"
proof -
  let ?r = "create_channel 5 8 1 second_channel limited_plan"
  have "returns (fst ?r)" by code_simp
  then obtain c where run: "?r = (Inr c, snd ?r)" by (cases ?r; cases "fst ?r") (auto simp: returns_def)
  moreover have "get_active_subscription 5 limited_plan 1 = Some (demo_subscription, (demo_plan 5)\<lparr>pl_max_channels := 2\<rparr>)" by code_simp
  ultimately show ?thesis using new_channel_within_plan [OF run] by (auto simp: is_unlimited_def)
qed

end
