(* ===== verification/Deals.thy ===== *)
theory Deals
  imports Access Inbound
begin

text \<open>
  The CRM: \<open>services/crm.py\<close> and the routes under \<open>/crm\<close> in \<open>api/routes/platform.py\<close>.  Amounts are in hundredths.  The texts of the
  activities that the service writes are functions of the stages, and the key words in Arabic, which do not occur in the texts of this
  model, are an argument; both are in \<open>deal_env\<close>.  The sums of amounts in the statistics, which the code computes with floats, and the
  exports are left out.  The rows of \<open>deal_activities\<close> are in the order of their creation.
\<close>

section \<open>Rows and responses\<close>

definition DEAL_STAGES :: "string list" where
  "DEAL_STAGES = [''lead'', ''qualified'', ''proposal'', ''won'', ''lost'']"

record deal_env =
  de_now :: datetime
  de_deal_id :: uuid
  de_activity_id :: uuid
  de_created :: "string \<Rightarrow> string"
  de_moved :: "string \<Rightarrow> string \<Rightarrow> string"
  de_purchase :: "string list"
  de_cancellation :: "string list"
  de_question :: "string list"
  de_signals :: "string list"
  de_untitled :: string
  de_titled :: "string \<Rightarrow> string"

record deal_view =
  dv_deal :: deal
  dv_contact_name :: "string option"
  dv_contact_phone :: "string option"
  dv_organization_name :: "string option"

definition deal_to_dict :: "deal \<Rightarrow> string option \<Rightarrow> string option \<Rightarrow> deal_view" where
  "deal_to_dict d contact_name contact_phone =
     \<lparr>dv_deal = d\<lparr>deal_currency := (if deal_currency d = [] then ''KWD'' else deal_currency d)\<rparr>,
      dv_contact_name = contact_name, dv_contact_phone = contact_phone, dv_organization_name = None\<rparr>"

text \<open>What the table accepts: lengths and the range of amounts, then foreign keys.\<close>

definition data_error :: py_error where
  "data_error = OtherError ''DataError''"

definition deal_fits :: "deal \<Rightarrow> bool" where
  "deal_fits d \<longleftrightarrow> length (deal_title d) \<le> 200 \<and> length (deal_stage d) \<le> 40 \<and> \<bar>deal_amount d\<bar> < 10 ^ 14 \<and> length (deal_currency d) \<le> 8 \<and>
     length (deal_pipeline d) \<le> 80 \<and> (case deal_source d of None \<Rightarrow> True | Some t \<Rightarrow> length t \<le> 40)"

definition known :: "(uuid \<Rightarrow> 'a option) \<Rightarrow> uuid option \<Rightarrow> bool" where
  "known get i \<longleftrightarrow> (case i of None \<Rightarrow> True | Some x \<Rightarrow> get x \<noteq> None)"

definition deal_references :: "db \<Rightarrow> deal \<Rightarrow> bool" where
  "deal_references s d \<longleftrightarrow> known (get_contact_row s) (deal_contact_id d) \<and> known (get_organization s) (deal_organization_id d) \<and>
     known (get_membership s) (deal_assigned_membership_id d)"

definition store_deal :: "deal \<Rightarrow> db \<Rightarrow> db outcome" where
  "store_deal d s =
     (if \<not> deal_fits d then Inl data_error
      else if \<not> deal_references s d then Inl integrity_error
      else if get_deal_row s (deal_id d) = None then Inr (s\<lparr>deals := deals s @ [d]\<rparr>) else Inr (put_deal d s))"

definition add_deal_activity :: "uuid \<Rightarrow> uuid \<Rightarrow> string \<Rightarrow> string \<Rightarrow> uuid option \<Rightarrow> db \<Rightarrow> deal_activity outcome \<times> db" where
  "add_deal_activity i deal activity_type body user_id s =
     (let item = \<lparr>da_id = i, da_deal_id = deal, da_activity_type = activity_type, da_body = body, da_created_by_user_id = user_id\<rparr> in
      if length activity_type > 40 then (Inl data_error, s)
      else if get_deal_row s deal = None \<or> \<not> known (get_user s) user_id then (Inl integrity_error, s)
      else (Inr item, s\<lparr>deal_activities := deal_activities s @ [item]\<rparr>))"

text \<open>The join with the users, newest first.  The account of the deal is no condition.\<close>

definition list_deal_activities :: "db \<Rightarrow> uuid \<Rightarrow> (deal_activity \<times> string option) list" where
  "list_deal_activities s deal =
     map (\<lambda>a. (a, map_option usr_full_name (Option.bind (da_created_by_user_id a) (get_user s))))
       (rev (filter (\<lambda>a. da_deal_id a = deal) (deal_activities s)))"

section \<open>Creation\<close>

record deal_create =
  dc_title :: string
  dc_contact_id :: "uuid option"
  dc_stage :: string
  dc_amount :: int
  dc_pipeline :: string
  dc_currency :: string
  dc_description :: "string option"
  dc_organization_id :: "uuid option"
  dc_assigned_membership_id :: "uuid option"
  dc_probability :: int
  dc_source :: "string option"
  dc_expected_close_date :: "datetime option"

definition plain_deal :: "string \<Rightarrow> deal_create" where
  "plain_deal title = \<lparr>dc_title = title, dc_contact_id = None, dc_stage = ''lead'', dc_amount = 0, dc_pipeline = ''default'', dc_currency = ''KWD'',
     dc_description = None, dc_organization_id = None, dc_assigned_membership_id = None, dc_probability = 0, dc_source = Some ''manual'',
     dc_expected_close_date = None\<rparr>"

definition new_deal :: "deal_env \<Rightarrow> uuid \<Rightarrow> deal_create \<Rightarrow> deal" where
  "new_deal env account_id p =
     \<lparr>deal_id = de_deal_id env, deal_account_id = account_id, deal_contact_id = dc_contact_id p, deal_organization_id = dc_organization_id p,
      deal_assigned_membership_id = dc_assigned_membership_id p, deal_title = dc_title p, deal_stage = dc_stage p, deal_amount = dc_amount p,
      deal_currency = dc_currency p, deal_pipeline = dc_pipeline p, deal_description = dc_description p, deal_probability = dc_probability p,
      deal_source = dc_source p, deal_expected_close_date = dc_expected_close_date p, deal_updated_at = de_now env,
      deal_created_at = de_now env\<rparr>"

definition deal_scope :: "db \<Rightarrow> uuid \<Rightarrow> membership option \<Rightarrow> uuid option \<Rightarrow> string \<Rightarrow> unit outcome" where
  "deal_scope s account_id m organization_id missing =
     (case m of
        None \<Rightarrow> Inr ()
      | Some x \<Rightarrow> (case organization_id of
          None \<Rightarrow> Inl (ValueError missing) | Some o' \<Rightarrow> ensure_membership_organization_access s account_id x o'))"

definition create_deal :: "deal_env \<Rightarrow> uuid \<Rightarrow> membership option \<Rightarrow> deal_create \<Rightarrow> db \<Rightarrow> deal outcome \<times> db" where
  "create_deal env account_id m p s =
     (case deal_scope s account_id m (dc_organization_id p) ''ORGANIZATION_REQUIRED'' of
        Inl e \<Rightarrow> (Inl e, s)
      | Inr _ \<Rightarrow>
          (let d = new_deal env account_id p in
           case store_deal d s of
             Inl e \<Rightarrow> (Inl e, s)
           | Inr s1 \<Rightarrow>
               (case add_deal_activity (de_activity_id env) (deal_id d) ''created'' (de_created env (dc_stage p)) None s1 of
                  (Inl e, s2) \<Rightarrow> (Inl e, s2) | (Inr _, s2) \<Rightarrow> (Inr d, s2))))"

section \<open>Reading\<close>

record deal_query =
  dq_q :: "string option"
  dq_stage :: "string option"
  dq_pipeline :: "string option"
  dq_contact_id :: "uuid option"
  dq_organization_id :: "uuid option"
  dq_assigned_membership_id :: "uuid option"
  dq_limit :: nat

definition given :: "'a option \<Rightarrow> ('a \<Rightarrow> bool) \<Rightarrow> bool" where
  "given v p \<longleftrightarrow> (case v of None \<Rightarrow> True | Some x \<Rightarrow> p x)"

definition deal_contact :: "db \<Rightarrow> deal \<Rightarrow> contact option" where
  "deal_contact s d = Option.bind (deal_contact_id d) (get_contact_row s)"

definition deal_matches :: "(string \<Rightarrow> string \<Rightarrow> bool) \<Rightarrow> db \<Rightarrow> deal_query \<Rightarrow> deal \<Rightarrow> bool" where
  "deal_matches ilike s q d \<longleftrightarrow>
     (nonempty (dq_stage q) \<longrightarrow> dq_stage q = Some (deal_stage d)) \<and> (nonempty (dq_pipeline q) \<longrightarrow> dq_pipeline q = Some (deal_pipeline d)) \<and>
     given (dq_contact_id q) (\<lambda>i. deal_contact_id d = Some i) \<and> given (dq_organization_id q) (\<lambda>i. deal_organization_id d = Some i) \<and>
     given (dq_assigned_membership_id q) (\<lambda>i. deal_assigned_membership_id d = Some i) \<and>
     (nonempty (dq_q q) \<longrightarrow>
       (let term = ''%'' @ py_strip (the (dq_q q)) @ ''%'' in
        ilike (deal_title d) term \<or>
        (case deal_contact s d of None \<Rightarrow> False
         | Some k \<Rightarrow> (case con_display_name k of None \<Rightarrow> False | Some t \<Rightarrow> ilike t term) \<or> ilike (con_external_address k) term)))"

definition view_deal :: "db \<Rightarrow> deal \<Rightarrow> deal_view" where
  "view_deal s d = deal_to_dict d (Option.bind (deal_contact s d) con_display_name) (map_option con_external_address (deal_contact s d))"

definition list_deals :: "(string \<Rightarrow> string \<Rightarrow> bool) \<Rightarrow> db \<Rightarrow> uuid \<Rightarrow> membership option \<Rightarrow> deal_query \<Rightarrow> deal_view list" where
  "list_deals ilike s account_id m q =
     map (view_deal s) (take (dq_limit q) (sort_key (\<lambda>d. - deal_updated_at d)
       (filter (\<lambda>d. deal_account_id d = account_id \<and> given m (\<lambda>x. organization_scope_clauses s account_id x (deal_organization_id d)) \<and>
          deal_matches ilike s q d) (deals s))))"

definition get_deal :: "db \<Rightarrow> uuid \<Rightarrow> uuid \<Rightarrow> membership option \<Rightarrow> deal_view outcome" where
  "get_deal s account_id i m =
     (case get_deal_row s i of
        None \<Rightarrow> Inl (ValueError ''DEAL_NOT_FOUND'')
      | Some d \<Rightarrow>
          if deal_account_id d \<noteq> account_id then Inl (ValueError ''DEAL_NOT_FOUND'')
          else (case deal_scope s account_id m (deal_organization_id d) ''ACCESS_FORBIDDEN'' of
              Inl e \<Rightarrow> Inl e
            | Inr _ \<Rightarrow> Inr ((view_deal s d)\<lparr>dv_organization_name :=
                map_option org_name (Option.bind (deal_organization_id d) (get_organization s))\<rparr>)))"

section \<open>Changes\<close>

text \<open>The fields of a request that are set; a field set to null is \<open>Some None\<close>.\<close>

record deal_update =
  du_title :: "string option option"
  du_contact_id :: "uuid option option"
  du_stage :: "string option option"
  du_amount :: "int option option"
  du_pipeline :: "string option option"
  du_currency :: "string option option"
  du_description :: "string option option"
  du_organization_id :: "uuid option option"
  du_assigned_membership_id :: "uuid option option"
  du_probability :: "int option option"
  du_expected_close_date :: "datetime option option"

definition no_deal_update :: deal_update where
  "no_deal_update = \<lparr>du_title = None, du_contact_id = None, du_stage = None, du_amount = None, du_pipeline = None, du_currency = None,
     du_description = None, du_organization_id = None, du_assigned_membership_id = None, du_probability = None, du_expected_close_date = None\<rparr>"

definition new_value :: "'a option \<Rightarrow> 'a \<Rightarrow> 'a" where
  "new_value v old = (case v of None \<Rightarrow> old | Some x \<Rightarrow> x)"

definition required_value :: "'a option option \<Rightarrow> 'a \<Rightarrow> 'a" where
  "required_value v old = (case v of Some (Some x) \<Rightarrow> x | _ \<Rightarrow> old)"

definition sets_null :: "deal_update \<Rightarrow> bool" where
  "sets_null f \<longleftrightarrow> du_title f = Some None \<or> du_stage f = Some None \<or> du_amount f = Some None \<or> du_pipeline f = Some None \<or>
     du_currency f = Some None \<or> du_probability f = Some None"

definition apply_deal_fields :: "deal_update \<Rightarrow> deal \<Rightarrow> deal" where
  "apply_deal_fields f d =
     d\<lparr>deal_title := required_value (du_title f) (deal_title d), deal_contact_id := new_value (du_contact_id f) (deal_contact_id d),
       deal_stage := required_value (du_stage f) (deal_stage d), deal_amount := required_value (du_amount f) (deal_amount d),
       deal_pipeline := required_value (du_pipeline f) (deal_pipeline d), deal_currency := required_value (du_currency f) (deal_currency d),
       deal_description := new_value (du_description f) (deal_description d),
       deal_organization_id := new_value (du_organization_id f) (deal_organization_id d),
       deal_assigned_membership_id := new_value (du_assigned_membership_id f) (deal_assigned_membership_id d),
       deal_probability := required_value (du_probability f) (deal_probability d),
       deal_expected_close_date := new_value (du_expected_close_date f) (deal_expected_close_date d)\<rparr>"

definition own_deal :: "db \<Rightarrow> uuid \<Rightarrow> uuid \<Rightarrow> membership option \<Rightarrow> deal outcome" where
  "own_deal s account_id i m =
     (case get_deal_row s i of
        None \<Rightarrow> Inl (ValueError ''DEAL_NOT_FOUND'')
      | Some d \<Rightarrow>
          if deal_account_id d \<noteq> account_id then Inl (ValueError ''DEAL_NOT_FOUND'')
          else map_sum id (\<lambda>_. d) (deal_scope s account_id m (deal_organization_id d) ''ACCESS_FORBIDDEN''))"

text \<open>The flag of the result tells that the event \<open>deal.won\<close> is dispatched.\<close>

definition update_deal :: "deal_env \<Rightarrow> uuid \<Rightarrow> uuid \<Rightarrow> membership option \<Rightarrow> deal_update \<Rightarrow> db \<Rightarrow> (deal \<times> bool) outcome \<times> db" where
  "update_deal env account_id i m f s =
     (case own_deal s account_id i m of
        Inl e \<Rightarrow> (Inl e, s)
      | Inr old \<Rightarrow>
          (let changed = apply_deal_fields f old;
               d = (if changed = old then old else changed\<lparr>deal_updated_at := de_now env\<rparr>) in
           if sets_null f then (Inl (if deal_fits d then integrity_error else data_error), s)
           else (case (if changed = old then Inr s else store_deal d s) of
               Inl e \<Rightarrow> (Inl e, s)
             | Inr s1 \<Rightarrow>
                 if deal_stage d = deal_stage old then (Inr (d, False), s1)
                 else (case add_deal_activity (de_activity_id env) i ''stage_change'' (de_moved env (deal_stage old) (deal_stage d)) None s1 of
                     (Inl e, s2) \<Rightarrow> (Inl e, s2) | (Inr _, s2) \<Rightarrow> (Inr (d, deal_stage d = ''won''), s2)))))"

definition update_deal_stage :: "deal_env \<Rightarrow> uuid \<Rightarrow> uuid \<Rightarrow> string \<Rightarrow> db \<Rightarrow> (deal \<times> bool) outcome \<times> db" where
  "update_deal_stage env account_id i stage s = update_deal env account_id i None (no_deal_update\<lparr>du_stage := Some (Some stage)\<rparr>) s"

text \<open>Every deal is committed on its own; an error that is no \<open>ValueError\<close> ends the loop.\<close>

fun bulk_update_stage :: "(nat \<Rightarrow> deal_env) \<Rightarrow> uuid \<Rightarrow> uuid list \<Rightarrow> string \<Rightarrow> db \<Rightarrow> nat outcome \<times> db" where
  "bulk_update_stage envs account_id [] stage s = (Inr 0, s)"
| "bulk_update_stage envs account_id (i # rest) stage s =
     (case update_deal_stage (envs (length rest)) account_id i stage s of
        (Inr _, s1) \<Rightarrow> (case bulk_update_stage envs account_id rest stage s1 of (r, s2) \<Rightarrow> (map_sum id Suc r, s2))
      | (Inl (ValueError _), s1) \<Rightarrow> bulk_update_stage envs account_id rest stage s1
      | (Inl e, s1) \<Rightarrow> (Inl e, s1))"

text \<open>The activities of a deal go with it.\<close>

text \<open>The foreign keys on the deal: its activities go with it, orders forget it.\<close>

definition delete_deal :: "uuid \<Rightarrow> uuid \<Rightarrow> membership option \<Rightarrow> db \<Rightarrow> unit outcome \<times> db" where
  "delete_deal account_id i m s =
     (case own_deal s account_id i m of
        Inl e \<Rightarrow> (Inl e, s)
      | Inr _ \<Rightarrow> (Inr (), s\<lparr>deals := filter (\<lambda>d. deal_id d \<noteq> i) (deals s),
          deal_activities := filter (\<lambda>a. da_deal_id a \<noteq> i) (deal_activities s),
          catalog_orders := tbl_update (\<lambda>x. co_deal_id x = Some i) (co_deal_id_update (\<lambda>_. None)) (catalog_orders s)\<rparr>))"

section \<open>Statistics\<close>

record crm_counts =
  cs_total :: nat
  cs_open :: nat
  cs_won_month :: nat
  cs_by_stage :: "(string \<times> nat) list"

definition is_open_deal :: "deal \<Rightarrow> bool" where
  "is_open_deal d \<longleftrightarrow> deal_stage d \<noteq> ''won'' \<and> deal_stage d \<noteq> ''lost''"

definition crm_stats :: "datetime \<Rightarrow> db \<Rightarrow> uuid \<Rightarrow> membership option \<Rightarrow> crm_counts" where
  "crm_stats now s account_id m =
     (let ds = filter (\<lambda>d. deal_account_id d = account_id \<and> given m (\<lambda>x. organization_scope_clauses s account_id x (deal_organization_id d))) (deals s)
      in \<lparr>cs_total = length ds, cs_open = length (filter is_open_deal ds),
          cs_won_month = length (filter (\<lambda>d. deal_stage d = ''won'' \<and> deal_updated_at d \<ge> now - days 30) ds),
          cs_by_stage = map (\<lambda>stage. (stage, length (filter (\<lambda>d. deal_stage d = stage) ds))) DEAL_STAGES\<rparr>)"

section \<open>Deals from messages\<close>

definition mentions :: "string list \<Rightarrow> string \<Rightarrow> bool" where
  "mentions ws t \<longleftrightarrow> (\<exists>w \<in> set ws. contains t w)"

definition detect_intent :: "deal_env \<Rightarrow> string \<Rightarrow> string" where
  "detect_intent env t =
     (let lower = py_lower t in
      if mentions ([''buy'', ''order''] @ de_purchase env) lower then ''purchase''
      else if mentions ([''cancel'', ''refund''] @ de_cancellation env) lower then ''cancellation''
      else if mentions ([''?'', ''how'', ''what''] @ de_question env) lower then ''question''
      else ''general'')"

definition wants_to_buy :: "deal_env \<Rightarrow> string \<Rightarrow> bool" where
  "wants_to_buy env t \<longleftrightarrow>
     (detect_intent env t = ''question'' \<and> mentions ([''order'', ''buy'', ''price''] @ de_signals env) (py_lower t)) \<or> detect_intent env t = ''purchase''"

definition has_open_deal :: "db \<Rightarrow> uuid \<Rightarrow> uuid \<Rightarrow> bool" where
  "has_open_deal s account_id contact_id \<longleftrightarrow>
     (\<exists>d \<in> set (deals s). deal_account_id d = account_id \<and> deal_contact_id d = Some contact_id \<and> is_open_deal d)"

definition inbound_deal :: "deal_env \<Rightarrow> uuid \<Rightarrow> uuid option \<Rightarrow> string \<Rightarrow> deal_create" where
  "inbound_deal env contact_id organization_id text_body =
     (let stripped = take 120 (py_strip text_body);
          title = map (\<lambda>c. if c = CHR 0x0A then CHR '' '' else c) (if stripped = [] then de_untitled env else stripped)
      in (plain_deal title)\<lparr>dc_contact_id := Some contact_id, dc_organization_id := organization_id,
           dc_probability := (if detect_intent env text_body = ''purchase'' then 35 else 20), dc_source := Some ''inbound'',
           dc_description := Some (take 500 text_body)\<rparr>)"

definition maybe_auto_create_deal_from_inbound :: "deal_env \<Rightarrow> uuid \<Rightarrow> uuid \<Rightarrow> uuid option \<Rightarrow> string \<Rightarrow> db \<Rightarrow> deal option outcome \<times> db" where
  "maybe_auto_create_deal_from_inbound env account_id contact_id organization_id text_body s =
     (if \<not> wants_to_buy env text_body then (Inr None, s)
      else if has_open_deal s account_id contact_id then (Inr None, s)
      else (case create_deal env account_id None (inbound_deal env contact_id organization_id text_body) s of
          (r, s') \<Rightarrow> (map_sum id Some r, s')))"

text \<open>The newest message of the conversation with a text, whatever its direction.\<close>

definition last_text :: "db \<Rightarrow> uuid \<Rightarrow> string option" where
  "last_text s conversation_id =
     (case sort_key (\<lambda>m. - msg_created_at m) (filter (\<lambda>m. msg_conversation_id m = Some conversation_id \<and> msg_text_body m \<noteq> None) (messages s)) of
        [] \<Rightarrow> None | m # _ \<Rightarrow> msg_text_body m)"

definition create_deal_from_conversation :: "deal_env \<Rightarrow> uuid \<Rightarrow> uuid \<Rightarrow> string option \<Rightarrow> db \<Rightarrow> deal outcome \<times> db" where
  "create_deal_from_conversation env account_id conversation_id title s =
     (case get_conversation_row s conversation_id of
        None \<Rightarrow> (Inl (ValueError ''CONVERSATION_NOT_FOUND''), s)
      | Some c \<Rightarrow>
          if conv_account_id c \<noteq> account_id then (Inl (ValueError ''CONVERSATION_NOT_FOUND''), s)
          else (case get_contact_row s (conv_contact_id c) of
              None \<Rightarrow> (Inl (ValueError ''CONTACT_NOT_FOUND''), s)
            | Some k \<Rightarrow>
                (let found = last_text s conversation_id;
                     name = (if nonempty (con_display_name k) then the (con_display_name k) else con_external_address k);
                     deal_title = (if nonempty title then the title else if nonempty found then take 120 (the found) else de_titled env name)
                 in create_deal env account_id None ((plain_deal deal_title)\<lparr>dc_contact_id := Some (con_id k),
                      dc_organization_id := Some (con_organization_id k), dc_source := Some ''conversation'',
                      dc_description := (if nonempty found then Some (take 500 (the found)) else None)\<rparr>) s)))"

section \<open>The routes\<close>

text \<open>None of them passes the membership to a service, the lists apart.\<close>

definition not_found_reply :: "'a outcome \<Rightarrow> (int \<times> string) + 'a" where
  "not_found_reply r = (case r of Inr x \<Rightarrow> Inr x | Inl (ValueError t) \<Rightarrow> Inl (404, t) | Inl (OtherError t) \<Rightarrow> Inl (500, t))"

definition get_deal_by_id :: "uuid \<Rightarrow> uuid \<Rightarrow> db \<Rightarrow> (int \<times> string) + deal_view" where
  "get_deal_by_id account_id i s = not_found_reply (get_deal s account_id i None)"

definition post_deal :: "deal_env \<Rightarrow> uuid \<Rightarrow> deal_create \<Rightarrow> db \<Rightarrow> deal_view outcome \<times> db" where
  "post_deal env account_id p s =
     (case create_deal env account_id None p s of
        (Inl e, s') \<Rightarrow> (Inl e, s') | (Inr d, s') \<Rightarrow> (get_deal s' account_id (deal_id d) None, s'))"

definition patch_deal :: "deal_env \<Rightarrow> uuid \<Rightarrow> uuid \<Rightarrow> deal_update \<Rightarrow> db \<Rightarrow> ((int \<times> string) + deal_view) \<times> db" where
  "patch_deal env account_id i f s =
     (case update_deal env account_id i None f s of
        (Inl e, s') \<Rightarrow> (not_found_reply (Inl e), s') | (Inr _, s') \<Rightarrow> (not_found_reply (get_deal s' account_id i None), s'))"

definition patch_deal_stage :: "deal_env \<Rightarrow> uuid \<Rightarrow> uuid \<Rightarrow> string \<Rightarrow> db \<Rightarrow> ((int \<times> string) + deal_view) \<times> db" where
  "patch_deal_stage env account_id i stage s =
     (case update_deal_stage env account_id i stage s of
        (Inl e, s') \<Rightarrow> (not_found_reply (Inl e), s') | (Inr _, s') \<Rightarrow> (not_found_reply (get_deal s' account_id i None), s'))"

definition remove_deal :: "uuid \<Rightarrow> uuid \<Rightarrow> db \<Rightarrow> ((int \<times> string) + unit) \<times> db" where
  "remove_deal account_id i s = (case delete_deal account_id i None s of (r, s') \<Rightarrow> (not_found_reply r, s'))"

definition get_deal_activities :: "uuid \<Rightarrow> uuid \<Rightarrow> db \<Rightarrow> (deal_activity \<times> string option) list" where
  "get_deal_activities account_id i s = list_deal_activities s i"

definition post_deal_activity :: "uuid \<Rightarrow> uuid \<Rightarrow> uuid \<Rightarrow> string \<Rightarrow> string \<Rightarrow> uuid \<Rightarrow> db \<Rightarrow> deal_activity outcome \<times> db" where
  "post_deal_activity activity_id account_id i activity_type body user_id s = add_deal_activity activity_id i activity_type body (Some user_id) s"

end
