(* ===== verification/DealFacts.thy ===== *)
theory DealFacts
  imports Deals
begin

text \<open>
  What the CRM guarantees, and what it lets through: the list of deals against the access check, what the operations write, the reach of the
  routes across branches and tenants, and the words of a message that open a deal.
\<close>

section \<open>Reading\<close>

definition all_deals :: "nat \<Rightarrow> deal_query" where
  "all_deals n = \<lparr>dq_q = None, dq_stage = None, dq_pipeline = None, dq_contact_id = None, dq_organization_id = None,
     dq_assigned_membership_id = None, dq_limit = n\<rparr>"

lemma view_id [simp]: "deal_id (dv_deal (view_deal s d)) = deal_id d"
  by (simp add: view_deal_def deal_to_dict_def)

lemma scope_returns:
  "returns (deal_scope s a (Some m) org e) \<longleftrightarrow> (\<exists>i. org = Some i \<and> ensure_membership_organization_access s a m i = Inr ())"
  by (cases org) (auto simp: deal_scope_def returns_def split: sum.splits)

lemma listed_iff:
  assumes "distinct (map deal_id (deals s))" "get_deal_row s i = Some d" "deal_account_id d = a" "length (deals s) \<le> n"
  shows "i \<in> (deal_id \<circ> dv_deal) ` set (list_deals ilike s a (Some m) (all_deals n)) \<longleftrightarrow> organization_scope_clauses s a m (deal_organization_id d)"
proof -
  have d: "d \<in> set (deals s)" "deal_id d = i" using assms(2) deal_rows.get_key tbl_get_mem by (auto simp: get_deal_row_def)
  have one: "x = d" if "x \<in> set (deals s)" "deal_id x = i" for x
    using row_by_id [OF assms(1)] d that by metis
  let ?p = "\<lambda>x. deal_account_id x = a \<and> organization_scope_clauses s a m (deal_organization_id x)"
  have "length (sort_key (\<lambda>d. - deal_updated_at d) (filter ?p (deals s))) \<le> n" using le_trans [OF length_filter_le assms(4)] by simp
  note all = take_all [OF this]
  have "deal_matches ilike s (all_deals n) x" for x by (simp add: deal_matches_def all_deals_def given_def nonempty_def)
  then have "list_deals ilike s a (Some m) (all_deals n) = map (view_deal s) (sort_key (\<lambda>d. - deal_updated_at d) (filter ?p (deals s)))"
    using all by (simp add: list_deals_def given_def all_deals_def)
  then have "(deal_id \<circ> dv_deal) ` set (list_deals ilike s a (Some m) (all_deals n)) = deal_id ` {x \<in> set (deals s). ?p x}"
    by (simp add: image_image)
  moreover have "i \<in> deal_id ` {x \<in> set (deals s). ?p x} \<longleftrightarrow> ?p d" using d one by blast
  ultimately show ?thesis using assms(3) by simp
qed

text \<open>C31. The list of deals agrees with the access check, but for one case: the list without filters, with a limit that takes all deals, shows a member
  exactly the deals that the check lets the member read, and in addition, when the member has no active branch, the deals without a branch,
  which the check refuses.\<close>

theorem deal_list_agrees_with_access:
  assumes "distinct (map org_id (organizations s))" "distinct (map deal_id (deals s))" "get_deal_row s i = Some d" "deal_account_id d = a"
    and "length (deals s) \<le> n"
  shows "i \<in> (deal_id \<circ> dv_deal) ` set (list_deals ilike s a (Some m) (all_deals n)) \<longleftrightarrow>
    returns (get_deal s a i (Some m)) \<or> (deal_organization_id d = None \<and> resolve_active_organization_ids s a m = [])"
proof -
  have "returns (get_deal s a i (Some m)) \<longleftrightarrow> returns (deal_scope s a (Some m) (deal_organization_id d) ''ACCESS_FORBIDDEN'')"
    using assms(3,4) by (auto simp: get_deal_def returns_def split: sum.splits)
  also have "\<dots> \<longleftrightarrow> (\<exists>o'. deal_organization_id d = Some o' \<and> o' \<in> set (resolve_active_organization_ids s a m))"
    by (simp add: scope_returns active_organization_iff [OF assms(1)])
  finally show ?thesis
    unfolding listed_iff [OF assms(2-5)] organization_scope_clauses_def Let_def
    by (cases "deal_organization_id d") auto
qed

section \<open>Writing\<close>

lemma store_deal_cases:
  assumes "store_deal d s = Inr s'"
  obtains (new) "get_deal_row s (deal_id d) = None" "s' = s\<lparr>deals := deals s @ [d]\<rparr>"
  | (old) x where "get_deal_row s (deal_id d) = Some x" "s' = put_deal d s"
  using assms by (cases "get_deal_row s (deal_id d)") (auto simp: store_deal_def split: if_splits)

lemma activity_writes:
  assumes "add_deal_activity i d ty body u s = (r, s')"
  shows "s' = s\<lparr>deal_activities := deal_activities s'\<rparr> \<and> (deal_activities s' = deal_activities s \<or>
    deal_activities s' = deal_activities s @ [\<lparr>da_id = i, da_deal_id = d, da_activity_type = ty, da_body = body, da_created_by_user_id = u\<rparr>])"
  using assms by (auto simp: add_deal_activity_def Let_def split: if_splits)

lemma system_activity:
  assumes "get_deal_row s d \<noteq> None" "length ty \<le> 40"
  shows "add_deal_activity i d ty body None s =
    (Inr \<lparr>da_id = i, da_deal_id = d, da_activity_type = ty, da_body = body, da_created_by_user_id = None\<rparr>,
     s\<lparr>deal_activities := deal_activities s @ [\<lparr>da_id = i, da_deal_id = d, da_activity_type = ty, da_body = body, da_created_by_user_id = None\<rparr>]\<rparr>)"
  using assms by (auto simp: add_deal_activity_def known_def Let_def)

lemma stored_deal_found: "store_deal d s = Inr s' \<Longrightarrow> get_deal_row s' (deal_id d) = Some d"
  by (erule store_deal_cases) (simp_all add: get_deal_row_def tbl_get_append tbl_get_put put_deal_def)

lemma create_deal_effect:
  assumes "create_deal env a m p s = (r, s')" "get_deal_row s (de_deal_id env) = None"
  shows "(\<exists>e. r = Inl e \<and> s' = s) \<or> (r = Inr (new_deal env a p) \<and> s' = s\<lparr>deals := deals s @ [new_deal env a p],
    deal_activities := deal_activities s @ [\<lparr>da_id = de_activity_id env, da_deal_id = de_deal_id env, da_activity_type = ''created'',
      da_body = de_created env (dc_stage p), da_created_by_user_id = None\<rparr>]\<rparr>)"
proof (cases "deal_scope s a m (dc_organization_id p) ''ORGANIZATION_REQUIRED''")
  case (Inl e)
  then show ?thesis using assms by (auto simp: create_deal_def)
next
  case (Inr u)
  have i: "deal_id (new_deal env a p) = de_deal_id env" by (simp add: new_deal_def)
  show ?thesis
  proof (cases "store_deal (new_deal env a p) s")
    case (Inl e)
    then show ?thesis using assms Inr by (auto simp: create_deal_def Let_def)
  next
    case (Inr s1)
    then have s1: "s1 = s\<lparr>deals := deals s @ [new_deal env a p]\<rparr>" using assms(2) i by (auto elim!: store_deal_cases)
    have "get_deal_row s1 (de_deal_id env) \<noteq> None" using stored_deal_found [OF Inr] i by simp
    from system_activity [OF this, of "''created''"] show ?thesis
      using assms(1) Inr \<open>deal_scope s a m _ _ = Inr u\<close> s1 i by (simp add: create_deal_def Let_def)
  qed
qed

lemma create_deal_returns:
  assumes "deal_fits (new_deal env a p)" "deal_references s (new_deal env a p)" "get_deal_row s (de_deal_id env) = None"
  obtains s' where "create_deal env a None p s = (Inr (new_deal env a p), s')" "deals s' = deals s @ [new_deal env a p]"
    "contacts s' = contacts s" "get_deal_row s' (de_deal_id env) = Some (new_deal env a p)"
proof -
  let ?d = "new_deal env a p"
  have i: "deal_id ?d = de_deal_id env" by (simp add: new_deal_def)
  have store: "store_deal ?d s = Inr (s\<lparr>deals := deals s @ [?d]\<rparr>)" using assms i by (simp add: store_deal_def)
  note found = stored_deal_found [OF store, unfolded i]
  then have "get_deal_row (s\<lparr>deals := deals s @ [?d]\<rparr>) (de_deal_id env) \<noteq> None" by simp
  note act = system_activity [OF this, of "''created''"]
  obtain s' where create: "create_deal env a None p s = (Inr ?d, s')" and s': "deals s' = deals s @ [?d]" "contacts s' = contacts s"
    using store by (simp add: create_deal_def deal_scope_def act Let_def i)
  moreover have "get_deal_row s' (de_deal_id env) = Some ?d" using found s' by (simp add: get_deal_row_def)
  ultimately show thesis by (rule that)
qed

lemma frame_deals:
  "t = s\<lparr>deals := deals t\<rparr> \<Longrightarrow> u = t\<lparr>deal_activities := deal_activities u\<rparr> \<Longrightarrow>
   deals u = deals t \<and> u = s\<lparr>deals := deals u, deal_activities := deal_activities u\<rparr>"
  by (cases s; cases t; cases u) simp

lemma own_deal_row: "own_deal s a i m = Inr d \<Longrightarrow> get_deal_row s i = Some d \<and> deal_account_id d = a \<and> deal_id d = i"
  by (auto simp: own_deal_def map_sum_Inr deal_rows.get_key split: option.splits if_splits)

lemma update_deal_effect:
  assumes "update_deal env a i m f s = (r, s')"
  shows "(\<exists>e. r = Inl e \<and> s' = s) \<or> (\<exists>old d. r = Inr (d, deal_stage d \<noteq> deal_stage old \<and> deal_stage d = ''won'') \<and> own_deal s a i m = Inr old \<and>
    deal_id d = i \<and> deal_account_id d = a \<and> deal_source d = deal_source old \<and> s' = s\<lparr>deals := deals s', deal_activities := deal_activities s'\<rparr> \<and> (d = old \<and> deals s' = deals s \<or> deals s' = deals (put_deal d s)) \<and> deal_stage d = required_value (du_stage f) (deal_stage old) \<and>
    deal_activities s' = deal_activities s @ (if deal_stage d = deal_stage old then [] else
      [\<lparr>da_id = de_activity_id env, da_deal_id = i, da_activity_type = ''stage_change'', da_body = de_moved env (deal_stage old) (deal_stage d),
        da_created_by_user_id = None\<rparr>]))"
proof (cases "own_deal s a i m")
  case (Inl e)
  then show ?thesis using assms by (auto simp: update_deal_def)
next
  case (Inr old)
  note row = own_deal_row [OF Inr]
  let ?c = "apply_deal_fields f old"
  define d where "d = (if ?c = old then old else ?c\<lparr>deal_updated_at := de_now env\<rparr>)"
  have d: "deal_id d = i" "deal_account_id d = a" "deal_stage d = required_value (du_stage f) (deal_stage old)" "deal_source d = deal_source old"
  proof -
    have c: "deal_id ?c = i" "deal_account_id ?c = a" "deal_stage ?c = required_value (du_stage f) (deal_stage old)" "deal_source ?c = deal_source old"
      using row by (simp_all add: apply_deal_fields_def)
    then show "deal_id d = i" "deal_account_id d = a" "deal_stage d = required_value (du_stage f) (deal_stage old)" "deal_source d = deal_source old"
      unfolding d_def by (cases "?c = old"; simp)+
  qed
  define store where "store = (if ?c = old then Inr s else store_deal d s)"
  have run: "update_deal env a i m f s = (if sets_null f then (Inl (if deal_fits d then integrity_error else data_error), s)
      else (case store of Inl e \<Rightarrow> (Inl e, s) | Inr s1 \<Rightarrow> if deal_stage d = deal_stage old then (Inr (d, False), s1)
        else (case add_deal_activity (de_activity_id env) i ''stage_change'' (de_moved env (deal_stage old) (deal_stage d)) None s1 of
           (Inl e, s2) \<Rightarrow> (Inl e, s2) | (Inr _, s2) \<Rightarrow> (Inr (d, deal_stage d = ''won''), s2))))"
    by (simp only: update_deal_def Inr sum.case Let_def d_def store_def)
  show ?thesis
  proof (cases "sets_null f \<or> \<not> returns store")
    case True
    then consider "sets_null f" | e where "store = Inl e" "\<not> sets_null f" by (cases store) auto
    then have "\<exists>e. r = Inl e \<and> s' = s" using assms unfolding run by cases auto
    then show ?thesis by blast
  next
    case False
    then obtain s1 where s1: "store = Inr s1" "\<not> sets_null f" by (cases store) auto
    have deals: "d = old \<and> deals s1 = deals s \<or> deals s1 = deals (put_deal d s)" and acts: "s1 = s\<lparr>deals := deals s1\<rparr>" and found: "get_deal_row s1 i = Some d"
    proof -
      have "(d = old \<and> deals s1 = deals s \<or> deals s1 = deals (put_deal d s)) \<and> s1 = s\<lparr>deals := deals s1\<rparr> \<and> get_deal_row s1 i = Some d"
      proof (cases "?c = old")
        case True
        then have "d = old" "s1 = s" using s1(1) by (simp_all add: d_def store_def)
        then show ?thesis using row by simp
      next
        case False
        then have store: "store_deal d s = Inr s1" using s1(1) by (simp add: store_def)
        then have "s1 = put_deal d s" using row d(1) by (auto elim!: store_deal_cases)
        then show ?thesis using stored_deal_found [OF store] d(1) by (simp add: put_deal_def)
      qed
      then show "d = old \<and> deals s1 = deals s \<or> deals s1 = deals (put_deal d s)" "s1 = s\<lparr>deals := deals s1\<rparr>" "get_deal_row s1 i = Some d" by simp_all
    qed
    have "get_deal_row s1 i \<noteq> None" using found by simp
    note act = system_activity [OF this, of "''stage_change''" "de_activity_id env" "de_moved env (deal_stage old) (deal_stage d)"]
    have "r = Inr (d, deal_stage d \<noteq> deal_stage old \<and> deal_stage d = ''won'') \<and> s' = s1\<lparr>deal_activities := deal_activities s'\<rparr> \<and>
        deal_activities s' = deal_activities s @ (if deal_stage d = deal_stage old then [] else
          [\<lparr>da_id = de_activity_id env, da_deal_id = i, da_activity_type = ''stage_change'', da_body = de_moved env (deal_stage old) (deal_stage d),
            da_created_by_user_id = None\<rparr>])"
    proof (cases "deal_stage d = deal_stage old")
      case True
      then have "r = Inr (d, False)" "s' = s1" using assms s1 unfolding run by simp_all
      moreover have "deal_activities s1 = deal_activities s" by (subst acts) simp
      ultimately show ?thesis using True by simp
    next
      case False
      moreover have "deal_activities s1 = deal_activities s" by (subst acts) simp
      ultimately show ?thesis using assms s1 unfolding run by (auto simp: act)
    qed
    then have r: "r = Inr (d, deal_stage d \<noteq> deal_stage old \<and> deal_stage d = ''won'')"
      and a: "deal_activities s' = deal_activities s @ (if deal_stage d = deal_stage old then [] else
          [\<lparr>da_id = de_activity_id env, da_deal_id = i, da_activity_type = ''stage_change'', da_body = de_moved env (deal_stage old) (deal_stage d),
            da_created_by_user_id = None\<rparr>])"
      and f: "deals s' = deals s1" "s' = s\<lparr>deals := deals s', deal_activities := deal_activities s'\<rparr>"
      using frame_deals [OF acts, of s'] by blast+
    have rows: "d = old \<and> deals s' = deals s \<or> deals s' = deals (put_deal d s)" unfolding f(1) by (rule deals)
    show ?thesis by (rule disjI2, intro exI [of _ old] exI [of _ d] conjI) (fact r Inr d f(2) rows a)+
  qed
qed

lemma stage_change_succeeds:
  assumes "own_deal s a i None = Inr old" "deal_fits old" "deal_references s old" "length stage \<le> 40"
  shows "returns (fst (update_deal_stage env a i stage s))"
proof -
  note row = own_deal_row [OF assms(1)]
  let ?f = "no_deal_update\<lparr>du_stage := Some (Some stage)\<rparr>"
  have c: "apply_deal_fields ?f old = old\<lparr>deal_stage := stage\<rparr>" "\<not> sets_null ?f"
    by (simp_all add: apply_deal_fields_def no_deal_update_def required_value_def new_value_def sets_null_def)
  show ?thesis
  proof (cases "deal_stage old = stage")
    case True
    then have "old\<lparr>deal_stage := stage\<rparr> = old" by simp
    then show ?thesis using assms(1) c by (simp add: update_deal_stage_def update_deal_def Let_def)
  next
    case False
    let ?d = "old\<lparr>deal_stage := stage, deal_updated_at := de_now env\<rparr>"
    have ne: "old\<lparr>deal_stage := stage\<rparr> \<noteq> old" using False by (metis deal.simps(7) deal.surjective deal.update_convs(7))
    have "deal_fits ?d" "deal_references s ?d" using assms(2-4) by (simp_all add: deal_fits_def deal_references_def)
    then have store: "store_deal ?d s = Inr (put_deal ?d s)" using row by (simp add: store_deal_def)
    have "get_deal_row (put_deal ?d s) i \<noteq> None" using stored_deal_found [OF store] row by simp
    note act = system_activity [OF this, of "''stage_change''"]
    show ?thesis using assms(1) c ne False store by (simp add: update_deal_stage_def update_deal_def Let_def act)
  qed
qed

section \<open>The reach of the routes\<close>

text \<open>C32. A deal reveals any contact: whoever may create deals learns the number and the name of a contact of any account, by creating a deal with the id
  of the contact; the request succeeds and its answer shows them.\<close>

theorem deal_reveals_any_contact:
  assumes "get_contact_row s k = Some c" "get_deal_row s (de_deal_id env) = None" "length title \<le> 200"
  shows "\<exists>v s'. post_deal env a ((plain_deal title)\<lparr>dc_contact_id := Some k\<rparr>) s = (Inr v, s') \<and>
    dv_contact_phone v = Some (con_external_address c) \<and> dv_contact_name v = con_display_name c"
proof -
  let ?p = "(plain_deal title)\<lparr>dc_contact_id := Some k\<rparr>"
  let ?d = "new_deal env a ?p"
  have d: "deal_id ?d = de_deal_id env" "deal_account_id ?d = a" "deal_contact_id ?d = Some k" "deal_organization_id ?d = None"
    by (simp_all add: new_deal_def plain_deal_def)
  have "deal_fits ?d" "deal_references s ?d"
    using assms(1,3) by (simp_all add: deal_fits_def deal_references_def known_def new_deal_def plain_deal_def)
  then obtain s' where create: "create_deal env a None ?p s = (Inr ?d, s')" and s': "contacts s' = contacts s"
    and "get_deal_row s' (de_deal_id env) = Some ?d" by (rule create_deal_returns [OF _ _ assms(2)])
  moreover have "deal_contact s' ?d = Some c" using assms(1) s' d by (simp add: deal_contact_def get_contact_row_def)
  ultimately show ?thesis
    using d by (simp add: post_deal_def get_deal_def deal_scope_def view_deal_def deal_to_dict_def)
qed

definition deals_valid :: "db \<Rightarrow> bool" where
  "deals_valid s \<longleftrightarrow> (\<forall>d \<in> set (deals s). deal_fits d \<and> deal_references s d)"

lemma deals_valid_row: "deals_valid s \<Longrightarrow> get_deal_row s i = Some d \<Longrightarrow> deal_fits d \<and> deal_references s d"
  by (auto simp: deals_valid_def get_deal_row_def dest: tbl_get_mem)

text \<open>What a change of the stage does to the rows.\<close>

lemma stage_change_rows:
  assumes "update_deal_stage env a i stage s = (Inr r, s')"
  shows "get_deal_row s' j = (case get_deal_row s j of None \<Rightarrow> None | Some d \<Rightarrow> if j = i then Some (fst r) else Some d)" (is ?rows)
    and "deal_stage (fst r) = stage" "deal_account_id (fst r) = a" "\<exists>old. get_deal_row s i = Some old \<and> deal_account_id old = a"
proof -
  let ?f = "no_deal_update\<lparr>du_stage := Some (Some stage)\<rparr>"
  have "required_value (du_stage ?f) x = stage" for x by (simp add: required_value_def)
  then obtain old d where e: "fst r = d" "own_deal s a i None = Inr old" "deal_id d = i" "deal_account_id d = a" "deal_stage d = stage"
      "d = old \<and> deals s' = deals s \<or> deals s' = deals (put_deal d s)"
    using update_deal_effect [OF assms [unfolded update_deal_stage_def]] by auto
  note row = own_deal_row [OF e(2)]
  from e(6) show ?rows
  proof
    assume "d = old \<and> deals s' = deals s"
    then show ?rows using row e(1) by (auto simp: get_deal_row_def split: option.splits)
  next
    assume "deals s' = deals (put_deal d s)"
    then have "get_deal_row s' j = get_deal_row (put_deal d s) j" by (simp add: get_deal_row_def)
    then show ?rows using row e(1,3) by (simp add: deal_rows.get_put split: option.splits)
  qed
  show "deal_stage (fst r) = stage" "deal_account_id (fst r) = a" "\<exists>old. get_deal_row s i = Some old \<and> deal_account_id old = a"
    using e row by simp_all
qed

lemma references_frame: "deal_references (s\<lparr>deals := ds, deal_activities := as\<rparr>) d = deal_references s d"
  by (simp add: deal_references_def get_contact_row_def [abs_def] get_organization_def [abs_def] get_membership_def [abs_def])

lemma stage_change_valid:
  assumes "update_deal_stage env a i stage s = (Inr r, s')" "deals_valid s" "length stage \<le> 40"
  shows "deals_valid s'"
proof -
  let ?f = "no_deal_update\<lparr>du_stage := Some (Some stage)\<rparr>"
  obtain old d where e: "own_deal s a i None = Inr old" "s' = s\<lparr>deals := deals s', deal_activities := deal_activities s'\<rparr>"
      "d = old \<and> deals s' = deals s \<or> deals s' = deals (put_deal d s)" "fst r = d" "deal_stage d = stage"
    using update_deal_effect [OF assms(1) [unfolded update_deal_stage_def]] by (auto simp: required_value_def)
  have same: "deal_references s' x = deal_references s x" for x
    by (subst e(2)) (rule references_frame)
  have old: "deal_fits old \<and> deal_references s old" using deals_valid_row [OF assms(2)] own_deal_row [OF e(1)] by blast
  have "d = (if apply_deal_fields ?f old = old then old else (apply_deal_fields ?f old)\<lparr>deal_updated_at := de_now env\<rparr>)"
    using assms(1) e(1,4) unfolding update_deal_stage_def update_deal_def Let_def by (auto split: if_splits sum.splits prod.splits)
  then have "deal_fits d \<and> deal_references s d"
    using old assms(3) by (auto simp: apply_deal_fields_def no_deal_update_def required_value_def new_value_def deal_fits_def deal_references_def split: if_splits)
  then have "\<forall>x \<in> set (deals s'). deal_fits x \<and> deal_references s x"
    using e(3) assms(2) by (auto simp: deals_valid_def put_deal_def tbl_put_def)
  then show ?thesis by (simp add: deals_valid_def same)
qed

definition owned_deal :: "db \<Rightarrow> uuid \<Rightarrow> uuid \<Rightarrow> bool" where
  "owned_deal s a i \<longleftrightarrow> (\<exists>d. get_deal_row s i = Some d \<and> deal_account_id d = a)"

lemma owned_iff: "owned_deal s a i \<longleftrightarrow> (\<exists>d. own_deal s a i None = Inr d)"
  by (auto simp: owned_deal_def own_deal_def deal_scope_def split: option.splits)

lemma not_owned: "\<not> owned_deal s a i \<Longrightarrow> update_deal_stage env a i stage s = (Inl (ValueError ''DEAL_NOT_FOUND''), s)"
  by (auto simp: owned_deal_def update_deal_stage_def update_deal_def own_deal_def deal_scope_def split: option.splits if_splits)

text \<open>A change of the stage of many deals reaches every deal of the account, whatever branches the member may see: it returns, counts the ids of deals
  of the account, gives each of these deals the stage, and leaves all others as they were.\<close>

theorem bulk_stage_is_unscoped:
  assumes "deals_valid s" "length stage \<le> 40"
  shows "\<exists>s'. bulk_update_stage envs a ids stage s = (Inr (length (filter (owned_deal s a) ids)), s') \<and>
    (\<forall>j d. get_deal_row s j = Some d \<longrightarrow> (\<exists>d'. get_deal_row s' j = Some d' \<and> deal_account_id d' = deal_account_id d \<and>
      (if j \<in> set ids \<and> deal_account_id d = a then deal_stage d' = stage else d' = d)))"
  using assms(1)
proof (induction ids arbitrary: s)
  case (Cons i ids)
  let ?env = "envs (length ids)"
  show ?case
  proof (cases "owned_deal s a i")
    case False
    then have other: "deal_account_id d \<noteq> a" if "get_deal_row s i = Some d" for d using that by (simp add: owned_deal_def)
    obtain s' where run: "bulk_update_stage envs a ids stage s = (Inr (length (filter (owned_deal s a) ids)), s')"
      and rest: "\<forall>j d. get_deal_row s j = Some d \<longrightarrow> (\<exists>d'. get_deal_row s' j = Some d' \<and> deal_account_id d' = deal_account_id d \<and>
        (if j \<in> set ids \<and> deal_account_id d = a then deal_stage d' = stage else d' = d))"
      using Cons.IH [OF Cons.prems] by blast
    have "bulk_update_stage envs a (i # ids) stage s = (Inr (length (filter (owned_deal s a) (i # ids))), s')"
      using run False by (simp add: not_owned)
    moreover have "(j \<in> set (i # ids) \<and> deal_account_id d = a) = (j \<in> set ids \<and> deal_account_id d = a)" if "get_deal_row s j = Some d" for j d
      using that other by auto
    ultimately show ?thesis using rest by (intro exI [of _ s'] conjI allI impI) simp_all
  next
    case True
    then obtain old where old: "own_deal s a i None = Inr old" by (auto simp: owned_iff)
    note row = own_deal_row [OF old]
    have "returns (fst (update_deal_stage ?env a i stage s))"
      using stage_change_succeeds [OF old] deals_valid_row [OF Cons.prems] row assms(2) by blast
    then obtain r s1 where step: "update_deal_stage ?env a i stage s = (Inr r, s1)"
      by (cases "update_deal_stage ?env a i stage s") (auto simp: returns_def split: sum.splits)
    note rows = stage_change_rows [OF step]
    have owned: "owned_deal s1 a = owned_deal s a"
      using rows row by (auto simp: owned_deal_def fun_eq_iff split: option.splits)
    obtain s' where run: "bulk_update_stage envs a ids stage s1 = (Inr (length (filter (owned_deal s a) ids)), s')"
      and rest: "\<forall>j d. get_deal_row s1 j = Some d \<longrightarrow> (\<exists>d'. get_deal_row s' j = Some d' \<and> deal_account_id d' = deal_account_id d \<and>
        (if j \<in> set ids \<and> deal_account_id d = a then deal_stage d' = stage else d' = d))"
      using Cons.IH [OF stage_change_valid [OF step Cons.prems assms(2)]] unfolding owned by blast
    have "\<exists>d'. get_deal_row s' j = Some d' \<and> deal_account_id d' = deal_account_id d \<and>
        (if j \<in> set (i # ids) \<and> deal_account_id d = a then deal_stage d' = stage else d' = d)" if d: "get_deal_row s j = Some d" for j d
    proof (cases "j = i")
      case False
      then have "get_deal_row s1 j = Some d" using rows(1) d by simp
      from rest [rule_format, OF this] show ?thesis using False by simp
    next
      case True
      then have "get_deal_row s1 j = Some (fst r)" using rows(1) d by simp
      from rest [rule_format, OF this] show ?thesis using True rows(2,3) row d by (cases "j \<in> set ids") auto
    qed
    then show ?thesis using step run True by simp
  qed
qed simp

section \<open>Deals from messages\<close>

text \<open>The word decides: a message of a contact without an open deal that mentions an order opens a deal, whatever else it says.\<close>

theorem order_word_opens_deal:
  assumes "contains (py_lower body) ''order''" "\<not> has_open_deal s a k" "get_contact_row s k = Some c" "known (get_organization s) org"
    and "get_deal_row s (de_deal_id env) = None" "length (de_untitled env) \<le> 200"
  shows "\<exists>d s'. maybe_auto_create_deal_from_inbound env a k org body s = (Inr (Some d), s') \<and> deal_contact_id d = Some k \<and>
    deal_stage d = ''lead'' \<and> deal_probability d = 35 \<and> get_deal_row s' (deal_id d) = Some d"
proof -
  have intent: "detect_intent env body = ''purchase''" using assms(1) by (simp add: detect_intent_def mentions_def Let_def)
  let ?p = "inbound_deal env k org body"
  have p: "dc_contact_id ?p = Some k" "dc_stage ?p = ''lead''" "dc_probability ?p = 35" "dc_organization_id ?p = org" "length (dc_title ?p) \<le> 200"
      "dc_amount ?p = 0" "dc_currency ?p = ''KWD''" "dc_pipeline ?p = ''default''" "dc_source ?p = Some ''inbound''" "dc_assigned_membership_id ?p = None"
    using intent assms(6) by (simp_all add: inbound_deal_def plain_deal_def Let_def min_le_iff_disj)
  have run: "maybe_auto_create_deal_from_inbound env a k org body s = (case create_deal env a None ?p s of (r, s') \<Rightarrow> (map_sum id Some r, s'))"
    using assms(2) intent by (simp add: maybe_auto_create_deal_from_inbound_def wants_to_buy_def)
  let ?d = "new_deal env a ?p"
  have d: "deal_id ?d = de_deal_id env" "deal_contact_id ?d = Some k" "deal_stage ?d = ''lead''" "deal_probability ?d = 35"
    using p by (simp_all add: new_deal_def)
  have "deal_fits ?d" "deal_references s ?d" using p assms(3,4) by (simp_all add: deal_fits_def deal_references_def known_def new_deal_def)
  then obtain s' where create: "create_deal env a None ?p s = (Inr ?d, s')" and "get_deal_row s' (de_deal_id env) = Some ?d"
    by (rule create_deal_returns [OF _ _ assms(5)])
  then show ?thesis using run d by simp
qed

section \<open>Instances\<close>

definition demo_deal_env :: deal_env where
  "demo_deal_env = \<lparr>de_now = 900, de_deal_id = 60, de_activity_id = 61, de_created = (\<lambda>x. ''created '' @ x), de_moved = (\<lambda>x y. x @ ''-'' @ y),
     de_purchase = [], de_cancellation = [], de_question = [], de_signals = [], de_untitled = ''from WhatsApp'', de_titled = id\<rparr>"

definition demo_deal :: "uuid \<Rightarrow> uuid option \<Rightarrow> deal" where
  "demo_deal i org = \<lparr>deal_id = i, deal_account_id = 1, deal_contact_id = None, deal_organization_id = org, deal_assigned_membership_id = None,
     deal_title = ''Big'', deal_stage = ''lead'', deal_amount = 0, deal_currency = ''KWD'', deal_pipeline = ''default'', deal_description = None,
     deal_probability = 0, deal_source = None, deal_expected_close_date = None, deal_updated_at = 10, deal_created_at = 10\<rparr>"

definition deal_example :: db where
  "deal_example = empty_db\<lparr>organizations := [demo_org 2 1], contacts := [fresh_contact 7 ''96550000001''],
     deals := [demo_deal 50 None, demo_deal 51 (Some 2)],
     deal_activities := map (\<lambda>i. \<lparr>da_id = i, da_deal_id = i, da_activity_type = ''created'', da_body = ''created lead'', da_created_by_user_id = None\<rparr>)
       [50, 51]\<rparr>"

text \<open>An agent without a branch is shown the deal without a branch and may not read it.\<close>

lemma deal_list_agrees_with_access_witness:
  "50 \<in> (deal_id \<circ> dv_deal) ` set (list_deals (=) deal_example 1 (Some (demo_membership AGENT None)) (all_deals 9)) \<and>
   \<not> returns (get_deal deal_example 1 50 (Some (demo_membership AGENT None)))"
proof -
  have rows: "distinct (map org_id (organizations deal_example))" "distinct (map deal_id (deals deal_example))" "length (deals deal_example) \<le> 9"
    by (simp_all add: deal_example_def demo_deal_def)
  have row: "get_deal_row deal_example 50 = Some (demo_deal 50 None)" "deal_account_id (demo_deal 50 None) = 1"
    by (simp_all add: deal_example_def get_deal_row_def demo_deal_def tbl_get_def)
  have "resolve_active_organization_ids deal_example 1 (demo_membership AGENT None) = []"
    "\<not> returns (get_deal deal_example 1 50 (Some (demo_membership AGENT None)))" by code_simp+
  then show ?thesis using deal_list_agrees_with_access [OF rows(1,2) row rows(3), of "(=)"] by (simp add: demo_deal_def)
qed

lemma deal_reveals_any_contact_witness:
  "\<exists>v s'. post_deal demo_deal_env 77 ((plain_deal ''x'')\<lparr>dc_contact_id := Some 7\<rparr>) deal_example = (Inr v, s') \<and> dv_contact_phone v = Some ''96550000001''"
proof -
  have "get_contact_row deal_example 7 = Some (fresh_contact 7 ''96550000001'')" "get_deal_row deal_example (de_deal_id demo_deal_env) = None" by code_simp+
  from deal_reveals_any_contact [OF this, of "''x''" 77] show ?thesis by (auto simp: fresh_contact_def)
qed

lemma bulk_stage_is_unscoped_witness:
  "\<exists>s'. bulk_update_stage (\<lambda>_. demo_deal_env) 1 [50, 52, 51] ''won'' deal_example = (Inr 2, s') \<and>
     map_option deal_stage (get_deal_row s' 51) = Some ''won''"
proof -
  have valid: "deals_valid deal_example" by code_simp
  have two: "length (filter (owned_deal deal_example 1) [50, 52, 51]) = 2"
    by (simp add: owned_deal_def deal_example_def get_deal_row_def demo_deal_def tbl_get_def)
  have row: "get_deal_row deal_example 51 = Some (demo_deal 51 (Some 2))" "deal_account_id (demo_deal 51 (Some 2)) = 1"
    by (simp_all add: deal_example_def get_deal_row_def demo_deal_def tbl_get_def)
  obtain s' where run: "bulk_update_stage (\<lambda>_. demo_deal_env) 1 [50, 52, 51] ''won'' deal_example = (Inr 2, s')"
    and all: "\<forall>j d. get_deal_row deal_example j = Some d \<longrightarrow> (\<exists>d'. get_deal_row s' j = Some d' \<and> deal_account_id d' = deal_account_id d \<and>
      (if j \<in> set [50, 52, 51] \<and> deal_account_id d = 1 then deal_stage d' = ''won'' else d' = d))"
    using bulk_stage_is_unscoped [OF valid, of "''won''" "\<lambda>_. demo_deal_env" 1 "[50, 52, 51]"] unfolding two by auto
  from all [rule_format, OF row(1)] row(2) run show ?thesis by auto
qed

definition order_text :: string where
  "order_text = ''Please cancel my order''"

lemma order_word_opens_deal_witness:
  "detect_intent demo_deal_env order_text = ''purchase'' \<and>
   (\<exists>d s'. maybe_auto_create_deal_from_inbound demo_deal_env 1 7 (Some 2) order_text deal_example = (Inr (Some d), s') \<and> deal_stage d = ''lead'')"
proof -
  have "contains (py_lower order_text) ''order''" "\<not> has_open_deal deal_example 1 7"
    "get_contact_row deal_example 7 = Some (fresh_contact 7 ''96550000001'')" "known (get_organization deal_example) (Some 2)"
    "get_deal_row deal_example (de_deal_id demo_deal_env) = None" "length (de_untitled demo_deal_env) \<le> 200"
    "detect_intent demo_deal_env order_text = ''purchase''" by code_simp+
  then show ?thesis using order_word_opens_deal by blast
qed

end
