(* ===== verification/Compliance.thy ===== *)
theory Compliance
  imports Connections
begin

text \<open>
  Opting out of marketing and asking for the catalog: \<open>services/marketing_compliance.py\<close>.  The Unicode normalization NFKC, the
  Arabic key words and the Arabic texts of the service are in \<open>compliance_env\<close>; the events for the browser are left out.  The components of a
  template and their buttons are JSON objects, as its schema requires.
\<close>

section \<open>Requests\<close>

record compliance_env =
  cp_nfkc :: "string \<Rightarrow> string"
  cp_keywords :: "string list"
  cp_button_texts :: "string list"
  cp_title_tokens :: "string list"
  cp_footer_tokens :: "string list"
  cp_interested_buttons :: "string list"
  cp_interested_words :: "string list"
  cp_opt_out_button :: string
  cp_interested_button :: string
  cp_footer :: string
  cp_confirmation :: string
  cp_welcome :: string
  cp_welcome_footer :: string

definition MARKETING_OPT_OUT_BUTTON_ID :: string where
  "MARKETING_OPT_OUT_BUTTON_ID = ''watesly_marketing_opt_out''"

definition MARKETING_INTERESTED_BUTTON_ID :: string where
  "MARKETING_INTERESTED_BUTTON_ID = ''watesly_interested''"

definition OPT_OUT_KEYWORDS :: "compliance_env \<Rightarrow> string list" where
  "OPT_OUT_KEYWORDS env = [''stop'', ''unsubscribe'', ''opt out'', ''optout'', ''cancel'', ''remove me''] @ cp_keywords env"

definition OPT_OUT_BUTTON_TEXTS :: "compliance_env \<Rightarrow> string list" where
  "OPT_OUT_BUTTON_TEXTS env = [py_lower MARKETING_OPT_OUT_BUTTON_ID, ''stop promotions'', ''unsubscribe''] @ cp_button_texts env"

text \<open>Every run of white space becomes one space.\<close>

fun squeeze :: "bool \<Rightarrow> string \<Rightarrow> string" where
  "squeeze after [] = []"
| "squeeze after (c # s) = (if is_space c then (if after then squeeze True s else CHR '' '' # squeeze True s) else c # squeeze False s)"

definition normalize_text :: "compliance_env \<Rightarrow> json option \<Rightarrow> string" where
  "normalize_text env v = (if \<not> j_truthy v then [] else squeeze False (py_lower (py_strip (cp_nfkc env (str_of v)))))"

definition has_token :: "string list \<Rightarrow> string \<Rightarrow> bool" where
  "has_token ts t \<longleftrightarrow> (\<exists>w \<in> set ts. contains t w)"

definition is_marketing_opt_out_request :: "compliance_env \<Rightarrow> json option \<Rightarrow> json option \<Rightarrow> json option \<Rightarrow> bool" where
  "is_marketing_opt_out_request env body button_id button_title =
     (let normalized_button_id = normalize_text env button_id;
          normalized_title = normalize_text env button_title;
          normalized_text = normalize_text env body;
          keywords = map (\<lambda>w. normalize_text env (Some (JStr w))) in
      if normalized_button_id \<in> set (OPT_OUT_BUTTON_TEXTS env) then True
      else if starts_with normalized_button_id ''watesly_marketing_opt'' then True
      else if normalized_title \<in> set (OPT_OUT_BUTTON_TEXTS env) then True
      else if has_token ([''unsubscribe'', ''opt out''] @ cp_title_tokens env) normalized_title then True
      else if normalized_text = [] then False
      else if normalized_text \<in> set (keywords (OPT_OUT_KEYWORDS env)) then True
      else has_token (keywords (filter (\<lambda>w. 4 \<le> length w) (OPT_OUT_KEYWORDS env))) normalized_text)"

definition INTERESTED_BUTTON_TEXTS :: "compliance_env \<Rightarrow> string list" where
  "INTERESTED_BUTTON_TEXTS env = [py_lower MARKETING_INTERESTED_BUTTON_ID, ''interested''] @ cp_interested_buttons env"

definition is_marketing_interested_request :: "compliance_env \<Rightarrow> json option \<Rightarrow> json option \<Rightarrow> json option \<Rightarrow> bool" where
  "is_marketing_interested_request env body button_id button_title =
     (let normalized_button_id = normalize_text env button_id in
      if normalized_button_id \<in> set (INTERESTED_BUTTON_TEXTS env) then True
      else if starts_with normalized_button_id ''watesly_interested'' then True
      else if normalize_text env button_title \<in> set (INTERESTED_BUTTON_TEXTS env) then True
      else normalize_text env body \<in> set ([''interested'', ''yes''] @ cp_interested_words env))"

section \<open>Components of a template\<close>

definition type_of_component :: "json \<Rightarrow> string" where
  "type_of_component c = (case jget c ''type'' of None \<Rightarrow> [] | Some v \<Rightarrow> py_upper (py_str v))"

definition buttons_of :: "json list \<Rightarrow> json list" where
  "buttons_of components = concat (map (\<lambda>c. if type_of_component c = ''BUTTONS''
     then filter (\<lambda>b. is_dict (Some b)) (case jget c ''buttons'' of Some (JList bs) \<Rightarrow> bs | _ \<Rightarrow> []) else []) components)"

definition button_id_of :: "compliance_env \<Rightarrow> json \<Rightarrow> string" where
  "button_id_of env b = normalize_text env (or_else (jget b ''id'') (jget b ''payload''))"

definition is_opt_out_button :: "compliance_env \<Rightarrow> json \<Rightarrow> bool" where
  "is_opt_out_button env b \<longleftrightarrow>
     (case jget b ''type'' of None \<Rightarrow> True | Some v \<Rightarrow> py_upper (py_str v) \<in> {''QUICK_REPLY'', ''QUICK REPLY''}) \<and>
     (let t = normalize_text env (jget b ''text'') in
      t \<in> set (OPT_OUT_BUTTON_TEXTS env) \<or> button_id_of env b \<in> set (OPT_OUT_BUTTON_TEXTS env) \<or>
      jget b ''marketing_opt_out'' = Some (JBool True) \<or> has_token ([''unsubscribe'', ''opt out''] @ cp_title_tokens env) t)"

definition template_has_opt_out_button :: "compliance_env \<Rightarrow> json list \<Rightarrow> bool" where
  "template_has_opt_out_button env components \<longleftrightarrow> (\<exists>b \<in> set (buttons_of components). is_opt_out_button env b)"

definition template_has_opt_out_footer :: "compliance_env \<Rightarrow> json list \<Rightarrow> bool" where
  "template_has_opt_out_footer env components \<longleftrightarrow>
     (\<exists>c \<in> set components. type_of_component c = ''FOOTER'' \<and>
        has_token ([''unsubscribe'', ''opt out''] @ cp_footer_tokens env) (normalize_text env (jget c ''text'')))"

definition template_has_interested_button :: "compliance_env \<Rightarrow> json list \<Rightarrow> bool" where
  "template_has_interested_button env components \<longleftrightarrow>
     (\<exists>b \<in> set (buttons_of components). normalize_text env (jget b ''text'') \<in> set (INTERESTED_BUTTON_TEXTS env) \<or>
        button_id_of env b \<in> set (INTERESTED_BUTTON_TEXTS env) \<or> jget b ''marketing_interested'' = Some (JBool True))"

definition marketing_button :: "string \<Rightarrow> string \<Rightarrow> string \<Rightarrow> json" where
  "marketing_button t i flag = JObj [(''type'', JStr ''QUICK_REPLY''), (''text'', JStr t), (''id'', JStr i), (flag, JBool True)]"

definition append_marketing_opt_out_components :: "compliance_env \<Rightarrow> json list \<Rightarrow> json list" where
  "append_marketing_opt_out_components env components =
     (let next = filter (\<lambda>c. is_dict (Some c)) components in
      if template_has_opt_out_button env next \<and> template_has_interested_button env next then next
      else
        (let buttons = (if template_has_interested_button env next then []
               else [marketing_button (cp_interested_button env) MARKETING_INTERESTED_BUTTON_ID ''marketing_interested'']) @
             (if template_has_opt_out_button env next then []
               else [marketing_button (cp_opt_out_button env) MARKETING_OPT_OUT_BUTTON_ID ''marketing_opt_out'']);
             next2 = (if buttons = [] then next else next @ [JObj [(''type'', JStr ''BUTTONS''), (''buttons'', JList buttons)]])
         in if template_has_opt_out_footer env next2 then next2
            else next2 @ [JObj [(''type'', JStr ''FOOTER''), (''text'', JStr (cp_footer env))]]))"

section \<open>Handling a message\<close>

text \<open>The result, the state of the session, and the calls to Meta.\<close>

type_synonym handled = "bool \<times> db \<times> meta_call list"

definition apply_marketing_opt_out :: "contact \<Rightarrow> db \<Rightarrow> bool \<times> db" where
  "apply_marketing_opt_out k s = (if con_marketing_opt_in k = False then (False, s) else (True, put_contact (k\<lparr>con_marketing_opt_in := False\<rparr>) s))"

text \<open>A text to the contact, whatever comes of it: \<open>except Exception: pass\<close>.\<close>

definition send_notice :: "send_env \<Rightarrow> whatsapp_account \<Rightarrow> contact \<Rightarrow> string \<Rightarrow> db \<Rightarrow> db \<times> meta_call list" where
  "send_notice env wa k body s =
     (case text_request (con_external_address k) body of
        Inl _ \<Rightarrow> (s, [])
      | Inr to \<Rightarrow> (let r = send_text_message env (wa_account_id wa) (wa_id wa) to body False False None s in (st_session r, st_calls r)))"

definition reply_value :: "(string \<times> json) list option \<Rightarrow> string \<Rightarrow> json option" where
  "reply_value reply name = (case reply of None \<Rightarrow> None | Some d \<Rightarrow> jget (JObj d) name)"

definition text_arg :: "string option \<Rightarrow> json option" where
  "text_arg t = map_option JStr t"

definition maybe_handle_marketing_opt_out :: "compliance_env \<Rightarrow> send_env \<Rightarrow> whatsapp_account \<Rightarrow> contact \<Rightarrow> string option \<Rightarrow>
    (string \<times> json) list option \<Rightarrow> db \<Rightarrow> handled" where
  "maybe_handle_marketing_opt_out env senv wa k text_body reply s =
     (if \<not> is_marketing_opt_out_request env (text_arg text_body) (reply_value reply ''button_id'') (reply_value reply ''button_title'')
      then (False, s, [])
      else (case apply_marketing_opt_out k s of
          (False, s1) \<Rightarrow> (True, s1, [])
        | (True, s1) \<Rightarrow> (True, send_notice senv wa k (cp_confirmation env) s1)))"

definition maybe_handle_marketing_interested :: "compliance_env \<Rightarrow> send_env \<Rightarrow> whatsapp_account \<Rightarrow> contact \<Rightarrow> string option \<Rightarrow>
    (string \<times> json) list option \<Rightarrow> db \<Rightarrow> handled" where
  "maybe_handle_marketing_interested env senv wa k text_body reply s =
     (if \<not> is_marketing_interested_request env (text_arg text_body) (reply_value reply ''button_id'') (reply_value reply ''button_title'')
      then (False, s, [])
      else (let r = send_catalog_welcome_message senv (wa_account_id wa) (wa_id wa) (con_external_address k) (cp_welcome env)
                      (Some (cp_welcome_footer env)) False s in
        if returns (st_result r) then (True, st_session r, st_calls r)
        else (case send_notice senv wa k (cp_welcome env) (st_session r) of (s1, calls) \<Rightarrow> (True, s1, st_calls r @ calls))))"

end
