(* ===== verification/ComplianceFacts.thy ===== *)
theory ComplianceFacts
  imports Compliance InboxTyping CampaignRuns
begin

text \<open>
  What opting out means: which messages opt a contact out, and that no run of a campaign calls Meta for a contact that did, the handling of the
  message and the campaign worker taken together.
\<close>

section \<open>Which messages opt out\<close>

definition no_space :: "string \<Rightarrow> bool" where
  "no_space w \<longleftrightarrow> (\<forall>c \<in> set w. \<not> is_space c)"

lemma squeeze_word: "no_space w \<Longrightarrow> squeeze b (w @ s) = (if w = [] then squeeze b s else w @ squeeze False s)"
  by (induction w arbitrary: b) (auto simp: no_space_def)

lemma squeeze_append: "\<exists>b'. squeeze b (u @ s) = squeeze b u @ squeeze b' s"
proof (induction u arbitrary: b)
  case (Cons c u)
  show ?case using Cons.IH [of True] Cons.IH [of False] by auto
qed auto

lemma squeeze_keeps: "no_space w \<Longrightarrow> w \<noteq> [] \<Longrightarrow> contains (squeeze b (u @ w @ v)) w"
proof -
  assume w: "no_space w" "w \<noteq> []"
  obtain b' where "squeeze b (u @ w @ v) = squeeze b u @ squeeze b' (w @ v)" using squeeze_append by blast
  then show ?thesis using squeeze_word [OF w(1)] w(2) by (auto simp: contains_iff)
qed

lemma dropWhile_keeps: "no_space w \<Longrightarrow> w \<noteq> [] \<Longrightarrow> \<exists>u'. dropWhile is_space (u @ w @ v) = u' @ w @ v"
proof (induction u)
  case Nil
  then show ?case by (cases w) (auto simp: no_space_def)
next
  case (Cons c u)
  show ?case
  proof (cases "is_space c")
    case True
    then show ?thesis using Cons by simp
  next
    case False
    then show ?thesis by (auto intro: exI [of _ "c # u"])
  qed
qed

lemma strip_keeps:
  assumes "no_space w" "w \<noteq> []"
  shows "\<exists>u' v'. py_strip (u @ w @ v) = u' @ w @ v'"
proof -
  obtain u' where u: "dropWhile is_space (u @ w @ v) = u' @ w @ v" using dropWhile_keeps [OF assms] by blast
  have "no_space (rev w)" "rev w \<noteq> []" using assms by (simp_all add: no_space_def)
  then obtain v' where "dropWhile is_space (rev v @ rev w @ rev u') = v' @ rev w @ rev u'" using dropWhile_keeps by blast
  then have "py_strip (u @ w @ v) = u' @ w @ rev v'" by (simp add: py_strip_def u)
  then show ?thesis by blast
qed

text \<open>The key words without white space or Arabic letters.\<close>

definition plain_keywords :: "string list" where
  "plain_keywords = [''stop'', ''unsubscribe'', ''optout'', ''cancel'']"

lemma plain_keyword:
  assumes "w \<in> set plain_keywords"
  shows "no_space w" "w \<noteq> []" "py_lower w = w" "4 \<le> length w" "w \<in> set (OPT_OUT_KEYWORDS env)" "py_strip w = w"
proof -
  have "\<forall>w \<in> set plain_keywords. no_space w \<and> w \<noteq> [] \<and> py_lower w = w \<and> 4 \<le> length w \<and> py_strip w = w" by code_simp
  then show "no_space w" "w \<noteq> []" "py_lower w = w" "4 \<le> length w" "py_strip w = w" using assms by blast+
  show "w \<in> set (OPT_OUT_KEYWORDS env)" using assms by (auto simp: plain_keywords_def OPT_OUT_KEYWORDS_def)
qed

lemma normalized_keeps:
  assumes "w \<in> set plain_keywords" "cp_nfkc env (u @ w @ v) = u @ w @ v"
  shows "contains (normalize_text env (Some (JStr (u @ w @ v)))) w"
proof -
  note w = plain_keyword [OF assms(1)]
  obtain u' v' where "py_strip (u @ w @ v) = u' @ w @ v'" using strip_keeps w by blast
  then have "py_lower (py_strip (u @ w @ v)) = py_lower u' @ w @ py_lower v'" using w(3) by (simp add: py_lower_def)
  moreover have "normalize_text env (Some (JStr (u @ w @ v))) = squeeze False (py_lower (py_strip (u @ w @ v)))"
    using w(2) assms(2) by (simp add: normalize_text_def str_of_def)
  ultimately show ?thesis using squeeze_keeps w by simp
qed

text \<open>A word inside a message opts out: a text that contains one of these words anywhere, inside of another word or in a sentence about something
  else, is taken as a request to stop marketing, whatever the rest of the message says.\<close>

theorem word_opts_out:
  assumes "w \<in> set plain_keywords" "cp_nfkc env (u @ w @ v) = u @ w @ v" "cp_nfkc env w = w"
  shows "is_marketing_opt_out_request env (Some (JStr (u @ w @ v))) button_id button_title"
proof -
  note w = plain_keyword [OF assms(1)]
  let ?t = "normalize_text env (Some (JStr (u @ w @ v)))"
  have t: "contains ?t w" by (rule normalized_keeps [OF assms(1,2)])
  then have "?t \<noteq> []" using w(2) by auto
  have "squeeze False w = w" using squeeze_word [OF w(1), of False "[]"] w(2) by simp
  then have "normalize_text env (Some (JStr w)) = w" using w assms(3) by (simp add: normalize_text_def str_of_def)
  then have "has_token (map (\<lambda>w. normalize_text env (Some (JStr w))) (filter (\<lambda>w. 4 \<le> length w) (OPT_OUT_KEYWORDS env))) ?t"
    using t w(4,5) by (force simp: has_token_def)
  then show ?thesis using \<open>?t \<noteq> []\<close> unfolding is_marketing_opt_out_request_def Let_def by simp
qed

section \<open>Templates\<close>

lemma buttons_of_append [simp]: "buttons_of (xs @ ys) = buttons_of xs @ buttons_of ys"
  by (simp add: buttons_of_def)

lemma has_append [simp]:
  "template_has_opt_out_button env (xs @ ys) \<longleftrightarrow> template_has_opt_out_button env xs \<or> template_has_opt_out_button env ys"
  "template_has_interested_button env (xs @ ys) \<longleftrightarrow> template_has_interested_button env xs \<or> template_has_interested_button env ys"
  by (auto simp: template_has_opt_out_button_def template_has_interested_button_def)

lemma buttons_component: "buttons_of [JObj [(''type'', JStr ''BUTTONS''), (''buttons'', JList bs)]] = filter (\<lambda>b. is_dict (Some b)) bs"
proof -
  have "py_upper ''BUTTONS'' = ''BUTTONS''" by code_simp
  then show ?thesis by (simp add: buttons_of_def type_of_component_def)
qed

lemma marketing_buttons:
  "is_opt_out_button env (marketing_button t i ''marketing_opt_out'')"
  "jget (marketing_button t i ''marketing_interested'') ''marketing_interested'' = Some (JBool True)"
  "is_dict (Some (marketing_button t i flag))"
proof -
  have "py_upper ''QUICK_REPLY'' = ''QUICK_REPLY''" by code_simp
  then show "is_opt_out_button env (marketing_button t i ''marketing_opt_out'')" by (simp add: is_opt_out_button_def marketing_button_def Let_def)
qed (simp_all add: marketing_button_def is_dict_def)

text \<open>The completion of a template: it ends with a button to opt out and one to show interest, keeps the components that were there in front, and does
  nothing more when it is done a second time.\<close>

theorem completed_template_has_buttons:
  shows "template_has_opt_out_button env (append_marketing_opt_out_components env cs) \<and>
    template_has_interested_button env (append_marketing_opt_out_components env cs) \<and>
    (\<exists>more. append_marketing_opt_out_components env cs = filter (\<lambda>c. is_dict (Some c)) cs @ more) \<and>
    append_marketing_opt_out_components env (append_marketing_opt_out_components env cs) = append_marketing_opt_out_components env cs"
proof -
  let ?next = "filter (\<lambda>c. is_dict (Some c)) cs"
  let ?r = "append_marketing_opt_out_components env cs"
  have "template_has_opt_out_button env ?r \<and> template_has_interested_button env ?r \<and> (\<exists>more. ?r = ?next @ more \<and> (\<forall>c \<in> set more. is_dict (Some c)))"
  proof (cases "template_has_opt_out_button env ?next \<and> template_has_interested_button env ?next")
    case True
    then show ?thesis by (simp add: append_marketing_opt_out_components_def)
  next
    case False
    define bs where "bs = (if template_has_interested_button env ?next then []
        else [marketing_button (cp_interested_button env) MARKETING_INTERESTED_BUTTON_ID ''marketing_interested'']) @
      (if template_has_opt_out_button env ?next then [] else [marketing_button (cp_opt_out_button env) MARKETING_OPT_OUT_BUTTON_ID ''marketing_opt_out''])"
    define added where "added = [JObj [(''type'', JStr ''BUTTONS''), (''buttons'', JList bs)]]"
    have "bs \<noteq> []" using False by (auto simp: bs_def)
    define footer where "footer = (if template_has_opt_out_footer env (?next @ added) then [] else
      [JObj [(''type'', JStr ''FOOTER''), (''text'', JStr (cp_footer env))]])"
    have r: "?r = ?next @ added @ footer"
      using False \<open>bs \<noteq> []\<close> unfolding append_marketing_opt_out_components_def Let_def bs_def [symmetric] footer_def added_def by simp
    have dicts: "\<forall>c \<in> set (added @ footer). is_dict (Some c)" by (simp add: added_def footer_def is_dict_def)
    have "filter (\<lambda>b. is_dict (Some b)) bs = bs" by (auto simp: bs_def marketing_buttons(3) filter_id_conv)
    then have "buttons_of added = bs" by (simp add: added_def buttons_component)
    then have "template_has_opt_out_button env (?next @ added) \<and> template_has_interested_button env (?next @ added)"
      by (auto simp: template_has_opt_out_button_def template_has_interested_button_def bs_def marketing_buttons(1,2))
    then show ?thesis using dicts unfolding r by auto
  qed
  then have "filter (\<lambda>c. is_dict (Some c)) ?r = ?r" and has: "template_has_opt_out_button env ?r \<and> template_has_interested_button env ?r"
    and more: "\<exists>more. ?r = ?next @ more" by (auto simp: filter_id_conv)
  then have "append_marketing_opt_out_components env ?r = ?r" by (simp add: append_marketing_opt_out_components_def [of env ?r])
  then show ?thesis using has more by blast
qed

section \<open>A contact that opted out\<close>

definition opted_out :: "uuid \<Rightarrow> db \<Rightarrow> bool" where
  "opted_out k s \<longleftrightarrow> (\<forall>c \<in> set (contacts s). con_id c = k \<longrightarrow> \<not> con_marketing_opt_in c)"

definition opt_ins :: "db \<Rightarrow> (uuid \<times> bool) list" where
  "opt_ins s = map (\<lambda>c. (con_id c, con_marketing_opt_in c)) (contacts s)"

lemma opted_out_iff: "opted_out k s \<longleftrightarrow> (k, True) \<notin> set (opt_ins s)"
  by (auto simp: opted_out_def opt_ins_def)

lemma opted_out_same: "opt_ins s' = opt_ins s \<Longrightarrow> opted_out k s' = opted_out k s"
  by (simp add: opted_out_iff)

lemma found_on_channel: "find_contact_on_channel_by_phone s o' ch a cc = Some k \<Longrightarrow> k \<in> set (contacts s)"
  by (rule conjunct1 [OF found_contact])

lemma put_keeps_opt_out: "opted_out k s \<Longrightarrow> (con_id c = k \<Longrightarrow> \<not> con_marketing_opt_in c) \<Longrightarrow> opted_out k (put_contact c s)"
  by (auto simp: opted_out_def put_contact_def tbl_put_def)

lemma match_keeps_opt_out:
  assumes "match_contact i wa number name s = Inr (c, s')" "i \<noteq> k" "opted_out k s"
  shows "opted_out k s'"
proof (cases "find_contact_on_channel_by_phone s (wa_organization_id wa) (wa_channel_id wa) number DEFAULT_COUNTRY_CODE")
  case None
  then have "s' = s\<lparr>contacts := contacts s @ [new_contact i wa number name]\<rparr>"
    using assms(1) by (auto simp: match_contact_def insert_contact_def Let_def split: if_splits)
  then show ?thesis using assms(2,3) by (auto simp: opted_out_def new_contact_def)
next
  case (Some x)
  have x: "con_id x = k \<Longrightarrow> \<not> con_marketing_opt_in x" using found_on_channel [OF Some] assms(3) by (simp add: opted_out_def)
  have "s' \<in> {s, put_contact (x\<lparr>con_display_name := name\<rparr>) s, put_contact (x\<lparr>con_external_address := number\<rparr>) s}"
    using assms(1) Some by (auto simp: match_contact_def flush_contact_def Let_def split: if_splits)
  then show ?thesis using assms(3) x by (auto intro!: put_keeps_opt_out)
qed

lemma thread_opt_ins: "open_thread ids wa c s = Inr (v, b, s') \<Longrightarrow> contacts s' = contacts s"
proof -
  have assign: "auto_assign_conversation v s = (m, t) \<Longrightarrow> contacts t = contacts s" for v m s t
    by (auto simp: auto_assign_conversation_def put_conversation_def put_rule_def Let_def split: option.splits list.splits if_splits)
  show "open_thread ids wa c s = Inr (v, b, s') \<Longrightarrow> contacts s' = contacts s"
    by (auto simp: open_thread_def insert_conversation_def create_notification_def Let_def dest!: assign split: option.splits if_splits prod.splits sum.splits)
qed

lemma notice_keeps_opt_out:
  assumes "opted_out k s" "ii_contact (se_ids env) \<noteq> k"
  shows "opted_out k (fst (send_notice env wa c body s))"
proof -
  have deliver: "opted_out k (st_session (deliver_message env w a g False None s))" for w a g
  proof (cases "thread_of_number (se_ids env) w (og_to g) s")
    case (Inr x)
    obtain k' c' b s1 where x: "x = (k', c', b, s1)" by (cases x) auto
    then obtain s0 where "match_contact (ii_contact (se_ids env)) w (normalize_whatsapp_phone (Some (og_to g)) DEFAULT_COUNTRY_CODE) None s = Inr (k', s0)"
      "contacts s1 = contacts s0"
      using Inr by (auto simp: thread_of_number_def dest: thread_opt_ins split: sum.splits prod.splits)
    then have "opted_out k s1" using match_keeps_opt_out [OF _ assms(2,1)] by (simp add: opted_out_def)
    then show ?thesis
      using Inr x by (auto simp: deliver_message_def Let_def opted_out_def put_message_def put_conversation_def split: meta_answer.split)
  qed (simp add: deliver_message_def refused_def assms(1))
  show ?thesis
    using deliver assms(1) by (simp add: send_notice_def send_text_message_def refused_def Let_def split: sum.split)
qed

section \<open>No campaign reaches a contact that opted out\<close>

named_theorems opt_in_simps

lemma opt_ins_contacts: "contacts s' = contacts s \<Longrightarrow> opt_ins s' = opt_ins s"
  by (simp add: opt_ins_def)

lemma recipient_opt_ins [opt_in_simps]:
  "opt_ins (update_recipient i f s) = opt_ins s" "opt_ins (update_campaign i g s) = opt_ins s" "opt_ins (put_campaign c s) = opt_ins s"
  "opt_ins (fail_stale_sending i cutoff s) = opt_ins s"
  by (rule opt_ins_contacts; simp add: update_recipient_def update_campaign_def put_campaign_def fail_stale_sending_def split: option.split)+

lemma contact_opt_ins [opt_in_simps]:
  assumes "\<And>c. con_id (f c) = con_id c" "\<And>c. con_marketing_opt_in (f c) = con_marketing_opt_in c"
  shows "opt_ins (update_contact i f s) = opt_ins s"
  using assms by (simp add: opt_ins_def update_contact_def tbl_update_def)

lemma write_opt_ins [opt_in_simps]:
  "opt_ins (write_delivery_failure now m c s) = opt_ins s"
  "opt_ins (mark_sending now campaign r s) = opt_ins s"
  "opt_ins (skip_recipient now campaign r s) = opt_ins s"
  "opt_ins (mark_already_sent now campaign r s) = opt_ins s"
  "opt_ins (fail_recipient r t s) = opt_ins s"
  "opt_ins (mark_sent r e s) = opt_ins s"
  "opt_ins (requeue r t s) = opt_ins s"
  by (simp_all add: opt_in_simps write_delivery_failure_def mark_sending_def skip_recipient_def mark_already_sent_def fail_recipient_def mark_sent_def
      requeue_def Let_def)

lemma record_opt_ins [opt_in_simps]:
  "opt_ins (snd (record_campaign_outbound_message now ci mi campaign r c wa t to e cs st s)) = opt_ins s"
  by (rule opt_ins_contacts) (auto simp: row_defs put_message_def record_campaign_outbound_message_def Let_def split: option.splits prod.splits if_splits)

lemma commit_opt_ins [opt_in_simps]: "opt_ins (run_db (commit st)) = opt_ins (run_db st)"
  by (simp add: commit_def opt_in_simps split: option.split)

lemma row_opt_ins:
  assumes "process_row env i tok wa template row st = (res, st')"
  shows "opt_ins (run_db st') = opt_ins (run_db (refresh env st))"
proof -
  obtain r c where row: "row = (r, c)" by force
  have answer: "opt_ins (run_db (snd (handle_answer env campaign wa template r c to comps x))) = opt_ins (run_db x)" for campaign to comps x
    by (simp add: handle_answer_def Let_def opt_in_simps split: provider_reply.split option.split)
  have deliver: "opt_ins (run_db (snd (deliver env campaign wa template r c x))) = opt_ins (run_db x)" for campaign x
    by (simp add: deliver_def Let_def opt_in_simps answer split: sum.split)
  have "opt_ins (run_db (snd (process_row env i tok wa template row st))) = opt_ins (run_db (refresh env st))"
    unfolding process_row_def Let_def row prod.case
    by (simp add: opt_in_simps deliver del: refresh_simps split: option.split)
  then show ?thesis using assms by simp
qed

text \<open>Other transactions leave the contact opted out.\<close>

definition leaves_out :: "uuid \<Rightarrow> (db \<Rightarrow> db) \<Rightarrow> bool" where
  "leaves_out k f \<longleftrightarrow> (\<forall>s. opted_out k s \<longrightarrow> opted_out k (f s))"

definition keeps_opt_out :: "uuid \<Rightarrow> env \<Rightarrow> bool" where
  "keeps_opt_out k env \<longleftrightarrow> (\<forall>n s. opted_out k s \<longrightarrow> opted_out k (others env n s))"

definition left_alone :: "uuid \<Rightarrow> (campaign_recipient \<times> contact) list \<Rightarrow> run \<Rightarrow> bool" where
  "left_alone k rows st \<longleftrightarrow> opted_out k (run_db st) \<and> (\<forall>(r, c) \<in> set rows. con_id c = k \<longrightarrow> \<not> con_marketing_opt_in c) \<and>
     (\<forall>call \<in> set (run_calls st). con_id (call_contact call) \<noteq> k)"

lemma left_alone_row:
  assumes "keeps_opt_out k env" "left_alone k (row # rows) st" "process_row env i tok wa template row st = (res, st')"
  shows "left_alone k rows st'"
proof -
  obtain r c where row: "row = (r, c)" by force
  have "opted_out k (run_db (refresh env st))" using assms(1,2) by (simp add: keeps_opt_out_def left_alone_def)
  then have db: "opted_out k (run_db st')" using opted_out_same [OF row_opt_ins [OF assms(3)]] by simp
  have "\<forall>call \<in> set (run_calls st'). con_id (call_contact call) \<noteq> k"
    using assms(3) unfolding row
  proof (cases rule: process_row_cases)
    case stopped
    then show ?thesis using assms(2) by (simp add: left_alone_def)
  next
    case (handled campaign)
    from handled(4) consider "run_calls st' = run_calls st" | call where "run_calls st' = run_calls st @ [call]" "call_contact call = c"
      unfolding row_outcome_def by auto
    then show ?thesis
    proof cases
      case 1
      then show ?thesis using assms(2) by (simp add: left_alone_def)
    next
      case 2
      then have "con_marketing_opt_in c" using handled(3) by simp
      then show ?thesis using assms(2) 2 row by (auto simp: left_alone_def)
    qed
  qed
  then show ?thesis using assms(2) db by (simp add: left_alone_def)
qed

lemma left_alone_batch:
  assumes "keeps_opt_out k env" "left_alone k [] st"
  shows "left_alone k (select_batch locked batch i (run_db (batch_state env i st))) (batch_state env i st)"
proof -
  let ?st = "batch_state env i st"
  have "opt_ins (run_db ?st) = opt_ins (others env (run_tick st) (run_db st))" by (simp add: batch_state_def Let_def opt_in_simps)
  then have db: "opted_out k (run_db ?st)" using assms by (simp add: opted_out_iff keeps_opt_out_def left_alone_def)
  have "\<not> con_marketing_opt_in c" if "(r, c) \<in> set (select_batch locked batch i (run_db ?st))" "con_id c = k" for r c
  proof -
    from that(1) obtain q where "sendable (run_db ?st) i q = Some (r, c)" by (auto simp: select_batch_def set_map_filter dest!: in_set_takeD)
    then have "c \<in> set (contacts (run_db ?st))" by (auto simp: sendable_def get_contact_row_def dest: tbl_get_mem split: if_splits option.splits)
    then show ?thesis using db that(2) by (simp add: opted_out_def)
  qed
  moreover have "run_calls ?st = run_calls st" by (rule batch_state_frames)
  ultimately show ?thesis using db assms(2) by (auto simp: left_alone_def)
qed

lemma left_alone_refresh: "keeps_opt_out k env \<Longrightarrow> left_alone k [] st \<Longrightarrow> left_alone k [] (refresh env st)"
  by (simp add: left_alone_def keeps_opt_out_def)

lemma left_alone_less: "left_alone k rows st \<Longrightarrow> left_alone k [] st"
  by (simp add: left_alone_def)

lemma left_alone_finish: "left_alone k [] st \<Longrightarrow> left_alone k [] (snd (finish_campaign env i st))"
  by (simp add: left_alone_def finish_campaign_def Let_def opted_out_iff opt_in_simps open_simps)

text \<open>The locale of runs for this assertion; its environment is any that keeps the contact opted out, and the others make no statement.\<close>

interpretation opt_outs: run_invariant env i tok batch wa template
    "\<lambda>rows st. keeps_opt_out k env \<longrightarrow> left_alone k rows st" "\<lambda>_ st. keeps_opt_out k env \<longrightarrow> left_alone k [] st"
  for k env i tok batch wa template
proof (unfold_locales, goal_cases)
  case (2 st res)
  then show ?case using left_alone_refresh by simp
next
  case (3 st c locked)
  then show ?case using left_alone_batch by simp
next
  case (4 row rows st st')
  then show ?case using left_alone_row by blast
next
  case (5 row rows st res st')
  then show ?case using left_alone_row left_alone_less by blast
next
  case (6 st)
  then show ?case using left_alone_finish by simp
qed simp

text \<open>C26. A contact that opted out is left alone: once the message of a contact that asks to stop marketing is handled, no run of any campaign that
  starts afterwards calls Meta for this contact, whatever other transactions do before and during the run, as long as none of them opts the
  contact in again.  (A run that is under way keeps the rows of its batch as it read them, and may still call.)\<close>

theorem opted_out_contact_is_not_called:
  assumes "maybe_handle_marketing_opt_out cenv senv wa c body reply s = (True, s', sent_calls)" "get_contact_row s (con_id c) = Some c"
    and "distinct (map con_id (contacts s))" "ii_contact (se_ids senv) \<noteq> con_id c" "leaves_out (con_id c) meanwhile"
    and "run_campaign fuel env i tok (meanwhile s') = (res, st)" "keeps_opt_out (con_id c) env" "call \<in> set (run_calls st)"
  shows "con_id (call_contact call) \<noteq> con_id c"
proof -
  let ?k = "con_id c"
  have "opted_out ?k s'"
  proof (cases "con_marketing_opt_in c")
    case False
    have c: "c \<in> set (contacts s)" using assms(2) tbl_get_mem by (auto simp: get_contact_row_def)
    then have "opted_out ?k s" using False row_by_id [OF assms(3)] by (auto simp: opted_out_def)
    moreover have "s' = s" using assms(1) False by (auto simp: maybe_handle_marketing_opt_out_def apply_marketing_opt_out_def split: if_splits)
    ultimately show ?thesis by simp
  next
    case True
    let ?s = "put_contact (c\<lparr>con_marketing_opt_in := False\<rparr>) s"
    have "opted_out ?k ?s" by (auto simp: opted_out_def put_contact_def tbl_put_def)
    moreover have "s' = fst (send_notice senv wa c (cp_confirmation cenv) ?s)"
      using assms(1) True by (auto simp: maybe_handle_marketing_opt_out_def apply_marketing_opt_out_def split: if_splits)
    ultimately show ?thesis using notice_keeps_opt_out assms(4) by simp
  qed
  then have out: "opted_out ?k (meanwhile s')" using assms(5) by (simp add: leaves_out_def)
  show ?thesis
    using assms(6)
  proof (cases rule: run_campaign_cases)
    case (started cm c' wa' template batch)
    have "left_alone ?k [] (on_db (put_campaign c') (start_run env (meanwhile s')))"
      using out by (simp add: left_alone_def start_run_def opted_out_iff opt_in_simps)
    from opt_outs.loop_ends_in_post [OF _ started(7), of ?k] this assms(7,8) show ?thesis by (simp add: left_alone_def)
  qed (use assms(8) in simp)
qed

section \<open>Instances\<close>

definition demo_compliance :: compliance_env where
  "demo_compliance = \<lparr>cp_nfkc = id, cp_keywords = [], cp_button_texts = [], cp_title_tokens = [], cp_footer_tokens = [], cp_interested_buttons = [],
     cp_interested_words = [], cp_opt_out_button = ''No more'', cp_interested_button = ''Interested'', cp_footer = ''Send stop to unsubscribe'',
     cp_confirmation = ''Stopped'', cp_welcome = ''Welcome'', cp_welcome_footer = ''Open''\<rparr>"

lemma word_opts_out_witness:
  "is_marketing_opt_out_request demo_compliance (Some (JStr (''Can I '' @ ''cancel'' @ '' the blue one?''))) None None"
  by (rule word_opts_out) (simp_all add: plain_keywords_def demo_compliance_def)

text \<open>Of the two recipients of the campaign the second one asks to stop; only the first one is called.\<close>

definition stop_example :: db where
  "stop_example = run_example\<lparr>contacts := [demo_contact 5, fresh_contact 6 ''50000001'']\<rparr>"

definition stop_message :: handled where
  "stop_message = maybe_handle_marketing_opt_out demo_compliance demo_send_env (demo_wa 4 1 3) (fresh_contact 6 ''50000001'') (Some ''Stop'') None stop_example"

text \<open>Meanwhile the first contact gets a name.\<close>

definition name_contact :: "db \<Rightarrow> db" where
  "name_contact = update_contact 5 (\<lambda>k. k\<lparr>con_display_name := Some ''Amal''\<rparr>)"

definition stop_run :: "run_result option \<times> run" where
  "stop_run = run_campaign 3 (quiet_env (\<lambda>_. Accepted None)) 10 77 (name_contact (fst (snd stop_message)))"

lemma opted_out_contact_is_not_called_witness:
  "fst stop_message \<and> fst stop_run = Some (Finished COMPLETED 1 0 0) \<and> length (run_calls (snd stop_run)) = 1 \<and>
   6 \<notin> (con_id \<circ> call_contact) ` set (run_calls (snd stop_run))"
proof -
  let ?k = "fresh_contact 6 ''50000001''"
  have handled: "fst stop_message" by code_simp
  then have "stop_message = (True, fst (snd stop_message), snd (snd stop_message))" by (simp add: prod_eq_iff)
  then have h: "maybe_handle_marketing_opt_out demo_compliance demo_send_env (demo_wa 4 1 3) ?k (Some ''Stop'') None stop_example =
    (True, fst (snd stop_message), snd (snd stop_message))"
    by (simp only: stop_message_def [symmetric])
  have r: "run_campaign 3 (quiet_env (\<lambda>_. Accepted None)) 10 77 (name_contact (fst (snd stop_message))) = (fst stop_run, snd stop_run)"
    by (simp only: stop_run_def [symmetric] prod.collapse)
  have run: "fst stop_run = Some (Finished COMPLETED 1 0 0)" "length (run_calls (snd stop_run)) = 1" by code_simp+
  have row: "get_contact_row stop_example (con_id ?k) = Some ?k" "distinct (map con_id (contacts stop_example))"
    "ii_contact (se_ids demo_send_env) \<noteq> con_id ?k" "con_id ?k = 6"
    by code_simp+
  have quiet: "keeps_opt_out (con_id ?k) (quiet_env (\<lambda>_. Accepted None))" by (simp add: keeps_opt_out_def quiet_env_def)
  have named: "leaves_out (con_id ?k) name_contact" by (simp add: leaves_out_def name_contact_def opted_out_iff opt_in_simps)
  have "con_id (call_contact call) \<noteq> 6" if "call \<in> set (run_calls (snd stop_run))" for call
    using opted_out_contact_is_not_called [OF h row(1-3) named r quiet that] unfolding row(4) .
  then show ?thesis using handled run by auto
qed

text \<open>A run under way: the second contact asks to stop between the calls for the first and for the second, and is called all the same.\<close>

definition overtaken_others :: "nat \<Rightarrow> db \<Rightarrow> db" where
  "overtaken_others n s = (if n = 2 then fst (snd (maybe_handle_marketing_opt_out demo_compliance demo_send_env (demo_wa 4 1 3)
     (fresh_contact 6 ''50000001'') (Some ''Stop'') None s)) else s)"

definition overtaken_run :: "run_result option \<times> run" where
  "overtaken_run = run_campaign 3 ((quiet_env (\<lambda>_. Accepted None))\<lparr>others := overtaken_others\<rparr>) 10 77 stop_example"

lemma open_batch_is_called:
  "(con_id \<circ> call_contact) ` set (run_calls (snd overtaken_run)) = {5, 6} \<and>
   map (\<lambda>k. (con_id k, con_marketing_opt_in k)) (contacts (run_db (snd overtaken_run))) = [(5, True), (6, False)]"
proof
  show "(con_id \<circ> call_contact) ` set (run_calls (snd overtaken_run)) = {5, 6}" by code_simp
  show "map (\<lambda>k. (con_id k, con_marketing_opt_in k)) (contacts (run_db (snd overtaken_run))) = [(5, True), (6, False)]" by code_simp
qed

end
