(* ===== verification/Orders.thy ===== *)
theory Orders
  imports Complex_Main Deals PyValues
begin

text \<open>
  Orders from the WhatsApp catalog: \<open>services/inbound_commerce.py\<close>, \<open>services/catalog_orders.py\<close>, the part of
  \<open>process_inbound_side_effects\<close> in \<open>services/inbound_whatsapp.py\<close> that handles an order, and the routes under \<open>/orders\<close> in
  \<open>api/routes/catalog.py\<close>.  A Python \<open>Decimal\<close> is a rational number; \<open>Decimal(str(x))\<close>, the date of the day and the Arabic texts of a
  deal are in \<open>order_env\<close>.  Notifications, mails and the invoice are left out.
\<close>

section \<open>Parsing\<close>

record order_env =
  oe_now :: datetime
  oe_day :: string
  oe_order_id :: "nat \<Rightarrow> uuid"
  oe_decimal :: "string \<Rightarrow> rat outcome"
  oe_title :: "string option \<Rightarrow> int \<Rightarrow> string"
  oe_text :: "json \<Rightarrow> (string \<times> string) list \<Rightarrow> string outcome"
  oe_deal :: deal_env
  oe_note_id :: uuid
  oe_note :: "uuid \<Rightarrow> string"

text \<open>\<open>d.get(k) or []\<close> for a value that is a list, if it is anything.\<close>

definition order_lines :: "json \<Rightarrow> json list" where
  "order_lines d = (case jget d ''product_items'' of Some (JList xs) \<Rightarrow> xs | _ \<Rightarrow> [])"

definition is_object :: "json \<Rightarrow> bool" where
  "is_object v = (case v of JObj _ \<Rightarrow> True | _ \<Rightarrow> False)"

text \<open>\<open>int(x or 1)\<close>\<close>

definition int_or_one :: "json option \<Rightarrow> int outcome" where
  "int_or_one v = (if j_truthy v then int_or_zero v else Inr 1)"

definition parse_order_line :: "json \<Rightarrow> json \<Rightarrow> json option outcome" where
  "parse_order_line order raw =
     (if \<not> is_object raw then Inr None
      else (let retailer_id = py_strip (str_or [] (jget raw ''product_retailer_id'')) in
        if retailer_id = [] then Inr None
        else (case int_or_one (jget raw ''quantity'') of
            Inl e \<Rightarrow> Inl e
          | Inr quantity \<Rightarrow>
              (let currency = py_strip (str_or (str_or ''KWD'' (jget order ''currency'')) (jget raw ''currency''))
               in Inr (Some (JObj [(''product_retailer_id'', JStr retailer_id), (''quantity'', JInt (max quantity 1)),
                    (''item_price'', case jget raw ''item_price'' of None \<Rightarrow> JNull | Some v \<Rightarrow> v),
                    (''currency'', JStr (if currency = [] then ''KWD'' else currency))]))))))"

definition parse_whatsapp_order :: "json \<Rightarrow> json option outcome" where
  "parse_whatsapp_order item =
     (if py_lower (str_or [] (jget item ''type'')) \<noteq> ''order'' then Inr None
      else (case jget item ''order'' of
          Some (JObj kvs) \<Rightarrow>
            (let order = JObj kvs in
             case all_outcomes (parse_order_line order) (order_lines order) of
               Inl e \<Rightarrow> Inl e
             | Inr found \<Rightarrow>
                 (let items = List.map_filter id found in
                  if items = [] then Inr None
                  else Inr (Some (JObj [(''catalog_id'', JStr (py_strip (str_or [] (jget order ''catalog_id'')))),
                    (''text'', JStr (py_strip (str_or [] (jget order ''text'')))), (''product_items'', JList items)]))))
        | _ \<Rightarrow> Inr None))"

definition has_price :: "json \<Rightarrow> bool" where
  "has_price item \<longleftrightarrow> jget item ''item_price'' \<notin> {None, Some JNull}"

text \<open>\<open>Decimal(str(price)) * Decimal(str(quantity or 1))\<close>\<close>

definition line_amount :: "(string \<Rightarrow> rat outcome) \<Rightarrow> json \<Rightarrow> rat outcome" where
  "line_amount dec item =
     (case dec (str_of (jget item ''item_price'')) of
        Inl e \<Rightarrow> Inl e
      | Inr price \<Rightarrow> map_sum id (\<lambda>q. price * q) (dec (str_or ''1'' (jget item ''quantity''))))"

fun add_lines :: "(string \<Rightarrow> rat outcome) \<Rightarrow> json list \<Rightarrow> rat \<Rightarrow> string \<Rightarrow> (rat \<times> string) outcome" where
  "add_lines dec [] acc currency = Inr (acc, currency)"
| "add_lines dec (item # items) acc currency =
     (let currency' = str_or currency (jget item ''currency'') in
      if has_price item
      then (case line_amount dec item of Inl e \<Rightarrow> Inl e | Inr x \<Rightarrow> add_lines dec items (acc + x) currency')
      else add_lines dec items acc currency')"

definition order_total_amount :: "order_env \<Rightarrow> json \<Rightarrow> (rat \<times> string) outcome" where
  "order_total_amount env d = add_lines (oe_decimal env) (order_lines d) 0 ''KWD''"

definition product_retailer_ids :: "json list \<Rightarrow> string list" where
  "product_retailer_ids items = List.map_filter (\<lambda>i. if j_truthy (jget i ''product_retailer_id'') then Some (str_of (jget i ''product_retailer_id'')) else None) items"

text \<open>A dictionary: a later row for the same id wins.\<close>

definition resolve_order_product_names :: "db \<Rightarrow> uuid \<Rightarrow> json list \<Rightarrow> (string \<times> string) list" where
  "resolve_order_product_names s account_id items =
     (let ids = product_retailer_ids items in
      rev (List.map_filter (\<lambda>p. case prd_meta_retailer_id p of None \<Rightarrow> None | Some i \<Rightarrow>
        if prd_account_id p = account_id \<and> i \<in> set ids \<and> i \<noteq> [] then Some (i, prd_name p) else None) (catalog_products s)))"

section \<open>Numbers\<close>

text \<open>\<open>f"{x:.2f}"\<close> rounds half to even, the column \<open>Numeric(14, 2)\<close> half away from zero.\<close>

definition half_even :: "rat \<Rightarrow> int" where
  "half_even r = (let f = \<lfloor>r\<rfloor>; d = r - of_int f in if d < 1 / 2 then f else if d > 1 / 2 then f + 1 else if even f then f else f + 1)"

definition two_digits :: "nat \<Rightarrow> string" where
  "two_digits n = (if n < 10 then ''0'' @ nat_str n else nat_str n)"

definition fixed2 :: "rat \<Rightarrow> string" where
  "fixed2 r = (let c = nat (half_even (\<bar>r\<bar> * 100)) in (if r < 0 then ''-'' else []) @ nat_str (c div 100) @ ''.'' @ two_digits (c mod 100))"

definition hundredths :: "rat \<Rightarrow> int" where
  "hundredths r = (if r < 0 then - \<lfloor>- r * 100 + 1 / 2\<rfloor> else \<lfloor>r * 100 + 1 / 2\<rfloor>)"

definition order_line_item :: "order_env \<Rightarrow> json \<Rightarrow> (string \<times> string) list \<Rightarrow> json \<Rightarrow> json option outcome" where
  "order_line_item env d names raw =
     (let retailer_id = py_strip (str_or [] (jget raw ''product_retailer_id'')) in
      if retailer_id = [] then Inr None
      else (case int_or_one (jget raw ''quantity'') of
          Inl e \<Rightarrow> Inl e
        | Inr n \<Rightarrow>
            (let quantity = max n 1;
                 currency = str_or (str_or ''KWD'' (jget d ''currency'')) (jget raw ''currency'');
                 name = (case map_of names retailer_id of Some t \<Rightarrow> if t = [] then retailer_id else t | None \<Rightarrow> retailer_id);
                 line = (\<lambda>price total. Some (JObj [(''product_retailer_id'', JStr retailer_id), (''product_name'', JStr name),
                   (''quantity'', JInt quantity), (''unit_price'', price), (''currency'', JStr currency), (''line_total'', total)]))
             in if \<not> has_price raw then Inr (line JNull JNull)
                else (let price = str_of (jget raw ''item_price'') in
                  case oe_decimal env price of
                    Inl e \<Rightarrow> Inl e
                  | Inr p \<Rightarrow> (case oe_decimal env (int_str quantity) of
                      Inl e \<Rightarrow> Inl e | Inr q \<Rightarrow> Inr (line (JStr price) (JStr (fixed2 (p * q)))))))))"

definition build_line_items :: "order_env \<Rightarrow> json \<Rightarrow> (string \<times> string) list \<Rightarrow> json list outcome" where
  "build_line_items env d names = map_sum id (List.map_filter id) (all_outcomes (order_line_item env d names) (order_lines d))"

definition pad4 :: "nat \<Rightarrow> string" where
  "pad4 n = replicate (4 - length (nat_str n)) (CHR ''0'') @ nat_str n"

definition order_prefix :: "string \<Rightarrow> string" where
  "order_prefix day = ''ORD-'' @ day @ ''-''"

definition order_count :: "db \<Rightarrow> uuid \<Rightarrow> string \<Rightarrow> nat" where
  "order_count s account_id prefix = tbl_count (\<lambda>o'. co_account_id o' = account_id \<and> starts_with (co_order_number o') prefix) (catalog_orders s)"

definition next_order_number :: "string \<Rightarrow> db \<Rightarrow> uuid \<Rightarrow> string" where
  "next_order_number day s account_id = order_prefix day @ pad4 (order_count s account_id (order_prefix day) + 1)"

section \<open>Orders\<close>

record order_place =
  op_organization_id :: uuid
  op_channel_id :: uuid
  op_contact_id :: "uuid option"
  op_conversation_id :: "uuid option"
  op_message_id :: uuid
  op_deal_id :: "uuid option"

definition text_or_none :: "json option \<Rightarrow> string option" where
  "text_or_none v = (let t = py_strip (str_or [] v) in if t = [] then None else Some t)"

definition order_data_error :: py_error where
  "order_data_error = OtherError ''DataError''"

text \<open>What the table accepts; the contact must not be null, and a message has one order at most (\<open>uq_catalog_orders_message_id\<close>).\<close>

definition insert_order :: "order_place \<Rightarrow> catalog_order \<Rightarrow> db \<Rightarrow> (catalog_order \<times> db) outcome" where
  "insert_order pl o' s =
     (if length (co_currency o') > 8 \<or> \<bar>co_subtotal o'\<bar> \<ge> 10 ^ 14 \<or> (case co_meta_catalog_id o' of None \<Rightarrow> False | Some t \<Rightarrow> length t > 80)
      then Inl order_data_error
      else if op_contact_id pl = None \<or> get_contact_row s (co_contact_id o') = None \<or> co_message_id o' \<in> co_message_id ` set (catalog_orders s)
      then Inl integrity_error
      else Inr (o', s\<lparr>catalog_orders := catalog_orders s @ [o']\<rparr>))"

text \<open>\<open>n\<close> counts the orders that the transaction creates.\<close>

definition create_catalog_order :: "order_env \<Rightarrow> nat \<Rightarrow> uuid \<Rightarrow> order_place \<Rightarrow> json \<Rightarrow> (string \<times> string) list option \<Rightarrow> db \<Rightarrow> (catalog_order \<times> db) outcome" where
  "create_catalog_order env n account_id pl d product_names s =
     (case find (\<lambda>x. co_message_id x = op_message_id pl) (catalog_orders s) of
        Some existing \<Rightarrow> Inr (existing, s)
      | None \<Rightarrow>
          (let names = (case product_names of Some ns \<Rightarrow> ns | None \<Rightarrow> resolve_order_product_names s account_id (order_lines d)) in
           case order_total_amount env d of
             Inl e \<Rightarrow> Inl e
           | Inr (subtotal, currency) \<Rightarrow>
               (case build_line_items env d names of
                  Inl e \<Rightarrow> Inl e
                | Inr items \<Rightarrow>
                    insert_order pl \<lparr>co_id = oe_order_id env n, co_account_id = account_id, co_organization_id = op_organization_id pl,
                      co_channel_id = op_channel_id pl, co_contact_id = (case op_contact_id pl of None \<Rightarrow> 0 | Some k \<Rightarrow> k),
                      co_conversation_id = op_conversation_id pl, co_message_id = op_message_id pl, co_deal_id = op_deal_id pl,
                      co_order_number = next_order_number (oe_day env) s account_id, co_meta_catalog_id = text_or_none (jget d ''catalog_id''),
                      co_customer_note = text_or_none (jget d ''text''), co_currency = currency, co_subtotal = hundredths subtotal,
                      co_status = ''received'', co_line_items = items, co_reviewed_at = None, co_reviewed_by_user_id = None,
                      co_created_at = oe_now env\<rparr> s)))"

section \<open>From a message\<close>

definition sum_quantities :: "json list \<Rightarrow> int outcome" where
  "sum_quantities items = map_sum id sum_list (all_outcomes (\<lambda>i. int_or_one (jget i ''quantity'')) items)"

text \<open>The deal is committed before its note is added.\<close>

definition create_deal_from_whatsapp_order :: "order_env \<Rightarrow> uuid \<Rightarrow> uuid \<Rightarrow> uuid option \<Rightarrow> json \<Rightarrow> uuid option \<Rightarrow> db \<Rightarrow> deal outcome \<times> db" where
  "create_deal_from_whatsapp_order env account_id contact_id organization_id d conversation_id s =
     (let display = Option.bind (get_contact_row s contact_id) con_display_name;
          names = resolve_order_product_names s account_id (order_lines d) in
      case order_total_amount env d of
        Inl e \<Rightarrow> (Inl e, s)
      | Inr (amount, currency) \<Rightarrow>
          (case oe_text env d names of
             Inl e \<Rightarrow> (Inl e, s)
           | Inr description \<Rightarrow>
               (case sum_quantities (order_lines d) of
                  Inl e \<Rightarrow> (Inl e, s)
                | Inr item_count \<Rightarrow>
                    (case create_deal (oe_deal env) account_id None
                        ((plain_deal (take 200 (oe_title env display item_count)))\<lparr>dc_contact_id := Some contact_id, dc_amount := hundredths amount,
                          dc_currency := currency, dc_organization_id := organization_id, dc_source := Some ''whatsapp_order'',
                          dc_description := Some (take 4000 description), dc_probability := 60\<rparr>) s of
                       (Inl e, s1) \<Rightarrow> (Inl e, s1)
                     | (Inr deal, s1) \<Rightarrow>
                         (case conversation_id of
                            None \<Rightarrow> (Inr deal, s1)
                          | Some c \<Rightarrow> (Inr deal, s1\<lparr>deal_activities := deal_activities s1 @ [\<lparr>da_id = oe_note_id env, da_deal_id = deal_id deal,
                              da_activity_type = ''note'', da_body = oe_note env c, da_created_by_user_id = None\<rparr>]\<rparr>))))))"

definition message_place :: "message \<Rightarrow> uuid option \<Rightarrow> order_place" where
  "message_place m deal = \<lparr>op_organization_id = msg_organization_id m, op_channel_id = msg_channel_id m, op_contact_id = msg_contact_id m,
     op_conversation_id = msg_conversation_id m, op_message_id = msg_id m, op_deal_id = deal\<rparr>"

text \<open>The branch \<open>if ctx.order_data\<close>.  The text of the message is set first; an error leaves what was done so far.\<close>

definition handle_inbound_order :: "order_env \<Rightarrow> whatsapp_account \<Rightarrow> contact \<Rightarrow> conversation \<Rightarrow> message \<Rightarrow> json \<Rightarrow> db \<Rightarrow> (deal \<times> catalog_order) outcome \<times> db" where
  "handle_inbound_order env wa k c m d s =
     (let names = resolve_order_product_names s (wa_account_id wa) (order_lines d) in
      case oe_text env d names of
        Inl e \<Rightarrow> (Inl e, s)
      | Inr body \<Rightarrow>
          (let s0 = put_message (m\<lparr>msg_text_body := Some body\<rparr>) s in
           case create_deal_from_whatsapp_order env (wa_account_id wa) (con_id k) (Some (wa_organization_id wa)) d (Some (conv_id c)) s0 of
             (Inl e, s1) \<Rightarrow> (Inl e, s1)
           | (Inr deal, s1) \<Rightarrow>
               (case create_catalog_order env 0 (wa_account_id wa) \<lparr>op_organization_id = wa_organization_id wa, op_channel_id = wa_channel_id wa,
                   op_contact_id = Some (con_id k), op_conversation_id = Some (conv_id c), op_message_id = msg_id m, op_deal_id = Some (deal_id deal)\<rparr>
                   d (Some names) s1 of
                  Inl e \<Rightarrow> (Inl e, s1)
                | Inr (order, s2) \<Rightarrow> (Inr (deal, order), s2))))"

section \<open>Backfill\<close>

definition order_data_of :: "message \<Rightarrow> json option outcome" where
  "order_data_of m =
     (let payload = (case msg_provider_payload m of Some (JObj kvs) \<Rightarrow> JObj kvs | _ \<Rightarrow> JObj []) in
      case jget payload ''order_parsed'' of
        Some (JObj kvs) \<Rightarrow> Inr (if kvs = [] then None else Some (JObj kvs))
      | _ \<Rightarrow> parse_whatsapp_order payload)"

text \<open>The newest deal from an order of the contact, if it is at most two minutes away from the message.\<close>

definition deal_of_message :: "db \<Rightarrow> uuid \<Rightarrow> message \<Rightarrow> uuid option" where
  "deal_of_message s account_id m =
     (case msg_contact_id m of
        None \<Rightarrow> None
      | Some k \<Rightarrow>
          (case sort_key (\<lambda>d. - deal_created_at d) (filter (\<lambda>d. deal_account_id d = account_id \<and> deal_contact_id d = Some k \<and>
              deal_source d = Some ''whatsapp_order'') (deals s)) of
             [] \<Rightarrow> None
           | d # _ \<Rightarrow> if \<bar>deal_created_at d - msg_created_at m\<bar> \<le> seconds 120 then Some (deal_id d) else None))"

fun backfill_messages :: "order_env \<Rightarrow> nat \<Rightarrow> uuid \<Rightarrow> uuid set \<Rightarrow> message list \<Rightarrow> db \<Rightarrow> (nat \<times> db) outcome" where
  "backfill_messages env n account_id existing_ids [] s = Inr (n, s)"
| "backfill_messages env n account_id existing_ids (m # ms) s =
     (if msg_id m \<in> existing_ids then backfill_messages env n account_id existing_ids ms s
      else (case order_data_of m of
          Inl e \<Rightarrow> Inl e
        | Inr None \<Rightarrow> backfill_messages env n account_id existing_ids ms s
        | Inr (Some d) \<Rightarrow>
            (case create_catalog_order env n (msg_account_id m) (message_place m (deal_of_message s account_id m)) d None s of
               Inl e \<Rightarrow> Inl e | Inr (_, s1) \<Rightarrow> backfill_messages env (Suc n) account_id existing_ids ms s1)))"

definition order_messages :: "db \<Rightarrow> uuid \<Rightarrow> message list" where
  "order_messages s account_id = sort_key msg_created_at (filter (\<lambda>m. msg_account_id m = account_id \<and> msg_type m = MtOrder) (messages s))"

definition backfill_catalog_orders_from_messages :: "order_env \<Rightarrow> uuid \<Rightarrow> db \<Rightarrow> (nat \<times> db) outcome" where
  "backfill_catalog_orders_from_messages env account_id s =
     backfill_messages env 0 account_id (co_message_id ` set (catalog_orders s)) (order_messages s account_id) s"

section \<open>Reading and reviewing\<close>

record order_query =
  oq_organization_id :: "uuid option"
  oq_status :: "string option"
  oq_search :: "string option"
  oq_page :: nat
  oq_page_size :: nat

definition order_matches :: "(string \<Rightarrow> string \<Rightarrow> bool) \<Rightarrow> db \<Rightarrow> uuid \<Rightarrow> order_query \<Rightarrow> catalog_order \<Rightarrow> bool" where
  "order_matches ilike s account_id q x \<longleftrightarrow> co_account_id x = account_id \<and>
     (case oq_organization_id q of None \<Rightarrow> True | Some i \<Rightarrow> co_organization_id x = i) \<and>
     (nonempty (oq_status q) \<longrightarrow> oq_status q = Some (co_status x)) \<and>
     (nonempty (oq_search q) \<longrightarrow>
       (case get_contact_row s (co_contact_id x) of
          None \<Rightarrow> False
        | Some k \<Rightarrow>
            (let like = ''%'' @ py_strip (the (oq_search q)) @ ''%''
             in ilike (co_order_number x) like \<or> (case con_display_name k of None \<Rightarrow> False | Some t \<Rightarrow> ilike t like) \<or> ilike (con_external_address k) like)))"

definition list_catalog_orders :: "order_env \<Rightarrow> (string \<Rightarrow> string \<Rightarrow> bool) \<Rightarrow> uuid \<Rightarrow> order_query \<Rightarrow> db \<Rightarrow> ((catalog_order list \<times> nat) \<times> db) outcome" where
  "list_catalog_orders env ilike account_id q s =
     (case backfill_catalog_orders_from_messages env account_id s of
        Inl e \<Rightarrow> Inl e
      | Inr (_, s1) \<Rightarrow>
          (let found = filter (order_matches ilike s1 account_id q) (catalog_orders s1)
           in Inr ((take (oq_page_size q) (drop ((oq_page q - 1) * oq_page_size q) (sort_key (\<lambda>x. - co_created_at x) found)), length found), s1)))"

definition get_catalog_order :: "order_env \<Rightarrow> uuid \<Rightarrow> uuid \<Rightarrow> db \<Rightarrow> (catalog_order option \<times> db) outcome" where
  "get_catalog_order env account_id i s =
     (case backfill_catalog_orders_from_messages env account_id s of
        Inl e \<Rightarrow> Inl e
      | Inr (_, s1) \<Rightarrow> Inr (find (\<lambda>x. co_account_id x = account_id \<and> co_id x = i) (catalog_orders s1), s1))"

definition put_order :: "catalog_order \<Rightarrow> db \<Rightarrow> db" where
  "put_order x s = s\<lparr>catalog_orders := tbl_put co_id x (catalog_orders s)\<rparr>"

definition update_catalog_order_status :: "datetime \<Rightarrow> catalog_order \<Rightarrow> string \<Rightarrow> uuid option \<Rightarrow> db \<Rightarrow> catalog_order \<times> db" where
  "update_catalog_order_status now order status reviewer s =
     (let x = (if status \<in> {''reviewed'', ''invoiced''}
        then order\<lparr>co_status := status, co_reviewed_at := Some now, co_reviewed_by_user_id := reviewer\<rparr> else order\<lparr>co_status := status\<rparr>)
      in (x, put_order x s))"

text \<open>The routes.  Those that only read do not commit, so that what the backfill wrote is gone when the request is over.\<close>

definition list_catalog_orders_route :: "order_env \<Rightarrow> (string \<Rightarrow> string \<Rightarrow> bool) \<Rightarrow> uuid \<Rightarrow> order_query \<Rightarrow> db \<Rightarrow> (catalog_order list \<times> nat) outcome \<times> db" where
  "list_catalog_orders_route env ilike account_id q s = (map_sum id fst (list_catalog_orders env ilike account_id q s), s)"

definition order_not_found :: py_error where
  "order_not_found = OtherError ''404 Order not found''"

definition get_catalog_order_route :: "order_env \<Rightarrow> uuid \<Rightarrow> uuid \<Rightarrow> db \<Rightarrow> catalog_order outcome \<times> db" where
  "get_catalog_order_route env account_id i s =
     (case get_catalog_order env account_id i s of
        Inl e \<Rightarrow> (Inl e, s) | Inr (None, _) \<Rightarrow> (Inl order_not_found, s) | Inr (Some x, _) \<Rightarrow> (Inr x, s))"

definition update_catalog_order_route :: "order_env \<Rightarrow> uuid \<Rightarrow> uuid \<Rightarrow> string \<Rightarrow> uuid \<Rightarrow> db \<Rightarrow> catalog_order outcome \<times> db" where
  "update_catalog_order_route env account_id i status user s =
     (case get_catalog_order env account_id i s of
        Inl e \<Rightarrow> (Inl e, s)
      | Inr (None, _) \<Rightarrow> (Inl order_not_found, s)
      | Inr (Some x, s1) \<Rightarrow> (case update_catalog_order_status (oe_now env) x status (Some user) s1 of (y, s2) \<Rightarrow> (Inr y, s2)))"

end
