(* ===== verification/OrderFacts.thy ===== *)
theory OrderFacts
  imports Orders DealFacts Assignments
begin

text \<open>
  What holds of catalog orders: one order for a message and one number for an order, the deal that goes with an order, and what the backfill that
  every look at the orders runs does and does not do.
\<close>

section \<open>Numbers\<close>

lemma digits_value_snoc: "digits_value (xs @ [c]) = 10 * digits_value xs + (int (of_char c) - 48)"
  by (simp add: digits_value_def)

lemma digits_value_nat_str: "digits_value (nat_str n) = int n"
proof (induction n rule: nat_str.induct)
  case (1 n)
  have char: "int (of_char (char_of (48 + m :: nat) :: char)) - 48 = int m" if "m < 10" for m :: nat using that by simp
  show ?case
  proof (cases "n < 10")
    case True
    then have "nat_str n = [char_of (48 + n)]" by (simp add: nat_str.simps)
    moreover have "digits_value [] = 0" by (simp add: digits_value_def)
    ultimately show ?thesis using char [OF True] digits_value_snoc [of "[]"] by simp
  next
    case False
    then have "nat_str n = nat_str (n div 10) @ [char_of (48 + n mod 10)]" by (simp add: nat_str.simps)
    then have "digits_value (nat_str n) = 10 * int (n div 10) + int (n mod 10)"
      using 1 [OF False] char [of "n mod 10"] digits_value_snoc by simp
    then show ?thesis by presburger
  qed
qed

lemma digits_value_zeros: "digits_value (replicate k (CHR ''0'') @ ds) = digits_value ds"
proof -
  have "digits_value (replicate k (CHR ''0'')) = 0" by (induction k) (simp_all add: digits_value_def replicate_app_Cons_same [symmetric] flip: replicate_append_same)
  then show ?thesis by (simp add: digits_value_def)
qed

lemma pad4_inj: "pad4 m = pad4 n \<Longrightarrow> m = n"
  using digits_value_zeros [of _ "nat_str m"] digits_value_zeros [of _ "nat_str n"] digits_value_nat_str
  unfolding pad4_def by (metis of_nat_eq_iff)

lemma starts_with_same_length: "length xs = length zs \<Longrightarrow> starts_with (xs @ ys) zs \<longleftrightarrow> xs = zs"
  by (induction xs zs rule: list_induct2) auto

lemma prefix_of_number:
  assumes "length day = 8" "length day' = 8"
  shows "starts_with (order_prefix day @ t) (order_prefix day') \<longleftrightarrow> day = day'"
proof -
  have "starts_with (order_prefix day @ t) (order_prefix day') \<longleftrightarrow> order_prefix day = order_prefix day'"
    using assms by (intro starts_with_same_length) (simp add: order_prefix_def)
  then show ?thesis by (simp add: order_prefix_def)
qed

definition numbers_of :: "catalog_order list \<Rightarrow> uuid \<Rightarrow> string \<Rightarrow> string list" where
  "numbers_of os a day = map co_order_number (filter (\<lambda>x. co_account_id x = a \<and> starts_with (co_order_number x) (order_prefix day)) os)"

definition numbered :: "catalog_order list \<Rightarrow> bool" where
  "numbered os \<longleftrightarrow> (\<forall>a day. length day = 8 \<longrightarrow>
       numbers_of os a day = map (\<lambda>i. order_prefix day @ pad4 (i + 1)) [0..<length (numbers_of os a day)]) \<and>
     (\<forall>x \<in> set os. \<exists>day t. length day = 8 \<and> co_order_number x = order_prefix day @ t)"

lemma order_count_numbers: "order_count s a (order_prefix day) = length (numbers_of (catalog_orders s) a day)"
  by (simp add: order_count_def numbers_of_def tbl_count_def)

lemma numbered_append:
  assumes "numbered (catalog_orders s)" "length day = 8" "co_account_id x = a" "co_order_number x = next_order_number day s a"
  shows "numbered (catalog_orders s @ [x])"
proof -
  let ?os = "catalog_orders s"
  have new: "co_order_number x = order_prefix day @ pad4 (length (numbers_of ?os a day) + 1)"
    using assms(4) by (simp add: next_order_number_def order_count_numbers)
  have split: "numbers_of (?os @ [x]) b d = numbers_of ?os b d @ (if b = a \<and> d = day then [co_order_number x] else [])" if "length d = 8" for b d
    using prefix_of_number [OF assms(2) that] assms(3) by (auto simp: numbers_of_def new)
  have "numbers_of (?os @ [x]) b d = map (\<lambda>i. order_prefix d @ pad4 (i + 1)) [0..<length (numbers_of (?os @ [x]) b d)]" if d: "length d = 8" for b d
  proof -
    have old: "numbers_of ?os b d = map (\<lambda>i. order_prefix d @ pad4 (i + 1)) [0..<length (numbers_of ?os b d)]"
      using assms(1) d unfolding numbered_def by blast
    show ?thesis
    proof (cases "b = a \<and> d = day")
      case True
      then have "numbers_of (?os @ [x]) b d = numbers_of ?os b d @ [order_prefix d @ pad4 (length (numbers_of ?os b d) + 1)]"
        using split [OF d] new by simp
      then show ?thesis using old by simp
    next
      case False
      then have "numbers_of (?os @ [x]) b d = numbers_of ?os b d" using split [OF d] by simp
      then show ?thesis using old by simp
    qed
  qed
  then show ?thesis using assms(1,2) new by (auto simp: numbered_def)
qed

lemma repeated_in_filter:
  assumes "i < j" "j < length xs" "P (xs ! i)" "P (xs ! j)" "f (xs ! i) = f (xs ! j)"
  shows "\<not> distinct (map f (filter P xs))"
proof -
  have "xs ! i \<in> set (take j xs)" using assms(1,2) by (auto simp: in_set_conv_nth intro!: exI [of _ i])
  then have "xs ! i \<in> set (filter P (take j xs))" using assms(3) by simp
  then have "f (xs ! j) \<in> f ` set (filter P (take j xs))" using imageI [of "xs ! i" _ f] assms(5) by metis
  moreover have "filter P xs = filter P (take j xs) @ xs ! j # filter P (drop (Suc j) xs)"
    using id_take_nth_drop [OF assms(2)] assms(4) by (metis filter.simps(2) filter_append)
  ultimately show ?thesis by auto
qed

lemma numbered_distinct:
  assumes "numbered os"
  shows "distinct (map (\<lambda>x. (co_account_id x, co_order_number x)) os)"
proof -
  have differ: "(co_account_id (os ! i), co_order_number (os ! i)) \<noteq> (co_account_id (os ! j), co_order_number (os ! j))"
    if ij: "i < j" "j < length os" for i j
  proof
    assume eq: "(co_account_id (os ! i), co_order_number (os ! i)) = (co_account_id (os ! j), co_order_number (os ! j))"
    have "os ! i \<in> set os" using ij by simp
    then obtain day t where day: "length day = 8" "co_order_number (os ! i) = order_prefix day @ t" using assms unfolding numbered_def by blast
    let ?P = "\<lambda>x. co_account_id x = co_account_id (os ! i) \<and> starts_with (co_order_number x) (order_prefix day)"
    have "starts_with (co_order_number (os ! i)) (order_prefix day)" using day by (simp add: starts_with_append)
    then have "\<not> distinct (map co_order_number (filter ?P os))" using eq by (intro repeated_in_filter [OF ij]) simp_all
    moreover have "map co_order_number (filter ?P os) = map (\<lambda>i. order_prefix day @ pad4 (i + 1)) [0..<length (filter ?P os)]"
      using assms day(1) by (simp add: numbered_def numbers_of_def)
    moreover have "distinct (map (\<lambda>i. order_prefix day @ pad4 (i + 1)) [0..<n])" for n
      by (auto simp: distinct_map inj_on_def dest: pad4_inj)
    ultimately show False by simp
  qed
  show ?thesis unfolding distinct_conv_nth
  proof (intro allI impI)
    fix i j assume "i < length (map (\<lambda>x. (co_account_id x, co_order_number x)) os)" "j < length (map (\<lambda>x. (co_account_id x, co_order_number x)) os)" "i \<noteq> j"
    then show "map (\<lambda>x. (co_account_id x, co_order_number x)) os ! i \<noteq> map (\<lambda>x. (co_account_id x, co_order_number x)) os ! j"
      using differ [of i j] differ [of j i] by (cases i j rule: linorder_cases) (simp_all, metis)
  qed
qed

section \<open>Creation\<close>

definition order_fresh :: "order_env \<Rightarrow> nat \<Rightarrow> db \<Rightarrow> bool" where
  "order_fresh env n s \<longleftrightarrow> inj (oe_order_id env) \<and> (\<forall>j\<ge>n. oe_order_id env j \<notin> co_id ` set (catalog_orders s))"

definition orders_ok :: "bool \<Rightarrow> db \<Rightarrow> bool" where
  "orders_ok alone s \<longleftrightarrow> distinct (map co_id (catalog_orders s)) \<and> distinct (map co_message_id (catalog_orders s)) \<and>
     (alone \<longrightarrow> numbered (catalog_orders s))"

lemma insert_order_effect:
  assumes "insert_order pl x s = Inr (y, s')"
  shows "y = x" "s' = s\<lparr>catalog_orders := catalog_orders s @ [x]\<rparr>" "op_contact_id pl \<noteq> None"
    "co_message_id x \<notin> co_message_id ` set (catalog_orders s)"
  using assms by (auto simp: insert_order_def split: if_splits)

lemma create_order_effect:
  assumes "create_catalog_order env n a pl d names s = Inr (x, s')"
  shows "co_message_id x = op_message_id pl \<and> (x \<in> set (catalog_orders s) \<and> s' = s \<or>
    insert_order pl x s = Inr (x, s') \<and> co_id x = oe_order_id env n \<and> co_account_id x = a \<and>
    co_order_number x = next_order_number (oe_day env) s a \<and> op_contact_id pl = Some (co_contact_id x))"
proof (cases "find (\<lambda>x. co_message_id x = op_message_id pl) (catalog_orders s)")
  case (Some y)
  then have "y \<in> set (catalog_orders s)" "co_message_id y = op_message_id pl" by (auto simp: find_Some_iff)
  moreover have "x = y" "s' = s" using assms unfolding create_catalog_order_def Some option.case by simp_all
  ultimately show ?thesis by simp
next
  case None
  note run = assms [unfolded create_catalog_order_def None option.case Let_def]
  obtain t items where t: "order_total_amount env d = Inr t"
      and items: "build_line_items env d (case names of Some ns \<Rightarrow> ns | None \<Rightarrow> resolve_order_product_names s a (order_lines d)) = Inr items"
    using run by (cases names; cases "order_total_amount env d") (auto split: sum.splits)
  obtain o' where insert: "insert_order pl o' s = Inr (x, s')" and o': "co_message_id o' = op_message_id pl" "co_id o' = oe_order_id env n"
      "co_account_id o' = a" "co_order_number o' = next_order_number (oe_day env) s a"
      "op_contact_id pl = Some (co_contact_id o') \<or> op_contact_id pl = None"
    by (rule that [OF run [unfolded t items sum.case prod.case_eq_if]]) (auto split: option.split)
  note x = insert_order_effect(1,3) [OF insert]
  show ?thesis unfolding x(1) by (intro conjI disjI2) (use insert o' x in auto)
qed

lemma inserted_order_ok:
  assumes "insert_order pl x s = Inr (y, s')" "orders_ok alone s" "co_id x \<notin> co_id ` set (catalog_orders s)"
    and "alone \<Longrightarrow> length day = 8 \<and> co_order_number x = next_order_number day s (co_account_id x)"
  shows "orders_ok alone s'"
proof -
  note new = insert_order_effect(2,4) [OF assms(1)]
  have "alone \<Longrightarrow> numbered (catalog_orders s @ [x])"
    using assms(2,4) by (intro numbered_append [of _ day _ "co_account_id x"]) (simp_all add: orders_ok_def)
  then show ?thesis using assms(2,3) new by (simp add: orders_ok_def)
qed

lemma created_order_ok:
  assumes "create_catalog_order env n a pl d names s = Inr (x, s')" "orders_ok alone s" "order_fresh env n s" "length (oe_day env) = 8"
  shows "orders_ok alone s' \<and> order_fresh env (Suc n) s'"
  using create_order_effect [OF assms(1)]
proof (elim conjE disjE)
  assume "s' = s"
  then show ?thesis using assms(2,3) by (simp add: order_fresh_def)
next
  assume new: "insert_order pl x s = Inr (x, s')" "co_id x = oe_order_id env n" "co_account_id x = a"
    "co_order_number x = next_order_number (oe_day env) s a"
  have "co_id x \<notin> co_id ` set (catalog_orders s)" using assms(3) new(2) by (simp add: order_fresh_def)
  then have "orders_ok alone s'" using inserted_order_ok [OF new(1) assms(2), of "oe_day env"] assms(4) new(3,4) by blast
  moreover have "order_fresh env (Suc n) s'"
    using assms(3) new(2) insert_order_effect(2) [OF new(1)] by (auto simp: order_fresh_def inj_eq)
  ultimately show ?thesis ..
qed

lemma created_order_ids:
  assumes "create_catalog_order env n a pl d names s = Inr (x, s')"
  shows "co_id ` set (catalog_orders s') \<subseteq> insert (oe_order_id env n) (co_id ` set (catalog_orders s))"
  using create_order_effect [OF assms] insert_order_effect(2) [of pl x s x s'] by auto

section \<open>The backfill\<close>

lemma backfill_messages_ok:
  assumes "backfill_messages env n a known' ms s = Inr (k, s')" "orders_ok alone s" "order_fresh env n s" "length (oe_day env) = 8"
  shows "orders_ok alone s'"
  using assms(1-3)
proof (induction ms arbitrary: n s k)
  case (Cons m ms)
  then show ?case using created_order_ok [OF _ Cons.prems(2,3) assms(4)] Cons.IH
    by (auto split: if_splits sum.splits option.splits prod.splits)
qed simp

lemma backfill_messages_ids:
  assumes "backfill_messages env n a known' ms s = Inr (k, s')"
  shows "co_id ` set (catalog_orders s') \<subseteq> range (oe_order_id env) \<union> co_id ` set (catalog_orders s)"
  using assms
proof (induction ms arbitrary: n s k)
  case (Cons m ms)
  have step: "co_id ` set (catalog_orders s') \<subseteq> range (oe_order_id env) \<union> co_id ` set (catalog_orders s)"
    if "create_catalog_order env n b pl d names s = Inr (x, s1)" "backfill_messages env (Suc n) a known' ms s1 = Inr (k, s')" for b pl d names x s1
    using Cons.IH [OF that(2)] created_order_ids [OF that(1)] by blast
  show ?case using Cons.prems Cons.IH step by (simp split: if_splits sum.splits option.splits prod.splits)
qed simp

lemma backfill_ok:
  "backfill_catalog_orders_from_messages env a s = Inr (k, s') \<Longrightarrow> orders_ok alone s \<Longrightarrow> order_fresh env 0 s \<Longrightarrow> length (oe_day env) = 8 \<Longrightarrow>
   orders_ok alone s'"
  unfolding backfill_catalog_orders_from_messages_def by (rule backfill_messages_ok)

lemma backfill_ids:
  "backfill_catalog_orders_from_messages env a s = Inr (k, s') \<Longrightarrow>
   co_id ` set (catalog_orders s') \<subseteq> range (oe_order_id env) \<union> co_id ` set (catalog_orders s)"
  unfolding backfill_catalog_orders_from_messages_def by (rule backfill_messages_ids)

lemma fetched_order:
  assumes "get_catalog_order env a i s = Inr (Some x, s')"
  obtains k where "backfill_catalog_orders_from_messages env a s = Inr (k, s')" "x \<in> set (catalog_orders s')" "co_id x = i" "co_account_id x = a"
  using assms by (auto simp: get_catalog_order_def find_Some_iff split: sum.splits)

text \<open>C39. What the list backfills is not kept: an order that the list shows and that no earlier request has stored cannot be fetched by the id
  that the list gave it, nor reviewed.\<close>

theorem listed_order_not_found:
  assumes "list_catalog_orders_route env ilike a q s = (Inr (xs, k), s1)" "x \<in> set xs" "co_id x \<notin> co_id ` set (catalog_orders s)"
    and "co_id x \<notin> range (oe_order_id env')"
  shows "(\<forall>y. fst (get_catalog_order_route env' a (co_id x) s1) \<noteq> Inr y) \<and>
    (\<forall>y. fst (update_catalog_order_route env' a (co_id x) status user s1) \<noteq> Inr y) \<and>
    snd (update_catalog_order_route env' a (co_id x) status user s1) = s"
proof -
  have s1: "s1 = s" using assms(1) by (simp add: list_catalog_orders_route_def)
  have none: "get_catalog_order env' a (co_id x) s \<noteq> Inr (Some y, s')" for y s'
  proof
    assume "get_catalog_order env' a (co_id x) s = Inr (Some y, s')"
    then obtain j where filled: "backfill_catalog_orders_from_messages env' a s = Inr (j, s')" and y: "y \<in> set (catalog_orders s')" "co_id y = co_id x"
      by (rule fetched_order)
    show False using backfill_ids [OF filled] imageI [OF y(1), of co_id] assms(3,4) y(2) by auto
  qed
  show ?thesis
  proof (cases "get_catalog_order env' a (co_id x) s")
    case (Inl e)
    then show ?thesis by (simp add: s1 get_catalog_order_route_def update_catalog_order_route_def)
  next
    case (Inr r)
    obtain f s' where "r = (f, s')" by force
    moreover have "f = None" using none [of _ s'] Inr calculation by (cases f) blast+
    ultimately show ?thesis using Inr by (simp add: s1 get_catalog_order_route_def update_catalog_order_route_def)
  qed
qed

section \<open>Orders of messages\<close>

lemma create_deal_orders: "create_deal env a m p s = (r, s') \<Longrightarrow> catalog_orders s' = catalog_orders s"
  by (auto simp: create_deal_def store_deal_def put_deal_def add_deal_activity_def Let_def split: sum.splits if_splits prod.splits)

lemma order_deal_orders: "create_deal_from_whatsapp_order env a k org d c s = (r, s') \<Longrightarrow> catalog_orders s' = catalog_orders s"
  by (auto simp: create_deal_from_whatsapp_order_def Let_def dest: create_deal_orders split: sum.splits prod.splits option.splits)

lemma handled_orders:
  assumes "handle_inbound_order env wa k c m d s = (r, s')" "orders_ok alone s" "order_fresh env 0 s" "length (oe_day env) = 8"
  shows "orders_ok alone s'"
proof -
  have keep: "orders_ok alone t" "order_fresh env 0 t" if "catalog_orders t = catalog_orders s" for t
    using assms(2,3) that by (simp_all add: orders_ok_def order_fresh_def)
  have put: "catalog_orders (put_message m' s) = catalog_orders s" for m' by (simp add: put_message_def)
  show ?thesis
    using assms(1) created_order_ok [OF _ keep, THEN conjunct1] keep(1) assms(4) order_deal_orders
    by (fastforce simp: handle_inbound_order_def Let_def put split: sum.splits prod.splits)
qed

lemma numbered_keys:
  assumes "map (\<lambda>x. (co_account_id x, co_order_number x)) os = map (\<lambda>x. (co_account_id x, co_order_number x)) os'"
  shows "numbered os \<longleftrightarrow> numbered os'"
proof -
  let ?keys = "map (\<lambda>x. (co_account_id x, co_order_number x))"
  have of_keys: "numbers_of xs a day = map snd (filter (\<lambda>p. fst p = a \<and> starts_with (snd p) (order_prefix day)) (?keys xs))" for xs a day
    by (simp add: numbers_of_def filter_map o_def)
  have "numbers_of os a day = numbers_of os' a day" for a day unfolding of_keys assms by (rule refl)
  moreover have "co_order_number ` set xs = snd ` set (?keys xs)" for xs by (simp add: image_image)
  then have "co_order_number ` set os = co_order_number ` set os'" using assms by metis
  then have numbers: "(\<forall>x \<in> set os. P (co_order_number x)) \<longleftrightarrow> (\<forall>x \<in> set os'. P (co_order_number x))" for P
    using ball_simps(9) [of co_order_number _ P] by metis
  ultimately show ?thesis
    unfolding numbered_def numbers [of "\<lambda>n. \<exists>day t. length day = 8 \<and> n = order_prefix day @ t"] by (simp only:)
qed

lemma put_order_ok:
  assumes "orders_ok alone s" "y \<in> set (catalog_orders s)" "co_id x = co_id y" "co_message_id x = co_message_id y" "co_account_id x = co_account_id y"
    "co_order_number x = co_order_number y"
  shows "orders_ok alone (put_order x s)"
proof -
  have same: "z = y" if "z \<in> set (catalog_orders s)" "co_id z = co_id y" for z
    using assms(1,2) that by (auto simp: orders_ok_def dest: row_by_id)
  then have keys: "map f (tbl_put co_id x (catalog_orders s)) = map f (catalog_orders s)" if "f x = f y" for f :: "catalog_order \<Rightarrow> 'b"
    using assms(3) that by (auto simp: tbl_put_def)
  show ?thesis
    using assms(1,3-6) numbered_keys [OF keys [of "\<lambda>x. (co_account_id x, co_order_number x)"]]
    by (simp add: orders_ok_def put_order_def keys)
qed

lemma reviewed_orders:
  assumes "update_catalog_order_route env a i status user s = (r, s')" "orders_ok alone s" "order_fresh env 0 s" "length (oe_day env) = 8"
  shows "orders_ok alone s'"
proof (cases "\<exists>x s1. get_catalog_order env a i s = Inr (Some x, s1)")
  case True
  then obtain x s1 where get: "get_catalog_order env a i s = Inr (Some x, s1)" by blast
  then obtain k where filled: "backfill_catalog_orders_from_messages env a s = Inr (k, s1)" and x: "x \<in> set (catalog_orders s1)"
    by (rule fetched_order)
  have ok: "orders_ok alone s1" by (rule backfill_ok [OF filled assms(2-4)])
  obtain y where "s' = put_order y s1" "co_id y = co_id x" "co_message_id y = co_message_id x" "co_account_id y = co_account_id x"
    "co_order_number y = co_order_number x"
    using assms(1) get by (auto simp: update_catalog_order_route_def update_catalog_order_status_def Let_def split: if_splits)
  then show ?thesis using put_order_ok [OF ok x] by simp
next
  case False
  then have "s' = s" using assms(1) by (auto simp: update_catalog_order_route_def split: sum.splits prod.splits option.splits)
  then show ?thesis using assms(2) by simp
qed

lemma deal_deletion_orders:
  assumes "delete_deal a i m s = (r, s')" "orders_ok alone s"
  shows "orders_ok alone s'"
proof (cases "s' = s")
  case True
  then show ?thesis using assms(2) by simp
next
  case False
  then have rows: "catalog_orders s' = map (\<lambda>x. if co_deal_id x = Some i then x\<lparr>co_deal_id := None\<rparr> else x) (catalog_orders s)"
    using assms(1) by (auto simp: delete_deal_def tbl_update_def split: sum.splits)
  have keys: "map f (catalog_orders s') = map f (catalog_orders s)" if "\<And>x. f (x\<lparr>co_deal_id := None\<rparr>) = f x" for f :: "catalog_order \<Rightarrow> 'b"
    unfolding rows using that by simp
  show ?thesis
    using assms(2) numbered_keys [OF keys [of "\<lambda>x. (co_account_id x, co_order_number x)"]] by (simp add: orders_ok_def keys)
qed

text \<open>What requests do to the orders.  Every environment gives new ids to the orders and the day in eight digits.  With the flag, every request runs
  on its own and no order is removed.  Without it, an order may be stored on other rows than those it was made from, as it is when
  two requests overlap: nothing is locked between the look at the orders and the insert.  Then orders may also go, as they do with their
  account, message or contact.\<close>

inductive order_step :: "bool \<Rightarrow> db \<Rightarrow> db \<Rightarrow> bool" for alone where
  order_received: "order_fresh env 0 s \<Longrightarrow> length (oe_day env) = 8 \<Longrightarrow> handle_inbound_order env wa k c m d s = (r, s') \<Longrightarrow> order_step alone s s'"
| orders_listed: "list_catalog_orders_route env ilike a q s = (rl, s') \<Longrightarrow> order_step alone s s'"
| order_fetched: "get_catalog_order_route env a i s = (rg, s') \<Longrightarrow> order_step alone s s'"
| order_reviewed: "order_fresh env 0 s \<Longrightarrow> length (oe_day env) = 8 \<Longrightarrow> update_catalog_order_route env a i status user s = (rg, s') \<Longrightarrow>
    order_step alone s s'"
| order_deal_deleted: "delete_deal a i m s = (rd, s') \<Longrightarrow> order_step alone s s'"
| order_overtaken: "\<not> alone \<Longrightarrow> create_catalog_order env n a pl d names seen = Inr (x, t) \<Longrightarrow> x \<notin> set (catalog_orders seen) \<Longrightarrow>
    co_id x \<notin> co_id ` set (catalog_orders s) \<Longrightarrow> insert_order pl x s = Inr (y, s') \<Longrightarrow> order_step alone s s'"
| orders_removed: "\<not> alone \<Longrightarrow> order_step alone s (s\<lparr>catalog_orders := filter keep (catalog_orders s)\<rparr>)"

lemma order_step_ok: "order_step alone s s' \<Longrightarrow> orders_ok alone s \<Longrightarrow> orders_ok alone s'"
proof (induction rule: order_step.induct)
  case (order_received env s wa k c m d r s')
  then show ?case using handled_orders [OF order_received(3,4,1,2)] by simp
next
  case (orders_listed env ilike a q s rl s')
  then show ?case by (simp add: list_catalog_orders_route_def)
next
  case (order_fetched env a i s rg s')
  then have "s' = s" by (auto simp: get_catalog_order_route_def split: sum.splits prod.splits option.splits)
  then show ?case using order_fetched by simp
next
  case (order_reviewed env s a i status user rg s')
  then show ?case using reviewed_orders [OF order_reviewed(3,4,1,2)] by simp
next
  case (order_deal_deleted a i m s rd s')
  then show ?case by (rule deal_deletion_orders)
next
  case (order_overtaken env n a pl d names seen x t s y s')
  then show ?case using inserted_order_ok [OF order_overtaken(5) order_overtaken(6) order_overtaken(4)] by blast
next
  case (orders_removed s keep)
  then show ?case by (simp add: orders_ok_def distinct_map_filter)
qed

text \<open>C27. Starting without orders, whatever requests come, overlapping or not, and whatever orders go, a message never has two orders.  As long as the requests
  run one after the other and no order is removed, the orders of an account and a day bear the numbers 1, 2, 3 and so on in the order of their
  creation, so that no two orders of an account have the same number.  Requests that overlap break this: see
  \<open>overlapping_orders_share_number\<close>.\<close>

theorem orders_are_numbered:
  assumes "(order_step alone)\<^sup>*\<^sup>* s s'" "catalog_orders s = []" "length day = 8"
  shows "distinct (map co_message_id (catalog_orders s')) \<and>
    (alone \<longrightarrow> distinct (map (\<lambda>x. (co_account_id x, co_order_number x)) (catalog_orders s')) \<and>
       numbers_of (catalog_orders s') a day = map (\<lambda>i. order_prefix day @ pad4 (i + 1)) [0..<length (numbers_of (catalog_orders s') a day)])"
proof -
  have "orders_ok alone s" using assms(2) by (simp add: orders_ok_def numbered_def numbers_of_def)
  with assms(1) have "orders_ok alone s'" by (induction rule: rtranclp_induct) (auto intro: order_step_ok)
  then show ?thesis using numbered_distinct assms(3) by (simp add: orders_ok_def numbered_def)
qed

text \<open>Two orders of an account that are made from the same rows get the same number, and the second is stored beside the first.\<close>

lemma overlapping_orders_share_number:
  assumes "create_catalog_order env n a pl d names s = Inr (x, s1)" "create_catalog_order env' n' a pl' d' names' s = Inr (y, s2)"
    and "x \<notin> set (catalog_orders s)" "y \<notin> set (catalog_orders s)" "op_message_id pl \<noteq> op_message_id pl'" "oe_day env = oe_day env'"
  shows "co_account_id x = co_account_id y \<and> co_order_number x = co_order_number y \<and>
    (\<exists>s3. insert_order pl' y s1 = Inr (y, s3) \<and> catalog_orders s3 = catalog_orders s @ [x, y])"
proof -
  have x: "co_message_id x = op_message_id pl" and x': "insert_order pl x s = Inr (x, s1)"
    and xn: "co_account_id x = a" "co_order_number x = next_order_number (oe_day env) s a"
    using create_order_effect [OF assms(1)] assms(3) by blast+
  have y: "co_message_id y = op_message_id pl'" and y': "insert_order pl' y s = Inr (y, s2)"
    and yn: "co_account_id y = a" "co_order_number y = next_order_number (oe_day env') s a"
    using create_order_effect [OF assms(2)] assms(4) by blast+
  have s1: "s1 = s\<lparr>catalog_orders := catalog_orders s @ [x]\<rparr>" by (rule insert_order_effect(2) [OF x'])
  have "get_contact_row s1 = get_contact_row s" by (simp add: s1 get_contact_row_def [abs_def])
  moreover have "co_message_id y \<notin> co_message_id ` set (catalog_orders s1)"
    using insert_order_effect(4) [OF y'] x y assms(5) by (simp add: s1)
  ultimately have "insert_order pl' y s1 = Inr (y, s1\<lparr>catalog_orders := catalog_orders s1 @ [y]\<rparr>)"
    using y' unfolding insert_order_def by (simp split: if_splits)
  then show ?thesis using xn yn assms(6) by (simp add: s1)
qed

section \<open>The deal of an order\<close>

lemma put_message_frame [simp]:
  "get_deal_row (put_message m s) = get_deal_row s" "catalog_orders (put_message m s) = catalog_orders s"
  by (auto simp: put_message_def get_deal_row_def fun_eq_iff)

lemma put_message_rows [simp]:
  "resolve_order_product_names (put_message m s) a ls = resolve_order_product_names s a ls" "get_contact_row (put_message m s) = get_contact_row s"
  "get_organization (put_message m s) = get_organization s"
  "deal_references (put_message m s) = deal_references s"
  by (auto simp: put_message_def resolve_order_product_names_def deal_references_def get_contact_row_def [abs_def] get_organization_def [abs_def]
      get_membership_def [abs_def] fun_eq_iff)

lemma order_deal_stored:
  assumes "get_deal_row s (de_deal_id (oe_deal env)) = None" "get_contact_row s k \<noteq> None" "get_organization s org \<noteq> None"
    and "oe_text env d (resolve_order_product_names s a (order_lines d)) = Inr body" "order_total_amount env d = Inr (amount, currency)"
    and "sum_quantities (order_lines d) = Inr n" "\<bar>hundredths amount\<bar> < 10 ^ 14" "length currency \<le> 8"
  obtains deal s' where "create_deal_from_whatsapp_order env a k (Some org) d (Some c) s = (Inr deal, s')"
    "get_deal_row s' (de_deal_id (oe_deal env)) = Some deal" "contacts s' = contacts s"
    "deal_id deal = de_deal_id (oe_deal env)" "deal_account_id deal = a" "deal_contact_id deal = Some k" "deal_organization_id deal = Some org"
    "deal_source deal = Some ''whatsapp_order''" "deal_amount deal = hundredths amount" "deal_currency deal = currency"
proof -
  let ?p = "(plain_deal (take 200 (oe_title env (Option.bind (get_contact_row s k) con_display_name) n)))\<lparr>dc_contact_id := Some k,
    dc_amount := hundredths amount, dc_currency := currency, dc_organization_id := Some org, dc_source := Some ''whatsapp_order'',
    dc_description := Some (take 4000 body), dc_probability := 60\<rparr>"
  let ?d = "new_deal (oe_deal env) a ?p"
  have "deal_fits ?d" "deal_references s ?d"
    using assms(2,3,7,8) by (simp_all add: deal_fits_def deal_references_def known_def new_deal_def plain_deal_def)
  then obtain s1 where create: "create_deal (oe_deal env) a None ?p s = (Inr ?d, s1)"
    and s1: "contacts s1 = contacts s" "get_deal_row s1 (de_deal_id (oe_deal env)) = Some ?d"
    by (rule create_deal_returns [OF _ _ assms(1)])
  obtain s' where run: "create_deal_from_whatsapp_order env a k (Some org) d (Some c) s = (Inr ?d, s')"
    and s': "deals s' = deals s1" "contacts s' = contacts s1"
    using assms(4-6) create by (simp add: create_deal_from_whatsapp_order_def Let_def)
  show thesis
    by (rule that [OF run]) (use s1 s' in \<open>simp_all add: get_deal_row_def new_deal_def plain_deal_def\<close>)
qed

definition catalog_id_fits :: "json \<Rightarrow> bool" where
  "catalog_id_fits d \<longleftrightarrow> (case text_or_none (jget d ''catalog_id'') of None \<Rightarrow> True | Some t \<Rightarrow> length t \<le> 80)"

lemma new_order_stored:
  assumes "op_message_id pl \<notin> co_message_id ` set (catalog_orders s)" "op_contact_id pl = Some k" "get_contact_row s k \<noteq> None"
    and "order_total_amount env d = Inr (amount, currency)" "\<bar>hundredths amount\<bar> < 10 ^ 14" "length currency \<le> 8"
  shows "if returns (build_line_items env d names) \<and> catalog_id_fits d
    then \<exists>x s'. create_catalog_order env n a pl d (Some names) s = Inr (x, s') \<and> s' = s\<lparr>catalog_orders := catalog_orders s @ [x]\<rparr> \<and>
      co_account_id x = a \<and> co_organization_id x = op_organization_id pl \<and> co_channel_id x = op_channel_id pl \<and> co_contact_id x = k \<and>
      co_conversation_id x = op_conversation_id pl \<and> co_message_id x = op_message_id pl \<and> co_deal_id x = op_deal_id pl \<and>
      co_subtotal x = hundredths amount \<and> co_currency x = currency
    else \<exists>e. create_catalog_order env n a pl d (Some names) s = Inl e"
proof -
  have none: "find (\<lambda>x. co_message_id x = op_message_id pl) (catalog_orders s) = None"
    unfolding find_None_iff using assms(1) by (metis imageI)
  note run = create_catalog_order_def [of env n a pl d "Some names" s, unfolded none option.case assms(4) Let_def sum.case prod.case]
  show ?thesis
  proof (cases "build_line_items env d names")
    case (Inl e)
    then show ?thesis by (simp add: run returns_def)
  next
    case (Inr items)
    obtain x where made: "create_catalog_order env n a pl d (Some names) s = insert_order pl x s"
      and x: "co_account_id x = a" "co_organization_id x = op_organization_id pl" "co_channel_id x = op_channel_id pl" "co_contact_id x = k"
        "co_conversation_id x = op_conversation_id pl" "co_message_id x = op_message_id pl" "co_deal_id x = op_deal_id pl"
        "co_subtotal x = hundredths amount" "co_currency x = currency"
      and catalog: "co_meta_catalog_id x = text_or_none (jget d ''catalog_id'')"
      by (rule that [OF run [unfolded Inr sum.case]]) (simp_all add: assms(2))
    have small: "\<not> (length currency > 8 \<or> \<bar>hundredths amount\<bar> \<ge> 10 ^ 14)" using assms(5,6) by linarith
    have "insert_order pl x s =
        (if catalog_id_fits d then Inr (x, s\<lparr>catalog_orders := catalog_orders s @ [x]\<rparr>) else Inl order_data_error)"
      using small assms(1,3) unfolding insert_order_def x catalog assms(2) catalog_id_fits_def
      by (cases "text_or_none (jget d ''catalog_id'')") (auto simp: not_le)
    then show ?thesis unfolding made Inr using x by simp
  qed
qed

text \<open>C28. An order that arrives for the first time leaves a deal and an order that belong together.  Given a contact and a branch that exist, an order whose text,
  prices and quantities can be read and an amount that fits the column, the deal is stored, with the account, the contact, the branch of the number,
  the amount and the currency.  When the lines can be read and the id of the catalog fits its column too, one order is added, which names the deal and the message, and has the
  account, branch and channel of the number, the contact, the conversation, and the amount and currency of the deal.  Otherwise the handling ends
  in an error, no order is added, and the deal stays without one.\<close>

theorem handled_order_linked:
  assumes "handle_inbound_order env wa k c m d s = (r, s')" "get_deal_row s (de_deal_id (oe_deal env)) = None"
    and "msg_id m \<notin> co_message_id ` set (catalog_orders s)" "get_contact_row s (con_id k) \<noteq> None" "get_organization s (wa_organization_id wa) \<noteq> None"
    and "names = resolve_order_product_names s (wa_account_id wa) (order_lines d)" "oe_text env d names = Inr body"
    and "order_total_amount env d = Inr (amount, currency)" "sum_quantities (order_lines d) = Inr n" "\<bar>hundredths amount\<bar> < 10 ^ 14" "length currency \<le> 8"
  shows "\<exists>deal. get_deal_row s' (de_deal_id (oe_deal env)) = Some deal \<and> deal_account_id deal = wa_account_id wa \<and>
    deal_contact_id deal = Some (con_id k) \<and> deal_organization_id deal = Some (wa_organization_id wa) \<and> deal_source deal = Some ''whatsapp_order'' \<and>
    deal_amount deal = hundredths amount \<and> deal_currency deal = currency \<and>
    (if returns (build_line_items env d names) \<and> catalog_id_fits d
     then \<exists>order. r = Inr (deal, order) \<and> catalog_orders s' = catalog_orders s @ [order] \<and> co_deal_id order = Some (de_deal_id (oe_deal env)) \<and>
       co_message_id order = msg_id m \<and> co_account_id order = wa_account_id wa \<and> co_organization_id order = wa_organization_id wa \<and>
       co_channel_id order = wa_channel_id wa \<and> co_contact_id order = con_id k \<and> co_conversation_id order = Some (conv_id c) \<and>
       co_subtotal order = deal_amount deal \<and> co_currency order = deal_currency deal
     else \<not> returns r \<and> catalog_orders s' = catalog_orders s)"
proof -
  let ?a = "wa_account_id wa" and ?s = "put_message (m\<lparr>msg_text_body := Some body\<rparr>) s"
  obtain deal s1 where deal: "create_deal_from_whatsapp_order env ?a (con_id k) (Some (wa_organization_id wa)) d (Some (conv_id c)) ?s = (Inr deal, s1)"
    and s1: "get_deal_row s1 (de_deal_id (oe_deal env)) = Some deal" "contacts s1 = contacts ?s" "deal_id deal = de_deal_id (oe_deal env)"
    and d: "deal_account_id deal = ?a" "deal_contact_id deal = Some (con_id k)" "deal_organization_id deal = Some (wa_organization_id wa)"
      "deal_source deal = Some ''whatsapp_order''" "deal_amount deal = hundredths amount" "deal_currency deal = currency"
    by (rule order_deal_stored [of ?s env "con_id k" "wa_organization_id wa" d ?a body amount currency n "conv_id c"])
      (use assms(2,4,5,7-11) in \<open>simp_all flip: assms(6)\<close>)
  let ?pl = "\<lparr>op_organization_id = wa_organization_id wa, op_channel_id = wa_channel_id wa, op_contact_id = Some (con_id k),
    op_conversation_id = Some (conv_id c), op_message_id = msg_id m, op_deal_id = Some (deal_id deal)\<rparr>"
  have run: "(r, s') = (case create_catalog_order env 0 ?a ?pl d (Some names) s1 of
      Inl e \<Rightarrow> (Inl e, s1) | Inr (order, s2) \<Rightarrow> (Inr (deal, order), s2))"
    using assms(1) deal by (simp add: handle_inbound_order_def Let_def assms(7) flip: assms(6))
  have old: "catalog_orders s1 = catalog_orders s" using order_deal_orders [OF deal] by simp
  have contact: "get_contact_row s1 (con_id k) \<noteq> None" using assms(4) s1(2) by (simp add: get_contact_row_def put_message_def)
  have "op_message_id ?pl \<notin> co_message_id ` set (catalog_orders s1)" "op_contact_id ?pl = Some (con_id k)" using assms(3) old by simp_all
  note order = new_order_stored [OF this contact assms(8,10,11), of names 0 ?a]
  show ?thesis
  proof (cases "returns (build_line_items env d names) \<and> catalog_id_fits d")
    case True
    with order obtain x where "create_catalog_order env 0 ?a ?pl d (Some names) s1 = Inr (x, s1\<lparr>catalog_orders := catalog_orders s1 @ [x]\<rparr>)"
      and x: "co_account_id x = ?a" "co_organization_id x = wa_organization_id wa" "co_channel_id x = wa_channel_id wa" "co_contact_id x = con_id k"
        "co_conversation_id x = Some (conv_id c)" "co_message_id x = msg_id m" "co_deal_id x = Some (deal_id deal)"
        "co_subtotal x = hundredths amount" "co_currency x = currency" by auto
    with run have r: "r = Inr (deal, x)" "s' = s1\<lparr>catalog_orders := catalog_orders s1 @ [x]\<rparr>" by simp_all
    have "get_deal_row s' (de_deal_id (oe_deal env)) = Some deal" using s1(1) by (simp add: r(2) get_deal_row_def)
    then show ?thesis using True r x d s1(3) old by simp
  next
    case False
    with order run have "\<not> returns r" "s' = s1" by (auto simp: returns_def)
    then show ?thesis using False s1(1) d old by simp
  qed
qed

section \<open>Instances\<close>

definition demo_order_env :: order_env where
  "demo_order_env = \<lparr>oe_now = 900, oe_day = ''20260105'', oe_order_id = (\<lambda>n. 1000 + n), oe_decimal = (\<lambda>t. Inr (of_int (digits_value t))),
     oe_title = (\<lambda>_ _. ''Order''), oe_text = (\<lambda>_ _. Inr ''order''), oe_deal = demo_deal_env, oe_note_id = 62, oe_note = (\<lambda>_. ''chat'')\<rparr>"

definition demo_order :: json where
  "demo_order = JObj [(''catalog_id'', JStr ''9''), (''product_items'', JList [JObj [(''product_retailer_id'', JStr ''A''), (''quantity'', JInt 2),
     (''item_price'', JStr ''5''), (''currency'', JStr ''KWD'')]])]"

definition demo_order_message :: "uuid \<Rightarrow> message" where
  "demo_order_message i = \<lparr>msg_id = i, msg_account_id = 1, msg_organization_id = 2, msg_channel_id = 3, msg_contact_id = Some 7,
     msg_conversation_id = Some 51, msg_external_message_id = None, msg_direction = INBOUND, msg_type = MtOrder, msg_from_address = ''96550000001'',
     msg_to_address = ''96522200000'', msg_text_body = None, msg_provider_payload = Some (JObj [(''order_parsed'', demo_order)]),
     msg_status = MsgReceived, msg_created_at = 800\<rparr>"

definition order_example :: db where
  "order_example = deal_example\<lparr>messages := [demo_order_message 80]\<rparr>"

lemma listed_order_not_found_witness:
  "\<exists>x. fst (list_catalog_orders_route demo_order_env (=) 1 \<lparr>oq_organization_id = None, oq_status = None, oq_search = None, oq_page = 1, oq_page_size = 20\<rparr>
       order_example) = Inr ([x], 1) \<and>
     (\<forall>y. fst (get_catalog_order_route (demo_order_env\<lparr>oe_order_id := \<lambda>n. 2000 + n\<rparr>) 1 (co_id x) order_example) \<noteq> Inr y)"
proof -
  let ?q = "\<lparr>oq_organization_id = None, oq_status = None, oq_search = None, oq_page = 1, oq_page_size = 20\<rparr>"
  let ?r = "list_catalog_orders_route demo_order_env (=) 1 ?q order_example"
  have "map_sum id (map_prod (map co_id) id) (fst ?r) = Inr ([1000], 1)" by code_simp
  then obtain x where x: "fst ?r = Inr ([x], 1)" "co_id x = 1000" by (auto simp: map_sum_Inr map_prod_def split: prod.splits)
  have run: "?r = (Inr ([x], 1), order_example)" using x(1) by (simp add: list_catalog_orders_route_def)
  have "co_id x \<notin> co_id ` set (catalog_orders order_example)" "co_id x \<notin> range (oe_order_id (demo_order_env\<lparr>oe_order_id := \<lambda>n. 2000 + n\<rparr>))"
    using x(2) by (auto simp: order_example_def deal_example_def empty_db_def)
  from listed_order_not_found [OF run _ this] x show ?thesis by auto
qed

lemma orders_are_numbered_witness:
  "map co_order_number (catalog_orders (snd (handle_inbound_order demo_order_env (demo_wa 4 1 3) (fresh_contact 7 ''96550000001'')
     (demo_conversation 51 None) (demo_order_message 80) demo_order order_example))) = [''ORD-20260105-0001''] \<and>
   distinct (map co_message_id (catalog_orders (snd (handle_inbound_order demo_order_env (demo_wa 4 1 3) (fresh_contact 7 ''96550000001'')
     (demo_conversation 51 None) (demo_order_message 80) demo_order order_example))))"
proof -
  let ?run = "handle_inbound_order demo_order_env (demo_wa 4 1 3) (fresh_contact 7 ''96550000001'') (demo_conversation 51 None)
     (demo_order_message 80) demo_order order_example"
  have none: "catalog_orders order_example = []" by code_simp
  have "order_fresh demo_order_env 0 order_example" "length (oe_day demo_order_env) = 8"
    using none by (simp_all add: order_fresh_def demo_order_env_def inj_def)
  then have "order_step True order_example (snd ?run)" by (rule order_received) (rule surjective_pairing)
  from orders_are_numbered [OF r_into_rtranclp [of "order_step True", OF this] none, of "''20260105''"]
  have "distinct (map co_message_id (catalog_orders (snd ?run)))" by simp
  moreover have "map co_order_number (catalog_orders (snd ?run)) = [''ORD-20260105-0001'']" by code_simp
  ultimately show ?thesis by simp
qed

lemma handled_order_linked_witness:
  "\<exists>deal order s'. handle_inbound_order demo_order_env (demo_wa 4 1 3) (fresh_contact 7 ''96550000001'') (demo_conversation 51 None)
       (demo_order_message 80) demo_order order_example = (Inr (deal, order), s') \<and>
     get_deal_row s' 60 = Some deal \<and> co_deal_id order = Some 60 \<and> co_organization_id order = 2 \<and> co_subtotal order = 1000 \<and> deal_amount deal = 1000"
proof -
  let ?run = "handle_inbound_order demo_order_env (demo_wa 4 1 3) (fresh_contact 7 ''96550000001'') (demo_conversation 51 None)
     (demo_order_message 80) demo_order order_example"
  have free: "get_deal_row order_example (de_deal_id (oe_deal demo_order_env)) = None"
    "msg_id (demo_order_message 80) \<notin> co_message_id ` set (catalog_orders order_example)"
    "get_contact_row order_example (con_id (fresh_contact 7 ''96550000001'')) \<noteq> None"
    "get_organization order_example (wa_organization_id (demo_wa 4 1 3)) \<noteq> None" by code_simp+
  have read: "oe_text demo_order_env demo_order (resolve_order_product_names order_example (wa_account_id (demo_wa 4 1 3)) (order_lines demo_order)) = Inr ''order''"
    "order_total_amount demo_order_env demo_order = Inr (10, ''KWD'')" "sum_quantities (order_lines demo_order) = Inr 2" "\<bar>hundredths 10\<bar> < 10 ^ 14"
    "length ''KWD'' \<le> 8" by code_simp+
  have fits: "returns (build_line_items demo_order_env demo_order (resolve_order_product_names order_example (wa_account_id (demo_wa 4 1 3)) (order_lines demo_order)))"
    "catalog_id_fits demo_order" by code_simp+
  have values': "de_deal_id (oe_deal demo_order_env) = 60" "wa_organization_id (demo_wa 4 1 3) = 2" "hundredths 10 = 1000" by code_simp+
  show ?thesis
    using handled_order_linked [OF surjective_pairing [of ?run] free refl read] fits values' by (metis prod.collapse)
qed

end
