(* ===== verification/DealHistory.thy ===== *)
theory DealHistory
  imports OrderFacts Automations
begin

text \<open>
  Where deals come from and how they change: the operations of members, inbound texts, orders from the catalog and the node \<open>create_deal\<close> of
  automations (\<open>workers/automation_tasks.py\<close>).  The history of stages that the activities of a deal tell, and the number of deals that inbound
  messages open for a contact.
\<close>

section \<open>Deals of automations\<close>

text \<open>The node writes the row itself: no activity, no source, no branch.\<close>

definition create_deal_action :: "deal_env \<Rightarrow> (string \<Rightarrow> rat outcome) \<Rightarrow> string \<Rightarrow> automation_run \<Rightarrow> json \<Rightarrow> (string \<times> json) list \<Rightarrow> db \<Rightarrow>
    json outcome \<times> db" where
  "create_deal_action env dec untitled run data context s =
     (let title = py_strip (str_or untitled (jget data ''title'')) in
      case context_uuid data context ''contact_id'' of
        Inl e \<Rightarrow> (Inl e, s)
      | Inr contact_id \<Rightarrow>
          (case dec (str_or ''0'' (jget data ''amount'')) of
             Inl e \<Rightarrow> (Inl e, s)
           | Inr amount \<Rightarrow>
               (let d = new_deal env (ar_account_id run) ((plain_deal (take 200 title))\<lparr>dc_contact_id := contact_id,
                      dc_stage := str_or ''lead'' (jget data ''stage''), dc_amount := hundredths amount,
                      dc_pipeline := str_or ''default'' (jget data ''pipeline''), dc_source := None\<rparr>) in
                case store_deal d s of
                  Inl e \<Rightarrow> (Inl e, s)
                | Inr s1 \<Rightarrow> (Inr (JObj [(''deal_id'', JStr (uuid_str (deal_id d))), (''stage'', JStr (deal_stage d)),
                    (''title'', JStr (deal_title d))]), s1))))"

lemma action_deal:
  assumes "create_deal_action env dec untitled run data context s = (r, s')" "get_deal_row s (de_deal_id env) = None"
  shows "s' = s \<or> (\<exists>p. s' = s\<lparr>deals := deals s @ [new_deal env (ar_account_id run) p]\<rparr> \<and> dc_source p = None)"
proof -
  have id: "deal_id (new_deal env b p) = de_deal_id env" for b p by (simp add: new_deal_def)
  have store: "t = s\<lparr>deals := deals s @ [new_deal env b p]\<rparr>" if "store_deal (new_deal env b p) s = Inr t" for b p t
    using that assms(2) by (auto elim: store_deal_cases simp: id)
  show ?thesis using assms(1) unfolding create_deal_action_def Let_def
    by (auto split: sum.splits dest!: store)
qed

section \<open>Deals of orders\<close>

lemma create_order_frame: "create_catalog_order env n a pl d names s = Inr (x, s') \<Longrightarrow> deals s' = deals s \<and> deal_activities s' = deal_activities s"
  using create_order_effect [of env n a pl d names s x s'] insert_order_effect(2) [of pl x s x s'] by auto

text \<open>What an order adds: nothing, or a deal with the activity of its creation and a note.\<close>

definition order_deal_added :: "order_env \<Rightarrow> uuid \<Rightarrow> uuid \<Rightarrow> db \<Rightarrow> db \<Rightarrow> bool" where
  "order_deal_added env a k s s' \<longleftrightarrow>
     (deals s' = deals s \<and> deal_activities s' = deal_activities s) \<or>
     (\<exists>p note. deals s' = deals s @ [new_deal (oe_deal env) a p] \<and> dc_contact_id p = Some k \<and>
        deal_activities s' = deal_activities s @ [\<lparr>da_id = de_activity_id (oe_deal env), da_deal_id = de_deal_id (oe_deal env),
          da_activity_type = ''created'', da_body = de_created (oe_deal env) (dc_stage p), da_created_by_user_id = None\<rparr>, note] \<and>
        da_deal_id note = de_deal_id (oe_deal env) \<and> da_activity_type note = ''note'')"

lemma order_deal_adds:
  assumes "create_deal_from_whatsapp_order env a k org d (Some c) s = (r, s')" "get_deal_row s (de_deal_id (oe_deal env)) = None"
  shows "order_deal_added env a k s s'"
proof (cases "s' = s")
  case True
  then show ?thesis by (simp add: order_deal_added_def)
next
  case False
  let ?names = "resolve_order_product_names s a (order_lines d)"
  obtain x y n where parts: "order_total_amount env d = Inr (x, y)" "oe_text env d ?names = Inr n" "returns (sum_quantities (order_lines d))"
    using assms(1) False unfolding create_deal_from_whatsapp_order_def Let_def
    by (cases "order_total_amount env d"; cases "oe_text env d ?names"; cases "sum_quantities (order_lines d)") (auto simp: returns_def split: prod.splits)
  obtain q where q: "sum_quantities (order_lines d) = Inr q" using parts(3) by (auto simp: returns_def split: sum.splits)
  obtain p where run: "create_deal_from_whatsapp_order env a k org d (Some c) s = (case create_deal (oe_deal env) a None p s of
      (Inl e, s1) \<Rightarrow> (Inl e, s1)
    | (Inr deal, s1) \<Rightarrow> (Inr deal, s1\<lparr>deal_activities := deal_activities s1 @ [\<lparr>da_id = oe_note_id env, da_deal_id = deal_id deal,
        da_activity_type = ''note'', da_body = oe_note env c, da_created_by_user_id = None\<rparr>]\<rparr>))" and p: "dc_contact_id p = Some k"
    by (rule that [OF create_deal_from_whatsapp_order_def [of env a k org d "Some c" s, unfolded parts q Let_def sum.case prod.case option.case]]) simp
  obtain r1 s1 where create: "create_deal (oe_deal env) a None p s = (r1, s1)" by force
  have made: "r1 = Inr (new_deal (oe_deal env) a p)" "deals s1 = deals s @ [new_deal (oe_deal env) a p]"
    "deal_activities s1 = deal_activities s @ [\<lparr>da_id = de_activity_id (oe_deal env), da_deal_id = de_deal_id (oe_deal env),
      da_activity_type = ''created'', da_body = de_created (oe_deal env) (dc_stage p), da_created_by_user_id = None\<rparr>]"
    using create_deal_effect [OF create assms(2)] assms(1) False unfolding run create by auto
  then have s': "s' = s1\<lparr>deal_activities := deal_activities s1 @ [\<lparr>da_id = oe_note_id env, da_deal_id = deal_id (new_deal (oe_deal env) a p),
      da_activity_type = ''note'', da_body = oe_note env c, da_created_by_user_id = None\<rparr>]\<rparr>"
    using assms(1) unfolding run create by simp
  show ?thesis unfolding order_deal_added_def
    by (rule disjI2, rule exI [of _ p], rule exI [of _ "\<lparr>da_id = oe_note_id env, da_deal_id = deal_id (new_deal (oe_deal env) a p),
      da_activity_type = ''note'', da_body = oe_note env c, da_created_by_user_id = None\<rparr>"]) (simp add: s' made p new_deal_def)
qed

lemma handled_order_deals:
  assumes "handle_inbound_order env wa k c m d s = (r, s')" "get_deal_row s (de_deal_id (oe_deal env)) = None"
  shows "order_deal_added env (wa_account_id wa) (con_id k) s s'"
proof -
  have put: "deals (put_message x s) = deals s" "deal_activities (put_message x s) = deal_activities s" for x by (simp_all add: put_message_def)
  have here: "order_deal_added env (wa_account_id wa) (con_id k) s t"
    if "create_deal_from_whatsapp_order env (wa_account_id wa) (con_id k) org d (Some i) (put_message x s) = (q, t)" for org i x q t
    using order_deal_adds [OF that] assms(2) by (simp add: order_deal_added_def put)
  have more: "order_deal_added env a k' s u" if "order_deal_added env a k' s t" "create_catalog_order env n b pl d names t = Inr (x, u)" for a k' b t u n pl names x
    using that(1) create_order_frame [OF that(2)] by (simp add: order_deal_added_def)
  have "order_deal_added env (wa_account_id wa) (con_id k) s s" by (simp add: order_deal_added_def)
  then show ?thesis
    using assms(1) unfolding handle_inbound_order_def Let_def by (auto split: sum.splits prod.splits dest!: here intro: more)
qed

section \<open>The history of stages\<close>

text \<open>The activities that the service wrote for a deal.\<close>

definition about_stage :: "deal_activity \<Rightarrow> bool" where
  "about_stage x \<longleftrightarrow> da_created_by_user_id x = None \<and> da_activity_type x \<in> {''created'', ''stage_change''}"

definition stage_log :: "db \<Rightarrow> uuid \<Rightarrow> string list" where
  "stage_log s i = map da_body (filter (\<lambda>x. da_deal_id x = i \<and> about_stage x) (deal_activities s))"

text \<open>Texts that tell how a deal came to its stage: the first one names the stage it was created with, each later one a change of the stage.  Without
  the flag, the first one may be missing.\<close>

inductive tells :: "(string \<Rightarrow> string) \<Rightarrow> (string \<Rightarrow> string \<Rightarrow> string) \<Rightarrow> bool \<Rightarrow> string list \<Rightarrow> string \<Rightarrow> bool" for cb mb full where
  first: "tells cb mb full [cb x] x"
| silent: "\<not> full \<Longrightarrow> tells cb mb full [] x"
| moved: "tells cb mb full bs x \<Longrightarrow> x \<noteq> y \<Longrightarrow> tells cb mb full (bs @ [mb x y]) y"

text \<open>A deal with a source tells its whole history.\<close>

definition history_ok :: "(string \<Rightarrow> string) \<Rightarrow> (string \<Rightarrow> string \<Rightarrow> string) \<Rightarrow> db \<Rightarrow> bool" where
  "history_ok cb mb s \<longleftrightarrow> distinct (map deal_id (deals s)) \<and> da_deal_id ` set (deal_activities s) \<subseteq> deal_id ` set (deals s) \<and>
     (\<forall>d \<in> set (deals s). tells cb mb (deal_source d \<noteq> None) (stage_log s (deal_id d)) (deal_stage d))"

inductive deal_step :: "(string \<Rightarrow> string) \<Rightarrow> (string \<Rightarrow> string \<Rightarrow> string) \<Rightarrow> db \<Rightarrow> db \<Rightarrow> bool" for cb mb where
  deal_created: "de_created env = cb \<Longrightarrow> get_deal_row s (de_deal_id env) = None \<Longrightarrow> create_deal env a m p s = (r, s') \<Longrightarrow> deal_step cb mb s s'"
| deal_from_conversation: "de_created env = cb \<Longrightarrow> get_deal_row s (de_deal_id env) = None \<Longrightarrow>
    create_deal_from_conversation env a i title s = (r, s') \<Longrightarrow> deal_step cb mb s s'"
| deal_from_message: "de_created env = cb \<Longrightarrow> get_deal_row s (de_deal_id env) = None \<Longrightarrow>
    maybe_auto_create_deal_from_inbound env a k org body s = (ro, s') \<Longrightarrow> deal_step cb mb s s'"
| deal_from_order: "de_created (oe_deal oenv) = cb \<Longrightarrow> get_deal_row s (de_deal_id (oe_deal oenv)) = None \<Longrightarrow>
    handle_inbound_order oenv wa k' c msg d s = (rp, s') \<Longrightarrow> deal_step cb mb s s'"
| deal_from_automation: "get_deal_row s (de_deal_id env) = None \<Longrightarrow> create_deal_action env dec untitled run data context s = (rj, s') \<Longrightarrow>
    deal_step cb mb s s'"
| deal_updated: "de_moved env = mb \<Longrightarrow> update_deal env a i m f s = (ru, s') \<Longrightarrow> deal_step cb mb s s'"
| deals_moved: "(\<And>n. de_moved (envs n) = mb) \<Longrightarrow> bulk_update_stage envs a ids stage s = (rn, s') \<Longrightarrow> deal_step cb mb s s'"
| deal_deleted: "delete_deal a i m s = (rd, s') \<Longrightarrow> deal_step cb mb s s'"
| deal_noted: "post_deal_activity j a i ty body user s = (ra, s') \<Longrightarrow> deal_step cb mb s s'"

lemma stage_log_append:
  "stage_log (s\<lparr>deal_activities := deal_activities s @ [x]\<rparr>) i = stage_log s i @ (if da_deal_id x = i \<and> about_stage x then [da_body x] else [])"
  by (simp add: stage_log_def)

lemma history_rows: "deals s' = deals s \<Longrightarrow> deal_activities s' = deal_activities s \<Longrightarrow> history_ok cb mb s' \<longleftrightarrow> history_ok cb mb s"
  by (simp add: history_ok_def stage_log_def)

lemma added_history:
  assumes "history_ok cb mb s" "deal_id d \<notin> deal_id ` set (deals s)" "deals s' = deals s @ [d]" "deal_activities s' = deal_activities s @ xs"
    and "\<And>x. x \<in> set xs \<Longrightarrow> da_deal_id x = deal_id d" "tells cb mb (deal_source d \<noteq> None) (map da_body (filter about_stage xs)) (deal_stage d)"
  shows "history_ok cb mb s'"
proof -
  have "deal_id d \<notin> da_deal_id ` set (deal_activities s)" using assms(1,2) unfolding history_ok_def by blast
  then have "filter (\<lambda>x. da_deal_id x = deal_id d \<and> about_stage x) (deal_activities s) = []" by (simp add: filter_empty_conv) (metis imageI)
  moreover have "filter (\<lambda>x. da_deal_id x = i \<and> about_stage x) xs = (if i = deal_id d then filter about_stage xs else [])" for i
    using assms(5) by (auto simp: filter_empty_conv intro: filter_cong)
  ultimately have log: "stage_log s' i = (if i = deal_id d then map da_body (filter about_stage xs) else stage_log s i)" for i
    by (simp add: stage_log_def assms(4))
  have "tells cb mb (deal_source x \<noteq> None) (stage_log s' (deal_id x)) (deal_stage x)" if "x \<in> set (deals s')" for x
  proof (cases "x = d")
    case True
    then show ?thesis using assms(6) by (simp add: log)
  next
    case False
    then have "x \<in> set (deals s)" using that assms(3) by simp
    then have "deal_id x \<noteq> deal_id d" "x \<in> set (deals s)" using assms(2) by (metis imageI)+
    then show ?thesis using assms(1) by (simp add: log history_ok_def)
  qed
  moreover have "distinct (map deal_id (deals s'))" using assms(1-3) by (simp add: history_ok_def)
  moreover have "da_deal_id ` set (deal_activities s') \<subseteq> deal_id ` set (deals s')" using assms(1,5) by (auto simp: history_ok_def assms(3,4))
  ultimately show ?thesis by (simp add: history_ok_def)
qed

lemma new_deal_fields [simp]:
  "deal_id (new_deal env a p) = de_deal_id env" "deal_stage (new_deal env a p) = dc_stage p" "deal_source (new_deal env a p) = dc_source p"
  "deal_contact_id (new_deal env a p) = dc_contact_id p" "deal_account_id (new_deal env a p) = a"
  by (simp_all add: new_deal_def)

lemma unused_deal_id: "get_deal_row s i = None \<Longrightarrow> i \<notin> deal_id ` set (deals s)"
  by (simp add: get_deal_row_def tbl_get_None_iff)

lemma create_history:
  assumes "create_deal env a m p s = (r, s')" "get_deal_row s (de_deal_id env) = None" "de_created env = cb" "history_ok cb mb s"
  shows "history_ok cb mb s'"
  using create_deal_effect [OF assms(1,2)]
proof (elim disjE exE conjE)
  fix e assume "s' = s"
  then show ?thesis using assms(4) by simp
next
  let ?x = "\<lparr>da_id = de_activity_id env, da_deal_id = de_deal_id env, da_activity_type = ''created'', da_body = de_created env (dc_stage p),
    da_created_by_user_id = None\<rparr>"
  assume s': "s' = s\<lparr>deals := deals s @ [new_deal env a p], deal_activities := deal_activities s @ [?x]\<rparr>"
  show ?thesis
    by (rule added_history [OF assms(4), of "new_deal env a p" _ "[?x]"])
      (use unused_deal_id [OF assms(2)] in \<open>simp_all add: s' about_stage_def assms(3) first\<close>)
qed

lemma order_history:
  assumes "handle_inbound_order env wa k c msg d s = (r, s')" "get_deal_row s (de_deal_id (oe_deal env)) = None"
    "de_created (oe_deal env) = cb" "history_ok cb mb s"
  shows "history_ok cb mb s'"
proof -
  let ?new = "\<lambda>p. new_deal (oe_deal env) (wa_account_id wa) p"
  consider "deals s' = deals s" "deal_activities s' = deal_activities s"
    | p remark where "deals s' = deals s @ [?new p]" "deal_activities s' = deal_activities s @ [\<lparr>da_id = de_activity_id (oe_deal env),
        da_deal_id = de_deal_id (oe_deal env), da_activity_type = ''created'', da_body = de_created (oe_deal env) (dc_stage p), da_created_by_user_id = None\<rparr>, remark]"
        "da_deal_id remark = de_deal_id (oe_deal env)" "da_activity_type remark = ''note''"
    using handled_order_deals [OF assms(1,2)] unfolding order_deal_added_def by blast
  then show ?thesis
  proof cases
    case 1
    then show ?thesis using assms(4) history_rows [of s' s cb mb] by blast
  next
    case 2
    show ?thesis
    proof (rule added_history [OF assms(4) _ 2(1,2)])
      fix x assume "x \<in> set [\<lparr>da_id = de_activity_id (oe_deal env), da_deal_id = de_deal_id (oe_deal env), da_activity_type = ''created'',
        da_body = de_created (oe_deal env) (dc_stage p), da_created_by_user_id = None\<rparr>, remark]"
      then show "da_deal_id x = deal_id (?new p)" using 2(3) by auto
    qed (use unused_deal_id [OF assms(2)] 2(4) in \<open>simp_all add: about_stage_def assms(3) first\<close>)
  qed
qed

lemma action_history:
  assumes "create_deal_action env dec untitled run data context s = (r, s')" "get_deal_row s (de_deal_id env) = None" "history_ok cb mb s"
  shows "history_ok cb mb s'"
  using action_deal [OF assms(1,2)]
proof (elim disjE exE conjE)
  assume "s' = s"
  then show ?thesis using assms(3) by simp
next
  fix p assume s': "s' = s\<lparr>deals := deals s @ [new_deal env (ar_account_id run) p]\<rparr>" "dc_source p = None"
  show ?thesis
    by (rule added_history [OF assms(3), of "new_deal env (ar_account_id run) p" _ "[]"])
      (use unused_deal_id [OF assms(2)] s' in \<open>simp_all add: silent\<close>)
qed

lemma update_history:
  assumes "update_deal env a i m f s = (r, s')" "de_moved env = mb" "history_ok cb mb s"
  shows "history_ok cb mb s'"
proof (cases "s' = s")
  case True
  then show ?thesis using assms(3) by simp
next
  case False
  obtain old d where own: "own_deal s a i m = Inr old" and d: "deal_id d = i" "deal_source d = deal_source old" and rows: "d = old \<and> deals s' = deals s \<or> deals s' = deals (put_deal d s)"
    and acts: "deal_activities s' = deal_activities s @ (if deal_stage d = deal_stage old then [] else
      [\<lparr>da_id = de_activity_id env, da_deal_id = i, da_activity_type = ''stage_change'', da_body = de_moved env (deal_stage old) (deal_stage d),
        da_created_by_user_id = None\<rparr>])"
    using update_deal_effect [OF assms(1)] False by blast
  from own have old: "old \<in> set (deals s)" "deal_id old = i" using own_deal_row tbl_get_mem unfolding get_deal_row_def by metis+
  have log: "stage_log s' j = stage_log s j @ (if j = i \<and> deal_stage d \<noteq> deal_stage old then [mb (deal_stage old) (deal_stage d)] else [])" for j
    unfolding stage_log_def acts using assms(2) by (simp add: about_stage_def)
  have dist: "distinct (map deal_id (deals s))" using assms(3) by (simp add: history_ok_def)
  have rows': "set (deals s') = insert d (set (deals s) - {old})" "map deal_id (deals s') = map deal_id (deals s)"
  proof -
    have put: "set (deals (put_deal d s)) = insert d (set (deals s) - {old})" "map deal_id (deals (put_deal d s)) = map deal_id (deals s)"
      using set_put [OF dist old(1), of d] old(2) d by (simp_all add: put_deal_def tbl_put_def)
    have stay: "insert old (set (deals s) - {old}) = set (deals s)" using old by blast
    from rows show "set (deals s') = insert d (set (deals s) - {old})" using put(1) stay by (elim disjE conjE) simp_all
    from rows show "map deal_id (deals s') = map deal_id (deals s)" using put(2) by (elim disjE conjE) simp_all
  qed
  have ids: "deal_id ` set (deals s') = deal_id ` set (deals s)" using rows'(2) by (metis set_map)
  have here: "tells cb mb (deal_source d \<noteq> None) (stage_log s i) (deal_stage old)" using assms(3) old d(2) by (auto simp: history_ok_def)
  have "tells cb mb (deal_source x \<noteq> None) (stage_log s' (deal_id x)) (deal_stage x)" if "x \<in> set (deals s')" for x
  proof (cases "x = d")
    case True
    then show ?thesis using here d by (auto simp: log intro: moved)
  next
    case False
    then have x: "x \<in> set (deals s)" "x \<noteq> old" using that rows'(1) by auto
    then have "deal_id x \<noteq> i" using row_by_id [OF dist] old by metis
    then show ?thesis using assms(3) x(1) by (simp add: log history_ok_def)
  qed
  moreover have "da_deal_id ` set (deal_activities s') \<subseteq> deal_id ` set (deals s')"
    using assms(3) old by (auto simp: acts ids history_ok_def image_iff split: if_splits)
  ultimately show ?thesis using dist rows'(2) by (simp add: history_ok_def)
qed

lemma bulk_history:
  assumes "bulk_update_stage envs a ids stage s = (r, s')" "\<And>n. de_moved (envs n) = mb" "history_ok cb mb s"
  shows "history_ok cb mb s'"
  using assms(1,3)
proof (induction ids arbitrary: s r s')
  case (Cons i ids)
  obtain q s1 where step: "update_deal_stage (envs (length ids)) a i stage s = (q, s1)" by force
  then have ok: "history_ok cb mb s1" using update_history [OF _ assms(2) Cons.prems(2)] by (simp add: update_deal_stage_def)
  obtain n s2 where rest: "bulk_update_stage envs a ids stage s1 = (n, s2)" by force
  from Cons.prems(1) step rest have "s' = s1 \<or> s' = s2" by (auto split: sum.splits py_error.splits)
  then show ?case using ok Cons.IH [OF rest ok] by blast
qed simp

lemma delete_history:
  assumes "delete_deal a i m s = (r, s')" "history_ok cb mb s"
  shows "history_ok cb mb s'"
proof (cases "s' = s")
  case True
  then show ?thesis using assms(2) by simp
next
  case False
  then have rows: "deals s' = filter (\<lambda>d. deal_id d \<noteq> i) (deals s)" and acts: "deal_activities s' = filter (\<lambda>a. da_deal_id a \<noteq> i) (deal_activities s)"
    using assms(1) by (auto simp: delete_deal_def split: sum.splits)
  have "stage_log s' j = stage_log s j" if "j \<noteq> i" for j
    unfolding stage_log_def acts filter_filter using that by (metis (mono_tags, lifting))
  then show ?thesis using assms(2) by (auto simp: history_ok_def rows acts distinct_map_filter)
qed

lemma noted_history:
  assumes "post_deal_activity j a i ty body user s = (r, s')" "history_ok cb mb s"
  shows "history_ok cb mb s'"
proof (cases "s' = s")
  case True
  then show ?thesis using assms(2) by simp
next
  case False
  then have s': "s' = s\<lparr>deal_activities := deal_activities s @
      [\<lparr>da_id = j, da_deal_id = i, da_activity_type = ty, da_body = body, da_created_by_user_id = Some user\<rparr>]\<rparr>" and "get_deal_row s i \<noteq> None"
    using assms(1) by (auto simp: post_deal_activity_def add_deal_activity_def Let_def split: if_splits)
  then have "i \<in> deal_id ` set (deals s)" by (simp add: get_deal_row_def tbl_get_None_iff)
  then show ?thesis using assms(2) by (simp add: history_ok_def s' stage_log_append about_stage_def)
qed

text \<open>C29. The activities tell the history of a deal: after any sequence of operations, by members, by inbound texts and orders or by automations, the texts
  that the service wrote for a deal start with its creation, name every change of its stage in order, and end with its present stage.  A deal
  without a source, as automations write it, may lack the text of its creation; its changes are told all the same.  (The rows at the start are
  any that tell this already, such as none.)\<close>

theorem activities_tell_stages:
  assumes "(deal_step cb mb)\<^sup>*\<^sup>* s s'" "history_ok cb mb s" "get_deal_row s' i = Some d"
  shows "tells cb mb (deal_source d \<noteq> None) (stage_log s' i) (deal_stage d)"
proof -
  have "history_ok cb mb s'" using assms(1,2)
  proof (induction rule: rtranclp_induct)
    case (step t u)
    then have ok: "history_ok cb mb t" by simp
    from step.hyps(2) show ?case
    proof cases
      case (deal_from_conversation env a j title r)
      then show ?thesis using ok
        by (auto simp: create_deal_from_conversation_def Let_def dest: create_history split: option.splits if_splits)
    next
      case (deal_from_message env a k org body ro)
      then show ?thesis using ok
        by (auto simp: maybe_auto_create_deal_from_inbound_def Let_def dest: create_history split: if_splits prod.splits)
    qed (use ok in \<open>blast intro: create_history order_history action_history update_history bulk_history delete_history noted_history\<close>)+
  qed
  then show ?thesis using assms(3) deal_rows.get_key [OF assms(3)] tbl_get_mem unfolding history_ok_def get_deal_row_def by metis
qed

section \<open>Deals from messages\<close>

definition open_deals :: "db \<Rightarrow> uuid \<Rightarrow> uuid \<Rightarrow> deal list" where
  "open_deals s a k = filter (\<lambda>d. deal_account_id d = a \<and> deal_contact_id d = Some k \<and> is_open_deal d) (deals s)"




section \<open>Instances\<close>

lemma activities_tell_stages_witness:
  "\<exists>s'. update_deal demo_deal_env 1 50 None (no_deal_update\<lparr>du_stage := Some (Some ''won'')\<rparr>) deal_example =
     (Inr ((demo_deal 50 None)\<lparr>deal_stage := ''won'', deal_updated_at := 900\<rparr>, True), s') \<and>
     tells (\<lambda>x. ''created '' @ x) (\<lambda>x y. x @ ''-'' @ y) False (stage_log s' 50) ''won''"
proof -
  let ?u = "update_deal demo_deal_env 1 50 None (no_deal_update\<lparr>du_stage := Some (Some ''won'')\<rparr>) deal_example"
  let ?cb = "\<lambda>x. ''created '' @ x" and ?mb = "\<lambda>x y. x @ ''-'' @ y"
  have "fst ?u = Inr ((demo_deal 50 None)\<lparr>deal_stage := ''won'', deal_updated_at := 900\<rparr>, True)" by code_simp
  then obtain s' where run: "?u = (Inr ((demo_deal 50 None)\<lparr>deal_stage := ''won'', deal_updated_at := 900\<rparr>, True), s')" by (metis prod.collapse)
  have step: "deal_step ?cb ?mb deal_example s'" using deal_updated [OF _ run, of ?mb ?cb] by (simp add: demo_deal_env_def)
  have ok: "history_ok ?cb ?mb deal_example"
    using first [of ?cb ?mb False "''lead''"] by (simp add: history_ok_def deal_example_def demo_deal_def stage_log_def about_stage_def)
  have "get_deal_row (snd ?u) 50 = Some ((demo_deal 50 None)\<lparr>deal_stage := ''won'', deal_updated_at := 900\<rparr>)" by code_simp
  then have "get_deal_row s' 50 = Some ((demo_deal 50 None)\<lparr>deal_stage := ''won'', deal_updated_at := 900\<rparr>)" using run by simp
  from activities_tell_stages [OF r_into_rtranclp [of "deal_step ?cb ?mb", OF step] ok this] run show ?thesis by (simp add: demo_deal_def)
qed


text \<open>An order, then a text that asks to buy, of the same contact.\<close>

definition ordered_example :: db where
  "ordered_example = snd (handle_inbound_order demo_order_env (demo_wa 4 1 3) (fresh_contact 7 ''96550000001'') (demo_conversation 51 None)
     (demo_order_message 80) demo_order order_example)"


text \<open>Two orders of a contact leave two open deals.\<close>

lemma two_orders_open_two_deals:
  "length (open_deals (snd (handle_inbound_order (demo_order_env\<lparr>oe_deal := demo_deal_env\<lparr>de_deal_id := 63\<rparr>, oe_order_id := (\<lambda>n. 2000 + n)\<rparr>)
     (demo_wa 4 1 3) (fresh_contact 7 ''96550000001'') (demo_conversation 51 None) (demo_order_message 81) demo_order ordered_example)) 1 7) = 2"
  by code_simp

end
