(* ===== verification/Spec2Isabelle.thy ===== *)
theory Spec2Isabelle
  imports Calendar CampaignRuns CoreEngine Outbox Scheduler Auth Team AutomationRuns Assignments MacUsage
    IngressFacts ContactLists ContactImport InboxTyping ConnectionFacts DealFacts
    ComplianceFacts OrderFacts DealHistory
begin

text \<open>
  Watesly: a multi-tenant WhatsApp CRM.  The backend under \<open>src/backend/app\<close> is a FastAPI application over a
  relational database, with Celery workers.  A request or a task reads rows, decides, writes rows and calls the Meta API.
  This development models the services and workers that carry the rules of the product, and proves what they guarantee.

  \<^bold>\<open>How the program is modelled.\<close>  The database is the record \<open>db\<close> (theory Models): a list of rows for every table, a row
  a record with the columns of its class under \<open>models/\<close>, an enum a datatype.  A service function is a HOL function from its
  arguments and the database to its result and the new database; a raise is \<open>Inl\<close> of a \<open>py_error\<close>, and what was not
  committed at a raise is not in the result.  Ids and times are arguments, because \<open>uuid4()\<close> and \<open>datetime.now()\<close> are; a time
  is a number of microseconds.  Loops with \<open>while\<close> have a fuel argument, and the termination theorems give the fuel that is
  enough.  JSON values are the datatype \<open>json\<close> (Prelude), Python's \<open>str\<close>, \<open>int\<close>, \<open>==\<close> and \<open>or\<close> on them are in PyValues.
  A list stands for the order in which the database returns rows; the theorems hold for every list.

  \<^bold>\<open>Theories.\<close>
  \<^item> Prelude, PyValues, Models: text, JSON, tables (locale \<open>row_store\<close>, interpreted for the tables), the data model.
  \<^item> Calendar, Subscriptions: \<open>services/billing.py\<close>, \<open>billing_period.py\<close>, \<open>plan_limits.py\<close>.
  \<^item> Access, Auth, Team: roles, custom permissions and channel scope (\<open>core/permissions.py\<close>, \<open>services/membership_channels.py\<close>,
    \<open>membership_access.py\<close>), sessions and login (\<open>services/auth.py\<close>, \<open>api/dependencies/auth.py\<close>), invitations and employees
    (\<open>services/team.py\<close>, \<open>organizations.py\<close>).
  \<^item> CoreEngine: the command bus with idempotency keys, the query and event buses, the resource registry, the secrets vault
    (\<open>core_engine/\<close>, \<open>services/idempotency.py\<close>, \<open>event_handlers.py\<close>).
  \<^item> ClaimQueue, Outbox, Scheduler: claiming rows with locks is the locale of ClaimQueue; the transactional outbox and the
    scheduled jobs interpret it (\<open>services/outbox.py\<close>, \<open>scheduler.py\<close> and their workers).
  \<^item> Reachability: phone numbers, classes of delivery errors, reachability of contacts, back-off (\<open>services/contact_reachability.py\<close>,
    \<open>phone_normalize.py\<close>, \<open>meta_reliability.py\<close>, \<open>feature_flags.py\<close>).
  \<^item> Campaigns, CampaignMessages, CampaignLifecycle: creation, approval, start, pause, cancellation, recovery, retry and
    reports (\<open>services/campaigns.py\<close>, \<open>campaign_recovery.py\<close>, \<open>campaign_follow_up.py\<close>).
  \<^item> CampaignWorker, CampaignRuns: the task \<open>_run_campaign\<close> of \<open>workers/campaign_tasks.py\<close>, in an environment of other transactions
    and answers of Meta, and what every run guarantees.  The locale \<open>run_invariant\<close> carries a property of the run through the loop
    and is interpreted once for each guarantee.
  \<^item> AutomationGraphs, Automations, AutomationRuns: the graphs and their check before publishing, the services and triggers
    (\<open>services/automations.py\<close>, \<open>automation_triggers.py\<close>), the engine \<open>_execute_run\<close> of \<open>workers/automation_tasks.py\<close>, and what every
    run of the engine guarantees.
  \<^item> Assignments: teams, assignment rules and automatic assignment (\<open>services/assignments.py\<close>).
  \<^item> BillingPeriods, MacUsage: billing periods and monthly active contacts (\<open>services/billing_period.py\<close>, \<open>mac_usage.py\<close>,
    \<open>mac_tracking.py\<close>, \<open>billing_limits.py\<close>).
  \<^item> Inbound, Webhooks, WebhookFacts, WebhookBehaviour: contacts, conversations and messages from a webhook payload, delivery states
    (\<open>services/inbound_whatsapp.py\<close>, \<open>store_and_process_webhook\<close> of \<open>services/whatsapp.py\<close>), their frames, and what holds of every payload.
  \<^item> WebhookIngress, IngressFacts: the durable store in front of it and its task with retries and dead letters
    (\<open>services/webhook_ingress.py\<close>, \<open>workers/webhook_tasks.py\<close>, \<open>workers/reliability_tasks.py\<close>).
  \<^item> Contacts, ContactLists, ContactImport: the services for contacts, their tags and interests, lists and segments, and the import of
    a spreadsheet (\<open>services/contacts.py\<close>, \<open>contact_management.py\<close>, \<open>interests.py\<close>).
  \<^item> Conversations, ConversationUpdates: the inbox with lists, access, updates, read states, tags, notes, deadlines and new threads
    (\<open>services/conversations.py\<close>, \<open>inbox_extended.py\<close>, \<open>inbox_tools.py\<close>, \<open>sla_monitor.py\<close>, \<open>whatsapp_window.py\<close>).
  \<^item> Sending, InboxFacts, InboxTyping: the send functions of \<open>services/whatsapp.py\<close> and the routes of \<open>api/routes/conversations.py\<close>
    that use them, what the inbox guarantees, and the invariant that keeps the rows of the tenants apart under every history of
    its operations (\<open>inbox_step\<close>).
  \<^item> Connections, ConnectionFacts: channels, the connection of WhatsApp numbers and their health (\<open>services/channels.py\<close>,
    \<open>whatsapp_health.py\<close>, \<open>whatsapp.py\<close>, \<open>workers/whatsapp_health_tasks.py\<close>), and what these operations (\<open>connection_step\<close>) keep of numbers,
    channels and the inbox.
  \<^item> Deals, DealFacts: deals, their stages and activities, the deals that messages open, and the routes of the CRM (\<open>services/crm.py\<close>,
    \<open>api/routes/platform.py\<close>).
  \<^item> Compliance, ComplianceFacts: requests to opt out of marketing and of interest (\<open>services/marketing_compliance.py\<close>), and how the
    worker of campaigns honours them; the property is one more instance of \<open>run_invariant\<close>.
  \<^item> Orders, OrderFacts: orders from the WhatsApp catalog, from the payload to the deal, the order and its number, and the backfill
    (\<open>services/inbound_commerce.py\<close>, \<open>catalog_orders.py\<close>, \<open>inbound_whatsapp.py\<close>), with the histories \<open>order_step\<close>, of requests that run one
    after the other or overlap.
  \<^item> DealHistory: everything that writes deals, the node \<open>create_deal\<close> of automations (\<open>workers/automation_tasks.py\<close>) included, with the histories
    \<open>deal_step\<close> of deals and \<open>inbound_deals\<close> of inbound messages.

  \<^bold>\<open>What is shown.\<close>  The campaign worker sends only to recipients that the campaign, its token, its status and the contact's opt-in
  allow, never twice after a settled answer, terminates, and leaves no sendable recipient in a campaign it reports as finished.
  A command takes effect once for a key, under any later dispatches, as long as no two sessions retry it at once; claims of two workers are
  disjoint while the locks of the first are fresh; a refresh token is used once and a family has one
  live session; five failed logins lock the account.  Custom permissions never exceed the role, lists agree with the access
  check, a branch manager stays within the branch, member counts stay within the plan.  The check of automation graphs is
  equivalent to its declarative meaning, and a run of an automation ends within its budget of steps.  Round robin is fair and least open
  keeps loads balanced.  A webhook that is processed has stored each of its messages, a status webhook leaves the last reported state, and every
  stored webhook ends as processed or as a dead letter.  The import of contacts refines the update of a directory.
  An agent's text leaves only inside the service window, each call of Meta is recorded with its outcome (a message whose answer was lost stays
  queued), the list of conversations agrees with
  the access check, and messages, conversations and contacts stay with the channel of their tenant.
  A number has one owner, whose place every stored message takes, a disconnected number sends nothing, and an archived channel keeps its number.
  The activities of a deal tell the stages it went through, inbound texts open at most one deal of a contact and each order one more, an order and its
  deal belong together, a message has one order, orders are numbered without gaps when requests do not overlap, and a contact that opted
  out is not called by a campaign run that starts afterwards.  Some theorems state surprising behaviour, such as the pause of a scheduled campaign that is overwritten by
  its run, or a long delay that drops the rest of the queue; the findings of the manifest refer to them.

  \<^bold>\<open>Fuel.\<close>  \<open>run_campaign\<close> spends one unit for every batch; \<open>run_terminates\<close> shows that one more than the number of open
  recipients is enough when Meta gives no transient errors and no other transaction opens recipients again.  \<open>execute_run\<close>
  spends one unit for every executed node; \<open>automation_run_ends\<close> shows that one more than the steps left in the run is enough.
  \<open>task_runs\<close> has the five attempts of the task, so \<open>process_whatsapp_webhook\<close> needs no fuel.

  \<^bold>\<open>Parameters.\<close>  Password hashing, token values, encryption, the answers of Meta, the rows locked by other transactions, and what other
  transactions commit between two steps of a worker are arguments of the definitions, with named hypotheses where a theorem needs
  one.  An answer of Meta to a message (\<open>meta_answer\<close>) is a response, an error, or lost on the way.  Arguments are also the actions of automations that send
  messages, ask a language model, call web hooks or write deals (the last is modelled on its own, in DealHistory),
  the download of media, the text of catalog orders, the side effects that follow a stored message, the digest of a payload, whether the ORM
  notices a change inside a JSON column, the operator ILIKE, the inference of a gender from a name, the components of a sent template, the object key of a media address, the Arabic key words
  and texts of the services (the characters of \<open>string\<close> are the first 256), the normalization NFKC, \<open>Decimal(str(x))\<close>, the digits of the day, and
  the branch of the text route for Instagram.

  \<^bold>\<open>Not modelled.\<close>  HTTP routes and schemas (glue), the clients of Meta, mail, storage and language models (input and output), reports,
  dashboards and exports (aggregating queries and file formats), quick replies, presence, single product messages and Instagram, the
  products of the catalog and their synchronization, the submission of templates, notifications and mails.  In the health check of a number, errors of
  the transport are left out (every request is answered).
\<close>

end
